(* ===== verification/Relay_Prelude.thy ===== *)
theory Relay_Prelude
  imports Main "HOL-Library.Signed_Division" "HOL-Library.Char_ord"
    "HOL-Library.List_Lexorder" "HOL-Library.Product_Lexorder"
begin

text \<open>
  Shared vocabulary of the development: Go's 64-bit integers with their wrap-around and
  truncating division, results that carry an error, byte strings and their trimming, and the
  id-keyed tables that stand for the SQLite tables of the relay. The table laws are stated
  once as the locale \<open>keyed_table\<close> and interpreted for every table in \<open>Schema\<close>.
\<close>

named_theorems result_simps \<open>how a sequence of fallible steps evaluates\<close>
named_theorems table_simps \<open>lookup after insert, update and delete on id-keyed tables\<close>

section \<open>Machine integers\<close>

text \<open>
  An \<open>int64\<close> is an \<open>int\<close> in the range below; \<open>wrap64\<close> is what Go's \<open>+\<close>, \<open>-\<close> and \<open>*\<close> do
  with a mathematical result, and \<open>sdiv\<close> (truncation towards zero) is Go's \<open>/\<close>.
\<close>

definition max_i64 :: int where
  "max_i64 = 9223372036854775807"

definition min_i64 :: int where
  "min_i64 = - 9223372036854775808"

definition in_i64 :: "int \<Rightarrow> bool" where
  "in_i64 x \<longleftrightarrow> min_i64 \<le> x \<and> x \<le> max_i64"

definition wrap64 :: "int \<Rightarrow> int" where
  "wrap64 x = (x + 9223372036854775808) mod 18446744073709551616 - 9223372036854775808"

lemmas i64_defs = max_i64_def min_i64_def in_i64_def wrap64_def

lemma wrap64_in_i64 [simp]: "in_i64 (wrap64 x)"
proof -
  have "0 \<le> (x + 9223372036854775808) mod 18446744073709551616"
    and "(x + 9223372036854775808) mod 18446744073709551616 < (18446744073709551616 :: int)"
    by simp_all
  then show ?thesis by (simp add: i64_defs)
qed

lemma wrap64_id [simp]: "in_i64 x \<Longrightarrow> wrap64 x = x"
  by (simp add: i64_defs)

lemma in_i64_nonneg: "0 \<le> x \<Longrightarrow> in_i64 x \<longleftrightarrow> x \<le> max_i64"
  by (simp add: i64_defs)

lemma sdiv_nonneg: "0 \<le> a \<Longrightarrow> 0 < b \<Longrightarrow> a sdiv b = a div (b :: int)"
  by (cases "a = 0") (simp_all add: signed_divide_int_def)

lemma le_div_iff_mult: "0 < p \<Longrightarrow> t \<le> M div p \<longleftrightarrow> t * p \<le> (M :: int)"
proof
  assume p: "0 < p" and "t \<le> M div p"
  then have "t * p \<le> M div p * p" by simp
  also have "\<dots> \<le> M" using p by (metis div_mult_mod_eq le_add_same_cancel1 pos_mod_sign)
  finally show "t * p \<le> M" .
next
  assume "0 < p" "t * p \<le> M"
  then show "t \<le> M div p" using zdiv_mono1[of "t * p" M p] by simp
qed

section \<open>Fallible steps\<close>

text \<open>
  A Go function returning \<open>(T, error)\<close> is a function into \<open>'e + 'a\<close>. \<open>bind_result\<close> is the
  \<open>if err != nil { return err }\<close> that follows a call, \<open>reject_when\<close> a guard that returns early.
\<close>

definition bind_result :: "'e + 'a \<Rightarrow> ('a \<Rightarrow> 'e + 'b) \<Rightarrow> 'e + 'b" where
  "bind_result x f = (case x of Inl e \<Rightarrow> Inl e | Inr v \<Rightarrow> f v)"

definition reject_when :: "bool \<Rightarrow> 'e \<Rightarrow> 'e + unit" where
  "reject_when b e = (if b then Inl e else Inr ())"

definition require_some :: "'a option \<Rightarrow> 'e \<Rightarrow> 'e + 'a" where
  "require_some x e = (case x of None \<Rightarrow> Inl e | Some v \<Rightarrow> Inr v)"

lemma bind_result_simps [simp, result_simps]:
  "bind_result (Inl e) f = Inl e"
  "bind_result (Inr v) f = f v"
  by (simp_all add: bind_result_def)

lemma bind_result_Inr [result_simps]:
  "bind_result x f = Inr w \<longleftrightarrow> (\<exists>v. x = Inr v \<and> f v = Inr w)"
  by (cases x) simp_all

lemma bind_result_Inl [result_simps]:
  "bind_result x f = Inl e \<longleftrightarrow> x = Inl e \<or> (\<exists>v. x = Inr v \<and> f v = Inl e)"
  by (cases x) simp_all

lemma reject_when_simps [simp, result_simps]:
  "reject_when b e = Inr u \<longleftrightarrow> \<not> b"
  "reject_when b e = Inl e' \<longleftrightarrow> b \<and> e' = e"
  by (auto simp: reject_when_def)

lemma require_some_simps [simp, result_simps]:
  "require_some x e = Inr v \<longleftrightarrow> x = Some v"
  "require_some x e = Inl e' \<longleftrightarrow> x = None \<and> e' = e"
  by (auto simp: require_some_def split: option.splits)

section \<open>Strings\<close>

text \<open>
  Go strings are byte strings. \<open>trim_space\<close> is \<open>strings.TrimSpace\<close> on the ASCII white space
  (tab, line feed, vertical tab, form feed, carriage return, space).
\<close>

definition is_space :: "char \<Rightarrow> bool" where
  "is_space c \<longleftrightarrow> (let n = (of_char c :: nat) in 9 \<le> n \<and> n \<le> 13 \<or> n = 32)"

definition trim_space :: "string \<Rightarrow> string" where
  "trim_space s = rev (dropWhile is_space (rev (dropWhile is_space s)))"

lemma dropWhile_rev_hd:
  "xs \<noteq> [] \<Longrightarrow> \<not> P (hd xs) \<Longrightarrow> rev (dropWhile P (rev xs)) \<noteq> [] \<and> hd (rev (dropWhile P (rev xs))) = hd xs"
proof (cases xs)
  case (Cons a list)
  assume "\<not> P (hd xs)"
  with Cons have "dropWhile P (rev xs) = dropWhile P (rev list) @ [a]"
    by (simp add: dropWhile_append3 dropWhile_append)
  then show ?thesis using Cons by simp
qed simp

lemma trim_space_idem [simp]: "trim_space (trim_space s) = trim_space s"
proof -
  define u where "u = dropWhile is_space s"
  define v where "v = rev (dropWhile is_space (rev u))"
  have "dropWhile is_space v = v"
  proof (cases "u = []")
    case True
    then show ?thesis by (simp add: v_def)
  next
    case False
    then have "\<not> is_space (hd u)"
      unfolding u_def by (rule hd_dropWhile)
    with False have "v \<noteq> []" "hd v = hd u"
      using dropWhile_rev_hd[of u is_space] by (auto simp: v_def)
    with \<open>\<not> is_space (hd u)\<close> show ?thesis by (cases v) auto
  qed
  moreover have "rev (dropWhile is_space (rev v)) = v"
    by (simp add: v_def)
  ultimately show ?thesis
    by (simp add: trim_space_def v_def u_def)
qed

lemma trim_space_Nil [simp]: "trim_space [] = []"
  by (simp add: trim_space_def)

section \<open>Tables keyed by id\<close>

text \<open>
  A SQLite table with an \<open>INTEGER PRIMARY KEY\<close> is the list of its rows in id order. A new row
  takes the largest id plus one (1 in an empty table), which is SQLite's rule for such a key.
\<close>

definition tbl_find :: "('r \<Rightarrow> int) \<Rightarrow> int \<Rightarrow> 'r list \<Rightarrow> 'r option" where
  "tbl_find rid i rows = find (\<lambda>r. rid r = i) rows"

definition tbl_next :: "('r \<Rightarrow> int) \<Rightarrow> 'r list \<Rightarrow> int" where
  "tbl_next rid rows = foldr (\<lambda>r m. max (rid r) m) rows 0 + 1"

definition tbl_insert :: "('r \<Rightarrow> int) \<Rightarrow> (int \<Rightarrow> 'r \<Rightarrow> 'r) \<Rightarrow> 'r \<Rightarrow> 'r list \<Rightarrow> 'r list" where
  "tbl_insert rid set_rid row rows = rows @ [set_rid (tbl_next rid rows) row]"

definition tbl_update :: "('r \<Rightarrow> int) \<Rightarrow> int \<Rightarrow> ('r \<Rightarrow> 'r) \<Rightarrow> 'r list \<Rightarrow> 'r list" where
  "tbl_update rid i f rows = map (\<lambda>r. if rid r = i then f r else r) rows"

definition tbl_delete :: "('r \<Rightarrow> int) \<Rightarrow> int \<Rightarrow> 'r list \<Rightarrow> 'r list" where
  "tbl_delete rid i rows = filter (\<lambda>r. rid r \<noteq> i) rows"

definition tbl_wf :: "('r \<Rightarrow> int) \<Rightarrow> 'r list \<Rightarrow> bool" where
  "tbl_wf rid rows \<longleftrightarrow> sorted_wrt (<) (map rid rows) \<and> list_all (\<lambda>r. 0 < rid r) rows"

lemma tbl_next_gt: "r \<in> set rows \<Longrightarrow> rid r < tbl_next rid rows"
  by (induction rows) (auto simp: tbl_next_def)

lemma tbl_next_pos: "0 < tbl_next rid rows"
  by (induction rows) (auto simp: tbl_next_def)

lemma tbl_wf_distinct: "tbl_wf rid rows \<Longrightarrow> distinct (map rid rows)"
  by (auto simp: tbl_wf_def strict_sorted_iff)

lemma tbl_wf_inj: "tbl_wf rid rows \<Longrightarrow> r \<in> set rows \<Longrightarrow> s \<in> set rows \<Longrightarrow> rid r = rid s \<Longrightarrow> r = s"
  using tbl_wf_distinct[of rid rows] by (auto simp: distinct_map inj_on_def)

lemma tbl_wf_pos: "tbl_wf rid rows \<Longrightarrow> r \<in> set rows \<Longrightarrow> 0 < rid r"
  by (auto simp: tbl_wf_def list_all_iff)

lemma tbl_find_Some: "tbl_find rid i rows = Some r \<Longrightarrow> r \<in> set rows \<and> rid r = i"
  by (auto simp: tbl_find_def find_Some_iff)

lemma tbl_find_None: "tbl_find rid i rows = None \<longleftrightarrow> i \<notin> rid ` set rows"
  by (auto simp: tbl_find_def find_None_iff)

lemma tbl_find_iff:
  "tbl_wf rid rows \<Longrightarrow> tbl_find rid i rows = Some r \<longleftrightarrow> r \<in> set rows \<and> rid r = i"
proof
  assume wf: "tbl_wf rid rows" and r: "r \<in> set rows \<and> rid r = i"
  then obtain s where s: "tbl_find rid i rows = Some s"
    using tbl_find_None[of rid i rows] by (cases "tbl_find rid i rows") auto
  with tbl_find_Some have "s \<in> set rows" "rid s = i" by fastforce+
  with r tbl_wf_inj[OF wf] s show "tbl_find rid i rows = Some r" by metis
qed (rule tbl_find_Some)

lemma tbl_wf_filter: "tbl_wf rid rows \<Longrightarrow> tbl_wf rid (filter P rows)"
  by (induction rows) (auto simp: tbl_wf_def list_all_iff)

lemma tbl_wf_delete: "tbl_wf rid rows \<Longrightarrow> tbl_wf rid (tbl_delete rid i rows)"
  unfolding tbl_delete_def by (rule tbl_wf_filter)

lemma tbl_wf_map: "(\<And>r. rid (f r) = rid r) \<Longrightarrow> tbl_wf rid (map f rows) = tbl_wf rid rows"
  by (induction rows) (auto simp: tbl_wf_def)

lemma tbl_wf_update: "(\<And>r. rid (f r) = rid r) \<Longrightarrow> tbl_wf rid (tbl_update rid i f rows) = tbl_wf rid rows"
  unfolding tbl_update_def by (rule tbl_wf_map) simp

lemma tbl_find_map: "(\<And>r. rid (f r) = rid r) \<Longrightarrow> tbl_find rid i (map f rows) = map_option f (tbl_find rid i rows)"
  by (induction rows) (auto simp: tbl_find_def)

lemma tbl_find_update [table_simps]:
  "(\<And>r. rid (f r) = rid r) \<Longrightarrow>
   tbl_find rid j (tbl_update rid i f rows) =
     (if j = i then map_option f (tbl_find rid i rows) else tbl_find rid j rows)"
  by (induction rows) (auto simp: tbl_find_def tbl_update_def)

lemma set_tbl_update:
  assumes "tbl_wf rid rows" "tbl_find rid i rows = Some r"
  shows "set (tbl_update rid i f rows) = insert (f r) (set rows - {r})"
proof -
  have r: "r \<in> set rows" "rid r = i" using tbl_find_Some[OF assms(2)] by simp_all
  then have only: "rid s = i \<longleftrightarrow> s = r" if "s \<in> set rows" for s
    using tbl_wf_inj[OF assms(1)] that by blast
  have "set (tbl_update rid i f rows) = (\<lambda>s. if s = r then f s else s) ` set rows"
    unfolding tbl_update_def set_map by (rule image_cong) (simp_all add: only)
  also have "\<dots> = insert (f r) (set rows - {r})" using r by auto
  finally show ?thesis .
qed

lemma tbl_wf_count_id:
  assumes "tbl_wf rid rows" "r \<in> set rows" "P r"
  shows "length (filter (\<lambda>s. rid s = rid r \<and> P s) rows) = 1"
proof -
  have "set (filter (\<lambda>s. rid s = rid r \<and> P s) rows) = {r}"
    using assms tbl_wf_inj[OF assms(1)] by auto
  moreover have "distinct (filter (\<lambda>s. rid s = rid r \<and> P s) rows)"
    using tbl_wf_distinct[OF assms(1)] by (simp add: distinct_map)
  ultimately show ?thesis by (metis One_nat_def card_1_singleton_iff distinct_card)
qed

lemma tbl_find_delete [table_simps]:
  "tbl_find rid j (tbl_delete rid i rows) = (if j = i then None else tbl_find rid j rows)"
  by (induction rows) (auto simp: tbl_find_def tbl_delete_def)

text \<open>
  What a row type provides to be kept in such a table: an id that can be read and written.
  The laws of insertion follow from that alone.
\<close>

locale keyed_table =
  fixes rid :: "'r \<Rightarrow> int" and set_rid :: "int \<Rightarrow> 'r \<Rightarrow> 'r"
  assumes rid_set_rid: "rid (set_rid i r) = i"
begin

lemma wf_insert: "tbl_wf rid rows \<Longrightarrow> tbl_wf rid (tbl_insert rid set_rid row rows)"
  using tbl_next_pos[of rid rows] tbl_next_gt[of _ rows rid]
  by (auto simp: tbl_wf_def tbl_insert_def rid_set_rid sorted_wrt_append list_all_iff)

lemma find_insert:
  "tbl_find rid j (tbl_insert rid set_rid row rows) =
     (if j = tbl_next rid rows then Some (set_rid (tbl_next rid rows) row) else tbl_find rid j rows)"
proof -
  have "tbl_find rid j (rows @ [x]) =
      (case tbl_find rid j rows of None \<Rightarrow> if rid x = j then Some x else None | Some r \<Rightarrow> Some r)" for x
    by (induction rows) (auto simp: tbl_find_def)
  moreover have "tbl_find rid (tbl_next rid rows) rows = None"
    using tbl_next_gt[of _ rows rid] by (fastforce simp: tbl_find_None)
  ultimately show ?thesis
    by (auto simp: tbl_insert_def rid_set_rid split: option.splits)
qed

lemma find_insert_new: "tbl_find rid (tbl_next rid rows) (tbl_insert rid set_rid row rows)
    = Some (set_rid (tbl_next rid rows) row)"
  by (simp add: find_insert)

lemma find_insert_old: "tbl_find rid j rows = Some r \<Longrightarrow> tbl_find rid j (tbl_insert rid set_rid row rows) = Some r"
  using tbl_next_gt[of r rows rid] tbl_find_Some[of rid j rows r] by (auto simp: find_insert)

end

section \<open>Sums over tables\<close>

text \<open>
  SQLite's \<open>SUM\<close> over integer columns fails with an integer overflow when the total leaves the
  64-bit range; the summed columns are non-negative by their \<open>CHECK\<close> constraints, so the
  running total leaves the range exactly when the final one does.
\<close>

definition sum_by :: "('r \<Rightarrow> int) \<Rightarrow> 'r list \<Rightarrow> int" where
  "sum_by f rows = sum_list (map f rows)"

lemma sum_by_simps [simp]:
  "sum_by f [] = 0" "sum_by f (r # rs) = f r + sum_by f rs" "sum_by f (rs @ ss) = sum_by f rs + sum_by f ss"
  by (simp_all add: sum_by_def)

lemma sum_by_nonneg: "(\<And>r. r \<in> set rows \<Longrightarrow> 0 \<le> f r) \<Longrightarrow> 0 \<le> sum_by f rows"
  by (induction rows) auto

lemma sum_by_filter_mono:
  "(\<And>r. r \<in> set rows \<Longrightarrow> 0 \<le> f r) \<Longrightarrow> (\<And>r. r \<in> set rows \<Longrightarrow> P r \<Longrightarrow> Q r) \<Longrightarrow>
   sum_by f (filter P rows) \<le> sum_by f (filter Q rows)"
  by (induction rows) (auto simp: add_increasing)

lemma sum_by_cong: "(\<And>r. r \<in> set rows \<Longrightarrow> f r = g r) \<Longrightarrow> sum_by f rows = sum_by g rows"
  by (induction rows) auto

lemma sum_by_filter: "sum_by f (filter P rows) = sum_by (\<lambda>r. if P r then f r else 0) rows"
  by (induction rows) auto

lemma sum_by_partition: "sum_by f (filter (\<lambda>r. \<not> P r) rows) = sum_by f rows - sum_by f (filter P rows)"
  by (induction rows) auto

text \<open>Changing one row of a table changes a sum by the difference of that row.\<close>

lemma sum_by_update:
  assumes "tbl_wf rid rows" "tbl_find rid i rows = Some r"
  shows "sum_by g (tbl_update rid i f rows) = sum_by g rows - g r + g (f r)"
  using assms
proof (induction rows)
  case (Cons a rows)
  then have wf: "tbl_wf rid rows" by (simp add: tbl_wf_def)
  show ?case
  proof (cases "rid a = i")
    case True
    with Cons.prems have "a = r" by (simp add: tbl_find_def)
    moreover have "i \<notin> rid ` set rows"
      using Cons.prems True by (auto simp: tbl_wf_def)
    then have "tbl_update rid i f rows = rows"
      by (auto simp: tbl_update_def intro!: map_idI)
    ultimately show ?thesis using True by (simp add: tbl_update_def)
  next
    case False
    with Cons.prems have "tbl_find rid i rows = Some r" by (simp add: tbl_find_def)
    from Cons.IH[OF wf this] False show ?thesis by (simp add: tbl_update_def)
  qed
qed (simp add: tbl_find_def)

end
