(* ===== verification/Clock.thy ===== *)
theory Clock
  imports Relay_Prelude
begin

text \<open>
  Instants, their RFC3339Nano text and the billing windows of \<open>internal/store/ledger.go\<close>.

  A Go \<open>time.Time\<close> is the number of nanoseconds since the Unix epoch; the zero \<open>Time\<close> (year 1)
  is the instant \<open>zero_time\<close>. A timestamp column holds the RFC3339Nano text of an instant in UTC:
  nineteen fixed-width characters down to the second, then the fraction with its trailing zeros
  removed, then \<open>Z\<close>. Over four-digit years the fixed-width part orders and compares as the second
  number does, so the text is represented by the pair of the second number and the remaining
  characters, under the lexicographic order. A \<open>2006-01-02\<close> date is represented by its day number.
  Where the code formats an instant in the zone it carries, \<open>zoned_text\<close> gives the text in that zone.
\<close>

section \<open>Instants\<close>

type_synonym gotime = int

definition second_ns :: int where "second_ns = 1000000000"
definition hour_ns :: int where "hour_ns = 3600000000000"
definition day_ns :: int where "day_ns = 86400000000000"

lemma second_ns_pos [simp]: "0 < second_ns"
  by (simp add: second_ns_def)

lemmas time_units = second_ns_def hour_ns_def day_ns_def

definition zero_time :: gotime where
  "zero_time = - 62135596800000000000"

definition is_zero_time :: "gotime \<Rightarrow> bool" where
  "is_zero_time t \<longleftrightarrow> t = zero_time"

text \<open>
  \<open>AddDate t n\<close> is \<open>t.AddDate(0, 0, n)\<close> in a zone of constant offset: whole days on the seconds since year 1,
  which are an \<open>int64\<close> and wrap. \<open>add_days\<close> is the same for the at most six days of a week start, where
  nothing can wrap (see \<open>AddDate_add_days\<close>).
\<close>

definition AddDate :: "gotime \<Rightarrow> int \<Rightarrow> gotime" where
  "AddDate t n =
     (let since = t - zero_time in
      zero_time + wrap64 (since div second_ns + n * 86400) * second_ns + since mod second_ns)"

definition add_days :: "gotime \<Rightarrow> int \<Rightarrow> gotime" where
  "add_days t n = t + n * day_ns"

lemma AddDate_add_days:
  assumes "in_i64 ((t - zero_time) div second_ns + n * 86400)"
  shows "AddDate t n = add_days t n"
proof -
  have "(t - zero_time) div second_ns * second_ns + (t - zero_time) mod second_ns = t - zero_time" by (rule div_mult_mod_eq)
  then show ?thesis using assms by (simp add: AddDate_def add_days_def Let_def wrap64_id distrib_right time_units)
qed

section \<open>Timestamp text\<close>

type_synonym timestamp = "int \<times> string"

primrec digits :: "nat \<Rightarrow> nat \<Rightarrow> string" where
  "digits 0 n = []"
| "digits (Suc k) n = char_of (48 + n div 10 ^ k) # digits k (n mod 10 ^ k)"

definition drop_trailing_zeros :: "string \<Rightarrow> string" where
  "drop_trailing_zeros s = rev (dropWhile (\<lambda>c. c = CHR ''0'') (rev s))"

definition fraction_text :: "nat \<Rightarrow> string" where
  "fraction_text n = (if n = 0 then ''Z'' else ''.'' @ drop_trailing_zeros (digits 9 n) @ ''Z'')"

definition rfc3339nano :: "gotime \<Rightarrow> timestamp" where
  "rfc3339nano t = (t div second_ns, fraction_text (nat (t mod second_ns)))"

text \<open>
  The text of an instant in a zone, given by its offset in seconds: the wall clock of the zone, the
  fraction, and the offset as \<open>+hh:mm\<close>. A text with an offset is compared with one in UTC like any other
  text: first the wall clocks, whatever instants they stand for. \<open>zoned\<close> is an instant with the zone
  its \<open>time.Time\<close> carries.
\<close>

type_synonym zoned = "gotime \<times> int"

definition fraction_digits :: "nat \<Rightarrow> string" where
  "fraction_digits n = (if n = 0 then [] else ''.'' @ drop_trailing_zeros (digits 9 n))"

definition zone_suffix :: "int \<Rightarrow> string" where
  "zone_suffix zone =
     (if zone = 0 then ''Z''
      else (if zone < 0 then ''-'' else ''+'') @ digits 2 (nat \<bar>zone\<bar> div 3600) @ '':'' @ digits 2 (nat \<bar>zone\<bar> div 60 mod 60))"

definition zoned_text :: "zoned \<Rightarrow> timestamp" where
  "zoned_text z =
     (case z of (t, zone) \<Rightarrow>
        ((t + zone * second_ns) div second_ns, fraction_digits (nat (t mod second_ns)) @ zone_suffix zone))"

lemma zoned_text_utc [simp]: "zoned_text (t, 0) = rfc3339nano t"
  by (simp add: zoned_text_def rfc3339nano_def fraction_text_def fraction_digits_def zone_suffix_def)

section \<open>Billing windows\<close>

definition beijingZone :: int where "beijingZone = 8 * hour_ns"

definition beijing_day :: "gotime \<Rightarrow> int" where
  "beijing_day t = (t + beijingZone) div day_ns"

definition billingDate :: "gotime \<Rightarrow> int" where
  "billingDate t = beijing_day t"

text \<open>Go's \<open>Weekday\<close>: Sunday is 0, and day 0 (1970-01-01) is a Thursday.\<close>

definition weekday :: "int \<Rightarrow> int" where
  "weekday d = (d + 4) mod 7"

definition billingWeekStart :: "gotime \<Rightarrow> gotime" where
  "billingWeekStart t =
     (let day = beijing_day t;
          offset = (weekday day + 6) mod 7
      in add_days (day * day_ns - beijingZone) (- offset))"

record QuotaLimits =
  RPMLimit :: int
  Token5H :: int
  TokenDaily :: int
  TokenWeekly :: int
  Amount5H :: int
  AmountDaily :: int
  AmountWeekly :: int
  TokenPeriod :: int
  AmountPeriod :: int
  PeriodStart :: gotime
  PeriodZone :: int
  PeriodDays :: int

text \<open>
  \<open>PeriodStart\<close> and \<open>PeriodZone\<close> are the one field \<open>PeriodStart time.Time\<close> of the source: the instant of
  the text \<open>period_limit_start\<close> and the offset that text was written with. \<open>AddDate\<close> keeps the zone.
\<close>

definition periodEnd :: "QuotaLimits \<Rightarrow> gotime" where
  "periodEnd limits = AddDate (PeriodStart limits) (PeriodDays limits)"

definition periodActive :: "gotime \<Rightarrow> gotime \<Rightarrow> int \<Rightarrow> int \<Rightarrow> int \<Rightarrow> bool" where
  "periodActive now start days tokenLimit amountLimit \<longleftrightarrow>
     days > 0 \<and> (tokenLimit > 0 \<or> amountLimit > 0) \<and> \<not> is_zero_time start \<and>
     \<not> now < start \<and> now < AddDate start days"

definition weeklyWindowStart :: "gotime \<Rightarrow> QuotaLimits \<Rightarrow> zoned \<times> bool" where
  "weeklyWindowStart now limits =
     (let weekStart = billingWeekStart now in
      if periodActive now (PeriodStart limits) (PeriodDays limits) (TokenPeriod limits) (AmountPeriod limits)
      then ((now, 0), True)
      else if \<not> is_zero_time (PeriodStart limits) \<and> PeriodDays limits > 0 \<and>
              (TokenPeriod limits > 0 \<or> AmountPeriod limits > 0)
      then (if periodEnd limits > weekStart \<and> \<not> periodEnd limits > now
            then ((periodEnd limits, PeriodZone limits), False)
            else ((weekStart, 0), False))
      else ((weekStart, 0), False))"

section \<open>The order of timestamp texts\<close>

lemma length_digits [simp]: "length (digits k n) = k"
  by (induction k arbitrary: n) auto

lemma of_char_digit: "(d :: nat) < 10 \<Longrightarrow> (of_char (char_of (48 + d) :: char) :: nat) = 48 + d"
  by simp

lemma char_digit_less:
  fixes d e :: nat
  shows "d < e \<Longrightarrow> e < 10 \<Longrightarrow> (char_of (48 + d) :: char) < char_of (48 + e)"
  by (simp add: less_char_def)

lemma digits_less: "n < m \<Longrightarrow> m < 10 ^ k \<Longrightarrow> digits k n @ xs < digits k m @ ys"
proof (induction k arbitrary: n m)
  case (Suc k)
  have quot: "m div 10 ^ k < 10"
    using Suc.prems(2) by (simp add: less_mult_imp_div_less mult.commute)
  show ?case
  proof (cases "n div 10 ^ k = m div 10 ^ k")
    case True
    then have "n mod 10 ^ k < m mod 10 ^ k"
      using Suc.prems(1) by (metis add_less_cancel_left div_mult_mod_eq)
    with Suc.IH[of "n mod 10 ^ k" "m mod 10 ^ k"] True show ?thesis
      by simp
  next
    case False
    with Suc.prems(1) have "n div 10 ^ k < m div 10 ^ k"
      by (meson div_le_mono le_neq_implies_less less_imp_le)
    then have "(char_of (48 + n div 10 ^ k) :: char) < char_of (48 + m div 10 ^ k)"
      using quot by (rule char_digit_less)
    then show ?thesis by simp
  qed
qed simp

lemma digits_last: "digits (Suc k) n = digits k (n div 10) @ [char_of (48 + n mod 10)]"
  if "n < 10 ^ Suc k"
  using that
proof (induction k arbitrary: n)
  case (Suc k)
  have div: "n div 10 div 10 ^ k = n div 10 ^ Suc k"
    by (simp add: div_mult2_eq)
  have md: "n mod 10 ^ Suc k div 10 = n div 10 mod 10 ^ k"
    by (simp add: mod_mult2_eq)
  have "digits (Suc (Suc k)) n = char_of (48 + n div 10 ^ Suc k) # digits (Suc k) (n mod 10 ^ Suc k)"
    by simp
  also have "digits (Suc k) (n mod 10 ^ Suc k) =
      digits k (n mod 10 ^ Suc k div 10) @ [char_of (48 + n mod 10 ^ Suc k mod 10)]"
    by (rule Suc.IH) simp
  also have "n mod 10 ^ Suc k mod 10 = n mod 10"
    by (simp add: mod_mod_cancel)
  finally show ?case
    by (simp only: md digits.simps div append_Cons)
qed simp

text \<open>A fraction whose last of nine digits is not zero is rendered in full.\<close>

lemma fraction_text_full:
  assumes "n < 10 ^ 9" "n mod 10 \<noteq> 0"
  shows "fraction_text n = ''.'' @ digits 9 n @ ''Z''"
proof -
  have "(char_of (48 + n mod 10) :: char) \<noteq> CHR ''0''"
  proof
    assume "(char_of (48 + n mod 10) :: char) = CHR ''0''"
    then have "(of_char (char_of (48 + n mod 10) :: char) :: nat) = of_char (CHR ''0'')" by simp
    with assms(2) show False by simp
  qed
  moreover have "digits 9 n = digits 8 (n div 10) @ [char_of (48 + n mod 10)]"
    using digits_last[of n 8] assms(1) by simp
  ultimately have "drop_trailing_zeros (digits 9 n) = digits 9 n"
    by (simp add: drop_trailing_zeros_def)
  with assms(2) show ?thesis by (auto simp: fraction_text_def)
qed

lemma rfc3339nano_second_less: "a div second_ns < b div second_ns \<Longrightarrow> rfc3339nano a < rfc3339nano b"
  by (simp add: rfc3339nano_def less_prod_def)

lemma nanos_bound: "nat (t mod second_ns) < 10 ^ 9"
  by (simp add: second_ns_def nat_less_iff)

lemma nanos_last:
  assumes "t mod 10 \<noteq> 0"
  shows "nat (t mod second_ns) mod 10 \<noteq> 0"
proof -
  have "t mod second_ns mod 10 = t mod 10"
    by (simp add: second_ns_def mod_mod_cancel)
  moreover have "int (nat (t mod second_ns) mod 10) = t mod second_ns mod 10"
    by (simp add: zmod_int second_ns_def)
  ultimately show ?thesis using assms by linarith
qed

lemma rfc3339nano_full_less:
  assumes "a < b" "a mod 10 \<noteq> 0" "b mod 10 \<noteq> 0"
  shows "rfc3339nano a < rfc3339nano b"
proof (cases "a div second_ns < b div second_ns")
  case False
  with assms(1) have same: "a div second_ns = b div second_ns"
    by (simp add: second_ns_def zdiv_mono1 order.antisym)
  then have lt: "nat (a mod second_ns) < nat (b mod second_ns)"
    using assms(1) by (simp add: second_ns_def minus_div_mult_eq_mod [symmetric])
  note last = nanos_last
  show ?thesis
    using digits_less[OF lt nanos_bound, of "''Z''" "''Z''"] same
    by (simp add: rfc3339nano_def less_prod_def fraction_text_full[OF nanos_bound last[OF assms(2)]]
        fraction_text_full[OF nanos_bound last[OF assms(3)]])
qed (rule rfc3339nano_second_less)

section \<open>Weeks\<close>

lemma beijing_day_bounds:
  "beijing_day t * day_ns - beijingZone \<le> t" "t < (beijing_day t + 1) * day_ns - beijingZone"
proof -
  have "0 \<le> (t + beijingZone) mod day_ns" "(t + beijingZone) mod day_ns < day_ns"
    by (simp_all add: day_ns_def)
  moreover have "(t + beijingZone) div day_ns * day_ns + (t + beijingZone) mod day_ns = t + beijingZone"
    by (rule div_mult_mod_eq)
  ultimately show "beijing_day t * day_ns - beijingZone \<le> t"
    "t < (beijing_day t + 1) * day_ns - beijingZone"
    unfolding beijing_day_def distrib_right by linarith+
qed

lemma week_offset: "(weekday d + 6) mod 7 = (d + 3) mod 7"
proof -
  have "(weekday d + 6) mod 7 = (d + 4 + 6) mod 7" unfolding weekday_def by (rule mod_add_left_eq)
  then have "(weekday d + 6) mod 7 = (d + 3 + 7) mod 7" by (simp add: algebra_simps)
  then show ?thesis by (simp only: mod_add_self2)
qed

lemma billingWeekStart_eq:
  "billingWeekStart t = (beijing_day t - (beijing_day t + 3) mod 7) * day_ns - beijingZone"
  by (simp add: billingWeekStart_def Let_def week_offset add_days_def left_diff_distrib)

lemma beijing_day_midnight: "beijing_day (d * day_ns - beijingZone) = d"
  by (simp add: beijing_day_def day_ns_def)

lemma billingWeekStart_bounds:
  "billingWeekStart t \<le> t" "t < add_days (billingWeekStart t) 7"
proof -
  have "0 \<le> (beijing_day t + 3) mod 7" "(beijing_day t + 3) mod 7 \<le> 6" by presburger+
  then have "(beijing_day t - 6) * day_ns \<le> (beijing_day t - (beijing_day t + 3) mod 7) * day_ns"
    and "(beijing_day t - (beijing_day t + 3) mod 7) * day_ns \<le> beijing_day t * day_ns"
    by (simp_all add: day_ns_def)
  with beijing_day_bounds[of t] show "billingWeekStart t \<le> t" "t < add_days (billingWeekStart t) 7"
    unfolding billingWeekStart_eq add_days_def distrib_right left_diff_distrib by linarith+
qed

lemma billingWeekStart_monday:
  "beijing_day (billingWeekStart t) * day_ns - beijingZone = billingWeekStart t"
  "weekday (beijing_day (billingWeekStart t)) = 1"
  unfolding billingWeekStart_eq beijing_day_midnight weekday_def by (simp, presburger)

lemma weeklyWindowStart_bounds:
  assumes "weeklyWindowStart now limits = (start, active)"
  shows "billingWeekStart now \<le> fst start" "fst start \<le> now"
    "active \<longleftrightarrow> periodActive now (PeriodStart limits) (PeriodDays limits) (TokenPeriod limits) (AmountPeriod limits)"
  using assms billingWeekStart_bounds[of now]
  by (auto simp: weeklyWindowStart_def Let_def split: if_splits)

end
