(* ===== verification/Schema.thy ===== *)
theory Schema
  imports Clock
begin

text \<open>
  The relay's persistent state: one record per table of \<open>internal/store/schema.go\<close> after the
  last migration, the database as the record of its tables, the constraints the schema declares
  (keys, uniqueness, references, checks) as the invariant \<open>wf_db\<close>, and the referential actions
  (\<open>ON DELETE CASCADE\<close>, \<open>ON DELETE SET NULL\<close>, the trigger that protects active reservations).

  Nullable columns are options. Timestamp columns are instants (see \<open>Clock\<close>); the
  \<open>created_at_utc\<close>/\<open>updated_at_utc\<close> columns of the catalogue tables are written and never read,
  and are left out. What SQLite and Go's \<open>time\<close> parser contribute is the record \<open>platform\<close>.
\<close>

section \<open>Rows\<close>

record Provider =
  p_id :: int
  p_name :: string
  p_base_url :: string
  p_protocol :: string
  p_cipher :: string
  p_enabled :: bool

record Model =
  m_id :: int
  m_provider_id :: int
  m_public_name :: string
  m_upstream_name :: string
  m_input_price :: "int option"
  m_output_price :: "int option"
  m_cached_price :: "int option"
  m_enabled :: bool

record ModelGroup =
  g_id :: int
  g_name :: string
  g_enabled :: bool
  g_rate_milli :: int
  g_token_5h :: "int option"
  g_amount_5h :: "int option"
  g_token_daily :: "int option"
  g_amount_daily :: "int option"
  g_token_weekly :: "int option"
  g_amount_weekly :: "int option"
  g_period_days :: "int option"
  g_token_period :: "int option"
  g_amount_period :: "int option"
  g_period_start :: "string option"

record ClientKey =
  k_id :: int
  k_name :: string
  k_digest :: string
  k_label :: string
  k_hint :: string
  k_enabled :: bool
  k_concurrency :: int
  k_token_limit :: "int option"
  k_amount_limit :: "int option"
  k_disabled_reason :: string
  k_expires :: "gotime option"
  k_public_id :: "string option"
  k_group_id :: "int option"

record KeyReservation =
  r_id :: int
  r_request_id :: "string option"
  r_billing_date :: int
  r_key_id :: int
  r_model_id :: int
  r_group_id :: int
  r_reserved_tokens :: int
  r_reserved_amount :: int
  r_charged_tokens :: int
  r_charged_amount :: int
  r_status :: string
  r_created :: gotime
  r_finished :: "gotime option"

record RequestRow =
  q_id :: int
  q_request_id :: string
  q_key_id :: "int option"
  q_model_id :: "int option"
  q_provider_id :: "int option"
  q_group_id :: int
  q_status :: string
  q_input_tokens :: int
  q_output_tokens :: int
  q_cached_tokens :: int
  q_amount :: int
  q_reserved_tokens :: int
  q_charged_tokens :: int
  q_upstream_status :: "int option"
  q_streamed :: bool
  q_billing_date :: int
  q_created :: gotime
  q_finished :: "gotime option"
  q_error_code :: string
  q_failure_stage :: string
  q_usage_source :: string
  q_protocol :: string
  q_client_request_id :: string
  q_incomplete_reason :: string
  q_duration_ms :: "int option"
  q_header_ms :: "int option"
  q_first_event_ms :: "int option"
  q_last_upstream_ms :: "int option"
  q_quote_input :: "int option"
  q_quote_output :: "int option"
  q_quote_cached :: "int option"
  q_quote_rate :: "int option"

record db =
  db_providers :: "Provider list"
  db_models :: "Model list"
  db_groups :: "ModelGroup list"
  db_group_providers :: "(int \<times> int) list"
  db_keys :: "ClientKey list"
  db_reservations :: "KeyReservation list"
  db_requests :: "RequestRow list"

definition empty_db :: db where
  "empty_db = \<lparr>db_providers = [], db_models = [], db_groups = [], db_group_providers = [],
     db_keys = [], db_reservations = [], db_requests = []\<rparr>"

text \<open>
  \<open>julianday_ms t\<close> is SQLite's \<open>julianday\<close> of the text of \<open>t\<close>, in milliseconds, the resolution of
  its date functions; \<open>parse_rfc3339\<close> and \<open>format_rfc3339\<close> are \<open>time.Parse\<close> and \<open>Time.Format\<close>
  with the layout \<open>time.RFC3339\<close>; parsing gives the instant and the offset in seconds the text is
  written with. (The zones of the model have a constant offset, as a zone parsed from such a text has.)
\<close>

record platform =
  julianday_ms :: "gotime \<Rightarrow> int"
  parse_rfc3339 :: "string \<Rightarrow> (gotime \<times> int) option"
  format_rfc3339 :: "gotime \<Rightarrow> string"

section \<open>Errors\<close>

record QuotaError =
  qe_code :: string
  qe_scope :: string
  qe_metric :: string
  qe_used :: int
  qe_limit :: int
  qe_group :: string
  qe_group_id :: int

datatype store_error =
    ErrNoRows
  | ErrSettlementConflict
  | ErrReservationNotFound
  | ErrClientKeyExpired
  | ErrConstraint string
  | ErrActiveReservation
  | ErrIntegerOverflow
  | ErrText string
  | ErrQuota QuotaError

section \<open>Row identity\<close>

interpretation prov: keyed_table p_id "\<lambda>i. p_id_update (\<lambda>_. i)"
  by unfold_locales simp

interpretation mod_tbl: keyed_table m_id "\<lambda>i. m_id_update (\<lambda>_. i)"
  by unfold_locales simp

interpretation grp: keyed_table g_id "\<lambda>i. g_id_update (\<lambda>_. i)"
  by unfold_locales simp

interpretation key_tbl: keyed_table k_id "\<lambda>i. k_id_update (\<lambda>_. i)"
  by unfold_locales simp

interpretation resv: keyed_table r_id "\<lambda>i. r_id_update (\<lambda>_. i)"
  by unfold_locales simp

interpretation reqs: keyed_table q_id "\<lambda>i. q_id_update (\<lambda>_. i)"
  by unfold_locales simp

lemmas wf_inserts = prov.wf_insert mod_tbl.wf_insert grp.wf_insert key_tbl.wf_insert
  resv.wf_insert reqs.wf_insert

section \<open>Constraints\<close>

definition unique_by :: "('r \<Rightarrow> 'k) \<Rightarrow> 'r list \<Rightarrow> bool" where
  "unique_by f rows \<longleftrightarrow> distinct (map f rows)"

definition unique_some :: "('r \<Rightarrow> 'k option) \<Rightarrow> 'r list \<Rightarrow> bool" where
  "unique_some f rows \<longleftrightarrow> distinct (filter (\<lambda>k. k \<noteq> None) (map f rows))"

definition nonneg_opt :: "int option \<Rightarrow> bool" where
  "nonneg_opt v \<longleftrightarrow> (case v of None \<Rightarrow> True | Some n \<Rightarrow> 0 \<le> n)"

definition ledger_status :: "string \<Rightarrow> bool" where
  "ledger_status s \<longleftrightarrow> s \<in> {''reserved'', ''completed'', ''failed'', ''aborted'', ''rejected''}"

definition wf_tables :: "db \<Rightarrow> bool" where
  "wf_tables db \<longleftrightarrow> tbl_wf p_id (db_providers db) \<and> tbl_wf m_id (db_models db) \<and>
     tbl_wf g_id (db_groups db) \<and> tbl_wf k_id (db_keys db) \<and>
     tbl_wf r_id (db_reservations db) \<and> tbl_wf q_id (db_requests db)"

definition wf_unique :: "db \<Rightarrow> bool" where
  "wf_unique db \<longleftrightarrow> unique_by p_name (db_providers db) \<and> unique_by m_public_name (db_models db) \<and>
     unique_by g_name (db_groups db) \<and> distinct (db_group_providers db) \<and>
     unique_by k_name (db_keys db) \<and> unique_by k_digest (db_keys db) \<and>
     unique_some k_public_id (db_keys db) \<and> unique_by q_request_id (db_requests db)"

definition refers :: "('r \<Rightarrow> int) \<Rightarrow> 'r list \<Rightarrow> int \<Rightarrow> bool" where
  "refers rid rows i \<longleftrightarrow> i \<in> rid ` set rows"

definition refers_opt :: "('r \<Rightarrow> int) \<Rightarrow> 'r list \<Rightarrow> int option \<Rightarrow> bool" where
  "refers_opt rid rows v \<longleftrightarrow> (case v of None \<Rightarrow> True | Some i \<Rightarrow> refers rid rows i)"

definition wf_refs :: "db \<Rightarrow> bool" where
  "wf_refs db \<longleftrightarrow>
     list_all (\<lambda>m. refers p_id (db_providers db) (m_provider_id m)) (db_models db) \<and>
     list_all (\<lambda>(g, p). refers g_id (db_groups db) g \<and> refers p_id (db_providers db) p) (db_group_providers db) \<and>
     list_all (\<lambda>k. refers_opt g_id (db_groups db) (k_group_id k)) (db_keys db) \<and>
     list_all (\<lambda>r. refers k_id (db_keys db) (r_key_id r) \<and> refers m_id (db_models db) (r_model_id r)) (db_reservations db) \<and>
     list_all (\<lambda>q. refers_opt k_id (db_keys db) (q_key_id q) \<and> refers_opt m_id (db_models db) (q_model_id q) \<and>
        refers_opt p_id (db_providers db) (q_provider_id q)) (db_requests db)"

definition check_model :: "Model \<Rightarrow> bool" where
  "check_model m \<longleftrightarrow> nonneg_opt (m_input_price m) \<and> nonneg_opt (m_output_price m) \<and> nonneg_opt (m_cached_price m)"

definition check_key :: "ClientKey \<Rightarrow> bool" where
  "check_key k \<longleftrightarrow> 0 < k_concurrency k \<and> nonneg_opt (k_token_limit k) \<and> nonneg_opt (k_amount_limit k)"

definition check_reservation :: "KeyReservation \<Rightarrow> bool" where
  "check_reservation r \<longleftrightarrow> 0 \<le> r_reserved_tokens r \<and> 0 \<le> r_reserved_amount r \<and>
     0 \<le> r_charged_tokens r \<and> 0 \<le> r_charged_amount r \<and> ledger_status (r_status r)"

definition check_request :: "RequestRow \<Rightarrow> bool" where
  "check_request q \<longleftrightarrow> 0 \<le> q_input_tokens q \<and> 0 \<le> q_output_tokens q \<and> 0 \<le> q_cached_tokens q \<and>
     0 \<le> q_amount q \<and> 0 \<le> q_reserved_tokens q \<and> 0 \<le> q_charged_tokens q"

definition wf_checks :: "db \<Rightarrow> bool" where
  "wf_checks db \<longleftrightarrow> list_all check_model (db_models db) \<and>
     list_all (\<lambda>g. 0 < g_rate_milli g) (db_groups db) \<and> list_all check_key (db_keys db) \<and>
     list_all check_reservation (db_reservations db) \<and> list_all check_request (db_requests db)"

definition wf_db :: "db \<Rightarrow> bool" where
  "wf_db db \<longleftrightarrow> wf_tables db \<and> wf_unique db \<and> wf_refs db \<and> wf_checks db"

lemmas wf_db_defs = wf_db_def wf_tables_def wf_unique_def wf_refs_def wf_checks_def

lemma wf_dbD:
  assumes "wf_db db"
  shows "tbl_wf q_id (db_requests db)" "tbl_wf r_id (db_reservations db)" "unique_by q_request_id (db_requests db)"
    "tbl_wf k_id (db_keys db)" "tbl_wf m_id (db_models db)" "tbl_wf g_id (db_groups db)" "tbl_wf p_id (db_providers db)"
  using assms by (simp_all add: wf_db_defs)

lemma unique_byD: "unique_by f rows \<Longrightarrow> r \<in> set rows \<Longrightarrow> s \<in> set rows \<Longrightarrow> f r = f s \<Longrightarrow> r = s"
  by (auto simp: unique_by_def distinct_map inj_on_def)

lemma wf_db_empty: "wf_db empty_db"
  by (simp add: wf_db_defs empty_db_def tbl_wf_def unique_by_def unique_some_def)

section \<open>Referential actions\<close>

text \<open>
  Deleting reservations runs the trigger \<open>prevent_active_reservation_delete\<close>: an active one
  aborts the whole statement.
\<close>

definition delete_reservations :: "(KeyReservation \<Rightarrow> bool) \<Rightarrow> db \<Rightarrow> store_error + db" where
  "delete_reservations P db =
     (if list_ex (\<lambda>r. P r \<and> r_status r = ''reserved'') (db_reservations db) then Inl ErrActiveReservation
      else Inr (db\<lparr>db_reservations := filter (\<lambda>r. \<not> P r) (db_reservations db)\<rparr>))"

definition clear_ref :: "('i \<Rightarrow> bool) \<Rightarrow> 'i option \<Rightarrow> 'i option" where
  "clear_ref P v = (case v of None \<Rightarrow> None | Some i \<Rightarrow> if P i then None else Some i)"

definition delete_models :: "(Model \<Rightarrow> bool) \<Rightarrow> db \<Rightarrow> store_error + db" where
  "delete_models P db =
     (let gone = (\<lambda>i. list_ex (\<lambda>m. P m \<and> m_id m = i) (db_models db)) in
      bind_result (delete_reservations (\<lambda>r. gone (r_model_id r)) db) (\<lambda>db.
      Inr (db\<lparr>db_models := filter (\<lambda>m. \<not> P m) (db_models db),
              db_requests := map (\<lambda>q. q\<lparr>q_model_id := clear_ref gone (q_model_id q)\<rparr>) (db_requests db)\<rparr>)))"

definition delete_provider_row :: "int \<Rightarrow> db \<Rightarrow> store_error + db" where
  "delete_provider_row i db =
     bind_result (delete_models (\<lambda>m. m_provider_id m = i) db) (\<lambda>db.
     Inr (db\<lparr>db_providers := tbl_delete p_id i (db_providers db),
             db_group_providers := filter (\<lambda>(g, p). p \<noteq> i) (db_group_providers db),
             db_requests := map (\<lambda>q. q\<lparr>q_provider_id := clear_ref (\<lambda>p. p = i) (q_provider_id q)\<rparr>) (db_requests db)\<rparr>))"

definition delete_key_row :: "int \<Rightarrow> db \<Rightarrow> store_error + db" where
  "delete_key_row i db =
     bind_result (delete_reservations (\<lambda>r. r_key_id r = i) db) (\<lambda>db.
     Inr (db\<lparr>db_keys := tbl_delete k_id i (db_keys db),
             db_requests := map (\<lambda>q. q\<lparr>q_key_id := clear_ref (\<lambda>k. k = i) (q_key_id q)\<rparr>) (db_requests db)\<rparr>))"

definition delete_group_row :: "int \<Rightarrow> db \<Rightarrow> store_error + db" where
  "delete_group_row i db =
     Inr (db\<lparr>db_groups := tbl_delete g_id i (db_groups db),
             db_group_providers := filter (\<lambda>(g, p). g \<noteq> i) (db_group_providers db),
             db_keys := map (\<lambda>k. k\<lparr>k_group_id := clear_ref (\<lambda>g. g = i) (k_group_id k)\<rparr>) (db_keys db)\<rparr>)"

lemma refers_find: "tbl_find rid i rows = Some r \<Longrightarrow> refers rid rows i"
  by (auto simp: refers_def dest: tbl_find_Some)

lemma refers_delete: "refers rid (tbl_delete rid i rows) j \<longleftrightarrow> refers rid rows j \<and> j \<noteq> i"
  by (auto simp: refers_def tbl_delete_def)

lemma refers_filter: "refers rid (filter P rows) j \<longleftrightarrow> (\<exists>r. r \<in> set rows \<and> P r \<and> rid r = j)"
  by (auto simp: refers_def)

lemma refers_map:
  assumes "\<And>r. rid (h r) = rid r"
  shows "refers rid (map h rows) j = refers rid rows j" "refers_opt rid (map h rows) v = refers_opt rid rows v"
  using assms by (auto simp: refers_opt_def refers_def image_image split: option.splits)

lemma refers_opt_clear:
  "refers_opt rid (tbl_delete rid i rows) (clear_ref (\<lambda>j. j = i) v) \<longleftrightarrow> refers_opt rid rows (clear_ref (\<lambda>j. j = i) v)"
  by (auto simp: refers_opt_def clear_ref_def refers_delete split: option.splits)

lemma refers_opt_clear_weaken: "refers_opt rid rows v \<Longrightarrow> refers_opt rid rows (clear_ref P v)"
  by (auto simp: refers_opt_def clear_ref_def split: option.splits)

lemma unique_by_filter: "unique_by f rows \<Longrightarrow> unique_by f (filter P rows)"
  by (simp add: unique_by_def distinct_map_filter)

lemma unique_by_map: "(\<And>r. f (h r) = f r) \<Longrightarrow> unique_by f (map h rows) = unique_by f rows"
  by (simp add: unique_by_def o_def)

lemma unique_some_filter: "unique_some f rows \<Longrightarrow> unique_some f (filter P rows)"
proof (induction rows)
  case (Cons a rows)
  then show ?case by (force simp: unique_some_def)
qed (simp add: unique_some_def)

lemma unique_some_map: "(\<And>r. f (h r) = f r) \<Longrightarrow> unique_some f (map h rows) = unique_some f rows"
  by (simp add: unique_some_def o_def)

lemma list_all_filterI: "list_all P rows \<Longrightarrow> list_all P (filter Q rows)"
  by (auto simp: list_all_iff)

lemmas row_filter_rules = tbl_wf_filter unique_by_filter unique_some_filter list_all_filterI

lemma unique_tbl_delete:
  "unique_by f rows \<Longrightarrow> unique_by f (tbl_delete rid i rows)"
  "unique_some h rows \<Longrightarrow> unique_some h (tbl_delete rid i rows)"
  "list_all P rows \<Longrightarrow> list_all P (tbl_delete rid i rows)"
  unfolding tbl_delete_def by (simp_all add: row_filter_rules)

lemma set_tbl_delete: "set (tbl_delete rid i rows) = {r \<in> set rows. rid r \<noteq> i}"
  by (auto simp: tbl_delete_def)

lemma delete_reservations_wf:
  "wf_db db \<Longrightarrow> delete_reservations P db = Inr db' \<Longrightarrow> wf_db db'"
  by (auto simp: delete_reservations_def wf_db_defs row_filter_rules split: if_splits)

lemma delete_reservations_frame:
  assumes "delete_reservations P db = Inr db'"
  shows "db_providers db' = db_providers db" "db_models db' = db_models db" "db_groups db' = db_groups db"
    "db_group_providers db' = db_group_providers db" "db_keys db' = db_keys db" "db_requests db' = db_requests db"
    "db_reservations db' = filter (\<lambda>r. \<not> P r) (db_reservations db)"
  using assms by (auto simp: delete_reservations_def split: if_splits)

lemma delete_models_wf:
  assumes wf: "wf_db db" and del: "delete_models P db = Inr db'"
  shows "wf_db db'"
proof -
  define gone where "gone = (\<lambda>i. list_ex (\<lambda>m. P m \<and> m_id m = i) (db_models db))"
  obtain mid where mid: "delete_reservations (\<lambda>r. gone (r_model_id r)) db = Inr mid"
    and db': "db' = mid\<lparr>db_models := filter (\<lambda>m. \<not> P m) (db_models mid),
        db_requests := map (\<lambda>q. q\<lparr>q_model_id := clear_ref gone (q_model_id q)\<rparr>) (db_requests mid)\<rparr>"
    using del by (auto simp: delete_models_def Let_def gone_def bind_result_Inr)
  note fr = delete_reservations_frame[OF mid]
  have wfm: "wf_db mid" using wf mid by (rule delete_reservations_wf)
  have keep: "refers m_id (filter (\<lambda>m. \<not> P m) (db_models db)) i"
    if "refers m_id (db_models db) i" "\<not> gone i" for i
    using that by (fastforce simp: refers_def gone_def list_ex_iff)
  have "refers_opt m_id (filter (\<lambda>m. \<not> P m) (db_models db)) (clear_ref gone v)"
    if "refers_opt m_id (db_models db) v" for v
    using that keep by (auto simp: refers_opt_def clear_ref_def split: option.splits)
  with wfm keep fr db' show ?thesis
    by (auto simp: wf_db_defs row_filter_rules tbl_wf_map unique_by_map list_all_iff check_request_def)
qed

lemma delete_models_frame:
  assumes "delete_models P db = Inr db'"
  shows "db_providers db' = db_providers db" "db_groups db' = db_groups db"
    "db_group_providers db' = db_group_providers db" "db_keys db' = db_keys db"
    "db_models db' = filter (\<lambda>m. \<not> P m) (db_models db)"
  using assms by (auto simp: delete_models_def Let_def bind_result_Inr delete_reservations_frame)

lemma delete_provider_row_wf:
  assumes wf: "wf_db db" and del: "delete_provider_row i db = Inr db'"
  shows "wf_db db'"
proof -
  obtain mid where mid: "delete_models (\<lambda>m. m_provider_id m = i) db = Inr mid"
    and db': "db' = mid\<lparr>db_providers := tbl_delete p_id i (db_providers mid),
             db_group_providers := filter (\<lambda>(g, p). p \<noteq> i) (db_group_providers mid),
             db_requests := map (\<lambda>q. q\<lparr>q_provider_id := clear_ref (\<lambda>p. p = i) (q_provider_id q)\<rparr>) (db_requests mid)\<rparr>"
    using del by (auto simp: delete_provider_row_def bind_result_Inr)
  have wfm: "wf_db mid" using wf mid by (rule delete_models_wf)
  have "m_provider_id m \<noteq> i" if "m \<in> set (db_models mid)" for m
    using that delete_models_frame[OF mid] by auto
  with wfm db' show ?thesis
    by (auto simp: wf_db_defs tbl_wf_delete unique_tbl_delete refers_delete refers_opt_clear
        refers_opt_clear_weaken tbl_wf_map unique_by_map list_all_iff check_request_def)
qed

lemma delete_key_row_wf:
  assumes wf: "wf_db db" and del: "delete_key_row i db = Inr db'"
  shows "wf_db db'"
proof -
  obtain mid where mid: "delete_reservations (\<lambda>r. r_key_id r = i) db = Inr mid"
    and db': "db' = mid\<lparr>db_keys := tbl_delete k_id i (db_keys mid),
             db_requests := map (\<lambda>q. q\<lparr>q_key_id := clear_ref (\<lambda>k. k = i) (q_key_id q)\<rparr>) (db_requests mid)\<rparr>"
    using del by (auto simp: delete_key_row_def bind_result_Inr)
  have wfm: "wf_db mid" using wf mid by (rule delete_reservations_wf)
  have "r_key_id r \<noteq> i" if "r \<in> set (db_reservations mid)" for r
    using that delete_reservations_frame[OF mid] by auto
  with wfm db' show ?thesis
    by (auto simp: wf_db_defs tbl_wf_delete unique_tbl_delete refers_delete refers_opt_clear set_tbl_delete
        refers_opt_clear_weaken tbl_wf_map unique_by_map list_all_iff check_request_def)
qed

lemma delete_group_row_wf:
  assumes wf: "wf_db db" and del: "delete_group_row i db = Inr db'"
  shows "wf_db db'"
proof -
  have "db' = db\<lparr>db_groups := tbl_delete g_id i (db_groups db),
             db_group_providers := filter (\<lambda>(g, p). g \<noteq> i) (db_group_providers db),
             db_keys := map (\<lambda>k. k\<lparr>k_group_id := clear_ref (\<lambda>g. g = i) (k_group_id k)\<rparr>) (db_keys db)\<rparr>"
    using del by (simp add: delete_group_row_def)
  with wf show ?thesis
    by (auto simp: wf_db_defs tbl_wf_delete unique_tbl_delete refers_delete set_tbl_delete
        refers_opt_clear refers_opt_clear_weaken tbl_wf_map unique_by_map unique_some_map list_all_iff check_key_def
        refers_map)
qed

end
