(* ===== verification/Pricing.thy ===== *)
theory Pricing
  imports Schema
begin

text \<open>
  Token estimates and prices: the reservation side of \<open>internal/store/ledger.go\<close> (estimate,
  \<open>ceilPrice\<close>, \<open>reserveAmount\<close>, \<open>priceWithRate\<close>), the settlement side of
  \<open>internal/relay/service.go\<close> (\<open>applyRate\<close>, \<open>pricePart\<close>, \<open>PriceUsage\<close>) and the price snapshot of
  \<open>internal/relay/pricing.go\<close>. Prices are microyuan per million tokens. The lemmas relate both sides to one
  reference, the rounded-up price of a number of tokens.
\<close>

section \<open>Estimating the input\<close>

text \<open>A text is the list of its code points (Go's \<open>for _, r := range s\<close>).\<close>

type_synonym runes = "int list"

record ReserveInput =
  in_RequestID :: string
  in_KeyID :: int
  in_ModelID :: int
  in_ProviderID :: int
  in_StartedAt :: gotime
  in_Stream :: bool
  in_InputText :: runes
  in_StringFields :: "runes list"
  in_InputTokens :: int
  in_OutputTokenCeiling :: int
  in_MaxOutputTokens :: int
  in_Limits :: QuotaLimits

definition milliPerWideToken :: int where "milliPerWideToken = 1250"
definition milliPerNarrowChar :: int where "milliPerNarrowChar = 286"
definition perRequestOverheadTokens :: int where "perRequestOverheadTokens = 4"

definition tokenMilli :: "int \<Rightarrow> int" where
  "tokenMilli r =
     (if 0x2E80 \<le> r \<and> r \<le> 0x9FFF then milliPerWideToken
      else if 0xA000 \<le> r \<and> r \<le> 0xD7FF then milliPerWideToken
      else if 0xF900 \<le> r \<and> r \<le> 0xFAFF then milliPerWideToken
      else if 0xFE30 \<le> r \<and> r \<le> 0xFE4F then milliPerWideToken
      else if 0xFF00 \<le> r \<and> r \<le> 0xFFEF then milliPerWideToken
      else if 0x1F000 \<le> r then milliPerWideToken
      else milliPerNarrowChar)"

definition text_milli :: "runes \<Rightarrow> int" where
  "text_milli s = sum_by tokenMilli s"

definition estimateInputTokens :: "ReserveInput \<Rightarrow> int" where
  "estimateInputTokens inp =
     (if in_InputTokens inp > 0 then in_InputTokens inp
      else let texts = (if in_StringFields inp = [] \<and> in_InputText inp \<noteq> []
                        then [in_InputText inp] else in_StringFields inp);
               milli = sum_by text_milli texts
           in (milli + 999) sdiv 1000 + perRequestOverheadTokens)"

section \<open>Reservation prices\<close>

definition ceilPrice :: "int \<Rightarrow> int \<Rightarrow> store_error + int" where
  "ceilPrice tokens price =
     (if tokens < 0 \<or> price < 0 then Inl (ErrText ''token and price values must be non-negative'')
      else if tokens = 0 \<or> price = 0 then Inr 0
      else if tokens > (max_i64 - 999999) sdiv price then Inl (ErrText ''reservation amount overflow'')
      else Inr (wrap64 (wrap64 (tokens * price) + 999999) sdiv 1000000))"

definition reserveAmount :: "int \<Rightarrow> int \<Rightarrow> int \<Rightarrow> int \<Rightarrow> store_error + int" where
  "reserveAmount inputTokens outputTokens inputPrice outputPrice =
     bind_result (ceilPrice inputTokens inputPrice) (\<lambda>i.
     bind_result (ceilPrice outputTokens outputPrice) (\<lambda>out.
     if i > max_i64 - out then Inl (ErrText ''reservation amount overflow'') else Inr (wrap64 (i + out))))"

definition priceWithRate :: "int \<Rightarrow> int \<Rightarrow> store_error + int" where
  "priceWithRate price rate =
     (if price < 0 \<or> rate \<le> 0 then Inl (ErrText ''invalid price quote'')
      else if price > max_i64 sdiv rate then Inl (ErrText ''price quote overflow'')
      else Inr (wrap64 (price * rate) sdiv 1000))"

section \<open>Settlement prices\<close>

record Usage =
  PromptTokens :: int
  CompletionTokens :: int
  TotalTokens :: int
  CachedTokens :: int

record RequestReservation =
  res_ID :: int
  res_KeyReservationID :: int
  res_ModelID :: int
  res_RequestID :: string
  res_StartedAt :: gotime
  res_InputTokens :: int
  res_ReservedTokens :: int
  res_ReservedAmount :: int
  res_QuoteInput :: int
  res_QuoteOutput :: int
  res_QuoteCached :: int
  res_QuoteRate :: int

record PriceSnapshot =
  ps_ModelID :: int
  ps_Input :: int
  ps_Output :: int
  ps_Cached :: int
  ps_RateMilli :: int

definition priceSnapshot :: "RequestReservation \<Rightarrow> PriceSnapshot" where
  "priceSnapshot r = \<lparr>ps_ModelID = res_ModelID r, ps_Input = res_QuoteInput r,
     ps_Output = res_QuoteOutput r, ps_Cached = res_QuoteCached r, ps_RateMilli = res_QuoteRate r\<rparr>"

definition applyRate :: "int option \<Rightarrow> int \<Rightarrow> int option" where
  "applyRate price rateMilli =
     (case price of
        None \<Rightarrow> None
      | Some p \<Rightarrow>
          if rateMilli = 1000 then Some p
          else let rate = (if rateMilli \<le> 0 then 1000 else rateMilli) in
               if p > max_i64 sdiv rate then Some max_i64
               else Some (wrap64 (p * rate) sdiv 1000))"

definition effective :: "PriceSnapshot \<Rightarrow> Model \<Rightarrow> Model" where
  "effective p model = model\<lparr>
     m_input_price := applyRate (Some (ps_Input p)) (ps_RateMilli p),
     m_output_price := applyRate (Some (ps_Output p)) (ps_RateMilli p),
     m_cached_price := applyRate (Some (ps_Cached p)) (ps_RateMilli p)\<rparr>"

definition valueOrZero :: "int option \<Rightarrow> int" where
  "valueOrZero v = (case v of None \<Rightarrow> 0 | Some n \<Rightarrow> n)"

text \<open>\<open>pricePart\<close> computes with \<open>big.Int\<close>, so without overflow, and saturates at the end.\<close>

definition pricePart :: "int \<Rightarrow> int \<Rightarrow> int" where
  "pricePart tokens price =
     (if tokens \<le> 0 \<or> price \<le> 0 then 0
      else let product = tokens * price;
               quotient = product sdiv 1000000;
               remainder = product smod 1000000;
               rounded = (if remainder > 0 then quotient + 1 else quotient)
           in if \<not> in_i64 rounded then max_i64 else rounded)"

fun add_parts :: "int list \<Rightarrow> int \<Rightarrow> int" where
  "add_parts [] acc = acc"
| "add_parts (part # parts) acc =
     (if part > max_i64 - acc then max_i64 else add_parts parts (wrap64 (acc + part)))"

definition billable_cached :: "Usage \<Rightarrow> int" where
  "billable_cached usage =
     (let cached = (if CachedTokens usage < 0 then 0 else CachedTokens usage)
      in if cached > PromptTokens usage then PromptTokens usage else cached)"

definition PriceUsage :: "Usage \<Rightarrow> Model \<Rightarrow> int" where
  "PriceUsage usage model =
     (let input = valueOrZero (m_input_price model);
          output = valueOrZero (m_output_price model);
          cachedPrice = (case m_cached_price model of None \<Rightarrow> input | Some c \<Rightarrow> c);
          prompt = PromptTokens usage;
          cached = billable_cached usage
      in add_parts [pricePart (prompt - cached) input, pricePart cached cachedPrice,
                    pricePart (CompletionTokens usage) output] 0)"

section \<open>The reference price\<close>

definition ceil_micro :: "int \<Rightarrow> int \<Rightarrow> int" where
  "ceil_micro tokens price = (tokens * price + 999999) div 1000000"

definition charge :: "int \<Rightarrow> int \<Rightarrow> int" where
  "charge tokens price = (if tokens \<le> 0 \<or> price \<le> 0 then 0 else ceil_micro tokens price)"

lemma ceil_micro_nonneg: "0 \<le> t \<Longrightarrow> 0 \<le> p \<Longrightarrow> 0 \<le> ceil_micro t p"
  by (simp add: ceil_micro_def pos_imp_zdiv_nonneg_iff)

lemma ceil_micro_mono:
  assumes "0 \<le> t" "t \<le> t'" "0 \<le> p" "p \<le> p'"
  shows "ceil_micro t p \<le> ceil_micro t' p'"
proof -
  have "t * p \<le> t' * p'" using assms by (intro mult_mono) auto
  then show ?thesis by (simp add: ceil_micro_def zdiv_mono1)
qed

lemma ceil_micro_split: "ceil_micro s p + ceil_micro t p \<le> ceil_micro (s + t) p + 1"
  unfolding ceil_micro_def distrib_right by (simp add: algebra_simps)

lemma ceilPrice_Inr:
  assumes "ceilPrice t p = Inr v"
  shows "v = ceil_micro t p" "0 \<le> t" "0 \<le> p" "0 \<le> v" "v \<le> max_i64"
proof -
  have nn: "0 \<le> t" "0 \<le> p" using assms by (auto simp: ceilPrice_def split: if_splits)
  show "0 \<le> t" "0 \<le> p" by fact+
  have "v = ceil_micro t p \<and> v \<le> max_i64"
  proof (cases "t = 0 \<or> p = 0")
    case True
    with assms nn show ?thesis by (auto simp: ceilPrice_def ceil_micro_def max_i64_def)
  next
    case False
    with assms nn have pos: "0 < t" "0 < p" and le: "t \<le> (max_i64 - 999999) div p"
      by (auto simp: ceilPrice_def sdiv_nonneg max_i64_def split: if_splits)
    from le pos have fits: "t * p + 999999 \<le> max_i64" by (simp add: le_div_iff_mult)
    from pos have prod: "0 < t * p" by simp
    from fits prod have "in_i64 (t * p)" "in_i64 (t * p + 999999)"
      by (simp_all add: in_i64_nonneg)
    with assms False nn pos le prod have "v = ceil_micro t p"
      by (auto simp: ceilPrice_def ceil_micro_def sdiv_nonneg split: if_splits)
    moreover have "(t * p + 999999) div 1000000 \<le> t * p + 999999"
      using prod by (intro int_div_less_self [THEN less_imp_le]) simp_all
    ultimately show ?thesis using fits by (simp add: ceil_micro_def)
  qed
  then show "v = ceil_micro t p" "v \<le> max_i64" by auto
  then show "0 \<le> v" using nn by (simp add: ceil_micro_nonneg)
qed

lemma ceilPrice_total:
  assumes "0 \<le> t" "0 \<le> p" "t * p + 999999 \<le> max_i64"
  shows "ceilPrice t p = Inr (ceil_micro t p)"
proof (cases "t = 0 \<or> p = 0")
  case False
  with assms have "t \<le> (max_i64 - 999999) div p" by (simp add: le_div_iff_mult)
  with False assms have "\<exists>v. ceilPrice t p = Inr v"
    by (auto simp: ceilPrice_def sdiv_nonneg max_i64_def)
  with ceilPrice_Inr show ?thesis by blast
qed (use assms in \<open>auto simp: ceilPrice_def ceil_micro_def\<close>)

lemma reserveAmount_Inr:
  assumes "reserveAmount it ot ip op = Inr v"
  shows "v = ceil_micro it ip + ceil_micro ot op" "0 \<le> v" "v \<le> max_i64"
    "0 \<le> it" "0 \<le> ot" "0 \<le> ip" "0 \<le> op"
proof -
  obtain i out where io: "ceilPrice it ip = Inr i" "ceilPrice ot op = Inr out"
    and le: "i + out \<le> max_i64" and v: "v = wrap64 (i + out)"
    using assms by (auto simp: reserveAmount_def bind_result_Inr split: if_splits)
  note i = ceilPrice_Inr[OF io(1)] and o = ceilPrice_Inr[OF io(2)]
  have "in_i64 (i + out)" using le i(4) o(4) by (simp add: in_i64_nonneg)
  with v i o le show "v = ceil_micro it ip + ceil_micro ot op" "0 \<le> v" "v \<le> max_i64"
    "0 \<le> it" "0 \<le> ot" "0 \<le> ip" "0 \<le> op"
    by simp_all
qed

lemma scaled_price_in_range:
  assumes "0 \<le> p" "0 < r" "p \<le> max_i64 div r"
  shows "wrap64 (p * r) = p * r"
proof -
  have "p * r \<le> max_i64" using assms by (simp add: le_div_iff_mult)
  with assms show ?thesis by (simp add: in_i64_nonneg)
qed

lemma priceWithRate_Inr:
  assumes "priceWithRate p r = Inr v"
  shows "v = p * r div 1000" "0 \<le> p" "0 < r" "0 \<le> v"
proof -
  have c: "0 \<le> p" "0 < r" "p \<le> max_i64 div r"
    using assms by (auto simp: priceWithRate_def sdiv_nonneg max_i64_def split: if_splits)
  with assms show "v = p * r div 1000" "0 \<le> p" "0 < r" "0 \<le> v"
    using scaled_price_in_range[OF c]
    by (auto simp: priceWithRate_def sdiv_nonneg pos_imp_zdiv_nonneg_iff split: if_splits)
qed

text \<open>The price a reservation is computed with is the price the settlement bills with.\<close>

lemma applyRate_priceWithRate:
  assumes "priceWithRate p r = Inr v"
  shows "applyRate (Some p) r = Some v"
proof -
  have c: "0 \<le> p" "0 < r" "p \<le> max_i64 div r"
    using assms by (auto simp: priceWithRate_def sdiv_nonneg max_i64_def split: if_splits)
  have "max_i64 sdiv r = max_i64 div r" using c by (simp add: sdiv_nonneg max_i64_def)
  with c priceWithRate_Inr[OF assms] show ?thesis
    using scaled_price_in_range[OF c] by (auto simp: applyRate_def Let_def sdiv_nonneg)
qed

lemma ceil_micro_by_remainder:
  "(n :: int) div 1000000 + (if n mod 1000000 > 0 then 1 else 0) = (n + 999999) div 1000000"
proof -
  define q r where "q = n div 1000000" and "r = n mod 1000000"
  have n: "n = 1000000 * q + r" and r: "0 \<le> r" "r < 1000000"
    by (simp_all add: q_def r_def)
  show ?thesis
  proof (cases "r = 0")
    case True
    then have "(n + 999999) div 1000000 = q"
      by (intro int_div_pos_eq[where r = 999999]) (simp_all add: n)
    with True show ?thesis by (simp add: q_def r_def)
  next
    case False
    with r have "(n + 999999) div 1000000 = q + 1"
      by (intro int_div_pos_eq[where r = "r - 1"]) (simp_all add: n)
    with False r show ?thesis by (simp add: q_def r_def)
  qed
qed

lemma smod_nonneg: "0 \<le> a \<Longrightarrow> 0 < b \<Longrightarrow> a smod b = a mod (b :: int)"
  by (cases "a = 0") (simp_all add: signed_modulo_int_def sdiv_nonneg minus_div_mult_eq_mod)

lemma pricePart_eq: "pricePart t p = min max_i64 (charge t p)"
proof (cases "t \<le> 0 \<or> p \<le> 0")
  case False
  define n where "n = t * p"
  have n: "0 < n" using False by (simp add: n_def)
  have r: "(if n mod 1000000 > 0 then n div 1000000 + 1 else n div 1000000) = ceil_micro t p"
    using ceil_micro_by_remainder[of n] by (simp add: ceil_micro_def n_def split: if_splits)
  have "0 \<le> ceil_micro t p" using False by (simp add: ceil_micro_nonneg)
  with False n r show ?thesis
    by (auto simp: pricePart_def Let_def charge_def n_def[symmetric] sdiv_nonneg smod_nonneg
        in_i64_nonneg min_def)
qed (auto simp: pricePart_def charge_def max_i64_def)

lemma charge_nonneg: "0 \<le> charge t p"
  by (simp add: charge_def ceil_micro_nonneg)

lemma add_parts_eq:
  assumes "0 \<le> acc" "acc \<le> max_i64" "\<forall>x \<in> set cs. 0 \<le> x"
  shows "add_parts (map (min max_i64) cs) acc = min max_i64 (acc + sum_list cs)"
  using assms
proof (induction cs arbitrary: acc)
  case (Cons c cs)
  have s: "0 \<le> sum_list cs" using Cons.prems(3) by (auto intro: sum_list_nonneg)
  show ?case
  proof (cases "min max_i64 c \<le> max_i64 - acc")
    case True
    define part where "part = min max_i64 c"
    have part: "0 \<le> part" "acc + part \<le> max_i64" "part = c \<or> c > max_i64 \<and> acc = 0 \<and> part = max_i64"
      using True Cons.prems by (auto simp: part_def min_def)
    then have "wrap64 (acc + part) = acc + part" using Cons.prems by (simp add: in_i64_nonneg)
    then have "add_parts (map (min max_i64) (c # cs)) acc = add_parts (map (min max_i64) cs) (acc + part)"
      using part(2) by (simp add: part_def[symmetric])
    also have "\<dots> = min max_i64 (acc + part + sum_list cs)"
      using part Cons.prems by (intro Cons.IH) auto
    finally show ?thesis using part(3) s by (auto simp: add.assoc)
  next
    case False
    moreover have "min max_i64 c \<le> c" by simp
    ultimately have "acc + (c + sum_list cs) \<ge> max_i64" using s by linarith
    with False show ?thesis by (simp add: min_def)
  qed
qed simp

text \<open>The billed amount is the saturated sum of the three rounded-up parts.\<close>

lemma PriceUsage_eq:
  "PriceUsage usage model = min max_i64
     (charge (PromptTokens usage - billable_cached usage) (valueOrZero (m_input_price model)) +
      charge (billable_cached usage) (case m_cached_price model of None \<Rightarrow> valueOrZero (m_input_price model) | Some c \<Rightarrow> c) +
      charge (CompletionTokens usage) (valueOrZero (m_output_price model)))"
proof -
  define cs where "cs = [charge (PromptTokens usage - billable_cached usage) (valueOrZero (m_input_price model)),
     charge (billable_cached usage) (case m_cached_price model of None \<Rightarrow> valueOrZero (m_input_price model) | Some c \<Rightarrow> c),
     charge (CompletionTokens usage) (valueOrZero (m_output_price model))]"
  have "PriceUsage usage model = add_parts (map (min max_i64) cs) 0"
    by (simp only: PriceUsage_def Let_def pricePart_eq cs_def list.map)
  also have "\<dots> = min max_i64 (0 + sum_list cs)"
    by (rule add_parts_eq) (auto simp: cs_def charge_nonneg max_i64_def)
  finally show ?thesis by (simp add: cs_def add.assoc)
qed

lemma charge_le_ceil:
  assumes "t \<le> t'" "p \<le> p'" "0 \<le> t'" "0 \<le> p'"
  shows "charge t p \<le> ceil_micro t' p'"
  using assms ceil_micro_mono[of t t' p p'] ceil_micro_nonneg[of t' p'] by (auto simp: charge_def)

lemma charge_split:
  assumes "0 \<le> c" "c \<le> n" "p' \<le> p" "0 \<le> p"
  shows "charge (n - c) p + charge c p' \<le> ceil_micro n p + 1"
proof -
  have "charge (n - c) p \<le> ceil_micro (n - c) p" "charge c p' \<le> ceil_micro c p"
    using assms by (intro charge_le_ceil; simp)+
  with ceil_micro_split[of "n - c" p c] show ?thesis by simp
qed

section \<open>Estimates\<close>

lemma tokenMilli_bounds: "286 \<le> tokenMilli r" "tokenMilli r \<le> 1250"
  by (simp_all add: tokenMilli_def milliPerWideToken_def milliPerNarrowChar_def)

lemma text_milli_bounds: "286 * int (length s) \<le> text_milli s" "text_milli s \<le> 1250 * int (length s)"
proof -
  have "286 * int (length s) \<le> text_milli s \<and> text_milli s \<le> 1250 * int (length s)"
  proof (induction s)
    case (Cons r s)
    with tokenMilli_bounds[of r] show ?case by (auto simp: text_milli_def)
  qed (simp add: text_milli_def)
  then show "286 * int (length s) \<le> text_milli s" "text_milli s \<le> 1250 * int (length s)" by auto
qed

lemma text_milli_nonneg: "0 \<le> text_milli s"
  using text_milli_bounds(1)[of s] by simp

lemma estimate_ge_overhead: "in_InputTokens inp \<le> 0 \<Longrightarrow> 4 \<le> estimateInputTokens inp"
  using sum_by_nonneg[of _ text_milli] text_milli_nonneg
  by (auto simp: estimateInputTokens_def Let_def perRequestOverheadTokens_def sdiv_nonneg
      pos_imp_zdiv_nonneg_iff)

lemma estimate_pos: "0 < estimateInputTokens inp"
  using estimate_ge_overhead[of inp] by (cases "in_InputTokens inp \<le> 0") (auto simp: estimateInputTokens_def)

end
