(* ===== verification/Ledger.thy ===== *)
theory Ledger
  imports Pricing "HOL-Library.Multiset"
begin

text \<open>
  Reservations: \<open>internal/store/ledger.go\<close>. \<open>ReserveRequest\<close> runs in one \<open>BEGIN IMMEDIATE\<close>
  transaction under the store's reservation mutex, so it is one function from the database to
  either an error (the transaction is rolled back and the database is the old one) or the new
  database with the reservation. Its stages are separate definitions in the order of the source.

  The 5-hour query compares \<open>julianday(created_at_utc)\<close>, a number, with its upper bound as text:
  SQLite orders every number below every text, so that bound excludes nothing. The daily and
  weekly queries compare timestamp texts; the period and the request-rate queries compare
  Julian days.
\<close>

section \<open>Usage sums\<close>

definition counted_status :: "string \<Rightarrow> bool" where
  "counted_status s \<longleftrightarrow> s \<in> {''reserved'', ''completed'', ''failed'', ''aborted''}"

definition row_tokens :: "KeyReservation \<Rightarrow> int" where
  "row_tokens r = r_reserved_tokens r + r_charged_tokens r"

definition row_amount :: "KeyReservation \<Rightarrow> int" where
  "row_amount r = r_charged_amount r + r_reserved_amount r"

definition sum_usage :: "KeyReservation list \<Rightarrow> store_error + int \<times> int" where
  "sum_usage rows =
     (if sum_by row_tokens rows > max_i64 \<or> sum_by row_amount rows > max_i64 then Inl ErrIntegerOverflow
      else Inr (sum_by row_tokens rows, sum_by row_amount rows))"

definition window_rows :: "(KeyReservation \<Rightarrow> bool) \<Rightarrow> db \<Rightarrow> KeyReservation list" where
  "window_rows P db =
     filter (\<lambda>r. r_request_id r \<noteq> None \<and> counted_status (r_status r) \<and> P r) (db_reservations db)"

definition windowUsage :: "(KeyReservation \<Rightarrow> bool) \<Rightarrow> db \<Rightarrow> store_error + int \<times> int" where
  "windowUsage P db = sum_usage (window_rows P db)"

definition key_rows :: "int \<Rightarrow> db \<Rightarrow> KeyReservation list" where
  "key_rows keyID db = filter (\<lambda>r. r_key_id r = keyID \<and> counted_status (r_status r)) (db_reservations db)"

section \<open>Window predicates\<close>

definition five_hours_ms :: int where "five_hours_ms = 18000000"
definition sixty_seconds_ms :: int where "sixty_seconds_ms = 60000"

definition in_5h :: "platform \<Rightarrow> gotime \<Rightarrow> int \<Rightarrow> KeyReservation \<Rightarrow> bool" where
  "in_5h plat started groupID r \<longleftrightarrow>
     julianday_ms plat (r_created r) \<ge> julianday_ms plat started - five_hours_ms \<and> r_group_id r = groupID"

definition in_day :: "int \<Rightarrow> gotime \<Rightarrow> int \<Rightarrow> KeyReservation \<Rightarrow> bool" where
  "in_day date started groupID r \<longleftrightarrow>
     r_billing_date r = date \<and> rfc3339nano (r_created r) \<le> rfc3339nano started \<and> r_group_id r = groupID"

definition in_week :: "bool \<Rightarrow> zoned \<Rightarrow> gotime \<Rightarrow> int \<Rightarrow> KeyReservation \<Rightarrow> bool" where
  "in_week strict weekStart started groupID r \<longleftrightarrow>
     (if strict then rfc3339nano (r_created r) > zoned_text weekStart
      else rfc3339nano (r_created r) \<ge> zoned_text weekStart) \<and>
     rfc3339nano (r_created r) \<le> rfc3339nano started \<and> r_group_id r = groupID"

text \<open>
  SQLite's \<open>julianday\<close> of the text of an instant in a zone is null, and a comparison with it fails, when the
  text has a year of five digits, an offset of fifteen hours or more, or a day before day 0 of
  its calendar.
\<close>

definition julian_dated :: "int \<Rightarrow> gotime \<Rightarrow> bool" where
  "julian_dated zone t \<longleftrightarrow> \<bar>zone\<bar> < 54000 \<and> - 210866760000 * second_ns \<le> t \<and> t < 253402300800 * second_ns \<and>
     t + zone * second_ns < 253402300800 * second_ns"

definition in_period_range :: "platform \<Rightarrow> QuotaLimits \<Rightarrow> KeyReservation \<Rightarrow> bool" where
  "in_period_range plat limits r \<longleftrightarrow>
     julian_dated (PeriodZone limits) (PeriodStart limits) \<and>
     julianday_ms plat (r_created r) \<ge> julianday_ms plat (PeriodStart limits) \<and>
     julian_dated (PeriodZone limits) (periodEnd limits) \<and>
     julianday_ms plat (r_created r) < julianday_ms plat (periodEnd limits)"

definition in_period :: "platform \<Rightarrow> QuotaLimits \<Rightarrow> int \<Rightarrow> gotime \<Rightarrow> KeyReservation \<Rightarrow> bool" where
  "in_period plat limits groupID started r \<longleftrightarrow> r_group_id r = groupID \<and>
     in_period_range plat limits r \<and> julianday_ms plat (r_created r) \<le> julianday_ms plat started"

section \<open>The custom period\<close>

definition period_exhausted :: "QuotaLimits \<Rightarrow> int \<Rightarrow> int \<Rightarrow> bool" where
  "period_exhausted limits tokens amount \<longleftrightarrow>
     TokenPeriod limits > 0 \<and> tokens \<ge> TokenPeriod limits \<or>
     AmountPeriod limits > 0 \<and> amount \<ge> AmountPeriod limits"

text \<open>The rows of the running-total query, scanned until the running total reaches a limit.\<close>

fun scan_period :: "QuotaLimits \<Rightarrow> KeyReservation list \<Rightarrow> int \<Rightarrow> int \<Rightarrow> gotime option" where
  "scan_period limits [] tokens amount = None"
| "scan_period limits (r # rows) tokens amount =
     (let tokens' = tokens + row_tokens r; amount' = amount + row_amount r
      in if period_exhausted limits tokens' amount' then Some (r_created r)
         else scan_period limits rows tokens' amount')"

definition by_created :: "KeyReservation list \<Rightarrow> KeyReservation list" where
  "by_created rows = sort_key (\<lambda>r. (rfc3339nano (r_created r), r_id r)) rows"

definition periodQuotaTransition ::
  "platform \<Rightarrow> QuotaLimits \<Rightarrow> int \<Rightarrow> gotime \<Rightarrow> db \<Rightarrow> store_error + gotime \<times> int \<times> int" where
  "periodQuotaTransition plat limits groupID started db =
     (if PeriodDays limits \<le> 0 \<or> is_zero_time (PeriodStart limits) then Inr (zero_time, 0, 0)
      else bind_result (windowUsage (in_period plat limits groupID started) db) (\<lambda>(usedTokens, usedAmount).
        if (TokenPeriod limits \<le> 0 \<or> usedTokens < TokenPeriod limits) \<and>
           (AmountPeriod limits \<le> 0 \<or> usedAmount < AmountPeriod limits)
        then Inr (zero_time, usedTokens, usedAmount)
        else (case scan_period limits (by_created (window_rows (in_period plat limits groupID started) db)) 0 0 of
                Some t \<Rightarrow> Inr (t, usedTokens, usedAmount)
              | None \<Rightarrow> Inr (zero_time, usedTokens, usedAmount))))"

section \<open>The stages of ReserveRequest\<close>

definition coalesce0 :: "int option \<Rightarrow> int" where
  "coalesce0 v = (case v of None \<Rightarrow> 0 | Some n \<Rightarrow> n)"

definition period_start_of :: "platform \<Rightarrow> ModelGroup \<Rightarrow> zoned" where
  "period_start_of plat g =
     (case g_period_start g of None \<Rightarrow> (zero_time, 0)
      | Some raw \<Rightarrow> if raw = [] then (zero_time, 0)
          else (case parse_rfc3339 plat raw of None \<Rightarrow> (zero_time, 0) | Some t \<Rightarrow> t))"

definition group_limits :: "platform \<Rightarrow> int \<Rightarrow> ModelGroup option \<Rightarrow> QuotaLimits" where
  "group_limits plat rpm g =
     (case g of
        None \<Rightarrow> \<lparr>RPMLimit = rpm, Token5H = 0, TokenDaily = 0, TokenWeekly = 0, Amount5H = 0,
          AmountDaily = 0, AmountWeekly = 0, TokenPeriod = 0, AmountPeriod = 0,
          PeriodStart = zero_time, PeriodZone = 0, PeriodDays = 0\<rparr>
      | Some g \<Rightarrow> \<lparr>RPMLimit = rpm, Token5H = coalesce0 (g_token_5h g), TokenDaily = coalesce0 (g_token_daily g),
          TokenWeekly = coalesce0 (g_token_weekly g), Amount5H = coalesce0 (g_amount_5h g),
          AmountDaily = coalesce0 (g_amount_daily g), AmountWeekly = coalesce0 (g_amount_weekly g),
          TokenPeriod = coalesce0 (g_token_period g), AmountPeriod = coalesce0 (g_amount_period g),
          PeriodStart = fst (period_start_of plat g), PeriodZone = snd (period_start_of plat g),
          PeriodDays = coalesce0 (g_period_days g)\<rparr>)"

record reserve_plan =
  rp_inputTokens :: int
  rp_outputTokens :: int
  rp_reservedTokens :: int
  rp_started :: gotime

definition reserve_validate :: "gotime \<Rightarrow> ReserveInput \<Rightarrow> store_error + reserve_plan" where
  "reserve_validate now inp =
     bind_result (reject_when (trim_space (in_RequestID inp) = [] \<or> in_KeyID inp \<le> 0 \<or>
         in_ModelID inp \<le> 0 \<or> in_ProviderID inp \<le> 0) (ErrText ''request metadata is required'')) (\<lambda>_.
     let started = (if is_zero_time (in_StartedAt inp) then now else in_StartedAt inp) in
     bind_result (reject_when (in_InputTokens inp < 0) (ErrText ''input token estimate must be non-negative'')) (\<lambda>_.
     let inputTokens = estimateInputTokens inp;
         outputTokens = (if in_OutputTokenCeiling inp \<le> 0 then in_MaxOutputTokens inp else in_OutputTokenCeiling inp) in
     bind_result (reject_when (outputTokens \<le> 0) (ErrText ''output token ceiling must be positive'')) (\<lambda>_.
     let reservedTokens = wrap64 (inputTokens + outputTokens) in
     bind_result (reject_when (reservedTokens < inputTokens) (ErrText ''reservation token overflow'')) (\<lambda>_.
     bind_result (reject_when (RPMLimit (in_Limits inp) \<le> 0) (ErrText ''rpm_limit must be positive'')) (\<lambda>_.
     Inr \<lparr>rp_inputTokens = inputTokens, rp_outputTokens = outputTokens,
          rp_reservedTokens = reservedTokens, rp_started = started\<rparr>)))))"

definition active_for_key :: "int \<Rightarrow> db \<Rightarrow> int" where
  "active_for_key keyID db =
     int (length (filter (\<lambda>r. r_key_id r = keyID \<and> r_status r = ''reserved'') (db_reservations db)))"

definition key_group :: "ClientKey \<Rightarrow> db \<Rightarrow> ModelGroup option" where
  "key_group k db = (case k_group_id k of None \<Rightarrow> None | Some i \<Rightarrow> tbl_find g_id i (db_groups db))"

definition reserve_key :: "db \<Rightarrow> ReserveInput \<Rightarrow> store_error + ClientKey \<times> ModelGroup option" where
  "reserve_key db inp =
     bind_result (require_some (tbl_find k_id (in_KeyID inp) (db_keys db)) ErrNoRows) (\<lambda>k.
     bind_result (reject_when (\<not> k_enabled k) (ErrText ''client key is disabled'')) (\<lambda>_.
     bind_result (reject_when (active_for_key (in_KeyID inp) db \<ge> k_concurrency k)
       (ErrQuota \<lparr>qe_code = ''concurrency_exceeded'', qe_scope = [], qe_metric = [], qe_used = 0,
          qe_limit = 0, qe_group = [], qe_group_id = 0\<rparr>)) (\<lambda>_.
     bind_result (reject_when (coalesce0 (k_group_id k) = 0) (ErrText ''model is not authorized for key'')) (\<lambda>_.
     Inr (k, key_group k db)))))"

record price_quote =
  pq_input :: int
  pq_output :: int
  pq_cached :: int
  pq_rate :: int

definition authorized_in_group :: "db \<Rightarrow> ModelGroup \<Rightarrow> Model \<Rightarrow> bool" where
  "authorized_in_group db g m \<longleftrightarrow> g_enabled g \<and> m_enabled m \<and>
     m_input_price m \<noteq> None \<and> m_output_price m \<noteq> None \<and>
     (g_id g, m_provider_id m) \<in> set (db_group_providers db) \<and>
     (case tbl_find p_id (m_provider_id m) (db_providers db) of None \<Rightarrow> False | Some p \<Rightarrow> p_enabled p)"

definition find_quote :: "db \<Rightarrow> int \<Rightarrow> ModelGroup \<Rightarrow> store_error + price_quote" where
  "find_quote db modelID g =
     bind_result (require_some (tbl_find m_id modelID (db_models db)) ErrNoRows) (\<lambda>m.
     if authorized_in_group db g m
     then Inr \<lparr>pq_input = coalesce0 (m_input_price m), pq_output = coalesce0 (m_output_price m),
               pq_cached = (case m_cached_price m of None \<Rightarrow> coalesce0 (m_input_price m) | Some c \<Rightarrow> c),
               pq_rate = g_rate_milli g\<rparr>
     else Inl ErrNoRows)"

definition reserve_amount_for :: "price_quote \<Rightarrow> reserve_plan \<Rightarrow> store_error + int" where
  "reserve_amount_for q plan =
     bind_result (priceWithRate (pq_input q) (pq_rate q)) (\<lambda>effectiveInput.
     bind_result (priceWithRate (pq_output q) (pq_rate q)) (\<lambda>effectiveOutput.
     bind_result (priceWithRate (pq_cached q) (pq_rate q)) (\<lambda>_.
     reserveAmount (rp_inputTokens plan) (rp_outputTokens plan) effectiveInput effectiveOutput)))"

definition rpm_used :: "platform \<Rightarrow> gotime \<Rightarrow> db \<Rightarrow> int" where
  "rpm_used plat started db =
     int (length (filter (\<lambda>q. julianday_ms plat (q_created q) \<ge> julianday_ms plat started - sixty_seconds_ms \<and>
        julianday_ms plat (q_created q) \<le> julianday_ms plat started) (db_requests db)))"

definition check_rpm :: "platform \<Rightarrow> db \<Rightarrow> QuotaLimits \<Rightarrow> gotime \<Rightarrow> store_error + unit" where
  "check_rpm plat db limits started =
     (let rpm = rpm_used plat started db in
      reject_when (rpm \<ge> RPMLimit limits)
        (ErrQuota \<lparr>qe_code = ''rpm_exceeded'', qe_scope = ''rpm'', qe_metric = ''requests'', qe_used = rpm,
           qe_limit = RPMLimit limits, qe_group = [], qe_group_id = 0\<rparr>))"

definition overdrawn :: "string \<Rightarrow> string \<Rightarrow> string \<Rightarrow> int \<Rightarrow> int \<Rightarrow> ModelGroup \<Rightarrow> store_error + unit" where
  "overdrawn metric scope code used limit g =
     reject_when (limit > 0 \<and> used \<ge> limit)
       (ErrQuota \<lparr>qe_code = code, qe_scope = scope, qe_metric = metric, qe_used = used, qe_limit = limit,
          qe_group = g_name g, qe_group_id = g_id g\<rparr>)"

definition check_window ::
  "string \<Rightarrow> ModelGroup \<Rightarrow> int \<times> int \<Rightarrow> int \<Rightarrow> int \<Rightarrow> store_error + unit" where
  "check_window scope g used tokenLimit amountLimit =
     bind_result (overdrawn ''tokens'' scope ''token_quota_exceeded'' (fst used) tokenLimit g) (\<lambda>_.
     overdrawn ''amount'' scope ''amount_quota_exceeded'' (snd used) amountLimit g)"

definition check_5h_day ::
  "platform \<Rightarrow> db \<Rightarrow> QuotaLimits \<Rightarrow> ModelGroup \<Rightarrow> gotime \<Rightarrow> store_error + unit" where
  "check_5h_day plat db limits g started =
     bind_result (windowUsage (in_5h plat started (g_id g)) db) (\<lambda>used.
     bind_result (check_window ''5h'' g used (Token5H limits) (Amount5H limits)) (\<lambda>_.
     bind_result (windowUsage (in_day (billingDate started) started (g_id g)) db) (\<lambda>used.
     check_window ''daily'' g used (TokenDaily limits) (AmountDaily limits))))"

text \<open>
  Which weekly window applies: whether the custom period covers the request instead, where the
  window starts, and whether its start is excluded (after a hand-over from an exhausted period).
\<close>

definition weekly_scope ::
  "platform \<Rightarrow> db \<Rightarrow> QuotaLimits \<Rightarrow> ModelGroup \<Rightarrow> gotime \<Rightarrow> store_error + bool \<times> zoned \<times> bool" where
  "weekly_scope plat db limits g started =
     (case weeklyWindowStart started limits of (weekStartTime, active) \<Rightarrow>
        if active then
           bind_result (periodQuotaTransition plat limits (g_id g) started db) (\<lambda>(transition, periodTokens, periodAmount).
           if \<not> is_zero_time transition then Inr (False, (transition, 0), True)
           else bind_result (check_window ''period'' g (periodTokens, periodAmount) (TokenPeriod limits) (AmountPeriod limits)) (\<lambda>_.
             Inr (True, weekStartTime, False)))
        else Inr (False, weekStartTime, False))"

definition check_period_week ::
  "platform \<Rightarrow> db \<Rightarrow> QuotaLimits \<Rightarrow> ModelGroup \<Rightarrow> gotime \<Rightarrow> store_error + unit" where
  "check_period_week plat db limits g started =
     bind_result (weekly_scope plat db limits g started) (\<lambda>(activePeriod, weekStart, strict).
     bind_result (windowUsage (in_week strict weekStart started (g_id g)) db) (\<lambda>used.
     if activePeriod then Inr ()
     else check_window ''weekly'' g used (TokenWeekly limits) (AmountWeekly limits)))"

definition check_key_quota :: "db \<Rightarrow> ClientKey \<Rightarrow> ModelGroup \<Rightarrow> store_error + unit" where
  "check_key_quota db k g =
     bind_result (sum_usage (key_rows (k_id k) db)) (\<lambda>(keyTokens, keyAmount).
     bind_result (case k_token_limit k of None \<Rightarrow> Inr ()
        | Some l \<Rightarrow> overdrawn ''tokens'' ''key'' ''key_token_quota_exceeded'' keyTokens l g) (\<lambda>_.
     case k_amount_limit k of None \<Rightarrow> Inr ()
        | Some l \<Rightarrow> overdrawn ''amount'' ''key'' ''key_amount_quota_exceeded'' keyAmount l g))"

definition new_request_row :: "ReserveInput \<Rightarrow> reserve_plan \<Rightarrow> price_quote \<Rightarrow> int \<Rightarrow> int \<Rightarrow> RequestRow" where
  "new_request_row inp plan q groupID amount =
     \<lparr>q_id = 0, q_request_id = in_RequestID inp, q_key_id = Some (in_KeyID inp), q_model_id = Some (in_ModelID inp),
      q_provider_id = Some (in_ProviderID inp), q_group_id = groupID, q_status = ''reserved'',
      q_input_tokens = rp_inputTokens plan, q_output_tokens = 0, q_cached_tokens = 0, q_amount = amount,
      q_reserved_tokens = rp_reservedTokens plan, q_charged_tokens = 0, q_upstream_status = None,
      q_streamed = in_Stream inp, q_billing_date = billingDate (rp_started plan), q_created = rp_started plan,
      q_finished = None, q_error_code = [], q_failure_stage = [], q_usage_source = ''unknown'',
      q_protocol = ''chat'', q_client_request_id = [], q_incomplete_reason = [], q_duration_ms = None,
      q_header_ms = None, q_first_event_ms = None, q_last_upstream_ms = None, q_quote_input = Some (pq_input q),
      q_quote_output = Some (pq_output q), q_quote_cached = Some (pq_cached q), q_quote_rate = Some (pq_rate q)\<rparr>"

definition new_reservation_row :: "ReserveInput \<Rightarrow> reserve_plan \<Rightarrow> int \<Rightarrow> int \<Rightarrow> KeyReservation" where
  "new_reservation_row inp plan groupID amount =
     \<lparr>r_id = 0, r_request_id = Some (in_RequestID inp), r_billing_date = billingDate (rp_started plan),
      r_key_id = in_KeyID inp, r_model_id = in_ModelID inp, r_group_id = groupID,
      r_reserved_tokens = rp_reservedTokens plan, r_reserved_amount = amount, r_charged_tokens = 0,
      r_charged_amount = 0, r_status = ''reserved'', r_created = rp_started plan, r_finished = None\<rparr>"

definition insert_request :: "RequestRow \<Rightarrow> RequestRow list \<Rightarrow> RequestRow list" where
  "insert_request row rows = tbl_insert q_id (\<lambda>i. q_id_update (\<lambda>_. i)) row rows"

definition insert_reservation :: "KeyReservation \<Rightarrow> KeyReservation list \<Rightarrow> KeyReservation list" where
  "insert_reservation row rows = tbl_insert r_id (\<lambda>i. r_id_update (\<lambda>_. i)) row rows"

definition reserve_insert ::
  "db \<Rightarrow> ReserveInput \<Rightarrow> reserve_plan \<Rightarrow> price_quote \<Rightarrow> int \<Rightarrow> int \<Rightarrow> store_error + db \<times> RequestReservation" where
  "reserve_insert db inp plan q groupID amount =
     bind_result (reject_when (in_RequestID inp \<in> q_request_id ` set (db_requests db))
        (ErrConstraint ''UNIQUE constraint failed: requests.request_id'')) (\<lambda>_.
     bind_result (reject_when (\<not> refers p_id (db_providers db) (in_ProviderID inp))
        (ErrConstraint ''FOREIGN KEY constraint failed'')) (\<lambda>_.
     Inr (db\<lparr>db_requests := insert_request (new_request_row inp plan q groupID amount) (db_requests db),
             db_reservations := insert_reservation (new_reservation_row inp plan groupID amount) (db_reservations db)\<rparr>,
          \<lparr>res_ID = tbl_next q_id (db_requests db), res_KeyReservationID = tbl_next r_id (db_reservations db),
           res_ModelID = in_ModelID inp, res_RequestID = in_RequestID inp, res_StartedAt = rp_started plan,
           res_InputTokens = rp_inputTokens plan, res_ReservedTokens = rp_reservedTokens plan,
           res_ReservedAmount = amount, res_QuoteInput = pq_input q, res_QuoteOutput = pq_output q,
           res_QuoteCached = pq_cached q, res_QuoteRate = pq_rate q\<rparr>)))"

definition ReserveRequest ::
  "platform \<Rightarrow> gotime \<Rightarrow> db \<Rightarrow> ReserveInput \<Rightarrow> store_error + db \<times> RequestReservation" where
  "ReserveRequest plat now db inp =
     bind_result (reserve_validate now inp) (\<lambda>plan.
     bind_result (reserve_key db inp) (\<lambda>(k, found).
     let limits = group_limits plat (RPMLimit (in_Limits inp)) found in
     bind_result (require_some found ErrNoRows) (\<lambda>g.
     bind_result (find_quote db (in_ModelID inp) g) (\<lambda>q.
     bind_result (reserve_amount_for q plan) (\<lambda>amount.
     bind_result (check_rpm plat db limits (rp_started plan)) (\<lambda>_.
     bind_result (check_5h_day plat db limits g (rp_started plan)) (\<lambda>_.
     bind_result (check_period_week plat db limits g (rp_started plan)) (\<lambda>_.
     bind_result (check_key_quota db k g) (\<lambda>_.
     reserve_insert db inp plan q (g_id g) amount)))))))))"

definition OccupiedTokens :: "platform \<Rightarrow> gotime \<Rightarrow> db \<Rightarrow> int" where
  "OccupiedTokens plat startedAt db =
     (let used = sum_by row_tokens (window_rows (\<lambda>r.
        julianday_ms plat (r_created r) \<ge> julianday_ms plat startedAt - five_hours_ms \<and>
        julianday_ms plat (r_created r) \<le> julianday_ms plat startedAt) db)
      in if used > max_i64 then 0 else used)"

section \<open>What the stages establish\<close>

definition within_limit :: "int \<Rightarrow> int \<Rightarrow> bool" where
  "within_limit used limit \<longleftrightarrow> limit \<le> 0 \<or> used < limit"

abbreviation window_tokens :: "(KeyReservation \<Rightarrow> bool) \<Rightarrow> db \<Rightarrow> int" where
  "window_tokens P db \<equiv> sum_by row_tokens (window_rows P db)"

abbreviation window_amount :: "(KeyReservation \<Rightarrow> bool) \<Rightarrow> db \<Rightarrow> int" where
  "window_amount P db \<equiv> sum_by row_amount (window_rows P db)"

lemma sum_usage_Inr: "sum_usage rows = Inr u \<Longrightarrow> u = (sum_by row_tokens rows, sum_by row_amount rows)"
  by (auto simp: sum_usage_def split: if_splits)

lemma windowUsage_Inr: "windowUsage P db = Inr u \<Longrightarrow> u = (window_tokens P db, window_amount P db)"
  unfolding windowUsage_def by (rule sum_usage_Inr)

lemma overdrawn_Inr [simp]: "overdrawn metric scope code used limit g = Inr u \<longleftrightarrow> within_limit used limit"
  by (auto simp: overdrawn_def within_limit_def)

lemma check_window_Inr [simp]:
  "check_window scope g used tlim alim = Inr u \<longleftrightarrow> within_limit (fst used) tlim \<and> within_limit (snd used) alim"
  by (auto simp: check_window_def bind_result_Inr)

lemma check_window_scope:
  "check_window scope g used tlim alim = Inl e \<Longrightarrow> \<exists>qe. e = ErrQuota qe \<and> qe_scope qe = scope"
  by (auto simp: check_window_def bind_result_Inl overdrawn_def)

lemma ReserveRequest_InrE:
  assumes "ReserveRequest plat now db inp = Inr (db', res)"
  obtains plan k g q amount where
    "reserve_validate now inp = Inr plan" "reserve_key db inp = Inr (k, Some g)"
    "find_quote db (in_ModelID inp) g = Inr q" "reserve_amount_for q plan = Inr amount"
    "check_rpm plat db (group_limits plat (RPMLimit (in_Limits inp)) (Some g)) (rp_started plan) = Inr ()"
    "check_5h_day plat db (group_limits plat (RPMLimit (in_Limits inp)) (Some g)) g (rp_started plan) = Inr ()"
    "check_period_week plat db (group_limits plat (RPMLimit (in_Limits inp)) (Some g)) g (rp_started plan) = Inr ()"
    "check_key_quota db k g = Inr ()" "reserve_insert db inp plan q (g_id g) amount = Inr (db', res)"
  using assms by (auto simp: ReserveRequest_def Let_def bind_result_Inr split: prod.splits)

lemma reserve_validate_Inr:
  assumes "reserve_validate now inp = Inr plan"
  shows "rp_inputTokens plan = estimateInputTokens inp" "0 < rp_inputTokens plan" "0 < rp_outputTokens plan"
    "rp_outputTokens plan = (if in_OutputTokenCeiling inp \<le> 0 then in_MaxOutputTokens inp else in_OutputTokenCeiling inp)"
    "rp_inputTokens plan \<le> rp_reservedTokens plan"
    "rp_reservedTokens plan = wrap64 (rp_inputTokens plan + rp_outputTokens plan)"
    "rp_started plan = (if is_zero_time (in_StartedAt inp) then now else in_StartedAt inp)"
    "0 < in_KeyID inp" "0 < in_ModelID inp" "0 < in_ProviderID inp" "0 < RPMLimit (in_Limits inp)"
  using assms estimate_pos[of inp]
  by (auto simp: reserve_validate_def Let_def bind_result_Inr not_less not_le)

lemma reserve_key_Inr:
  assumes "reserve_key db inp = Inr (k, found)"
  shows "tbl_find k_id (in_KeyID inp) (db_keys db) = Some k" "k_enabled k"
    "active_for_key (in_KeyID inp) db < k_concurrency k" "found = key_group k db" "k_id k = in_KeyID inp"
    "k \<in> set (db_keys db)"
proof -
  show f: "tbl_find k_id (in_KeyID inp) (db_keys db) = Some k" and "k_enabled k"
    "active_for_key (in_KeyID inp) db < k_concurrency k" "found = key_group k db"
    using assms by (auto simp: reserve_key_def bind_result_Inr)
  from tbl_find_Some[OF f] show "k_id k = in_KeyID inp" "k \<in> set (db_keys db)" by auto
qed

lemma key_group_Some:
  "key_group k db = Some g \<longleftrightarrow> k_group_id k = Some (g_id g) \<and> tbl_find g_id (g_id g) (db_groups db) = Some g"
  by (auto simp: key_group_def split: option.splits dest: tbl_find_Some)

lemma find_quote_Inr:
  assumes "find_quote db modelID g = Inr q"
  obtains m where "tbl_find m_id modelID (db_models db) = Some m" "authorized_in_group db g m"
    "pq_input q = coalesce0 (m_input_price m)" "pq_output q = coalesce0 (m_output_price m)" "pq_rate q = g_rate_milli g"
  using assms by (auto simp: find_quote_def bind_result_Inr split: if_splits)

lemma reserve_amount_for_Inr:
  assumes "reserve_amount_for q plan = Inr amount"
  shows "amount = ceil_micro (rp_inputTokens plan) (pq_input q * pq_rate q div 1000) +
      ceil_micro (rp_outputTokens plan) (pq_output q * pq_rate q div 1000)" "0 \<le> amount" "amount \<le> max_i64"
proof -
  obtain i out where pr: "priceWithRate (pq_input q) (pq_rate q) = Inr i" "priceWithRate (pq_output q) (pq_rate q) = Inr out"
    and am: "reserveAmount (rp_inputTokens plan) (rp_outputTokens plan) i out = Inr amount"
    using assms by (auto simp: reserve_amount_for_def bind_result_Inr)
  with reserveAmount_Inr[OF am] priceWithRate_Inr[OF pr(1)] priceWithRate_Inr[OF pr(2)]
  show "amount = ceil_micro (rp_inputTokens plan) (pq_input q * pq_rate q div 1000) +
      ceil_micro (rp_outputTokens plan) (pq_output q * pq_rate q div 1000)" "0 \<le> amount" "amount \<le> max_i64"
    by simp_all
qed

lemma reserve_insert_Inr:
  assumes "reserve_insert db inp plan q gid amount = Inr (db', res)"
  shows "db' = db\<lparr>db_requests := insert_request (new_request_row inp plan q gid amount) (db_requests db),
             db_reservations := insert_reservation (new_reservation_row inp plan gid amount) (db_reservations db)\<rparr>"
    "res_ID res = tbl_next q_id (db_requests db)" "res_KeyReservationID res = tbl_next r_id (db_reservations db)"
    "res_ReservedAmount res = amount" "res_ReservedTokens res = rp_reservedTokens plan"
    "in_RequestID inp \<notin> q_request_id ` set (db_requests db)" "refers p_id (db_providers db) (in_ProviderID inp)"
    "res_RequestID res = in_RequestID inp" "res_InputTokens res = rp_inputTokens plan" "res_ModelID res = in_ModelID inp"
    "res_QuoteInput res = pq_input q" "res_QuoteOutput res = pq_output q" "res_QuoteCached res = pq_cached q"
    "res_QuoteRate res = pq_rate q"
  using assms by (auto simp: reserve_insert_def bind_result_Inr)

section \<open>The custom period never refuses\<close>

lemma scan_period_None:
  "scan_period limits rows t a = None \<Longrightarrow> rows \<noteq> [] \<Longrightarrow>
   \<not> period_exhausted limits (t + sum_by row_tokens rows) (a + sum_by row_amount rows)"
proof (induction rows arbitrary: t a)
  case (Cons r rows)
  then show ?case
    using Cons.IH[of "t + row_tokens r" "a + row_amount r"]
    by (cases "rows = []") (auto simp: Let_def add.assoc split: if_splits)
qed simp

lemma sum_by_sort: "sum_by f (sort_key k rows) = sum_by f rows"
  unfolding sum_by_def by (metis mset_map mset_sort sum_mset_sum_list)

lemma periodQuotaTransition_zero:
  assumes run: "periodQuotaTransition plat limits gid started db = Inr (t, tokens, amount)"
    and z: "is_zero_time t" and created: "\<forall>r \<in> set (db_reservations db). \<not> is_zero_time (r_created r)"
  shows "\<not> period_exhausted limits tokens amount"
proof -
  let ?rows = "window_rows (in_period plat limits gid started) db"
  have some: "\<not> is_zero_time u" if "scan_period limits rows x y = Some u"
      "set rows \<subseteq> set (db_reservations db)" for rows x y u
    using that created by (induction rows arbitrary: x y) (auto simp: Let_def split: if_splits)
  have sub: "set (by_created ?rows) \<subseteq> set (db_reservations db)"
    by (auto simp: by_created_def window_rows_def)
  consider "tokens = 0" "amount = 0" "PeriodDays limits \<le> 0 \<or> is_zero_time (PeriodStart limits)"
    | "\<not> period_exhausted limits tokens amount"
    | "scan_period limits (by_created ?rows) 0 0 = None" "tokens = window_tokens (in_period plat limits gid started) db"
      "amount = window_amount (in_period plat limits gid started) db"
    using run z some[OF _ sub]
    by (auto simp: periodQuotaTransition_def bind_result_Inr period_exhausted_def
        split: if_splits option.splits dest!: windowUsage_Inr)
  then show ?thesis
  proof cases
    case 3
    show ?thesis
    proof (cases "by_created ?rows = []")
      case True
      then have "length ?rows = 0" by (simp add: by_created_def flip: length_0_conv)
      then have "?rows = []" by simp
      with 3 show ?thesis by (simp add: period_exhausted_def)
    next
      case False
      from scan_period_None[OF 3(1) False] 3 show ?thesis
        by (simp add: by_created_def sum_by_sort)
    qed
  qed (auto simp: period_exhausted_def)
qed

lemma weekly_scope_never_quota:
  assumes "\<forall>r \<in> set (db_reservations db). \<not> is_zero_time (r_created r)"
  shows "weekly_scope plat db limits g started \<noteq> Inl (ErrQuota e)"
proof
  assume "weekly_scope plat db limits g started = Inl (ErrQuota e)"
  then consider "periodQuotaTransition plat limits (g_id g) started db = Inl (ErrQuota e)"
    | t tokens amount where "periodQuotaTransition plat limits (g_id g) started db = Inr (t, tokens, amount)"
      "is_zero_time t" "check_window ''period'' g (tokens, amount) (TokenPeriod limits) (AmountPeriod limits) = Inl (ErrQuota e)"
    by (auto simp: weekly_scope_def bind_result_Inl bind_result_Inr split: prod.splits if_splits)
  then show False
  proof cases
    case 1
    then show False
      by (auto simp: periodQuotaTransition_def bind_result_Inl windowUsage_def sum_usage_def
          split: if_splits option.splits)
  next
    case 2
    with periodQuotaTransition_zero[OF 2(1,2) assms] show False
      by (auto simp: check_window_def bind_result_Inl overdrawn_def period_exhausted_def)
  qed
qed

section \<open>The two ledgers agree\<close>

text \<open>
  A request and its key reservation are written by the same transaction. \<open>ledger_inv\<close> says what
  every operation keeps: a reserved key reservation belongs to a reserved request with the same
  amounts and instant, a reserved request holds a key reservation, at most one, a finished
  reservation holds nothing any more and an open one has charged nothing yet.
\<close>

definition backs :: "RequestRow \<Rightarrow> KeyReservation \<Rightarrow> bool" where
  "backs q r \<longleftrightarrow> r_request_id r = Some (q_request_id q) \<and> q_status q = ''reserved'' \<and>
     q_reserved_tokens q = r_reserved_tokens r \<and> q_amount q = r_reserved_amount r \<and> q_created q = r_created r"

definition inv_backed :: "db \<Rightarrow> bool" where
  "inv_backed db \<longleftrightarrow> (\<forall>r \<in> set (db_reservations db). r_status r = ''reserved'' \<longrightarrow>
     (\<exists>q \<in> set (db_requests db). backs q r))"

definition inv_held :: "db \<Rightarrow> bool" where
  "inv_held db \<longleftrightarrow> (\<forall>q \<in> set (db_requests db). q_status q = ''reserved'' \<longrightarrow>
     (\<exists>r \<in> set (db_reservations db). r_status r = ''reserved'' \<and> r_request_id r = Some (q_request_id q)))"

definition inv_single :: "db \<Rightarrow> bool" where
  "inv_single db \<longleftrightarrow> (\<forall>r \<in> set (db_reservations db). \<forall>s \<in> set (db_reservations db).
     r_status r = ''reserved'' \<longrightarrow> r_status s = ''reserved'' \<longrightarrow> r_request_id r = r_request_id s \<longrightarrow> r = s)"

definition inv_amounts :: "db \<Rightarrow> bool" where
  "inv_amounts db \<longleftrightarrow> (\<forall>r \<in> set (db_reservations db).
     if r_status r = ''reserved'' then r_charged_tokens r = 0 \<and> r_charged_amount r = 0
     else r_reserved_tokens r = 0 \<and> r_reserved_amount r = 0)"

definition ledger_inv :: "db \<Rightarrow> bool" where
  "ledger_inv db \<longleftrightarrow> inv_backed db \<and> inv_held db \<and> inv_single db \<and> inv_amounts db"

lemmas ledger_inv_defs = ledger_inv_def inv_backed_def inv_held_def inv_single_def inv_amounts_def

lemma ledger_inv_empty: "ledger_inv empty_db"
  by (simp add: ledger_inv_defs empty_db_def)

lemma set_insert_reservation:
  "set (insert_reservation row rows) = insert (row\<lparr>r_id := tbl_next r_id rows\<rparr>) (set rows)"
  by (auto simp: insert_reservation_def tbl_insert_def)

lemma set_insert_request:
  "set (insert_request row rows) = insert (row\<lparr>q_id := tbl_next q_id rows\<rparr>) (set rows)"
  by (auto simp: insert_request_def tbl_insert_def)

lemma ledger_inv_add:
  assumes inv: "ledger_inv db" and b: "backs nq nr" and st: "r_status nr = ''reserved''"
    and ch: "r_charged_tokens nr = 0" "r_charged_amount nr = 0"
    and fresh: "q_request_id nq \<notin> q_request_id ` set (db_requests db)"
    and new: "set (db_requests db') = insert nq (set (db_requests db))"
      "set (db_reservations db') = insert nr (set (db_reservations db))"
  shows "ledger_inv db'"
proof -
  have id: "r_request_id nr = Some (q_request_id nq)" using b by (simp add: backs_def)
  have other: "r_request_id s \<noteq> Some (q_request_id nq)"
    if s: "s \<in> set (db_reservations db)" "r_status s = ''reserved''" for s
  proof -
    obtain q where "q \<in> set (db_requests db)" "backs q s"
      using inv s by (auto simp: ledger_inv_def inv_backed_def)
    with fresh show ?thesis by (auto simp: backs_def image_iff)
  qed
  have "inv_backed db'" using inv b by (auto simp: ledger_inv_def inv_backed_def new)
  moreover have "inv_held db'" using inv id st by (auto simp: ledger_inv_def inv_held_def new)
  moreover have "inv_single db'" using inv other id by (fastforce simp: ledger_inv_def inv_single_def new)
  moreover have "inv_amounts db'" using inv st ch by (simp add: ledger_inv_def inv_amounts_def new)
  ultimately show ?thesis by (simp add: ledger_inv_def)
qed

lemma reserve_insert_ledger_inv:
  assumes inv: "ledger_inv db" and ins: "reserve_insert db inp plan q gid amount = Inr (db', res)"
  shows "ledger_inv db'"
proof (rule ledger_inv_add[OF inv])
  let ?nq = "new_request_row inp plan q gid amount\<lparr>q_id := tbl_next q_id (db_requests db)\<rparr>"
  let ?nr = "new_reservation_row inp plan gid amount\<lparr>r_id := tbl_next r_id (db_reservations db)\<rparr>"
  note r = reserve_insert_Inr[OF ins]
  show "backs ?nq ?nr" by (simp add: backs_def new_request_row_def new_reservation_row_def)
  show "r_status ?nr = ''reserved''" "r_charged_tokens ?nr = 0" "r_charged_amount ?nr = 0"
    by (simp_all add: new_reservation_row_def)
  show "q_request_id ?nq \<notin> q_request_id ` set (db_requests db)"
    using r(6) by (simp add: new_request_row_def)
  show "set (db_requests db') = insert ?nq (set (db_requests db))"
    "set (db_reservations db') = insert ?nr (set (db_reservations db))"
    using r(1) by (simp_all add: set_insert_request set_insert_reservation)
qed

lemma ReserveRequest_ledger_inv:
  "ledger_inv db \<Longrightarrow> ReserveRequest plat now db inp = Inr (db', res) \<Longrightarrow> ledger_inv db'"
  by (erule ReserveRequest_InrE) (rule reserve_insert_ledger_inv)

lemma unique_by_snoc: "unique_by f (rows @ [x]) \<longleftrightarrow> unique_by f rows \<and> f x \<notin> f ` set rows"
  by (auto simp: unique_by_def)

lemma wf_insert_rows:
  "tbl_wf r_id rows \<Longrightarrow> tbl_wf r_id (insert_reservation row rows)"
  "tbl_wf q_id qs \<Longrightarrow> tbl_wf q_id (insert_request q qs)"
  unfolding insert_reservation_def insert_request_def by (rule resv.wf_insert, assumption) (rule reqs.wf_insert)

lemma ReserveRequest_wf:
  assumes wf: "wf_db db" and ok: "ReserveRequest plat now db inp = Inr (db', res)"
  shows "wf_db db'"
proof -
  obtain plan k g q amount where st:
    "reserve_validate now inp = Inr plan" "reserve_key db inp = Inr (k, Some g)"
    "find_quote db (in_ModelID inp) g = Inr q" "reserve_amount_for q plan = Inr amount"
    and ins: "reserve_insert db inp plan q (g_id g) amount = Inr (db', res)"
    using ok by (rule ReserveRequest_InrE)
  obtain m where m: "tbl_find m_id (in_ModelID inp) (db_models db) = Some m"
    using st(3) by (rule find_quote_Inr)
  note v = reserve_validate_Inr[OF st(1)] and k = reserve_key_Inr[OF st(2)]
    and am = reserve_amount_for_Inr[OF st(4)] and r = reserve_insert_Inr[OF ins]
  have refs: "refers k_id (db_keys db) (in_KeyID inp)" "refers m_id (db_models db) (in_ModelID inp)"
    using k(1) m by (simp_all add: refers_find)
  have row: "check_request (new_request_row inp plan q (g_id g) amount\<lparr>q_id := i\<rparr>)"
    "check_reservation (new_reservation_row inp plan (g_id g) amount\<lparr>r_id := j\<rparr>)" for i j
    using v am by (simp_all add: check_request_def check_reservation_def new_request_row_def
        new_reservation_row_def ledger_status_def)
  have uq: "unique_by q_request_id (insert_request (new_request_row inp plan q (g_id g) amount) (db_requests db))"
    using wf r(6) by (simp add: insert_request_def tbl_insert_def unique_by_snoc wf_db_defs new_request_row_def)
  have rf: "wf_refs db'"
    using wf refs r(7) unfolding r(1)
    by (simp add: wf_db_def wf_refs_def list_all_iff set_insert_request set_insert_reservation)
      (simp add: refers_opt_def new_request_row_def new_reservation_row_def)
  have ck: "wf_checks db'"
    using wf row unfolding r(1)
    by (simp add: wf_db_def wf_checks_def list_all_iff set_insert_request set_insert_reservation)
  show ?thesis
    using wf uq rf ck wf_insert_rows unfolding r(1)
    by (simp add: wf_db_def wf_tables_def wf_unique_def)
qed

section \<open>Concurrency and usage after a reservation\<close>

lemma active_for_key_insert:
  "active_for_key keyID (db\<lparr>db_requests := qs, db_reservations := insert_reservation row (db_reservations db)\<rparr>) =
     active_for_key keyID db + (if r_key_id row = keyID \<and> r_status row = ''reserved'' then 1 else 0)"
  by (simp add: active_for_key_def insert_reservation_def tbl_insert_def)

lemma window_insert:
  assumes "\<And>r i. P (r\<lparr>r_id := i\<rparr>) = P r"
  shows "sum_by row_tokens (window_rows P (db\<lparr>db_requests := qs, db_reservations := insert_reservation row (db_reservations db)\<rparr>)) =
     window_tokens P db + (if r_request_id row \<noteq> None \<and> counted_status (r_status row) \<and> P row then row_tokens row else 0)"
  using assms by (auto simp: window_rows_def insert_reservation_def tbl_insert_def row_tokens_def)

end
