(* ===== verification/Settlement.thy ===== *)
theory Settlement
  imports Ledger
begin

text \<open>
  Finishing reservations: \<open>FinishReservation\<close> and its two front ends (\<open>CancelRequest\<close>,
  \<open>SettleRequest\<close>), the reaper of \<open>internal/store/maintenance.go\<close> and \<open>Prune\<close>. Each runs in one
  transaction: an error leaves the database as it was.
\<close>

record Settlement =
  se_Status :: string
  se_InputTokens :: int
  se_OutputTokens :: int
  se_CachedInputTokens :: int
  se_AmountMicroyuan :: int
  se_UpstreamStatus :: int
  se_ErrorCode :: string
  se_FailureStage :: string
  se_UsageSource :: string
  se_Protocol :: string
  se_ClientRequestID :: string
  se_IncompleteReason :: string
  se_DurationMS :: "int option"
  se_HeaderMS :: "int option"
  se_FirstEventMS :: "int option"
  se_LastUpstreamMS :: "int option"

definition upstreamStatusValue :: "int \<Rightarrow> int option" where
  "upstreamStatusValue status = (if status = 0 then None else Some status)"

definition upstreamStatusEqual :: "int option \<Rightarrow> int \<Rightarrow> bool" where
  "upstreamStatusEqual saved incoming \<longleftrightarrow>
     (case saved of None \<Rightarrow> incoming = 0 | Some s \<Rightarrow> s = incoming)"

definition nullableIntEqual :: "int option \<Rightarrow> int option \<Rightarrow> bool" where
  "nullableIntEqual saved incoming \<longleftrightarrow>
     (case (saved, incoming) of (None, None) \<Rightarrow> True | (Some s, Some i) \<Rightarrow> s = i | _ \<Rightarrow> False)"

definition negative_opt :: "int option \<Rightarrow> bool" where
  "negative_opt v \<longleftrightarrow> (case v of None \<Rightarrow> False | Some n \<Rightarrow> n < 0)"

definition with_defaults :: "Settlement \<Rightarrow> Settlement" where
  "with_defaults o1 = o1\<lparr>
     se_UsageSource := (if se_UsageSource o1 = [] then ''unknown'' else se_UsageSource o1),
     se_Protocol := (if se_Protocol o1 = [] then ''chat'' else se_Protocol o1)\<rparr>"

definition same_outcome :: "RequestRow \<Rightarrow> Settlement \<Rightarrow> bool" where
  "same_outcome q o1 \<longleftrightarrow> q_status q = se_Status o1 \<and> q_input_tokens q = se_InputTokens o1 \<and>
     q_output_tokens q = se_OutputTokens o1 \<and> q_cached_tokens q = se_CachedInputTokens o1 \<and>
     q_amount q = se_AmountMicroyuan o1 \<and> upstreamStatusEqual (q_upstream_status q) (se_UpstreamStatus o1) \<and>
     q_error_code q = se_ErrorCode o1 \<and> q_failure_stage q = se_FailureStage o1 \<and>
     q_usage_source q = se_UsageSource o1 \<and> q_protocol q = se_Protocol o1 \<and>
     q_client_request_id q = se_ClientRequestID o1 \<and> q_incomplete_reason q = se_IncompleteReason o1 \<and>
     nullableIntEqual (q_duration_ms q) (se_DurationMS o1) \<and> nullableIntEqual (q_header_ms q) (se_HeaderMS o1) \<and>
     nullableIntEqual (q_first_event_ms q) (se_FirstEventMS o1) \<and> nullableIntEqual (q_last_upstream_ms q) (se_LastUpstreamMS o1)"

definition settle_reservation :: "gotime \<Rightarrow> Settlement \<Rightarrow> KeyReservation \<Rightarrow> KeyReservation" where
  "settle_reservation now o1 r = r\<lparr>r_charged_tokens := wrap64 (se_InputTokens o1 + se_OutputTokens o1),
     r_charged_amount := se_AmountMicroyuan o1, r_reserved_tokens := 0, r_reserved_amount := 0,
     r_status := se_Status o1, r_finished := Some now\<rparr>"

definition settle_request :: "gotime \<Rightarrow> Settlement \<Rightarrow> RequestRow \<Rightarrow> RequestRow" where
  "settle_request now o1 q = q\<lparr>q_reserved_tokens := 0,
     q_charged_tokens := wrap64 (se_InputTokens o1 + se_OutputTokens o1), q_input_tokens := se_InputTokens o1,
     q_output_tokens := se_OutputTokens o1, q_cached_tokens := se_CachedInputTokens o1,
     q_amount := se_AmountMicroyuan o1, q_status := se_Status o1,
     q_upstream_status := upstreamStatusValue (se_UpstreamStatus o1), q_error_code := se_ErrorCode o1,
     q_failure_stage := se_FailureStage o1, q_usage_source := se_UsageSource o1, q_protocol := se_Protocol o1,
     q_client_request_id := se_ClientRequestID o1, q_incomplete_reason := se_IncompleteReason o1,
     q_duration_ms := se_DurationMS o1, q_header_ms := se_HeaderMS o1, q_first_event_ms := se_FirstEventMS o1,
     q_last_upstream_ms := se_LastUpstreamMS o1, q_finished := Some now\<rparr>"

definition validate_settlement :: "int \<Rightarrow> Settlement \<Rightarrow> store_error + Settlement" where
  "validate_settlement reservationID o1 =
     bind_result (reject_when (reservationID \<le> 0 \<or> se_InputTokens o1 < 0 \<or> se_OutputTokens o1 < 0 \<or>
         se_CachedInputTokens o1 < 0 \<or> se_AmountMicroyuan o1 < 0 \<or> se_UpstreamStatus o1 < 0 \<or>
         se_InputTokens o1 > max_i64 - se_OutputTokens o1) (ErrText ''invalid settlement'')) (\<lambda>_.
     bind_result (reject_when (se_Status o1 \<noteq> ''completed'' \<and> se_Status o1 \<noteq> ''failed'' \<and>
         se_Status o1 \<noteq> ''aborted'' \<and> se_Status o1 \<noteq> ''rejected'') (ErrText ''invalid settlement status'')) (\<lambda>_.
     let o2 = with_defaults o1 in
     bind_result (reject_when (list_ex negative_opt [se_DurationMS o2, se_HeaderMS o2, se_FirstEventMS o2, se_LastUpstreamMS o2])
         (ErrText ''settlement duration must be non-negative'')) (\<lambda>_.
     Inr o2)))"

definition open_reservations :: "string \<Rightarrow> db \<Rightarrow> KeyReservation list" where
  "open_reservations token db =
     filter (\<lambda>r. r_request_id r = Some token \<and> r_status r = ''reserved'') (db_reservations db)"

text \<open>The rows an \<open>UPDATE \<dots> WHERE id=? AND status='reserved'\<close> affects must be exactly one.\<close>

definition FinishReservation :: "gotime \<Rightarrow> int \<Rightarrow> Settlement \<Rightarrow> db \<Rightarrow> store_error + db" where
  "FinishReservation now reservationID outcome db =
     bind_result (validate_settlement reservationID outcome) (\<lambda>o1.
     bind_result (require_some (tbl_find q_id reservationID (db_requests db)) ErrReservationNotFound) (\<lambda>q.
     if q_status q \<noteq> ''reserved'' then
       (if same_outcome q o1 then Inr db else Inl ErrSettlementConflict)
     else
       bind_result (reject_when (open_reservations (q_request_id q) db = []) ErrReservationNotFound) (\<lambda>_.
       let kr = last (open_reservations (q_request_id q) db) in
       bind_result (reject_when (length (filter (\<lambda>r. r_id r = r_id kr \<and> r_status r = ''reserved'') (db_reservations db)) \<noteq> 1)
         ErrSettlementConflict) (\<lambda>_.
       bind_result (reject_when (length (filter (\<lambda>q. q_id q = reservationID \<and> q_status q = ''reserved'') (db_requests db)) \<noteq> 1)
         ErrSettlementConflict) (\<lambda>_.
       Inr (db\<lparr>db_reservations := tbl_update r_id (r_id kr) (settle_reservation now o1) (db_reservations db),
               db_requests := tbl_update q_id reservationID (settle_request now o1) (db_requests db)\<rparr>))))))"

definition blank_settlement :: Settlement where
  "blank_settlement = \<lparr>se_Status = [], se_InputTokens = 0, se_OutputTokens = 0, se_CachedInputTokens = 0,
     se_AmountMicroyuan = 0, se_UpstreamStatus = 0, se_ErrorCode = [], se_FailureStage = [], se_UsageSource = [],
     se_Protocol = [], se_ClientRequestID = [], se_IncompleteReason = [], se_DurationMS = None, se_HeaderMS = None,
     se_FirstEventMS = None, se_LastUpstreamMS = None\<rparr>"

definition CancelRequest :: "gotime \<Rightarrow> int \<Rightarrow> string \<Rightarrow> int \<Rightarrow> db \<Rightarrow> store_error + db" where
  "CancelRequest now reservationID status httpStatus db =
     bind_result (reject_when (reservationID \<le> 0) (ErrText ''reservation ID is required'')) (\<lambda>_.
     let status = (if status = [] then ''rejected'' else status) in
     bind_result (reject_when (status \<noteq> ''rejected'' \<and> status \<noteq> ''aborted'' \<and> status \<noteq> ''failed'')
       (ErrText ''cancel status must be rejected, aborted, or failed'')) (\<lambda>_.
     FinishReservation now reservationID
       (blank_settlement\<lparr>se_Status := status, se_UpstreamStatus := httpStatus, se_UsageSource := ''unknown''\<rparr>) db))"

definition SettleRequest :: "gotime \<Rightarrow> int \<Rightarrow> int \<Rightarrow> int \<Rightarrow> int \<Rightarrow> int \<Rightarrow> string \<Rightarrow> db \<Rightarrow> store_error + db" where
  "SettleRequest now reservationID inputTokens outputTokens cachedInputTokens amount status db =
     FinishReservation now reservationID
       (blank_settlement\<lparr>se_Status := (if status = [] then ''completed'' else status), se_InputTokens := inputTokens,
          se_OutputTokens := outputTokens, se_CachedInputTokens := cachedInputTokens,
          se_AmountMicroyuan := amount, se_UpstreamStatus := 200\<rparr>) db"

section \<open>Recovery and retention\<close>

definition excluded_ids :: "int list \<Rightarrow> int list \<Rightarrow> int list" where
  "excluded_ids activeIDs pendingIDs = filter (\<lambda>i. i > 0) activeIDs @ filter (\<lambda>i. i > 0) pendingIDs"

definition stale_request :: "platform \<Rightarrow> gotime \<Rightarrow> int list \<Rightarrow> RequestRow \<Rightarrow> bool" where
  "stale_request plat cutoff excluded q \<longleftrightarrow> q_status q = ''reserved'' \<and>
     julianday_ms plat (q_created q) < julianday_ms plat cutoff \<and> q_id q \<notin> set excluded"

definition stale_reservation :: "platform \<Rightarrow> gotime \<Rightarrow> int list \<Rightarrow> RequestRow list \<Rightarrow> KeyReservation \<Rightarrow> bool" where
  "stale_reservation plat cutoff excluded requests r \<longleftrightarrow> r_status r = ''reserved'' \<and>
     julianday_ms plat (r_created r) < julianday_ms plat cutoff \<and>
     (\<not> list_ex (\<lambda>q. Some (q_request_id q) = r_request_id r \<and> q_status q = ''reserved'') requests \<or>
      list_ex (\<lambda>q. Some (q_request_id q) = r_request_id r \<and> stale_request plat cutoff excluded q) requests)"

definition reap_reservation :: "gotime \<Rightarrow> KeyReservation \<Rightarrow> KeyReservation" where
  "reap_reservation now r = r\<lparr>r_charged_tokens := 0, r_charged_amount := 0, r_reserved_tokens := 0,
     r_reserved_amount := 0, r_status := ''aborted'', r_finished := Some now\<rparr>"

definition reap_request :: "gotime \<Rightarrow> RequestRow \<Rightarrow> RequestRow" where
  "reap_request now q = q\<lparr>q_status := ''aborted'', q_input_tokens := 0, q_output_tokens := 0, q_cached_tokens := 0,
     q_charged_tokens := 0, q_reserved_tokens := 0, q_amount := 0, q_upstream_status := None,
     q_error_code := ''crash_recovered'', q_usage_source := ''unknown'', q_finished := Some now\<rparr>"

definition ReapOrphanReservations ::
  "platform \<Rightarrow> gotime \<Rightarrow> gotime \<Rightarrow> int list \<Rightarrow> int list \<Rightarrow> db \<Rightarrow> store_error + db \<times> int" where
  "ReapOrphanReservations plat now cutoff activeIDs pendingIDs db =
     bind_result (reject_when (is_zero_time cutoff) (ErrText ''cutoff is required'')) (\<lambda>_.
     let excluded = excluded_ids activeIDs pendingIDs;
         stale = stale_reservation plat cutoff excluded (db_requests db)
     in Inr (db\<lparr>db_reservations := map (\<lambda>r. if stale r then reap_reservation now r else r) (db_reservations db),
                db_requests := map (\<lambda>q. if stale_request plat cutoff excluded q then reap_request now q else q) (db_requests db)\<rparr>,
             int (length (filter stale (db_reservations db)))))"

definition ReapStaleReservations :: "platform \<Rightarrow> gotime \<Rightarrow> int \<Rightarrow> db \<Rightarrow> store_error + db \<times> int" where
  "ReapStaleReservations plat now maxAge db =
     bind_result (reject_when (maxAge \<le> 0) (ErrText ''max age must be positive'')) (\<lambda>_.
     ReapOrphanReservations plat now (now - maxAge) [] [] db)"

definition prunable_request :: "gotime \<Rightarrow> RequestRow \<Rightarrow> bool" where
  "prunable_request cutoff q \<longleftrightarrow> rfc3339nano (q_created q) < rfc3339nano cutoff \<and> q_status q \<noteq> ''reserved''"

definition prunable_reservation :: "gotime \<Rightarrow> KeyReservation \<Rightarrow> bool" where
  "prunable_reservation cutoff r \<longleftrightarrow> rfc3339nano (r_created r) < rfc3339nano cutoff \<and> r_status r \<noteq> ''reserved''"

definition Prune :: "gotime \<Rightarrow> db \<Rightarrow> store_error + db \<times> int" where
  "Prune cutoff db =
     bind_result (delete_reservations (prunable_reservation cutoff)
       (db\<lparr>db_requests := filter (\<lambda>q. \<not> prunable_request cutoff q) (db_requests db)\<rparr>)) (\<lambda>db'.
     Inr (db', int (length (filter (prunable_request cutoff) (db_requests db)))))"

section \<open>What a settlement does\<close>

lemma validate_settlement_Inr:
  assumes "validate_settlement i o0 = Inr o1"
  shows "o1 = with_defaults o0" "0 < i" "0 \<le> se_InputTokens o1" "0 \<le> se_OutputTokens o1" "0 \<le> se_CachedInputTokens o1"
    "0 \<le> se_AmountMicroyuan o1" "se_InputTokens o1 + se_OutputTokens o1 \<le> max_i64"
    "se_Status o1 \<in> {''completed'', ''failed'', ''aborted'', ''rejected''}"
  using assms by (auto simp: validate_settlement_def Let_def bind_result_Inr with_defaults_def)

lemma settled_not_reserved: "validate_settlement i o0 = Inr o1 \<Longrightarrow> se_Status o1 \<noteq> ''reserved''"
  using validate_settlement_Inr(8) by fastforce

lemma charged_tokens_exact:
  "validate_settlement i o0 = Inr o1 \<Longrightarrow>
   wrap64 (se_InputTokens o1 + se_OutputTokens o1) = se_InputTokens o1 + se_OutputTokens o1"
  using validate_settlement_Inr[of i o0 o1] by (simp add: in_i64_nonneg)

lemma FinishReservation_InrE:
  assumes "FinishReservation now i o0 db = Inr db'"
  obtains (replay) o1 q where "validate_settlement i o0 = Inr o1" "tbl_find q_id i (db_requests db) = Some q"
      "q_status q \<noteq> ''reserved''" "same_outcome q o1" "db' = db"
    | (settled) o1 q kr where "validate_settlement i o0 = Inr o1" "tbl_find q_id i (db_requests db) = Some q"
      "q_status q = ''reserved''" "kr \<in> set (db_reservations db)" "r_status kr = ''reserved''"
      "r_request_id kr = Some (q_request_id q)"
      "db' = db\<lparr>db_reservations := tbl_update r_id (r_id kr) (settle_reservation now o1) (db_reservations db),
               db_requests := tbl_update q_id i (settle_request now o1) (db_requests db)\<rparr>"
proof -
  obtain o1 q where v: "validate_settlement i o0 = Inr o1" and q: "tbl_find q_id i (db_requests db) = Some q"
    using assms by (auto simp: FinishReservation_def bind_result_Inr)
  show ?thesis
  proof (cases "q_status q = ''reserved''")
    case False
    with assms v q have "same_outcome q o1" "db' = db"
      by (auto simp: FinishReservation_def require_some_def split: if_splits)
    with replay v q False show ?thesis by blast
  next
    case True
    define kr where "kr = last (open_reservations (q_request_id q) db)"
    from assms v q True have ne: "open_reservations (q_request_id q) db \<noteq> []"
      and db': "db' = db\<lparr>db_reservations := tbl_update r_id (r_id kr) (settle_reservation now o1) (db_reservations db),
               db_requests := tbl_update q_id i (settle_request now o1) (db_requests db)\<rparr>"
      by (auto simp: FinishReservation_def require_some_def kr_def Let_def bind_result_Inr)
    from last_in_set[OF ne] have "kr \<in> set (db_reservations db)" "r_status kr = ''reserved''"
      "r_request_id kr = Some (q_request_id q)"
      by (auto simp: kr_def open_reservations_def)
    with settled v q True db' show ?thesis by blast
  qed
qed

lemma settle_ids [simp]:
  "r_id (settle_reservation now o1 r) = r_id r" "q_id (settle_request now o1 q) = q_id q"
  "q_status (settle_request now o1 q) = se_Status o1" "r_status (settle_reservation now o1 r) = se_Status o1"
  "q_request_id (settle_request now o1 q) = q_request_id q"
  "r_request_id (settle_reservation now o1 r) = r_request_id r"
  by (simp_all add: settle_reservation_def settle_request_def)

lemma upstreamStatusEqual_value [simp]: "upstreamStatusEqual (upstreamStatusValue a) b \<longleftrightarrow> a = b"
  by (auto simp: upstreamStatusEqual_def upstreamStatusValue_def)

lemma nullableIntEqual_eq [simp]: "nullableIntEqual a b \<longleftrightarrow> a = b"
  by (cases a; cases b) (auto simp: nullableIntEqual_def)

text \<open>A stored outcome is recognised exactly: it equals another outcome only if all fields agree.\<close>

lemma same_outcome_settled: "same_outcome (settle_request now o1 q) o2 \<longleftrightarrow> o2 = o1"
  by (cases o1; cases o2) (auto simp: same_outcome_def settle_request_def)

lemma finish_after_finish:
  assumes fin: "FinishReservation now i o0 db = Inr db'"
    and open_row: "tbl_find q_id i (db_requests db) = Some q" "q_status q = ''reserved''"
    and v: "validate_settlement i o0' = Inr o2"
  shows "FinishReservation now' i o0' db' =
     (if o2 = with_defaults o0 then Inr db' else Inl ErrSettlementConflict)"
  using fin
proof (cases rule: FinishReservation_InrE)
  case (settled o1 q' kr)
  then have "q' = q" using open_row by simp
  with settled have "tbl_find q_id i (db_requests db') = Some (settle_request now o1 q)"
    by (simp add: tbl_find_update)
  moreover have "se_Status o1 \<noteq> ''reserved''" using settled(1) by (rule settled_not_reserved)
  moreover have "o1 = with_defaults o0" using settled(1) by (rule validate_settlement_Inr)
  ultimately show ?thesis
    using v by (simp add: FinishReservation_def require_some_def same_outcome_settled)
qed (use open_row in simp)

lemma finish_finished:
  assumes "tbl_find q_id i (db_requests db) = Some q" "q_status q \<noteq> ''reserved''"
  shows "FinishReservation now i o0 db = Inr db' \<Longrightarrow> db' = db"
  using assms by (auto elim: FinishReservation_InrE)

lemma finish_idempotent:
  assumes "FinishReservation now i o0 db = Inr db'"
  shows "FinishReservation now' i o0 db' = Inr db'"
  using assms
proof (cases rule: FinishReservation_InrE)
  case (replay o1 q)
  then show ?thesis by (simp add: FinishReservation_def require_some_def)
next
  case (settled o1 q kr)
  with finish_after_finish[OF assms settled(2,3,1)] validate_settlement_Inr(1)[OF settled(1)]
  show ?thesis by simp
qed

section \<open>Settlement keeps the ledger consistent\<close>

lemma ledger_inv_close:
  assumes inv: "ledger_inv db" and uq: "unique_by q_request_id (db_requests db)"
    and q: "q \<in> set (db_requests db)" "q_status q = ''reserved''"
    and kr: "kr \<in> set (db_reservations db)" "r_status kr = ''reserved''" "r_request_id kr = Some (q_request_id q)"
    and nq: "q_status nq \<noteq> ''reserved''"
    and nr: "r_status nr \<noteq> ''reserved''" "r_reserved_tokens nr = 0" "r_reserved_amount nr = 0"
    and new: "set (db_requests db') = insert nq (set (db_requests db) - {q})"
      "set (db_reservations db') = insert nr (set (db_reservations db) - {kr})"
  shows "ledger_inv db'"
proof -
  have only: "r = kr" if "r \<in> set (db_reservations db)" "r_status r = ''reserved''" "r_request_id r = Some (q_request_id q)" for r
    using inv kr that unfolding ledger_inv_def inv_single_def by metis
  have "inv_backed db'"
    unfolding inv_backed_def
  proof (intro ballI impI)
    fix r assume r: "r \<in> set (db_reservations db')" "r_status r = ''reserved''"
    then have old: "r \<in> set (db_reservations db)" "r \<noteq> kr" using nr by (auto simp: new)
    then obtain q' where q': "q' \<in> set (db_requests db)" "backs q' r"
      using inv r(2) by (auto simp: ledger_inv_def inv_backed_def)
    have "q' \<noteq> q" using only[OF old(1) r(2)] old(2) q'(2) by (auto simp: backs_def)
    with q' show "\<exists>q\<in>set (db_requests db'). backs q r" by (auto simp: new)
  qed
  moreover have "inv_held db'"
    unfolding inv_held_def
  proof (intro ballI impI)
    fix q' assume q': "q' \<in> set (db_requests db')" "q_status q' = ''reserved''"
    then have old: "q' \<in> set (db_requests db)" "q' \<noteq> q" using nq by (auto simp: new)
    then obtain r where r: "r \<in> set (db_reservations db)" "r_status r = ''reserved''" "r_request_id r = Some (q_request_id q')"
      using inv q'(2) by (auto simp: ledger_inv_def inv_held_def)
    have "q_request_id q' \<noteq> q_request_id q" using unique_byD[OF uq old(1) q(1)] old(2) by blast
    with r kr(3) have "r \<noteq> kr" by auto
    with r show "\<exists>r\<in>set (db_reservations db'). r_status r = ''reserved'' \<and> r_request_id r = Some (q_request_id q')"
      by (auto simp: new)
  qed
  moreover have "inv_single db'"
    using inv nr(1) by (auto simp: ledger_inv_def inv_single_def new)
  moreover have "inv_amounts db'"
    using inv nr by (auto simp: ledger_inv_def inv_amounts_def new)
  ultimately show ?thesis by (simp add: ledger_inv_def)
qed

lemma FinishReservation_ledger_inv:
  assumes wf: "wf_db db" and inv: "ledger_inv db" and fin: "FinishReservation now i o0 db = Inr db'"
  shows "ledger_inv db'"
  using fin
proof (cases rule: FinishReservation_InrE)
  case (settled o1 q kr)
  note w = wf_dbD[OF wf]
  have q: "q \<in> set (db_requests db)" using settled(2) by (auto dest: tbl_find_Some)
  have f: "tbl_find r_id (r_id kr) (db_reservations db) = Some kr" using settled(4) w(2) by (simp add: tbl_find_iff)
  have ns: "se_Status o1 \<noteq> ''reserved''" using settled(1) by (rule settled_not_reserved)
  show ?thesis
  proof (rule ledger_inv_close[OF inv w(3) q settled(3) settled(4-6)])
    show "set (db_requests db') = insert (settle_request now o1 q) (set (db_requests db) - {q})"
      "set (db_reservations db') = insert (settle_reservation now o1 kr) (set (db_reservations db) - {kr})"
      using settled(7) set_tbl_update[OF w(1) settled(2)] set_tbl_update[OF w(2) f] by simp_all
  qed (use ns in \<open>simp_all add: settle_reservation_def settle_request_def\<close>)
qed (use inv in simp)

lemma FinishReservation_wf:
  assumes wf: "wf_db db" and fin: "FinishReservation now i o0 db = Inr db'"
  shows "wf_db db'"
  using fin
proof (cases rule: FinishReservation_InrE)
  case (settled o1 q kr)
  note w = wf_dbD[OF wf] and v = validate_settlement_Inr[OF settled(1)]
  have f: "tbl_find r_id (r_id kr) (db_reservations db) = Some kr" using settled(4) w(2) by (simp add: tbl_find_iff)
  note sets = set_tbl_update[OF w(1) settled(2), of "settle_request now o1"]
    set_tbl_update[OF w(2) f, of "settle_reservation now o1"]
  have ids: "k_id ` set (db_keys db') = k_id ` set (db_keys db)" using settled(7) by simp
  have qold: "q \<in> set (db_requests db)" using settled(2) by (auto dest: tbl_find_Some)
  have ck: "check_request (settle_request now o1 q)" "check_reservation (settle_reservation now o1 kr)"
    using v charged_tokens_exact[OF settled(1)]
    by (auto simp: check_request_def check_reservation_def settle_request_def settle_reservation_def ledger_status_def)
  have uq: "unique_by q_request_id (tbl_update q_id i (settle_request now o1) (db_requests db))"
    using w(3) by (simp add: tbl_update_def unique_by_map)
  have refs: "wf_refs db'"
    using wf qold settled(4) unfolding settled(7)
    by (simp add: wf_db_def wf_refs_def list_all_iff sets) (simp add: settle_request_def settle_reservation_def)
  have checks: "wf_checks db'"
    using wf ck unfolding settled(7) by (simp add: wf_db_def wf_checks_def list_all_iff sets)
  show ?thesis
    using wf uq refs checks unfolding settled(7)
    by (simp add: wf_db_def wf_tables_def wf_unique_def tbl_wf_update)
qed (use wf in simp)

text \<open>In a consistent ledger every valid settlement of an active request is accepted.\<close>

lemma finish_total:
  assumes wf: "wf_db db" and inv: "ledger_inv db" and q: "tbl_find q_id i (db_requests db) = Some q" "q_status q = ''reserved''"
    and v: "validate_settlement i o0 = Inr o1"
  shows "\<exists>db'. FinishReservation now i o0 db = Inr db'"
proof -
  note w = wf_dbD[OF wf] and qm = tbl_find_Some[OF q(1)]
  let ?rs = "open_reservations (q_request_id q) db"
  have "?rs \<noteq> []"
    using inv qm q(2) by (fastforce simp: ledger_inv_def inv_held_def open_reservations_def filter_empty_conv)
  moreover from this have "last ?rs \<in> set (db_reservations db)" "r_status (last ?rs) = ''reserved''"
    using last_in_set[of ?rs] by (auto simp: open_reservations_def)
  then have "length (filter (\<lambda>r. r_id r = r_id (last ?rs) \<and> r_status r = ''reserved'') (db_reservations db)) = 1"
    by (intro tbl_wf_count_id[OF w(2)])
  moreover have "length (filter (\<lambda>q. q_id q = i \<and> q_status q = ''reserved'') (db_requests db)) = 1"
    using tbl_wf_count_id[OF w(1), of q "\<lambda>q. q_status q = ''reserved''"] qm q(2) by simp
  ultimately show ?thesis
    using v q by (simp add: FinishReservation_def require_some_def reject_when_def Let_def)
qed

section \<open>Usage after a settlement\<close>

definition group_rows :: "int \<Rightarrow> KeyReservation \<Rightarrow> bool" where
  "group_rows gid r \<longleftrightarrow> r_group_id r = gid"

lemma window_as_sum:
  "sum_by f (window_rows P db) =
     sum_by (\<lambda>r. if r_request_id r \<noteq> None \<and> counted_status (r_status r) \<and> P r then f r else 0) (db_reservations db)"
  unfolding window_rows_def by (rule sum_by_filter)

text \<open>
  For a window that looks at nothing a settlement changes, settling replaces what the request had
  reserved by what it is charged, and by nothing when it is rejected.
\<close>

lemma settled_window:
  assumes wf: "wf_db db" and fin: "FinishReservation now i o0 db = Inr db'"
    and q: "tbl_find q_id i (db_requests db) = Some q" "q_status q = ''reserved''"
    and stable: "\<And>r o1. P (settle_reservation now o1 r) = P r"
  obtains kr where "kr \<in> set (db_reservations db)" "r_status kr = ''reserved''" "r_request_id kr = Some (q_request_id q)"
    "window_tokens P db' = window_tokens P db +
       (if P kr then (if se_Status o0 = ''rejected'' then 0 else se_InputTokens o0 + se_OutputTokens o0) - row_tokens kr else 0)"
    "window_amount P db' = window_amount P db +
       (if P kr then (if se_Status o0 = ''rejected'' then 0 else se_AmountMicroyuan o0) - row_amount kr else 0)"
  using fin
proof (cases rule: FinishReservation_InrE)
  case (settled o1 q' kr)
  note w = wf_dbD[OF wf] and v = validate_settlement_Inr[OF settled(1)]
  have f: "tbl_find r_id (r_id kr) (db_reservations db) = Some kr" using settled(4) w(2) by (simp add: tbl_find_iff)
  have o1: "se_Status o1 = se_Status o0" "se_InputTokens o1 = se_InputTokens o0" "se_OutputTokens o1 = se_OutputTokens o0"
    "se_AmountMicroyuan o1 = se_AmountMicroyuan o0"
    unfolding v(1) by (simp_all add: with_defaults_def)
  have cnt: "counted_status (se_Status o1) \<longleftrightarrow> se_Status o1 \<noteq> ''rejected''"
    using v(8) by (auto simp: counted_status_def)
  have new: "row_tokens (settle_reservation now o1 kr) = se_InputTokens o1 + se_OutputTokens o1"
    "row_amount (settle_reservation now o1 kr) = se_AmountMicroyuan o1"
    using charged_tokens_exact[OF settled(1)]
    by (simp_all add: row_tokens_def row_amount_def settle_reservation_def)
  have old: "counted_status (r_status kr)" "r_request_id kr \<noteq> None"
    using settled(5,6) by (simp_all add: counted_status_def)
  have rows: "db_reservations db' = tbl_update r_id (r_id kr) (settle_reservation now o1) (db_reservations db)"
    using settled(7) by simp
  show ?thesis
  proof (rule that)
    show "kr \<in> set (db_reservations db)" "r_status kr = ''reserved''" by fact+
    show "r_request_id kr = Some (q_request_id q)" using settled(2,6) q(1) by simp
  qed (use old cnt new o1 in \<open>simp_all add: window_as_sum rows sum_by_update[OF w(2) f] stable\<close>)
qed (use q in simp)

section \<open>The reaper\<close>

lemma reap_ids [simp]:
  "r_id (reap_reservation now r) = r_id r" "q_id (reap_request now q) = q_id q"
  "q_request_id (reap_request now q) = q_request_id q" "q_status (reap_request now q) = ''aborted''"
  "r_status (reap_reservation now r) = ''aborted''"
  by (simp_all add: reap_reservation_def reap_request_def)

lemma ReapOrphan_Inr:
  assumes "ReapOrphanReservations plat now cutoff act pend db = Inr (db', n)"
  shows "db' = db\<lparr>db_reservations := map (\<lambda>r. if stale_reservation plat cutoff (excluded_ids act pend) (db_requests db) r
        then reap_reservation now r else r) (db_reservations db),
      db_requests := map (\<lambda>q. if stale_request plat cutoff (excluded_ids act pend) q then reap_request now q else q) (db_requests db)\<rparr>"
    "n = int (length (filter (stale_reservation plat cutoff (excluded_ids act pend) (db_requests db)) (db_reservations db)))"
  using assms by (auto simp: ReapOrphanReservations_def Let_def bind_result_Inr)

lemma stale_pair:
  assumes inv: "ledger_inv db" and uq: "unique_by q_request_id (db_requests db)"
    and q: "q \<in> set (db_requests db)" "backs q r" and r: "r_status r = ''reserved''"
  shows "stale_reservation plat cutoff ex (db_requests db) r \<longleftrightarrow> stale_request plat cutoff ex q"
proof -
  have same: "q' = q" if "q' \<in> set (db_requests db)" "Some (q_request_id q') = r_request_id r" for q'
    using unique_byD[OF uq that(1) q(1)] that(2) q(2) by (simp add: backs_def)
  have "list_ex (\<lambda>q. Some (q_request_id q) = r_request_id r \<and> q_status q = ''reserved'') (db_requests db)"
    using q by (auto simp: list_ex_iff backs_def)
  moreover have "list_ex (\<lambda>q. Some (q_request_id q) = r_request_id r \<and> stale_request plat cutoff ex q) (db_requests db)
      \<longleftrightarrow> stale_request plat cutoff ex q"
    using q same by (auto simp: list_ex_iff backs_def)
  ultimately show ?thesis
    using q r by (auto simp: stale_reservation_def stale_request_def backs_def)
qed

lemma Reap_ledger_inv:
  assumes wf: "wf_db db" and inv: "ledger_inv db"
    and reap: "ReapOrphanReservations plat now cutoff act pend db = Inr (db', n)"
  shows "ledger_inv db'"
proof -
  let ?sr = "stale_reservation plat cutoff (excluded_ids act pend) (db_requests db)"
  let ?sq = "stale_request plat cutoff (excluded_ids act pend)"
  note d = ReapOrphan_Inr(1)[OF reap] and uq = wf_dbD(3)[OF wf]
  have res: "r \<in> set (db_reservations db') \<Longrightarrow> r_status r = ''reserved'' \<Longrightarrow> r \<in> set (db_reservations db) \<and> \<not> ?sr r" for r
    by (auto simp: d split: if_splits)
  have req: "q \<in> set (db_requests db') \<Longrightarrow> q_status q = ''reserved'' \<Longrightarrow> q \<in> set (db_requests db) \<and> \<not> ?sq q" for q
    by (auto simp: d split: if_splits)
  have "inv_backed db'"
    unfolding inv_backed_def
  proof (intro ballI impI)
    fix r assume r: "r \<in> set (db_reservations db')" "r_status r = ''reserved''"
    note old = res[OF r]
    then obtain q where q: "q \<in> set (db_requests db)" "backs q r"
      using inv r(2) by (auto simp: ledger_inv_def inv_backed_def)
    then have "\<not> ?sq q" using stale_pair[OF inv uq q r(2)] old by blast
    with q show "\<exists>q\<in>set (db_requests db'). backs q r" by (force simp: d)
  qed
  moreover have "inv_held db'"
    unfolding inv_held_def
  proof (intro ballI impI)
    fix q assume q: "q \<in> set (db_requests db')" "q_status q = ''reserved''"
    note old = req[OF q]
    then obtain r where r: "r \<in> set (db_reservations db)" "r_status r = ''reserved''" "r_request_id r = Some (q_request_id q)"
      using inv q(2) by (auto simp: ledger_inv_def inv_held_def)
    then obtain q' where q': "q' \<in> set (db_requests db)" "backs q' r"
      using inv by (auto simp: ledger_inv_def inv_backed_def)
    have "q' = q" using unique_byD[OF uq q'(1)] old r(3) q'(2) by (simp add: backs_def)
    then have "\<not> ?sr r" using stale_pair[OF inv uq q' r(2)] old by blast
    with r show "\<exists>r\<in>set (db_reservations db'). r_status r = ''reserved'' \<and> r_request_id r = Some (q_request_id q)"
      by (force simp: d)
  qed
  moreover have "inv_single db'"
    using inv res by (auto simp: ledger_inv_def inv_single_def)
  moreover have "inv_amounts db'"
    using inv by (auto simp: ledger_inv_def inv_amounts_def d reap_reservation_def)
  ultimately show ?thesis by (simp add: ledger_inv_def)
qed

lemma Reap_wf:
  assumes wf: "wf_db db" and reap: "ReapOrphanReservations plat now cutoff act pend db = Inr (db', n)"
  shows "wf_db db'"
  using wf unfolding ReapOrphan_Inr(1)[OF reap]
  by (auto simp: wf_db_defs tbl_wf_map unique_by_map list_all_iff check_request_def check_reservation_def
      ledger_status_def reap_request_def reap_reservation_def)

section \<open>Pruning\<close>

lemma Prune_Inr:
  assumes "Prune cutoff db = Inr (db', n)"
  shows "db' = db\<lparr>db_requests := filter (\<lambda>q. \<not> prunable_request cutoff q) (db_requests db),
      db_reservations := filter (\<lambda>r. \<not> prunable_reservation cutoff r) (db_reservations db)\<rparr>"
    "n = int (length (filter (prunable_request cutoff) (db_requests db)))"
  using assms by (auto simp: Prune_def bind_result_Inr delete_reservations_def split: if_splits)

text \<open>The trigger on active reservations never fires during pruning.\<close>

lemma Prune_total: "\<exists>db' n. Prune cutoff db = Inr (db', n)"
  by (auto simp: Prune_def delete_reservations_def prunable_reservation_def list_ex_iff)

lemma Prune_ledger_inv:
  assumes inv: "ledger_inv db" and pr: "Prune cutoff db = Inr (db', n)"
  shows "ledger_inv db'"
proof -
  note d = Prune_Inr(1)[OF pr]
  have "inv_backed db'" "inv_held db'"
    using inv by (fastforce simp: ledger_inv_defs d prunable_request_def prunable_reservation_def backs_def)+
  moreover have "inv_single db'" "inv_amounts db'" using inv by (auto simp: ledger_inv_defs d)
  ultimately show ?thesis by (simp add: ledger_inv_def)
qed

lemma Prune_wf:
  assumes wf: "wf_db db" and pr: "Prune cutoff db = Inr (db', n)"
  shows "wf_db db'"
  using wf unfolding Prune_Inr(1)[OF pr] by (simp add: wf_db_defs row_filter_rules)

lemma Prune_key_rows:
  assumes "Prune cutoff db = Inr (db', n)"
  shows "key_rows k db' = filter (\<lambda>r. \<not> prunable_reservation cutoff r) (key_rows k db)"
  unfolding Prune_Inr(1)[OF assms] by (simp add: key_rows_def conj_commute conj_left_commute)

end
