(* ===== verification/Secret.thy ===== *)
theory Secret
  imports Relay_Prelude
begin

text \<open>
  Credentials at rest: \<open>internal/secret/box.go\<close>. Standard base64 (with Go's decoder, which skips
  line breaks and wants canonical padding) is modelled byte by byte; AES-256-GCM and HMAC-SHA-256
  are parameters: the record \<open>aead\<close> of the operations the box calls and the function \<open>hmac\<close>.
\<close>

section \<open>Base64\<close>

definition enc6 :: "nat \<Rightarrow> char" where
  "enc6 n = char_of (if n < 26 then n + 65 else if n < 52 then n + 71 else if n < 62 then n - 4
     else if n = 62 then 43 else (47 :: nat))"

definition dec6 :: "char \<Rightarrow> nat option" where
  "dec6 c = (let n = (of_char c :: nat) in
     if 65 \<le> n \<and> n \<le> 90 then Some (n - 65)
     else if 97 \<le> n \<and> n \<le> 122 then Some (n - 71)
     else if 48 \<le> n \<and> n \<le> 57 then Some (n + 4)
     else if n = 43 then Some 62
     else if n = 47 then Some 63 else None)"

definition pad_char :: char where
  "pad_char = CHR ''=''"

fun b64_encode :: "string \<Rightarrow> string" where
  "b64_encode [] = []"
| "b64_encode [a] =
     (let x = (of_char a :: nat) in [enc6 (x div 4), enc6 (x mod 4 * 16), pad_char, pad_char])"
| "b64_encode [a, b] =
     (let x = (of_char a :: nat); y = (of_char b :: nat)
      in [enc6 (x div 4), enc6 (x mod 4 * 16 + y div 16), enc6 (y mod 16 * 4), pad_char])"
| "b64_encode (a # b # c # rest) =
     (let x = (of_char a :: nat); y = (of_char b :: nat); z = (of_char c :: nat)
      in enc6 (x div 4) # enc6 (x mod 4 * 16 + y div 16) # enc6 (y mod 16 * 4 + z div 64) # enc6 (z mod 64) #
         b64_encode rest)"

definition quad :: "char \<Rightarrow> char \<Rightarrow> char \<Rightarrow> char \<Rightarrow> string option" where
  "quad p q r s =
     (case (dec6 p, dec6 q, dec6 r, dec6 s) of
        (Some i, Some j, Some k, Some l) \<Rightarrow>
          Some [char_of (i * 4 + j div 16), char_of (j mod 16 * 16 + k div 4), char_of (k mod 4 * 64 + l)]
      | (Some i, Some j, Some k, None) \<Rightarrow>
          if s = pad_char then Some [char_of (i * 4 + j div 16), char_of (j mod 16 * 16 + k div 4)] else None
      | (Some i, Some j, None, None) \<Rightarrow>
          if r = pad_char \<and> s = pad_char then Some [char_of (i * 4 + j div 16)] else None
      | _ \<Rightarrow> None)"

fun b64_groups :: "string \<Rightarrow> string option" where
  "b64_groups [] = Some []"
| "b64_groups (p # q # r # s # rest) =
     (case quad p q r s of
        None \<Rightarrow> None
      | Some bytes \<Rightarrow>
          if s = pad_char then (if rest = [] then Some bytes else None)
          else (case b64_groups rest of None \<Rightarrow> None | Some more \<Rightarrow> Some (bytes @ more)))"
| "b64_groups _ = None"

definition b64_decode :: "string \<Rightarrow> string option" where
  "b64_decode text = b64_groups (filter (\<lambda>c. (of_char c :: nat) \<noteq> 10 \<and> (of_char c :: nat) \<noteq> 13) text)"

lemma of_char_enc6:
  "n < 64 \<Longrightarrow> of_char (enc6 n) =
     (if n < 26 then n + 65 else if n < 52 then n + 71 else if n < 62 then n - 4 else if n = 62 then 43 else 47)"
  by (simp add: enc6_def)

lemma of_char_pad: "(of_char pad_char :: nat) = 61"
  by (simp add: pad_char_def)

lemma enc6_facts:
  assumes "n < 64"
  shows "dec6 (enc6 n) = Some n" "enc6 n \<noteq> pad_char" "(of_char (enc6 n) :: nat) \<noteq> 10" "(of_char (enc6 n) :: nat) \<noteq> 13"
proof -
  show "dec6 (enc6 n) = Some n" using assms by (auto simp: dec6_def of_char_enc6 Let_def)
  show "(of_char (enc6 n) :: nat) \<noteq> 10" "(of_char (enc6 n) :: nat) \<noteq> 13" using assms by (auto simp: of_char_enc6)
  have "(of_char (enc6 n) :: nat) \<noteq> of_char pad_char" using assms by (auto simp: of_char_enc6 of_char_pad)
  then show "enc6 n \<noteq> pad_char" by metis
qed

lemma pad_facts: "dec6 pad_char = None" "(of_char pad_char :: nat) \<noteq> 10" "(of_char pad_char :: nat) \<noteq> 13"
  by (simp_all add: dec6_def of_char_pad)

lemma byte_less: "(of_char c :: nat) < 256"
  by simp

lemma byte_div:
  "(of_char a :: nat) div 4 < 64" "(of_char a :: nat) div 16 < 16" "(of_char a :: nat) div 64 < 4"
  using byte_less[of a] by linarith+

lemma pack_less: "q < m \<Longrightarrow> r < k \<Longrightarrow> q * k + r < m * (k :: nat)"
proof -
  assume "q < m" "r < k"
  then have "q * k + r < q * k + k" by simp
  also have "\<dots> = (q + 1) * k" by simp
  also have "\<dots> \<le> m * k" using \<open>q < m\<close> by (intro mult_le_mono1) simp
  finally show ?thesis .
qed

lemma sextet_bounds:
  "(of_char a :: nat) mod 4 * 16 + (of_char b :: nat) div 16 < 64"
  "(of_char a :: nat) mod 4 * 16 < 64"
  "(of_char a :: nat) mod 16 * 4 + (of_char b :: nat) div 64 < 64"
  "(of_char a :: nat) mod 16 * 4 < 64"
  "(of_char a :: nat) mod 64 < 64"
  using pack_less[of "of_char a mod 4" 4 "of_char b div 16" 16] pack_less[of "of_char a mod 4" 4 0 16]
    pack_less[of "of_char a mod 16" 16 "of_char b div 64" 4] pack_less[of "of_char a mod 16" 16 0 4] byte_div[of b]
  by simp_all

lemmas sextets = enc6_facts[OF byte_div(1)] enc6_facts[OF sextet_bounds(1)] enc6_facts[OF sextet_bounds(2)]
  enc6_facts[OF sextet_bounds(3)] enc6_facts[OF sextet_bounds(4)] enc6_facts[OF sextet_bounds(5)] pad_facts

lemma pack_div: "r < k \<Longrightarrow> (q * k + r) div k = (q :: nat)"
  by simp

lemma pack_mod: "r < k \<Longrightarrow> (q * k + r) mod k = (r :: nat)"
  by simp

lemma nibbles: "(x :: nat) div 16 * 16 + x mod 16 = x" "x div 4 * 4 + x mod 4 = x" "x div 64 * 64 + x mod 64 = x"
  by simp_all

lemma quad_encoded:
  "quad (enc6 ((of_char a :: nat) div 4)) (enc6 ((of_char a :: nat) mod 4 * 16 + (of_char b :: nat) div 16))
     (enc6 ((of_char b :: nat) mod 16 * 4 + (of_char c :: nat) div 64)) (enc6 ((of_char c :: nat) mod 64)) = Some [a, b, c]"
  "quad (enc6 ((of_char a :: nat) div 4)) (enc6 ((of_char a :: nat) mod 4 * 16 + (of_char b :: nat) div 16))
     (enc6 ((of_char b :: nat) mod 16 * 4)) pad_char = Some [a, b]"
  "quad (enc6 ((of_char a :: nat) div 4)) (enc6 ((of_char a :: nat) mod 4 * 16)) pad_char pad_char = Some [a]"
proof -
  have first: "(of_char a :: nat) div 4 * 4 + ((of_char a :: nat) mod 4 * 16 + (of_char b :: nat) div 16) div 16 = of_char a"
    unfolding pack_div[OF byte_div(2)] by (rule nibbles)
  have first': "(of_char a :: nat) div 4 * 4 + ((of_char a :: nat) mod 4 * 16) div 16 = of_char a"
    using pack_div[of 0 16 "of_char a mod 4"] nibbles(2)[of "of_char a"] by simp
  have second: "((of_char a :: nat) mod 4 * 16 + (of_char b :: nat) div 16) mod 16 * 16 +
      ((of_char b :: nat) mod 16 * 4 + (of_char c :: nat) div 64) div 4 = of_char b"
    unfolding pack_mod[OF byte_div(2)] pack_div[OF byte_div(3)] by (rule nibbles)
  have second': "((of_char a :: nat) mod 4 * 16 + (of_char b :: nat) div 16) mod 16 * 16 +
      ((of_char b :: nat) mod 16 * 4) div 4 = of_char b"
    unfolding pack_mod[OF byte_div(2)] using nibbles(1)[of "of_char b"] by simp
  have third: "((of_char b :: nat) mod 16 * 4 + (of_char c :: nat) div 64) mod 4 * 64 + (of_char c :: nat) mod 64 = of_char c"
    unfolding pack_mod[OF byte_div(3)] by (rule nibbles)
  show "quad (enc6 ((of_char a :: nat) div 4)) (enc6 ((of_char a :: nat) mod 4 * 16 + (of_char b :: nat) div 16))
     (enc6 ((of_char b :: nat) mod 16 * 4 + (of_char c :: nat) div 64)) (enc6 ((of_char c :: nat) mod 64)) = Some [a, b, c]"
    unfolding quad_def sextets option.case prod.case first second third by (simp only: char_of_char)
  show "quad (enc6 ((of_char a :: nat) div 4)) (enc6 ((of_char a :: nat) mod 4 * 16 + (of_char b :: nat) div 16))
     (enc6 ((of_char b :: nat) mod 16 * 4)) pad_char = Some [a, b]"
    unfolding quad_def sextets option.case prod.case first second' by (simp only: char_of_char if_True simp_thms)
  show "quad (enc6 ((of_char a :: nat) div 4)) (enc6 ((of_char a :: nat) mod 4 * 16)) pad_char pad_char = Some [a]"
    unfolding quad_def sextets option.case prod.case first' by (simp only: char_of_char if_True simp_thms)
qed

lemma b64_groups_encode: "b64_groups (b64_encode s) = Some s"
  by (induction s rule: b64_encode.induct)
    (simp_all only: b64_encode.simps Let_def b64_groups.simps quad_encoded sextets option.case if_True if_False append.simps refl)

lemma b64_encode_no_breaks:
  "filter (\<lambda>c. (of_char c :: nat) \<noteq> 10 \<and> (of_char c :: nat) \<noteq> 13) (b64_encode s) = b64_encode s"
  by (induction s rule: b64_encode.induct)
    (simp_all only: b64_encode.simps Let_def filter.simps sextets simp_thms if_True)

lemma b64_roundtrip: "b64_decode (b64_encode s) = Some s"
  unfolding b64_decode_def b64_encode_no_breaks by (rule b64_groups_encode)

section \<open>The box\<close>

record aead =
  ae_nonce_size :: nat
  ae_overhead :: nat
  ae_seal :: "string \<Rightarrow> string \<Rightarrow> string"
  ae_open :: "string \<Rightarrow> string \<Rightarrow> string option"

text \<open>
  A box that was never initialised is a \<open>None\<close> cipher. \<open>new_cipher\<close> stands for AES-GCM under a
  32-byte key, \<open>hmac\<close> for HMAC-SHA-256.
\<close>

record Box =
  bx_aead :: "aead option"
  bx_key :: string

datatype box_error = BadKey | NotInitialized | NonceFailed | BadEncoding | TooShort | AuthFailed

definition New_box :: "(string \<Rightarrow> aead) \<Rightarrow> string \<Rightarrow> box_error + Box" where
  "New_box new_cipher encoded =
     (case b64_decode encoded of
        None \<Rightarrow> Inl BadKey
      | Some key \<Rightarrow> if length key \<noteq> 32 then Inl BadKey else Inr \<lparr>bx_aead = Some (new_cipher key), bx_key = key\<rparr>)"

definition Seal :: "string option \<Rightarrow> Box \<Rightarrow> string \<Rightarrow> box_error + string" where
  "Seal random_nonce b plain =
     bind_result (require_some (bx_aead b) NotInitialized) (\<lambda>a.
     bind_result (require_some random_nonce NonceFailed) (\<lambda>nonce.
     Inr (b64_encode (nonce @ ae_seal a nonce plain))))"

definition Open_box :: "Box \<Rightarrow> string \<Rightarrow> box_error + string" where
  "Open_box b encoded =
     bind_result (require_some (bx_aead b) NotInitialized) (\<lambda>a.
     bind_result (require_some (b64_decode encoded) BadEncoding) (\<lambda>data.
     bind_result (reject_when (length data < ae_nonce_size a + ae_overhead a) TooShort) (\<lambda>_.
     require_some (ae_open a (take (ae_nonce_size a) data) (drop (ae_nonce_size a) data)) AuthFailed)))"

definition DigestBytes :: "(string \<Rightarrow> string \<Rightarrow> string) \<Rightarrow> Box \<Rightarrow> string \<Rightarrow> string" where
  "DigestBytes hmac b token = hmac (bx_key b) token"

text \<open>
  What the box seals it opens: for every cipher that opens what it sealed under the same
  nonce and appends a tag of \<open>Overhead\<close> bytes, \<open>Open\<close> returns the plaintext of \<open>Seal\<close>, through the
  nonce prefix and the base64 text.
\<close>

lemma Seal_text: "bx_aead b = Some a \<Longrightarrow> Seal (Some nonce) b plain = Inr (b64_encode (nonce @ ae_seal a nonce plain))"
  by (simp add: Seal_def require_some_def)

lemma Open_Seal:
  assumes "\<And>nonce plain. length nonce = ae_nonce_size a \<Longrightarrow> ae_open a nonce (ae_seal a nonce plain) = Some plain"
    and "\<And>nonce plain. length (ae_seal a nonce plain) = length plain + ae_overhead a"
    and "length nonce = ae_nonce_size a" "bx_aead b = Some a"
  shows "Open_box b (b64_encode (nonce @ ae_seal a nonce plain)) = Inr plain"
  using assms(4,3) assms(1)[OF assms(3), of plain] assms(2)[of nonce plain]
  by (simp add: Open_box_def b64_roundtrip require_some_def reject_when_def)

text \<open>A cipher with a constant tag, on which the hypotheses hold.\<close>

definition tag_cipher :: aead where
  "tag_cipher = \<lparr>ae_nonce_size = 12, ae_overhead = 1, ae_seal = (\<lambda>nonce plain. plain @ [CHR ''t'']),
     ae_open = (\<lambda>nonce text. if text = [] then None else Some (butlast text))\<rparr>"

end
