(* ===== verification/Go_Text.thy ===== *)
theory Go_Text
  imports Relay_Prelude
begin

text \<open>
  The parts of Go's \<open>strings\<close> and \<open>strconv\<close> that several components use, on byte strings: case
  folding and affixes (ASCII), fields, decimal numbers.
\<close>

section \<open>Strings\<close>

definition to_lower :: "string \<Rightarrow> string" where
  "to_lower s = map (\<lambda>c. let n = (of_char c :: nat) in if 65 \<le> n \<and> n \<le> 90 then char_of (n + 32) else c) s"

definition has_suffix :: "string \<Rightarrow> string \<Rightarrow> bool" where
  "has_suffix s t \<longleftrightarrow> length t \<le> length s \<and> drop (length s - length t) s = t"

definition trim_suffix :: "string \<Rightarrow> string \<Rightarrow> string" where
  "trim_suffix s t = (if has_suffix s t then take (length s - length t) s else s)"

definition trim_right :: "char \<Rightarrow> string \<Rightarrow> string" where
  "trim_right c s = rev (dropWhile (\<lambda>x. x = c) (rev s))"

definition contains :: "string \<Rightarrow> string \<Rightarrow> bool" where
  "contains s t \<longleftrightarrow> list_ex (\<lambda>i. take (length t) (drop i s) = t) [0..<length s + 1]"

definition has_prefix :: "string \<Rightarrow> string \<Rightarrow> bool" where
  "has_prefix s t \<longleftrightarrow> take (length t) s = t"

definition trim_prefix :: "string \<Rightarrow> string \<Rightarrow> string" where
  "trim_prefix s t = (if has_prefix s t then drop (length t) s else s)"

text \<open>\<open>strings.Fields\<close>: the maximal runs of non-space characters.\<close>

fun fields_acc :: "string \<Rightarrow> string \<Rightarrow> string list" where
  "fields_acc acc [] = (if acc = [] then [] else [rev acc])"
| "fields_acc acc (c # cs) =
     (if is_space c then (if acc = [] then fields_acc [] cs else rev acc # fields_acc [] cs) else fields_acc (c # acc) cs)"

definition fields :: "string \<Rightarrow> string list" where
  "fields s = fields_acc [] s"

definition newline :: char where
  "newline = CHR 10"

text \<open>\<open>strings.ReplaceAll(s, "\r\n", "\n")\<close> and \<open>strings.Split\<close> at one character.\<close>

fun crlf_to_lf :: "string \<Rightarrow> string" where
  "crlf_to_lf (a # b # s) = (if a = CHR 13 \<and> b = newline then newline # crlf_to_lf s else a # crlf_to_lf (b # s))"
| "crlf_to_lf s = s"

fun split_on :: "char \<Rightarrow> string \<Rightarrow> string list" where
  "split_on d [] = [[]]"
| "split_on d (c # s) =
     (if c = d then [] # split_on d s
      else (case split_on d s of [] \<Rightarrow> [[c]] | l # ls \<Rightarrow> (c # l) # ls))"

definition contains_any :: "string \<Rightarrow> string \<Rightarrow> bool" where
  "contains_any s cs \<longleftrightarrow> list_ex (\<lambda>c. c \<in> set cs) s"

definition to_upper :: "string \<Rightarrow> string" where
  "to_upper s = map (\<lambda>c. let n = (of_char c :: nat) in if 97 \<le> n \<and> n \<le> 122 then char_of (n - 32) else c) s"

lemma crlf_to_lf_id: "CHR 13 \<notin> set s \<Longrightarrow> crlf_to_lf s = s"
  by (induction s rule: crlf_to_lf.induct) auto

lemma split_on_append: "d \<notin> set s \<Longrightarrow> split_on d (s @ d # t) = s # split_on d t"
  by (induction s) auto

lemma split_on_none: "d \<notin> set s \<Longrightarrow> split_on d s = [s]"
  by (induction s) auto

lemma trim_space_fixed: "s = [] \<or> \<not> is_space (hd s) \<and> \<not> is_space (last s) \<Longrightarrow> trim_space s = s"
proof -
  assume s: "s = [] \<or> \<not> is_space (hd s) \<and> \<not> is_space (last s)"
  have id: "dropWhile is_space t = t" if "t = [] \<or> \<not> is_space (hd t)" for t
    using that by (cases t) auto
  from s have "dropWhile is_space s = s" "dropWhile is_space (rev s) = rev s" by (auto simp: id hd_rev)
  then show ?thesis by (simp add: trim_space_def)
qed

lemma trim_space_ends:
  assumes "trim_space s = s" "s \<noteq> []"
  shows "\<not> is_space (hd s)" "\<not> is_space (last s)"
proof -
  let ?u = "dropWhile is_space s"
  have len: "length (dropWhile is_space (rev ?u)) \<le> length ?u" "length ?u \<le> length s"
    using length_dropWhile_le[of is_space "rev ?u"] by (simp_all add: length_dropWhile_le)
  have eq: "length (dropWhile is_space (rev ?u)) = length s" using assms(1) by (metis trim_space_def length_rev)
  have u: "?u = s" using len eq by (metis le_antisym dropWhile_eq_drop drop_0 length_drop diff_diff_cancel diff_self_eq_0 length_takeWhile_le)
  then show "\<not> is_space (hd s)" using assms(2) hd_dropWhile[of is_space s] by simp
  have "rev (dropWhile is_space (rev s)) = s" using assms(1) u by (simp add: trim_space_def)
  then have "dropWhile is_space (rev s) = rev s" by (metis rev_rev_ident)
  then show "\<not> is_space (last s)" using assms(2) hd_dropWhile[of is_space "rev s"] by (simp add: hd_rev)
qed

lemma has_prefix_append [simp]: "has_prefix (t @ s) t"
  by (simp add: has_prefix_def)

lemma trim_prefix_append [simp]: "trim_prefix (t @ s) t = s"
  by (simp add: trim_prefix_def)

lemma has_suffix_append [simp]: "has_suffix (s @ t) t"
  by (simp add: has_suffix_def)

lemma trim_suffix_append [simp]: "trim_suffix (s @ t) t = s"
  by (simp add: trim_suffix_def)

section \<open>Decimal numbers\<close>

fun dec_text :: "nat \<Rightarrow> string" where
  "dec_text n = (if n < 10 then [char_of (48 + n)] else dec_text (n div 10) @ [char_of (48 + n mod 10)])"

declare dec_text.simps [simp del]

definition is_digit :: "char \<Rightarrow> bool" where
  "is_digit c \<longleftrightarrow> 48 \<le> (of_char c :: nat) \<and> (of_char c :: nat) \<le> 57"

definition dec_value :: "string \<Rightarrow> int" where
  "dec_value s = foldl (\<lambda>n c. n * 10 + (int (of_char c :: nat) - 48)) 0 s"

text \<open>\<open>strconv.FormatInt\<close> and \<open>strconv.ParseInt(_, 10, 64)\<close>.\<close>

definition FormatInt :: "int \<Rightarrow> string" where
  "FormatInt n = (if n < 0 then CHR ''-'' # dec_text (nat (- n)) else dec_text (nat n))"

definition ParseInt :: "string \<Rightarrow> int option" where
  "ParseInt s =
     (let (neg, body) = (case s of [] \<Rightarrow> (False, []) | c # cs \<Rightarrow> if c = CHR ''-'' then (True, cs) else if c = CHR ''+'' then (False, cs) else (False, s))
      in if body = [] \<or> \<not> list_all is_digit body then None
         else let n = (if neg then - dec_value body else dec_value body) in if in_i64 n then Some n else None)"

lemma digit_char: "d < 10 \<Longrightarrow> (of_char (char_of (48 + d :: nat) :: char) :: nat) = 48 + d"
  by simp

lemma dec_value_snoc: "dec_value (s @ [c]) = dec_value s * 10 + (int (of_char c :: nat) - 48)"
  by (simp add: dec_value_def)

lemma dec_text_facts: "dec_value (dec_text n) = int n \<and> list_all is_digit (dec_text n) \<and> dec_text n \<noteq> []"
proof (induction n rule: less_induct)
  case (less n)
  show ?case
  proof (cases "n < 10")
    case True
    then have "dec_text n = [char_of (48 + n)]" by (subst dec_text.simps) simp
    then show ?thesis using digit_char[OF True] True by (simp add: dec_value_def is_digit_def)
  next
    case False
    then have eq: "dec_text n = dec_text (n div 10) @ [char_of (48 + n mod 10)]" by (subst dec_text.simps) simp
    have ih: "dec_value (dec_text (n div 10)) = int (n div 10)" "list_all is_digit (dec_text (n div 10))"
      using less.IH[of "n div 10"] False by simp_all
    have d: "(of_char (char_of (48 + n mod 10) :: char) :: nat) = 48 + n mod 10" by (rule digit_char) simp
    have "int (n div 10) * 10 + int (n mod 10) = int n" by presburger
    moreover have "is_digit (char_of (48 + n mod 10))" unfolding is_digit_def d by simp
    ultimately show ?thesis using ih d by (simp add: eq dec_value_snoc)
  qed
qed

lemma dec_text_head: "dec_text n = c # cs \<Longrightarrow> c \<noteq> CHR ''-'' \<and> c \<noteq> CHR ''+''"
  using dec_text_facts[of n] by (auto simp: is_digit_def)

lemma ParseInt_FormatInt: "0 \<le> n \<Longrightarrow> n \<le> max_i64 \<Longrightarrow> ParseInt (FormatInt n) = Some n"
  using dec_text_facts[of "nat n"] dec_text_head[of "nat n"]
  by (cases "dec_text (nat n)") (auto simp: ParseInt_def FormatInt_def in_i64_nonneg Let_def)

end
