(* ===== verification/Providers.thy ===== *)
theory Providers
  imports Ledger Secret Go_Text
begin

text \<open>
  The channels of the relay: \<open>internal/store/providers.go\<close>. Go's \<open>net/url\<close> and \<open>net.ParseIP\<close> are the
  record \<open>netlib\<close>; the API key is sealed by the box of \<open>Secret\<close>. An operation returns the new
  database, the redacted provider and the provider ids whose cached upstream client the registered
  callback must drop.
\<close>

section \<open>Addresses\<close>

record url =
  u_scheme :: string
  u_user :: bool
  u_host :: string
  u_hostname :: string
  u_port :: string
  u_path :: string
  u_rawquery :: string
  u_fragment :: string

record ip_addr =
  ip_loopback :: bool
  ip_private :: bool

record netlib =
  url_parse :: "string \<Rightarrow> url option"
  url_string :: "url \<Rightarrow> string"
  parse_ip :: "string \<Rightarrow> ip_addr option"

definition isLocalProviderHost :: "netlib \<Rightarrow> string \<Rightarrow> bool" where
  "isLocalProviderHost net host =
     (let host = to_lower (trim_space host) in
      if host = ''localhost'' \<or> has_suffix host ''.localhost'' then True
      else (case parse_ip net host of
              Some ip \<Rightarrow> ip_loopback ip \<or> ip_private ip
            | None \<Rightarrow> has_suffix host ''.test''))"

text \<open>
  \<open>fmt.Sscan\<close> into an \<open>int\<close>: a leading zero selects octal, and scanning stops at the first
  character that is no digit of the base. The port of a parsed address has decimal digits only.
\<close>

definition digit_value :: "char \<Rightarrow> int" where
  "digit_value c = int (of_char c :: nat) - 48"

definition scan_digits :: "int \<Rightarrow> string \<Rightarrow> int" where
  "scan_digits base s =
     foldl (\<lambda>n c. n * base + digit_value c) 0 (takeWhile (\<lambda>c. 0 \<le> digit_value c \<and> digit_value c < base) s)"

definition scan_port :: "string \<Rightarrow> int option" where
  "scan_port s =
     (case s of [] \<Rightarrow> None
      | c # _ \<Rightarrow> if digit_value c < 0 \<or> digit_value c > 9 then None
                else Some (scan_digits (if c = CHR ''0'' then 8 else 10) s))"

definition validateProviderURL :: "netlib \<Rightarrow> string \<Rightarrow> store_error + string" where
  "validateProviderURL net raw =
     (let raw = trim_space raw in
      bind_result (reject_when (raw = []) (ErrText ''base URL is empty'')) (\<lambda>_.
      bind_result (reject_when (\<not> contains raw ''://'') (ErrText ''base URL has no scheme'')) (\<lambda>_.
      bind_result (require_some (url_parse net raw) (ErrText ''base URL cannot be parsed'')) (\<lambda>u.
      bind_result (reject_when (u_hostname u = [] \<or> u_user u \<or> u_rawquery u \<noteq> [] \<or> u_fragment u \<noteq> [])
        (ErrText ''base URL must have no account, query or fragment'')) (\<lambda>_.
      bind_result (reject_when (u_scheme u \<noteq> ''https'' \<and> \<not> (u_scheme u = ''http'' \<and> isLocalProviderHost net (u_hostname u)))
        (ErrText ''only https, or http to a local host'')) (\<lambda>_.
      bind_result (reject_when (u_port u \<noteq> [] \<and>
          (case scan_port (u_port u) of None \<Rightarrow> True | Some n \<Rightarrow> n < 1 \<or> n > 65535))
        (ErrText ''base URL port is invalid'')) (\<lambda>_.
      let path = trim_right (CHR ''/'') (u_path u);
          path = (if has_suffix path ''/v1'' then trim_suffix path ''/v1'' else path)
      in Inr (trim_right (CHR ''/'') (url_string net (u\<lparr>u_path := path\<rparr>))))))))))"

definition normalizeProviderProtocol :: "string \<Rightarrow> store_error + string" where
  "normalizeProviderProtocol raw =
     (let protocol = to_lower (trim_space raw) in
      if protocol = [] then Inr ''openai''
      else if protocol = ''openai'' \<or> protocol = ''anthropic'' \<or> protocol = ''gemini'' then Inr protocol
      else Inl (ErrText ''unsupported provider protocol''))"

section \<open>Operations\<close>

record NewProvider =
  np_Name :: string
  np_BaseURL :: string
  np_APIKey :: string
  np_Protocol :: string
  np_Enabled :: bool

record UpdateProviderInput =
  up_Name :: string
  up_BaseURL :: string
  up_APIKey :: string
  up_Protocol :: string
  up_Enabled :: "bool option"

record ProviderView =
  pv_ID :: int
  pv_Name :: string
  pv_BaseURL :: string
  pv_Protocol :: string
  pv_Enabled :: bool
  pv_APIKeyConfigured :: bool

definition providerConfigured :: "Box \<Rightarrow> string \<Rightarrow> bool" where
  "providerConfigured box ciphertext \<longleftrightarrow> ciphertext \<noteq> [] \<and>
     (case Open_box box ciphertext of Inl _ \<Rightarrow> False | Inr plain \<Rightarrow> trim_space plain \<noteq> [])"

definition friendlyProviderWriteError :: "store_error \<Rightarrow> store_error" where
  "friendlyProviderWriteError e =
     (if e = ErrConstraint ''UNIQUE constraint failed: providers.name'' then ErrText ''provider name already exists'' else e)"

definition provider_name_taken :: "int \<Rightarrow> string \<Rightarrow> db \<Rightarrow> bool" where
  "provider_name_taken self name db \<longleftrightarrow> list_ex (\<lambda>p. p_id p \<noteq> self \<and> p_name p = name) (db_providers db)"

definition seal_key :: "string option \<Rightarrow> Box \<Rightarrow> string \<Rightarrow> store_error + string" where
  "seal_key nonce box apiKey =
     (case Seal nonce box apiKey of Inl _ \<Rightarrow> Inl (ErrText ''API key encryption failed'') | Inr c \<Rightarrow> Inr c)"

definition CreateProvider ::
  "netlib \<Rightarrow> string option \<Rightarrow> Box \<Rightarrow> NewProvider \<Rightarrow> db \<Rightarrow> store_error + db \<times> ProviderView" where
  "CreateProvider net nonce box inp db =
     (let name = trim_space (np_Name inp); apiKey = trim_space (np_APIKey inp) in
      bind_result (reject_when (name = []) (ErrText ''provider name is empty'')) (\<lambda>_.
      bind_result (reject_when (apiKey = []) (ErrText ''API key is empty'')) (\<lambda>_.
      bind_result (validateProviderURL net (np_BaseURL inp)) (\<lambda>baseURL.
      bind_result (normalizeProviderProtocol (np_Protocol inp)) (\<lambda>protocol.
      bind_result (seal_key nonce box apiKey) (\<lambda>ciphertext.
      bind_result (reject_when (provider_name_taken 0 name db)
        (friendlyProviderWriteError (ErrConstraint ''UNIQUE constraint failed: providers.name''))) (\<lambda>_.
      let row = \<lparr>p_id = 0, p_name = name, p_base_url = baseURL, p_protocol = protocol, p_cipher = ciphertext, p_enabled = True\<rparr>
      in Inr (db\<lparr>db_providers := tbl_insert p_id (\<lambda>i. p_id_update (\<lambda>_. i)) row (db_providers db)\<rparr>,
              \<lparr>pv_ID = tbl_next p_id (db_providers db), pv_Name = name, pv_BaseURL = baseURL, pv_Protocol = protocol,
               pv_Enabled = True, pv_APIKeyConfigured = True\<rparr>))))))))"

definition updated_provider ::
  "netlib \<Rightarrow> string option \<Rightarrow> Box \<Rightarrow> UpdateProviderInput \<Rightarrow> Provider \<Rightarrow> store_error + Provider" where
  "updated_provider net nonce box inp p =
     (let name = (if trim_space (up_Name inp) \<noteq> [] then trim_space (up_Name inp) else p_name p) in
      bind_result (if trim_space (up_BaseURL inp) \<noteq> [] then validateProviderURL net (up_BaseURL inp) else Inr (p_base_url p)) (\<lambda>baseURL.
      bind_result (if trim_space (up_Protocol inp) \<noteq> [] then normalizeProviderProtocol (up_Protocol inp) else Inr (p_protocol p)) (\<lambda>protocol.
      bind_result (if trim_space (up_APIKey inp) \<noteq> [] then seal_key nonce box (trim_space (up_APIKey inp)) else Inr (p_cipher p)) (\<lambda>ciphertext.
      Inr (p\<lparr>p_name := name, p_base_url := baseURL, p_protocol := protocol, p_cipher := ciphertext,
             p_enabled := (case up_Enabled inp of None \<Rightarrow> p_enabled p | Some e \<Rightarrow> e)\<rparr>)))))"

definition provider_view :: "Box \<Rightarrow> Provider \<Rightarrow> ProviderView" where
  "provider_view box p = \<lparr>pv_ID = p_id p, pv_Name = p_name p, pv_BaseURL = p_base_url p, pv_Protocol = p_protocol p,
     pv_Enabled = p_enabled p, pv_APIKeyConfigured = providerConfigured box (p_cipher p)\<rparr>"

definition UpdateProvider ::
  "netlib \<Rightarrow> string option \<Rightarrow> Box \<Rightarrow> int \<Rightarrow> UpdateProviderInput \<Rightarrow> db \<Rightarrow> store_error + db \<times> ProviderView \<times> int list" where
  "UpdateProvider net nonce box i inp db =
     bind_result (reject_when (i \<le> 0) (ErrText ''provider ID is invalid'')) (\<lambda>_.
     bind_result (require_some (tbl_find p_id i (db_providers db)) (ErrText ''provider does not exist'')) (\<lambda>p.
     bind_result (updated_provider net nonce box inp p) (\<lambda>p'.
     bind_result (reject_when (provider_name_taken i (p_name p') db)
       (friendlyProviderWriteError (ErrConstraint ''UNIQUE constraint failed: providers.name''))) (\<lambda>_.
     let rotated = (trim_space (up_APIKey inp) \<noteq> []);
         evict = (if rotated \<or> p_base_url p' \<noteq> p_base_url p \<or> p_protocol p' \<noteq> p_protocol p then [i] else [])
     in Inr (db\<lparr>db_providers := tbl_update p_id i (\<lambda>_. p') (db_providers db)\<rparr>, provider_view box p', evict)))))"

definition ListProviders :: "Box \<Rightarrow> db \<Rightarrow> ProviderView list" where
  "ListProviders box db = map (provider_view box) (db_providers db)"

definition GetProvider :: "Box \<Rightarrow> int \<Rightarrow> db \<Rightarrow> store_error + ProviderView" where
  "GetProvider box i db =
     bind_result (require_some (tbl_find p_id i (db_providers db)) ErrNoRows) (\<lambda>p. Inr (provider_view box p))"

definition ProviderAPIKey :: "Box \<Rightarrow> int \<Rightarrow> db \<Rightarrow> store_error + string" where
  "ProviderAPIKey box i db =
     bind_result (require_some (tbl_find p_id i (db_providers db)) ErrNoRows) (\<lambda>p.
     case Open_box box (p_cipher p) of Inl _ \<Rightarrow> Inl (ErrText ''credential cannot be opened'') | Inr plain \<Rightarrow> Inr plain)"

definition DeleteProvider :: "int \<Rightarrow> db \<Rightarrow> store_error + db \<times> int list" where
  "DeleteProvider i db =
     bind_result (reject_when (i \<le> 0) (ErrText ''provider ID is required'')) (\<lambda>_.
     bind_result (delete_provider_row i db) (\<lambda>db'.
     if tbl_find p_id i (db_providers db) = None then Inl ErrNoRows else Inr (db', [i])))"

section \<open>One row changed under its unique columns\<close>

lemma unique_by_update:
  assumes "tbl_wf rid rows" "unique_by f rows" "\<not> list_ex (\<lambda>r. rid r \<noteq> i \<and> f r = v) rows" "\<And>r. f (h r) = v"
  shows "unique_by f (tbl_update rid i h rows)"
  using assms
proof (induction rows)
  case (Cons a rows)
  have wf: "tbl_wf rid rows" and uq: "unique_by f rows" "f a \<notin> f ` set rows"
    using Cons.prems by (simp_all add: tbl_wf_def unique_by_def)
  have ih: "unique_by f (tbl_update rid i h rows)" using Cons.IH wf uq(1) Cons.prems(3,4) by auto
  have up: "f ` set (tbl_update rid i h rows) \<subseteq> insert v (f ` set rows)"
    using Cons.prems(4) by (auto simp: tbl_update_def)
  show ?case
  proof (cases "rid a = i")
    case True
    then have "i \<notin> rid ` set rows" using Cons.prems(1) by (auto simp: tbl_wf_def)
    then have "tbl_update rid i h rows = rows" by (auto simp: tbl_update_def intro!: map_idI)
    moreover have "f r \<noteq> v" if "r \<in> set rows" for r
      using Cons.prems(3) \<open>i \<notin> rid ` set rows\<close> that by (auto simp: list_ex_iff image_iff dest!: bspec[OF _ that])
    then have "v \<notin> f ` set rows" by blast
    ultimately show ?thesis using True uq Cons.prems(4) by (simp add: tbl_update_def unique_by_def)
  next
    case False
    then have "f a \<noteq> v" using Cons.prems(3) by auto
    with up uq(2) have "f a \<notin> f ` set (tbl_update rid i h rows)" by blast
    moreover have "tbl_update rid i h (a # rows) = a # tbl_update rid i h rows" using False by (simp add: tbl_update_def)
    ultimately show ?thesis using ih by (simp add: unique_by_def)
  qed
qed (simp add: tbl_update_def unique_by_def)

lemma unique_by_insert:
  assumes "unique_by f rows" "v \<notin> f ` set rows" "\<And>i. f (set_rid i row) = v"
  shows "unique_by f (tbl_insert rid set_rid row rows)"
  using assms by (simp add: tbl_insert_def unique_by_snoc)

lemma refers_update:
  assumes "\<And>r. rid r = i \<Longrightarrow> rid (h r) = i"
  shows "refers rid (tbl_update rid i h rows) j = refers rid rows j" "refers_opt rid (tbl_update rid i h rows) v = refers_opt rid rows v"
proof -
  have "map rid (tbl_update rid i h rows) = map rid rows" using assms by (simp add: tbl_update_def)
  then have "rid ` set (tbl_update rid i h rows) = rid ` set rows" by (metis set_map)
  then show "refers rid (tbl_update rid i h rows) j = refers rid rows j" "refers_opt rid (tbl_update rid i h rows) v = refers_opt rid rows v"
    by (simp_all add: refers_def refers_opt_def split: option.splits)
qed

lemma refers_insert: "refers rid rows j \<Longrightarrow> refers rid (tbl_insert rid set_rid row rows) j"
  by (auto simp: refers_def tbl_insert_def)

lemma refers_opt_insert: "refers_opt rid rows v \<Longrightarrow> refers_opt rid (tbl_insert rid set_rid row rows) v"
  by (auto simp: refers_opt_def refers_insert split: option.splits)

lemma tbl_wf_update_same:
  "(\<And>r. rid r = i \<Longrightarrow> rid (h r) = i) \<Longrightarrow> tbl_wf rid (tbl_update rid i h rows) = tbl_wf rid rows"
proof -
  assume "\<And>r. rid r = i \<Longrightarrow> rid (h r) = i"
  then have *: "map rid (tbl_update rid i h rows) = map rid rows" by (simp add: tbl_update_def)
  have "list_all (\<lambda>r. 0 < rid r) xs \<longleftrightarrow> list_all (\<lambda>x. 0 < x) (map rid xs)" for xs by (simp add: list.pred_map o_def)
  with * show ?thesis by (simp add: tbl_wf_def)
qed

section \<open>Deletions and the ledger\<close>

text \<open>
  An administrative change that keeps every active reservation, drops only finished ones and
  rewrites requests only in the columns the ledger relation does not read keeps the relation.
\<close>

definition ledger_view :: "RequestRow \<Rightarrow> string \<times> string \<times> int \<times> int \<times> gotime" where
  "ledger_view q = (q_request_id q, q_status q, q_reserved_tokens q, q_amount q, q_created q)"

lemma ledger_inv_frame:
  assumes inv: "ledger_inv db"
    and reqs: "db_requests db' = map h (db_requests db)" "\<And>q. ledger_view (h q) = ledger_view q"
    and rows: "db_reservations db' = filter P (db_reservations db)"
    and kept: "\<And>r. r \<in> set (db_reservations db) \<Longrightarrow> r_status r = ''reserved'' \<Longrightarrow> P r"
  shows "ledger_inv db'"
proof -
  have b: "backs (h q) r = backs q r" for q r using reqs(2)[of q] by (auto simp: backs_def ledger_view_def)
  have s: "q_status (h q) = q_status q" "q_request_id (h q) = q_request_id q" for q
    using reqs(2)[of q] by (simp_all add: ledger_view_def)
  have "inv_backed db'" using inv b by (auto simp: ledger_inv_def inv_backed_def reqs(1) rows)
  moreover have "inv_held db'"
    unfolding inv_held_def
  proof (intro ballI impI)
    fix q assume "q \<in> set (db_requests db')" "q_status q = ''reserved''"
    then obtain q0 where q0: "q = h q0" "q0 \<in> set (db_requests db)" "q_status q0 = ''reserved''"
      by (auto simp: reqs(1) s)
    then obtain r where "r \<in> set (db_reservations db)" "r_status r = ''reserved''" "r_request_id r = Some (q_request_id q0)"
      using inv by (auto simp: ledger_inv_def inv_held_def)
    with kept q0 show "\<exists>r\<in>set (db_reservations db'). r_status r = ''reserved'' \<and> r_request_id r = Some (q_request_id q)"
      by (auto simp: rows s)
  qed
  moreover have "inv_single db'" "inv_amounts db'" using inv by (auto simp: ledger_inv_defs rows)
  ultimately show ?thesis by (simp add: ledger_inv_def)
qed

lemma ledger_inv_same:
  "ledger_inv db \<Longrightarrow> db_requests db' = db_requests db \<Longrightarrow> db_reservations db' = db_reservations db \<Longrightarrow> ledger_inv db'"
  by (simp add: ledger_inv_defs)

lemma delete_reservations_kept:
  "delete_reservations P db = Inr db' \<Longrightarrow> r \<in> set (db_reservations db) \<Longrightarrow> r_status r = ''reserved'' \<Longrightarrow> \<not> P r"
  by (auto simp: delete_reservations_def list_ex_iff split: if_splits)

lemma delete_reservations_ledger_inv:
  assumes "ledger_inv db" "delete_reservations P db = Inr db'"
  shows "ledger_inv db'"
  by (rule ledger_inv_frame[where h = "\<lambda>q. q", OF assms(1) _ _ delete_reservations_frame(7)[OF assms(2)]])
    (use delete_reservations_frame[OF assms(2)] delete_reservations_kept[OF assms(2)] in simp_all)

lemma delete_models_ledger_inv:
  assumes inv: "ledger_inv db" and del: "delete_models P db = Inr db'"
  shows "ledger_inv db'"
proof -
  define gone where "gone = (\<lambda>i. list_ex (\<lambda>m. P m \<and> m_id m = i) (db_models db))"
  obtain mid where mid: "delete_reservations (\<lambda>r. gone (r_model_id r)) db = Inr mid"
    and db': "db' = mid\<lparr>db_models := filter (\<lambda>m. \<not> P m) (db_models mid),
        db_requests := map (\<lambda>q. q\<lparr>q_model_id := clear_ref gone (q_model_id q)\<rparr>) (db_requests mid)\<rparr>"
    using del by (auto simp: delete_models_def Let_def gone_def bind_result_Inr)
  show ?thesis
    by (rule ledger_inv_frame[where P = "\<lambda>_. True" and h = "\<lambda>q. q\<lparr>q_model_id := clear_ref gone (q_model_id q)\<rparr>",
          OF delete_reservations_ledger_inv[OF inv mid]]) (simp_all add: db' ledger_view_def)
qed

lemma delete_provider_row_ledger_inv:
  assumes inv: "ledger_inv db" and del: "delete_provider_row i db = Inr db'"
  shows "ledger_inv db'"
proof -
  obtain mid where mid: "delete_models (\<lambda>m. m_provider_id m = i) db = Inr mid"
    and db': "db' = mid\<lparr>db_providers := tbl_delete p_id i (db_providers mid),
             db_group_providers := filter (\<lambda>(g, p). p \<noteq> i) (db_group_providers mid),
             db_requests := map (\<lambda>q. q\<lparr>q_provider_id := clear_ref (\<lambda>p. p = i) (q_provider_id q)\<rparr>) (db_requests mid)\<rparr>"
    using del by (auto simp: delete_provider_row_def bind_result_Inr)
  show ?thesis
    by (rule ledger_inv_frame[where P = "\<lambda>_. True" and h = "\<lambda>q. q\<lparr>q_provider_id := clear_ref (\<lambda>p. p = i) (q_provider_id q)\<rparr>",
          OF delete_models_ledger_inv[OF inv mid]]) (simp_all add: db' ledger_view_def)
qed

lemma delete_key_row_ledger_inv:
  assumes inv: "ledger_inv db" and del: "delete_key_row i db = Inr db'"
  shows "ledger_inv db'"
proof -
  obtain mid where mid: "delete_reservations (\<lambda>r. r_key_id r = i) db = Inr mid"
    and db': "db' = mid\<lparr>db_keys := tbl_delete k_id i (db_keys mid),
             db_requests := map (\<lambda>q. q\<lparr>q_key_id := clear_ref (\<lambda>k. k = i) (q_key_id q)\<rparr>) (db_requests mid)\<rparr>"
    using del by (auto simp: delete_key_row_def bind_result_Inr)
  show ?thesis
    by (rule ledger_inv_frame[where P = "\<lambda>_. True" and h = "\<lambda>q. q\<lparr>q_key_id := clear_ref (\<lambda>k. k = i) (q_key_id q)\<rparr>",
          OF delete_reservations_ledger_inv[OF inv mid]]) (simp_all add: db' ledger_view_def)
qed

section \<open>Provider operations keep the database well formed\<close>

lemma CreateProvider_wf:
  assumes wf: "wf_db db" and ok: "CreateProvider net nonce box inp db = Inr (db', v)"
  shows "wf_db db'"
proof -
  obtain row where row: "db' = db\<lparr>db_providers := tbl_insert p_id (\<lambda>i. p_id_update (\<lambda>_. i)) row (db_providers db)\<rparr>"
    and free: "\<not> provider_name_taken 0 (p_name row) db"
    using ok by (auto simp: CreateProvider_def Let_def bind_result_Inr)
  have "p_name row \<notin> p_name ` set (db_providers db)"
    using free tbl_wf_pos[OF wf_dbD(7)[OF wf]] by (fastforce simp: provider_name_taken_def list_ex_iff)
  then have "unique_by p_name (db_providers db')"
    using wf row by (auto intro!: unique_by_insert simp: wf_db_defs)
  then show ?thesis
    using wf row prov.wf_insert
    by (auto simp: wf_db_defs list_all_iff refers_insert refers_opt_insert)
qed

lemma updated_provider_id: "updated_provider net nonce box inp p = Inr p' \<Longrightarrow> p_id p' = p_id p"
  by (auto simp: updated_provider_def Let_def bind_result_Inr)

lemma UpdateProvider_wf:
  assumes wf: "wf_db db" and ok: "UpdateProvider net nonce box i inp db = Inr (db', v)"
  shows "wf_db db'"
proof -
  obtain p p' where p: "tbl_find p_id i (db_providers db) = Some p" and p': "updated_provider net nonce box inp p = Inr p'"
    and free: "\<not> provider_name_taken i (p_name p') db" and db': "db' = db\<lparr>db_providers := tbl_update p_id i (\<lambda>_. p') (db_providers db)\<rparr>"
    using ok by (auto simp: UpdateProvider_def Let_def bind_result_Inr)
  have id: "p_id p' = i" using updated_provider_id[OF p'] tbl_find_Some[OF p] by simp
  have uq: "unique_by p_name (tbl_update p_id i (\<lambda>_. p') (db_providers db))"
    using free by (intro unique_by_update[where v = "p_name p'", OF wf_dbD(7)[OF wf]]) (use wf in \<open>simp_all add: wf_db_defs provider_name_taken_def\<close>)
  have "tbl_wf p_id (tbl_update p_id i (\<lambda>_. p') (db_providers db))"
    using wf_dbD(7)[OF wf] id by (subst tbl_wf_update_same) simp_all
  with wf uq id show ?thesis
    by (simp add: wf_db_defs db' refers_update)
qed

lemma DeleteProvider_wf: "wf_db db \<Longrightarrow> DeleteProvider i db = Inr (db', v) \<Longrightarrow> wf_db db'"
  by (auto simp: DeleteProvider_def bind_result_Inr split: if_splits dest: delete_provider_row_wf)

lemma provider_ops_ledger_inv:
  "ledger_inv db \<Longrightarrow> CreateProvider net nonce box inp db = Inr (db', v) \<Longrightarrow> ledger_inv db'"
  "ledger_inv db \<Longrightarrow> UpdateProvider net nonce box i inp' db = Inr (db', w) \<Longrightarrow> ledger_inv db'"
  "ledger_inv db \<Longrightarrow> DeleteProvider i db = Inr (db', x) \<Longrightarrow> ledger_inv db'"
  by (auto simp: CreateProvider_def UpdateProvider_def DeleteProvider_def Let_def bind_result_Inr
      elim: ledger_inv_same split: if_splits dest: delete_provider_row_ledger_inv)

end
