(* ===== verification/Catalog.thy ===== *)
theory Catalog
  imports Providers
begin

text \<open>
  Models and groups: \<open>internal/store/models.go\<close> and the start-up seeding of group quotas from
  \<open>ledger.go\<close>. A group carries the billing rate and the quota columns that \<open>ReserveRequest\<close> reads.
\<close>

section \<open>Models\<close>

record NewModel =
  nm_ProviderID :: int
  nm_PublicName :: string
  nm_UpstreamName :: string
  nm_InputPrice :: "int option"
  nm_OutputPrice :: "int option"
  nm_CachedPrice :: "int option"
  nm_Enabled :: bool

record UpdateModelInput =
  um_ProviderID :: "int option"
  um_PublicName :: string
  um_UpstreamName :: string
  um_InputPrice :: "int option"
  um_OutputPrice :: "int option"
  um_CachedPrice :: "int option"
  um_Enabled :: "bool option"

definition validatePrice :: "int option \<Rightarrow> store_error + unit" where
  "validatePrice v = reject_when (case v of None \<Rightarrow> False | Some n \<Rightarrow> n < 0) (ErrText ''price must be non-negative'')"

text \<open>What SQLite checks when a model row is written: the unique public name and the provider reference.\<close>

definition model_constraints :: "int \<Rightarrow> Model \<Rightarrow> db \<Rightarrow> store_error + unit" where
  "model_constraints self m db =
     bind_result (reject_when (list_ex (\<lambda>r. m_id r \<noteq> self \<and> m_public_name r = m_public_name m) (db_models db))
       (ErrConstraint ''UNIQUE constraint failed: models.public_name'')) (\<lambda>_.
     reject_when (\<not> refers p_id (db_providers db) (m_provider_id m)) (ErrConstraint ''FOREIGN KEY constraint failed''))"

definition insert_model :: "Model \<Rightarrow> db \<Rightarrow> store_error + db \<times> Model" where
  "insert_model m db =
     bind_result (model_constraints 0 m db) (\<lambda>_.
     Inr (db\<lparr>db_models := tbl_insert m_id (\<lambda>i. m_id_update (\<lambda>_. i)) m (db_models db)\<rparr>,
          m\<lparr>m_id := tbl_next m_id (db_models db)\<rparr>))"

definition new_model :: "NewModel \<Rightarrow> Model" where
  "new_model inp = \<lparr>m_id = 0, m_provider_id = nm_ProviderID inp, m_public_name = trim_space (nm_PublicName inp),
     m_upstream_name = trim_space (nm_UpstreamName inp), m_input_price = nm_InputPrice inp,
     m_output_price = nm_OutputPrice inp, m_cached_price = nm_CachedPrice inp, m_enabled = nm_Enabled inp\<rparr>"

definition CreateModel :: "NewModel \<Rightarrow> db \<Rightarrow> store_error + db \<times> Model" where
  "CreateModel inp db =
     bind_result (reject_when (nm_ProviderID inp \<le> 0 \<or> trim_space (nm_PublicName inp) = [] \<or> trim_space (nm_UpstreamName inp) = [])
       (ErrText ''provider, public name, and upstream name are required'')) (\<lambda>_.
     bind_result (validatePrice (nm_InputPrice inp)) (\<lambda>_.
     bind_result (validatePrice (nm_OutputPrice inp)) (\<lambda>_.
     bind_result (validatePrice (nm_CachedPrice inp)) (\<lambda>_.
     insert_model (new_model inp) db))))"

definition CreateImportedModel :: "NewModel \<Rightarrow> db \<Rightarrow> store_error + db \<times> Model" where
  "CreateImportedModel inp db =
     insert_model \<lparr>m_id = 0, m_provider_id = nm_ProviderID inp, m_public_name = nm_PublicName inp,
       m_upstream_name = nm_UpstreamName inp, m_input_price = None, m_output_price = None,
       m_cached_price = None, m_enabled = False\<rparr> db"

definition set_price :: "int option \<Rightarrow> int option \<Rightarrow> store_error + int option" where
  "set_price new old =
     (case new of None \<Rightarrow> Inr old | Some n \<Rightarrow> bind_result (validatePrice (Some n)) (\<lambda>_. Inr (Some n)))"

definition set_text :: "string \<Rightarrow> string \<Rightarrow> string" where
  "set_text new old = (if trim_space new \<noteq> [] then trim_space new else old)"

definition updated_model :: "UpdateModelInput \<Rightarrow> Model \<Rightarrow> store_error + Model" where
  "updated_model inp m =
     bind_result (case um_ProviderID inp of None \<Rightarrow> Inr (m_provider_id m)
        | Some p \<Rightarrow> bind_result (reject_when (p \<le> 0) (ErrText ''invalid provider ID'')) (\<lambda>_. Inr p)) (\<lambda>provider.
     bind_result (set_price (um_InputPrice inp) (m_input_price m)) (\<lambda>input.
     bind_result (set_price (um_OutputPrice inp) (m_output_price m)) (\<lambda>output.
     bind_result (set_price (um_CachedPrice inp) (m_cached_price m)) (\<lambda>cached.
     Inr (m\<lparr>m_provider_id := provider, m_public_name := set_text (um_PublicName inp) (m_public_name m),
            m_upstream_name := set_text (um_UpstreamName inp) (m_upstream_name m), m_input_price := input,
            m_output_price := output, m_cached_price := cached,
            m_enabled := (case um_Enabled inp of None \<Rightarrow> m_enabled m | Some e \<Rightarrow> e)\<rparr>)))))"

definition UpdateModel :: "int \<Rightarrow> UpdateModelInput \<Rightarrow> db \<Rightarrow> store_error + db \<times> Model" where
  "UpdateModel i inp db =
     bind_result (require_some (tbl_find m_id i (db_models db)) ErrNoRows) (\<lambda>m.
     bind_result (updated_model inp m) (\<lambda>m'.
     bind_result (model_constraints i m' db) (\<lambda>_.
     Inr (db\<lparr>db_models := tbl_update m_id i (\<lambda>_. m') (db_models db)\<rparr>, m'))))"

definition ListModels :: "db \<Rightarrow> Model list" where
  "ListModels db = db_models db"

definition GetModel :: "int \<Rightarrow> db \<Rightarrow> store_error + Model" where
  "GetModel i db = require_some (tbl_find m_id i (db_models db)) ErrNoRows"

definition GetModelByPublicName :: "string \<Rightarrow> db \<Rightarrow> store_error + Model" where
  "GetModelByPublicName name db = require_some (find (\<lambda>m. m_public_name m = name) (db_models db)) ErrNoRows"

definition DeleteModel :: "int \<Rightarrow> db \<Rightarrow> store_error + db" where
  "DeleteModel i db =
     bind_result (reject_when (i \<le> 0) (ErrText ''model ID is required'')) (\<lambda>_.
     bind_result (delete_models (\<lambda>m. m_id m = i) db) (\<lambda>db'.
     if tbl_find m_id i (db_models db) = None then Inl ErrNoRows else Inr db'))"

section \<open>Groups\<close>

record NewModelGroup =
  ng_Name :: string
  ng_Enabled :: bool
  ng_RateMilli :: int

record UpdateModelGroupInput =
  ug_Name :: string
  ug_Enabled :: "bool option"
  ug_RateMilli :: "int option"
  ug_Token5H :: "int option"
  ug_Amount5H :: "int option"
  ug_TokenDaily :: "int option"
  ug_AmountDaily :: "int option"
  ug_TokenWeekly :: "int option"
  ug_AmountWeekly :: "int option"
  ug_PeriodDays :: "int option"
  ug_TokenPeriod :: "int option"
  ug_AmountPeriod :: "int option"
  ug_PeriodStart :: "string option"

definition DefaultGroupRateMilli :: int where
  "DefaultGroupRateMilli = 1000"

definition normalizeRateMilli :: "int \<Rightarrow> store_error + int" where
  "normalizeRateMilli v =
     (if v = 0 then Inr DefaultGroupRateMilli
      else if v < 0 then Inl (ErrText ''group rate multiplier must be positive'') else Inr v)"

definition group_name_taken :: "int \<Rightarrow> string \<Rightarrow> db \<Rightarrow> bool" where
  "group_name_taken self name db \<longleftrightarrow> list_ex (\<lambda>g. g_id g \<noteq> self \<and> g_name g = name) (db_groups db)"

definition CreateModelGroup :: "NewModelGroup \<Rightarrow> db \<Rightarrow> store_error + db \<times> ModelGroup" where
  "CreateModelGroup inp db =
     (let name = trim_space (ng_Name inp) in
      bind_result (reject_when (name = []) (ErrText ''group name is required'')) (\<lambda>_.
      bind_result (normalizeRateMilli (ng_RateMilli inp)) (\<lambda>rate.
      bind_result (reject_when (group_name_taken 0 name db) (ErrConstraint ''UNIQUE constraint failed: model_groups.name'')) (\<lambda>_.
      let g = \<lparr>g_id = 0, g_name = name, g_enabled = True, g_rate_milli = rate, g_token_5h = None, g_amount_5h = None,
               g_token_daily = None, g_amount_daily = None, g_token_weekly = None, g_amount_weekly = None,
               g_period_days = None, g_token_period = None, g_amount_period = None, g_period_start = None\<rparr>
      in Inr (db\<lparr>db_groups := tbl_insert g_id (\<lambda>i. g_id_update (\<lambda>_. i)) g (db_groups db)\<rparr>,
              g\<lparr>g_id := tbl_next g_id (db_groups db)\<rparr>)))))"

text \<open>Reading a group row turns an empty period start into no start.\<close>

definition scan_group :: "ModelGroup \<Rightarrow> ModelGroup" where
  "scan_group g = g\<lparr>g_period_start := (if g_period_start g = Some [] then None else g_period_start g)\<rparr>"

definition set_limit :: "int option \<Rightarrow> int option \<Rightarrow> store_error + int option" where
  "set_limit new old =
     (case new of None \<Rightarrow> Inr old
      | Some n \<Rightarrow> bind_result (reject_when (n < 0) (ErrText ''group quota limit must be non-negative'')) (\<lambda>_. Inr (Some n)))"

definition update_group_limits :: "UpdateModelGroupInput \<Rightarrow> ModelGroup \<Rightarrow> store_error + ModelGroup" where
  "update_group_limits inp g =
     bind_result (set_limit (ug_Token5H inp) (g_token_5h g)) (\<lambda>t5.
     bind_result (set_limit (ug_Amount5H inp) (g_amount_5h g)) (\<lambda>a5.
     bind_result (set_limit (ug_TokenDaily inp) (g_token_daily g)) (\<lambda>td.
     bind_result (set_limit (ug_AmountDaily inp) (g_amount_daily g)) (\<lambda>ad.
     bind_result (set_limit (ug_TokenWeekly inp) (g_token_weekly g)) (\<lambda>tw.
     bind_result (set_limit (ug_AmountWeekly inp) (g_amount_weekly g)) (\<lambda>aw.
     bind_result (set_limit (ug_TokenPeriod inp) (g_token_period g)) (\<lambda>tp.
     bind_result (set_limit (ug_AmountPeriod inp) (g_amount_period g)) (\<lambda>ap.
     Inr (g\<lparr>g_token_5h := t5, g_amount_5h := a5, g_token_daily := td, g_amount_daily := ad,
            g_token_weekly := tw, g_amount_weekly := aw, g_token_period := tp, g_amount_period := ap\<rparr>)))))))))"

definition update_group_period :: "platform \<Rightarrow> gotime \<Rightarrow> UpdateModelGroupInput \<Rightarrow> ModelGroup \<Rightarrow> store_error + ModelGroup" where
  "update_group_period plat now inp g =
     bind_result (set_limit (ug_PeriodDays inp) (g_period_days g)) (\<lambda>days.
     let start = (case ug_PeriodStart inp of None \<Rightarrow> g_period_start g
                  | Some s \<Rightarrow> if s = [] then None else Some s);
         start = (if days \<noteq> None \<and> the days > 0 \<and> start = None \<and> ug_PeriodStart inp = None
                  then Some (format_rfc3339 plat now) else start);
         start = (if days = None \<or> days = Some 0 then None else start)
     in Inr (g\<lparr>g_period_days := days, g_period_start := start\<rparr>))"

definition updated_group :: "platform \<Rightarrow> gotime \<Rightarrow> UpdateModelGroupInput \<Rightarrow> ModelGroup \<Rightarrow> store_error + ModelGroup" where
  "updated_group plat now inp g =
     bind_result (case ug_RateMilli inp of None \<Rightarrow> Inr (g_rate_milli g) | Some r \<Rightarrow> normalizeRateMilli r) (\<lambda>rate.
     bind_result (update_group_limits inp (g\<lparr>g_name := set_text (ug_Name inp) (g_name g),
        g_enabled := (case ug_Enabled inp of None \<Rightarrow> g_enabled g | Some e \<Rightarrow> e), g_rate_milli := rate\<rparr>)) (\<lambda>g'.
     update_group_period plat now inp g'))"

definition UpdateModelGroup ::
  "platform \<Rightarrow> gotime \<Rightarrow> int \<Rightarrow> UpdateModelGroupInput \<Rightarrow> db \<Rightarrow> store_error + db \<times> ModelGroup" where
  "UpdateModelGroup plat now i inp db =
     bind_result (require_some (tbl_find g_id i (db_groups db)) ErrNoRows) (\<lambda>g.
     bind_result (updated_group plat now inp (scan_group g)) (\<lambda>g'.
     bind_result (reject_when (group_name_taken i (g_name g') db) (ErrConstraint ''UNIQUE constraint failed: model_groups.name'')) (\<lambda>_.
     Inr (db\<lparr>db_groups := tbl_update g_id i (\<lambda>_. g') (db_groups db)\<rparr>, g'))))"

definition bound_keys :: "int \<Rightarrow> db \<Rightarrow> int" where
  "bound_keys i db = int (length (filter (\<lambda>k. k_group_id k = Some i) (db_keys db)))"

definition ListModelGroups :: "db \<Rightarrow> (ModelGroup \<times> int) list" where
  "ListModelGroups db = map (\<lambda>g. (scan_group g, bound_keys (g_id g) db)) (db_groups db)"

definition GetModelGroup :: "int \<Rightarrow> db \<Rightarrow> store_error + ModelGroup \<times> int" where
  "GetModelGroup i db =
     bind_result (reject_when (i \<le> 0) (ErrText ''group ID is required'')) (\<lambda>_.
     bind_result (require_some (tbl_find g_id i (db_groups db)) ErrNoRows) (\<lambda>g.
     Inr (scan_group g, bound_keys i db)))"

definition CountKeysInGroup :: "int \<Rightarrow> db \<Rightarrow> store_error + int" where
  "CountKeysInGroup i db =
     bind_result (reject_when (i \<le> 0) (ErrText ''group ID is required'')) (\<lambda>_. Inr (bound_keys i db))"

definition DeleteModelGroup :: "int \<Rightarrow> db \<Rightarrow> store_error + db" where
  "DeleteModelGroup i db =
     bind_result (reject_when (i \<le> 0) (ErrText ''group ID is required'')) (\<lambda>_.
     bind_result (delete_group_row i db) (\<lambda>db'.
     if tbl_find g_id i (db_groups db) = None then Inl ErrNoRows else Inr db'))"

definition GroupProviderIDs :: "int \<Rightarrow> db \<Rightarrow> store_error + int list" where
  "GroupProviderIDs i db =
     bind_result (reject_when (i \<le> 0) (ErrText ''group ID is required'')) (\<lambda>_.
     Inr (sort (map snd (filter (\<lambda>(g, p). g = i) (db_group_providers db)))))"

text \<open>The validation loop of \<open>ReplaceGroupProviders\<close>, with the ids it has seen.\<close>

fun check_providers :: "db \<Rightarrow> int list \<Rightarrow> int list \<Rightarrow> store_error + unit" where
  "check_providers db seen [] = Inr ()"
| "check_providers db seen (i # ids) =
     bind_result (reject_when (i \<le> 0) (ErrText ''invalid provider ID'')) (\<lambda>_.
     bind_result (reject_when (i \<in> set seen) (ErrText ''duplicate provider ID'')) (\<lambda>_.
     bind_result (require_some (tbl_find p_id i (db_providers db)) ErrNoRows) (\<lambda>p.
     bind_result (reject_when (\<not> p_enabled p) (ErrText ''provider is disabled'')) (\<lambda>_.
     check_providers db (i # seen) ids))))"

definition ReplaceGroupProviders :: "int \<Rightarrow> int list \<Rightarrow> db \<Rightarrow> store_error + db" where
  "ReplaceGroupProviders groupID providerIDs db =
     bind_result (reject_when (groupID \<le> 0) (ErrText ''group ID is required'')) (\<lambda>_.
     bind_result (require_some (tbl_find g_id groupID (db_groups db)) ErrNoRows) (\<lambda>g.
     bind_result (reject_when (\<not> g_enabled g) (ErrText ''model group is disabled'')) (\<lambda>_.
     bind_result (check_providers db [] providerIDs) (\<lambda>_.
     Inr (db\<lparr>db_group_providers := filter (\<lambda>(g, p). g \<noteq> groupID) (db_group_providers db) @ map (Pair groupID) providerIDs\<rparr>)))))"

record GlobalQuotaSeed =
  gs_Token5H :: int
  gs_TokenDaily :: int
  gs_TokenWeekly :: int
  gs_Amount5H :: int
  gs_AmountDaily :: int
  gs_AmountWeekly :: int
  gs_PeriodDays :: int
  gs_TokenPeriod :: int
  gs_AmountPeriod :: int
  gs_PeriodStart :: string

definition nullif :: "'a \<Rightarrow> 'a \<Rightarrow> 'a option" where
  "nullif v zero = (if v = zero then None else Some v)"

definition coalesce :: "'a option \<Rightarrow> 'a option \<Rightarrow> 'a option" where
  "coalesce old new = (case old of None \<Rightarrow> new | Some v \<Rightarrow> Some v)"

definition seed_group :: "GlobalQuotaSeed \<Rightarrow> ModelGroup \<Rightarrow> ModelGroup" where
  "seed_group seed g = g\<lparr>
     g_token_5h := coalesce (g_token_5h g) (nullif (gs_Token5H seed) 0),
     g_amount_5h := coalesce (g_amount_5h g) (nullif (gs_Amount5H seed) 0),
     g_token_daily := coalesce (g_token_daily g) (nullif (gs_TokenDaily seed) 0),
     g_amount_daily := coalesce (g_amount_daily g) (nullif (gs_AmountDaily seed) 0),
     g_token_weekly := coalesce (g_token_weekly g) (nullif (gs_TokenWeekly seed) 0),
     g_amount_weekly := coalesce (g_amount_weekly g) (nullif (gs_AmountWeekly seed) 0),
     g_period_days := coalesce (g_period_days g) (nullif (gs_PeriodDays seed) 0),
     g_token_period := coalesce (g_token_period g) (nullif (gs_TokenPeriod seed) 0),
     g_amount_period := coalesce (g_amount_period g) (nullif (gs_AmountPeriod seed) 0),
     g_period_start := coalesce (g_period_start g) (nullif (gs_PeriodStart seed) [])\<rparr>"

definition SeedGroupQuotas :: "GlobalQuotaSeed \<Rightarrow> db \<Rightarrow> db \<times> int" where
  "SeedGroupQuotas seed db =
     (db\<lparr>db_groups := map (seed_group seed) (db_groups db)\<rparr>, int (length (db_groups db)))"

section \<open>The catalogue stays well formed\<close>

lemma validatePrice_Inr [simp]: "validatePrice v = Inr u \<longleftrightarrow> nonneg_opt v"
  by (cases v) (auto simp: validatePrice_def nonneg_opt_def)

lemma set_price_Inr: "set_price new old = Inr v \<Longrightarrow> nonneg_opt old \<Longrightarrow> nonneg_opt v"
  by (auto simp: set_price_def bind_result_Inr split: option.splits)

lemma model_constraints_Inr:
  "model_constraints self m db = Inr u \<longleftrightarrow>
     \<not> list_ex (\<lambda>r. m_id r \<noteq> self \<and> m_public_name r = m_public_name m) (db_models db) \<and>
     refers p_id (db_providers db) (m_provider_id m)"
  by (auto simp: model_constraints_def bind_result_Inr)

lemma insert_model_wf:
  assumes wf: "wf_db db" and m: "check_model m" and ok: "insert_model m db = Inr (db', v)"
  shows "wf_db db'"
proof -
  have db': "db' = db\<lparr>db_models := tbl_insert m_id (\<lambda>i. m_id_update (\<lambda>_. i)) m (db_models db)\<rparr>"
    and c: "\<not> list_ex (\<lambda>r. m_id r \<noteq> 0 \<and> m_public_name r = m_public_name m) (db_models db)"
      "refers p_id (db_providers db) (m_provider_id m)"
    using ok by (auto simp: insert_model_def bind_result_Inr model_constraints_Inr)
  have "m_public_name m \<notin> m_public_name ` set (db_models db)"
    using c(1) tbl_wf_pos[OF wf_dbD(5)[OF wf]] by (fastforce simp: list_ex_iff)
  then have "unique_by m_public_name (db_models db')"
    using wf db' by (auto intro!: unique_by_insert simp: wf_db_defs)
  moreover have "check_model (m\<lparr>m_id := i\<rparr>)" for i using m by (simp add: check_model_def)
  then have "list_all check_model (db_models db')"
    using wf db' by (simp add: wf_db_defs tbl_insert_def)
  moreover have "list_all (\<lambda>m. refers p_id (db_providers db) (m_provider_id m)) (db_models db')"
    using wf db' c by (simp add: wf_db_defs tbl_insert_def)
  moreover have "tbl_wf m_id (db_models db')" by (simp add: db' mod_tbl.wf_insert wf_dbD[OF wf])
  ultimately show ?thesis
    using wf db' by (simp add: wf_db_defs list_all_iff refers_insert refers_opt_insert)
qed

lemma CreateModel_wf:
  assumes "wf_db db" "CreateModel inp db = Inr (db', v)"
  shows "wf_db db'"
proof -
  have "check_model (new_model inp)" "insert_model (new_model inp) db = Inr (db', v)"
    using assms(2) by (auto simp: CreateModel_def bind_result_Inr check_model_def new_model_def)
  then show ?thesis by (rule insert_model_wf[OF assms(1)])
qed

lemma CreateImportedModel_wf:
  assumes "wf_db db" "CreateImportedModel inp db = Inr (db', v)"
  shows "wf_db db'"
  using assms(2) unfolding CreateImportedModel_def
  by (rule insert_model_wf[OF assms(1), rotated]) (simp add: check_model_def nonneg_opt_def)

lemma updated_model_Inr:
  assumes "updated_model inp m = Inr m'" "check_model m"
  shows "check_model m'" "m_id m' = m_id m"
  using assms by (auto simp: updated_model_def bind_result_Inr check_model_def dest: set_price_Inr)

lemma UpdateModel_wf:
  assumes wf: "wf_db db" and ok: "UpdateModel i inp db = Inr (db', v)"
  shows "wf_db db'"
proof -
  obtain m m' where m: "tbl_find m_id i (db_models db) = Some m" and m': "updated_model inp m = Inr m'"
    and c: "\<not> list_ex (\<lambda>r. m_id r \<noteq> i \<and> m_public_name r = m_public_name m') (db_models db)"
      "refers p_id (db_providers db) (m_provider_id m')"
    and db': "db' = db\<lparr>db_models := tbl_update m_id i (\<lambda>_. m') (db_models db)\<rparr>"
    using ok by (auto simp: UpdateModel_def bind_result_Inr model_constraints_Inr)
  have mm: "m \<in> set (db_models db)" "m_id m = i" using tbl_find_Some[OF m] by simp_all
  then have "check_model m" using wf by (simp add: wf_db_defs list_all_iff)
  note u = updated_model_Inr[OF m' this]
  have uq: "unique_by m_public_name (tbl_update m_id i (\<lambda>_. m') (db_models db))"
    by (rule unique_by_update[where v = "m_public_name m'", OF wf_dbD(5)[OF wf]]) (use wf c in \<open>simp_all add: wf_db_defs\<close>)
  have twf: "tbl_wf m_id (tbl_update m_id i (\<lambda>_. m') (db_models db))"
    using wf_dbD(5)[OF wf] u mm by (subst tbl_wf_update_same) simp_all
  have rows: "list_all check_model (tbl_update m_id i (\<lambda>_. m') (db_models db))"
    "list_all (\<lambda>m. refers p_id (db_providers db) (m_provider_id m)) (tbl_update m_id i (\<lambda>_. m') (db_models db))"
    using wf u c by (auto simp: wf_db_defs tbl_update_def list_all_iff)
  show ?thesis
    using wf uq twf rows u mm by (simp add: wf_db_defs db' refers_update)
qed

lemma DeleteModel_wf: "wf_db db \<Longrightarrow> DeleteModel i db = Inr db' \<Longrightarrow> wf_db db'"
  by (auto simp: DeleteModel_def bind_result_Inr split: if_splits dest: delete_models_wf)

lemma normalizeRateMilli_pos: "normalizeRateMilli v = Inr r \<Longrightarrow> 0 < r"
  by (auto simp: normalizeRateMilli_def DefaultGroupRateMilli_def split: if_splits)

lemma CreateModelGroup_wf:
  assumes wf: "wf_db db" and ok: "CreateModelGroup inp db = Inr (db', v)"
  shows "wf_db db'"
proof -
  obtain g where db': "db' = db\<lparr>db_groups := tbl_insert g_id (\<lambda>i. g_id_update (\<lambda>_. i)) g (db_groups db)\<rparr>"
    and g: "\<not> group_name_taken 0 (g_name g) db" "0 < g_rate_milli g"
    using ok by (auto simp: CreateModelGroup_def Let_def bind_result_Inr dest: normalizeRateMilli_pos)
  have "g_name g \<notin> g_name ` set (db_groups db)"
    using g(1) tbl_wf_pos[OF wf_dbD(6)[OF wf]] by (fastforce simp: group_name_taken_def list_ex_iff)
  then have "unique_by g_name (db_groups db')"
    using wf db' by (auto intro!: unique_by_insert simp: wf_db_defs)
  moreover have "list_all (\<lambda>g. 0 < g_rate_milli g) (db_groups db')"
    using wf db' g by (simp add: wf_db_defs tbl_insert_def)
  ultimately show ?thesis
    using wf db' grp.wf_insert by (auto simp: wf_db_defs list_all_iff refers_insert refers_opt_insert)
qed

lemma update_group_keeps:
  assumes "updated_group plat now inp g = Inr g'" "0 < g_rate_milli g"
  shows "g_id g' = g_id g" "0 < g_rate_milli g'"
proof -
  obtain rate g1 where rate: "(case ug_RateMilli inp of None \<Rightarrow> Inr (g_rate_milli g) | Some r \<Rightarrow> normalizeRateMilli r) = Inr rate"
    and g1: "update_group_limits inp (g\<lparr>g_name := set_text (ug_Name inp) (g_name g),
        g_enabled := (case ug_Enabled inp of None \<Rightarrow> g_enabled g | Some e \<Rightarrow> e), g_rate_milli := rate\<rparr>) = Inr g1"
    and g': "update_group_period plat now inp g1 = Inr g'"
    using assms by (auto simp: updated_group_def bind_result_Inr)
  have "g_id g1 = g_id g" "g_rate_milli g1 = rate" using g1 by (auto simp: update_group_limits_def bind_result_Inr)
  moreover have "g_id g' = g_id g1" "g_rate_milli g' = g_rate_milli g1"
    using g' by (auto simp: update_group_period_def bind_result_Inr Let_def)
  moreover have "0 < rate" using rate assms(2) by (auto split: option.splits dest: normalizeRateMilli_pos)
  ultimately show "g_id g' = g_id g" "0 < g_rate_milli g'" by simp_all
qed

lemma UpdateModelGroup_wf:
  assumes wf: "wf_db db" and ok: "UpdateModelGroup plat now i inp db = Inr (db', v)"
  shows "wf_db db'"
proof -
  obtain g g' where g: "tbl_find g_id i (db_groups db) = Some g" and g': "updated_group plat now inp (scan_group g) = Inr g'"
    and free: "\<not> group_name_taken i (g_name g') db" and db': "db' = db\<lparr>db_groups := tbl_update g_id i (\<lambda>_. g') (db_groups db)\<rparr>"
    using ok by (auto simp: UpdateModelGroup_def bind_result_Inr)
  have gm: "g \<in> set (db_groups db)" "g_id g = i" using tbl_find_Some[OF g] by simp_all
  then have "0 < g_rate_milli (scan_group g)" using wf by (simp add: wf_db_defs list_all_iff scan_group_def)
  note u = update_group_keeps[OF g' this]
  have id: "g_id g' = i" using u gm by (simp add: scan_group_def)
  have uq: "unique_by g_name (tbl_update g_id i (\<lambda>_. g') (db_groups db))"
    by (rule unique_by_update[where v = "g_name g'", OF wf_dbD(6)[OF wf]])
      (use wf free in \<open>simp_all add: wf_db_defs group_name_taken_def\<close>)
  have twf: "tbl_wf g_id (tbl_update g_id i (\<lambda>_. g') (db_groups db))"
    using wf_dbD(6)[OF wf] id by (subst tbl_wf_update_same) simp_all
  have rows: "list_all (\<lambda>g. 0 < g_rate_milli g) (tbl_update g_id i (\<lambda>_. g') (db_groups db))"
    using wf u by (auto simp: wf_db_defs tbl_update_def list_all_iff)
  show ?thesis
    using wf uq twf rows id by (simp add: wf_db_defs db' refers_update)
qed

lemma DeleteModelGroup_wf: "wf_db db \<Longrightarrow> DeleteModelGroup i db = Inr db' \<Longrightarrow> wf_db db'"
  by (auto simp: DeleteModelGroup_def bind_result_Inr split: if_splits dest: delete_group_row_wf)

lemma check_providers_Inr:
  assumes "check_providers db seen ids = Inr u"
  shows "distinct ids \<and> set ids \<inter> set seen = {} \<and>
    (\<forall>i \<in> set ids. 0 < i \<and> (\<exists>p. tbl_find p_id i (db_providers db) = Some p \<and> p_enabled p))"
  using assms
proof (induction db seen ids rule: check_providers.induct)
  case (2 db seen i ids)
  then obtain p where "0 < i" "i \<notin> set seen" "tbl_find p_id i (db_providers db) = Some p" "p_enabled p"
    and rest: "check_providers db (i # seen) ids = Inr u"
    by (auto simp: bind_result_Inr not_le)
  with 2 show ?case by (auto simp: bind_result_Inr)
qed simp

lemma ReplaceGroupProviders_Inr:
  assumes "ReplaceGroupProviders gid ids db = Inr db'"
  shows "db' = db\<lparr>db_group_providers := filter (\<lambda>(g, p). g \<noteq> gid) (db_group_providers db) @ map (Pair gid) ids\<rparr>"
    "distinct ids" "\<forall>i \<in> set ids. \<exists>p. tbl_find p_id i (db_providers db) = Some p \<and> p_enabled p"
    "\<exists>g. tbl_find g_id gid (db_groups db) = Some g \<and> g_enabled g"
  using assms check_providers_Inr[of db "[]" ids]
  by (auto simp: ReplaceGroupProviders_def bind_result_Inr)

lemma ReplaceGroupProviders_wf:
  assumes wf: "wf_db db" and ok: "ReplaceGroupProviders gid ids db = Inr db'"
  shows "wf_db db'"
proof -
  note r = ReplaceGroupProviders_Inr[OF ok]
  have g: "refers g_id (db_groups db) gid" using r(4) by (auto intro: refers_find)
  have p: "refers p_id (db_providers db) i" if "i \<in> set ids" for i using r(3) that by (auto intro: refers_find)
  have "distinct (db_group_providers db')"
    using wf r(2) by (auto simp: r(1) wf_db_defs distinct_map inj_on_def)
  with wf g p show ?thesis by (auto simp: r(1) wf_db_defs list_all_iff)
qed

lemma seed_group_keeps [simp]:
  "g_id (seed_group seed g) = g_id g" "g_name (seed_group seed g) = g_name g"
  "g_rate_milli (seed_group seed g) = g_rate_milli g"
  by (simp_all add: seed_group_def)

lemma SeedGroupQuotas_wf: "wf_db db \<Longrightarrow> wf_db (fst (SeedGroupQuotas seed db))"
  by (simp add: SeedGroupQuotas_def wf_db_defs tbl_wf_map unique_by_map refers_map list_all_iff)

lemma coalesce_idem [simp]: "coalesce (coalesce a b) b = coalesce a b"
  by (simp add: coalesce_def split: option.splits)

lemma catalog_ops_ledger_inv:
  "ledger_inv db \<Longrightarrow> CreateModel inp db = Inr (db', v) \<Longrightarrow> ledger_inv db'"
  "ledger_inv db \<Longrightarrow> CreateImportedModel inp db = Inr (db', v) \<Longrightarrow> ledger_inv db'"
  "ledger_inv db \<Longrightarrow> UpdateModel i inpu db = Inr (db', v) \<Longrightarrow> ledger_inv db'"
  "ledger_inv db \<Longrightarrow> CreateModelGroup ing db = Inr (db', g) \<Longrightarrow> ledger_inv db'"
  "ledger_inv db \<Longrightarrow> UpdateModelGroup plat now i ingu db = Inr (db', g) \<Longrightarrow> ledger_inv db'"
  "ledger_inv db \<Longrightarrow> DeleteModelGroup i db = Inr db' \<Longrightarrow> ledger_inv db'"
  "ledger_inv db \<Longrightarrow> ReplaceGroupProviders i ids db = Inr db' \<Longrightarrow> ledger_inv db'"
  "ledger_inv db \<Longrightarrow> ledger_inv (fst (SeedGroupQuotas seed db))"
  by (auto simp: CreateModel_def CreateImportedModel_def insert_model_def UpdateModel_def
      CreateModelGroup_def UpdateModelGroup_def DeleteModelGroup_def ReplaceGroupProviders_def delete_group_row_def
      SeedGroupQuotas_def Let_def bind_result_Inr elim!: ledger_inv_same split: if_splits)

lemma DeleteModel_ledger_inv: "ledger_inv db \<Longrightarrow> DeleteModel i db = Inr db' \<Longrightarrow> ledger_inv db'"
  by (auto simp: DeleteModel_def bind_result_Inr split: if_splits dest: delete_models_ledger_inv)

end
