(* ===== verification/Keys.thy ===== *)
theory Keys
  imports Catalog
begin

text \<open>
  Client keys: \<open>internal/store/keys.go\<close>. A key is found by the keyed digest of its token or, for an
  application credential, by its public id. What the random generator and the clock deliver are
  arguments; HMAC-SHA-256 is the parameter \<open>hmac\<close>.
\<close>

section \<open>Tokens\<close>

definition url_char :: "char \<Rightarrow> char" where
  "url_char c = (if c = CHR ''+'' then CHR ''-'' else if c = CHR ''/'' then CHR ''_'' else c)"

definition b64_raw_url :: "string \<Rightarrow> string" where
  "b64_raw_url raw = map url_char (filter (\<lambda>c. c \<noteq> pad_char) (b64_encode raw))"

definition randomClientToken :: "string option \<Rightarrow> store_error + string" where
  "randomClientToken raw = bind_result (require_some raw (ErrText ''generate client key'')) (\<lambda>bytes. Inr (''crk_'' @ b64_raw_url bytes))"

definition newPublicID :: "string option \<Rightarrow> store_error + string" where
  "newPublicID raw = bind_result (require_some raw (ErrText ''random source failed'')) (\<lambda>bytes. Inr (''app_'' @ b64_raw_url bytes))"

fun hex_text :: "nat \<Rightarrow> string" where
  "hex_text n = (if n < 16 then [char_of (if n < 10 then n + 48 else n + 87)]
     else hex_text (n div 16) @ [char_of (let d = n mod 16 in if d < 10 then d + 48 else d + 87)])"

declare hex_text.simps [simp del]

definition tokenLabel :: "gotime \<Rightarrow> string option \<Rightarrow> string" where
  "tokenLabel now raw =
     (case raw of None \<Rightarrow> ''key-'' @ hex_text (nat (now mod 16777215)) | Some bytes \<Rightarrow> ''key-'' @ b64_raw_url bytes)"

definition ellipsis :: string where
  "ellipsis = [char_of (226 :: nat), char_of (128 :: nat), char_of (166 :: nat)]"

definition tokenHint :: "string \<Rightarrow> string" where
  "tokenHint token = (if length token \<le> 8 then token else take 8 token @ ellipsis)"

record entropy =
  en_token :: "string option"
  en_label :: "string option"
  en_public :: "string option"

section \<open>Records\<close>

record KeyInfo =
  ki_ID :: int
  ki_Name :: string
  ki_Token :: string
  ki_TokenLabel :: string
  ki_TokenHint :: string
  ki_Enabled :: bool
  ki_ConcurrencyLimit :: int
  ki_TokenLimit :: "int option"
  ki_AmountLimit :: "int option"
  ki_DisabledReason :: string
  ki_ExpiresAt :: "gotime option"
  ki_PublicID :: string
  ki_GroupID :: "int option"

definition Keyless :: "KeyInfo \<Rightarrow> bool" where
  "Keyless k \<longleftrightarrow> trim_space (ki_PublicID k) \<noteq> []"

definition Expired :: "gotime \<Rightarrow> KeyInfo \<Rightarrow> bool" where
  "Expired now k \<longleftrightarrow> (case ki_ExpiresAt k of None \<Rightarrow> False | Some t \<Rightarrow> \<not> now < t)"

record NewClientKey =
  nk_Name :: string
  nk_Enabled :: bool
  nk_ConcurrencyLimit :: int
  nk_TokenLimit :: "int option"
  nk_AmountLimit :: "int option"
  nk_ExpiresAt :: "gotime option"
  nk_Keyless :: bool

record UpdateClientKeyInput =
  uk_Name :: string
  uk_Enabled :: "bool option"
  uk_ConcurrencyLimit :: "int option"
  uk_TokenLimit :: "int option"
  uk_AmountLimit :: "int option"
  uk_DisabledReason :: "string option"
  uk_ExpiresAt :: "gotime option"
  uk_ClearExpiresAt :: bool

definition validateLimit :: "int option \<Rightarrow> string \<Rightarrow> store_error + unit" where
  "validateLimit v label = reject_when (case v of None \<Rightarrow> False | Some n \<Rightarrow> n < 0) (ErrText (label @ '' must be non-negative''))"

definition scanClientKey :: "ClientKey \<Rightarrow> KeyInfo" where
  "scanClientKey k = \<lparr>ki_ID = k_id k, ki_Name = k_name k, ki_Token = [], ki_TokenLabel = k_label k, ki_TokenHint = [],
     ki_Enabled = k_enabled k, ki_ConcurrencyLimit = k_concurrency k, ki_TokenLimit = k_token_limit k,
     ki_AmountLimit = k_amount_limit k, ki_DisabledReason = k_disabled_reason k, ki_ExpiresAt = k_expires k,
     ki_PublicID = (case k_public_id k of None \<Rightarrow> [] | Some i \<Rightarrow> i), ki_GroupID = k_group_id k\<rparr>"

section \<open>Life cycle\<close>

definition key_constraints :: "int \<Rightarrow> ClientKey \<Rightarrow> db \<Rightarrow> store_error + unit" where
  "key_constraints self k db =
     bind_result (reject_when (list_ex (\<lambda>r. k_id r \<noteq> self \<and> k_name r = k_name k) (db_keys db))
       (ErrConstraint ''UNIQUE constraint failed: client_keys.name'')) (\<lambda>_.
     bind_result (reject_when (list_ex (\<lambda>r. k_id r \<noteq> self \<and> k_digest r = k_digest k) (db_keys db))
       (ErrConstraint ''UNIQUE constraint failed: client_keys.token_digest'')) (\<lambda>_.
     reject_when (k_public_id k \<noteq> None \<and> list_ex (\<lambda>r. k_id r \<noteq> self \<and> k_public_id r = k_public_id k) (db_keys db))
       (ErrConstraint ''UNIQUE constraint failed: client_keys.public_id'')))"

definition insert_key :: "ClientKey \<Rightarrow> db \<Rightarrow> store_error + db" where
  "insert_key row db =
     bind_result (key_constraints 0 row db) (\<lambda>_.
     Inr (db\<lparr>db_keys := tbl_insert k_id (\<lambda>i. k_id_update (\<lambda>_. i)) row (db_keys db)\<rparr>))"

definition new_key_row :: "NewClientKey \<Rightarrow> string \<Rightarrow> string \<Rightarrow> string \<Rightarrow> string option \<Rightarrow> ClientKey" where
  "new_key_row inp digest label hint publicID =
     \<lparr>k_id = 0, k_name = trim_space (nk_Name inp), k_digest = digest, k_label = label, k_hint = hint, k_enabled = True,
      k_concurrency = nk_ConcurrencyLimit inp, k_token_limit = nk_TokenLimit inp, k_amount_limit = nk_AmountLimit inp,
      k_disabled_reason = [], k_expires = nk_ExpiresAt inp, k_public_id = publicID, k_group_id = None\<rparr>"

definition CreateClientKey ::
  "(string \<Rightarrow> string \<Rightarrow> string) \<Rightarrow> Box \<Rightarrow> gotime \<Rightarrow> entropy \<Rightarrow> NewClientKey \<Rightarrow> db \<Rightarrow> store_error + db \<times> KeyInfo" where
  "CreateClientKey hmac box now en inp db =
     bind_result (reject_when (trim_space (nk_Name inp) = []) (ErrText ''client key name is required'')) (\<lambda>_.
     bind_result (reject_when (nk_ConcurrencyLimit inp \<le> 0) (ErrText ''concurrency limit must be positive'')) (\<lambda>_.
     bind_result (validateLimit (nk_TokenLimit inp) ''token limit'') (\<lambda>_.
     bind_result (validateLimit (nk_AmountLimit inp) ''amount limit'') (\<lambda>_.
     bind_result (randomClientToken (en_token en)) (\<lambda>secret.
     let label = tokenLabel now (en_label en); digest = DigestBytes hmac box secret in
     bind_result (if nk_Keyless inp
        then bind_result (newPublicID (en_public en)) (\<lambda>generated. Inr (Some generated, [], []))
        else Inr (None, secret, tokenHint secret)) (\<lambda>(publicID, token, hint).
     let row = new_key_row inp digest label hint publicID in
     bind_result (insert_key row db) (\<lambda>db'.
     Inr (db', (scanClientKey row)\<lparr>ki_ID := tbl_next k_id (db_keys db), ki_Token := token, ki_TokenHint := hint\<rparr>))))))))"

definition GetClientKey :: "int \<Rightarrow> db \<Rightarrow> store_error + KeyInfo" where
  "GetClientKey i db = bind_result (require_some (tbl_find k_id i (db_keys db)) ErrNoRows) (\<lambda>k. Inr (scanClientKey k))"

definition update_key :: "int \<Rightarrow> (ClientKey \<Rightarrow> ClientKey) \<Rightarrow> db \<Rightarrow> store_error + db" where
  "update_key i f db =
     bind_result (require_some (tbl_find k_id i (db_keys db)) ErrNoRows) (\<lambda>k.
     bind_result (key_constraints i (f k) db) (\<lambda>_.
     Inr (db\<lparr>db_keys := tbl_update k_id i (\<lambda>_. f k) (db_keys db)\<rparr>)))"

definition RotateClientKey ::
  "(string \<Rightarrow> string \<Rightarrow> string) \<Rightarrow> Box \<Rightarrow> gotime \<Rightarrow> entropy \<Rightarrow> int \<Rightarrow> db \<Rightarrow> store_error + db \<times> KeyInfo" where
  "RotateClientKey hmac box now en i db =
     bind_result (reject_when (i \<le> 0) (ErrText ''client key ID is required'')) (\<lambda>_.
     bind_result (GetClientKey i db) (\<lambda>_.
     bind_result (randomClientToken (en_token en)) (\<lambda>token.
     let label = tokenLabel now (en_label en); hint = tokenHint token in
     bind_result (update_key i (\<lambda>k. k\<lparr>k_digest := DigestBytes hmac box token, k_label := label, k_hint := hint\<rparr>) db) (\<lambda>db'.
     bind_result (GetClientKey i db') (\<lambda>updated.
     Inr (db', updated\<lparr>ki_Token := token, ki_TokenHint := hint\<rparr>))))))"

definition DeleteClientKey :: "int \<Rightarrow> db \<Rightarrow> store_error + db" where
  "DeleteClientKey i db =
     bind_result (reject_when (i \<le> 0) (ErrText ''client key ID is required'')) (\<lambda>_.
     bind_result (delete_key_row i db) (\<lambda>db'.
     if tbl_find k_id i (db_keys db) = None then Inl ErrNoRows else Inr db'))"

definition set_key_limit :: "int option \<Rightarrow> string \<Rightarrow> int option \<Rightarrow> store_error + int option" where
  "set_key_limit new label old =
     (case new of None \<Rightarrow> Inr old | Some n \<Rightarrow> bind_result (validateLimit (Some n) label) (\<lambda>_. Inr (Some n)))"

definition updated_key :: "UpdateClientKeyInput \<Rightarrow> KeyInfo \<Rightarrow> store_error + KeyInfo" where
  "updated_key inp k =
     bind_result (case uk_ConcurrencyLimit inp of None \<Rightarrow> Inr (ki_ConcurrencyLimit k)
        | Some n \<Rightarrow> bind_result (reject_when (n \<le> 0) (ErrText ''concurrency limit must be positive'')) (\<lambda>_. Inr n)) (\<lambda>concurrency.
     bind_result (set_key_limit (uk_TokenLimit inp) ''token limit'' (ki_TokenLimit k)) (\<lambda>tokens.
     bind_result (set_key_limit (uk_AmountLimit inp) ''amount limit'' (ki_AmountLimit k)) (\<lambda>amount.
     Inr (k\<lparr>ki_Name := set_text (uk_Name inp) (ki_Name k),
            ki_Enabled := (case uk_Enabled inp of None \<Rightarrow> ki_Enabled k | Some e \<Rightarrow> e),
            ki_ConcurrencyLimit := concurrency, ki_TokenLimit := tokens, ki_AmountLimit := amount,
            ki_DisabledReason := (case uk_DisabledReason inp of None \<Rightarrow> ki_DisabledReason k | Some r \<Rightarrow> r),
            ki_ExpiresAt := (if uk_ClearExpiresAt inp then None
               else (case uk_ExpiresAt inp of None \<Rightarrow> ki_ExpiresAt k | Some t \<Rightarrow> Some t))\<rparr>))))"

definition write_key :: "KeyInfo \<Rightarrow> ClientKey \<Rightarrow> ClientKey" where
  "write_key v k = k\<lparr>k_name := ki_Name v, k_enabled := ki_Enabled v, k_concurrency := ki_ConcurrencyLimit v,
     k_token_limit := ki_TokenLimit v, k_amount_limit := ki_AmountLimit v, k_disabled_reason := ki_DisabledReason v,
     k_expires := ki_ExpiresAt v\<rparr>"

definition UpdateClientKey :: "int \<Rightarrow> UpdateClientKeyInput \<Rightarrow> db \<Rightarrow> store_error + db \<times> KeyInfo" where
  "UpdateClientKey i inp db =
     bind_result (GetClientKey i db) (\<lambda>k.
     bind_result (updated_key inp k) (\<lambda>k'.
     bind_result (update_key i (write_key k') db) (\<lambda>db'. Inr (db', k'))))"

definition SetKeyGroup :: "int \<Rightarrow> int \<Rightarrow> db \<Rightarrow> store_error + db" where
  "SetKeyGroup keyID groupID db =
     bind_result (reject_when (keyID \<le> 0) (ErrText ''key ID is required'')) (\<lambda>_.
     bind_result (reject_when (tbl_find k_id keyID (db_keys db) = None) ErrNoRows) (\<lambda>_.
     if groupID > 0 then
       bind_result (require_some (tbl_find g_id groupID (db_groups db)) ErrNoRows) (\<lambda>g.
       bind_result (reject_when (\<not> g_enabled g) (ErrText ''group is disabled'')) (\<lambda>_.
       Inr (db\<lparr>db_keys := tbl_update k_id keyID (\<lambda>k. k\<lparr>k_group_id := Some groupID\<rparr>) (db_keys db)\<rparr>)))
     else Inr (db\<lparr>db_keys := tbl_update k_id keyID (\<lambda>k. k\<lparr>k_group_id := None\<rparr>) (db_keys db)\<rparr>)))"

definition ListClientKeys :: "db \<Rightarrow> KeyInfo list" where
  "ListClientKeys db = map scanClientKey (db_keys db)"

definition KeyTokenHints :: "db \<Rightarrow> int \<Rightarrow> string option" where
  "KeyTokenHints db i = map_option k_hint (tbl_find k_id i (db_keys db))"

section \<open>Authentication\<close>

definition check_expiry :: "gotime \<Rightarrow> KeyInfo \<Rightarrow> store_error + KeyInfo" where
  "check_expiry now key = (if Expired now key then Inl ErrClientKeyExpired else Inr key)"

definition AuthenticateClientKey ::
  "(string \<Rightarrow> string \<Rightarrow> string) \<Rightarrow> Box \<Rightarrow> gotime \<Rightarrow> string \<Rightarrow> db \<Rightarrow> store_error + KeyInfo" where
  "AuthenticateClientKey hmac box now token db =
     bind_result (reject_when (trim_space token = []) (ErrText ''client token is required'')) (\<lambda>_.
     bind_result (require_some (find (\<lambda>k. k_digest k = DigestBytes hmac box token) (db_keys db)) ErrNoRows) (\<lambda>k.
     check_expiry now (scanClientKey k)))"

definition AuthenticateClientApp :: "gotime \<Rightarrow> string \<Rightarrow> db \<Rightarrow> store_error + KeyInfo" where
  "AuthenticateClientApp now publicID db =
     bind_result (reject_when (trim_space publicID = []) (ErrText ''application ID is required'')) (\<lambda>_.
     bind_result (require_some (find (\<lambda>k. k_public_id k = Some (trim_space publicID)) (db_keys db)) ErrNoRows) (\<lambda>k.
     check_expiry now (scanClientKey k)))"

section \<open>Authorisation\<close>

text \<open>
  The join of \<open>authorizedModelsSelect\<close>, row by row in the order of its \<open>FROM\<close> clause; \<open>SELECT
  DISTINCT \<dots> ORDER BY m.id\<close> removes duplicates and sorts.
\<close>

definition authorizedModelsSelect :: "(ClientKey \<Rightarrow> bool) \<Rightarrow> db \<Rightarrow> Model list" where
  "authorizedModelsSelect P db =
     concat (map (\<lambda>k. concat (map (\<lambda>g. concat (map (\<lambda>(gp_group, gp_provider). concat (map (\<lambda>m.
       if m_provider_id m = gp_provider \<and> m_enabled m \<and> m_input_price m \<noteq> None \<and> m_output_price m \<noteq> None \<and>
          list_ex (\<lambda>p. p_id p = m_provider_id m \<and> p_enabled p) (db_providers db) then [m] else [])
       (db_models db)))
       (filter (\<lambda>(gg, _). gg = g_id g) (db_group_providers db))))
       (filter (\<lambda>g. k_group_id k = Some (g_id g) \<and> g_enabled g) (db_groups db))))
       (filter P (db_keys db)))"

definition queryAuthorizedModels :: "(ClientKey \<Rightarrow> bool) \<Rightarrow> db \<Rightarrow> Model list" where
  "queryAuthorizedModels P db = sort_key m_id (remdups (authorizedModelsSelect P db))"

definition AuthorizedModels ::
  "(string \<Rightarrow> string \<Rightarrow> string) \<Rightarrow> Box \<Rightarrow> string \<Rightarrow> db \<Rightarrow> store_error + Model list" where
  "AuthorizedModels hmac box token db =
     bind_result (reject_when (trim_space token = []) (ErrText ''client token is required'')) (\<lambda>_.
     Inr (queryAuthorizedModels (\<lambda>k. k_digest k = DigestBytes hmac box token \<and> k_enabled k) db))"

definition AuthorizedModelsForKey :: "int \<Rightarrow> db \<Rightarrow> store_error + Model list" where
  "AuthorizedModelsForKey keyID db =
     bind_result (reject_when (keyID \<le> 0) (ErrText ''key ID is required'')) (\<lambda>_.
     Inr (queryAuthorizedModels (\<lambda>k. k_id k = keyID) db))"

definition rate_rows :: "int \<Rightarrow> int \<Rightarrow> db \<Rightarrow> int list" where
  "rate_rows keyID modelID db =
     concat (map (\<lambda>k. concat (map (\<lambda>g. concat (map (\<lambda>(gp_group, gp_provider). concat (map (\<lambda>m.
       if m_id m = modelID \<and> m_provider_id m = gp_provider then [g_rate_milli g] else [])
       (db_models db)))
       (filter (\<lambda>(gg, _). gg = g_id g) (db_group_providers db))))
       (filter (\<lambda>g. k_group_id k = Some (g_id g) \<and> g_enabled g) (db_groups db))))
       (filter (\<lambda>k. k_id k = keyID) (db_keys db)))"

definition KeyModelRateMilli :: "int \<Rightarrow> int \<Rightarrow> db \<Rightarrow> store_error + int" where
  "KeyModelRateMilli keyID modelID db =
     bind_result (reject_when (keyID \<le> 0 \<or> modelID \<le> 0) (ErrText ''key and model IDs are required'')) (\<lambda>_.
     case rate_rows keyID modelID db of
       [] \<Rightarrow> Inr DefaultGroupRateMilli
     | rate # _ \<Rightarrow> Inr (if rate \<le> 0 then DefaultGroupRateMilli else rate))"

section \<open>Usage per key\<close>

record KeyUsageStat =
  ku_Tokens :: int
  ku_Amount :: int
  ku_Requests :: int

definition usage_stat :: "KeyReservation list \<Rightarrow> store_error + KeyUsageStat" where
  "usage_stat rows =
     bind_result (sum_usage rows) (\<lambda>(tokens, amount).
     Inr \<lparr>ku_Tokens = tokens, ku_Amount = amount, ku_Requests = int (length rows)\<rparr>)"

fun collect_stats :: "db \<Rightarrow> int list \<Rightarrow> store_error + (int \<times> KeyUsageStat) list" where
  "collect_stats db [] = Inr []"
| "collect_stats db (i # ids) =
     bind_result (usage_stat (key_rows i db)) (\<lambda>stat.
     bind_result (collect_stats db ids) (\<lambda>rest. Inr ((i, stat) # rest)))"

definition KeyUsage :: "db \<Rightarrow> store_error + (int \<times> KeyUsageStat) list" where
  "KeyUsage db =
     collect_stats db (remdups (map r_key_id (filter (\<lambda>r. counted_status (r_status r)) (db_reservations db))))"

definition KeyUsageByID :: "int \<Rightarrow> db \<Rightarrow> store_error + KeyUsageStat" where
  "KeyUsageByID keyID db =
     bind_result (reject_when (keyID \<le> 0) (ErrText ''key ID is required'')) (\<lambda>_. usage_stat (key_rows keyID db))"

section \<open>Keys stay well formed\<close>

lemma validateLimit_Inr [simp]: "validateLimit v label = Inr u \<longleftrightarrow> nonneg_opt v"
  by (cases v) (auto simp: validateLimit_def nonneg_opt_def)

lemma set_key_limit_Inr: "set_key_limit new label old = Inr v \<Longrightarrow> nonneg_opt old \<Longrightarrow> nonneg_opt v"
  by (auto simp: set_key_limit_def bind_result_Inr split: option.splits)

lemma key_constraints_Inr:
  "key_constraints self k db = Inr u \<longleftrightarrow>
     \<not> list_ex (\<lambda>r. k_id r \<noteq> self \<and> k_name r = k_name k) (db_keys db) \<and>
     \<not> list_ex (\<lambda>r. k_id r \<noteq> self \<and> k_digest r = k_digest k) (db_keys db) \<and>
     (k_public_id k = None \<or> \<not> list_ex (\<lambda>r. k_id r \<noteq> self \<and> k_public_id r = k_public_id k) (db_keys db))"
  by (auto simp: key_constraints_def bind_result_Inr)

lemma unique_some_snoc:
  "unique_some f (rows @ [x]) \<longleftrightarrow> unique_some f rows \<and> (f x = None \<or> f x \<notin> f ` set rows)"
  by (auto simp: unique_some_def)

lemma unique_some_update_same:
  assumes "tbl_find rid i rows = Some r" "tbl_wf rid rows" "f r' = f r"
  shows "map f (tbl_update rid i (\<lambda>_. r') rows) = map f rows"
proof -
  have "s = r" if "s \<in> set rows" "rid s = i" for s
    using tbl_wf_inj[OF assms(2) that(1)] tbl_find_Some[OF assms(1)] that by blast
  then show ?thesis using assms(3) by (auto simp: tbl_update_def)
qed

lemma insert_key_wf:
  assumes wf: "wf_db db" and row: "check_key row" "k_group_id row = None" and ok: "insert_key row db = Inr db'"
  shows "wf_db db'"
proof -
  have db': "db' = db\<lparr>db_keys := tbl_insert k_id (\<lambda>i. k_id_update (\<lambda>_. i)) row (db_keys db)\<rparr>"
    and c: "key_constraints 0 row db = Inr ()"
    using ok by (auto simp: insert_key_def bind_result_Inr)
  have pos: "k_id r \<noteq> 0" if "r \<in> set (db_keys db)" for r using tbl_wf_pos[OF wf_dbD(4)[OF wf] that] by simp
  have free: "k_name row \<notin> k_name ` set (db_keys db)" "k_digest row \<notin> k_digest ` set (db_keys db)"
    "k_public_id row = None \<or> k_public_id row \<notin> k_public_id ` set (db_keys db)"
    using c pos by (auto simp: key_constraints_Inr list_ex_iff image_iff)
  have "unique_by k_name (db_keys db')" "unique_by k_digest (db_keys db')" "unique_some k_public_id (db_keys db')"
    using wf free by (auto simp: db' wf_db_defs tbl_insert_def unique_by_snoc unique_some_snoc)
  moreover have "check_key (row\<lparr>k_id := i\<rparr>)" for i using row by (simp add: check_key_def)
  then have "list_all check_key (db_keys db')" using wf by (simp add: db' wf_db_defs tbl_insert_def)
  moreover have "list_all (\<lambda>k. refers_opt g_id (db_groups db) (k_group_id k)) (db_keys db')"
    using wf row(2) by (simp add: db' wf_db_defs tbl_insert_def refers_opt_def)
  moreover have "tbl_wf k_id (db_keys db')" by (simp add: db' key_tbl.wf_insert wf_dbD[OF wf])
  ultimately show ?thesis
    using wf db' by (simp add: wf_db_defs list_all_iff refers_insert refers_opt_insert)
qed

lemma update_key_wf:
  assumes wf: "wf_db db" and f: "\<And>k. check_key k \<Longrightarrow> check_key (f k)"
    and same: "\<And>k. k_id (f k) = k_id k \<and> k_group_id (f k) = k_group_id k \<and> k_public_id (f k) = k_public_id k"
    and ok: "update_key i f db = Inr db'"
  shows "wf_db db'"
proof -
  obtain k where k: "tbl_find k_id i (db_keys db) = Some k" and c: "key_constraints i (f k) db = Inr ()"
    and db': "db' = db\<lparr>db_keys := tbl_update k_id i (\<lambda>_. f k) (db_keys db)\<rparr>"
    using ok by (auto simp: update_key_def bind_result_Inr)
  note w = wf_dbD(4)[OF wf]
  have km: "k \<in> set (db_keys db)" "k_id (f k) = i" using tbl_find_Some[OF k] same[of k] by auto
  have old: "check_key k" "refers_opt g_id (db_groups db) (k_group_id k)"
    using wf km(1) by (auto simp: wf_db_defs list_all_iff)
  have "unique_by k_name (db_keys db')" "unique_by k_digest (db_keys db')"
    unfolding db' using wf c
    by (auto simp: key_constraints_Inr wf_db_defs intro: unique_by_update[where v = "k_name (f k)", OF w]
        unique_by_update[where v = "k_digest (f k)", OF w])
  moreover have "unique_some k_public_id (db_keys db')"
    using wf unique_some_update_same[OF k w, of k_public_id "f k"] same[of k] by (simp add: db' unique_some_def wf_db_defs)
  moreover have "list_all check_key (db_keys db')"
    "list_all (\<lambda>k. refers_opt g_id (db_groups db) (k_group_id k)) (db_keys db')"
    using wf f[OF old(1)] old(2) same[of k] by (auto simp: db' wf_db_defs list_all_iff tbl_update_def)
  moreover have "tbl_wf k_id (db_keys db')" using w km(2) unfolding db' by (simp add: tbl_wf_update_same)
  ultimately show ?thesis using wf km(2) by (simp add: wf_db_defs db' refers_update)
qed

lemma CreateClientKey_wf:
  assumes wf: "wf_db db" and ok: "CreateClientKey hmac box now en inp db = Inr (db', v)"
  shows "wf_db db'"
proof -
  obtain digest label hint publicID where "insert_key (new_key_row inp digest label hint publicID) db = Inr db'"
    and "0 < nk_ConcurrencyLimit inp" "nonneg_opt (nk_TokenLimit inp)" "nonneg_opt (nk_AmountLimit inp)"
    using ok by (auto simp: CreateClientKey_def Let_def bind_result_Inr not_le split: prod.splits)
  then show ?thesis by (intro insert_key_wf[OF wf]) (auto simp: check_key_def new_key_row_def)
qed

lemma RotateClientKey_wf:
  assumes wf: "wf_db db" and ok: "RotateClientKey hmac box now en i db = Inr (db', v)"
  shows "wf_db db'"
proof -
  obtain d l h where "update_key i (\<lambda>k. k\<lparr>k_digest := d, k_label := l, k_hint := h\<rparr>) db = Inr db'"
    using ok by (auto simp: RotateClientKey_def Let_def bind_result_Inr)
  then show ?thesis by (rule update_key_wf[OF wf, rotated -1]) (auto simp: check_key_def)
qed

lemma updated_key_Inr:
  assumes "updated_key inp v = Inr v'" "0 < ki_ConcurrencyLimit v" "nonneg_opt (ki_TokenLimit v)" "nonneg_opt (ki_AmountLimit v)"
  shows "0 < ki_ConcurrencyLimit v'" "nonneg_opt (ki_TokenLimit v')" "nonneg_opt (ki_AmountLimit v')"
  using assms by (auto simp: updated_key_def bind_result_Inr dest: set_key_limit_Inr split: option.splits)

lemma UpdateClientKey_wf:
  assumes wf: "wf_db db" and ok: "UpdateClientKey i inp db = Inr (db', v)"
  shows "wf_db db'"
proof -
  obtain k where k: "tbl_find k_id i (db_keys db) = Some k" "updated_key inp (scanClientKey k) = Inr v"
    and up: "update_key i (write_key v) db = Inr db'"
    using ok by (auto simp: UpdateClientKey_def GetClientKey_def bind_result_Inr)
  have "check_key k" using wf tbl_find_Some[OF k(1)] by (auto simp: wf_db_defs list_all_iff)
  then have "0 < ki_ConcurrencyLimit v" "nonneg_opt (ki_TokenLimit v)" "nonneg_opt (ki_AmountLimit v)"
    using updated_key_Inr[OF k(2)] by (simp_all add: scanClientKey_def check_key_def)
  with up show ?thesis by (intro update_key_wf[OF wf _ _ up]) (auto simp: check_key_def write_key_def)
qed

lemma DeleteClientKey_wf: "wf_db db \<Longrightarrow> DeleteClientKey i db = Inr db' \<Longrightarrow> wf_db db'"
  by (auto simp: DeleteClientKey_def bind_result_Inr split: if_splits dest: delete_key_row_wf)

lemma SetKeyGroup_Inr:
  assumes "SetKeyGroup keyID groupID db = Inr db'"
  shows "\<exists>k. tbl_find k_id keyID (db_keys db) = Some k"
    "db' = db\<lparr>db_keys := tbl_update k_id keyID (\<lambda>k. k\<lparr>k_group_id := (if groupID > 0 then Some groupID else None)\<rparr>) (db_keys db)\<rparr>"
    "groupID > 0 \<Longrightarrow> \<exists>g. tbl_find g_id groupID (db_groups db) = Some g \<and> g_enabled g"
  using assms by (auto simp: SetKeyGroup_def bind_result_Inr split: if_splits)

lemma SetKeyGroup_wf:
  assumes wf: "wf_db db" and ok: "SetKeyGroup keyID groupID db = Inr db'"
  shows "wf_db db'"
proof -
  let ?v = "if groupID > 0 then Some groupID else None" and ?rows = "db_keys db'"
  note r = SetKeyGroup_Inr[OF ok]
  have rows: "?rows = map (\<lambda>k. if k_id k = keyID then k\<lparr>k_group_id := ?v\<rparr> else k) (db_keys db)"
    by (simp add: r(2) tbl_update_def)
  have v: "refers_opt g_id (db_groups db) ?v" using r(3) by (auto simp: refers_opt_def intro: refers_find)
  have "tbl_wf k_id ?rows" "unique_by k_name ?rows" "unique_by k_digest ?rows" "unique_some k_public_id ?rows"
    "list_all check_key ?rows" "list_all (\<lambda>k. refers_opt g_id (db_groups db) (k_group_id k)) ?rows"
    unfolding rows using wf v
    by (auto simp: wf_db_defs tbl_wf_map unique_by_map unique_some_map list_all_iff check_key_def)
  then show ?thesis using wf unfolding r(2) by (simp add: wf_db_defs refers_update)
qed

lemma key_ops_ledger_inv:
  "ledger_inv db \<Longrightarrow> CreateClientKey hmac box now en inp db = Inr (db', v) \<Longrightarrow> ledger_inv db'"
  "ledger_inv db \<Longrightarrow> RotateClientKey hmac box now en i db = Inr (db', v) \<Longrightarrow> ledger_inv db'"
  "ledger_inv db \<Longrightarrow> UpdateClientKey i inpu db = Inr (db', v) \<Longrightarrow> ledger_inv db'"
  "ledger_inv db \<Longrightarrow> SetKeyGroup i j db = Inr db' \<Longrightarrow> ledger_inv db'"
  by (auto simp: CreateClientKey_def insert_key_def RotateClientKey_def UpdateClientKey_def update_key_def SetKeyGroup_def
      Let_def bind_result_Inr elim!: ledger_inv_same split: if_splits prod.splits)

lemma DeleteClientKey_ledger_inv: "ledger_inv db \<Longrightarrow> DeleteClientKey i db = Inr db' \<Longrightarrow> ledger_inv db'"
  by (auto simp: DeleteClientKey_def bind_result_Inr split: if_splits dest: delete_key_row_ledger_inv)

section \<open>The model list and the reservation agree\<close>

lemma set_authorizedModelsSelect:
  "m \<in> set (authorizedModelsSelect P db) \<longleftrightarrow>
     (\<exists>k \<in> set (db_keys db). \<exists>g \<in> set (db_groups db). P k \<and> k_group_id k = Some (g_id g) \<and> g_enabled g \<and>
        (g_id g, m_provider_id m) \<in> set (db_group_providers db) \<and> m \<in> set (db_models db) \<and> m_enabled m \<and>
        m_input_price m \<noteq> None \<and> m_output_price m \<noteq> None \<and>
        list_ex (\<lambda>p. p_id p = m_provider_id m \<and> p_enabled p) (db_providers db))"
  by (auto simp: authorizedModelsSelect_def split: if_splits)

lemma provider_enabled_lookup:
  assumes "tbl_wf p_id rows"
  shows "list_ex (\<lambda>p. p_id p = i \<and> p_enabled p) rows \<longleftrightarrow>
     (case tbl_find p_id i rows of None \<Rightarrow> False | Some p \<Rightarrow> p_enabled p)"
proof (cases "tbl_find p_id i rows")
  case None
  then have "i \<notin> p_id ` set rows" by (simp add: tbl_find_None)
  with None show ?thesis by (auto simp: list_ex_iff)
next
  case (Some p)
  have p: "p \<in> set rows" "p_id p = i" using tbl_find_Some[OF Some] by simp_all
  moreover have "q = p" if "q \<in> set rows" "p_id q = i" for q
    using tbl_wf_inj[OF assms that(1) p(1)] that(2) p(2) by simp
  ultimately have "(\<exists>q \<in> set rows. p_id q = i \<and> p_enabled q) \<longleftrightarrow> p_enabled p" by blast
  with Some show ?thesis by (simp add: list_ex_iff)
qed

lemma authorized_by_key:
  assumes wf: "wf_db db" and k: "tbl_find k_id keyID (db_keys db) = Some k"
  shows "m \<in> set (queryAuthorizedModels (\<lambda>k. k_id k = keyID) db) \<longleftrightarrow>
     (\<exists>g. key_group k db = Some g \<and> m \<in> set (db_models db) \<and> authorized_in_group db g m)"
proof -
  note w = wf_dbD[OF wf]
  have only: "k' \<in> set (db_keys db) \<and> k_id k' = keyID \<longleftrightarrow> k' = k" for k'
    using k tbl_find_iff[OF w(4), of keyID k] tbl_find_iff[OF w(4), of keyID k'] by auto
  have the_key: "(\<exists>k' \<in> set (db_keys db). \<exists>g \<in> G. k_id k' = keyID \<and> Q k' g) \<longleftrightarrow> (\<exists>g \<in> G. Q k g)" for G and Q :: "ClientKey \<Rightarrow> ModelGroup \<Rightarrow> bool"
    using only by metis
  show ?thesis
    unfolding queryAuthorizedModels_def set_sort set_remdups set_authorizedModelsSelect authorized_in_group_def the_key
    by (auto simp: key_group_Some tbl_find_iff[OF w(6)] provider_enabled_lookup[OF w(7)])
qed

end
