(* ===== verification/Gates.thy ===== *)
theory Gates
  imports Relay_Prelude "HOL-Library.Multiset"
begin

text \<open>
  Admission control: \<open>internal/relay/limits.go\<close>. A \<open>Gate\<close> counts the holders of a bounded resource;
  \<open>KeyGates\<close> keeps one gate per client key and drops the gate of a key nobody uses. Every method of
  \<open>Gate\<close> and each critical section of \<open>KeyGates\<close> runs under a mutex, so each is one atomic step.
  The interface that admission relies on is the locale \<open>slot_pool\<close>, interpreted for both.
\<close>

section \<open>A single gate\<close>

record Gate =
  gt_limit :: int
  gt_active :: int

definition clamp_limit :: "int \<Rightarrow> int" where
  "clamp_limit limit = (if limit < 1 then 1 else limit)"

definition NewGate :: "int \<Rightarrow> Gate" where
  "NewGate limit = \<lparr>gt_limit = clamp_limit limit, gt_active = 0\<rparr>"

definition Gate_TryAcquire :: "Gate \<Rightarrow> Gate \<times> bool" where
  "Gate_TryAcquire g =
     (if gt_active g \<ge> gt_limit g then (g, False) else (g\<lparr>gt_active := gt_active g + 1\<rparr>, True))"

definition Gate_Release :: "Gate \<Rightarrow> Gate" where
  "Gate_Release g = (if gt_active g > 0 then g\<lparr>gt_active := gt_active g - 1\<rparr> else g)"

definition Gate_SetLimit :: "int \<Rightarrow> Gate \<Rightarrow> Gate" where
  "Gate_SetLimit limit g = g\<lparr>gt_limit := clamp_limit limit\<rparr>"

definition gate_ok :: "Gate \<Rightarrow> bool" where
  "gate_ok g \<longleftrightarrow> 1 \<le> gt_limit g \<and> 0 \<le> gt_active g"

section \<open>Gates per key\<close>

record keyGate =
  kg_gate :: Gate
  kg_refs :: int

type_synonym KeyGates = "int \<Rightarrow> keyGate option"

definition NewKeyGates :: KeyGates where
  "NewKeyGates = (\<lambda>_. None)"

definition gate_entry :: "int \<Rightarrow> int \<Rightarrow> KeyGates \<Rightarrow> keyGate" where
  "gate_entry keyID limit ks =
     (case ks keyID of None \<Rightarrow> \<lparr>kg_gate = NewGate limit, kg_refs = 0\<rparr> | Some e \<Rightarrow> e)"

text \<open>The two critical sections of \<open>TryAcquire\<close> with the gate's own step between them.\<close>

definition KeyGates_TryAcquire :: "int \<Rightarrow> int \<Rightarrow> KeyGates \<Rightarrow> KeyGates \<times> bool" where
  "KeyGates_TryAcquire keyID limit ks =
     (if keyID \<le> 0 then (ks, False)
      else
        let entry = gate_entry keyID (clamp_limit limit) ks;
            entry = entry\<lparr>kg_refs := kg_refs entry + 1\<rparr>;
            (gate, ok) = Gate_TryAcquire (kg_gate entry);
            entry = entry\<lparr>kg_gate := gate\<rparr>
        in if ok then (ks(keyID := Some entry), True)
           else let entry = entry\<lparr>kg_refs := kg_refs entry - 1\<rparr>
                in (ks(keyID := (if kg_refs entry = 0 then None else Some entry)), False))"

definition KeyGates_Release :: "int \<Rightarrow> KeyGates \<Rightarrow> KeyGates" where
  "KeyGates_Release keyID ks =
     (case ks keyID of
        None \<Rightarrow> ks
      | Some entry \<Rightarrow>
          let entry = entry\<lparr>kg_gate := Gate_Release (kg_gate entry), kg_refs := kg_refs entry - 1\<rparr>
          in ks(keyID := (if kg_refs entry = 0 \<and> gt_active (kg_gate entry) = 0 then None else Some entry)))"

definition KeyGates_SetLimit :: "int \<Rightarrow> int \<Rightarrow> KeyGates \<Rightarrow> KeyGates" where
  "KeyGates_SetLimit keyID limit ks =
     (if keyID \<le> 0 then ks
      else let entry = gate_entry keyID limit ks
           in ks(keyID := Some (entry\<lparr>kg_gate := Gate_SetLimit limit (kg_gate entry)\<rparr>)))"

definition KeyGates_Active :: "int \<Rightarrow> KeyGates \<Rightarrow> int" where
  "KeyGates_Active keyID ks = (case ks keyID of None \<Rightarrow> 0 | Some e \<Rightarrow> gt_active (kg_gate e))"

definition entry_ok :: "keyGate \<Rightarrow> bool" where
  "entry_ok e \<longleftrightarrow> gate_ok (kg_gate e) \<and> 0 < kg_refs e \<and> kg_refs e = gt_active (kg_gate e)"

definition keygates_ok :: "KeyGates \<Rightarrow> bool" where
  "keygates_ok ks \<longleftrightarrow> (\<forall>k e. ks k = Some e \<longrightarrow> entry_ok e)"

section \<open>The interface\<close>

text \<open>
  What a caller of \<open>TryAcquire\<close>/\<open>Release\<close> relies on: a refusal changes nothing, a granted slot adds
  one holder and is undone by one release, a release drops one holder and never goes below zero,
  and the invariant is kept. Capacity is an upper bound at the time a slot is granted.
\<close>

locale slot_pool =
  fixes acquire :: "'s \<Rightarrow> 's \<times> bool" and release :: "'s \<Rightarrow> 's" and active :: "'s \<Rightarrow> int"
    and capacity :: "'s \<Rightarrow> int" and inv :: "'s \<Rightarrow> bool"
  assumes refused: "inv s \<Longrightarrow> acquire s = (s', False) \<Longrightarrow> s' = s \<and> active s \<ge> capacity s"
    and granted: "inv s \<Longrightarrow> acquire s = (s', True) \<Longrightarrow>
        inv s' \<and> active s' = active s + 1 \<and> active s < capacity s \<and> active s' \<le> capacity s' \<and> release s' = s"
    and released: "inv s \<Longrightarrow> inv (release s) \<and> active (release s) = max 0 (active s - 1)"
    and active_nonneg: "inv s \<Longrightarrow> 0 \<le> active s"
begin

text \<open>A caller that runs acquisitions and releases of slots it holds, in any order.\<close>

fun run_slots :: "bool list \<Rightarrow> 's \<Rightarrow> nat \<Rightarrow> 's \<times> nat" where
  "run_slots [] s held = (s, held)"
| "run_slots (True # ops) s held =
     (case acquire s of (s', ok) \<Rightarrow> run_slots ops s' (if ok then held + 1 else held))"
| "run_slots (False # ops) s held =
     (if held = 0 then run_slots ops s 0 else run_slots ops (release s) (held - 1))"

lemma run_slots_counts:
  "inv s \<Longrightarrow> active s = base + int held \<Longrightarrow> 0 \<le> base \<Longrightarrow> run_slots ops s held = (s', held') \<Longrightarrow>
     inv s' \<and> active s' = base + int held'"
proof (induction ops s held rule: run_slots.induct)
  case (2 ops s held)
  obtain t ok where t: "acquire s = (t, ok)" by fastforce
  show ?case
  proof (cases ok)
    case True
    with t granted[OF 2(2)] have "inv t" "active t = active s + 1" by auto
    with 2(1)[OF t[symmetric]] 2(3-5) t True show ?thesis by simp
  next
    case False
    with t refused[OF 2(2)] have "t = s" by auto
    with 2(1)[OF t[symmetric]] 2(2-5) t False show ?thesis by simp
  qed
next
  case (3 ops s held)
  show ?case
  proof (cases held)
    case 0
    with 3 show ?thesis by simp
  next
    case (Suc n)
    with 3 released[of s] have "inv (release s)" "active (release s) = base + int n" by auto
    with 3 Suc show ?thesis by simp
  qed
qed simp

text \<open>Whoever returns every slot leaves the pool's count where it was.\<close>

lemma all_returned: "inv s \<Longrightarrow> run_slots ops s 0 = (s', 0) \<Longrightarrow> active s' = active s"
  using run_slots_counts[of s "active s" 0 ops s' 0] active_nonneg[of s] by simp

end

lemma clamp_limit_pos [simp]: "1 \<le> clamp_limit l"
  by (simp add: clamp_limit_def)

lemma gate_ok_ops [simp]:
  "gate_ok (NewGate l)" "gate_ok g \<Longrightarrow> gate_ok (Gate_SetLimit l g)" "gate_ok g \<Longrightarrow> gate_ok (Gate_Release g)"
  by (auto simp: gate_ok_def NewGate_def Gate_SetLimit_def Gate_Release_def)

interpretation gate_pool: slot_pool Gate_TryAcquire Gate_Release gt_active gt_limit gate_ok
proof
  fix s s' assume "gate_ok s" "Gate_TryAcquire s = (s', True)"
  then show "gate_ok s' \<and> gt_active s' = gt_active s + 1 \<and> gt_active s < gt_limit s \<and> gt_active s' \<le> gt_limit s' \<and> Gate_Release s' = s"
    by (cases s) (auto simp: Gate_TryAcquire_def Gate_Release_def gate_ok_def split: if_splits)
qed (auto simp: Gate_TryAcquire_def Gate_Release_def gate_ok_def split: if_splits)

text \<open>The limit that governs a key is the one of its gate, or the offered one when it has no gate.\<close>

definition key_capacity :: "int \<Rightarrow> int \<Rightarrow> KeyGates \<Rightarrow> int" where
  "key_capacity keyID limit ks = (case ks keyID of None \<Rightarrow> clamp_limit limit | Some e \<Rightarrow> gt_limit (kg_gate e))"

lemma keygates_okD: "keygates_ok ks \<Longrightarrow> ks k = Some e \<Longrightarrow> entry_ok e"
  by (simp add: keygates_ok_def)

lemma keygates_ok_update: "keygates_ok ks \<Longrightarrow> (\<And>e. v = Some e \<Longrightarrow> entry_ok e) \<Longrightarrow> keygates_ok (ks(k := v))"
  by (simp add: keygates_ok_def)

lemma keygates_refused:
  assumes ok: "keygates_ok ks" and pos: "0 < keyID" and r: "KeyGates_TryAcquire keyID limit ks = (ks', False)"
  shows "ks' = ks \<and> KeyGates_Active keyID ks \<ge> key_capacity keyID limit ks"
proof (cases "ks keyID")
  case None
  with r pos show ?thesis
    by (auto simp: KeyGates_TryAcquire_def gate_entry_def Gate_TryAcquire_def NewGate_def clamp_limit_def Let_def split: if_splits)
next
  case (Some e)
  have "0 < kg_refs e" using keygates_okD[OF ok Some] by (simp add: entry_ok_def)
  with Some r pos show ?thesis
    by (auto simp: KeyGates_TryAcquire_def gate_entry_def Gate_TryAcquire_def Let_def KeyGates_Active_def key_capacity_def
        fun_upd_idem split: if_splits)
qed

lemma keygates_granted:
  assumes ok: "keygates_ok ks" and pos: "0 < keyID" and r: "KeyGates_TryAcquire keyID limit ks = (ks', True)"
  shows "keygates_ok ks' \<and> KeyGates_Active keyID ks' = KeyGates_Active keyID ks + 1 \<and>
     KeyGates_Active keyID ks < key_capacity keyID limit ks \<and> KeyGates_Active keyID ks' \<le> key_capacity keyID limit ks' \<and>
     KeyGates_Release keyID ks' = ks"
proof -
  define e where "e = gate_entry keyID (clamp_limit limit) ks"
  define e' where "e' = e\<lparr>kg_refs := kg_refs e + 1, kg_gate := (kg_gate e)\<lparr>gt_active := gt_active (kg_gate e) + 1\<rparr>\<rparr>"
  have ks': "ks' = ks(keyID := Some e')" and less: "gt_active (kg_gate e) < gt_limit (kg_gate e)"
    using r pos by (auto simp: KeyGates_TryAcquire_def Let_def e_def e'_def Gate_TryAcquire_def split: if_splits)
  have e: "gate_ok (kg_gate e)" "kg_refs e = gt_active (kg_gate e)" "ks keyID = Some e \<or> ks keyID = None \<and> gt_active (kg_gate e) = 0"
    "key_capacity keyID limit ks = gt_limit (kg_gate e)" "KeyGates_Active keyID ks = gt_active (kg_gate e)"
    using keygates_okD[OF ok, of keyID]
    by (auto simp: e_def gate_entry_def entry_ok_def NewGate_def clamp_limit_def gate_ok_def key_capacity_def KeyGates_Active_def
        split: option.splits)
  have "entry_ok e'" using e(1,2) by (auto simp: e'_def entry_ok_def gate_ok_def)
  then have "keygates_ok ks'" unfolding ks' by (intro keygates_ok_update[OF ok]) simp
  moreover have "KeyGates_Release keyID ks' = ks"
  proof (cases "ks keyID")
    case None
    with e(2,3) have "kg_refs e = 0" "gt_active (kg_gate e) = 0" by simp_all
    then show ?thesis using None by (simp add: KeyGates_Release_def ks' e'_def Gate_Release_def Let_def fun_upd_idem)
  next
    case (Some d)
    with e(3) have d: "ks keyID = Some e" by simp
    with keygates_okD[OF ok d] have "0 < kg_refs e" by (simp add: entry_ok_def)
    moreover have "e\<lparr>kg_gate := kg_gate e\<rparr> = e" by simp
    moreover have "(kg_gate e)\<lparr>gt_active := gt_active (kg_gate e)\<rparr> = kg_gate e" by simp
    ultimately show ?thesis using d e(1)
      by (simp add: KeyGates_Release_def ks' e'_def Gate_Release_def Let_def gate_ok_def fun_upd_idem)
  qed
  ultimately show ?thesis using less e(4,5) by (simp add: ks' KeyGates_Active_def key_capacity_def e'_def)
qed

lemma keygates_released:
  assumes ok: "keygates_ok ks"
  shows "keygates_ok (KeyGates_Release keyID ks) \<and>
     KeyGates_Active keyID (KeyGates_Release keyID ks) = max 0 (KeyGates_Active keyID ks - 1)"
proof (cases "ks keyID")
  case None
  then show ?thesis using ok by (simp add: KeyGates_Release_def KeyGates_Active_def)
next
  case (Some e)
  with keygates_okD[OF ok] have "entry_ok e" by blast
  then show ?thesis using Some ok
    by (auto simp: KeyGates_Release_def KeyGates_Active_def Let_def Gate_Release_def entry_ok_def gate_ok_def intro!: keygates_ok_update)
qed

lemma key_pool_laws:
  assumes "0 < keyID"
  shows "slot_pool (KeyGates_TryAcquire keyID limit) (KeyGates_Release keyID) (KeyGates_Active keyID)
     (key_capacity keyID limit) keygates_ok"
proof
  show "keygates_ok s \<Longrightarrow> 0 \<le> KeyGates_Active keyID s" for s
    using keygates_okD[of s keyID] by (auto simp: KeyGates_Active_def entry_ok_def gate_ok_def split: option.splits)
qed (use assms keygates_refused keygates_granted keygates_released in blast)+

text \<open>The pool of one key, for the smallest key id and any offered limit; other ids go through \<open>key_pool_laws\<close>.\<close>

interpretation key_pool: slot_pool "KeyGates_TryAcquire (max 1 keyID) limit" "KeyGates_Release (max 1 keyID)"
    "KeyGates_Active (max 1 keyID)" "key_capacity (max 1 keyID) limit" keygates_ok for keyID limit
  by (rule key_pool_laws) simp

lemma keygates_other:
  "j \<noteq> keyID \<Longrightarrow> fst (KeyGates_TryAcquire keyID limit ks) j = ks j"
  "j \<noteq> keyID \<Longrightarrow> KeyGates_Release keyID ks j = ks j"
  by (auto simp: KeyGates_TryAcquire_def KeyGates_Release_def Let_def split: prod.splits option.splits)

end
