(* ===== verification/Requestmeta.thy ===== *)
theory Requestmeta
  imports Clock
begin

text \<open>
  The per-request trace of \<open>internal/requestmeta/meta.go\<close>: the correlation ids and the instants from
  which a settlement takes its durations. \<open>time.Time.Sub\<close> saturates only beyond 292 years and is
  the plain difference here.
\<close>

record Trace =
  tr_ID :: string
  tr_ClientID :: string
  tr_Protocol :: string
  tr_Model :: string
  tr_Started :: gotime
  tr_HeaderAt :: "gotime option"
  tr_FirstEventAt :: "gotime option"
  tr_LastUpstreamAt :: "gotime option"

record Snapshot =
  sn_DurationMS :: "int option"
  sn_HeaderMS :: "int option"
  sn_FirstEventMS :: "int option"
  sn_LastUpstreamMS :: "int option"

text \<open>
  A string with a code point outside the printable ASCII range has a byte outside it, so the scan
  over runes is a scan over bytes.
\<close>

definition SafeClientID :: "string \<Rightarrow> string" where
  "SafeClientID value =
     (let value = trim_space value in
      if value = [] \<or> length value > 128 then []
      else if list_ex (\<lambda>c. (of_char c :: nat) < 33 \<or> (of_char c :: nat) > 126) value then [] else value)"

definition NewTrace :: "string \<Rightarrow> gotime \<Rightarrow> string \<Rightarrow> string \<Rightarrow> string \<Rightarrow> gotime \<Rightarrow> Trace" where
  "NewTrace newID now ident clientID protocol started =
     \<lparr>tr_ID = (if trim_space ident = [] then newID else ident), tr_ClientID = SafeClientID clientID, tr_Protocol = protocol,
      tr_Model = [], tr_Started = (if is_zero_time started then now else started),
      tr_HeaderAt = None, tr_FirstEventAt = None, tr_LastUpstreamAt = None\<rparr>"

definition SetModel :: "string \<Rightarrow> Trace \<Rightarrow> Trace" where
  "SetModel model t = t\<lparr>tr_Model := SafeClientID model\<rparr>"

definition mark :: "bool \<Rightarrow> gotime \<Rightarrow> gotime option \<Rightarrow> gotime option" where
  "mark update now slot = (if slot = None \<or> update then Some now else slot)"

definition MarkHeader :: "gotime \<Rightarrow> Trace \<Rightarrow> Trace" where
  "MarkHeader now t = t\<lparr>tr_HeaderAt := mark False now (tr_HeaderAt t)\<rparr>"

definition MarkFirstEvent :: "gotime \<Rightarrow> Trace \<Rightarrow> Trace" where
  "MarkFirstEvent now t = t\<lparr>tr_FirstEventAt := mark False now (tr_FirstEventAt t)\<rparr>"

definition MarkUpstream :: "gotime \<Rightarrow> Trace \<Rightarrow> Trace" where
  "MarkUpstream now t = t\<lparr>tr_LastUpstreamAt := mark True now (tr_LastUpstreamAt t)\<rparr>"

definition millisSince :: "gotime \<Rightarrow> gotime option \<Rightarrow> int option" where
  "millisSince start at =
     (case at of None \<Rightarrow> None
      | Some t \<Rightarrow> let n = (t - start) sdiv 1000000 in Some (if n < 0 then 0 else n))"

definition Trace_Snapshot :: "gotime \<Rightarrow> Trace \<Rightarrow> Snapshot" where
  "Trace_Snapshot now t = \<lparr>sn_DurationMS = millisSince (tr_Started t) (Some now), sn_HeaderMS = millisSince (tr_Started t) (tr_HeaderAt t),
     sn_FirstEventMS = millisSince (tr_Started t) (tr_FirstEventAt t), sn_LastUpstreamMS = millisSince (tr_Started t) (tr_LastUpstreamAt t)\<rparr>"

lemma millisSince_nonneg: "millisSince start at = Some n \<Longrightarrow> 0 \<le> n"
  by (auto simp: millisSince_def Let_def split: option.splits if_splits)

lemma SafeClientID_length: "length (SafeClientID v) \<le> 128"
  by (simp add: SafeClientID_def Let_def)

lemma SafeClientID_idem: "SafeClientID (SafeClientID v) = SafeClientID v"
  by (simp add: SafeClientID_def Let_def)

end
