(* ===== verification/Relay_Service.thy ===== *)
theory Relay_Service
  imports Settlement Keys Gates Requestmeta
begin

text \<open>
  The request path of \<open>internal/relay\<close>: authentication, \<open>Service.Begin\<close> (admission and
  reservation), \<open>Lease.Close\<close> (settlement with retries and release of the gates), the set of active
  reservations and the reconciler that retries settlements which failed.

  The service is a state record over the database. A lease is shared between the handler and the
  reconciler, so leases live in a table keyed by reservation id. What can go wrong around a
  settlement attempt (the database is busy, the transaction commits but the error is reported, the
  settlement context ends) is an input of the attempt.
\<close>

section \<open>Data\<close>

datatype relay_error =
    ErrUnauthorized
  | ErrTokenExpired
  | ErrModelNotAllowed
  | ErrGlobalConcurrencyExceeded
  | ErrKeyConcurrencyExceeded
  | ErrInvalidRequest
  | ErrSettlementUnavailable
  | StoreFailure store_error

text \<open>
  The JSON encodings of the messages and of the payload values are inputs: \<open>None\<close> is a value that
  cannot be encoded; the payload lists the keys with a non-null value.
\<close>

record Request =
  rq_Token :: string
  rq_AppID :: string
  rq_Model :: string
  rq_Messages :: "runes option list"
  rq_Payload :: "(string \<times> runes option) list"
  rq_InputText :: runes
  rq_MaxTokens :: int
  rq_MaxCompletionTokens :: int
  rq_Stream :: bool
  rq_Protocol :: string

record Outcome =
  oc_Status :: string
  oc_InputTokens :: int
  oc_OutputTokens :: int
  oc_CachedInputTokens :: int
  oc_AmountMicroyuan :: int
  oc_HTTPStatus :: int
  oc_ErrorCode :: string
  oc_FailureStage :: string
  oc_UsageSource :: string
  oc_Protocol :: string
  oc_IncompleteReason :: string
  oc_ClientRequestID :: string
  oc_DurationMS :: "int option"
  oc_HeaderMS :: "int option"
  oc_FirstEventMS :: "int option"
  oc_LastUpstreamMS :: "int option"

record ServiceSettings =
  st_GlobalConcurrencyLimit :: int
  st_RPMLimit :: int
  st_MaxOutputTokens :: int

record Lease =
  le_reservation :: RequestReservation
  le_keyID :: int
  le_clientRequestID :: string
  le_protocol :: string
  le_streamed :: bool
  le_model :: Model
  le_quote :: PriceSnapshot
  le_frozen :: "Outcome option"
  le_settled :: bool
  le_released :: bool

record Service =
  sv_db :: db
  sv_global :: Gate
  sv_keys :: KeyGates
  sv_active :: "int set"
  sv_pending :: "int set"
  sv_upstream :: "int set"
  sv_leases :: "int \<Rightarrow> Lease option"
  sv_draining :: bool

text \<open>What the process supplies to one call: keyed digest, box, SQLite's clock functions, the clock.\<close>

record environment =
  ev_hmac :: "string \<Rightarrow> string \<Rightarrow> string"
  ev_box :: Box
  ev_platform :: platform
  ev_now :: gotime
  ev_requestID :: string
  ev_trace :: "Trace option"

definition NewService :: "db \<Rightarrow> ServiceSettings option \<Rightarrow> Service" where
  "NewService db settings =
     \<lparr>sv_db = db,
      sv_global = NewGate (case settings of None \<Rightarrow> 1
         | Some s \<Rightarrow> if st_GlobalConcurrencyLimit s > 0 then st_GlobalConcurrencyLimit s else 1),
      sv_keys = NewKeyGates, sv_active = {}, sv_pending = {}, sv_upstream = {}, sv_leases = (\<lambda>_. None), sv_draining = False\<rparr>"

text \<open>
  \<open>ActiveReservations\<close>, \<open>Reconciler\<close> and the table of running upstream calls are maps guarded by a
  mutex of which only the keys matter here; each operation is one step on the set of keys.
\<close>

definition Active_Register :: "int \<Rightarrow> int set \<Rightarrow> int set" where
  [simp]: "Active_Register i ids = insert i ids"

definition Active_Remove :: "int \<Rightarrow> int set \<Rightarrow> int set" where
  [simp]: "Active_Remove i ids = ids - {i}"

definition Reconciler_Add :: "int \<Rightarrow> int set \<Rightarrow> int set" where
  [simp]: "Reconciler_Add i leases = insert i leases"

definition Reconciler_Remove :: "int \<Rightarrow> int set \<Rightarrow> int set" where
  [simp]: "Reconciler_Remove i leases = leases - {i}"

definition setUpstream :: "int \<Rightarrow> int set \<Rightarrow> int set" where
  [simp]: "setUpstream i running = insert i running"

definition forgetUpstream :: "int \<Rightarrow> int set \<Rightarrow> int set" where
  [simp]: "forgetUpstream i running = running - {i}"

section \<open>Authentication\<close>

definition enabled_key :: "KeyInfo \<Rightarrow> relay_error + KeyInfo" where
  "enabled_key key = (if ki_Enabled key then Inr key else Inl ErrUnauthorized)"

definition authenticate_app :: "environment \<Rightarrow> string \<Rightarrow> db \<Rightarrow> relay_error + KeyInfo" where
  "authenticate_app ev appID db =
     (case AuthenticateClientApp (ev_now ev) appID db of
        Inr key \<Rightarrow> enabled_key key
      | Inl e \<Rightarrow> if e = ErrClientKeyExpired then Inl ErrTokenExpired else Inl ErrUnauthorized)"

definition authenticate :: "environment \<Rightarrow> string \<Rightarrow> string \<Rightarrow> db \<Rightarrow> relay_error + KeyInfo" where
  "authenticate ev token appID db =
     (let token = trim_space token; appID = trim_space appID in
      if token \<noteq> [] then
        (case AuthenticateClientKey (ev_hmac ev) (ev_box ev) (ev_now ev) token db of
           Inr key \<Rightarrow> enabled_key key
         | Inl e \<Rightarrow> if e = ErrClientKeyExpired then Inl ErrTokenExpired
                   else if appID = [] then Inl ErrUnauthorized
                   else authenticate_app ev appID db)
      else authenticate_app ev appID db)"

definition store_result :: "store_error + 'a \<Rightarrow> relay_error + 'a" where
  "store_result r = (case r of Inl e \<Rightarrow> Inl (StoreFailure e) | Inr v \<Rightarrow> Inr v)"

definition Models :: "environment \<Rightarrow> string \<Rightarrow> string \<Rightarrow> db \<Rightarrow> relay_error + Model list" where
  "Models ev token appID db =
     bind_result (authenticate ev token appID db) (\<lambda>key.
     store_result (AuthorizedModelsForKey (ki_ID key) db))"

section \<open>Begin\<close>

definition default_settings :: ServiceSettings where
  "default_settings = \<lparr>st_GlobalConcurrencyLimit = 1, st_RPMLimit = 30, st_MaxOutputTokens = 4096\<rparr>"

definition current_settings :: "ServiceSettings option \<Rightarrow> ServiceSettings" where
  "current_settings configured = (case configured of None \<Rightarrow> default_settings | Some s \<Rightarrow> s)"

definition with_limit :: "ServiceSettings option \<Rightarrow> Service \<Rightarrow> Service" where
  "with_limit configured sv =
     (let limit = st_GlobalConcurrencyLimit (current_settings configured)
      in if limit > 0 then sv\<lparr>sv_global := Gate_SetLimit limit (sv_global sv)\<rparr> else sv)"

definition begin_authorize :: "environment \<Rightarrow> Request \<Rightarrow> Service \<Rightarrow> relay_error + KeyInfo \<times> Model" where
  "begin_authorize ev req sv =
     bind_result (reject_when (sv_draining sv) ErrSettlementUnavailable) (\<lambda>_.
     bind_result (reject_when (trim_space (rq_Model req) = [] \<or> trim_space (rq_Token req) = [] \<and> trim_space (rq_AppID req) = [])
       ErrInvalidRequest) (\<lambda>_.
     bind_result (authenticate ev (rq_Token req) (rq_AppID req) (sv_db sv)) (\<lambda>key.
     bind_result (store_result (AuthorizedModelsForKey (ki_ID key) (sv_db sv))) (\<lambda>models.
     bind_result (require_some (find (\<lambda>m. m_public_name m = rq_Model req) models) ErrModelNotAllowed) (\<lambda>model.
     bind_result (reject_when (m_id model = 0) ErrModelNotAllowed) (\<lambda>_.
     Inr (key, model)))))))"

definition output_budget :: "ServiceSettings \<Rightarrow> Request \<Rightarrow> relay_error + int" where
  "output_budget settings req =
     bind_result (reject_when (rq_MaxTokens req < 0 \<or> rq_MaxCompletionTokens req < 0) ErrInvalidRequest) (\<lambda>_.
     bind_result (reject_when (rq_MaxCompletionTokens req > 0 \<and> rq_MaxTokens req > 0 \<and>
         rq_MaxTokens req \<noteq> rq_MaxCompletionTokens req) ErrInvalidRequest) (\<lambda>_.
     let output = (if rq_MaxCompletionTokens req > 0 then rq_MaxCompletionTokens req else rq_MaxTokens req);
         output = (if output \<le> 0 then st_MaxOutputTokens settings else output) in
     bind_result (reject_when (output \<le> 0) ErrInvalidRequest) (\<lambda>_.
     Inr (if st_MaxOutputTokens settings > 0 \<and> output > st_MaxOutputTokens settings
          then st_MaxOutputTokens settings else output))))"

text \<open>
  Admission takes the global slot, then the key's slot. Draining may begin while \<open>Begin\<close> runs:
  \<open>drained\<close> says that it did, after the first check.
\<close>

definition begin_admit :: "bool \<Rightarrow> KeyInfo \<Rightarrow> Service \<Rightarrow> Service \<times> relay_error option" where
  "begin_admit drained key sv =
     (case Gate_TryAcquire (sv_global sv) of (global, ok) \<Rightarrow>
        if \<not> ok then
          (sv\<lparr>sv_global := global\<rparr>,
           Some (if sv_pending sv \<noteq> {} \<or> sv_draining sv \<or> drained then ErrSettlementUnavailable else ErrGlobalConcurrencyExceeded))
        else if sv_draining sv \<or> drained then (sv\<lparr>sv_global := Gate_Release global\<rparr>, Some ErrSettlementUnavailable)
        else (case KeyGates_TryAcquire (ki_ID key) (ki_ConcurrencyLimit key) (sv_keys sv) of (keys, ok) \<Rightarrow>
          if \<not> ok then (sv\<lparr>sv_global := Gate_Release global, sv_keys := keys\<rparr>, Some ErrKeyConcurrencyExceeded)
          else (sv\<lparr>sv_global := global, sv_keys := keys\<rparr>, None)))"

definition string_fields :: "Request \<Rightarrow> runes list" where
  "string_fields req =
     List.map_filter (\<lambda>m. m) (rq_Messages req) @
     List.map_filter (\<lambda>k. case map_of (rq_Payload req) k of None \<Rightarrow> None | Some v \<Rightarrow> v) [''tools'', ''functions'', ''response_format'']"

definition empty_limits :: QuotaLimits where
  "empty_limits = \<lparr>RPMLimit = 0, Token5H = 0, TokenDaily = 0, TokenWeekly = 0, Amount5H = 0, AmountDaily = 0,
     AmountWeekly = 0, TokenPeriod = 0, AmountPeriod = 0, PeriodStart = zero_time, PeriodZone = 0, PeriodDays = 0\<rparr>"

definition reserve_input :: "environment \<Rightarrow> ServiceSettings \<Rightarrow> Request \<Rightarrow> KeyInfo \<Rightarrow> Model \<Rightarrow> int \<Rightarrow> ReserveInput" where
  "reserve_input ev settings req key model output =
     \<lparr>in_RequestID = (case ev_trace ev of None \<Rightarrow> ev_requestID ev | Some t \<Rightarrow> tr_ID t), in_KeyID = ki_ID key,
      in_ModelID = m_id model, in_ProviderID = m_provider_id model, in_StartedAt = zero_time, in_Stream = rq_Stream req,
      in_InputText = rq_InputText req, in_StringFields = string_fields req, in_InputTokens = 0,
      in_OutputTokenCeiling = output, in_MaxOutputTokens = output,
      in_Limits = empty_limits\<lparr>RPMLimit := st_RPMLimit settings\<rparr>\<rparr>"

definition new_lease :: "environment \<Rightarrow> Request \<Rightarrow> KeyInfo \<Rightarrow> Model \<Rightarrow> RequestReservation \<Rightarrow> Lease" where
  "new_lease ev req key model reservation =
     \<lparr>le_reservation = reservation, le_keyID = ki_ID key,
      le_clientRequestID = (case ev_trace ev of None \<Rightarrow> [] | Some t \<Rightarrow> tr_ClientID t),
      le_protocol = (if trim_space (rq_Protocol req) = [] then ''chat'' else trim_space (rq_Protocol req)),
      le_streamed = rq_Stream req, le_model = effective (priceSnapshot reservation) model,
      le_quote = priceSnapshot reservation, le_frozen = None, le_settled = False, le_released = False\<rparr>"

definition reserve_failure :: "store_error \<Rightarrow> relay_error" where
  "reserve_failure e =
     (case e of ErrQuota qe \<Rightarrow> if qe_code qe = ''concurrency_exceeded'' then ErrKeyConcurrencyExceeded else StoreFailure e
      | _ \<Rightarrow> StoreFailure e)"

definition begin_reserve ::
  "environment \<Rightarrow> ServiceSettings \<Rightarrow> Request \<Rightarrow> KeyInfo \<Rightarrow> Model \<Rightarrow> int \<Rightarrow> Service \<Rightarrow> Service \<times> (relay_error + Lease)" where
  "begin_reserve ev settings req key model output sv =
     (case ReserveRequest (ev_platform ev) (ev_now ev) (sv_db sv) (reserve_input ev settings req key model output) of
        Inl e \<Rightarrow> (sv\<lparr>sv_keys := KeyGates_Release (ki_ID key) (sv_keys sv), sv_global := Gate_Release (sv_global sv)\<rparr>,
                 Inl (reserve_failure e))
      | Inr (db, reservation) \<Rightarrow>
          let lease = new_lease ev req key model reservation
          in (sv\<lparr>sv_db := db, sv_active := Active_Register (res_ID reservation) (sv_active sv),
                 sv_leases := (sv_leases sv)(res_ID reservation := Some lease)\<rparr>, Inr lease))"

definition Begin ::
  "environment \<Rightarrow> ServiceSettings option \<Rightarrow> bool \<Rightarrow> Request \<Rightarrow> Service \<Rightarrow> Service \<times> (relay_error + Lease)" where
  "Begin ev configured drained req sv =
     (case begin_authorize ev req sv of
        Inl e \<Rightarrow> (sv, Inl e)
      | Inr (key, model) \<Rightarrow>
          (case output_budget (current_settings configured) req of
             Inl e \<Rightarrow> (with_limit configured sv, Inl e)
           | Inr output \<Rightarrow>
               (case begin_admit drained key (with_limit configured sv) of
                  (sv, Some e) \<Rightarrow> (sv, Inl e)
                | (sv, None) \<Rightarrow> begin_reserve ev (current_settings configured) req key model output sv)))"

section \<open>Settlement with retries\<close>

datatype settle_error = SettleStore store_error | SettleCode int | SettleContext

text \<open>
  One attempt: it runs undisturbed at some instant, the database answers with an error code before
  anything is written, or it commits and still reports an error code; or the settlement context
  ends during the wait before it.
\<close>

datatype attempt = Clean gotime | FaultBefore int | FaultAfter gotime int | ContextDone

definition retryableSettlement :: "settle_error \<Rightarrow> bool" where
  "retryableSettlement e =
     (case e of SettleCode code \<Rightarrow> (let c = code mod 256 in c = 5 \<or> c = 6) | _ \<Rightarrow> False)"

definition run_attempt :: "(gotime \<Rightarrow> db \<Rightarrow> store_error + db) \<Rightarrow> attempt \<Rightarrow> db \<Rightarrow> db \<times> settle_error option" where
  "run_attempt fn a db =
     (case a of
        Clean now \<Rightarrow> (case fn now db of Inl e \<Rightarrow> (db, Some (SettleStore e)) | Inr db' \<Rightarrow> (db', None))
      | FaultBefore code \<Rightarrow> (db, Some (SettleCode code))
      | FaultAfter now code \<Rightarrow> (case fn now db of Inl e \<Rightarrow> (db, Some (SettleStore e)) | Inr db' \<Rightarrow> (db', Some (SettleCode code)))
      | ContextDone \<Rightarrow> (db, Some SettleContext))"

text \<open>The loop over the waits 0, 100 and 300 milliseconds: three attempts at most.\<close>

fun settle_loop :: "(gotime \<Rightarrow> db \<Rightarrow> store_error + db) \<Rightarrow> attempt list \<Rightarrow> settle_error option \<Rightarrow> db \<Rightarrow> db \<times> settle_error option" where
  "settle_loop fn [] err db = (db, err)"
| "settle_loop fn (a # rest) err db =
     (case run_attempt fn a db of
        (db', None) \<Rightarrow> (db', None)
      | (db', Some e) \<Rightarrow> if retryableSettlement e then settle_loop fn rest (Some e) db' else (db', Some e))"

definition settleWithRetry ::
  "(gotime \<Rightarrow> db \<Rightarrow> store_error + db) \<Rightarrow> attempt \<Rightarrow> attempt \<Rightarrow> attempt \<Rightarrow> db \<Rightarrow> db \<times> settle_error option" where
  "settleWithRetry fn a1 a2 a3 db = settle_loop fn [a1, a2, a3] None db"

section \<open>Closing a lease\<close>

definition freeze :: "Outcome \<Rightarrow> Lease \<Rightarrow> Outcome" where
  "freeze outcome l =
     (case le_frozen l of Some o1 \<Rightarrow> o1
      | None \<Rightarrow> outcome\<lparr>oc_Status := (if oc_Status outcome = [] then ''completed'' else oc_Status outcome)\<rparr>)"

definition default_opt :: "'a option \<Rightarrow> 'a option \<Rightarrow> 'a option" where
  "default_opt v d = (case v of None \<Rightarrow> d | Some x \<Rightarrow> Some x)"

definition enrich :: "environment \<Rightarrow> Lease \<Rightarrow> Outcome \<Rightarrow> Outcome" where
  "enrich ev l outcome =
     (let o1 = outcome\<lparr>oc_ClientRequestID := (if oc_ClientRequestID outcome = [] then le_clientRequestID l else oc_ClientRequestID outcome)\<rparr>
      in (case ev_trace ev of
            None \<Rightarrow> o1
          | Some t \<Rightarrow>
              let snap = Trace_Snapshot (ev_now ev) t
              in o1\<lparr>oc_ClientRequestID := (if oc_ClientRequestID o1 = [] then tr_ClientID t else oc_ClientRequestID o1),
                    oc_DurationMS := default_opt (oc_DurationMS o1) (sn_DurationMS snap),
                    oc_HeaderMS := default_opt (oc_HeaderMS o1) (sn_HeaderMS snap),
                    oc_FirstEventMS := default_opt (oc_FirstEventMS o1) (sn_FirstEventMS snap),
                    oc_LastUpstreamMS := default_opt (oc_LastUpstreamMS o1) (sn_LastUpstreamMS snap)\<rparr>))"

definition settlement_of :: "Outcome \<Rightarrow> Settlement" where
  "settlement_of o1 = \<lparr>se_Status = oc_Status o1, se_InputTokens = oc_InputTokens o1, se_OutputTokens = oc_OutputTokens o1,
     se_CachedInputTokens = oc_CachedInputTokens o1, se_AmountMicroyuan = oc_AmountMicroyuan o1,
     se_UpstreamStatus = oc_HTTPStatus o1, se_ErrorCode = oc_ErrorCode o1, se_FailureStage = oc_FailureStage o1,
     se_UsageSource = oc_UsageSource o1, se_Protocol = oc_Protocol o1, se_ClientRequestID = oc_ClientRequestID o1,
     se_IncompleteReason = oc_IncompleteReason o1, se_DurationMS = oc_DurationMS o1, se_HeaderMS = oc_HeaderMS o1,
     se_FirstEventMS = oc_FirstEventMS o1, se_LastUpstreamMS = oc_LastUpstreamMS o1\<rparr>"

definition close_failed :: "int \<Rightarrow> Lease \<Rightarrow> db \<Rightarrow> Service \<Rightarrow> Service" where
  "close_failed i l db sv =
     sv\<lparr>sv_db := db, sv_pending := Reconciler_Add i (sv_pending sv), sv_active := Active_Remove i (sv_active sv),
        sv_upstream := forgetUpstream i (sv_upstream sv), sv_leases := (sv_leases sv)(i := Some l)\<rparr>"

definition close_settled :: "int \<Rightarrow> Lease \<Rightarrow> db \<Rightarrow> Service \<Rightarrow> Service" where
  "close_settled i l db sv =
     (let sv = sv\<lparr>sv_db := db, sv_pending := Reconciler_Remove i (sv_pending sv), sv_active := Active_Remove i (sv_active sv),
                  sv_upstream := forgetUpstream i (sv_upstream sv),
                  sv_leases := (sv_leases sv)(i := Some (l\<lparr>le_settled := True, le_released := True\<rparr>))\<rparr>
      in if le_released l then sv
         else sv\<lparr>sv_keys := KeyGates_Release (le_keyID l) (sv_keys sv), sv_global := Gate_Release (sv_global sv)\<rparr>)"

definition Close ::
  "environment \<Rightarrow> attempt \<Rightarrow> attempt \<Rightarrow> attempt \<Rightarrow> int \<Rightarrow> Outcome \<Rightarrow> Service \<Rightarrow> Service \<times> settle_error option" where
  "Close ev a1 a2 a3 i outcome sv =
     (case sv_leases sv i of
        None \<Rightarrow> (sv, None)
      | Some l \<Rightarrow>
          if le_settled l then (sv, None)
          else
            let o1 = enrich ev l (freeze outcome l); l = l\<lparr>le_frozen := Some o1\<rparr>
            in (case settleWithRetry (\<lambda>now. FinishReservation now (res_ID (le_reservation l)) (settlement_of o1)) a1 a2 a3 (sv_db sv) of
                  (db, Some e) \<Rightarrow> (close_failed i l db sv, Some e)
                | (db, None) \<Rightarrow> (close_settled i l db sv, None)))"

text \<open>
  \<open>Reconciler.RunOnce\<close>: the leases pending when it starts, each closed with an empty outcome (the
  frozen one is used). The map's iteration order is the order of the list; the run stops where its
  context ends.
\<close>

definition blank_outcome :: Outcome where
  "blank_outcome = \<lparr>oc_Status = [], oc_InputTokens = 0, oc_OutputTokens = 0, oc_CachedInputTokens = 0, oc_AmountMicroyuan = 0,
     oc_HTTPStatus = 0, oc_ErrorCode = [], oc_FailureStage = [], oc_UsageSource = [], oc_Protocol = [], oc_IncompleteReason = [],
     oc_ClientRequestID = [], oc_DurationMS = None, oc_HeaderMS = None, oc_FirstEventMS = None, oc_LastUpstreamMS = None\<rparr>"

fun RunOnce ::
  "environment \<Rightarrow> (int \<Rightarrow> attempt \<times> attempt \<times> attempt) \<Rightarrow> int list \<Rightarrow> int \<Rightarrow> settle_error option \<Rightarrow> Service \<Rightarrow> Service \<times> int \<times> settle_error option" where
  "RunOnce ev faults [] settled firstErr sv = (sv, settled, firstErr)"
| "RunOnce ev faults (i # ids) settled firstErr sv =
     (case faults i of (a1, a2, a3) \<Rightarrow>
        (case Close ev a1 a2 a3 i blank_outcome sv of
           (sv', Some e) \<Rightarrow> RunOnce ev faults ids settled (if firstErr = None then Some e else firstErr) sv'
         | (sv', None) \<Rightarrow> RunOnce ev faults ids (settled + 1) firstErr sv'))"

section \<open>Upstream failures\<close>

datatype upstream_error = UpstreamError int string | ContextCanceled | DeadlineExceeded | OtherError

definition upstreamFailure :: "upstream_error \<Rightarrow> int \<times> string" where
  "upstreamFailure e =
     (case e of UpstreamError status code \<Rightarrow> (status, code)
      | ContextCanceled \<Rightarrow> (0, ''client_canceled'')
      | DeadlineExceeded \<Rightarrow> (0, ''request_duration_exceeded'')
      | OtherError \<Rightarrow> (0, ''upstream_connection_failed''))"

definition failure_outcome :: "upstream_error \<Rightarrow> Lease \<Rightarrow> Outcome" where
  "failure_outcome e l =
     (case upstreamFailure e of (statusCode, code) \<Rightarrow>
        blank_outcome\<lparr>oc_Status := (if code = ''client_canceled'' then ''aborted'' else ''failed''), oc_HTTPStatus := statusCode,
          oc_ErrorCode := code, oc_FailureStage := ''upstream'', oc_UsageSource := ''unknown'', oc_Protocol := le_protocol l\<rparr>)"

definition closeAfterFailure ::
  "environment \<Rightarrow> attempt \<Rightarrow> attempt \<Rightarrow> attempt \<Rightarrow> int \<Rightarrow> upstream_error \<Rightarrow> Service \<Rightarrow> Service \<times> settle_error option" where
  "closeAfterFailure ev a1 a2 a3 i e sv =
     (case sv_leases sv i of None \<Rightarrow> (sv, None) | Some l \<Rightarrow> Close ev a1 a2 a3 i (failure_outcome e l) sv)"

text \<open>
  \<open>Chat\<close> after its reservation: the upstream either fails, answers something that does not decode,
  or answers with a usage record, which is priced and settled as the upstream reported it.
\<close>

datatype chat_reply = ChatFailed upstream_error | ChatUndecodable | ChatReply Usage

definition chat_outcome :: "chat_reply \<Rightarrow> Lease \<Rightarrow> Outcome" where
  "chat_outcome reply l =
     (case reply of
        ChatFailed e \<Rightarrow> failure_outcome e l
      | ChatUndecodable \<Rightarrow> failure_outcome (UpstreamError 200 ''upstream_response_invalid'') l
      | ChatReply usage \<Rightarrow>
          blank_outcome\<lparr>oc_Status := ''completed'', oc_InputTokens := PromptTokens usage, oc_OutputTokens := CompletionTokens usage,
            oc_CachedInputTokens := CachedTokens usage, oc_AmountMicroyuan := PriceUsage usage (le_model l),
            oc_HTTPStatus := 200, oc_UsageSource := ''upstream'', oc_Protocol := le_protocol l\<rparr>)"

definition Chat ::
  "environment \<Rightarrow> ServiceSettings option \<Rightarrow> bool \<Rightarrow> attempt \<Rightarrow> attempt \<Rightarrow> attempt \<Rightarrow> chat_reply \<Rightarrow> Request \<Rightarrow> Service
     \<Rightarrow> Service \<times> (relay_error + settle_error option)" where
  "Chat ev configured drained a1 a2 a3 reply req sv =
     (case Begin ev configured drained (req\<lparr>rq_Stream := False\<rparr>) sv of
        (sv', Inl e) \<Rightarrow> (sv', Inl e)
      | (sv', Inr l) \<Rightarrow>
          (let i = res_ID (le_reservation l) in
           case Close ev a1 a2 a3 i (chat_outcome reply l) (sv'\<lparr>sv_upstream := setUpstream i (sv_upstream sv')\<rparr>) of
             (sv'', e) \<Rightarrow> (sv'', Inr e)))"

definition BeginDraining :: "Service \<Rightarrow> Service" where
  "BeginDraining sv = sv\<lparr>sv_draining := True\<rparr>"

section \<open>Retries commit once\<close>

definition tolerable :: "attempt \<Rightarrow> bool" where
  "tolerable a = (case a of Clean _ \<Rightarrow> True | FaultBefore c \<Rightarrow> retryableSettlement (SettleCode c)
     | FaultAfter _ c \<Rightarrow> retryableSettlement (SettleCode c) | ContextDone \<Rightarrow> False)"

text \<open>
  What retrying relies on: once a settlement has committed, running it again succeeds and changes
  nothing.
\<close>

locale replayable =
  fixes finish :: "gotime \<Rightarrow> db \<Rightarrow> store_error + db"
  assumes replay: "finish now db = Inr db' \<Longrightarrow> finish now' db' = Inr db'"
begin

definition committed :: "db \<Rightarrow> db \<Rightarrow> bool" where
  "committed db db' \<longleftrightarrow> (\<exists>now. finish now db = Inr db')"

lemma run_attempt_state:
  assumes "run_attempt finish a cur = (db', r)" "cur = db \<or> committed db cur"
  shows "db' = db \<or> committed db db'" "r = None \<Longrightarrow> committed db db'"
proof -
  have again: "x = cur" if "finish now cur = Inr x" "committed db cur" for now x
    using that replay by (fastforce simp: committed_def)
  show "db' = db \<or> committed db db'" "r = None \<Longrightarrow> committed db db'"
    using assms again
    by (auto simp: run_attempt_def committed_def split: attempt.splits sum.splits)
qed

lemma settle_loop_state:
  assumes "settle_loop finish as err cur = (db', r)" "cur = db \<or> committed db cur"
  shows "(db' = db \<or> committed db db') \<and> (r = None \<longrightarrow> committed db db' \<or> as = [] \<and> err = None)"
  using assms
proof (induction as arbitrary: err cur)
  case (Cons a as)
  obtain mid q where a: "run_attempt finish a cur = (mid, q)" by fastforce
  note m = run_attempt_state[OF a Cons.prems(2)]
  show ?case
  proof (cases q)
    case None
    with Cons.prems a m show ?thesis by auto
  next
    case (Some e)
    show ?thesis
    proof (cases "retryableSettlement e")
      case True
      with Some a Cons.prems(1) have "settle_loop finish as (Some e) mid = (db', r)" by simp
      with Cons.IH[OF this m(1)] show ?thesis by auto
    next
      case False
      with Some a Cons.prems(1) m show ?thesis by auto
    qed
  qed
qed auto

lemma settle_once:
  assumes "settleWithRetry finish a1 a2 a3 db = (db', r)"
  shows "db' = db \<or> committed db db'" "r = None \<Longrightarrow> committed db db'"
  using settle_loop_state[OF assms[unfolded settleWithRetry_def], of db] by auto

text \<open>
  A busy database is survived: if the settlement itself is acceptable and the first two attempts
  meet at most busy answers, before or after their commit, a clean third attempt settles.
\<close>

lemma settle_survives:
  assumes total: "\<And>now. \<exists>x. finish now db = Inr x" and ok: "tolerable a1" "tolerable a2"
  shows "snd (settleWithRetry finish a1 a2 (Clean t) db) = None"
proof -
  have again: "\<exists>x. finish now cur = Inr x" if "cur = db \<or> committed db cur" for now cur
    using that total replay by (auto simp: committed_def)
  have step: "q = None \<or> (\<exists>c. q = Some (SettleCode c) \<and> retryableSettlement (SettleCode c))"
    if "run_attempt finish a cur = (mid, q)" "tolerable a" "cur = db \<or> committed db cur" for a cur mid q
  proof -
    have "finish now cur \<noteq> Inl e" for now e using again[OF that(3), of now] by auto
    with that(1,2) show ?thesis by (auto simp: run_attempt_def tolerable_def split: attempt.splits sum.splits)
  qed
  obtain m1 q1 where r1: "run_attempt finish a1 db = (m1, q1)" by fastforce
  obtain m2 q2 where r2: "run_attempt finish a2 m1 = (m2, q2)" by fastforce
  have s1: "m1 = db \<or> committed db m1" using run_attempt_state(1)[OF r1, of db] by simp
  have s2: "m2 = db \<or> committed db m2" using run_attempt_state(1)[OF r2 s1] .
  have "snd (run_attempt finish (Clean t) m2) = None" using again[OF s2, of t] by (auto simp: run_attempt_def)
  then show ?thesis
    using step[OF r1 ok(1)] step[OF r2 ok(2) s1] r1 r2
    by (auto simp: settleWithRetry_def split: prod.splits option.splits)
qed

end

interpretation finish_store: replayable "\<lambda>now. FinishReservation now i o1" for i o1
  by unfold_locales (rule finish_idempotent)

lemma FinishReservation_ids: "FinishReservation now i o1 db = Inr db' \<Longrightarrow> q_id ` set (db_requests db') = q_id ` set (db_requests db)"
proof (erule FinishReservation_InrE)
  fix o1' q kr
  assume "db' = db\<lparr>db_reservations := tbl_update r_id (r_id kr) (settle_reservation now o1') (db_reservations db),
               db_requests := tbl_update q_id i (settle_request now o1') (db_requests db)\<rparr>"
  then have "map q_id (db_requests db') = map q_id (db_requests db)" by (simp add: tbl_update_def)
  then show ?thesis by (metis set_map)
qed simp

section \<open>Admission\<close>

lemma begin_admit_refused:
  assumes ok: "gate_ok (sv_global sv)" "keygates_ok (sv_keys sv)" "0 < ki_ID key" and r: "begin_admit d key sv = (sv', Some e)"
  shows "sv' = sv"
proof -
  obtain g b where g: "Gate_TryAcquire (sv_global sv) = (g, b)" by fastforce
  obtain ks c where k: "KeyGates_TryAcquire (ki_ID key) (ki_ConcurrencyLimit key) (sv_keys sv) = (ks, c)" by fastforce
  have gb: "b \<Longrightarrow> Gate_Release g = sv_global sv" "\<not> b \<Longrightarrow> g = sv_global sv"
    using g gate_pool.granted[OF ok(1)] gate_pool.refused[OF ok(1)] by auto
  have kc: "\<not> c \<Longrightarrow> ks = sv_keys sv" using k keygates_refused[OF ok(2,3)] by auto
  show ?thesis using r g k gb kc by (auto simp: begin_admit_def split: if_splits)
qed

lemma begin_admit_granted:
  assumes ok: "gate_ok (sv_global sv)" "keygates_ok (sv_keys sv)" "0 < ki_ID key" and r: "begin_admit d key sv = (sv', None)"
  obtains g ks where "sv' = sv\<lparr>sv_global := g, sv_keys := ks\<rparr>" "Gate_Release g = sv_global sv" "KeyGates_Release (ki_ID key) ks = sv_keys sv"
    "gate_ok g" "gt_active g = gt_active (sv_global sv) + 1" "gt_active g \<le> gt_limit g" "keygates_ok ks"
    "KeyGates_Active (ki_ID key) ks = KeyGates_Active (ki_ID key) (sv_keys sv) + 1"
    "\<And>k. k \<noteq> ki_ID key \<Longrightarrow> KeyGates_Active k ks = KeyGates_Active k (sv_keys sv)" "\<not> sv_draining sv" "\<not> d"
proof -
  obtain g b where g: "Gate_TryAcquire (sv_global sv) = (g, b)" by fastforce
  obtain ks c where k: "KeyGates_TryAcquire (ki_ID key) (ki_ConcurrencyLimit key) (sv_keys sv) = (ks, c)" by fastforce
  have b: b c "sv' = sv\<lparr>sv_global := g, sv_keys := ks\<rparr>" "\<not> sv_draining sv" "\<not> d"
    using r g k by (auto simp: begin_admit_def split: if_splits)
  have "KeyGates_Active j ks = KeyGates_Active j (sv_keys sv)" if "j \<noteq> ki_ID key" for j
    using keygates_other(1)[OF that, of "ki_ConcurrencyLimit key" "sv_keys sv"] k by (simp add: KeyGates_Active_def)
  with that b gate_pool.granted[OF ok(1)] g keygates_granted[OF ok(2,3)] k show thesis by auto
qed

lemma store_result_Inr [simp]: "store_result r = Inr v \<longleftrightarrow> r = Inr v"
  by (auto simp: store_result_def split: sum.splits)

lemma AuthorizedModelsForKey_Inr:
  "AuthorizedModelsForKey i db = Inr ms \<longleftrightarrow> 0 < i \<and> ms = queryAuthorizedModels (\<lambda>k. k_id k = i) db"
  by (auto simp: AuthorizedModelsForKey_def bind_result_Inr)

lemma begin_authorize_Inr:
  assumes "begin_authorize ev req sv = Inr (key, model)"
  shows "0 < ki_ID key" "\<not> sv_draining sv" "authenticate ev (rq_Token req) (rq_AppID req) (sv_db sv) = Inr key"
    "model \<in> set (queryAuthorizedModels (\<lambda>k. k_id k = ki_ID key) (sv_db sv))" "m_public_name model = rq_Model req"
  using assms
  by (auto simp: begin_authorize_def bind_result_Inr AuthorizedModelsForKey_Inr find_Some_iff)

section \<open>Slots follow leases\<close>

definition open_leases :: "Service \<Rightarrow> int set" where
  "open_leases sv = {i. \<exists>l. sv_leases sv i = Some l \<and> \<not> le_settled l}"

definition open_for_key :: "int \<Rightarrow> Service \<Rightarrow> int set" where
  "open_for_key k sv = {i. \<exists>l. sv_leases sv i = Some l \<and> \<not> le_settled l \<and> le_keyID l = k}"

definition lease_ok :: "int \<Rightarrow> Lease \<Rightarrow> bool" where
  "lease_ok i l \<longleftrightarrow> res_ID (le_reservation l) = i \<and> le_released l = le_settled l \<and> 0 < le_keyID l"

definition slots_ok :: "Service \<Rightarrow> bool" where
  "slots_ok sv \<longleftrightarrow> gate_ok (sv_global sv) \<and> keygates_ok (sv_keys sv) \<and>
     gt_active (sv_global sv) = int (card (open_leases sv)) \<and>
     (\<forall>k. KeyGates_Active k (sv_keys sv) = int (card (open_for_key k sv)))"

definition leases_ok :: "Service \<Rightarrow> bool" where
  "leases_ok sv \<longleftrightarrow> finite (open_leases sv) \<and> (\<forall>i l. sv_leases sv i = Some l \<longrightarrow> lease_ok i l) \<and>
     sv_active sv \<union> sv_pending sv = open_leases sv \<and> sv_active sv \<inter> sv_pending sv = {} \<and>
     open_leases sv \<subseteq> q_id ` set (db_requests (sv_db sv))"

definition service_inv :: "Service \<Rightarrow> bool" where
  "service_inv sv \<longleftrightarrow> wf_db (sv_db sv) \<and> ledger_inv (sv_db sv) \<and> slots_ok sv \<and> leases_ok sv"

lemma service_inv_new: "wf_db db \<Longrightarrow> ledger_inv db \<Longrightarrow> service_inv (NewService db settings)"
  by (simp add: service_inv_def slots_ok_def leases_ok_def NewService_def open_leases_def open_for_key_def
      NewKeyGates_def keygates_ok_def KeyGates_Active_def) (simp add: NewGate_def)

lemma service_invD:
  assumes "service_inv sv"
  shows "wf_db (sv_db sv)" "ledger_inv (sv_db sv)" "gate_ok (sv_global sv)" "keygates_ok (sv_keys sv)"
    "gt_active (sv_global sv) = int (card (open_leases sv))" "KeyGates_Active k (sv_keys sv) = int (card (open_for_key k sv))"
    "finite (open_leases sv)" "sv_leases sv i = Some l \<Longrightarrow> lease_ok i l" "sv_active sv \<union> sv_pending sv = open_leases sv"
    "sv_active sv \<inter> sv_pending sv = {}" "open_leases sv \<subseteq> q_id ` set (db_requests (sv_db sv))"
  using assms by (simp_all add: service_inv_def slots_ok_def leases_ok_def)

lemma open_for_key_subset: "open_for_key k sv \<subseteq> open_leases sv"
  by (auto simp: open_for_key_def open_leases_def)

lemma service_inv_set_limit: "service_inv sv \<Longrightarrow> service_inv (sv\<lparr>sv_global := Gate_SetLimit n (sv_global sv)\<rparr>)"
  by (simp add: service_inv_def slots_ok_def leases_ok_def open_leases_def open_for_key_def)
    (simp add: Gate_SetLimit_def)

text \<open>A refused or failed \<open>Begin\<close> leaves every slot, lease and row as it was.\<close>

lemma begin_reserve_failed:
  assumes "begin_reserve ev settings req key model output sv = (sv', Inl e)"
  shows "sv' = sv\<lparr>sv_keys := KeyGates_Release (ki_ID key) (sv_keys sv), sv_global := Gate_Release (sv_global sv)\<rparr>"
  using assms by (auto simp: begin_reserve_def Let_def split: sum.splits)

lemma with_limit_inv: "service_inv sv \<Longrightarrow> service_inv (with_limit configured sv)"
  by (simp add: with_limit_def Let_def service_inv_set_limit)

lemma with_limit_frame [simp]:
  "sv_db (with_limit c sv) = sv_db sv" "sv_leases (with_limit c sv) = sv_leases sv" "sv_keys (with_limit c sv) = sv_keys sv"
  "sv_active (with_limit c sv) = sv_active sv" "sv_pending (with_limit c sv) = sv_pending sv"
  "sv_draining (with_limit c sv) = sv_draining sv" "gt_active (sv_global (with_limit c sv)) = gt_active (sv_global sv)"
  "open_leases (with_limit c sv) = open_leases sv"
  by (auto simp: with_limit_def Let_def Gate_SetLimit_def open_leases_def)

lemma Begin_cases:
  assumes "Begin ev configured d req sv = (sv', r)"
  obtains (unauthorized) e where "begin_authorize ev req sv = Inl e" "sv' = sv" "r = Inl e"
    | (budget) e where "sv' = with_limit configured sv" "r = Inl e"
    | (refused) key model e where "begin_authorize ev req sv = Inr (key, model)"
        "begin_admit d key (with_limit configured sv) = (sv', Some e)" "r = Inl e"
    | (admitted) settings key model out mid where "begin_authorize ev req sv = Inr (key, model)"
        "settings = current_settings configured" "output_budget settings req = Inr out"
        "begin_admit d key (with_limit configured sv) = (mid, None)" "begin_reserve ev settings req key model out mid = (sv', r)"
proof (cases "begin_authorize ev req sv")
  case (Inl e)
  then have "sv' = sv" "r = Inl e" using assms by (simp_all add: Begin_def)
  with unauthorized[OF Inl] show thesis by simp
next
  case (Inr km)
  obtain key model where km: "km = (key, model)" by fastforce
  let ?settings = "current_settings configured"
  have run: "(case output_budget ?settings req of Inl e \<Rightarrow> (with_limit configured sv, Inl e)
      | Inr output \<Rightarrow> (case begin_admit d key (with_limit configured sv) of (sv, Some e) \<Rightarrow> (sv, Inl e)
          | (sv, None) \<Rightarrow> begin_reserve ev ?settings req key model output sv)) = (sv', r)"
    using assms Inr km by (simp add: Begin_def)
  show thesis
  proof (cases "output_budget ?settings req")
    case (Inl e)
    with run have "sv' = with_limit configured sv" "r = Inl e" by simp_all
    then show thesis by (rule budget)
  next
    case budgeted: (Inr out)
    obtain mid q where m: "begin_admit d key (with_limit configured sv) = (mid, q)" by fastforce
    have auth: "begin_authorize ev req sv = Inr (key, model)" using Inr km by simp
    show thesis
    proof (cases q)
      case None
      with run budgeted m have "begin_reserve ev ?settings req key model out mid = (sv', r)" by simp
      with admitted[OF auth refl budgeted] m None show thesis by simp
    next
      case (Some e)
      with run budgeted m have "mid = sv'" "r = Inl e" by simp_all
      with refused[OF auth] m Some show thesis by simp
    qed
  qed
qed

lemma Begin_failure:
  assumes inv: "service_inv sv" and run: "Begin ev configured d req sv = (sv', Inl e)"
  shows "sv' = sv \<or> sv' = with_limit configured sv"
  using run
proof (cases rule: Begin_cases)
  case (refused key model e')
  note w = service_invD[OF with_limit_inv[OF inv, of configured]] and a = begin_authorize_Inr[OF refused(1)]
  from begin_admit_refused[OF w(3,4) a(1) refused(2)] show ?thesis by simp
next
  case (admitted settings key model out mid)
  note w = service_invD[OF with_limit_inv[OF inv, of configured]] and a = begin_authorize_Inr[OF admitted(1)]
  obtain g ks where "mid = (with_limit configured sv)\<lparr>sv_global := g, sv_keys := ks\<rparr>"
    "Gate_Release g = sv_global (with_limit configured sv)" "KeyGates_Release (ki_ID key) ks = sv_keys (with_limit configured sv)"
    by (rule begin_admit_granted[OF w(3,4) a(1) admitted(4)])
  with begin_reserve_failed[OF admitted(5)] show ?thesis by simp
qed simp_all

lemma reserve_fresh_id:
  assumes "ReserveRequest plat now db inp = Inr (db', res)"
  shows "res_ID res = tbl_next q_id (db_requests db)" "q_id ` set (db_requests db') = insert (res_ID res) (q_id ` set (db_requests db))"
proof -
  obtain plan q gid amount where ins: "reserve_insert db inp plan q gid amount = Inr (db', res)"
    using assms by (rule ReserveRequest_InrE) blast
  note r = reserve_insert_Inr[OF ins]
  show "res_ID res = tbl_next q_id (db_requests db)" by (rule r)
  then show "q_id ` set (db_requests db') = insert (res_ID res) (q_id ` set (db_requests db))"
    by (simp add: r(1) set_insert_request)
qed

lemma Begin_success:
  assumes inv: "service_inv sv" and run: "Begin ev configured d req sv = (sv', Inr l)"
  obtains key model g ks db i where
    "begin_authorize ev req sv = Inr (key, model)" "i = res_ID (le_reservation l)" "i \<notin> q_id ` set (db_requests (sv_db sv))"
    "sv' = (with_limit configured sv)\<lparr>sv_global := g, sv_keys := ks, sv_db := db, sv_active := insert i (sv_active sv),
       sv_leases := (sv_leases sv)(i := Some l)\<rparr>"
    "gate_ok g" "gt_active g = gt_active (sv_global sv) + 1" "gt_active g \<le> gt_limit g" "keygates_ok ks"
    "KeyGates_Active (ki_ID key) ks = KeyGates_Active (ki_ID key) (sv_keys sv) + 1"
    "\<forall>k. k \<noteq> ki_ID key \<longrightarrow> KeyGates_Active k ks = KeyGates_Active k (sv_keys sv)"
    "\<exists>plat now inp res. ReserveRequest plat now (sv_db sv) inp = Inr (db, res) \<and> res = le_reservation l"
    "lease_ok i l" "\<not> le_settled l" "le_keyID l = ki_ID key"
  using run
proof (cases rule: Begin_cases)
  case (admitted settings key model out mid)
  note w = service_invD[OF with_limit_inv[OF inv, of configured]] and a = begin_authorize_Inr[OF admitted(1)]
  obtain g ks where m: "mid = (with_limit configured sv)\<lparr>sv_global := g, sv_keys := ks\<rparr>"
    and gk: "gate_ok g" "gt_active g = gt_active (sv_global sv) + 1" "gt_active g \<le> gt_limit g" "keygates_ok ks"
      "KeyGates_Active (ki_ID key) ks = KeyGates_Active (ki_ID key) (sv_keys sv) + 1"
      "\<forall>k. k \<noteq> ki_ID key \<longrightarrow> KeyGates_Active k ks = KeyGates_Active k (sv_keys sv)"
    by (rule begin_admit_granted[OF w(3,4) a(1) admitted(4)]) simp
  obtain db res where res: "ReserveRequest (ev_platform ev) (ev_now ev) (sv_db sv) (reserve_input ev settings req key model out) = Inr (db, res)"
    and sv': "sv' = mid\<lparr>sv_db := db, sv_active := insert (res_ID res) (sv_active mid), sv_leases := (sv_leases mid)(res_ID res := Some l)\<rparr>"
    and l: "l = new_lease ev req key model res"
    using admitted(5) by (auto simp: begin_reserve_def m Let_def split: sum.splits)
  have lr: "le_reservation l = res" "le_keyID l = ki_ID key" "\<not> le_settled l" "\<not> le_released l" by (simp_all add: l new_lease_def)
  show thesis
  proof (rule that[OF admitted(1) _ _ _ gk])
    show "res_ID res \<notin> q_id ` set (db_requests (sv_db sv))"
      using reserve_fresh_id(1)[OF res] tbl_next_gt[of _ "db_requests (sv_db sv)" q_id] by fastforce
    show "lease_ok (res_ID res) l" using lr a(1) by (simp add: lease_ok_def)
    show "\<exists>plat now inp res. ReserveRequest plat now (sv_db sv) inp = Inr (db, res) \<and> res = le_reservation l"
      using res lr(1) by blast
  qed (use lr sv' m in simp_all)
qed simp_all

lemma service_inv_add:
  assumes inv: "service_inv sv" and fresh: "i \<notin> open_leases sv"
    and lease: "sv_leases sv' = (sv_leases sv)(i := Some l)" "lease_ok i l" "\<not> le_settled l"
    and db: "wf_db (sv_db sv')" "ledger_inv (sv_db sv')" "insert i (q_id ` set (db_requests (sv_db sv))) \<subseteq> q_id ` set (db_requests (sv_db sv'))"
    and slots: "gate_ok (sv_global sv')" "keygates_ok (sv_keys sv')" "gt_active (sv_global sv') = gt_active (sv_global sv) + 1"
      "\<And>k. KeyGates_Active k (sv_keys sv') = KeyGates_Active k (sv_keys sv) + (if k = le_keyID l then 1 else 0)"
    and sets: "sv_active sv' = insert i (sv_active sv)" "sv_pending sv' = sv_pending sv"
  shows "service_inv sv'"
proof -
  note w = service_invD[OF inv]
  have opens: "open_leases sv' = insert i (open_leases sv)" using lease by (auto simp: open_leases_def)
  have keys: "open_for_key k sv' = (if k = le_keyID l then insert i (open_for_key k sv) else open_for_key k sv)" for k
    using lease fresh by (auto simp: open_for_key_def open_leases_def)
  have fk: "finite (open_for_key k sv)" "i \<notin> open_for_key k sv" for k
    using finite_subset[OF open_for_key_subset w(7)] fresh open_for_key_subset by blast+
  have "slots_ok sv'" using slots w(5,6) fresh w(7) fk by (simp add: slots_ok_def opens keys)
  moreover have "leases_ok sv'"
    unfolding leases_ok_def opens sets
  proof (intro conjI allI impI)
    show "lease_ok j x" if "sv_leases sv' j = Some x" for j x
      using that lease w(8) by (auto split: if_splits)
    show "insert i (sv_active sv) \<inter> sv_pending sv = {}" using w(9,10) fresh by blast
  qed (use w(7,9,11) db(3) in auto)
  ultimately show ?thesis using db by (simp add: service_inv_def)
qed

lemma Begin_inv:
  assumes inv: "service_inv sv" and run: "Begin ev configured d req sv = (sv', Inr l)"
  shows "service_inv sv'"
proof -
  note w = service_invD[OF inv]
  obtain key model g ks db i where b0: "begin_authorize ev req sv = Inr (key, model)"
    and b: "i = res_ID (le_reservation l)" "i \<notin> q_id ` set (db_requests (sv_db sv))"
    "sv' = (with_limit configured sv)\<lparr>sv_global := g, sv_keys := ks, sv_db := db, sv_active := insert i (sv_active sv),
       sv_leases := (sv_leases sv)(i := Some l)\<rparr>"
    "gate_ok g" "gt_active g = gt_active (sv_global sv) + 1" "gt_active g \<le> gt_limit g" "keygates_ok ks"
    "KeyGates_Active (ki_ID key) ks = KeyGates_Active (ki_ID key) (sv_keys sv) + 1"
    "\<forall>k. k \<noteq> ki_ID key \<longrightarrow> KeyGates_Active k ks = KeyGates_Active k (sv_keys sv)"
    "\<exists>plat now inp res. ReserveRequest plat now (sv_db sv) inp = Inr (db, res) \<and> res = le_reservation l"
    "lease_ok i l" "\<not> le_settled l" "le_keyID l = ki_ID key"
    by (rule Begin_success[OF inv run])
  obtain plat now inp where res: "ReserveRequest plat now (sv_db sv) inp = Inr (db, le_reservation l)" using b(10) by blast
  show ?thesis
  proof (rule service_inv_add[OF inv])
    show "i \<notin> open_leases sv" using b(2) w(11) by blast
    show "wf_db (sv_db sv')" using ReserveRequest_wf[OF w(1) res] b(3) by simp
    show "ledger_inv (sv_db sv')" using ReserveRequest_ledger_inv[OF w(2) res] b(3) by simp
    show "insert i (q_id ` set (db_requests (sv_db sv))) \<subseteq> q_id ` set (db_requests (sv_db sv'))"
      using reserve_fresh_id(2)[OF res] b(1,3) by simp
    show "KeyGates_Active k (sv_keys sv') = KeyGates_Active k (sv_keys sv) + (if k = le_keyID l then 1 else 0)" for k
      using b(8,9,13) by (simp add: b(3))
  qed (use b in simp_all)
qed

section \<open>Closing\<close>

lemma Close_settled_lease: "sv_leases sv i = Some l \<Longrightarrow> le_settled l \<Longrightarrow> Close ev a1 a2 a3 i o1 sv = (sv, None)"
  by (simp add: Close_def)

lemma Close_cases:
  assumes run: "Close ev a1 a2 a3 i outcome sv = (sv', r)" and l: "sv_leases sv i = Some l" "\<not> le_settled l"
  obtains o1 db where "o1 = enrich ev l (freeze outcome l)"
    "settleWithRetry (\<lambda>now. FinishReservation now (res_ID (le_reservation l)) (settlement_of o1)) a1 a2 a3 (sv_db sv) = (db, r)"
    "r \<noteq> None \<longrightarrow> sv' = close_failed i (l\<lparr>le_frozen := Some o1\<rparr>) db sv"
    "r = None \<longrightarrow> sv' = close_settled i (l\<lparr>le_frozen := Some o1\<rparr>) db sv"
proof -
  define o1 where "o1 = enrich ev l (freeze outcome l)"
  obtain db q where s: "settleWithRetry (\<lambda>now. FinishReservation now (res_ID (le_reservation l)) (settlement_of o1)) a1 a2 a3 (sv_db sv) = (db, q)"
    by fastforce
  have "(case q of None \<Rightarrow> (close_settled i (l\<lparr>le_frozen := Some o1\<rparr>) db sv, None)
      | Some e \<Rightarrow> (close_failed i (l\<lparr>le_frozen := Some o1\<rparr>) db sv, Some e)) = (sv', r)"
    using run l s by (simp add: Close_def o1_def[symmetric] Let_def split: option.splits)
  then show thesis using that[OF o1_def] s by (cases q) auto
qed

lemma settle_db:
  assumes "settleWithRetry (\<lambda>now. FinishReservation now i o1) a1 a2 a3 db = (db', r)"
  shows "db' = db \<or> (\<exists>now. FinishReservation now i o1 db = Inr db')" "r = None \<Longrightarrow> \<exists>now. FinishReservation now i o1 db = Inr db'"
  using finish_store.settle_once[OF assms] by (simp_all add: finish_store.committed_def)

lemma settle_db_inv:
  assumes "settleWithRetry (\<lambda>now. FinishReservation now i o1) a1 a2 a3 db = (db', r)" "wf_db db" "ledger_inv db"
  shows "wf_db db'" "ledger_inv db'" "q_id ` set (db_requests db') = q_id ` set (db_requests db)"
  using settle_db(1)[OF assms(1)] assms(2,3) FinishReservation_wf FinishReservation_ledger_inv FinishReservation_ids by blast+

lemma close_failed_inv:
  assumes inv: "service_inv sv" and l: "sv_leases sv i = Some l" "\<not> le_settled l"
    and db: "wf_db db" "ledger_inv db" "q_id ` set (db_requests db) = q_id ` set (db_requests (sv_db sv))"
  shows "service_inv (close_failed i (l\<lparr>le_frozen := f\<rparr>) db sv)"
proof -
  note w = service_invD[OF inv]
  have i: "i \<in> open_leases sv" using l by (simp add: open_leases_def)
  have opens: "open_leases (close_failed i (l\<lparr>le_frozen := f\<rparr>) db sv) = open_leases sv"
    using l by (auto simp: open_leases_def close_failed_def)
  have keys: "open_for_key k (close_failed i (l\<lparr>le_frozen := f\<rparr>) db sv) = open_for_key k sv" for k
    using l by (auto simp: open_for_key_def close_failed_def)
  have ok: "lease_ok i l" using w(8)[OF l(1)] .
  have "slots_ok (close_failed i (l\<lparr>le_frozen := f\<rparr>) db sv)"
    using inv by (simp add: service_inv_def slots_ok_def opens keys) (simp add: close_failed_def)
  moreover have "leases_ok (close_failed i (l\<lparr>le_frozen := f\<rparr>) db sv)"
    unfolding leases_ok_def opens
    using w(7,9,10,11) i ok w(8) db(3) by (auto simp: close_failed_def lease_ok_def split: if_splits)
  ultimately show ?thesis using db by (simp add: service_inv_def) (simp add: close_failed_def)
qed

lemma close_settled_frame:
  assumes "\<not> le_released l"
  shows "sv_db (close_settled i l db sv) = db" "sv_pending (close_settled i l db sv) = sv_pending sv - {i}"
    "sv_active (close_settled i l db sv) = sv_active sv - {i}"
    "sv_leases (close_settled i l db sv) = (sv_leases sv)(i := Some (l\<lparr>le_settled := True, le_released := True\<rparr>))"
    "sv_keys (close_settled i l db sv) = KeyGates_Release (le_keyID l) (sv_keys sv)"
    "sv_global (close_settled i l db sv) = Gate_Release (sv_global sv)"
  using assms by (simp_all add: close_settled_def Let_def)

lemma close_settled_inv:
  assumes inv: "service_inv sv" and l: "sv_leases sv i = Some l" "\<not> le_settled l"
    and db: "wf_db db" "ledger_inv db" "q_id ` set (db_requests db) = q_id ` set (db_requests (sv_db sv))"
  shows "service_inv (close_settled i (l\<lparr>le_frozen := f\<rparr>) db sv)"
proof -
  let ?s = "close_settled i (l\<lparr>le_frozen := f\<rparr>) db sv"
  note w = service_invD[OF inv]
  have ok: "lease_ok i l" using w(8)[OF l(1)] .
  then have "\<not> le_released (l\<lparr>le_frozen := f\<rparr>)" using l(2) by (simp add: lease_ok_def)
  note fr = close_settled_frame[OF this]
  have i: "i \<in> open_leases sv" "i \<in> open_for_key (le_keyID l) sv" using l by (auto simp: open_leases_def open_for_key_def)
  have opens: "open_leases ?s = open_leases sv - {i}" using l by (auto simp: open_leases_def fr)
  have keys: "open_for_key k ?s = open_for_key k sv - {i}" for k using l by (auto simp: open_for_key_def fr)
  have fk: "finite (open_for_key k sv)" for k using finite_subset[OF open_for_key_subset w(7)] .
  have pos: "0 < card (open_leases sv)" "0 < card (open_for_key (le_keyID l) sv)"
    using i w(7) fk by (auto simp: card_gt_0_iff)
  have other: "KeyGates_Active k (KeyGates_Release (le_keyID l) (sv_keys sv)) = KeyGates_Active k (sv_keys sv)" if "k \<noteq> le_keyID l" for k
    using keygates_other(2)[OF that] by (simp add: KeyGates_Active_def)
  have kact: "KeyGates_Active k (sv_keys ?s) = int (card (open_for_key k ?s))" for k
  proof (cases "k = le_keyID l")
    case True
    then show ?thesis using keygates_released[OF w(4), of k] w(6)[of k] pos(2) i(2) fk[of k]
      by (simp add: fr keys card_Diff_singleton)
  next
    case False
    then have "i \<notin> open_for_key k sv" using l by (auto simp: open_for_key_def)
    then show ?thesis using other[OF False] w(6)[of k] by (simp add: fr keys)
  qed
  have gact: "gt_active (sv_global ?s) = int (card (open_leases ?s))"
    using gate_pool.released[OF w(3)] w(5) pos(1) i(1) w(7) by (simp add: fr opens card_Diff_singleton)
  have "slots_ok ?s" using gate_pool.released[OF w(3)] keygates_released[OF w(4)] kact gact by (simp add: slots_ok_def fr)
  moreover have "leases_ok ?s"
    unfolding leases_ok_def opens
    using w(7,9,10,11) ok w(8) db(3) by (auto simp: fr lease_ok_def split: if_splits)
  ultimately show ?thesis using db by (simp add: service_inv_def fr)
qed

lemma Close_inv:
  assumes inv: "service_inv sv" and run: "Close ev a1 a2 a3 i outcome sv = (sv', r)"
  shows "service_inv sv'"
proof (cases "\<exists>l. sv_leases sv i = Some l \<and> \<not> le_settled l")
  case False
  with run have "sv' = sv" by (auto simp: Close_def split: option.splits)
  with inv show ?thesis by simp
next
  case True
  then obtain l where l: "sv_leases sv i = Some l" "\<not> le_settled l" by blast
  obtain o1 db where c0: "o1 = enrich ev l (freeze outcome l)" and c: "settleWithRetry (\<lambda>now. FinishReservation now (res_ID (le_reservation l)) (settlement_of o1)) a1 a2 a3 (sv_db sv) = (db, r)"
    "r \<noteq> None \<longrightarrow> sv' = close_failed i (l\<lparr>le_frozen := Some o1\<rparr>) db sv" "r = None \<longrightarrow> sv' = close_settled i (l\<lparr>le_frozen := Some o1\<rparr>) db sv"
    by (rule Close_cases[OF run l])
  note d = settle_db_inv[OF c(1) service_invD(1,2)[OF inv]]
  show ?thesis using close_failed_inv[OF inv l d] close_settled_inv[OF inv l d] c(2,3) by (cases "r = None") auto
qed

lemma RunOnce_inv: "service_inv sv \<Longrightarrow> RunOnce ev faults ids n first sv = (sv', m, e) \<Longrightarrow> service_inv sv'"
proof (induction ids arbitrary: n first sv)
  case (Cons i ids)
  obtain a1 a2 a3 where f: "faults i = (a1, a2, a3)" using prod_cases3 by blast
  obtain mid r where c: "Close ev a1 a2 a3 i blank_outcome sv = (mid, r)" by fastforce
  from Cons.prems f c obtain n' e' where "RunOnce ev faults ids n' e' mid = (sv', m, e)" by (cases r) auto
  with Cons.IH Close_inv[OF Cons.prems(1) c] show ?case by blast
qed simp

end
