(* ===== verification/Relay_Machine.thy ===== *)
theory Relay_Machine
  imports Relay_Service
begin

text \<open>
  The two state machines of the relay. \<open>store_step\<close> has one rule per operation of the store that
  writes: whatever order the request path, the console, the reaper and the retention job call them
  in, every database they can reach is well formed and its two ledgers agree. \<open>relay_step\<close> is the
  serving process: begin, close, reconcile, the periodic reaper, the retention job, draining, and the
  console in between.
\<close>

section \<open>The store\<close>

text \<open>What the console and the start-up seeding change: providers, models, groups and keys.\<close>

inductive console_step :: "db \<Rightarrow> db \<Rightarrow> bool" where
  create_provider: "CreateProvider net nonce box np db = Inr (db', pv) \<Longrightarrow> console_step db db'"
| update_provider: "UpdateProvider net nonce box i up db = Inr (db', pu) \<Longrightarrow> console_step db db'"
| delete_provider: "DeleteProvider i db = Inr (db', ev) \<Longrightarrow> console_step db db'"
| create_model: "CreateModel nm db = Inr (db', mv) \<Longrightarrow> console_step db db'"
| import_model: "CreateImportedModel nm db = Inr (db', mv) \<Longrightarrow> console_step db db'"
| update_model: "UpdateModel i um db = Inr (db', mv) \<Longrightarrow> console_step db db'"
| delete_model: "DeleteModel i db = Inr db' \<Longrightarrow> console_step db db'"
| create_group: "CreateModelGroup ng db = Inr (db', gv) \<Longrightarrow> console_step db db'"
| update_group: "UpdateModelGroup plat now i ug db = Inr (db', gv) \<Longrightarrow> console_step db db'"
| delete_group: "DeleteModelGroup i db = Inr db' \<Longrightarrow> console_step db db'"
| replace_providers: "ReplaceGroupProviders i ids db = Inr db' \<Longrightarrow> console_step db db'"
| seed: "SeedGroupQuotas sd db = (db', n) \<Longrightarrow> console_step db db'"
| create_key: "CreateClientKey hmac box now en nk db = Inr (db', kv) \<Longrightarrow> console_step db db'"
| rotate_key: "RotateClientKey hmac box now en i db = Inr (db', kv) \<Longrightarrow> console_step db db'"
| update_key_row: "UpdateClientKey i uk db = Inr (db', kv) \<Longrightarrow> console_step db db'"
| delete_key: "DeleteClientKey i db = Inr db' \<Longrightarrow> console_step db db'"
| set_group: "SetKeyGroup i j db = Inr db' \<Longrightarrow> console_step db db'"

inductive store_step :: "db \<Rightarrow> db \<Rightarrow> bool" where
  reserve: "ReserveRequest plat now db inp = Inr (db', res) \<Longrightarrow> store_step db db'"
| finish: "FinishReservation now i o1 db = Inr db' \<Longrightarrow> store_step db db'"
| cancel: "CancelRequest now i status http db = Inr db' \<Longrightarrow> store_step db db'"
| settle: "SettleRequest now i tin tout tcached amount status db = Inr db' \<Longrightarrow> store_step db db'"
| reap: "ReapOrphanReservations plat now cutoff act pend db = Inr (db', n) \<Longrightarrow> store_step db db'"
| reap_stale: "ReapStaleReservations plat now age db = Inr (db', n) \<Longrightarrow> store_step db db'"
| prune: "Prune cutoff db = Inr (db', n) \<Longrightarrow> store_step db db'"
| console: "console_step db db' \<Longrightarrow> store_step db db'"

inductive store_reachable :: "db \<Rightarrow> bool" where
  fresh: "store_reachable empty_db"
| step: "store_reachable db \<Longrightarrow> store_step db db' \<Longrightarrow> store_reachable db'"

lemma Cancel_Finish: "CancelRequest now i status http db = Inr db' \<Longrightarrow> \<exists>o1. FinishReservation now i o1 db = Inr db'"
  by (auto simp: CancelRequest_def Let_def bind_result_Inr)

lemma Settle_Finish: "SettleRequest now i a b c d status db = Inr db' \<Longrightarrow> \<exists>o1. FinishReservation now i o1 db = Inr db'"
  by (auto simp: SettleRequest_def)

lemma ReapStale_Orphan:
  "ReapStaleReservations plat now age db = Inr r \<Longrightarrow> ReapOrphanReservations plat now (now - age) [] [] db = Inr r"
  by (auto simp: ReapStaleReservations_def bind_result_Inr)

lemma CancelRequest_wf: "wf_db db \<Longrightarrow> CancelRequest now i status http db = Inr db' \<Longrightarrow> wf_db db'"
  by (drule Cancel_Finish, erule exE, erule (1) FinishReservation_wf)

lemma SettleRequest_wf: "wf_db db \<Longrightarrow> SettleRequest now i a b c d status db = Inr db' \<Longrightarrow> wf_db db'"
  by (drule Settle_Finish, erule exE, erule (1) FinishReservation_wf)

lemma ReapStale_wf: "wf_db db \<Longrightarrow> ReapStaleReservations plat now age db = Inr (db', n) \<Longrightarrow> wf_db db'"
  by (drule ReapStale_Orphan, erule (1) Reap_wf)

lemma Seed_step_wf: "wf_db db \<Longrightarrow> SeedGroupQuotas sd db = (db', n) \<Longrightarrow> wf_db db'"
  using SeedGroupQuotas_wf[of db sd] by simp

lemma CancelRequest_ledger:
  "wf_db db \<Longrightarrow> ledger_inv db \<Longrightarrow> CancelRequest now i status http db = Inr db' \<Longrightarrow> ledger_inv db'"
  by (drule Cancel_Finish, erule exE, erule (2) FinishReservation_ledger_inv)

lemma SettleRequest_ledger:
  "wf_db db \<Longrightarrow> ledger_inv db \<Longrightarrow> SettleRequest now i a b c d status db = Inr db' \<Longrightarrow> ledger_inv db'"
  by (drule Settle_Finish, erule exE, erule (2) FinishReservation_ledger_inv)

lemma ReapStale_ledger:
  "wf_db db \<Longrightarrow> ledger_inv db \<Longrightarrow> ReapStaleReservations plat now age db = Inr (db', n) \<Longrightarrow> ledger_inv db'"
  by (drule ReapStale_Orphan, erule (2) Reap_ledger_inv)

lemma Seed_step_ledger: "ledger_inv db \<Longrightarrow> SeedGroupQuotas sd db = (db', n) \<Longrightarrow> ledger_inv db'"
  using catalog_ops_ledger_inv(8)[of db sd] by simp

lemmas console_wf_rules = CreateProvider_wf UpdateProvider_wf DeleteProvider_wf CreateModel_wf CreateImportedModel_wf
  UpdateModel_wf DeleteModel_wf CreateModelGroup_wf UpdateModelGroup_wf DeleteModelGroup_wf ReplaceGroupProviders_wf
  CreateClientKey_wf RotateClientKey_wf UpdateClientKey_wf DeleteClientKey_wf SetKeyGroup_wf Seed_step_wf

lemmas console_ledger_rules = provider_ops_ledger_inv catalog_ops_ledger_inv(1-7)
  DeleteModel_ledger_inv key_ops_ledger_inv DeleteClientKey_ledger_inv Seed_step_ledger

lemma console_step_wf: "console_step db db' \<Longrightarrow> wf_db db \<Longrightarrow> wf_db db'"
  by (induction rule: console_step.induct) (erule console_wf_rules[rotated], assumption)+

lemma console_step_ledger: "console_step db db' \<Longrightarrow> ledger_inv db \<Longrightarrow> ledger_inv db'"
  by (induction rule: console_step.induct) (erule console_ledger_rules[rotated], assumption)+

lemma console_wf: "wf_db db \<Longrightarrow> console_step db db' \<Longrightarrow> wf_db db'"
  by (rule console_step_wf)

lemma console_ledger: "ledger_inv db \<Longrightarrow> console_step db db' \<Longrightarrow> ledger_inv db'"
  by (rule console_step_ledger)

lemmas store_wf_rules = ReserveRequest_wf FinishReservation_wf Reap_wf Prune_wf CancelRequest_wf SettleRequest_wf
  ReapStale_wf console_wf

lemmas store_ledger_rules = ReserveRequest_ledger_inv Prune_ledger_inv console_ledger

lemmas store_ledger_wf_rules = FinishReservation_ledger_inv Reap_ledger_inv CancelRequest_ledger SettleRequest_ledger ReapStale_ledger

lemma store_step_wf: "store_step db db' \<Longrightarrow> wf_db db \<Longrightarrow> wf_db db'"
  by (induction rule: store_step.induct) (erule store_wf_rules[rotated], assumption)+

lemma store_step_ledger: "store_step db db' \<Longrightarrow> wf_db db \<Longrightarrow> ledger_inv db \<Longrightarrow> ledger_inv db'"
  by (induction rule: store_step.induct)
    (erule store_ledger_rules[rotated], assumption | erule store_ledger_wf_rules[rotated -1], assumption, assumption)+

lemma store_reachable_inv: "store_reachable db \<Longrightarrow> wf_db db \<and> ledger_inv db"
  by (induction rule: store_reachable.induct)
    (auto simp: wf_db_empty ledger_inv_empty intro: store_step_wf store_step_ledger)

text \<open>The console never adds or removes a request: at most it clears a reference of one.\<close>

lemma delete_models_request_ids: "delete_models P db = Inr db' \<Longrightarrow> map q_id (db_requests db') = map q_id (db_requests db)"
  by (auto simp: delete_models_def Let_def bind_result_Inr delete_reservations_frame)

lemma delete_request_ids:
  "delete_provider_row i db = Inr db' \<Longrightarrow> map q_id (db_requests db') = map q_id (db_requests db)"
  "delete_key_row i db = Inr db' \<Longrightarrow> map q_id (db_requests db') = map q_id (db_requests db)"
  "delete_group_row i db = Inr db' \<Longrightarrow> map q_id (db_requests db') = map q_id (db_requests db)"
  by (auto simp: delete_provider_row_def delete_key_row_def delete_group_row_def bind_result_Inr
      delete_reservations_frame delete_models_request_ids o_def)

lemmas console_defs = CreateProvider_def UpdateProvider_def DeleteProvider_def CreateModel_def CreateImportedModel_def
  insert_model_def UpdateModel_def DeleteModel_def CreateModelGroup_def UpdateModelGroup_def DeleteModelGroup_def
  ReplaceGroupProviders_def SeedGroupQuotas_def CreateClientKey_def insert_key_def RotateClientKey_def
  UpdateClientKey_def update_key_def DeleteClientKey_def SetKeyGroup_def

lemma console_request_ids: "console_step db db' \<Longrightarrow> map q_id (db_requests db') = map q_id (db_requests db)"
  by (induction rule: console_step.induct)
    (auto simp: console_defs Let_def bind_result_Inr split: if_splits prod.splits
      dest: delete_request_ids delete_models_request_ids)

section \<open>The serving process\<close>

text \<open>The periodic reaper hands the store the ids of the active and the pending reservations.\<close>

definition reap_pass :: "platform \<Rightarrow> gotime \<Rightarrow> gotime \<Rightarrow> int list \<Rightarrow> int list \<Rightarrow> Service \<Rightarrow> Service" where
  "reap_pass plat now cutoff activeIDs pendingIDs sv =
     (case ReapOrphanReservations plat now cutoff activeIDs pendingIDs (sv_db sv) of
        Inl _ \<Rightarrow> sv | Inr (db, n) \<Rightarrow> sv\<lparr>sv_db := db\<rparr>)"

text \<open>
  Retention works in days and a lease lives for minutes: the row of an open lease is newer than the
  cut-off.
\<close>

definition retention_spares :: "gotime \<Rightarrow> Service \<Rightarrow> bool" where
  "retention_spares cutoff sv \<longleftrightarrow>
     (\<forall>q \<in> set (db_requests (sv_db sv)). q_id q \<in> open_leases sv \<longrightarrow> \<not> prunable_request cutoff q)"

inductive relay_step :: "Service \<Rightarrow> Service \<Rightarrow> bool" where
  admit: "Begin ev configured d req sv = (sv', r) \<Longrightarrow> relay_step sv sv'"
| close: "Close ev a1 a2 a3 i outcome sv = (sv', r) \<Longrightarrow> relay_step sv sv'"
| reconcile: "RunOnce ev faults ids 0 None sv = (sv', n, e) \<Longrightarrow> relay_step sv sv'"
| reap: "set activeIDs = sv_active sv \<Longrightarrow> set pendingIDs = sv_pending sv \<Longrightarrow>
    relay_step sv (reap_pass plat now cutoff activeIDs pendingIDs sv)"
| drain: "relay_step sv (BeginDraining sv)"
| console: "console_step (sv_db sv) db' \<Longrightarrow> relay_step sv (sv\<lparr>sv_db := db'\<rparr>)"
| retain: "Prune cutoff (sv_db sv) = Inr (db', n) \<Longrightarrow> retention_spares cutoff sv \<Longrightarrow> relay_step sv (sv\<lparr>sv_db := db'\<rparr>)"
| track: "relay_step sv (sv\<lparr>sv_upstream := setUpstream i (sv_upstream sv)\<rparr>)"

inductive relay_reachable :: "Service \<Rightarrow> bool" where
  start: "store_reachable db \<Longrightarrow> relay_reachable (NewService db settings)"
| step: "relay_reachable sv \<Longrightarrow> relay_step sv sv' \<Longrightarrow> relay_reachable sv'"

lemma Reap_ids:
  assumes "ReapOrphanReservations plat now cutoff act pend db = Inr (db', n)"
  shows "q_id ` set (db_requests db') = q_id ` set (db_requests db)"
proof -
  have "map q_id (db_requests db') = map q_id (db_requests db)" by (simp add: ReapOrphan_Inr(1)[OF assms])
  then show ?thesis by (metis set_map)
qed

lemma service_inv_db:
  assumes "service_inv sv" "wf_db db" "ledger_inv db" "open_leases sv \<subseteq> q_id ` set (db_requests db)"
  shows "service_inv (sv\<lparr>sv_db := db\<rparr>)"
  using assms by (simp add: service_inv_def slots_ok_def leases_ok_def open_leases_def open_for_key_def)

lemma reap_pass_inv:
  assumes "service_inv sv"
  shows "service_inv (reap_pass plat now cutoff act pend sv)"
proof (cases "ReapOrphanReservations plat now cutoff act pend (sv_db sv)")
  case (Inl e)
  with assms show ?thesis by (simp add: reap_pass_def)
next
  case (Inr r)
  then obtain db n where r: "ReapOrphanReservations plat now cutoff act pend (sv_db sv) = Inr (db, n)" by (cases r) simp
  note w = service_invD(1,2)[OF assms]
  from service_inv_db[OF assms Reap_wf[OF w(1) r] Reap_ledger_inv[OF w r]] Reap_ids[OF r] service_invD(11)[OF assms] r
  show ?thesis by (simp add: reap_pass_def)
qed

lemma BeginDraining_inv: "service_inv sv \<Longrightarrow> service_inv (BeginDraining sv)"
  by (simp add: BeginDraining_def service_inv_def slots_ok_def leases_ok_def open_leases_def open_for_key_def)

lemma Begin_keeps_inv:
  assumes "service_inv sv" "Begin ev configured d req sv = (sv', r)"
  shows "service_inv sv'"
proof (cases r)
  case (Inl e)
  with Begin_failure[OF assms(1)] assms with_limit_inv show ?thesis by blast
next
  case (Inr l)
  with Begin_inv[OF assms(1)] assms(2) show ?thesis by blast
qed

lemma console_keeps_inv:
  assumes inv: "service_inv sv" and c: "console_step (sv_db sv) db'"
  shows "service_inv (sv\<lparr>sv_db := db'\<rparr>)"
proof -
  note w = service_invD[OF inv]
  have "q_id ` set (db_requests db') = q_id ` set (db_requests (sv_db sv))"
    using console_request_ids[OF c] by (metis set_map)
  with w(11) show ?thesis by (intro service_inv_db[OF inv console_wf[OF w(1) c] console_ledger[OF w(2) c]]) simp
qed

lemma retention_keeps_inv:
  assumes inv: "service_inv sv" and p: "Prune cutoff (sv_db sv) = Inr (db', n)" and s: "retention_spares cutoff sv"
  shows "service_inv (sv\<lparr>sv_db := db'\<rparr>)"
proof -
  note w = service_invD[OF inv]
  have "open_leases sv \<subseteq> q_id ` set (db_requests db')"
    using w(11) s unfolding Prune_Inr(1)[OF p] retention_spares_def by fastforce
  then show ?thesis by (rule service_inv_db[OF inv Prune_wf[OF w(1) p] Prune_ledger_inv[OF w(2) p]])
qed

lemma track_keeps_inv: "service_inv sv \<Longrightarrow> service_inv (sv\<lparr>sv_upstream := u\<rparr>)"
  by (simp add: service_inv_def slots_ok_def leases_ok_def open_leases_def open_for_key_def)

lemma relay_step_inv: "relay_step sv sv' \<Longrightarrow> service_inv sv \<Longrightarrow> service_inv sv'"
  by (induction rule: relay_step.induct) (blast intro: Begin_keeps_inv Close_inv RunOnce_inv reap_pass_inv BeginDraining_inv console_keeps_inv retention_keeps_inv track_keeps_inv)+

lemma relay_reachable_inv: "relay_reachable sv \<Longrightarrow> service_inv sv"
  by (induction rule: relay_reachable.induct)
    (use store_reachable_inv in \<open>blast intro: service_inv_new relay_step_inv\<close>)+

end
