(* ===== verification/Sample_World.thy ===== *)
theory Sample_World
  imports Relay_Machine
begin

text \<open>
  A small deployment, built by the operations of the model from the empty database: one provider
  with one priced model, a group with quotas and a rate of 1.5, a client key and an application
  credential bound to it, one running and one settled request. It shows that the hypotheses of the
  properties hold on a database the program produces.
\<close>

section \<open>The platform\<close>

definition sample_platform :: platform where
  "sample_platform = \<lparr>julianday_ms = (\<lambda>t. t div 1000000), parse_rfc3339 = (\<lambda>_. None), format_rfc3339 = (\<lambda>_. ''2023'')\<rparr>"

definition sample_net :: netlib where
  "sample_net = \<lparr>url_parse = (\<lambda>_. Some \<lparr>u_scheme = ''https'', u_user = False, u_host = ''h'', u_hostname = ''h'',
      u_port = [], u_path = ''/v1'', u_rawquery = [], u_fragment = []\<rparr>),
     url_string = (\<lambda>u. u_scheme u @ ''://'' @ u_host u @ u_path u), parse_ip = (\<lambda>_. None)\<rparr>"

definition sample_box :: Box where
  "sample_box = \<lparr>bx_aead = Some tag_cipher, bx_key = ''k''\<rparr>"

definition sample_hmac :: "string \<Rightarrow> string \<Rightarrow> string" where
  "sample_hmac k s = k @ s"

definition sample_entropy :: "string \<Rightarrow> entropy" where
  "sample_entropy s = \<lparr>en_token = Some s, en_label = Some s, en_public = Some s\<rparr>"

definition now0 :: gotime where
  "now0 = 1700000000000000005"

section \<open>Set-up\<close>

definition db_p :: db where
  "db_p = empty_db\<lparr>db_providers := [\<lparr>p_id = 1, p_name = ''up'', p_base_url = ''https://h'', p_protocol = ''openai'',
     p_cipher = b64_encode (replicate 12 CHR ''n'' @ ''sk'' @ ''t''), p_enabled = True\<rparr>]\<rparr>"

definition sample_model :: Model where
  "sample_model = \<lparr>m_id = 1, m_provider_id = 1, m_public_name = ''gpt'', m_upstream_name = ''gpt'', m_input_price = Some 2000000,
     m_output_price = Some 8000000, m_cached_price = Some 500000, m_enabled = True\<rparr>"

definition db_m :: db where
  "db_m = db_p\<lparr>db_models := [sample_model]\<rparr>"

definition bare_group :: ModelGroup where
  "bare_group = \<lparr>g_id = 1, g_name = ''team'', g_enabled = True, g_rate_milli = 1500, g_token_5h = None, g_amount_5h = None,
     g_token_daily = None, g_amount_daily = None, g_token_weekly = None, g_amount_weekly = None, g_period_days = None,
     g_token_period = None, g_amount_period = None, g_period_start = None\<rparr>"

definition sample_group :: ModelGroup where
  "sample_group = bare_group\<lparr>g_token_5h := Some 1000, g_amount_daily := Some 9000, g_token_weekly := Some 5000\<rparr>"

definition db_g :: db where
  "db_g = db_m\<lparr>db_groups := [sample_group], db_group_providers := [(1, 1)]\<rparr>"

definition sample_key :: ClientKey where
  "sample_key = \<lparr>k_id = 1, k_name = ''alice'', k_digest = ''kcrk_YWJj'', k_label = ''key-YWJj'', k_hint = ''crk_YWJj'', k_enabled = True,
     k_concurrency = 2, k_token_limit = Some 900, k_amount_limit = None, k_disabled_reason = [], k_expires = None,
     k_public_id = None, k_group_id = Some 1\<rparr>"

definition sample_app :: ClientKey where
  "sample_app = \<lparr>k_id = 2, k_name = ''app'', k_digest = ''kcrk_eHl6'', k_label = ''key-eHl6'', k_hint = [], k_enabled = True,
     k_concurrency = 1, k_token_limit = None, k_amount_limit = None, k_disabled_reason = [], k_expires = Some (now0 + day_ns),
     k_public_id = Some ''app_eHl6'', k_group_id = Some 1\<rparr>"

definition db_k :: db where
  "db_k = db_g\<lparr>db_keys := [sample_key, sample_app]\<rparr>"

lemmas sample_dbs = db_k_def db_g_def db_m_def db_p_def empty_db_def sample_key_def sample_app_def sample_group_def
  bare_group_def sample_model_def


definition new_state :: "'e + 'd \<times> 'v \<Rightarrow> 'd option" where
  "new_state r = (case r of Inl _ \<Rightarrow> None | Inr (d, v) \<Rightarrow> Some d)"

lemma new_stateD: "new_state r = Some d \<Longrightarrow> \<exists>v. r = Inr (d, v)"
  by (auto simp: new_state_def split: sum.splits)

definition no_limits :: UpdateModelGroupInput where
  "no_limits = \<lparr>ug_Name = [], ug_Enabled = None, ug_RateMilli = None, ug_Token5H = None, ug_Amount5H = None, ug_TokenDaily = None,
     ug_AmountDaily = None, ug_TokenWeekly = None, ug_AmountWeekly = None, ug_PeriodDays = None, ug_TokenPeriod = None,
     ug_AmountPeriod = None, ug_PeriodStart = None\<rparr>"

definition new_key :: "string \<Rightarrow> int \<Rightarrow> int option \<Rightarrow> gotime option \<Rightarrow> bool \<Rightarrow> NewClientKey" where
  "new_key name conc limit expires keyless = \<lparr>nk_Name = name, nk_Enabled = True, nk_ConcurrencyLimit = conc, nk_TokenLimit = limit,
     nk_AmountLimit = None, nk_ExpiresAt = expires, nk_Keyless = keyless\<rparr>"

lemma build_provider:
  "new_state (CreateProvider sample_net (Some (replicate 12 CHR ''n'')) sample_box
     \<lparr>np_Name = ''up'', np_BaseURL = ''https://h'', np_APIKey = ''sk'', np_Protocol = [], np_Enabled = True\<rparr> empty_db) = Some db_p"
  by code_simp

lemma build_model:
  "new_state (CreateModel \<lparr>nm_ProviderID = 1, nm_PublicName = '' gpt'', nm_UpstreamName = ''gpt'', nm_InputPrice = Some 2000000,
     nm_OutputPrice = Some 8000000, nm_CachedPrice = Some 500000, nm_Enabled = True\<rparr> db_p) = Some db_m"
  by code_simp

lemma build_group:
  "new_state (CreateModelGroup \<lparr>ng_Name = ''team'', ng_Enabled = True, ng_RateMilli = 1500\<rparr> db_m) = Some (db_m\<lparr>db_groups := [bare_group]\<rparr>)"
  "new_state (UpdateModelGroup sample_platform now0 1 (no_limits\<lparr>ug_Token5H := Some 1000, ug_AmountDaily := Some 9000, ug_TokenWeekly := Some 5000\<rparr>)
     (db_m\<lparr>db_groups := [bare_group]\<rparr>)) = Some (db_m\<lparr>db_groups := [sample_group]\<rparr>)"
  "ReplaceGroupProviders 1 [1] (db_m\<lparr>db_groups := [sample_group]\<rparr>) = Inr db_g"
  by (code_simp, code_simp)
    (simp add: ReplaceGroupProviders_def sample_dbs tbl_find_def tbl_update_def bind_result_def reject_when_def require_some_def)

lemma build_keys:
  "new_state (CreateClientKey sample_hmac sample_box now0 (sample_entropy ''abc'') (new_key ''alice'' 2 (Some 900) None False) db_g) =
     Some (db_g\<lparr>db_keys := [sample_key\<lparr>k_group_id := None\<rparr>]\<rparr>)"
  "new_state (CreateClientKey sample_hmac sample_box now0 (sample_entropy ''xyz'') (new_key ''app'' 1 None (Some (now0 + day_ns)) True)
     (db_g\<lparr>db_keys := [sample_key\<lparr>k_group_id := None\<rparr>]\<rparr>)) =
     Some (db_g\<lparr>db_keys := [sample_key\<lparr>k_group_id := None\<rparr>, sample_app\<lparr>k_group_id := None\<rparr>]\<rparr>)"
  "SetKeyGroup 1 1 (db_g\<lparr>db_keys := [sample_key\<lparr>k_group_id := None\<rparr>, sample_app\<lparr>k_group_id := None\<rparr>]\<rparr>) =
     Inr (db_g\<lparr>db_keys := [sample_key, sample_app\<lparr>k_group_id := None\<rparr>]\<rparr>)"
  "SetKeyGroup 2 1 (db_g\<lparr>db_keys := [sample_key, sample_app\<lparr>k_group_id := None\<rparr>]\<rparr>) = Inr db_k"
  by (code_simp, code_simp)
    (simp_all add: SetKeyGroup_def sample_dbs tbl_find_def tbl_update_def bind_result_def reject_when_def require_some_def)

section \<open>A request\<close>

definition sample_input :: ReserveInput where
  "sample_input = \<lparr>in_RequestID = ''r1'', in_KeyID = 1, in_ModelID = 1, in_ProviderID = 1, in_StartedAt = zero_time, in_Stream = False,
     in_InputText = [], in_StringFields = [], in_InputTokens = 10, in_OutputTokenCeiling = 20, in_MaxOutputTokens = 20,
     in_Limits = empty_limits\<lparr>RPMLimit := 30\<rparr>\<rparr>"

definition sample_plan :: reserve_plan where
  "sample_plan = \<lparr>rp_inputTokens = 10, rp_outputTokens = 20, rp_reservedTokens = 30, rp_started = now0\<rparr>"

definition sample_quote :: price_quote where
  "sample_quote = \<lparr>pq_input = 2000000, pq_output = 8000000, pq_cached = 500000, pq_rate = 1500\<rparr>"

definition sample_request :: RequestRow where
  "sample_request = new_request_row sample_input sample_plan sample_quote 1 270\<lparr>q_id := 1\<rparr>"

definition sample_reservation :: KeyReservation where
  "sample_reservation = new_reservation_row sample_input sample_plan 1 270\<lparr>r_id := 1\<rparr>"

definition db_r :: db where
  "db_r = db_k\<lparr>db_requests := [sample_request], db_reservations := [sample_reservation]\<rparr>"

definition sample_res :: RequestReservation where
  "sample_res = \<lparr>res_ID = 1, res_KeyReservationID = 1, res_ModelID = 1, res_RequestID = ''r1'', res_StartedAt = now0,
     res_InputTokens = 10, res_ReservedTokens = 30, res_ReservedAmount = 270, res_QuoteInput = 2000000,
     res_QuoteOutput = 8000000, res_QuoteCached = 500000, res_QuoteRate = 1500\<rparr>"

lemma sample_reserve: "ReserveRequest sample_platform now0 db_k sample_input = Inr (db_r, sample_res)"
  by code_simp

definition sample_outcome :: Settlement where
  "sample_outcome = blank_settlement\<lparr>se_Status := ''completed'', se_InputTokens := 9, se_OutputTokens := 12,
     se_CachedInputTokens := 4, se_AmountMicroyuan := 162, se_UpstreamStatus := 200\<rparr>"

definition db_s :: db where
  "db_s = db_r\<lparr>db_requests := [settle_request (now0 + second_ns) (with_defaults sample_outcome) sample_request],
     db_reservations := [settle_reservation (now0 + second_ns) (with_defaults sample_outcome) sample_reservation]\<rparr>"

lemma sample_finish: "FinishReservation (now0 + second_ns) 1 sample_outcome db_r = Inr db_s"
  by code_simp

section \<open>It is reachable\<close>

lemma console_reach:
  "store_reachable db \<Longrightarrow> console_step db db' \<Longrightarrow> store_reachable db'"
  by (rule store_reachable.step, assumption, rule store_step.console)

lemma reach_db_k: "store_reachable db_k"
proof -
  have "store_reachable db_p"
    using console_reach[OF store_reachable.fresh] console_step.create_provider new_stateD[OF build_provider] by blast
  then have "store_reachable db_m"
    using console_reach console_step.create_model new_stateD[OF build_model] by blast
  then have "store_reachable (db_m\<lparr>db_groups := [bare_group]\<rparr>)"
    using console_reach console_step.create_group new_stateD[OF build_group(1)] by blast
  then have "store_reachable (db_m\<lparr>db_groups := [sample_group]\<rparr>)"
    using console_reach console_step.update_group new_stateD[OF build_group(2)] by blast
  then have "store_reachable db_g"
    using console_reach console_step.replace_providers build_group(3) by blast
  then have "store_reachable (db_g\<lparr>db_keys := [sample_key\<lparr>k_group_id := None\<rparr>]\<rparr>)"
    using console_reach console_step.create_key new_stateD[OF build_keys(1)] by blast
  then have "store_reachable (db_g\<lparr>db_keys := [sample_key\<lparr>k_group_id := None\<rparr>, sample_app\<lparr>k_group_id := None\<rparr>]\<rparr>)"
    using console_reach console_step.create_key new_stateD[OF build_keys(2)] by blast
  then have "store_reachable (db_g\<lparr>db_keys := [sample_key, sample_app\<lparr>k_group_id := None\<rparr>]\<rparr>)"
    using console_reach console_step.set_group build_keys(3) by blast
  then show ?thesis
    using console_reach console_step.set_group build_keys(4) by blast
qed

lemma reach_db_r: "store_reachable db_r"
  by (rule store_reachable.step[OF reach_db_k store_step.reserve[OF sample_reserve]])

lemma reach_db_s: "store_reachable db_s"
  by (rule store_reachable.step[OF reach_db_r store_step.finish[OF sample_finish]])

end
