(* ===== verification/Ledger_Claims.thy ===== *)
theory Ledger_Claims
  imports Sample_World
begin

text \<open>
  Properties of the ledger: when \<open>ReserveRequest\<close> admits a request and what it writes, what a
  settlement does to the books, what the reaper and the retention job leave alone.
\<close>

section \<open>Admission\<close>

text \<open>
  The conditions under which a request may be reserved, in terms of the stored rows: the key, the
  usage of its group in a window, and the lifetime usage of the key.
\<close>

definition key_admits :: "db \<Rightarrow> ReserveInput \<Rightarrow> ClientKey \<Rightarrow> ModelGroup \<Rightarrow> bool" where
  "key_admits db inp k g \<longleftrightarrow> tbl_find k_id (in_KeyID inp) (db_keys db) = Some k \<and> k_enabled k \<and>
     active_for_key (in_KeyID inp) db < k_concurrency k \<and> key_group k db = Some g \<and> g_id g \<noteq> 0"

definition sums_fit :: "KeyReservation list \<Rightarrow> bool" where
  "sums_fit rows \<longleftrightarrow> sum_by row_tokens rows \<le> max_i64 \<and> sum_by row_amount rows \<le> max_i64"

definition window_admits :: "(KeyReservation \<Rightarrow> bool) \<Rightarrow> db \<Rightarrow> int \<Rightarrow> int \<Rightarrow> bool" where
  "window_admits P db tokenLimit amountLimit \<longleftrightarrow> sums_fit (window_rows P db) \<and>
     within_limit (window_tokens P db) tokenLimit \<and> within_limit (window_amount P db) amountLimit"

definition week_admits :: "platform \<Rightarrow> db \<Rightarrow> QuotaLimits \<Rightarrow> ModelGroup \<Rightarrow> gotime \<Rightarrow> bool" where
  "week_admits plat db limits g started \<longleftrightarrow>
     (\<exists>inPeriod weekStart strict. weekly_scope plat db limits g started = Inr (inPeriod, weekStart, strict) \<and>
        (let W = in_week strict weekStart started (g_id g) in
         if inPeriod then sums_fit (window_rows W db)
         else window_admits W db (TokenWeekly limits) (AmountWeekly limits)))"

definition key_quota_admits :: "db \<Rightarrow> ClientKey \<Rightarrow> bool" where
  "key_quota_admits db k \<longleftrightarrow> sums_fit (key_rows (k_id k) db) \<and>
     within_limit (sum_by row_tokens (key_rows (k_id k) db)) (coalesce0 (k_token_limit k)) \<and>
     within_limit (sum_by row_amount (key_rows (k_id k) db)) (coalesce0 (k_amount_limit k))"

definition quotas_admit :: "platform \<Rightarrow> db \<Rightarrow> QuotaLimits \<Rightarrow> ClientKey \<Rightarrow> ModelGroup \<Rightarrow> gotime \<Rightarrow> bool" where
  "quotas_admit plat db limits k g started \<longleftrightarrow>
     rpm_used plat started db < RPMLimit limits \<and>
     window_admits (in_5h plat started (g_id g)) db (Token5H limits) (Amount5H limits) \<and>
     window_admits (in_day (billingDate started) started (g_id g)) db (TokenDaily limits) (AmountDaily limits) \<and>
     week_admits plat db limits g started \<and> key_quota_admits db k"

lemma windowUsage_fit: "windowUsage P db = Inr u \<longleftrightarrow> sums_fit (window_rows P db) \<and> u = (window_tokens P db, window_amount P db)"
  by (auto simp: windowUsage_def sum_usage_def sums_fit_def)

lemma check_5h_day_admits:
  "check_5h_day plat db limits g started = Inr () \<longleftrightarrow>
     window_admits (in_5h plat started (g_id g)) db (Token5H limits) (Amount5H limits) \<and>
     window_admits (in_day (billingDate started) started (g_id g)) db (TokenDaily limits) (AmountDaily limits)"
  by (auto simp: check_5h_day_def bind_result_Inr windowUsage_fit window_admits_def)

lemma check_period_week_admits:
  "check_period_week plat db limits g started = Inr () \<longleftrightarrow> week_admits plat db limits g started"
  by (auto simp: check_period_week_def week_admits_def bind_result_Inr windowUsage_fit window_admits_def Let_def
      split: if_splits)

lemma within_limit_zero [simp]: "within_limit used 0"
  by (simp add: within_limit_def)

lemma check_key_quota_admits: "check_key_quota db k g = Inr () \<longleftrightarrow> key_quota_admits db k"
  by (cases "k_token_limit k"; cases "k_amount_limit k")
    (auto simp: check_key_quota_def key_quota_admits_def bind_result_Inr sum_usage_def sums_fit_def coalesce0_def
      split: if_splits)

lemma check_rpm_admits: "check_rpm plat db limits started = Inr () \<longleftrightarrow> rpm_used plat started db < RPMLimit limits"
  by (auto simp: check_rpm_def Let_def)

lemma reserve_key_admits: "reserve_key db inp = Inr (k, Some g) \<longleftrightarrow> key_admits db inp k g"
  by (auto simp: reserve_key_def key_admits_def bind_result_Inr coalesce0_def key_group_def split: option.splits
      dest: tbl_find_Some)

lemma reserve_insert_admits:
  "(\<exists>r. reserve_insert db inp plan q gid amount = Inr r) \<longleftrightarrow>
     in_RequestID inp \<notin> q_request_id ` set (db_requests db) \<and> refers p_id (db_providers db) (in_ProviderID inp)"
  by (auto simp: reserve_insert_def bind_result_Inr)

lemmas admission_rules = check_5h_day_admits check_period_week_admits check_key_quota_admits check_rpm_admits reserve_key_admits

text \<open>
  C1: \<open>ReserveRequest\<close> admits a request exactly when its metadata is valid, the key exists, is
  enabled, has fewer active reservations than its concurrency limit and belongs to a group, the
  group authorises and prices the model, every quota still has room (requests per minute, the
  group's 5-hour, daily and weekly tokens and amounts, the key's lifetime tokens and amount), the
  request id is new and the provider exists. Nothing else refuses a request. (A sum of usage that does
  not fit 64 bits is an error too. The start of the week is compared as the text the code writes,
  in the zone of the period it may come from: see \<open>zoned_week_start_shifts\<close>.)
\<close>

theorem reserve_admission:
  "(\<exists>db' res. ReserveRequest plat now db inp = Inr (db', res)) \<longleftrightarrow>
   (\<exists>plan k g q amount. reserve_validate now inp = Inr plan \<and> key_admits db inp k g \<and>
      find_quote db (in_ModelID inp) g = Inr q \<and> reserve_amount_for q plan = Inr amount \<and>
      quotas_admit plat db (group_limits plat (RPMLimit (in_Limits inp)) (Some g)) k g (rp_started plan) \<and>
      in_RequestID inp \<notin> q_request_id ` set (db_requests db) \<and> refers p_id (db_providers db) (in_ProviderID inp))"
    (is "?lhs \<longleftrightarrow> ?rhs")
proof
  assume ?lhs
  then obtain db' res where run: "ReserveRequest plat now db inp = Inr (db', res)" by blast
  then show ?rhs
    by (rule ReserveRequest_InrE)
      (use reserve_insert_admits in \<open>auto simp: admission_rules quotas_admit_def; blast\<close>)
next
  assume ?rhs
  then obtain plan k g q amount where r: "reserve_validate now inp = Inr plan" "key_admits db inp k g"
      "find_quote db (in_ModelID inp) g = Inr q" "reserve_amount_for q plan = Inr amount"
      "quotas_admit plat db (group_limits plat (RPMLimit (in_Limits inp)) (Some g)) k g (rp_started plan)"
    and ins: "in_RequestID inp \<notin> q_request_id ` set (db_requests db) \<and> refers p_id (db_providers db) (in_ProviderID inp)"
    by blast
  let ?limits = "group_limits plat (RPMLimit (in_Limits inp)) (Some g)"
  obtain x where "reserve_insert db inp plan q (g_id g) amount = Inr x"
    using ins reserve_insert_admits by blast
  moreover have "reserve_key db inp = Inr (k, Some g)" using r(2) by (simp add: reserve_key_admits)
  moreover have "check_rpm plat db ?limits (rp_started plan) = Inr ()" "check_5h_day plat db ?limits g (rp_started plan) = Inr ()"
    "check_period_week plat db ?limits g (rp_started plan) = Inr ()" "check_key_quota db k g = Inr ()"
    using r(5) by (simp_all add: admission_rules quotas_admit_def)
  ultimately have "ReserveRequest plat now db inp = Inr x"
    using r(1,3,4) by (simp add: ReserveRequest_def Let_def require_some_def)
  then show ?lhs by (cases x) blast
qed

text \<open>
  C9: a reservation writes one request row and one key reservation, both \<open>reserved\<close>, with fresh ids,
  for the number of estimated input tokens plus the output ceiling and for their rounded-up price at
  the group's rate; the usage of the group and the number of active reservations of the key grow by
  exactly that, the latter stays within the key's concurrency limit, and no other table changes.
\<close>

theorem reserve_effect:
  assumes run: "ReserveRequest plat now db inp = Inr (db', res)"
  shows "\<exists>k g m out. key_admits db inp k g \<and> tbl_find m_id (in_ModelID inp) (db_models db) = Some m \<and> authorized_in_group db g m \<and>
     out = (if in_OutputTokenCeiling inp \<le> 0 then in_MaxOutputTokens inp else in_OutputTokenCeiling inp) \<and>
     res_ReservedTokens res = wrap64 (estimateInputTokens inp + out) \<and>
     res_ReservedAmount res = ceil_micro (estimateInputTokens inp) (coalesce0 (m_input_price m) * g_rate_milli g div 1000) +
       ceil_micro out (coalesce0 (m_output_price m) * g_rate_milli g div 1000) \<and>
     res_ID res \<notin> q_id ` set (db_requests db) \<and>
     (\<exists>q r. db' = db\<lparr>db_requests := db_requests db @ [q], db_reservations := db_reservations db @ [r]\<rparr> \<and> q_id q = res_ID res \<and> backs q r) \<and>
     window_tokens (group_rows (g_id g)) db' = window_tokens (group_rows (g_id g)) db + res_ReservedTokens res \<and>
     window_amount (group_rows (g_id g)) db' = window_amount (group_rows (g_id g)) db + res_ReservedAmount res \<and>
     active_for_key (in_KeyID inp) db' = active_for_key (in_KeyID inp) db + 1 \<and>
     active_for_key (in_KeyID inp) db' \<le> k_concurrency k"
  using run
proof (rule ReserveRequest_InrE)
  fix plan k g q amount
  assume st: "reserve_validate now inp = Inr plan" "reserve_key db inp = Inr (k, Some g)"
    "find_quote db (in_ModelID inp) g = Inr q" "reserve_amount_for q plan = Inr amount"
    and ins: "reserve_insert db inp plan q (g_id g) amount = Inr (db', res)"
  obtain m where m: "tbl_find m_id (in_ModelID inp) (db_models db) = Some m" "authorized_in_group db g m"
    "pq_input q = coalesce0 (m_input_price m)" "pq_output q = coalesce0 (m_output_price m)" "pq_rate q = g_rate_milli g"
    using st(3) by (rule find_quote_Inr)
  note v = reserve_validate_Inr[OF st(1)] and k = st(2)[unfolded reserve_key_admits]
    and am = reserve_amount_for_Inr[OF st(4)] and r = reserve_insert_Inr[OF ins]
  let ?nr = "new_reservation_row inp plan (g_id g) amount\<lparr>r_id := tbl_next r_id (db_reservations db)\<rparr>"
  let ?nq = "new_request_row inp plan q (g_id g) amount\<lparr>q_id := tbl_next q_id (db_requests db)\<rparr>"
  have db': "db' = db\<lparr>db_requests := db_requests db @ [?nq], db_reservations := db_reservations db @ [?nr]\<rparr>"
    by (simp add: r(1) insert_request_def insert_reservation_def tbl_insert_def)
  have rows: "\<exists>q r. db' = db\<lparr>db_requests := db_requests db @ [q], db_reservations := db_reservations db @ [r]\<rparr> \<and> q_id q = res_ID res \<and> backs q r"
    by (intro exI[of _ ?nq] exI[of _ ?nr]) (simp add: db' r(2) backs_def new_request_row_def new_reservation_row_def)
  have fresh: "res_ID res \<notin> q_id ` set (db_requests db)"
    using r(2) tbl_next_gt[of _ "db_requests db" q_id] by fastforce
  have tokens: "window_tokens (group_rows (g_id g)) db' = window_tokens (group_rows (g_id g)) db + res_ReservedTokens res"
    by (simp add: db' r(5) window_rows_def group_rows_def counted_status_def row_tokens_def new_reservation_row_def)
  have amounts: "window_amount (group_rows (g_id g)) db' = window_amount (group_rows (g_id g)) db + res_ReservedAmount res"
    by (simp add: db' r(4) window_rows_def group_rows_def counted_status_def row_amount_def new_reservation_row_def)
  have act: "active_for_key (in_KeyID inp) db' = active_for_key (in_KeyID inp) db + 1"
    by (simp add: db' active_for_key_def new_reservation_row_def)
  have conc: "active_for_key (in_KeyID inp) db' \<le> k_concurrency k" using k act by (simp add: key_admits_def)
  have price: "res_ReservedAmount res = ceil_micro (estimateInputTokens inp) (coalesce0 (m_input_price m) * g_rate_milli g div 1000) +
       ceil_micro (rp_outputTokens plan) (coalesce0 (m_output_price m) * g_rate_milli g div 1000)"
    unfolding r(4) am(1) m v(1) ..
  have toks: "res_ReservedTokens res = wrap64 (estimateInputTokens inp + rp_outputTokens plan)"
    unfolding r(5) v(6) v(1) ..
  show ?thesis
    by (rule exI[of _ k], rule exI[of _ g], rule exI[of _ m], rule exI[of _ "rp_outputTokens plan"])
      (intro conjI k m(1) m(2) v(4) toks price fresh rows tokens amounts act conc)
qed

theorem reserve_effect_witness:
  "\<exists>k g m. key_admits db_k sample_input k g \<and> tbl_find m_id 1 (db_models db_k) = Some m \<and> res_ReservedAmount sample_res = 270 \<and>
     window_tokens (group_rows (g_id g)) db_r = window_tokens (group_rows (g_id g)) db_k + 30 \<and> active_for_key 1 db_r \<le> k_concurrency k"
  using reserve_effect[OF sample_reserve] by (auto simp: sample_input_def sample_res_def)

lemma wrap64_detects:
  assumes "0 < a" "0 < b" "in_i64 a" "in_i64 b" "a \<le> wrap64 (a + b)"
  shows "a + b \<le> max_i64"
proof (rule ccontr)
  assume "\<not> ?thesis"
  then have "(a + b + 9223372036854775808) mod 18446744073709551616 = (a + b + 9223372036854775808) - 18446744073709551616"
    using assms(3,4) by (subst mod_pos_geq) (auto simp: i64_defs)
  with assms show False by (simp add: i64_defs)
qed

text \<open>
  With 64-bit inputs the reserved tokens are the exact sum of the estimate and the output ceiling:
  a sum that leaves the 64-bit range is always noticed and refused.
\<close>

lemma reserve_tokens_exact:
  assumes run: "ReserveRequest plat now db inp = Inr (db', res)"
    and out: "out = (if in_OutputTokenCeiling inp \<le> 0 then in_MaxOutputTokens inp else in_OutputTokenCeiling inp)"
    and range: "in_i64 (estimateInputTokens inp)" "in_i64 out"
  shows "res_ReservedTokens res = estimateInputTokens inp + out \<and> 0 < out \<and> estimateInputTokens inp + out \<le> max_i64"
  using run
proof (rule ReserveRequest_InrE)
  fix plan k g q amount
  assume st: "reserve_validate now inp = Inr plan" and ins: "reserve_insert db inp plan q (g_id g) amount = Inr (db', res)"
  note v = reserve_validate_Inr[OF st] and r = reserve_insert_Inr[OF ins]
  have o: "rp_outputTokens plan = out" using v(4) out by simp
  have "estimateInputTokens inp \<le> wrap64 (estimateInputTokens inp + out)" using v(1,5,6) o by simp
  then have "estimateInputTokens inp + out \<le> max_i64"
    using wrap64_detects[OF _ _ range] v(1-3) o by simp
  moreover from this have "wrap64 (estimateInputTokens inp + out) = estimateInputTokens inp + out"
    using v(1-3) o by (simp add: in_i64_nonneg)
  ultimately show ?thesis using r(5) v(1,3,6) o by simp
qed

section \<open>Prices\<close>

text \<open>
  \<open>ceilPrice\<close> is the exact rounded-up price of a number of tokens; it fails exactly when the
  rounded product would leave the 64-bit range, before anything can wrap around.
\<close>

lemma ceilPrice_exact:
  assumes "0 \<le> tokens" "0 \<le> price"
  shows "ceilPrice tokens price =
     (if tokens * price + 999999 \<le> max_i64 then Inr (ceil_micro tokens price) else Inl (ErrText ''reservation amount overflow''))"
proof (cases "tokens * price + 999999 \<le> max_i64")
  case True
  with ceilPrice_total[OF assms True] show ?thesis by simp
next
  case False
  then have "tokens \<noteq> 0" "price \<noteq> 0" by (auto simp: max_i64_def)
  moreover from this have "\<not> tokens \<le> (max_i64 - 999999) div price"
    using False assms by (simp add: le_div_iff_mult)
  ultimately show ?thesis using False assms by (simp add: ceilPrice_def sdiv_nonneg max_i64_def)
qed

text \<open>
  \<open>PriceUsage\<close> bills the saturated sum of three rounded-up parts: the uncached prompt, the cached
  prompt (never more than the prompt, at the input price when the model has no cached price) and
  the completion.
\<close>

lemma PriceUsage_saturates:
  "PriceUsage usage model = min max_i64
     (charge (PromptTokens usage - billable_cached usage) (valueOrZero (m_input_price model)) +
      charge (billable_cached usage) (case m_cached_price model of None \<Rightarrow> valueOrZero (m_input_price model) | Some c \<Rightarrow> c) +
      charge (CompletionTokens usage) (valueOrZero (m_output_price model)))"
  by (rule PriceUsage_eq)

text \<open>
  C24: a settlement within the reserved tokens never costs more than one microyuan above what was
  reserved: when the upstream reports at most the estimated prompt and at most the output ceiling,
  and the quoted cached price is not above the quoted input price (which nothing in the code
  enforces), the amount billed with the price snapshot of
  the reservation is at most the reserved amount plus one, the extra being the second rounding of
  a split prompt.
\<close>

theorem settlement_within_reservation:
  assumes run: "ReserveRequest plat now db inp = Inr (db', res)"
    and usage: "PromptTokens usage \<le> res_InputTokens res"
      "CompletionTokens usage \<le> (if in_OutputTokenCeiling inp \<le> 0 then in_MaxOutputTokens inp else in_OutputTokenCeiling inp)"
    and cached: "0 \<le> PromptTokens usage" "res_QuoteCached res \<le> res_QuoteInput res"
  shows "PriceUsage usage (effective (priceSnapshot res) m) \<le> res_ReservedAmount res + 1"
  using run
proof (rule ReserveRequest_InrE)
  fix plan k g q amount
  assume st: "reserve_validate now inp = Inr plan" "reserve_amount_for q plan = Inr amount"
    and ins: "reserve_insert db inp plan q (g_id g) amount = Inr (db', res)"
  note v = reserve_validate_Inr[OF st(1)] and r = reserve_insert_Inr[OF ins]
  obtain i out c where pr: "priceWithRate (pq_input q) (pq_rate q) = Inr i" "priceWithRate (pq_output q) (pq_rate q) = Inr out"
    "priceWithRate (pq_cached q) (pq_rate q) = Inr c"
    and am: "reserveAmount (rp_inputTokens plan) (rp_outputTokens plan) i out = Inr amount"
    using st(2) by (auto simp: reserve_amount_for_def bind_result_Inr)
  note p = priceWithRate_Inr[OF pr(1)] priceWithRate_Inr[OF pr(2)] priceWithRate_Inr[OF pr(3)]
  have "c \<le> i" using cached(2) r(11,13) p by (simp add: zdiv_mono1)
  have prices: "m_input_price (effective (priceSnapshot res) m) = Some i" "m_output_price (effective (priceSnapshot res) m) = Some out"
    "m_cached_price (effective (priceSnapshot res) m) = Some c"
    using applyRate_priceWithRate[OF pr(1)] applyRate_priceWithRate[OF pr(2)] applyRate_priceWithRate[OF pr(3)] r(11-14)
    by (simp_all add: effective_def priceSnapshot_def)
  have bc: "0 \<le> billable_cached usage" "billable_cached usage \<le> PromptTokens usage"
    using cached(1) by (simp_all add: billable_cached_def Let_def)
  have "PriceUsage usage (effective (priceSnapshot res) m) \<le>
      charge (PromptTokens usage - billable_cached usage) i + charge (billable_cached usage) c + charge (CompletionTokens usage) out"
    unfolding PriceUsage_eq prices by (simp add: valueOrZero_def)
  also have "\<dots> \<le> (ceil_micro (PromptTokens usage) i + 1) + ceil_micro (rp_outputTokens plan) out"
    using charge_split[OF bc \<open>c \<le> i\<close> p(4)] charge_le_ceil[of "CompletionTokens usage" "rp_outputTokens plan" out out] usage(2) v(3,4) p(8)
    by simp
  also have "\<dots> \<le> amount + 1"
    using ceil_micro_mono[of "PromptTokens usage" "rp_inputTokens plan" i i] cached(1) usage(1) r(9) p(4) reserveAmount_Inr(1)[OF am]
    by simp
  finally show ?thesis using r(4) by simp
qed

theorem settlement_within_reservation_witness:
  "PriceUsage \<lparr>PromptTokens = 9, CompletionTokens = 12, TotalTokens = 21, CachedTokens = 4\<rparr> (effective (priceSnapshot sample_res) sample_model) \<le> 271"
  using settlement_within_reservation[OF sample_reserve, of "\<lparr>PromptTokens = 9, CompletionTokens = 12, TotalTokens = 21, CachedTokens = 4\<rparr>" sample_model]
  by (simp add: sample_input_def sample_res_def)

section \<open>Settlement\<close>

text \<open>
  C5: whatever order the operations of the store run in, starting from the empty database, every
  database they reach satisfies the schema's constraints and its two ledgers agree: each active key
  reservation belongs to exactly one active request with the same tokens, amount and instant, each
  active request holds one, a finished reservation holds nothing and an active one has charged nothing.
\<close>

theorem store_consistent:
  assumes "store_reachable db"
  shows "wf_db db \<and> ledger_inv db"
  using assms by (rule store_reachable_inv)

theorem store_consistent_witness: "wf_db db_r \<and> ledger_inv db_r \<and> length (db_reservations db_r) = 1"
  using store_consistent[OF reach_db_r] by (simp add: db_r_def)

text \<open>
  C8: a request settles once. After the first settlement of a reserved request, repeating it with
  the same outcome (missing usage source and protocol read as their defaults) succeeds and changes
  nothing; any other valid outcome is refused with a settlement conflict.
\<close>

theorem settles_once:
  assumes fin: "FinishReservation now i o0 db = Inr db'"
    and open_row: "tbl_find q_id i (db_requests db) = Some q" "q_status q = ''reserved''"
    and valid: "validate_settlement i o1 = Inr o2"
  shows "FinishReservation now' i o1 db' = (if with_defaults o1 = with_defaults o0 then Inr db' else Inl ErrSettlementConflict)"
  using finish_after_finish[OF fin open_row valid] validate_settlement_Inr(1)[OF valid] by simp

theorem settles_once_witness:
  "FinishReservation 0 1 (sample_outcome\<lparr>se_UsageSource := ''unknown''\<rparr>) db_s = Inr db_s \<and>
   FinishReservation 0 1 (sample_outcome\<lparr>se_OutputTokens := 13\<rparr>) db_s = Inl ErrSettlementConflict"
proof -
  have row: "tbl_find q_id 1 (db_requests db_r) = Some sample_request" "q_status sample_request = ''reserved''" by code_simp+
  have v: "validate_settlement 1 (sample_outcome\<lparr>se_UsageSource := ''unknown''\<rparr>) = Inr (with_defaults sample_outcome)"
    "validate_settlement 1 (sample_outcome\<lparr>se_OutputTokens := 13\<rparr>) = Inr (with_defaults (sample_outcome\<lparr>se_OutputTokens := 13\<rparr>))"
    by code_simp+
  have "with_defaults (sample_outcome\<lparr>se_UsageSource := ''unknown''\<rparr>) = with_defaults sample_outcome"
    "with_defaults (sample_outcome\<lparr>se_OutputTokens := 13\<rparr>) \<noteq> with_defaults sample_outcome" by code_simp+
  then show ?thesis
    using settles_once[OF sample_finish row v(1), of 0] settles_once[OF sample_finish row v(2), of 0] by simp
qed

text \<open>
  Settlement cannot get stuck on the books: in every reachable database each active request
  accepts every settlement with non-negative values and a final status.
\<close>

lemma settlement_accepted:
  assumes reach: "store_reachable db" and row: "tbl_find q_id i (db_requests db) = Some q" "q_status q = ''reserved''"
    and valid: "validate_settlement i o0 = Inr o1"
  shows "\<exists>db'. FinishReservation now i o0 db = Inr db' \<and> store_reachable db' \<and> (\<exists>q'. tbl_find q_id i (db_requests db') = Some q' \<and> q_status q' = se_Status o0)"
proof -
  obtain db' where fin: "FinishReservation now i o0 db = Inr db'"
    using finish_total[OF _ _ row valid] store_reachable_inv[OF reach] by blast
  have "\<exists>q'. tbl_find q_id i (db_requests db') = Some q' \<and> q_status q' = se_Status o0"
    using fin
  proof (cases rule: FinishReservation_InrE)
    case (settled o2 q2 kr)
    then have "tbl_find q_id i (db_requests db') = Some (settle_request now o2 q2)" by (simp add: tbl_find_update)
    with validate_settlement_Inr(1)[OF settled(1)] show ?thesis by (auto simp: with_defaults_def)
  qed (use row in simp)
  with fin store_reachable.step[OF reach store_step.finish[OF fin]] show ?thesis by blast
qed

text \<open>The windows the ledger sums over look only at columns that a settlement leaves alone.\<close>

definition ledger_window :: "(KeyReservation \<Rightarrow> bool) \<Rightarrow> bool" where
  "ledger_window P \<longleftrightarrow> (\<exists>gid. P = group_rows gid) \<or> (\<exists>plat t gid. P = in_5h plat t gid) \<or> (\<exists>d t gid. P = in_day d t gid) \<or>
     (\<exists>s w t gid. P = in_week s w t gid) \<or> (\<exists>plat l gid t. P = in_period plat l gid t)"

lemma ledger_window_stable: "ledger_window P \<Longrightarrow> P (settle_reservation now o1 r) = P r"
  by (auto simp: ledger_window_def group_rows_def in_5h_def in_day_def in_week_def in_period_def in_period_range_def settle_reservation_def)

text \<open>
  C10: settling replaces what a request had reserved by what it is charged, in every window that
  contains it (the 5-hour, daily, weekly and period windows and the group's total), and by nothing
  when it is rejected; the tokens charged are the exact sum of input and output.
\<close>

theorem settlement_accounting:
  assumes wf: "wf_db db" and fin: "FinishReservation now i o0 db = Inr db'"
    and row: "tbl_find q_id i (db_requests db) = Some q" "q_status q = ''reserved''"
    and window: "ledger_window P"
  shows "\<exists>r \<in> set (db_reservations db). r_status r = ''reserved'' \<and> r_request_id r = Some (q_request_id q) \<and>
     window_tokens P db' = window_tokens P db +
       (if P r then (if se_Status o0 = ''rejected'' then 0 else se_InputTokens o0 + se_OutputTokens o0) - row_tokens r else 0) \<and>
     window_amount P db' = window_amount P db +
       (if P r then (if se_Status o0 = ''rejected'' then 0 else se_AmountMicroyuan o0) - row_amount r else 0)"
  using settled_window[OF wf fin row ledger_window_stable[OF window]] by blast

theorem settlement_accounting_witness:
  "\<exists>r \<in> set (db_reservations db_r). window_tokens (group_rows 1) db_s = window_tokens (group_rows 1) db_r + 21 - row_tokens r"
proof -
  have row: "tbl_find q_id 1 (db_requests db_r) = Some sample_request" "q_status sample_request = ''reserved''" by code_simp+
  have w: "wf_db db_r" using store_reachable_inv[OF reach_db_r] by simp
  have P: "ledger_window (group_rows 1)" by (auto simp: ledger_window_def)
  have g: "r \<in> set (db_reservations db_r) \<Longrightarrow> group_rows 1 r" for r
    by (simp add: db_r_def sample_reservation_def new_reservation_row_def group_rows_def)
  have "se_InputTokens sample_outcome + se_OutputTokens sample_outcome = 21" "se_Status sample_outcome \<noteq> ''rejected''"
    by (simp_all add: sample_outcome_def)
  then show ?thesis using settlement_accounting[OF w sample_finish row P] g by auto
qed

section \<open>Recovery\<close>

lemma reap_counts:
  "int (length (filter (\<lambda>r. r_status r = ''reserved'') rows)) =
   int (length (filter (\<lambda>r. r_status r = ''reserved'') (map (\<lambda>r. if S r then reap_reservation now r else r) rows))) +
   int (length (filter S rows))"
  if "\<And>r. S r \<Longrightarrow> r_status r = ''reserved''"
  by (induction rows) (auto simp: that)

text \<open>
  One pass of the reaper ends every active reservation older than the cut-off that is not
  excluded: none is left, the number it reports is the number of key reservations that stopped
  being active, those hold and charge nothing any more, and every other row is as it was.
\<close>

lemma reap_effect:
  assumes run: "ReapOrphanReservations plat now cutoff act pend db = Inr (db', n)"
  shows "\<not> list_ex (stale_request plat cutoff (excluded_ids act pend)) (db_requests db') \<and>
     int (length (filter (\<lambda>r. r_status r = ''reserved'') (db_reservations db))) =
       int (length (filter (\<lambda>r. r_status r = ''reserved'') (db_reservations db'))) + n \<and>
     list_all2 (\<lambda>r r'. if stale_reservation plat cutoff (excluded_ids act pend) (db_requests db) r
         then r_status r' = ''aborted'' \<and> row_tokens r' = 0 \<and> row_amount r' = 0 \<and> r_finished r' = Some now else r' = r)
       (db_reservations db) (db_reservations db') \<and>
     list_all2 (\<lambda>q q'. if stale_request plat cutoff (excluded_ids act pend) q
         then q_status q' = ''aborted'' \<and> q_error_code q' = ''crash_recovered'' else q' = q) (db_requests db) (db_requests db') \<and>
     db_keys db' = db_keys db \<and> db_groups db' = db_groups db"
proof -
  note d = ReapOrphan_Inr[OF run]
  have "\<not> list_ex (stale_request plat cutoff (excluded_ids act pend)) (db_requests db')"
    by (auto simp: d(1) list_ex_iff stale_request_def)
  moreover have "int (length (filter (\<lambda>r. r_status r = ''reserved'') (db_reservations db))) =
       int (length (filter (\<lambda>r. r_status r = ''reserved'') (db_reservations db'))) + n"
    using reap_counts[of "stale_reservation plat cutoff (excluded_ids act pend) (db_requests db)" "db_reservations db" now]
    by (simp add: d stale_reservation_def)
  ultimately show ?thesis
    by (simp add: d(1) list_all2_map2 list_all2_same reap_reservation_def reap_request_def row_tokens_def row_amount_def)
qed

text \<open>
  Retention never deletes an active request or reservation, but it deletes finished rows that the
  lifetime quota of a key still counts: what a key is charged with drops by the rows of the key
  that are older than the cut-off.
\<close>

lemma prune_key_usage:
  assumes run: "Prune cutoff db = Inr (db', n)"
  shows "sum_by row_tokens (key_rows k db') =
       sum_by row_tokens (key_rows k db) - sum_by row_tokens (filter (prunable_reservation cutoff) (key_rows k db)) \<and>
     filter (\<lambda>r. r_status r = ''reserved'') (db_reservations db') = filter (\<lambda>r. r_status r = ''reserved'') (db_reservations db) \<and>
     filter (\<lambda>q. q_status q = ''reserved'') (db_requests db') = filter (\<lambda>q. q_status q = ''reserved'') (db_requests db)"
proof -
  have "filter (\<lambda>r. r_status r = ''reserved'') (db_reservations db') = filter (\<lambda>r. r_status r = ''reserved'') (db_reservations db)"
    "filter (\<lambda>q. q_status q = ''reserved'') (db_requests db') = filter (\<lambda>q. q_status q = ''reserved'') (db_requests db)"
    by (simp_all add: Prune_Inr(1)[OF run] prunable_reservation_def prunable_request_def, auto intro!: filter_cong)
  then show ?thesis by (simp add: Prune_key_rows[OF run] sum_by_partition)
qed

section \<open>Windows\<close>

text \<open>
  The billing week starts on a Monday at midnight Beijing time, at or before the instant and
  less than seven days before it.
\<close>

lemma week_starts_monday:
  "billingWeekStart t \<le> t \<and> t < add_days (billingWeekStart t) 7 \<and>
   weekday (beijing_day (billingWeekStart t)) = 1 \<and> beijing_day (billingWeekStart t) * day_ns - beijingZone = billingWeekStart t"
  using billingWeekStart_bounds[of t] billingWeekStart_monday[of t] by blast

text \<open>
  The weekly query compares timestamp texts, and the text of a whole second sorts after the
  text of a fraction of that second, because the full stop sorts before the letter Z. So a request
  that starts within the first second of the billing week, but not exactly on it, is in no weekly
  window.
\<close>

lemma first_second_of_week_uncounted:
  assumes "billingWeekStart now < r_created r" "r_created r < billingWeekStart now + second_ns"
  shows "\<not> in_week False (billingWeekStart now, 0) started gid r"
proof -
  define w where "w = billingWeekStart now"
  define d where "d = r_created r - w"
  have whole: "w mod second_ns = 0"
    unfolding w_def billingWeekStart_eq by (simp add: time_units beijingZone_def mod_diff_eq[symmetric] mod_mult_right_eq[symmetric])
  have d: "0 < d" "d < second_ns" "r_created r = w + d" using assms by (simp_all add: d_def w_def)
  have q: "w = (w div second_ns) * second_ns" using whole by (metis add.right_neutral div_mult_mod_eq)
  have "(w + d) div second_ns = w div second_ns"
    using d(1,2) by (subst q) (simp add: div_add1_eq time_units)
  moreover have "(w + d) mod second_ns = d" using whole d(1,2) by (simp add: mod_add_eq[symmetric, of w])
  ultimately have "rfc3339nano (r_created r) = (w div second_ns, fraction_text (nat d))" "rfc3339nano w = (w div second_ns, ''Z'')"
    using whole d by (simp_all add: rfc3339nano_def fraction_text_def)
  moreover have "fraction_text (nat d) < ''Z''" using d(1) by (simp add: fraction_text_def less_char_def)
  ultimately have "rfc3339nano (r_created r) < rfc3339nano w" by (simp add: less_prod_def)
  then show ?thesis by (simp add: in_week_def w_def not_le)
qed

text \<open>
  The end of a custom period keeps the offset its start was written with, and the weekly query compares
  its text with rows in UTC: after a period written at \<open>+08:00\<close> the requests of the eight hours after its
  end are in no weekly window, and one written at \<open>-05:00\<close> lets the week begin five hours early.
\<close>

lemma zoned_week_start_shifts:
  assumes "rfc3339nano (r_created r) \<le> rfc3339nano started" "r_group_id r = gid"
  shows "r_created r div second_ns < t div second_ns + zone \<Longrightarrow> \<not> in_week strict (t, zone) started gid r"
    "t div second_ns + zone < r_created r div second_ns \<Longrightarrow> in_week strict (t, zone) started gid r"
proof -
  have "zoned_text (t, zone) = (t div second_ns + zone, fraction_digits (nat (t mod second_ns)) @ zone_suffix zone)"
    by (simp add: zoned_text_def second_ns_def)
  then show "r_created r div second_ns < t div second_ns + zone \<Longrightarrow> \<not> in_week strict (t, zone) started gid r"
    "t div second_ns + zone < r_created r div second_ns \<Longrightarrow> in_week strict (t, zone) started gid r"
    using assms by (simp_all add: in_week_def rfc3339nano_def less_prod_def less_eq_prod_def)
qed

lemma window_stage_scope:
  assumes "qe_scope e = ''period''" "list_all (\<lambda>r. \<not> is_zero_time (r_created r)) (db_reservations db)"
  shows "check_5h_day plat db l g st \<noteq> Inl (ErrQuota e)" "check_period_week plat db l g st \<noteq> Inl (ErrQuota e)"
    "check_key_quota db k g \<noteq> Inl (ErrQuota e)"
proof -
  have w: "check_window sc g u tl al \<noteq> Inl (ErrQuota e)" if "sc \<noteq> ''period''" for sc u tl al
    using check_window_scope[of sc g u tl al] that assms(1) by fastforce
  have u: "windowUsage P db \<noteq> Inl (ErrQuota e)" "sum_usage rows \<noteq> Inl (ErrQuota e)" for P rows
    by (simp_all add: windowUsage_def sum_usage_def)
  have k: "overdrawn mt ''key'' c v li g \<noteq> Inl (ErrQuota e)" for mt c v li
    using assms(1) by (auto simp: overdrawn_def)
  have ws: "weekly_scope plat db l g st \<noteq> Inl (ErrQuota e)"
    using weekly_scope_never_quota assms(2) by (simp add: list_all_iff)
  show "check_5h_day plat db l g st \<noteq> Inl (ErrQuota e)" by (auto simp: check_5h_day_def bind_result_Inl u w)
  show "check_period_week plat db l g st \<noteq> Inl (ErrQuota e)"
    by (auto simp: check_period_week_def bind_result_Inl u w ws)
  show "check_key_quota db k g \<noteq> Inl (ErrQuota e)"
    by (auto simp: check_key_quota_def bind_result_Inl u k split: option.splits)
qed

lemma other_stage_scope:
  assumes "qe_scope e = ''period''"
  shows "reserve_validate now inp \<noteq> Inl (ErrQuota e)" "reserve_key db inp \<noteq> Inl (ErrQuota e)" "find_quote db i g \<noteq> Inl (ErrQuota e)"
    "reserve_amount_for q plan \<noteq> Inl (ErrQuota e)" "check_rpm plat db l st \<noteq> Inl (ErrQuota e)"
    "reserve_insert db inp plan q gid am \<noteq> Inl (ErrQuota e)"
proof -
  have p: "priceWithRate a b \<noteq> Inl (ErrQuota e)" "ceilPrice a b \<noteq> Inl (ErrQuota e)" for a b
    by (simp_all add: priceWithRate_def ceilPrice_def)
  show "reserve_amount_for q plan \<noteq> Inl (ErrQuota e)"
    by (simp add: reserve_amount_for_def reserveAmount_def bind_result_Inl p)
  show "reserve_validate now inp \<noteq> Inl (ErrQuota e)" by (simp add: reserve_validate_def Let_def bind_result_Inl)
  show "reserve_key db inp \<noteq> Inl (ErrQuota e)" using assms by (auto simp: reserve_key_def bind_result_Inl)
  show "find_quote db i g \<noteq> Inl (ErrQuota e)" by (simp add: find_quote_def bind_result_Inl)
  show "check_rpm plat db l st \<noteq> Inl (ErrQuota e)" using assms by (auto simp: check_rpm_def Let_def)
  show "reserve_insert db inp plan q gid am \<noteq> Inl (ErrQuota e)" by (simp add: reserve_insert_def bind_result_Inl)
qed

text \<open>
  The custom period never refuses a request. When its limit is reached the ledger hands over to
  a weekly window that starts at the exhausting request, so no quota error carries the scope
  \<open>period\<close>; the branch that would report one is never taken.
\<close>

lemma period_never_refuses:
  assumes created: "list_all (\<lambda>r. \<not> is_zero_time (r_created r)) (db_reservations db)" and scope: "qe_scope e = ''period''"
  shows "ReserveRequest plat now db inp \<noteq> Inl (ErrQuota e)"
  by (simp add: ReserveRequest_def Let_def bind_result_Inl window_stage_scope[OF scope created] other_stage_scope[OF scope]
      split: prod.splits)

end
