(* ===== verification/Gate_Race.thy ===== *)
theory Gate_Race
  imports Gates
begin

text \<open>
  \<open>KeyGates\<close> under concurrency. \<open>TryAcquire\<close> is not atomic: it looks up or creates the entry under the
  table lock, asks the entry's gate outside that lock, and on a refusal takes the lock again to give
  its reference back. Here the entries are heap cells, a goroutine between its critical sections
  holds the address it read, and each critical section is one step, interleaved in any order.
\<close>

record kg_world =
  w_heap :: "nat \<Rightarrow> keyGate"
  w_map :: "int \<Rightarrow> nat option"
  w_next :: nat
  w_trying :: "(int \<times> nat) multiset"
  w_failed :: "(int \<times> nat) multiset"
  w_holding :: "int multiset"

definition kg_init :: kg_world where
  "kg_init = \<lparr>w_heap = (\<lambda>_. \<lparr>kg_gate = NewGate 1, kg_refs = 0\<rparr>), w_map = (\<lambda>_. None), w_next = 0,
     w_trying = {#}, w_failed = {#}, w_holding = {#}\<rparr>"

definition add_ref :: "keyGate \<Rightarrow> keyGate" where
  "add_ref e = e\<lparr>kg_refs := kg_refs e + 1\<rparr>"

definition drop_ref :: "keyGate \<Rightarrow> keyGate" where
  "drop_ref e = e\<lparr>kg_refs := kg_refs e - 1\<rparr>"

text \<open>The first critical section, with an existing and with a new entry.\<close>

definition enter_old :: "int \<Rightarrow> nat \<Rightarrow> kg_world \<Rightarrow> kg_world" where
  "enter_old k a w = w\<lparr>w_heap := (w_heap w)(a := add_ref (w_heap w a)), w_trying := add_mset (k, a) (w_trying w)\<rparr>"

definition enter_new :: "int \<Rightarrow> int \<Rightarrow> kg_world \<Rightarrow> kg_world" where
  "enter_new k limit w =
     (let a = w_next w in
      w\<lparr>w_heap := (w_heap w)(a := add_ref \<lparr>kg_gate = NewGate (clamp_limit limit), kg_refs = 0\<rparr>),
        w_map := (w_map w)(k := Some a), w_next := a + 1, w_trying := add_mset (k, a) (w_trying w)\<rparr>)"

text \<open>The gate's answer.\<close>

definition gate_answer :: "int \<Rightarrow> nat \<Rightarrow> kg_world \<Rightarrow> kg_world" where
  "gate_answer k a w =
     (case Gate_TryAcquire (kg_gate (w_heap w a)) of (g, ok) \<Rightarrow>
        let w = w\<lparr>w_heap := (w_heap w)(a := (w_heap w a)\<lparr>kg_gate := g\<rparr>), w_trying := w_trying w - {#(k, a)#}\<rparr>
        in if ok then w\<lparr>w_holding := add_mset k (w_holding w)\<rparr> else w\<lparr>w_failed := add_mset (k, a) (w_failed w)\<rparr>)"

text \<open>The second critical section, after a refusal.\<close>

definition give_up :: "int \<Rightarrow> nat \<Rightarrow> kg_world \<Rightarrow> kg_world" where
  "give_up k a w =
     (let e = drop_ref (w_heap w a) in
      w\<lparr>w_heap := (w_heap w)(a := e), w_map := (if kg_refs e = 0 then (w_map w)(k := None) else w_map w),
        w_failed := w_failed w - {#(k, a)#}\<rparr>)"

definition release_slot :: "int \<Rightarrow> kg_world \<Rightarrow> kg_world" where
  "release_slot k w =
     (case w_map w k of
        None \<Rightarrow> w\<lparr>w_holding := w_holding w - {#k#}\<rparr>
      | Some a \<Rightarrow>
          let e = drop_ref ((w_heap w a)\<lparr>kg_gate := Gate_Release (kg_gate (w_heap w a))\<rparr>)
          in w\<lparr>w_heap := (w_heap w)(a := e),
               w_map := (if kg_refs e = 0 \<and> gt_active (kg_gate e) = 0 then (w_map w)(k := None) else w_map w),
               w_holding := w_holding w - {#k#}\<rparr>)"

inductive kg_step :: "kg_world \<Rightarrow> kg_world \<Rightarrow> bool" where
  old_entry: "0 < k \<Longrightarrow> w_map w k = Some a \<Longrightarrow> kg_step w (enter_old k a w)"
| new_entry: "0 < k \<Longrightarrow> w_map w k = None \<Longrightarrow> kg_step w (enter_new k limit w)"
| answer: "(k, a) \<in># w_trying w \<Longrightarrow> kg_step w (gate_answer k a w)"
| undo: "(k, a) \<in># w_failed w \<Longrightarrow> kg_step w (give_up k a w)"
| rel: "k \<in># w_holding w \<Longrightarrow> kg_step w (release_slot k w)"

inductive kg_reachable :: "kg_world \<Rightarrow> bool" where
  start: "kg_reachable kg_init"
| step: "kg_reachable w \<Longrightarrow> kg_step w w' \<Longrightarrow> kg_reachable w'"

definition users :: "kg_world \<Rightarrow> int \<Rightarrow> nat \<Rightarrow> nat" where
  "users w k a = count (w_holding w) k + count (w_trying w) (k, a) + count (w_failed w) (k, a)"

definition cell_ok :: "kg_world \<Rightarrow> int \<Rightarrow> nat \<Rightarrow> bool" where
  "cell_ok w k a \<longleftrightarrow> a < w_next w \<and> kg_refs (w_heap w a) = int (users w k a) \<and> 0 < users w k a \<and>
     gt_active (kg_gate (w_heap w a)) = int (count (w_holding w) k) \<and>
     gt_active (kg_gate (w_heap w a)) \<le> gt_limit (kg_gate (w_heap w a))"

definition cells_ok :: "kg_world \<Rightarrow> bool" where
  "cells_ok w \<longleftrightarrow> (\<forall>k a. w_map w k = Some a \<longrightarrow> cell_ok w k a)"

definition map_inj :: "kg_world \<Rightarrow> bool" where
  "map_inj w \<longleftrightarrow> (\<forall>k j a. w_map w k = Some a \<longrightarrow> w_map w j = Some a \<longrightarrow> k = j)"

definition pointers_ok :: "kg_world \<Rightarrow> bool" where
  "pointers_ok w \<longleftrightarrow> (\<forall>k a. 0 < count (w_trying w) (k, a) + count (w_failed w) (k, a) \<longrightarrow> w_map w k = Some a) \<and>
     (\<forall>k. 0 < count (w_holding w) k \<longrightarrow> w_map w k \<noteq> None)"

definition kg_inv :: "kg_world \<Rightarrow> bool" where
  "kg_inv w \<longleftrightarrow> cells_ok w \<and> map_inj w \<and> pointers_ok w"

lemmas kg_inv_defs = kg_inv_def cells_ok_def map_inj_def pointers_ok_def cell_ok_def users_def

text \<open>The proofs below count users; membership is introduced only by \<open>mem_count\<close>.\<close>

declare count_greater_zero_iff [simp del]

lemma mem_count: "x \<in># M \<longleftrightarrow> 0 < count M x"
  by (simp add: count_greater_zero_iff)

lemma kg_inv_init: "kg_inv kg_init"
  by (simp add: kg_inv_defs kg_init_def)

lemma kg_invD:
  assumes "kg_inv w" "w_map w k = Some a"
  shows "cell_ok w k a" "w_map w j = Some a \<Longrightarrow> j = k"
  using assms unfolding kg_inv_def cells_ok_def map_inj_def by blast+

lemma kg_inv_pointer:
  assumes "kg_inv w" and user: "0 < count (w_trying w) (k, a) + count (w_failed w) (k, a)"
  shows "w_map w k = Some a"
proof -
  have "\<forall>k a. 0 < count (w_trying w) (k, a) + count (w_failed w) (k, a) \<longrightarrow> w_map w k = Some a"
    using assms(1) unfolding kg_inv_def pointers_ok_def by (elim conjE)
  from this[rule_format, OF user] show ?thesis .
qed

lemma kg_inv_trying:
  assumes "kg_inv w" "(k, a) \<in># w_trying w \<or> (k, a) \<in># w_failed w"
  shows "w_map w k = Some a"
proof -
  have "0 < count (w_trying w) (k, a) + count (w_failed w) (k, a)"
    using assms(2) by (auto simp: mem_count)
  with assms(1) show ?thesis by (rule kg_inv_pointer)
qed

text \<open>
  A step touches one key's cell. The invariant is kept when that cell stays right, the other
  cells keep their contents and the other keys keep their users.
\<close>

lemma kg_inv_local:
  assumes inv: "kg_inv w" and map: "w_map w k = Some a"
    and nxt: "w_next w' = w_next w"
    and other_heap: "\<And>b. b \<noteq> a \<Longrightarrow> w_heap w' b = w_heap w b"
    and other_map: "\<And>j. j \<noteq> k \<Longrightarrow> w_map w' j = w_map w j"
    and other_users: "\<And>j b. j \<noteq> k \<Longrightarrow> count (w_holding w') j = count (w_holding w) j \<and>
        count (w_trying w') (j, b) = count (w_trying w) (j, b) \<and> count (w_failed w') (j, b) = count (w_failed w) (j, b)"
    and ptr: "\<And>b. b \<noteq> a \<Longrightarrow> count (w_trying w') (k, b) = count (w_trying w) (k, b) \<and> count (w_failed w') (k, b) = count (w_failed w) (k, b)"
    and here: "w_map w' k = Some a \<and> cell_ok w' k a \<or> w_map w' k = None \<and> users w' k a = 0"
  shows "kg_inv w'"
proof -
  have uniq: "j = k" if "w_map w j = Some a" for j using kg_invD(2)[OF inv map that] .
  have cells: "cell_ok w' j b" if "w_map w' j = Some b" for j b
  proof (cases "j = k")
    case True
    with that here show ?thesis by auto
  next
    case False
    with that other_map have m: "w_map w j = Some b" by simp
    with uniq False have "b \<noteq> a" by auto
    with kg_invD(1)[OF inv m] False other_heap other_users nxt show ?thesis by (simp add: cell_ok_def users_def)
  qed
  have inj: "j = i" if "w_map w' j = Some b" "w_map w' i = Some b" for i j b
  proof -
    have same: "w_map w l = Some b" if "w_map w' l = Some b" for l
      using that other_map[of l] here map by (cases "l = k") auto
    from kg_invD(2)[OF inv same[OF that(2)] same[OF that(1)]] show ?thesis .
  qed
  have ptrs: "w_map w' j = Some b" if "0 < count (w_trying w') (j, b) + count (w_failed w') (j, b)" for j b
  proof (cases "j = k")
    case False
    with that other_users have "0 < count (w_trying w) (j, b) + count (w_failed w) (j, b)" by simp
    from kg_inv_pointer[OF inv this] other_map[OF False] show ?thesis by simp
  next
    case True
    show ?thesis
    proof (cases "b = a")
      case True
      with \<open>j = k\<close> that here show ?thesis by (auto simp: users_def)
    next
      case False
      with that ptr \<open>j = k\<close> have "0 < count (w_trying w) (k, b) + count (w_failed w) (k, b)" by simp
      from kg_inv_pointer[OF inv this] have "w_map w k = Some b" .
      with map False show ?thesis by simp
    qed
  qed
  have hold: "w_map w' j \<noteq> None" if "0 < count (w_holding w') j" for j
  proof (cases "j = k")
    case True
    with that here show ?thesis by (auto simp: users_def)
  next
    case False
    with that other_users other_map[of j] inv show ?thesis by (simp add: kg_inv_def pointers_ok_def)
  qed
  show ?thesis unfolding kg_inv_def cells_ok_def map_inj_def pointers_ok_def using cells inj ptrs hold by blast
qed

lemma kg_inv_enter_old:
  assumes inv: "kg_inv w" and map: "w_map w k = Some a"
  shows "kg_inv (enter_old k a w)"
  by (rule kg_inv_local[OF inv map])
    (use kg_invD(1)[OF inv map] map in \<open>auto simp: enter_old_def cell_ok_def users_def add_ref_def\<close>)

lemma kg_inv_enter_new:
  assumes inv: "kg_inv w" and map: "w_map w k = None"
  shows "kg_inv (enter_new k limit w)"
proof -
  have none: "count (w_holding w) k = 0" "count (w_trying w) (k, b) = 0" "count (w_failed w) (k, b) = 0" for b
    using inv map unfolding kg_inv_def pointers_ok_def by (metis add_is_0 not_gr_zero option.distinct(1))+
  have fresh: "w_map w j \<noteq> Some (w_next w)" for j
    using kg_invD(1)[OF inv, of j "w_next w"] by (auto simp: cell_ok_def)
  have old: "cell_ok (enter_new k limit w) j b" if "w_map w j = Some b" "j \<noteq> k" for j b
    using kg_invD(1)[OF inv that(1)] that(2) by (auto simp: enter_new_def Let_def cell_ok_def users_def)
  have new: "cell_ok (enter_new k limit w) k (w_next w)"
    using none by (simp add: enter_new_def Let_def cell_ok_def users_def add_ref_def NewGate_def clamp_limit_def)
  have ptr: "w_map (enter_new k limit w) j = Some b"
    if "0 < count (w_trying (enter_new k limit w)) (j, b) + count (w_failed (enter_new k limit w)) (j, b)" for j b
  proof (cases "(j, b) = (k, w_next w)")
    case False
    with that have old_user: "0 < count (w_trying w) (j, b) + count (w_failed w) (j, b)"
      by (auto simp: enter_new_def Let_def split: if_splits)
    with none have "j \<noteq> k" by auto
    with kg_inv_pointer[OF inv old_user] show ?thesis by (simp add: enter_new_def Let_def)
  qed (simp add: enter_new_def Let_def)
  have hold: "w_map (enter_new k limit w) j \<noteq> None" if "0 < count (w_holding (enter_new k limit w)) j" for j
    using that inv none by (auto simp: enter_new_def Let_def kg_inv_def pointers_ok_def)
  have "map_inj (enter_new k limit w)"
    using kg_invD(2)[OF inv] fresh by (auto simp: map_inj_def enter_new_def Let_def)
  moreover have "cells_ok (enter_new k limit w)"
    unfolding cells_ok_def using old new by (auto simp: enter_new_def Let_def split: if_splits)
  ultimately show ?thesis unfolding kg_inv_def pointers_ok_def using ptr hold by blast
qed

lemma kg_inv_answer:
  assumes inv: "kg_inv w" and t: "(k, a) \<in># w_trying w"
  shows "kg_inv (gate_answer k a w)"
proof -
  have map: "w_map w k = Some a" using kg_inv_trying[OF inv] t by blast
  note c = kg_invD(1)[OF inv map]
  have pos: "0 < count (w_trying w) (k, a)" using t by (simp add: mem_count)
  show ?thesis
    by (rule kg_inv_local[OF inv map])
      (use c pos map in \<open>auto simp: gate_answer_def Gate_TryAcquire_def Let_def cell_ok_def users_def split: if_splits\<close>)
qed

lemma kg_inv_give_up:
  assumes inv: "kg_inv w" and t: "(k, a) \<in># w_failed w"
  shows "kg_inv (give_up k a w)"
proof -
  have map: "w_map w k = Some a" using kg_inv_trying[OF inv] t by blast
  note c = kg_invD(1)[OF inv map]
  have pos: "0 < count (w_failed w) (k, a)" using t by (simp add: mem_count)
  show ?thesis
    by (rule kg_inv_local[OF inv map])
      (use c pos map in \<open>auto simp: give_up_def drop_ref_def Let_def cell_ok_def users_def split: if_splits\<close>)
qed

lemma kg_inv_release:
  assumes inv: "kg_inv w" and t: "k \<in># w_holding w"
  shows "kg_inv (release_slot k w)"
proof -
  have pos: "0 < count (w_holding w) k" using t by (simp add: mem_count)
  then obtain a where map: "w_map w k = Some a" using inv unfolding kg_inv_def pointers_ok_def by blast
  note c = kg_invD(1)[OF inv map]
  show ?thesis
    by (rule kg_inv_local[OF inv map])
      (use c pos map in \<open>auto simp: release_slot_def drop_ref_def Gate_Release_def Let_def cell_ok_def users_def split: if_splits\<close>)
qed

lemma kg_inv_step: "kg_step w w' \<Longrightarrow> kg_inv w \<Longrightarrow> kg_inv w'"
  by (induction rule: kg_step.induct)
    (auto intro: kg_inv_enter_old kg_inv_enter_new kg_inv_answer kg_inv_give_up kg_inv_release)

lemma kg_reachable_inv: "kg_reachable w \<Longrightarrow> kg_inv w"
  by (induction rule: kg_reachable.induct) (auto intro: kg_inv_init kg_inv_step)

declare count_greater_zero_iff [simp]

end
