(* ===== verification/Service_Claims.thy ===== *)
theory Service_Claims
  imports Sample_World Gate_Race
begin

text \<open>
  Properties of the serving process: admission and its undoing, settlement through faults, the
  correspondence of slots and open leases, and the per-key gates under concurrency.
\<close>

section \<open>A running service\<close>

definition sample_env :: environment where
  "sample_env = \<lparr>ev_hmac = sample_hmac, ev_box = sample_box, ev_platform = sample_platform, ev_now = now0,
     ev_requestID = ''r1'', ev_trace = None\<rparr>"

definition sample_settings :: "ServiceSettings option" where
  "sample_settings = Some \<lparr>st_GlobalConcurrencyLimit = 4, st_RPMLimit = 30, st_MaxOutputTokens = 20\<rparr>"

definition sample_call :: Request where
  "sample_call = \<lparr>rq_Token = ''crk_YWJj'', rq_AppID = [], rq_Model = ''gpt'', rq_Messages = [], rq_Payload = [], rq_InputText = [104, 105],
     rq_MaxTokens = 0, rq_MaxCompletionTokens = 0, rq_Stream = False, rq_Protocol = []\<rparr>"

definition sv0 :: Service where
  "sv0 = NewService db_k sample_settings"

definition sv1 :: Service where
  "sv1 = fst (Begin sample_env sample_settings False sample_call sv0)"

definition lease1 :: Lease where
  "lease1 = \<lparr>le_reservation = sample_res\<lparr>res_InputTokens := 5, res_ReservedTokens := 25, res_ReservedAmount := 255\<rparr>,
     le_keyID = 1, le_clientRequestID = [], le_protocol = ''chat'', le_streamed = False,
     le_model = sample_model\<lparr>m_input_price := Some 3000000, m_output_price := Some 12000000, m_cached_price := Some 750000\<rparr>,
     le_quote = \<lparr>ps_ModelID = 1, ps_Input = 2000000, ps_Output = 8000000, ps_Cached = 500000, ps_RateMilli = 1500\<rparr>,
     le_frozen = None, le_settled = False, le_released = False\<rparr>"

lemma sample_begin: "Begin sample_env sample_settings False sample_call sv0 = (sv1, Inr lease1)"
proof -
  have "snd (Begin sample_env sample_settings False sample_call sv0) = Inr lease1" by code_simp
  then show ?thesis by (simp add: sv1_def prod_eq_iff)
qed

lemma lease1_id: "res_ID (le_reservation lease1) = 1"
  by code_simp

lemma sample_registered: "sv_active sv1 = {1}" "sv_pending sv1 = {}"
  by code_simp+

lemma reach_sv0: "relay_reachable sv0"
  unfolding sv0_def by (rule relay_reachable.start) (rule reach_db_k)

lemma reach_sv1: "relay_reachable sv1"
  by (rule relay_reachable.step[OF reach_sv0 relay_step.admit[OF sample_begin]])

section \<open>Slots and leases\<close>

text \<open>
  C6: in every state the serving process reaches, through admissions, settlements that succeed or
  fail, reconciliation, reaping, retention, draining and changes from the console, the global gate
  counts exactly the leases not yet settled, the gate of each key those of that key, and every such
  lease is registered either as active or as pending, never as both.
\<close>

theorem slots_follow_leases:
  assumes "relay_reachable sv"
  shows "gt_active (sv_global sv) = int (card (open_leases sv)) \<and>
     (\<forall>k. KeyGates_Active k (sv_keys sv) = int (card (open_for_key k sv))) \<and>
     sv_active sv \<union> sv_pending sv = open_leases sv \<and> sv_active sv \<inter> sv_pending sv = {} \<and> finite (open_leases sv)"
  using service_invD[OF relay_reachable_inv[OF assms]] by blast

theorem slots_follow_leases_witness:
  "gt_active (sv_global sv1) = int (card (open_leases sv1)) \<and> sv_active sv1 = {1}"
proof -
  have "sv_active sv1 = {1}" by (rule sample_registered)
  with slots_follow_leases[OF reach_sv1] show ?thesis by blast
qed

text \<open>
  A \<open>Begin\<close> that fails, for whatever reason, gives back what it took: the database, the leases,
  the active and pending reservations and the gate of every key are as before, and the global gate
  has as many holders as before.
\<close>

lemma failed_begin_restores:
  assumes "relay_reachable sv" "Begin ev configured d req sv = (sv', Inl e)"
  shows "sv_db sv' = sv_db sv \<and> sv_leases sv' = sv_leases sv \<and> sv_active sv' = sv_active sv \<and> sv_pending sv' = sv_pending sv \<and>
     sv_keys sv' = sv_keys sv \<and> gt_active (sv_global sv') = gt_active (sv_global sv)"
  using Begin_failure[OF relay_reachable_inv[OF assms(1)] assms(2)] by auto

definition app_call :: Request where
  "app_call = sample_call\<lparr>rq_Token := [], rq_AppID := ''app_eHl6''\<rparr>"

definition sv_app :: Service where
  "sv_app = fst (Begin sample_env sample_settings False app_call sv0)"

definition sv_app2 :: Service where
  "sv_app2 = fst (Begin sample_env sample_settings False app_call sv_app)"

lemma reach_sv_app: "relay_reachable sv_app"
proof -
  obtain r where "Begin sample_env sample_settings False app_call sv0 = (sv_app, r)" by (metis sv_app_def prod.collapse)
  from relay_step.admit[OF this] show ?thesis by (rule relay_reachable.step[OF reach_sv0])
qed

lemma sample_refused: "Begin sample_env sample_settings False app_call sv_app = (sv_app2, Inl ErrKeyConcurrencyExceeded)"
proof -
  have "snd (Begin sample_env sample_settings False app_call sv_app) = Inl ErrKeyConcurrencyExceeded" by code_simp
  then show ?thesis by (simp add: sv_app2_def prod_eq_iff)
qed

text \<open>
  A \<open>Begin\<close> that succeeds is justified: the credentials belong to an enabled key that has not
  expired, the model is one of the models authorised for that key and has the requested name, the
  service was not draining, the global gate is within its limit, the key's gate gained one holder,
  and the new lease, with a fresh reservation id, is active.
\<close>

lemma begin_admits:
  assumes reach: "relay_reachable sv" and run: "Begin ev configured d req sv = (sv', Inr l)"
  shows "\<exists>key model. authenticate ev (rq_Token req) (rq_AppID req) (sv_db sv) = Inr key \<and> le_keyID l = ki_ID key \<and>
     model \<in> set (queryAuthorizedModels (\<lambda>k. k_id k = ki_ID key) (sv_db sv)) \<and> m_public_name model = rq_Model req \<and>
     \<not> sv_draining sv \<and> gt_active (sv_global sv') = gt_active (sv_global sv) + 1 \<and> gt_active (sv_global sv') \<le> gt_limit (sv_global sv') \<and>
     KeyGates_Active (ki_ID key) (sv_keys sv') = KeyGates_Active (ki_ID key) (sv_keys sv) + 1 \<and>
     res_ID (le_reservation l) \<notin> open_leases sv \<and> sv_leases sv' (res_ID (le_reservation l)) = Some l \<and>
     res_ID (le_reservation l) \<in> sv_active sv'"
proof -
  note inv = relay_reachable_inv[OF reach]
  show ?thesis
  proof (rule Begin_success[OF inv run])
    fix key model g ks db i
    assume a: "begin_authorize ev req sv = Inr (key, model)" and i: "i = res_ID (le_reservation l)" "i \<notin> q_id ` set (db_requests (sv_db sv))"
      and sv': "sv' = (with_limit configured sv)\<lparr>sv_global := g, sv_keys := ks, sv_db := db, sv_active := insert i (sv_active sv),
         sv_leases := (sv_leases sv)(i := Some l)\<rparr>"
      and g: "gt_active g = gt_active (sv_global sv) + 1" "gt_active g \<le> gt_limit g"
        "KeyGates_Active (ki_ID key) ks = KeyGates_Active (ki_ID key) (sv_keys sv) + 1" and k: "le_keyID l = ki_ID key"
    have "i \<notin> open_leases sv" using i(2) service_invD(11)[OF inv] by blast
    with begin_authorize_Inr[OF a] i(1) sv' g k show ?thesis by auto
  qed
qed

lemma held_backs:
  assumes "wf_db db" "ledger_inv db" "q \<in> set (db_requests db)" "q_status q = ''reserved''"
    "r \<in> set (db_reservations db)" "r_status r = ''reserved''" "r_request_id r = Some (q_request_id q)"
  shows "backs q r"
proof -
  obtain q' where q': "q' \<in> set (db_requests db)" "backs q' r"
    using assms(2,5,6) by (auto simp: ledger_inv_def inv_backed_def)
  have "q_request_id q' = q_request_id q" using q'(2) assms(7) by (simp add: backs_def)
  then have "q' = q" by (rule unique_byD[OF wf_dbD(3)[OF assms(1)] q'(1) assms(3)])
  with q'(2) show ?thesis by simp
qed

section \<open>Closing a lease\<close>

definition done_outcome :: Outcome where
  "done_outcome = blank_outcome\<lparr>oc_InputTokens := 5, oc_OutputTokens := 7, oc_AmountMicroyuan := 99, oc_HTTPStatus := 200\<rparr>"

definition sv_done :: Service where
  "sv_done = fst (Close sample_env (FaultBefore 5) (FaultAfter 9 5) (Clean 10) 1 done_outcome sv1)"

definition sv_stuck :: Service where
  "sv_stuck = fst (Close sample_env (FaultBefore 5) (FaultAfter 9 5) ContextDone 1 done_outcome sv1)"

lemma open1: "1 \<in> open_leases sv1"
proof -
  have "sv_active sv1 = {1}" by (rule sample_registered)
  with service_invD(9)[OF relay_reachable_inv[OF reach_sv1]] show ?thesis by blast
qed

lemma sample_close: "Close sample_env (FaultBefore 5) (FaultAfter 9 5) (Clean 10) 1 done_outcome sv1 = (sv_done, None)"
proof -
  have "snd (Close sample_env (FaultBefore 5) (FaultAfter 9 5) (Clean 10) 1 done_outcome sv1) = None" by code_simp
  then show ?thesis by (simp add: sv_done_def prod_eq_iff)
qed

lemma sample_stuck: "Close sample_env (FaultBefore 5) (FaultAfter 9 5) ContextDone 1 done_outcome sv1 = (sv_stuck, Some SettleContext)"
proof -
  have "snd (Close sample_env (FaultBefore 5) (FaultAfter 9 5) ContextDone 1 done_outcome sv1) = Some SettleContext" by code_simp
  then show ?thesis by (simp add: sv_stuck_def prod_eq_iff)
qed


lemma open_leaseE:
  assumes "relay_reachable sv" "i \<in> open_leases sv"
  obtains l where "sv_leases sv i = Some l" "\<not> le_settled l" "res_ID (le_reservation l) = i" "\<not> le_released l"
  using assms service_invD(8)[OF relay_reachable_inv[OF assms(1)]] by (auto simp: open_leases_def lease_ok_def)

text \<open>
  C11: closing a lease settles it exactly once, through any combination of faults around the three
  attempts (a busy database before or after the commit): when \<open>Close\<close> reports success, the database is the
  one a single settlement with the frozen outcome produces, the lease and one global slot are gone,
  and closing again, with any outcome, changes nothing.
\<close>

theorem close_settles_once:
  assumes reach: "relay_reachable sv" and i: "i \<in> open_leases sv" and run: "Close ev a1 a2 a3 i outcome sv = (sv', None)"
  shows "(\<exists>l now. sv_leases sv i = Some l \<and>
       FinishReservation now i (settlement_of (enrich ev l (freeze outcome l))) (sv_db sv) = Inr (sv_db sv')) \<and>
     open_leases sv' = open_leases sv - {i} \<and> gt_active (sv_global sv') = gt_active (sv_global sv) - 1 \<and>
     Close ev' b1 b2 b3 i outcome' sv' = (sv', None)"
proof -
  obtain l where l: "sv_leases sv i = Some l" "\<not> le_settled l" "res_ID (le_reservation l) = i" "\<not> le_released l"
    using reach i by (rule open_leaseE)
  obtain o1 db where c0: "o1 = enrich ev l (freeze outcome l)"
    and c: "settleWithRetry (\<lambda>now. FinishReservation now i (settlement_of o1)) a1 a2 a3 (sv_db sv) = (db, None)"
    and sv': "sv' = close_settled i (l\<lparr>le_frozen := Some o1\<rparr>) db sv"
    using Close_cases[OF run l(1,2)] l(3) by metis
  have fr: "sv_db sv' = db" "sv_leases sv' = (sv_leases sv)(i := Some (l\<lparr>le_frozen := Some o1, le_settled := True, le_released := True\<rparr>))"
    "sv_global sv' = Gate_Release (sv_global sv)"
    using close_settled_frame[of "l\<lparr>le_frozen := Some o1\<rparr>" i db sv] l(4) sv' by simp_all
  have "open_leases sv' = open_leases sv - {i}" by (auto simp: open_leases_def fr(2))
  moreover have "0 < gt_active (sv_global sv)"
    using service_invD(5,7)[OF relay_reachable_inv[OF reach]] i by (auto simp: card_gt_0_iff)
  then have "gt_active (sv_global sv') = gt_active (sv_global sv) - 1" by (simp add: fr(3) Gate_Release_def)
  moreover have "Close ev' b1 b2 b3 i outcome' sv' = (sv', None)" by (simp add: Close_def fr(2))
  ultimately show ?thesis using settle_db(2)[OF c] c0 l(1) fr(1) by blast
qed

theorem close_settles_once_witness:
  "open_leases sv_done = open_leases sv1 - {1} \<and> gt_active (sv_global sv_done) = gt_active (sv_global sv1) - 1 \<and>
   Close sample_env ContextDone ContextDone ContextDone 1 blank_outcome sv_done = (sv_done, None)"
  using close_settles_once[OF reach_sv1 open1 sample_close, of sample_env ContextDone ContextDone ContextDone blank_outcome] by blast

text \<open>
  A \<open>Close\<close> that fails loses nothing: the lease stays open and is handed to the reconciler, no slot
  is released, the database is unchanged or already holds exactly this settlement, and the
  outcome is frozen, so that a later attempt without request trace settles with the same values
  whatever outcome it passes.
\<close>

lemma failed_close_keeps:
  assumes reach: "relay_reachable sv" and i: "i \<in> open_leases sv" and run: "Close ev a1 a2 a3 i outcome sv = (sv', Some e)"
  shows "\<exists>l o1 l'. sv_leases sv i = Some l \<and> o1 = enrich ev l (freeze outcome l) \<and> sv_leases sv' i = Some l' \<and>
     open_leases sv' = open_leases sv \<and> i \<in> sv_pending sv' \<and> i \<notin> sv_active sv' \<and>
     sv_global sv' = sv_global sv \<and> sv_keys sv' = sv_keys sv \<and>
     (sv_db sv' = sv_db sv \<or> (\<exists>now. FinishReservation now i (settlement_of o1) (sv_db sv) = Inr (sv_db sv'))) \<and>
     enrich (ev'\<lparr>ev_trace := None\<rparr>) l' (freeze outcome' l') = o1"
proof -
  obtain l where l: "sv_leases sv i = Some l" "\<not> le_settled l" "res_ID (le_reservation l) = i" "\<not> le_released l"
    using reach i by (rule open_leaseE)
  obtain o1 db where c0: "o1 = enrich ev l (freeze outcome l)"
    and c: "settleWithRetry (\<lambda>now. FinishReservation now i (settlement_of o1)) a1 a2 a3 (sv_db sv) = (db, Some e)"
    and sv': "sv' = close_failed i (l\<lparr>le_frozen := Some o1\<rparr>) db sv"
    using Close_cases[OF run l(1,2)] l(3) by (metis option.distinct(1))
  have same: "enrich (ev'\<lparr>ev_trace := None\<rparr>) (l\<lparr>le_frozen := Some o1\<rparr>) (freeze outcome' (l\<lparr>le_frozen := Some o1\<rparr>)) = o1"
    unfolding c0 by (auto simp: enrich_def freeze_def Let_def split: option.splits)
  have fr: "open_leases sv' = open_leases sv" "sv_leases sv' i = Some (l\<lparr>le_frozen := Some o1\<rparr>)" "i \<in> sv_pending sv'" "i \<notin> sv_active sv'"
    "sv_global sv' = sv_global sv" "sv_keys sv' = sv_keys sv" "sv_db sv' = db"
    using l by (auto simp: open_leases_def sv' close_failed_def)
  show ?thesis
    by (rule exI[of _ l], rule exI[of _ o1], rule exI[of _ "l\<lparr>le_frozen := Some o1\<rparr>"])
      (use l(1) c0 same fr settle_db(1)[OF c] in simp)
qed

text \<open>
  A busy database is survived: if the settlement is acceptable, and the first two of the three
  attempts meet at most busy or locked answers, before or even after their commit, a clean third
  attempt closes the lease.
\<close>

lemma close_survives_busy:
  assumes reach: "relay_reachable sv" and l: "sv_leases sv i = Some l" "\<not> le_settled l"
    and acceptable: "\<And>now. \<exists>db'. FinishReservation now i (settlement_of (enrich ev l (freeze outcome l))) (sv_db sv) = Inr db'"
    and busy: "tolerable a1" "tolerable a2"
  shows "\<exists>sv'. Close ev a1 a2 (Clean t) i outcome sv = (sv', None) \<and> i \<notin> open_leases sv'"
proof -
  obtain sv' r where run: "Close ev a1 a2 (Clean t) i outcome sv = (sv', r)" by fastforce
  have ok: "res_ID (le_reservation l) = i" "le_released l = le_settled l"
    using service_invD(8)[OF relay_reachable_inv[OF reach] l(1)] by (simp_all add: lease_ok_def)
  obtain o1 db where c0: "o1 = enrich ev l (freeze outcome l)"
    and c: "settleWithRetry (\<lambda>now. FinishReservation now i (settlement_of o1)) a1 a2 (Clean t) (sv_db sv) = (db, r)"
    and sv': "r = None \<longrightarrow> sv' = close_settled i (l\<lparr>le_frozen := Some o1\<rparr>) db sv"
    using Close_cases[OF run l] ok(1) by metis
  have "r = None" using finish_store.settle_survives[OF acceptable[folded c0] busy, of t] c by simp
  moreover from this have "i \<notin> open_leases sv'"
    using close_settled_frame(4)[of "l\<lparr>le_frozen := Some o1\<rparr>" i db sv] sv' ok(2) l(2) by (simp add: open_leases_def)
  ultimately show ?thesis using run by blast
qed

section \<open>The reaper and open leases\<close>

text \<open>
  The periodic reaper is given the active and the pending reservations and leaves the rows of
  every open lease alone, whatever their age and whatever cut-off it runs with: request and key
  reservation stay exactly as they are.
\<close>

lemma reaper_spares_leases:
  assumes reach: "relay_reachable sv" and ids: "set activeIDs = sv_active sv" "set pendingIDs = sv_pending sv"
    and q: "q \<in> set (db_requests (sv_db sv))" "q_id q \<in> open_leases sv" "q_status q = ''reserved''"
  shows "q \<in> set (db_requests (sv_db (reap_pass plat now cutoff activeIDs pendingIDs sv))) \<and>
     (\<exists>r. r \<in> set (db_reservations (sv_db (reap_pass plat now cutoff activeIDs pendingIDs sv))) \<and> backs q r \<and> r_status r = ''reserved'')"
proof (cases "ReapOrphanReservations plat now cutoff activeIDs pendingIDs (sv_db sv)")
  case (Inl e)
  note w = service_invD[OF relay_reachable_inv[OF reach]]
  obtain r where r: "r \<in> set (db_reservations (sv_db sv))" "r_status r = ''reserved''" "r_request_id r = Some (q_request_id q)"
    using w(2) q by (auto simp: ledger_inv_def inv_held_def)
  with held_backs[OF w(1,2) q(1,3) r] q(1) Inl show ?thesis by (auto simp: reap_pass_def)
next
  case (Inr x)
  then obtain db' n where run: "ReapOrphanReservations plat now cutoff activeIDs pendingIDs (sv_db sv) = Inr (db', n)" by (cases x) simp
  note w = service_invD[OF relay_reachable_inv[OF reach]] and d = ReapOrphan_Inr(1)[OF run]
  obtain r where r: "r \<in> set (db_reservations (sv_db sv))" "r_status r = ''reserved''" "r_request_id r = Some (q_request_id q)"
    using w(2) q by (auto simp: ledger_inv_def inv_held_def)
  have b: "backs q r" by (rule held_backs[OF w(1,2) q(1,3) r])
  have "0 < q_id q" using tbl_wf_pos[OF wf_dbD(1)[OF w(1)] q(1)] .
  then have "q_id q \<in> set (excluded_ids activeIDs pendingIDs)" using w(9) ids q(2) by (auto simp: excluded_ids_def)
  then have nq: "\<not> stale_request plat cutoff (excluded_ids activeIDs pendingIDs) q" by (simp add: stale_request_def)
  then have nr: "\<not> stale_reservation plat cutoff (excluded_ids activeIDs pendingIDs) (db_requests (sv_db sv)) r"
    using stale_pair[OF w(2) wf_dbD(3)[OF w(1)] q(1) b r(2)] by blast
  have "q \<in> set (db_requests db')" using nq q(1) by (force simp: d)
  moreover have "r \<in> set (db_reservations db')" using nr r(1) by (force simp: d)
  ultimately show ?thesis using run b r(2) by (auto simp: reap_pass_def)
qed

section \<open>Budgets\<close>

text \<open>
  The output budget of an admitted request is positive, at most the configured maximum, and at
  most what the client asked for; two different positive requests, or a negative one, are refused.
\<close>

lemma output_budget_bounds:
  assumes "output_budget settings req = Inr out"
  shows "0 < out \<and> (st_MaxOutputTokens settings \<le> 0 \<or> out \<le> st_MaxOutputTokens settings) \<and>
     (rq_MaxTokens req = 0 \<or> out \<le> rq_MaxTokens req) \<and> (rq_MaxCompletionTokens req = 0 \<or> out \<le> rq_MaxCompletionTokens req) \<and>
     0 \<le> rq_MaxTokens req \<and> 0 \<le> rq_MaxCompletionTokens req \<and>
     (rq_MaxTokens req = 0 \<or> rq_MaxCompletionTokens req = 0 \<or> rq_MaxTokens req = rq_MaxCompletionTokens req)"
  using assms by (auto simp: output_budget_def Let_def bind_result_Inr split: if_splits)

section \<open>Usage reported by the upstream\<close>

text \<open>A pending lease of a key, not settled, whose frozen outcome the store will never take.\<close>

definition poisoned :: "int \<Rightarrow> int \<Rightarrow> Service \<Rightarrow> bool" where
  "poisoned k i sv \<longleftrightarrow> i \<in> sv_pending sv \<and> (\<exists>l o1. sv_leases sv i = Some l \<and> \<not> le_settled l \<and> le_keyID l = k \<and> le_frozen l = Some o1 \<and>
     (oc_InputTokens o1 < 0 \<or> oc_OutputTokens o1 < 0 \<or> oc_CachedInputTokens o1 < 0))"

lemma enrich_tokens [simp]:
  "oc_InputTokens (enrich ev l o1) = oc_InputTokens o1" "oc_OutputTokens (enrich ev l o1) = oc_OutputTokens o1"
  "oc_CachedInputTokens (enrich ev l o1) = oc_CachedInputTokens o1"
  by (auto simp: enrich_def Let_def split: option.splits)

lemma negative_refused:
  assumes "oc_InputTokens o1 < 0 \<or> oc_OutputTokens o1 < 0 \<or> oc_CachedInputTokens o1 < 0"
  shows "FinishReservation now i (settlement_of o1) db = Inl (ErrText ''invalid settlement'')"
  using assms by (auto simp: FinishReservation_def validate_settlement_def settlement_of_def reject_when_def)

lemma negative_close:
  assumes l: "sv_leases sv i = Some l" "\<not> le_settled l" and run: "Close ev a1 a2 a3 i outcome sv = (sv', r)"
    and neg: "\<exists>o1. o1 = freeze outcome l \<and> (oc_InputTokens o1 < 0 \<or> oc_OutputTokens o1 < 0 \<or> oc_CachedInputTokens o1 < 0)"
  shows "poisoned (le_keyID l) i sv' \<and> r \<noteq> None \<and> sv_db sv' = sv_db sv"
proof -
  obtain o1 db where c0: "o1 = enrich ev l (freeze outcome l)"
    and c: "settleWithRetry (\<lambda>now. FinishReservation now (res_ID (le_reservation l)) (settlement_of o1)) a1 a2 a3 (sv_db sv) = (db, r)"
    and sv': "r \<noteq> None \<longrightarrow> sv' = close_failed i (l\<lparr>le_frozen := Some o1\<rparr>) db sv"
    using Close_cases[OF run l] by metis
  have n: "oc_InputTokens o1 < 0 \<or> oc_OutputTokens o1 < 0 \<or> oc_CachedInputTokens o1 < 0" using neg by (simp add: c0)
  have no: "FinishReservation now j (settlement_of o1) db0 \<noteq> Inr x" for now j db0 x by (simp add: negative_refused[OF n])
  have r: "r \<noteq> None" "db = sv_db sv" using settle_db[OF c] no by blast+
  with sv' n l show ?thesis by (auto simp: poisoned_def close_failed_def)
qed

lemma Close_other:
  "j \<noteq> i \<Longrightarrow> Close ev a1 a2 a3 j outcome sv = (sv', r) \<Longrightarrow> sv_leases sv' i = sv_leases sv i \<and> (i \<in> sv_pending sv' \<longleftrightarrow> i \<in> sv_pending sv)"
  by (auto simp: Close_def close_failed_def close_settled_def Let_def split: option.splits if_splits prod.splits)

lemma poisoned_close: "poisoned k i sv \<Longrightarrow> Close ev a1 a2 a3 j outcome sv = (sv', r) \<Longrightarrow> poisoned k i sv'"
proof (cases "j = i")
  case True
  assume p: "poisoned k i sv" and run: "Close ev a1 a2 a3 j outcome sv = (sv', r)"
  then obtain l o1 where "sv_leases sv i = Some l" "\<not> le_settled l" "le_keyID l = k" "le_frozen l = Some o1"
    "oc_InputTokens o1 < 0 \<or> oc_OutputTokens o1 < 0 \<or> oc_CachedInputTokens o1 < 0" by (auto simp: poisoned_def)
  with negative_close[of sv i l ev a1 a2 a3 outcome sv' r] run True show ?thesis by (simp add: freeze_def)
qed (auto simp: poisoned_def Close_other)

lemma poisoned_RunOnce: "poisoned k i sv \<Longrightarrow> RunOnce ev faults ids n first sv = (sv', m, e) \<Longrightarrow> poisoned k i sv'"
proof (induction ids arbitrary: n first sv)
  case (Cons j ids)
  obtain a1 a2 a3 where f: "faults j = (a1, a2, a3)" using prod_cases3 by blast
  obtain mid r where c: "Close ev a1 a2 a3 j blank_outcome sv = (mid, r)" by fastforce
  from Cons.prems f c obtain n' e' where "RunOnce ev faults ids n' e' mid = (sv', m, e)" by (cases r) auto
  with Cons.IH poisoned_close[OF Cons.prems(1) c] show ?case by blast
qed simp

lemma poisoned_with_limit [simp]: "poisoned k i (with_limit configured sv) = poisoned k i sv"
  by (simp add: poisoned_def with_limit_def Let_def)

lemma poisoned_Begin:
  assumes inv: "service_inv sv" and p: "poisoned k i sv" and run: "Begin ev configured d req sv = (sv', r)"
  shows "poisoned k i sv'"
proof (cases r)
  case (Inl e)
  with run have "Begin ev configured d req sv = (sv', Inl e)" by simp
  from Begin_failure[OF inv this] p show ?thesis by auto
next
  case (Inr l)
  with run have b: "Begin ev configured d req sv = (sv', Inr l)" by simp
  obtain g ks db j where s: "j \<notin> q_id ` set (db_requests (sv_db sv))"
    "sv' = (with_limit configured sv)\<lparr>sv_global := g, sv_keys := ks, sv_db := db, sv_active := insert j (sv_active sv),
       sv_leases := (sv_leases sv)(j := Some l)\<rparr>"
    by (rule Begin_success[OF inv b]) blast
  have "i \<in> open_leases sv" using p by (auto simp: poisoned_def open_leases_def)
  then have "i \<noteq> j" using s(1) service_invD(11)[OF inv] by blast
  moreover have "poisoned k i (with_limit configured sv)" using p by simp
  ultimately show ?thesis by (simp add: s(2) poisoned_def)
qed

lemma poisoned_step: "relay_step sv sv' \<Longrightarrow> service_inv sv \<Longrightarrow> poisoned k i sv \<Longrightarrow> poisoned k i sv'"
proof (induction rule: relay_step.induct)
  case (admit ev configured d req sv sv' r)
  then show ?case using poisoned_Begin by blast
next
  case (close ev a1 a2 a3 i' outcome sv sv' r)
  then show ?case using poisoned_close by blast
next
  case (reconcile ev faults ids sv sv' n e)
  then show ?case using poisoned_RunOnce by blast
qed (auto simp: poisoned_def reap_pass_def BeginDraining_def split: sum.splits)

lemma poisoned_forever: "relay_step\<^sup>*\<^sup>* sv sv' \<Longrightarrow> relay_reachable sv \<Longrightarrow> poisoned k i sv \<Longrightarrow> relay_reachable sv' \<and> poisoned k i sv'"
  by (induction rule: rtranclp_induct) (blast intro: relay_reachable.step dest: poisoned_step relay_reachable_inv)+

text \<open>
  C35: usage that the upstream reports is settled as reported, and the store refuses negative token
  counts. So a non-streamed chat whose upstream answers with a negative count fails to settle, and
  whatever the process does afterwards (requests begin and close, the reconciler and the reaper run,
  rows are pruned, the console changes its data, the relay drains), in any order and for as long as it
  runs, this lease stays open and pending: the global gate and the gate of its key go on counting
  it, one slot each is never free again, and only a restart ends it.
\<close>

theorem negative_usage_leaks:
  assumes reach: "relay_reachable sv" and begun: "Begin ev configured d (req\<lparr>rq_Stream := False\<rparr>) sv = (sv1', Inr l)"
    and neg: "PromptTokens usage < 0 \<or> CompletionTokens usage < 0 \<or> CachedTokens usage < 0"
    and chat: "Chat ev configured d a1 a2 a3 (ChatReply usage) req sv = (sv', r)" and later: "relay_step\<^sup>*\<^sup>* sv' sv''"
  shows "res_ID (le_reservation l) \<in> open_leases sv'' \<inter> sv_pending sv'' \<inter> open_for_key (le_keyID l) sv'' \<and>
     gt_active (sv_global sv'') = 1 + int (card (open_leases sv'' - {res_ID (le_reservation l)})) \<and>
     KeyGates_Active (le_keyID l) (sv_keys sv'') = 1 + int (card (open_for_key (le_keyID l) sv'' - {res_ID (le_reservation l)}))"
proof -
  let ?i = "res_ID (le_reservation l)" and ?s = "sv1'\<lparr>sv_upstream := setUpstream (res_ID (le_reservation l)) (sv_upstream sv1')\<rparr>"
  have new: "sv_leases sv1' ?i = Some l" "\<not> le_settled l" "le_frozen l = None"
    using begun
    by (auto elim!: Begin_cases simp: begin_reserve_def Let_def new_lease_def split: sum.splits)
  obtain e' where c: "Close ev a1 a2 a3 ?i (chat_outcome (ChatReply usage) l) ?s = (sv', e')"
    using chat begun by (auto simp: Chat_def Let_def split: prod.splits)
  have p: "poisoned (le_keyID l) ?i sv'"
    using negative_close[OF _ new(2) c] new neg by (simp add: freeze_def chat_outcome_def)
  have "relay_reachable ?s" using reach relay_step.admit[OF begun] relay_step.track by (blast intro: relay_reachable.step)
  then have "relay_reachable sv'" using relay_step.close[OF c] by (rule relay_reachable.step)
  from poisoned_forever[OF later this p] have inv: "service_inv sv''" and p': "poisoned (le_keyID l) ?i sv''"
    using relay_reachable_inv by blast+
  have ins: "?i \<in> open_leases sv''" "?i \<in> sv_pending sv''" "?i \<in> open_for_key (le_keyID l) sv''"
    using p' by (auto simp: poisoned_def open_leases_def open_for_key_def)
  have fin: "finite (open_leases sv'')" "finite (open_for_key (le_keyID l) sv'')"
    using service_invD(7)[OF inv] finite_subset[OF open_for_key_subset] by blast+
  have "gt_active (sv_global sv'') = 1 + int (card (open_leases sv'' - {?i}))"
    using service_invD(5)[OF inv] card.remove[OF fin(1) ins(1)] by linarith
  moreover have "KeyGates_Active (le_keyID l) (sv_keys sv'') = 1 + int (card (open_for_key (le_keyID l) sv'' - {?i}))"
    using service_invD(6)[OF inv, of "le_keyID l"] card.remove[OF fin(2) ins(3)] by linarith
  ultimately show ?thesis using ins by blast
qed

definition bad_usage :: Usage where
  "bad_usage = \<lparr>PromptTokens = - 1, CompletionTokens = 3, TotalTokens = 2, CachedTokens = 0\<rparr>"

theorem negative_usage_leaks_witness:
  "1 \<in> open_leases (fst (RunOnce sample_env (\<lambda>_. (Clean 1, Clean 2, Clean 3)) [1] 0 None
      (fst (Chat sample_env sample_settings False (Clean 1) (Clean 2) (Clean 3) (ChatReply bad_usage) sample_call sv0))))"
proof -
  have same: "sample_call\<lparr>rq_Stream := False\<rparr> = sample_call" by (simp add: sample_call_def)
  obtain s r where c: "Chat sample_env sample_settings False (Clean 1) (Clean 2) (Clean 3) (ChatReply bad_usage) sample_call sv0 = (s, r)"
    by fastforce
  obtain s' n e where l: "RunOnce sample_env (\<lambda>_. (Clean 1, Clean 2, Clean 3)) [1] 0 None s = (s', n, e)" using prod_cases3 by blast
  have "Begin sample_env sample_settings False (sample_call\<lparr>rq_Stream := False\<rparr>) sv0 = (sv1, Inr lease1)"
    unfolding same by (rule sample_begin)
  from negative_usage_leaks[OF reach_sv0 this _ c r_into_rtranclp[of relay_step, OF relay_step.reconcile[OF l]]] lease1_id c l
  show ?thesis by (simp add: bad_usage_def)
qed

section \<open>Key gates under concurrency\<close>

text \<open>
  C17: under every interleaving of the critical sections of \<open>KeyGates.TryAcquire\<close> and \<open>Release\<close>, a key
  that someone holds, asks for or is giving back has exactly one entry, which counts the holders of
  the key, within the entry's limit, and whose reference count is the number of goroutines that
  use it; a key without entry is used by nobody, so an entry is never dropped under a user
  and never leaked.
\<close>

theorem key_gate_race:
  assumes "kg_reachable w"
  shows "case w_map w k of
     None \<Rightarrow> k \<notin># w_holding w \<and> (\<forall>a. (k, a) \<notin># w_trying w \<and> (k, a) \<notin># w_failed w)
   | Some a \<Rightarrow> gt_active (kg_gate (w_heap w a)) = int (count (w_holding w) k) \<and>
       gt_active (kg_gate (w_heap w a)) \<le> gt_limit (kg_gate (w_heap w a)) \<and>
       kg_refs (w_heap w a) = int (users w k a) \<and> 0 < users w k a"
proof (cases "w_map w k")
  case (Some a)
  with kg_invD(1)[OF kg_reachable_inv[OF assms] Some] show ?thesis by (simp add: cell_ok_def)
next
  case None
  note inv = kg_reachable_inv[OF assms]
  have "(k, a) \<notin># w_trying w" "(k, a) \<notin># w_failed w" for a
    using kg_inv_trying[OF inv, of k a] None by (metis option.distinct(1))+
  moreover have "\<forall>k. 0 < count (w_holding w) k \<longrightarrow> w_map w k \<noteq> None"
    using inv unfolding kg_inv_def pointers_ok_def by (elim conjE)
  then have "\<not> 0 < count (w_holding w) k" using None by blast
  then have "count (w_holding w) k = 0" by (simp only: not_gr_zero)
  then have "k \<notin># w_holding w" by (rule count_eq_zero_iff[THEN iffD1])
  ultimately show ?thesis using None by simp
qed

definition race_world :: kg_world where
  "race_world = gate_answer 7 0 (enter_old 7 0 (enter_new 7 1 kg_init))"

lemma race_reachable: "kg_reachable race_world"
proof -
  have "kg_reachable (enter_new 7 1 kg_init)"
    by (rule kg_reachable.step[OF kg_reachable.start]) (rule kg_step.new_entry, simp_all add: kg_init_def)
  then have "kg_reachable (enter_old 7 0 (enter_new 7 1 kg_init))"
    by (rule kg_reachable.step) (rule kg_step.old_entry, simp_all add: enter_new_def kg_init_def Let_def)
  then show ?thesis
    unfolding race_world_def
    by (rule kg_reachable.step) (rule kg_step.answer, simp add: enter_old_def enter_new_def kg_init_def Let_def)
qed

theorem key_gate_race_witness: "w_map race_world 7 = Some 0 \<and> gt_active (kg_gate (w_heap race_world 0)) = int (count (w_holding race_world) 7)"
proof -
  have "w_map race_world 7 = Some 0"
    by (simp add: race_world_def gate_answer_def enter_old_def enter_new_def kg_init_def Let_def split: prod.splits)
  with key_gate_race[OF race_reachable, of 7] show ?thesis by simp
qed

end
