(* ===== verification/Catalog_Claims.thy ===== *)
theory Catalog_Claims
  imports Sample_World
begin

text \<open>
  Properties of keys, authorisation, providers and deletion: what a credential can do, that the model
  list and the reservation agree, and that nothing is deleted under a running request.
\<close>

section \<open>Authorisation\<close>

lemma rate_rows_of_key:
  assumes wf: "wf_db db" and k: "tbl_find k_id keyID (db_keys db) = Some k" and g: "key_group k db = Some g" "g_enabled g"
  shows "set (rate_rows keyID modelID db) =
     {r. r = g_rate_milli g \<and> (\<exists>m \<in> set (db_models db). m_id m = modelID \<and> (g_id g, m_provider_id m) \<in> set (db_group_providers db))}"
proof -
  note w = wf_dbD[OF wf]
  have only_key: "k' \<in> set (db_keys db) \<and> k_id k' = keyID \<longleftrightarrow> k' = k" for k'
    using k tbl_find_iff[OF w(4), of keyID k] tbl_find_iff[OF w(4), of keyID k'] by auto
  have only_group: "g' \<in> set (db_groups db) \<and> k_group_id k = Some (g_id g') \<longleftrightarrow> g' = g" for g'
    using g(1) tbl_find_iff[OF w(6), of "g_id g" g] tbl_find_iff[OF w(6), of "g_id g" g'] by (auto simp: key_group_Some)
  have keys: "set (filter (\<lambda>k. k_id k = keyID) (db_keys db)) = {k}" using only_key by auto
  have groups: "set (filter (\<lambda>g. k_group_id k = Some (g_id g) \<and> g_enabled g) (db_groups db)) = {g}" using only_group g(2) by auto
  show ?thesis
    unfolding rate_rows_def set_concat set_map keys image_insert image_empty Union_insert Union_empty Un_empty_right groups
    by (auto split: if_splits prod.splits)
qed

text \<open>
  C25: the list of models shown to a key and the reservation agree. A stored model is listed for a
  key exactly when the key's group quotes a price for it, that is exactly when a reservation would
  not be refused for lack of authorisation, and the rate the console reports for key and model is the
  rate of that quote.
\<close>

theorem listed_models_are_quoted:
  assumes wf: "wf_db db" and k: "tbl_find k_id keyID (db_keys db) = Some k" and m: "m \<in> set (db_models db)"
  shows "(m \<in> set (queryAuthorizedModels (\<lambda>k. k_id k = keyID) db)) =
     (\<exists>g q. key_group k db = Some g \<and> find_quote db (m_id m) g = Inr q \<and> KeyModelRateMilli keyID (m_id m) db = Inr (pq_rate q))"
proof -
  note w = wf_dbD[OF wf]
  have f: "tbl_find m_id (m_id m) (db_models db) = Some m" using m by (simp add: tbl_find_iff[OF w(5)])
  have pos: "0 < keyID" "0 < m_id m" using tbl_wf_pos[OF w(4)] tbl_wf_pos[OF w(5) m] tbl_find_Some[OF k] by auto
  have rate: "KeyModelRateMilli keyID (m_id m) db = Inr (g_rate_milli g)"
    if g: "key_group k db = Some g" and a: "authorized_in_group db g m" for g
  proof -
    have gm: "g \<in> set (db_groups db)" using g by (auto simp: key_group_Some dest: tbl_find_Some)
    then have "0 < g_rate_milli g" using wf by (auto simp: wf_db_defs list_all_iff)
    moreover have "set (rate_rows keyID (m_id m) db) = {g_rate_milli g}"
      using rate_rows_of_key[OF wf k g] a m by (auto simp: authorized_in_group_def)
    then obtain rest where "rate_rows keyID (m_id m) db = g_rate_milli g # rest"
      by (cases "rate_rows keyID (m_id m) db") auto
    ultimately show ?thesis using pos by (simp add: KeyModelRateMilli_def reject_when_def)
  qed
  show ?thesis
    using authorized_by_key[OF wf k, of m] rate m f by (auto simp: find_quote_def require_some_def split: if_splits)
qed

theorem listed_models_are_quoted_witness:
  "(sample_model \<in> set (queryAuthorizedModels (\<lambda>k. k_id k = 1) db_k)) =
     (\<exists>g q. key_group sample_key db_k = Some g \<and> find_quote db_k 1 g = Inr q \<and> KeyModelRateMilli 1 1 db_k = Inr (pq_rate q)) \<and>
   KeyModelRateMilli 1 1 db_k = Inr 1500"
proof -
  have w: "wf_db db_k" using store_reachable_inv[OF reach_db_k] by simp
  have k: "tbl_find k_id 1 (db_keys db_k) = Some sample_key" by code_simp
  have m: "sample_model \<in> set (db_models db_k)" "m_id sample_model = 1" by code_simp+
  have "KeyModelRateMilli 1 1 db_k = Inr 1500" by code_simp
  with listed_models_are_quoted[OF w k m(1)] m(2) show ?thesis by simp
qed

section \<open>Deletion\<close>

text \<open>
  Nothing is deleted under a running request: while a key reservation is active, deleting its
  key, its model or the provider of its model fails and leaves the database as it is.
\<close>

lemma active_reservation_blocks_delete:
  assumes wf: "wf_db db" and r: "r \<in> set (db_reservations db)" "r_status r = ''reserved''"
  shows "DeleteClientKey (r_key_id r) db = Inl ErrActiveReservation \<and> DeleteModel (r_model_id r) db = Inl ErrActiveReservation \<and>
     (\<exists>m \<in> set (db_models db). m_id m = r_model_id r \<and> DeleteProvider (m_provider_id m) db = Inl ErrActiveReservation)"
proof -
  note w = wf_dbD[OF wf]
  have refs: "refers k_id (db_keys db) (r_key_id r)" "refers m_id (db_models db) (r_model_id r)"
    using wf r(1) by (auto simp: wf_db_defs list_all_iff)
  then obtain m where m: "m \<in> set (db_models db)" "m_id m = r_model_id r" by (auto simp: refers_def)
  have "refers p_id (db_providers db) (m_provider_id m)" using wf m(1) by (auto simp: wf_db_defs list_all_iff)
  then have pos: "0 < r_key_id r" "0 < r_model_id r" "0 < m_provider_id m"
    using refs tbl_wf_pos[OF w(4)] tbl_wf_pos[OF w(5)] tbl_wf_pos[OF w(7)] by (auto simp: refers_def)
  have blocked: "delete_reservations P db = Inl ErrActiveReservation" if "P r" for P
    using r that by (auto simp: delete_reservations_def list_ex_iff)
  have models: "delete_models Q db = Inl ErrActiveReservation" if "Q m" for Q
  proof -
    have "list_ex (\<lambda>m. Q m \<and> m_id m = r_model_id r) (db_models db)" using m that by (auto simp: list_ex_iff)
    from blocked[of "\<lambda>r. list_ex (\<lambda>m. Q m \<and> m_id m = r_model_id r) (db_models db)", OF this]
    show ?thesis by (simp only: delete_models_def Let_def bind_result_simps)
  qed
  have "DeleteProvider (m_provider_id m) db = Inl ErrActiveReservation"
    using pos(3) models[of "\<lambda>x. m_provider_id x = m_provider_id m"] by (simp add: DeleteProvider_def delete_provider_row_def reject_when_def)
  moreover have "DeleteModel (r_model_id r) db = Inl ErrActiveReservation"
    using pos(2) models[of "\<lambda>x. m_id x = r_model_id r"] m(2) by (simp add: DeleteModel_def reject_when_def)
  moreover have "DeleteClientKey (r_key_id r) db = Inl ErrActiveReservation"
    using pos(1) blocked[of "\<lambda>s. r_key_id s = r_key_id r"] by (simp add: DeleteClientKey_def delete_key_row_def reject_when_def)
  ultimately show ?thesis using m by blast
qed

text \<open>
  Deleting a group revokes it: every key bound to it loses its group and is authorised for no
  model any more, and no reservation of such a key is admitted.
\<close>

lemma deleted_group_revokes:
  assumes wf: "wf_db db" and del: "DeleteModelGroup gid db = Inr db'"
    and k: "tbl_find k_id keyID (db_keys db) = Some k" "k_group_id k = Some gid"
  shows "queryAuthorizedModels (\<lambda>k. k_id k = keyID) db' = [] \<and>
     (in_KeyID inp \<noteq> keyID \<or> (\<exists>e. ReserveRequest plat now db' inp = Inl e))"
proof -
  have db': "db' = db\<lparr>db_groups := tbl_delete g_id gid (db_groups db),
             db_group_providers := filter (\<lambda>(g, p). g \<noteq> gid) (db_group_providers db),
             db_keys := map (\<lambda>k. k\<lparr>k_group_id := clear_ref (\<lambda>g. g = gid) (k_group_id k)\<rparr>) (db_keys db)\<rparr>"
    using del by (auto simp: DeleteModelGroup_def delete_group_row_def bind_result_Inr split: if_splits)
  have wf': "wf_db db'" using wf del by (rule DeleteModelGroup_wf)
  have k': "tbl_find k_id keyID (db_keys db') = Some (k\<lparr>k_group_id := None\<rparr>)"
    using k by (simp add: db' tbl_find_map clear_ref_def)
  have "m \<notin> set (queryAuthorizedModels (\<lambda>k. k_id k = keyID) db')" for m
    using authorized_by_key[OF wf' k', of m] by (simp add: key_group_def)
  then have "queryAuthorizedModels (\<lambda>k. k_id k = keyID) db' = []"
    by (cases "queryAuthorizedModels (\<lambda>k. k_id k = keyID) db'") (simp, metis list.set_intros(1))
  moreover have "ReserveRequest plat now db' inp \<noteq> Inr x" if "in_KeyID inp = keyID" for x
  proof
    assume "ReserveRequest plat now db' inp = Inr x"
    then obtain k2 g where "reserve_key db' inp = Inr (k2, Some g)" by (cases x) (auto elim: ReserveRequest_InrE)
    note r = reserve_key_Inr(1,4)[OF this]
    have "k2 = k\<lparr>k_group_id := None\<rparr>" using r(1) k' that by simp
    with r(2) show False by (simp add: key_group_def)
  qed
  then have "in_KeyID inp \<noteq> keyID \<or> (\<exists>e. ReserveRequest plat now db' inp = Inl e)"
    by (cases "ReserveRequest plat now db' inp") auto
  ultimately show ?thesis by simp
qed

section \<open>Credentials\<close>

lemma check_expiry_Inr: "check_expiry now key = Inr v \<longleftrightarrow> v = key \<and> \<not> Expired now key"
  by (auto simp: check_expiry_def)

lemma find_Some_mem: "find P xs = Some x \<Longrightarrow> x \<in> set xs \<and> P x"
  by (auto simp: find_Some_iff)

lemma AuthenticateClientKey_Inr:
  assumes "AuthenticateClientKey hmac box now token db = Inr key"
  obtains k where "k \<in> set (db_keys db)" "k_digest k = DigestBytes hmac box token" "key = scanClientKey k" "\<not> Expired now key"
  using assms by (auto simp: AuthenticateClientKey_def bind_result_Inr check_expiry_Inr dest!: find_Some_mem)

lemma AuthenticateClientApp_Inr:
  assumes "AuthenticateClientApp now pid db = Inr key"
  obtains k where "k \<in> set (db_keys db)" "k_public_id k = Some (trim_space pid)" "key = scanClientKey k" "\<not> Expired now key" "trim_space pid \<noteq> []"
  using assms by (auto simp: AuthenticateClientApp_def bind_result_Inr check_expiry_Inr dest!: find_Some_mem)

text \<open>
  C26: authentication is sound: it returns a stored key that is enabled and has not expired, found
  by the digest of the presented token or, only for an application credential, by its public id.
\<close>

theorem authenticate_sound:
  assumes "authenticate ev token appID db = Inr key"
  shows "\<exists>k \<in> set (db_keys db). key = scanClientKey k \<and> k_enabled k \<and> \<not> Expired (ev_now ev) key \<and>
     (k_digest k = DigestBytes (ev_hmac ev) (ev_box ev) (trim_space token) \<or> k_public_id k = Some (trim_space appID) \<and> Keyless key)"
proof -
  have app: "\<exists>k \<in> set (db_keys db). key = scanClientKey k \<and> k_enabled k \<and> \<not> Expired (ev_now ev) key \<and>
      k_public_id k = Some (trim_space appID) \<and> Keyless key"
    if "authenticate_app ev (trim_space appID) db = Inr key"
  proof -
    have a: "AuthenticateClientApp (ev_now ev) (trim_space appID) db = Inr key" "ki_Enabled key"
      using that by (auto simp: authenticate_app_def enabled_key_def split: sum.splits if_splits)
    from a(1) obtain k where "k \<in> set (db_keys db)" "k_public_id k = Some (trim_space appID)" "key = scanClientKey k"
      "\<not> Expired (ev_now ev) key" "trim_space appID \<noteq> []"
      by (rule AuthenticateClientApp_Inr) simp
    with a(2) show ?thesis by (auto simp: scanClientKey_def Keyless_def)
  qed
  have tok: "\<exists>k \<in> set (db_keys db). key = scanClientKey k \<and> k_enabled k \<and> \<not> Expired (ev_now ev) key \<and>
      k_digest k = DigestBytes (ev_hmac ev) (ev_box ev) (trim_space token)"
    if "AuthenticateClientKey (ev_hmac ev) (ev_box ev) (ev_now ev) (trim_space token) db = Inr v" "enabled_key v = Inr key" for v
  proof -
    have "v = key" "ki_Enabled key" using that(2) by (auto simp: enabled_key_def split: if_splits)
    with that(1) show ?thesis by (auto elim!: AuthenticateClientKey_Inr simp: scanClientKey_def)
  qed
  show ?thesis
    using assms app tok by (fastforce simp: authenticate_def Let_def split: if_splits sum.splits)
qed

definition auth_env :: environment where
  "auth_env = \<lparr>ev_hmac = sample_hmac, ev_box = sample_box, ev_platform = sample_platform, ev_now = now0, ev_requestID = [], ev_trace = None\<rparr>"

theorem authenticate_sound_witness:
  "\<exists>k \<in> set (db_keys db_k). scanClientKey sample_app = scanClientKey k \<and> k_enabled k"
proof -
  have "authenticate auth_env [] '' app_eHl6'' db_k = Inr (scanClientKey sample_app)" by code_simp
  from authenticate_sound[OF this] show ?thesis by blast
qed

lemma token_not_blank: "trim_space (''crk_'' @ s) \<noteq> []"
proof -
  have "\<not> is_space (CHR ''c'')" by (simp add: is_space_def)
  then have "dropWhile is_space (''crk_'' @ s) = ''crk_'' @ s" by simp
  moreover have "CHR ''c'' \<in> set (''crk_'' @ s)" by simp
  ultimately show ?thesis using \<open>\<not> is_space (CHR ''c'')\<close>
    by (auto simp: trim_space_def dropWhile_eq_Nil_conv)
qed

lemma randomClientToken_shape: "randomClientToken raw = Inr token \<Longrightarrow> trim_space token \<noteq> []"
  by (auto simp: randomClientToken_def bind_result_Inr token_not_blank simp del: append_Cons)

text \<open>A key whose digest is that of the token is the one the token finds.\<close>

lemma authenticate_by_digest:
  assumes wf: "wf_db db" and k: "k \<in> set (db_keys db)" "k_digest k = DigestBytes hmac box token"
    and token: "trim_space token \<noteq> []"
  shows "AuthenticateClientKey hmac box now token db = check_expiry now (scanClientKey k)"
proof -
  have "find (\<lambda>k. k_digest k = DigestBytes hmac box token) (db_keys db) = Some k"
  proof (cases "find (\<lambda>k. k_digest k = DigestBytes hmac box token) (db_keys db)")
    case None
    with k show ?thesis by (auto simp: find_None_iff)
  next
    case (Some k')
    then have "k' \<in> set (db_keys db)" "k_digest k' = k_digest k" using k(2) by (auto simp: find_Some_iff)
    moreover have "unique_by k_digest (db_keys db)" using wf by (simp add: wf_db_defs)
    ultimately have "k' = k" using k(1) unique_byD by fastforce
    with Some show ?thesis by simp
  qed
  with token show ?thesis by (simp add: AuthenticateClientKey_def require_some_def reject_when_def)
qed

text \<open>
  A new client key works: the token that \<open>CreateClientKey\<close> returns authenticates exactly the key it
  created, until that key expires; the creation touches no other table, and the key belongs to no
  group yet, so it is authorised for no model.
\<close>

lemma created_token_authenticates:
  assumes wf: "wf_db db" and run: "CreateClientKey hmac box now en inp db = Inr (db', v)" and bearer: "\<not> nk_Keyless inp"
  shows "AuthenticateClientKey hmac box t (ki_Token v) db' = check_expiry t (v\<lparr>ki_Token := [], ki_TokenHint := []\<rparr>) \<and>
     ki_ID v \<notin> k_id ` set (db_keys db) \<and> queryAuthorizedModels (\<lambda>k. k_id k = ki_ID v) db' = []"
proof -
  obtain secret row where s: "randomClientToken (en_token en) = Inr secret"
    and row: "row = new_key_row inp (DigestBytes hmac box secret) (tokenLabel now (en_label en)) (tokenHint secret) None"
    and ins: "insert_key row db = Inr db'"
    and v: "v = (scanClientKey row)\<lparr>ki_ID := tbl_next k_id (db_keys db), ki_Token := secret, ki_TokenHint := tokenHint secret\<rparr>"
    using run bearer by (auto simp: CreateClientKey_def Let_def bind_result_Inr)
  let ?k = "row\<lparr>k_id := tbl_next k_id (db_keys db)\<rparr>"
  have keys: "db_keys db' = db_keys db @ [?k]" using ins by (auto simp: insert_key_def bind_result_Inr tbl_insert_def)
  have wf': "wf_db db'" using wf run by (rule CreateClientKey_wf)
  have k: "?k \<in> set (db_keys db')" "k_digest ?k = DigestBytes hmac box (ki_Token v)" by (simp_all add: keys v row new_key_row_def)
  have "AuthenticateClientKey hmac box t (ki_Token v) db' = check_expiry t (scanClientKey ?k)"
    by (rule authenticate_by_digest[OF wf' k]) (simp add: v randomClientToken_shape[OF s])
  moreover have "scanClientKey ?k = v\<lparr>ki_Token := [], ki_TokenHint := []\<rparr>" by (simp add: v scanClientKey_def)
  moreover have "ki_ID v \<notin> k_id ` set (db_keys db)" using tbl_next_gt[of _ "db_keys db" k_id] by (fastforce simp: v)
  moreover have f: "tbl_find k_id (ki_ID v) (db_keys db') = Some ?k"
    using k(1) by (simp add: tbl_find_iff[OF wf_dbD(4)[OF wf']] v)
  have "m \<notin> set (queryAuthorizedModels (\<lambda>k. k_id k = ki_ID v) db')" for m
    using authorized_by_key[OF wf' f, of m] by (simp add: key_group_def row new_key_row_def)
  then have "queryAuthorizedModels (\<lambda>k. k_id k = ki_ID v) db' = []"
    by (cases "queryAuthorizedModels (\<lambda>k. k_id k = ki_ID v) db'") (simp, metis list.set_intros(1))
  ultimately show ?thesis by simp
qed

text \<open>
  Rotating a key replaces its token: the new token authenticates the key, the old one, if the
  digest tells them apart, authenticates nothing any more. This holds for every key, so rotating an
  application credential, which is meant never to have a usable token, issues one.
\<close>

lemma rotated_token_authenticates:
  assumes wf: "wf_db db" and k: "tbl_find k_id i (db_keys db) = Some k"
    and run: "RotateClientKey hmac box now en i db = Inr (db', v)"
    and old: "k_digest k = DigestBytes hmac box token" "DigestBytes hmac box token \<noteq> DigestBytes hmac box (ki_Token v)"
  shows "AuthenticateClientKey hmac box t (ki_Token v) db' = check_expiry t (v\<lparr>ki_Token := [], ki_TokenHint := []\<rparr>) \<and>
     ki_ID v = i \<and> ki_PublicID v = (case k_public_id k of None \<Rightarrow> [] | Some p \<Rightarrow> p) \<and>
     (\<forall>key. AuthenticateClientKey hmac box t token db' \<noteq> Inr key)"
proof -
  obtain secret label hint where s: "randomClientToken (en_token en) = Inr secret"
    and up: "update_key i (\<lambda>k. k\<lparr>k_digest := DigestBytes hmac box secret, k_label := label, k_hint := hint\<rparr>) db = Inr db'"
    and get: "\<exists>u. GetClientKey i db' = Inr u \<and> v = u\<lparr>ki_Token := secret, ki_TokenHint := hint\<rparr>"
    using run by (auto simp: RotateClientKey_def Let_def bind_result_Inr)
  let ?k = "k\<lparr>k_digest := DigestBytes hmac box secret, k_label := label, k_hint := hint\<rparr>"
  have db': "db_keys db' = tbl_update k_id i (\<lambda>_. ?k) (db_keys db)"
    using up k by (auto simp: update_key_def bind_result_Inr)
  have wf': "wf_db db'" using wf run by (rule RotateClientKey_wf)
  have ki: "k_id k = i" using tbl_find_Some[OF k] by simp
  have rows: "set (db_keys db') = insert ?k (set (db_keys db) - {k})"
    unfolding db' by (rule set_tbl_update[OF wf_dbD(4)[OF wf] k])
  have f: "tbl_find k_id i (db_keys db') = Some ?k"
    using tbl_find_iff[OF wf_dbD(4)[OF wf'], of i ?k] rows ki by simp
  have v: "v = (scanClientKey ?k)\<lparr>ki_Token := secret, ki_TokenHint := hint\<rparr>"
    using get f by (auto simp: GetClientKey_def require_some_def)
  have kd: "?k \<in> set (db_keys db')" "k_digest ?k = DigestBytes hmac box (ki_Token v)" by (simp_all add: rows v)
  have new: "AuthenticateClientKey hmac box t (ki_Token v) db' = check_expiry t (scanClientKey ?k)"
    by (rule authenticate_by_digest[OF wf' kd]) (simp add: v randomClientToken_shape[OF s])
  have gone: "AuthenticateClientKey hmac box t token db' \<noteq> Inr key" for key
  proof
    assume "AuthenticateClientKey hmac box t token db' = Inr key"
    then obtain k' where k': "k' \<in> set (db_keys db')" "k_digest k' = DigestBytes hmac box token" by (rule AuthenticateClientKey_Inr)
    have "k_digest k' \<noteq> k_digest ?k" using k'(2) old(2) by (simp add: v)
    then have "k' \<noteq> ?k" by blast
    then have "k' \<in> set (db_keys db)" "k' \<noteq> k" using k'(1) unfolding rows by blast+
    moreover have "unique_by k_digest (db_keys db)" using wf by (simp add: wf_db_defs)
    ultimately show False using unique_byD[of k_digest "db_keys db" k' k] k'(2) old(1) tbl_find_Some[OF k] by simp
  qed
  have "scanClientKey ?k = v\<lparr>ki_Token := [], ki_TokenHint := []\<rparr>" by (simp add: v scanClientKey_def)
  with new gone show ?thesis by (simp add: v scanClientKey_def ki)
qed

section \<open>Providers\<close>

text \<open>
  A stored provider address is safe to call: it is an \<open>https\<close> address, or \<open>http\<close> to a local host, without
  account, query or fragment, and with a port between 1 and 65535 if it has one.
\<close>

lemma provider_url_safe:
  assumes "validateProviderURL net raw = Inr stored"
  shows "\<exists>u. url_parse net (trim_space raw) = Some u \<and> u_hostname u \<noteq> [] \<and> \<not> u_user u \<and> u_rawquery u = [] \<and> u_fragment u = [] \<and>
     (u_scheme u = ''https'' \<or> u_scheme u = ''http'' \<and> isLocalProviderHost net (u_hostname u)) \<and>
     (u_port u = [] \<or> (\<exists>n. scan_port (u_port u) = Some n \<and> 1 \<le> n \<and> n \<le> 65535)) \<and> (\<exists>p. stored = trim_right (CHR ''/'') (url_string net (u\<lparr>u_path := p\<rparr>)))"
  using assms by (auto simp: validateProviderURL_def Let_def bind_result_Inr not_less split: option.splits)

text \<open>
  C29: the upstream credential survives storage: after \<open>CreateProvider\<close>, under every cipher that opens
  what it sealed, \<open>ProviderAPIKey\<close> returns the trimmed key that was entered, while the stored column
  holds only the sealed text.
\<close>

theorem provider_key_roundtrip:
  assumes open_seal: "\<And>nonce plain. length nonce = ae_nonce_size a \<Longrightarrow> ae_open a nonce (ae_seal a nonce plain) = Some plain"
    and seal_length: "\<And>nonce plain. length (ae_seal a nonce plain) = length plain + ae_overhead a"
    and nonce: "length nonce = ae_nonce_size a" and box: "bx_aead box = Some a"
    and run: "CreateProvider net (Some nonce) box inp db = Inr (db', v)"
  shows "ProviderAPIKey box (pv_ID v) db' = Inr (trim_space (np_APIKey inp)) \<and>
     (\<exists>p. tbl_find p_id (pv_ID v) (db_providers db') = Some p \<and> p_cipher p = b64_encode (nonce @ ae_seal a nonce (trim_space (np_APIKey inp))))"
proof -
  let ?c = "b64_encode (nonce @ ae_seal a nonce (trim_space (np_APIKey inp)))"
  have sealed: "Seal (Some nonce) box (trim_space (np_APIKey inp)) = Inr ?c" using box by (rule Seal_text)
  obtain url protocol where "db' = db\<lparr>db_providers := tbl_insert p_id (\<lambda>i. p_id_update (\<lambda>_. i))
      \<lparr>p_id = 0, p_name = trim_space (np_Name inp), p_base_url = url, p_protocol = protocol, p_cipher = ?c, p_enabled = True\<rparr> (db_providers db)\<rparr>"
    "pv_ID v = tbl_next p_id (db_providers db)"
    using run sealed by (auto simp: CreateProvider_def Let_def bind_result_Inr seal_key_def)
  moreover have "Open_box box ?c = Inr (trim_space (np_APIKey inp))"
    using open_seal seal_length nonce box by (rule Open_Seal)
  ultimately show ?thesis by (simp add: ProviderAPIKey_def prov.find_insert require_some_def)
qed

theorem provider_key_roundtrip_witness:
  "\<exists>db' v. CreateProvider sample_net (Some (replicate 12 CHR ''n'')) sample_box
     \<lparr>np_Name = ''up2'', np_BaseURL = ''https://h'', np_APIKey = '' sk-2'', np_Protocol = [], np_Enabled = True\<rparr> db_k = Inr (db', v) \<and>
     ProviderAPIKey sample_box (pv_ID v) db' = Inr ''sk-2''"
proof -
  let ?in = "\<lparr>np_Name = ''up2'', np_BaseURL = ''https://h'', np_APIKey = '' sk-2'', np_Protocol = [], np_Enabled = True\<rparr>"
  have "new_state (CreateProvider sample_net (Some (replicate 12 CHR ''n'')) sample_box ?in db_k) \<noteq> None" by code_simp
  then obtain db' v where r: "CreateProvider sample_net (Some (replicate 12 CHR ''n'')) sample_box ?in db_k = Inr (db', v)"
    by (auto dest!: new_stateD)
  have "trim_space '' sk-2'' = ''sk-2''" by code_simp
  with provider_key_roundtrip[OF _ _ _ _ r, of tag_cipher] r show ?thesis by (auto simp: tag_cipher_def sample_box_def)
qed

end
