(* ===== verification/SSE.thy ===== *)
theory SSE
  imports Pricing Go_Text
begin

text \<open>
  Upstream streams: the event-stream reader of \<open>internal/upstream/sse_reader.go\<close>, the chat chunk
  parser of \<open>sse.go\<close> and the terminal classification of \<open>terminal.go\<close>. A stream is the bytes it will
  deliver and the error that ends it. \<open>bufio.Reader.ReadSlice\<close> hands out at most one buffer (4096
  bytes) at a time; decoding a JSON chunk is the parameter \<open>decode\<close>.
\<close>

section \<open>Reading lines\<close>

datatype stream_error = StreamEOF | UnexpectedEOF | FrameTooLarge | StreamFault string

datatype slice_end = AtDelim | BufferFull | AtEnd

definition buffer_size :: nat where
  "buffer_size = 4096"

definition ReadSlice :: "string \<Rightarrow> string \<times> string \<times> slice_end" where
  "ReadSlice inp =
     (let line = takeWhile (\<lambda>c. c \<noteq> newline) inp in
      if length line < buffer_size \<and> length line < length inp
      then (take (length line + 1) inp, drop (length line + 1) inp, AtDelim)
      else if length inp \<ge> buffer_size then (take buffer_size inp, drop buffer_size inp, BufferFull)
      else (inp, [], AtEnd))"

datatype line_result = LineOk string string | LineErr stream_error string

function readLine :: "nat \<Rightarrow> stream_error \<Rightarrow> string \<Rightarrow> string \<Rightarrow> line_result" where
  "readLine maxBytes fin raw inp =
     (case ReadSlice inp of (part, rest, how) \<Rightarrow>
        if length raw + length part > maxBytes then LineErr FrameTooLarge raw
        else (case how of
                BufferFull \<Rightarrow> readLine maxBytes fin (raw @ part) rest
              | AtEnd \<Rightarrow> LineErr fin (raw @ part)
              | AtDelim \<Rightarrow> LineOk (raw @ part) rest))"
  by pat_completeness auto
termination
  by (relation "measure (\<lambda>(_, _, _, inp). length inp)") (auto simp: ReadSlice_def Let_def buffer_size_def split: if_splits)

declare readLine.simps [simp del]

lemma ReadSlice_parts: "ReadSlice inp = (part, rest, how) \<Longrightarrow> inp = part @ rest"
  by (auto simp: ReadSlice_def Let_def split: if_splits)

lemma readLine_step:
  assumes "ReadSlice inp = (part, rest, how)"
  shows "readLine maxBytes fin raw inp =
    (if length raw + length part > maxBytes then LineErr FrameTooLarge raw
     else (case how of
             BufferFull \<Rightarrow> readLine maxBytes fin (raw @ part) rest
           | AtEnd \<Rightarrow> LineErr fin (raw @ part)
           | AtDelim \<Rightarrow> LineOk (raw @ part) rest))"
  by (subst readLine.simps) (simp add: assms)

lemma readLine_LineOk:
  "readLine maxBytes fin raw inp = LineOk raw' rest \<Longrightarrow>
     \<exists>line. line \<noteq> [] \<and> raw' = raw @ line \<and> inp = line @ rest \<and> length raw' \<le> maxBytes"
proof (induction maxBytes fin raw inp rule: readLine.induct)
  case (1 maxBytes fin raw inp)
  obtain part rs how where s: "ReadSlice inp = (part, rs, how)" using prod_cases3 by blast
  note p = ReadSlice_parts[OF s] and step = 1(2)[unfolded readLine_step[OF s]]
  have fits: "\<not> length raw + length part > maxBytes" using step by (auto split: if_splits)
  show ?case
  proof (cases how)
    case AtDelim
    with step fits have "raw' = raw @ part" "rest = rs" by simp_all
    moreover have "part \<noteq> []" using s AtDelim by (auto simp: ReadSlice_def Let_def split: if_splits)
    ultimately show ?thesis using p fits by (intro exI[of _ part]) simp
  next
    case BufferFull
    with step fits have rec: "readLine maxBytes fin (raw @ part) rs = LineOk raw' rest" by simp
    from 1(1)[OF s[symmetric] refl fits BufferFull rec] obtain line where
      "line \<noteq> []" "raw' = (raw @ part) @ line" "rs = line @ rest" "length raw' \<le> maxBytes" by blast
    then show ?thesis using p by (intro exI[of _ "part @ line"]) simp
  next
    case AtEnd
    with step fits show ?thesis by simp
  qed
qed

lemma readLine_shrinks: "readLine maxBytes fin raw inp = LineOk raw' rest \<Longrightarrow> length rest < length inp"
  by (drule readLine_LineOk) auto

section \<open>Frames\<close>

record SSEFrame =
  fr_Event :: string
  fr_Data :: string
  fr_Raw :: string
  fr_Comment :: bool

record frame_state =
  fs_event :: string
  fs_raw :: string
  fs_data :: string
  fs_sawData :: bool
  fs_sawComment :: bool
  fs_sawField :: bool

definition frame_start :: frame_state where
  "frame_start = \<lparr>fs_event = [], fs_raw = [], fs_data = [], fs_sawData = False, fs_sawComment = False, fs_sawField = False\<rparr>"

definition trim_last :: "char \<Rightarrow> string \<Rightarrow> string" where
  "trim_last c s = (if s \<noteq> [] \<and> last s = c then butlast s else s)"

definition strip_eol :: "string \<Rightarrow> string" where
  "strip_eol line = trim_last (CHR 13) (trim_last newline line)"

definition cut_colon :: "string \<Rightarrow> string \<times> string" where
  "cut_colon line = (takeWhile (\<lambda>c. c \<noteq> CHR '':'') line, drop 1 (dropWhile (\<lambda>c. c \<noteq> CHR '':'') line))"

definition trim_one_space :: "string \<Rightarrow> string" where
  "trim_one_space s = (case s of [] \<Rightarrow> [] | c # cs \<Rightarrow> if c = CHR '' '' then cs else s)"

definition field_line :: "string \<Rightarrow> frame_state \<Rightarrow> frame_state" where
  "field_line line st =
     (case cut_colon line of (field, value) \<Rightarrow>
        let value = trim_one_space value; st = st\<lparr>fs_sawField := True\<rparr>
        in if field = ''data'' then st\<lparr>fs_data := (if fs_sawData st then fs_data st @ [newline] else fs_data st) @ value, fs_sawData := True\<rparr>
           else if field = ''event'' then st\<lparr>fs_event := value\<rparr> else st)"

definition finish_frame :: "frame_state \<Rightarrow> SSEFrame" where
  "finish_frame st = \<lparr>fr_Event = fs_event st, fr_Data = fs_data st, fr_Raw = fs_raw st,
     fr_Comment = (fs_sawComment st \<and> \<not> fs_sawData st \<and> \<not> fs_sawField st)\<rparr>"

function Next_frame :: "nat \<Rightarrow> stream_error \<Rightarrow> frame_state \<Rightarrow> string \<Rightarrow> stream_error + SSEFrame \<times> string" where
  "Next_frame maxBytes fin st inp =
     (case readLine maxBytes fin (fs_raw st) inp of
        LineErr e raw \<Rightarrow> Inl (if e = StreamEOF \<and> raw \<noteq> [] then UnexpectedEOF else e)
      | LineOk raw rest \<Rightarrow>
          (let line = strip_eol (drop (length (fs_raw st)) raw); st' = st\<lparr>fs_raw := raw\<rparr> in
           if line = [] then
             (if \<not> fs_sawData st \<and> \<not> fs_sawComment st \<and> \<not> fs_sawField st
              then Next_frame maxBytes fin (st\<lparr>fs_raw := [], fs_event := []\<rparr>) rest
              else Inr (finish_frame st', rest))
           else if hd line = CHR '':'' then Next_frame maxBytes fin (st'\<lparr>fs_sawComment := True\<rparr>) rest
           else Next_frame maxBytes fin (field_line line st') rest))"
  by pat_completeness auto
termination
  by (relation "measure (\<lambda>(_, _, _, inp). length inp)") (auto dest!: readLine_shrinks)

declare Next_frame.simps [simp del]

definition default_max :: nat where
  "default_max = 1048576"

definition NewSSEReader_max :: "int \<Rightarrow> nat" where
  "NewSSEReader_max maxBytes = (if maxBytes \<le> 0 \<or> maxBytes > int default_max then default_max else nat maxBytes)"

definition Next :: "int \<Rightarrow> stream_error \<Rightarrow> string \<Rightarrow> stream_error + SSEFrame \<times> string" where
  "Next maxBytes fin inp = Next_frame (NewSSEReader_max maxBytes) fin frame_start inp"

section \<open>Chat chunks\<close>

record choice =
  ch_Content :: runes
  ch_FinishReason :: string

record Event =
  ev_Done :: bool
  ev_Invalid :: bool
  ev_FinishReason :: string
  ev_OutputCharacters :: int
  ev_Usage :: Usage

definition no_usage :: Usage where
  "no_usage = \<lparr>PromptTokens = 0, CompletionTokens = 0, TotalTokens = 0, CachedTokens = 0\<rparr>"

definition data_value :: "string \<Rightarrow> string option" where
  "data_value line =
     (let line = trim_space line in
      if take 5 line = ''data:'' then Some (trim_space (drop 5 line)) else None)"

fun gather :: "string list \<Rightarrow> bool \<Rightarrow> string \<Rightarrow> bool \<times> string" where
  "gather [] done payload = (done, payload)"
| "gather (l # ls) done payload =
     (case data_value l of
        None \<Rightarrow> gather ls done payload
      | Some v \<Rightarrow> if v = ''[DONE]'' then gather ls True payload
                 else gather ls done ((if payload \<noteq> [] then payload @ [newline] else payload) @ v))"

fun add_choices :: "choice list \<Rightarrow> Event \<Rightarrow> Event" where
  "add_choices [] e = e"
| "add_choices (c # cs) e =
     add_choices cs (e\<lparr>ev_OutputCharacters := ev_OutputCharacters e + int (length (ch_Content c)),
       ev_FinishReason := (if ch_FinishReason c \<noteq> [] then ch_FinishReason c else ev_FinishReason e)\<rparr>)"

definition ParseEvent :: "(string \<Rightarrow> (choice list \<times> Usage) option) \<Rightarrow> string \<Rightarrow> Event" where
  "ParseEvent decode data =
     (case gather (split_on newline (crlf_to_lf data)) False [] of (done, payload) \<Rightarrow>
        let e = \<lparr>ev_Done = done, ev_Invalid = False, ev_FinishReason = [], ev_OutputCharacters = 0, ev_Usage = no_usage\<rparr>
        in if payload = [] then e
           else (case decode payload of
                   None \<Rightarrow> e\<lparr>ev_Invalid := True\<rparr>
                 | Some (choices, usage) \<Rightarrow> (add_choices choices e)\<lparr>ev_Usage := usage\<rparr>))"

section \<open>How a stream ended\<close>

datatype read_error = ReadOk | ReadEOF | ReadUpstream string | ReadOther

definition read_failure :: "read_error \<Rightarrow> (string \<times> string) option" where
  "read_failure e =
     (case e of
        ReadOk \<Rightarrow> None
      | ReadEOF \<Rightarrow> None
      | ReadUpstream code \<Rightarrow>
          Some (if code = [] then (''failed'', ''upstream_stream_read_failed'')
                else if code = ''client_canceled'' then (''aborted'', code) else (''failed'', code))
      | ReadOther \<Rightarrow> Some (''failed'', ''upstream_stream_read_failed''))"

definition ChatTerminal :: "bool \<Rightarrow> read_error \<Rightarrow> bool \<Rightarrow> string \<times> string" where
  "ChatTerminal done readErr canceled =
     (if canceled then (''aborted'', ''client_canceled'')
      else (case read_failure readErr of
              Some r \<Rightarrow> r
            | None \<Rightarrow> if \<not> done then (''failed'', ''upstream_stream_incomplete'') else (''completed'', [])))"

definition ResponsesBridgeTerminal :: "bool \<Rightarrow> string \<Rightarrow> read_error \<Rightarrow> bool \<Rightarrow> string \<times> string \<times> string" where
  "ResponsesBridgeTerminal done finishReason readErr canceled =
     (case ChatTerminal done readErr canceled of (status, errorCode) \<Rightarrow>
        if status = ''aborted'' then (status, errorCode, [])
        else if status = ''failed'' then (status, errorCode, ''response.failed'')
        else if finishReason = ''length'' then (''failed'', ''upstream_incomplete'', ''response.incomplete'')
        else (''completed'', [], ''response.completed''))"

definition ResponsesTerminal :: "string \<Rightarrow> read_error \<Rightarrow> bool \<Rightarrow> string \<times> string" where
  "ResponsesTerminal event readErr canceled =
     (if canceled then (''aborted'', ''client_canceled'')
      else (case read_failure readErr of
              Some r \<Rightarrow> r
            | None \<Rightarrow>
                if event = ''response.completed'' then (''completed'', [])
                else if event = ''response.failed'' then (''failed'', ''upstream_response_failed'')
                else if event = ''response.incomplete'' then (''failed'', ''upstream_incomplete'')
                else (''failed'', ''upstream_stream_incomplete'')))"

section \<open>What the reader delivers\<close>

lemma field_line_raw [simp]: "fs_raw (field_line line st) = fs_raw st"
  by (simp add: field_line_def Let_def split: prod.splits)

lemma Next_frame_step:
  assumes "readLine maxBytes fin (fs_raw st) inp = LineOk raw rest" "line = strip_eol (drop (length (fs_raw st)) raw)"
  shows "Next_frame maxBytes fin st inp =
    (if line = [] then
       (if \<not> fs_sawData st \<and> \<not> fs_sawComment st \<and> \<not> fs_sawField st
        then Next_frame maxBytes fin (st\<lparr>fs_raw := [], fs_event := []\<rparr>) rest
        else Inr (finish_frame (st\<lparr>fs_raw := raw\<rparr>), rest))
     else if hd line = CHR '':'' then Next_frame maxBytes fin (st\<lparr>fs_raw := raw, fs_sawComment := True\<rparr>) rest
     else Next_frame maxBytes fin (field_line line (st\<lparr>fs_raw := raw\<rparr>)) rest)"
  unfolding assms(2) by (subst Next_frame.simps) (simp only: assms(1) line_result.case Let_def frame_state.surjective frame_state.update_convs)

lemma Next_frame_bytes:
  "Next_frame maxBytes fin st inp = Inr (fr, rest) \<Longrightarrow>
     length (fr_Raw fr) \<le> maxBytes \<and> (\<exists>skipped. fs_raw st @ inp = skipped @ fr_Raw fr @ rest)"
proof (induction maxBytes fin st inp rule: Next_frame.induct)
  case (1 maxBytes fin st inp)
  show ?case
  proof (cases "readLine maxBytes fin (fs_raw st) inp")
    case (LineErr e raw)
    with 1(4) show ?thesis by (simp add: Next_frame.simps)
  next
    case (LineOk raw rs)
    from readLine_LineOk[OF this] obtain l where l: "raw = fs_raw st @ l" "inp = l @ rs" "length raw \<le> maxBytes" by blast
    define line where "line = strip_eol (drop (length (fs_raw st)) raw)"
    note run = 1(4)[unfolded Next_frame_step[OF LineOk line_def]]
    consider (skip) "line = []" "\<not> fs_sawData st \<and> \<not> fs_sawComment st \<and> \<not> fs_sawField st"
      | (emit) "line = []" "\<not> (\<not> fs_sawData st \<and> \<not> fs_sawComment st \<and> \<not> fs_sawField st)"
      | (comment) "line \<noteq> []" "hd line = CHR '':''" | (field) "line \<noteq> []" "hd line \<noteq> CHR '':''" by blast
    then show ?thesis
    proof cases
      case skip
      with run have "Next_frame maxBytes fin (st\<lparr>fs_raw := [], fs_event := []\<rparr>) rs = Inr (fr, rest)" by simp
      from 1(1)[OF LineOk line_def refl skip this] obtain sk where "length (fr_Raw fr) \<le> maxBytes" "rs = sk @ fr_Raw fr @ rest" by auto
      then show ?thesis using l by (metis append.assoc)
    next
      case emit
      with run have "fr = finish_frame (st\<lparr>fs_raw := raw\<rparr>)" "rest = rs" by (auto split: if_splits)
      then show ?thesis using l by (auto simp: finish_frame_def)
    next
      case comment
      with run have "Next_frame maxBytes fin (st\<lparr>fs_raw := raw, fs_sawComment := True\<rparr>) rs = Inr (fr, rest)" by simp
      from 1(2)[OF LineOk line_def refl comment this] show ?thesis using l by auto
    next
      case field
      with run have "Next_frame maxBytes fin (field_line line (st\<lparr>fs_raw := raw\<rparr>)) rs = Inr (fr, rest)" by simp
      from 1(3)[OF LineOk line_def refl field this] show ?thesis using l by auto
    qed
  qed
qed

text \<open>A line that fits is delivered whole, however many buffers it spans.\<close>

lemma readLine_line:
  "newline \<notin> set l \<Longrightarrow> length raw + length l + 1 \<le> maxBytes \<Longrightarrow>
   readLine maxBytes fin raw (l @ newline # rest) = LineOk (raw @ l @ [newline]) rest"
proof (induction "length l" arbitrary: l raw rule: less_induct)
  case less
  have tw: "takeWhile (\<lambda>c. c \<noteq> newline) (l @ newline # rest) = l"
    using less.prems(1) by (induction l) auto
  show ?case
  proof (cases "length l < buffer_size")
    case True
    then have "ReadSlice (l @ newline # rest) = (l @ [newline], rest, AtDelim)"
      using tw by (simp add: ReadSlice_def Let_def)
    from readLine_step[OF this] less.prems(2) show ?thesis by simp
  next
    case False
    then have slice: "ReadSlice (l @ newline # rest) = (take buffer_size l, drop buffer_size l @ newline # rest, BufferFull)"
      using tw by (simp add: ReadSlice_def Let_def)
    have shorter: "length (drop buffer_size l) < length l" using False by (simp add: buffer_size_def)
    have "newline \<notin> set (drop buffer_size l)" using less.prems(1) by (auto dest: in_set_dropD)
    moreover have "length (raw @ take buffer_size l) + length (drop buffer_size l) + 1 \<le> maxBytes"
      using less.prems(2) False by simp
    ultimately have "readLine maxBytes fin (raw @ take buffer_size l) (drop buffer_size l @ newline # rest) =
        LineOk ((raw @ take buffer_size l) @ drop buffer_size l @ [newline]) rest"
      by (rule less.hyps[OF shorter])
    with readLine_step[OF slice, of maxBytes fin raw] less.prems(2) False show ?thesis by simp
  qed
qed

definition plain_line :: "string \<Rightarrow> bool" where
  "plain_line l \<longleftrightarrow> newline \<notin> set l \<and> (l = [] \<or> last l \<noteq> CHR 13)"

lemma strip_eol_line: "plain_line l \<Longrightarrow> strip_eol (l @ [newline]) = l"
  by (auto simp: plain_line_def strip_eol_def trim_last_def)

definition data_line :: "string \<Rightarrow> string" where
  "data_line d = ''data: '' @ d"

lemma data_line_field:
  "field_line (data_line d) st = st\<lparr>fs_sawField := True,
     fs_data := (if fs_sawData st then fs_data st @ [newline] else fs_data st) @ d, fs_sawData := True\<rparr>"
  by (simp add: field_line_def data_line_def cut_colon_def trim_one_space_def)

lemma data_line_plain: "plain_line d \<Longrightarrow> plain_line (data_line d)"
  by (auto simp: plain_line_def data_line_def newline_def)

lemma Next_frame_data:
  assumes "plain_line d" "length (fs_raw st) + length (data_line d) + 1 \<le> maxBytes"
  shows "Next_frame maxBytes fin st (data_line d @ newline # rest) =
    Next_frame maxBytes fin (field_line (data_line d) (st\<lparr>fs_raw := fs_raw st @ data_line d @ [newline]\<rparr>)) rest"
proof -
  have "newline \<notin> set (data_line d)" using data_line_plain[OF assms(1)] by (simp add: plain_line_def)
  from readLine_line[OF this assms(2)] strip_eol_line[OF data_line_plain[OF assms(1)]]
  have "Next_frame maxBytes fin st (data_line d @ newline # rest) =
    (if data_line d = [] then Next_frame maxBytes fin st rest
     else if hd (data_line d) = CHR '':'' then Next_frame maxBytes fin st rest
     else Next_frame maxBytes fin (field_line (data_line d) (st\<lparr>fs_raw := fs_raw st @ data_line d @ [newline]\<rparr>)) rest)"
    by (subst Next_frame.simps) (simp add: data_line_def Let_def)
  then show ?thesis by (simp add: data_line_def)
qed

definition encode_data :: "string list \<Rightarrow> string" where
  "encode_data ds = concat (map (\<lambda>d. data_line d @ [newline]) ds)"

fun join_lines :: "string list \<Rightarrow> string" where
  "join_lines [] = []"
| "join_lines [d] = d"
| "join_lines (d # ds) = d @ [newline] @ join_lines ds"

lemma Next_frame_end:
  assumes "fs_sawField st" "fs_sawData st" "length (fs_raw st) + 1 \<le> maxBytes"
  shows "Next_frame maxBytes fin st (newline # rest) = Inr (finish_frame (st\<lparr>fs_raw := fs_raw st @ [newline]\<rparr>), rest)"
  using readLine_line[of "[]" "fs_raw st" maxBytes fin rest] assms strip_eol_line[of "[]"]
  by (subst Next_frame.simps) (simp add: plain_line_def)

lemma Next_frame_lines:
  assumes "fs_sawField st" "fs_sawData st" "list_all plain_line ds" "length (fs_raw st) + length (encode_data ds) + 1 \<le> maxBytes"
  shows "Next_frame maxBytes fin st (encode_data ds @ newline # rest) =
    Inr (\<lparr>fr_Event = fs_event st, fr_Data = join_lines (fs_data st # ds),
          fr_Raw = fs_raw st @ encode_data ds @ [newline], fr_Comment = False\<rparr>, rest)"
  using assms
proof (induction ds arbitrary: st)
  case Nil
  then show ?case using Next_frame_end[of st maxBytes fin rest] by (simp add: encode_data_def finish_frame_def)
next
  case (Cons d ds)
  have enc: "encode_data (d # ds) @ newline # rest = data_line d @ newline # encode_data ds @ newline # rest"
    by (simp add: encode_data_def)
  have "Next_frame maxBytes fin st (encode_data (d # ds) @ newline # rest) =
    Next_frame maxBytes fin (field_line (data_line d) (st\<lparr>fs_raw := fs_raw st @ data_line d @ [newline]\<rparr>)) (encode_data ds @ newline # rest)"
    unfolding enc using Cons.prems by (intro Next_frame_data) (simp_all add: encode_data_def)
  also have "\<dots> = Inr (\<lparr>fr_Event = fs_event st, fr_Data = join_lines ((fs_data st @ [newline] @ d) # ds),
          fr_Raw = (fs_raw st @ data_line d @ [newline]) @ encode_data ds @ [newline], fr_Comment = False\<rparr>, rest)"
    using Cons.IH[of "field_line (data_line d) (st\<lparr>fs_raw := fs_raw st @ data_line d @ [newline]\<rparr>)"] Cons.prems
    by (simp add: data_line_field encode_data_def)
  also have "join_lines ((fs_data st @ [newline] @ d) # ds) = join_lines (fs_data st # d # ds)"
    by (cases ds) simp_all
  finally show ?case by (simp add: encode_data_def)
qed

lemma Next_roundtrip:
  assumes "list_all plain_line (d # ds)" "length (encode_data (d # ds)) + 1 \<le> maxBytes"
  shows "Next_frame maxBytes fin frame_start (encode_data (d # ds) @ newline # rest) =
    Inr (\<lparr>fr_Event = [], fr_Data = join_lines (d # ds), fr_Raw = encode_data (d # ds) @ [newline], fr_Comment = False\<rparr>, rest)"
proof -
  have enc: "encode_data (d # ds) @ newline # rest = data_line d @ newline # encode_data ds @ newline # rest"
    by (simp add: encode_data_def)
  have "Next_frame maxBytes fin frame_start (encode_data (d # ds) @ newline # rest) =
    Next_frame maxBytes fin (field_line (data_line d) (frame_start\<lparr>fs_raw := data_line d @ [newline]\<rparr>)) (encode_data ds @ newline # rest)"
    unfolding enc using assms by (subst Next_frame_data) (simp_all add: frame_start_def encode_data_def)
  also have "\<dots> = Inr (\<lparr>fr_Event = [], fr_Data = join_lines (d # ds), fr_Raw = encode_data (d # ds) @ [newline], fr_Comment = False\<rparr>, rest)"
    using Next_frame_lines[of "field_line (data_line d) (frame_start\<lparr>fs_raw := data_line d @ [newline]\<rparr>)" ds maxBytes fin rest] assms
    by (simp add: data_line_field frame_start_def encode_data_def)
  finally show ?thesis .
qed

end
