(* ===== verification/Request_Query.thy ===== *)
theory Request_Query
  imports Keys
begin

text \<open>
  The request listing of the console: \<open>internal/store/request_query.go\<close>. A page is the newest
  matching rows below a cursor; the cursor is the id of the page's last row, in decimal and raw
  URL base64. The JSON shape of a row is left out, a page carries the rows themselves.
\<close>

section \<open>Raw URL base64\<close>

definition unurl_char :: "char \<Rightarrow> char" where
  "unurl_char c = (if c = CHR ''-'' then CHR ''+'' else if c = CHR ''_'' then CHR ''/'' else c)"

definition raw_url_decode :: "string \<Rightarrow> string option" where
  "raw_url_decode text =
     (let body = filter (\<lambda>c. (of_char c :: nat) \<noteq> 10 \<and> (of_char c :: nat) \<noteq> 13) text in
      if list_ex (\<lambda>c. c = pad_char \<or> c = CHR ''+'' \<or> c = CHR ''/'') body \<or> length body mod 4 = 1 then None
      else b64_groups (map unurl_char body @ replicate ((4 - length body mod 4) mod 4) pad_char))"

lemma url_char_inverse: "c \<noteq> CHR ''-'' \<Longrightarrow> c \<noteq> CHR ''_'' \<Longrightarrow> unurl_char (url_char c) = c"
  by (simp add: url_char_def unurl_char_def)

definition b64_char :: "char \<Rightarrow> bool" where
  "b64_char c \<longleftrightarrow> (\<exists>n < 64. c = enc6 n)"

lemma b64_charI: "n < 64 \<Longrightarrow> b64_char (enc6 n)"
  by (auto simp: b64_char_def)

lemmas b64_char_sextets = b64_charI[OF byte_div(1)] b64_charI[OF sextet_bounds(1)] b64_charI[OF sextet_bounds(2)]
  b64_charI[OF sextet_bounds(3)] b64_charI[OF sextet_bounds(4)] b64_charI[OF sextet_bounds(5)]

lemma b64_char_facts:
  assumes "b64_char c"
  shows "unurl_char (url_char c) = c" "c \<noteq> pad_char" "(of_char (url_char c) :: nat) \<noteq> 10" "(of_char (url_char c) :: nat) \<noteq> 13"
    "url_char c \<noteq> pad_char" "url_char c \<noteq> CHR ''+''" "url_char c \<noteq> CHR ''/''"
proof -
  obtain n where n: "n < 64" "c = enc6 n" using assms by (auto simp: b64_char_def)
  have v: "(of_char c :: nat) = (if n < 26 then n + 65 else if n < 52 then n + 71 else if n < 62 then n - 4 else if n = 62 then 43 else 47)"
    using of_char_enc6[OF n(1)] n(2) by simp
  have "(of_char c :: nat) \<noteq> 45" "(of_char c :: nat) \<noteq> 95" "(of_char c :: nat) \<noteq> 61" "(of_char c :: nat) \<noteq> 10" "(of_char c :: nat) \<noteq> 13"
    using n(1) unfolding v by auto
  then have ne: "c \<noteq> CHR ''-''" "c \<noteq> CHR ''_''" "c \<noteq> CHR ''=''" "(of_char c :: nat) \<noteq> 10" "(of_char c :: nat) \<noteq> 13" by auto
  then show "unurl_char (url_char c) = c" "c \<noteq> pad_char" by (simp_all add: url_char_inverse pad_char_def)
  show "(of_char (url_char c) :: nat) \<noteq> 10" "(of_char (url_char c) :: nat) \<noteq> 13" "url_char c \<noteq> pad_char"
    "url_char c \<noteq> CHR ''+''" "url_char c \<noteq> CHR ''/''"
    using ne by (auto simp: url_char_def pad_char_def)
qed

text \<open>An encoded text is its alphabet characters followed by the padding.\<close>

lemma pad_lengths:
  "replicate ((4 - length [x, y] mod 4) mod 4) c = [c, c]" "replicate ((4 - length [x, y, z] mod 4) mod 4) c = [c]"
  by (simp_all add: numeral_2_eq_2)

lemma b64_encode_shape:
  "\<exists>body. b64_encode s = body @ replicate ((4 - length body mod 4) mod 4) pad_char \<and> list_all b64_char body \<and> length body mod 4 \<noteq> 1"
proof (induction s rule: b64_encode.induct)
  case 1
  show ?case by (rule exI[of _ "[]"]) simp
next
  case (2 a)
  let ?b = "[enc6 ((of_char a :: nat) div 4), enc6 ((of_char a :: nat) mod 4 * 16)]"
  have "list_all b64_char ?b" by (simp only: list.pred_inject b64_char_sextets simp_thms)
  then show ?case by (intro exI[of _ ?b]) (simp only: b64_encode.simps Let_def pad_lengths append.simps, simp)
next
  case (3 a b)
  let ?b = "[enc6 ((of_char a :: nat) div 4), enc6 ((of_char a :: nat) mod 4 * 16 + (of_char b :: nat) div 16), enc6 ((of_char b :: nat) mod 16 * 4)]"
  have "list_all b64_char ?b" by (simp only: list.pred_inject b64_char_sextets simp_thms)
  then show ?case by (intro exI[of _ ?b]) (simp only: b64_encode.simps Let_def pad_lengths append.simps, simp)
next
  case (4 a b c rest)
  then obtain body where ih: "b64_encode rest = body @ replicate ((4 - length body mod 4) mod 4) pad_char" "list_all b64_char body" "length body mod 4 \<noteq> 1"
    by blast
  let ?h = "[enc6 ((of_char a :: nat) div 4), enc6 ((of_char a :: nat) mod 4 * 16 + (of_char b :: nat) div 16),
     enc6 ((of_char b :: nat) mod 16 * 4 + (of_char c :: nat) div 64), enc6 ((of_char c :: nat) mod 64)]"
  have "list_all b64_char ?h" by (simp only: list.pred_inject b64_char_sextets simp_thms)
  then show ?case using ih by (intro exI[of _ "?h @ body"]) (simp add: Let_def)
qed

lemma raw_url_roundtrip: "raw_url_decode (b64_raw_url s) = Some s"
proof -
  obtain body where b: "b64_encode s = body @ replicate ((4 - length body mod 4) mod 4) pad_char" "list_all b64_char body" "length body mod 4 \<noteq> 1"
    using b64_encode_shape by blast
  have facts: "unurl_char (url_char c) = c" "c \<noteq> pad_char" "(of_char (url_char c) :: nat) \<noteq> 10" "(of_char (url_char c) :: nat) \<noteq> 13"
    "url_char c \<noteq> pad_char" "url_char c \<noteq> CHR ''+''" "url_char c \<noteq> CHR ''/''" if "c \<in> set body" for c
    using b64_char_facts[of c] b(2) that by (auto simp: list_all_iff)
  have raw: "b64_raw_url s = map url_char body"
    using facts(2) by (simp add: b64_raw_url_def b(1) filter_id_conv)
  have keep: "filter (\<lambda>c. (of_char c :: nat) \<noteq> 10 \<and> (of_char c :: nat) \<noteq> 13) (map url_char body) = map url_char body"
    using facts(3,4) by (auto simp: filter_id_conv)
  have clean: "\<not> list_ex (\<lambda>c. c = pad_char \<or> c = CHR ''+'' \<or> c = CHR ''/'') (map url_char body)"
    using facts(5,6,7) by (auto simp: list_ex_iff)
  have inverse: "map unurl_char (map url_char body) = body" using facts(1) by (auto intro: map_idI)
  show ?thesis
    unfolding raw_url_decode_def raw keep Let_def inverse using clean b(3) b64_groups_encode[of s] by (simp add: b(1) o_def)
qed

section \<open>Cursors\<close>

definition EncodeRequestCursor :: "int \<Rightarrow> string" where
  "EncodeRequestCursor i = (if i \<le> 0 then [] else b64_raw_url (FormatInt i))"

definition DecodeRequestCursor :: "string \<Rightarrow> store_error + int" where
  "DecodeRequestCursor value =
     (case raw_url_decode (trim_space value) of
        None \<Rightarrow> Inl (ErrText ''invalid cursor'')
      | Some raw \<Rightarrow> if raw = [] then Inl (ErrText ''invalid cursor'')
          else (case ParseInt raw of None \<Rightarrow> Inl (ErrText ''invalid cursor'')
                | Some i \<Rightarrow> if i \<le> 0 then Inl (ErrText ''invalid cursor'') else Inr i))"

section \<open>Pages\<close>

record RequestFilter =
  rf_RequestID :: string
  rf_Status :: string
  rf_Protocol :: string
  rf_ProviderID :: int
  rf_ModelID :: int
  rf_GroupID :: int
  rf_KeyID :: int
  rf_BeforeID :: int
  rf_FromUTC :: "gotime option"
  rf_ToUTC :: "gotime option"
  rf_Limit :: int

record RequestPage =
  pg_Data :: "RequestRow list"
  pg_NextCursor :: string

definition normalizedLimit :: "int \<Rightarrow> store_error + int" where
  "normalizedLimit limit =
     (if limit = 0 then Inr 50 else if limit < 1 \<or> limit > 100 then Inl (ErrText ''limit must be 1..100'') else Inr limit)"

definition matches :: "RequestFilter \<Rightarrow> RequestRow \<Rightarrow> bool" where
  "matches f q \<longleftrightarrow>
     (rf_RequestID f \<noteq> [] \<longrightarrow> q_request_id q = rf_RequestID f) \<and> (rf_Status f \<noteq> [] \<longrightarrow> q_status q = rf_Status f) \<and>
     (rf_Protocol f \<noteq> [] \<longrightarrow> q_protocol q = rf_Protocol f) \<and>
     (rf_ProviderID f > 0 \<longrightarrow> q_provider_id q = Some (rf_ProviderID f)) \<and>
     (rf_ModelID f > 0 \<longrightarrow> q_model_id q = Some (rf_ModelID f)) \<and>
     (rf_GroupID f > 0 \<longrightarrow> q_group_id q = rf_GroupID f) \<and> (rf_KeyID f > 0 \<longrightarrow> q_key_id q = Some (rf_KeyID f)) \<and>
     (rf_BeforeID f > 0 \<longrightarrow> q_id q < rf_BeforeID f) \<and>
     (case rf_FromUTC f of None \<Rightarrow> True | Some t \<Rightarrow> rfc3339nano (q_created q) \<ge> rfc3339nano t) \<and>
     (case rf_ToUTC f of None \<Rightarrow> True | Some t \<Rightarrow> rfc3339nano (q_created q) \<le> rfc3339nano t)"

text \<open>The table is kept in id order, so \<open>ORDER BY id DESC\<close> is its reverse.\<close>

definition matching :: "RequestFilter \<Rightarrow> db \<Rightarrow> RequestRow list" where
  "matching f db = rev (filter (matches f) (db_requests db))"

definition filter_valid :: "RequestFilter \<Rightarrow> bool" where
  "filter_valid f \<longleftrightarrow> \<not> (rf_ProviderID f < 0 \<or> rf_ModelID f < 0 \<or> rf_BeforeID f < 0) \<and>
     (case (rf_FromUTC f, rf_ToUTC f) of (Some a, Some b) \<Rightarrow> \<not> a > b | _ \<Rightarrow> True)"

definition QueryRequests :: "RequestFilter \<Rightarrow> db \<Rightarrow> store_error + RequestPage" where
  "QueryRequests f db =
     bind_result (normalizedLimit (rf_Limit f)) (\<lambda>limit.
     bind_result (reject_when (\<not> filter_valid f) (ErrText ''invalid request query'')) (\<lambda>_.
     let rows = take (nat limit + 1) (matching f db);
         data = take (nat limit) rows;
         cursorID = (if data = [] then 0 else q_id (last data));
         hasMore = (length rows > nat limit)
     in Inr \<lparr>pg_Data = data, pg_NextCursor = (if hasMore \<and> cursorID > 0 then EncodeRequestCursor cursorID else [])\<rparr>))"

definition GetRequest :: "string \<Rightarrow> db \<Rightarrow> store_error + RequestRow" where
  "GetRequest requestID db =
     bind_result (reject_when (trim_space requestID = []) (ErrText ''request_id is required'')) (\<lambda>_.
     require_some (find (\<lambda>q. q_request_id q = trim_space requestID) (db_requests db)) ErrNoRows)"

definition RequestOwner :: "string \<Rightarrow> db \<Rightarrow> store_error + int \<times> int" where
  "RequestOwner requestID db =
     bind_result (GetRequest requestID db) (\<lambda>q. Inr (coalesce0 (q_key_id q), q_group_id q))"

text \<open>A client that follows the cursor from page to page.\<close>

fun follow_pages :: "nat \<Rightarrow> RequestFilter \<Rightarrow> db \<Rightarrow> RequestRow list" where
  "follow_pages 0 f db = []"
| "follow_pages (Suc n) f db =
     (case QueryRequests f db of
        Inl _ \<Rightarrow> []
      | Inr page \<Rightarrow> pg_Data page @
          (if pg_NextCursor page = [] then []
           else (case DecodeRequestCursor (pg_NextCursor page) of
                   Inl _ \<Rightarrow> [] | Inr i \<Rightarrow> follow_pages n (f\<lparr>rf_BeforeID := i\<rparr>) db)))"

section \<open>Following the cursor\<close>

text \<open>The alphabet of a cursor has no white space, so trimming keeps it.\<close>

lemma trim_space_clean: "list_all (\<lambda>c. \<not> is_space c) s \<Longrightarrow> trim_space s = s"
proof -
  assume "list_all (\<lambda>c. \<not> is_space c) s"
  then have clean: "\<forall>c \<in> set s. \<not> is_space c" by (simp add: list_all_iff)
  have id: "dropWhile is_space t = t" if "\<forall>c \<in> set t. \<not> is_space c" for t
    using that by (cases t) simp_all
  from clean have "dropWhile is_space s = s" "dropWhile is_space (rev s) = rev s" by (simp_all add: id)
  then show ?thesis by (simp add: trim_space_def)
qed

lemma b64_raw_url_clean: "list_all (\<lambda>c. \<not> is_space c) (b64_raw_url s)"
proof -
  have "\<not> is_space (url_char (enc6 n))" if n: "n < 64" for n
    using n of_char_enc6[OF n] by (auto simp: url_char_def is_space_def Let_def)
  moreover have "\<exists>n < 64. c = enc6 n" if "c \<in> set (b64_encode s)" "c \<noteq> pad_char" for c
  proof -
    obtain body k where "b64_encode s = body @ replicate k pad_char" "list_all b64_char body" using b64_encode_shape by blast
    with that show ?thesis by (auto simp: list_all_iff b64_char_def)
  qed
  ultimately show ?thesis by (auto simp: b64_raw_url_def list_all_iff)
qed

lemma FormatInt_ne: "FormatInt n \<noteq> []"
  using dec_text_facts by (simp add: FormatInt_def)

lemma cursor_decodes: "0 < i \<Longrightarrow> i \<le> max_i64 \<Longrightarrow> DecodeRequestCursor (EncodeRequestCursor i) = Inr i"
  by (simp add: DecodeRequestCursor_def EncodeRequestCursor_def trim_space_clean[OF b64_raw_url_clean] raw_url_roundtrip
      ParseInt_FormatInt FormatInt_ne)

lemma cursor_nonempty: "0 < i \<Longrightarrow> i \<le> max_i64 \<Longrightarrow> EncodeRequestCursor i \<noteq> []"
proof
  assume i: "0 < i" "i \<le> max_i64" and e: "EncodeRequestCursor i = []"
  from cursor_decodes[OF i] show False unfolding e by (simp add: DecodeRequestCursor_def raw_url_decode_def)
qed

lemma sorted_desc_matching: "tbl_wf q_id (db_requests db) \<Longrightarrow> sorted_wrt (\<lambda>x y. q_id y < q_id x) (matching f db)"
  by (simp add: matching_def sorted_wrt_rev tbl_wf_def sorted_wrt_map sorted_wrt_filter)

lemma filter_below_desc:
  assumes "sorted_wrt (\<lambda>x y. q_id y < q_id x) rows" "k < length rows"
  shows "filter (\<lambda>q. q_id q < q_id (rows ! k)) rows = drop (Suc k) rows"
proof -
  have split: "rows = take (Suc k) rows @ drop (Suc k) rows" by simp
  have "\<not> q_id q < q_id (rows ! k)" if "q \<in> set (take (Suc k) rows)" for q
  proof -
    from that obtain j where j: "j \<le> k" "q = rows ! j" using assms(2) by (auto simp: in_set_conv_nth less_Suc_eq_le)
    with assms sorted_wrt_nth_less[OF assms(1), of j k] show ?thesis by (cases "j = k") auto
  qed
  moreover have "q_id q < q_id (rows ! k)" if "q \<in> set (drop (Suc k) rows)" for q
  proof -
    from that obtain j where "q = rows ! (Suc k + j)" "Suc k + j < length rows" by (auto simp: in_set_conv_nth)
    with sorted_wrt_nth_less[OF assms(1), of k "Suc k + j"] show ?thesis by simp
  qed
  ultimately have "filter (\<lambda>q. q_id q < q_id (rows ! k)) (take (Suc k) rows) = []"
    "filter (\<lambda>q. q_id q < q_id (rows ! k)) (drop (Suc k) rows) = drop (Suc k) rows"
    by (auto simp: filter_empty_conv filter_id_conv)
  then show ?thesis by (subst split) (simp only: filter_append append.simps)
qed

lemma matching_before:
  assumes wf: "tbl_wf q_id (db_requests db)" and k: "k < length (matching f db)"
  shows "matching (f\<lparr>rf_BeforeID := q_id (matching f db ! k)\<rparr>) db = drop (Suc k) (matching f db)"
proof -
  let ?i = "q_id (matching f db ! k)"
  have mem: "matching f db ! k \<in> set (db_requests db)" "matches f (matching f db ! k)"
    using nth_mem[OF k] by (auto simp: matching_def)
  have pos: "0 < ?i" using tbl_wf_pos[OF wf mem(1)] .
  have below: "rf_BeforeID f > 0 \<Longrightarrow> ?i < rf_BeforeID f" using mem(2) by (simp add: matches_def)
  have "matches (f\<lparr>rf_BeforeID := i\<rparr>) q \<longleftrightarrow> matches f q \<and> q_id q < i" if "0 < i" "rf_BeforeID f > 0 \<Longrightarrow> i < rf_BeforeID f" for i q
    using that by (auto simp: matches_def)
  from this[OF pos below] have "matches (f\<lparr>rf_BeforeID := ?i\<rparr>) = (\<lambda>q. matches f q \<and> q_id q < ?i)" by blast
  then have "matching (f\<lparr>rf_BeforeID := ?i\<rparr>) db = rev (filter (\<lambda>q. matches f q \<and> q_id q < ?i) (db_requests db))"
    by (simp only: matching_def)
  also have "\<dots> = filter (\<lambda>q. q_id q < ?i) (matching f db)"
    unfolding matching_def[of f db] rev_filter[symmetric] filter_filter by simp
  also have "\<dots> = drop (Suc k) (matching f db)" by (rule filter_below_desc[OF sorted_desc_matching[OF wf] k])
  finally show ?thesis .
qed

lemma QueryRequests_page:
  assumes "filter_valid f" "normalizedLimit (rf_Limit f) = Inr limit" "tbl_wf q_id (db_requests db)"
  shows "QueryRequests f db = Inr \<lparr>pg_Data = take (nat limit) (matching f db),
    pg_NextCursor = (if length (matching f db) > nat limit then EncodeRequestCursor (q_id (matching f db ! (nat limit - 1))) else [])\<rparr>"
proof -
  have lim: "0 < nat limit" using assms(2) by (auto simp: normalizedLimit_def split: if_splits)
  let ?rows = "matching f db"
  have more: "length (take (nat limit + 1) ?rows) > nat limit \<longleftrightarrow> length ?rows > nat limit" by auto
  have t: "take (nat limit) (take (nat limit + 1) ?rows) = take (nat limit) ?rows" by (simp add: min_def)
  have l: "last (take (nat limit) ?rows) = ?rows ! (nat limit - 1)" "take (nat limit) ?rows \<noteq> []" if "length ?rows > nat limit"
  proof -
    have ne: "take (nat limit) ?rows \<noteq> []" using that lim by auto
    from last_conv_nth[OF ne] that lim show "last (take (nat limit) ?rows) = ?rows ! (nat limit - 1)" by simp
    show "take (nat limit) ?rows \<noteq> []" by (rule ne)
  qed
  have pos: "0 < q_id (?rows ! (nat limit - 1))" if "length ?rows > nat limit"
  proof -
    have "?rows ! (nat limit - 1) \<in> set ?rows" using that by (intro nth_mem) simp
    then show ?thesis using tbl_wf_pos[OF assms(3)] by (auto simp: matching_def)
  qed
  show ?thesis
    using assms(1) l pos by (simp add: QueryRequests_def assms(2) Let_def t more reject_when_def)
qed

lemma follow_all:
  assumes wf: "tbl_wf q_id (db_requests db)" and small: "\<forall>q \<in> set (db_requests db). q_id q \<le> max_i64"
    and lim: "normalizedLimit (rf_Limit f) = Inr limit" and valid: "filter_valid f" and fuel: "length (matching f db) < n"
  shows "follow_pages n f db = matching f db"
  using valid fuel lim
proof (induction n arbitrary: f)
  case (Suc n)
  have pl: "0 < nat limit" using Suc.prems(3) by (auto simp: normalizedLimit_def split: if_splits)
  let ?rows = "matching f db"
  note page = QueryRequests_page[OF Suc.prems(1,3) wf]
  show ?case
  proof (cases "length ?rows > nat limit")
    case False
    with page show ?thesis by simp
  next
    case True
    let ?i = "q_id (?rows ! (nat limit - 1))"
    have k: "nat limit - 1 < length ?rows" using True by simp
    have mem: "?rows ! (nat limit - 1) \<in> set (db_requests db)" using nth_mem[OF k] by (auto simp: matching_def)
    have i: "0 < ?i" "?i \<le> max_i64" using tbl_wf_pos[OF wf mem] small mem by auto
    have rest: "matching (f\<lparr>rf_BeforeID := ?i\<rparr>) db = drop (nat limit) ?rows"
      using matching_before[OF wf k] pl by simp
    have "follow_pages n (f\<lparr>rf_BeforeID := ?i\<rparr>) db = drop (nat limit) ?rows"
      using Suc.IH[of "f\<lparr>rf_BeforeID := ?i\<rparr>"] Suc.prems i pl True rest by (simp add: filter_valid_def)
    with page True cursor_decodes[OF i] cursor_nonempty[OF i] show ?thesis by simp
  qed
qed simp

end
