(* ===== verification/Stream_Claims.thy ===== *)
theory Stream_Claims
  imports Sample_World SSE Request_Query
begin

text \<open>
  Properties of the readers: the event-stream reader and the terminal classification of streams, and
  the paged listing of requests with its cursor.
\<close>

section \<open>Event streams\<close>

text \<open>
  A line with content: it ends at its only line feed and is not blank. The value of a line of the
  field \<open>data\<close> is what follows the colon, less one space.
\<close>

definition content_line :: "string \<Rightarrow> bool" where
  "content_line l \<longleftrightarrow> (\<exists>body. l = body @ [newline] \<and> newline \<notin> set body) \<and> l \<notin> {[newline], [CHR 13, newline]}"

definition data_field :: "string \<Rightarrow> string option" where
  "data_field l = (case cut_colon (strip_eol l) of (field, value) \<Rightarrow> if field = ''data'' then Some (trim_one_space value) else None)"

lemma ReadSlice_line: "ReadSlice inp = (part, rest, AtDelim) \<Longrightarrow> \<exists>body. part = body @ [newline] \<and> newline \<notin> set body"
proof -
  assume r: "ReadSlice inp = (part, rest, AtDelim)"
  define l where "l = takeWhile (\<lambda>c. c \<noteq> newline) inp"
  have l: "length l < length inp" "part = take (length l + 1) inp" using r by (auto simp: ReadSlice_def Let_def l_def split: if_splits)
  have "inp ! length l = newline" using nth_length_takeWhile[of "\<lambda>c. c \<noteq> newline" inp] l(1) by (simp add: l_def)
  then have "part = take (length l) inp @ [newline]" using l by (simp add: take_Suc_conv_app_nth)
  moreover have "take (length l) inp = l" unfolding l_def by (metis takeWhile_eq_take)
  moreover have "newline \<notin> set l" unfolding l_def by (auto dest: set_takeWhileD)
  ultimately show ?thesis by blast
qed

lemma ReadSlice_full: "ReadSlice inp = (part, rest, BufferFull) \<Longrightarrow> newline \<notin> set part"
proof -
  assume r: "ReadSlice inp = (part, rest, BufferFull)"
  define l where "l = takeWhile (\<lambda>c. c \<noteq> newline) inp"
  have l: "buffer_size \<le> length l" "part = take buffer_size inp"
    using r length_takeWhile_le[of "\<lambda>c. c \<noteq> newline" inp] by (auto simp: ReadSlice_def Let_def l_def[symmetric] split: if_splits)
  have "take (length l) inp = l" unfolding l_def by (metis takeWhile_eq_take)
  then have "part = take buffer_size l" using l by (metis min.absorb1 take_take)
  then show ?thesis using l_def by (auto dest!: in_set_takeD set_takeWhileD)
qed

lemma readLine_one:
  "readLine maxBytes fin raw inp = LineOk raw' rest \<Longrightarrow>
     \<exists>body. raw' = raw @ body @ [newline] \<and> newline \<notin> set body \<and> inp = body @ [newline] @ rest"
proof (induction maxBytes fin raw inp rule: readLine.induct)
  case (1 maxBytes fin raw inp)
  obtain part rs how where s: "ReadSlice inp = (part, rs, how)" using prod_cases3 by blast
  note p = ReadSlice_parts[OF s] and step = 1(2)[unfolded readLine_step[OF s]]
  have fits: "\<not> length raw + length part > maxBytes" using step by (auto split: if_splits)
  show ?case
  proof (cases how)
    case AtDelim
    with step fits have "raw' = raw @ part" "rest = rs" by simp_all
    then show ?thesis using ReadSlice_line[of inp part rs] s AtDelim p by auto
  next
    case BufferFull
    with step fits have rec: "readLine maxBytes fin (raw @ part) rs = LineOk raw' rest" by simp
    from 1(1)[OF s[symmetric] refl fits BufferFull rec] obtain body where
      "raw' = (raw @ part) @ body @ [newline]" "newline \<notin> set body" "rs = body @ [newline] @ rest" by blast
    then show ?thesis using p ReadSlice_full[of inp part rs] s BufferFull by (intro exI[of _ "part @ body"]) auto
  next
    case AtEnd
    with step fits show ?thesis by simp
  qed
qed

lemma strip_eol_blank:
  "strip_eol (body @ [newline]) = [] \<longleftrightarrow> body @ [newline] \<in> {[newline], [CHR 13, newline]}"
proof -
  have "strip_eol (body @ [newline]) = trim_last (CHR 13) body" by (simp add: strip_eol_def trim_last_def)
  then show ?thesis by (cases body rule: rev_cases) (auto simp: trim_last_def)
qed

text \<open>The state of the reader after the lines \<open>ls\<close> of a frame.\<close>

definition reading :: "string list \<Rightarrow> frame_state \<Rightarrow> bool" where
  "reading ls st \<longleftrightarrow> fs_raw st = concat ls \<and> ((fs_sawData st \<or> fs_sawComment st \<or> fs_sawField st) = (ls \<noteq> [])) \<and>
     fs_data st = join_lines (List.map_filter data_field ls) \<and> fs_sawData st = (List.map_filter data_field ls \<noteq> [])"

lemma join_lines_snoc: "join_lines (xs @ [x]) = (if xs = [] then x else join_lines xs @ newline # x)"
  by (induction xs rule: join_lines.induct) auto

lemma map_filter_snoc [simp]: "List.map_filter f (xs @ [x]) = List.map_filter f xs @ (case f x of None \<Rightarrow> [] | Some v \<Rightarrow> [v])"
  by (induction xs) (auto simp: List.map_filter_def split: option.splits)

lemma reading_comment:
  assumes "reading ls st" "hd (strip_eol l) = CHR '':''" "strip_eol l \<noteq> []"
  shows "reading (ls @ [l]) (st\<lparr>fs_raw := concat ls @ l, fs_sawComment := True\<rparr>)"
proof -
  have "data_field l = None" using assms(2,3) by (cases "strip_eol l") (auto simp: data_field_def cut_colon_def)
  with assms(1) show ?thesis by (auto simp: reading_def)
qed

lemma reading_field:
  assumes "reading ls st"
  shows "reading (ls @ [l]) (field_line (strip_eol l) (st\<lparr>fs_raw := concat ls @ l\<rparr>))"
  using assms by (auto simp: reading_def field_line_def data_field_def join_lines_snoc Let_def split: prod.splits)

lemma Next_frame_exact:
  "Next_frame maxBytes fin st inp = Inr (fr, rest) \<Longrightarrow> reading ls st \<Longrightarrow>
     \<exists>skipped more blank. inp = concat skipped @ concat more @ blank @ rest \<and> (ls = [] \<or> skipped = []) \<and> ls @ more \<noteq> [] \<and>
       insert blank (set skipped) \<subseteq> {[newline], [CHR 13, newline]} \<and> list_all content_line more \<and>
       fr_Raw fr = concat (ls @ more) @ blank \<and> fr_Data fr = join_lines (List.map_filter data_field (ls @ more))"
proof (induction maxBytes fin st inp arbitrary: ls rule: Next_frame.induct)
  case (1 maxBytes fin st inp)
  show ?case
  proof (cases "readLine maxBytes fin (fs_raw st) inp")
    case (LineErr e raw)
    with 1(4) show ?thesis by (simp add: Next_frame.simps)
  next
    case (LineOk raw rs)
    from readLine_one[OF this] obtain body where b: "raw = fs_raw st @ body @ [newline]" "newline \<notin> set body" "inp = body @ [newline] @ rs" by blast
    define l where "l = body @ [newline]"
    define line where "line = strip_eol (drop (length (fs_raw st)) raw)"
    have line: "line = strip_eol l" and raw: "raw = concat ls @ l" "inp = l @ rs" using b 1(5) by (simp_all add: line_def l_def reading_def)
    note run = 1(4)[unfolded Next_frame_step[OF LineOk line_def]]
    have blank: "line = [] \<longleftrightarrow> l \<in> {[newline], [CHR 13, newline]}" unfolding line l_def by (rule strip_eol_blank)
    consider (skip) "line = []" "\<not> fs_sawData st \<and> \<not> fs_sawComment st \<and> \<not> fs_sawField st"
      | (emit) "line = []" "\<not> (\<not> fs_sawData st \<and> \<not> fs_sawComment st \<and> \<not> fs_sawField st)"
      | (comment) "line \<noteq> []" "hd line = CHR '':''" | (field) "line \<noteq> []" "hd line \<noteq> CHR '':''" by blast
    then show ?thesis
    proof cases
      case skip
      with run have n: "Next_frame maxBytes fin (st\<lparr>fs_raw := [], fs_event := []\<rparr>) rs = Inr (fr, rest)" by simp
      have ls: "ls = []" and "reading [] (st\<lparr>fs_raw := [], fs_event := []\<rparr>)" using skip(2) 1(5) by (auto simp: reading_def)
      from 1(1)[OF LineOk line_def refl skip n this(2)] obtain skipped more bl where
        "rs = concat skipped @ concat more @ bl @ rest" "more \<noteq> []" "insert bl (set skipped) \<subseteq> {[newline], [CHR 13, newline]}"
        "list_all content_line more" "fr_Raw fr = concat more @ bl" "fr_Data fr = join_lines (List.map_filter data_field more)" by auto
      then show ?thesis using ls raw blank skip(1) by (intro exI[of _ "l # skipped"] exI[of _ more] exI[of _ bl]) simp
    next
      case emit
      with run have "fr = finish_frame (st\<lparr>fs_raw := raw\<rparr>)" "rest = rs" by (auto split: if_splits)
      moreover have "ls \<noteq> []" using emit(2) 1(5) by (auto simp: reading_def)
      ultimately show ?thesis using raw blank emit(1) 1(5)
        by (intro exI[of _ "[]"] exI[of _ l]) (simp add: finish_frame_def reading_def)
    next
      case comment
      with run raw have n: "Next_frame maxBytes fin (st\<lparr>fs_raw := raw, fs_sawComment := True\<rparr>) rs = Inr (fr, rest)" by simp
      have "reading (ls @ [l]) (st\<lparr>fs_raw := raw, fs_sawComment := True\<rparr>)"
        unfolding raw by (rule reading_comment[OF 1(5)]) (use comment line in simp_all)
      from 1(2)[OF LineOk line_def refl comment n this] obtain more bl where
        "rs = concat more @ bl @ rest" "bl \<in> {[newline], [CHR 13, newline]}" "list_all content_line more"
        "fr_Raw fr = concat (ls @ l # more) @ bl" "fr_Data fr = join_lines (List.map_filter data_field (ls @ l # more))" by auto
      moreover have "content_line l" using comment(1) blank b(2) by (auto simp: content_line_def l_def)
      ultimately show ?thesis using raw by (intro exI[of _ "[]"] exI[of _ "l # more"] exI[of _ bl]) simp
    next
      case field
      with run raw have n: "Next_frame maxBytes fin (field_line line (st\<lparr>fs_raw := raw\<rparr>)) rs = Inr (fr, rest)" by simp
      have "reading (ls @ [l]) (field_line line (st\<lparr>fs_raw := raw\<rparr>))" unfolding raw line by (rule reading_field[OF 1(5)])
      from 1(3)[OF LineOk line_def refl field n this] obtain more bl where
        "rs = concat more @ bl @ rest" "bl \<in> {[newline], [CHR 13, newline]}" "list_all content_line more"
        "fr_Raw fr = concat (ls @ l # more) @ bl" "fr_Data fr = join_lines (List.map_filter data_field (ls @ l # more))" by auto
      moreover have "content_line l" using field(1) blank b(2) by (auto simp: content_line_def l_def)
      ultimately show ?thesis using raw by (intro exI[of _ "[]"] exI[of _ "l # more"] exI[of _ bl]) simp
    qed
  qed
qed

text \<open>
  C27: the event-stream reader never buffers a frame larger than its limit, which is at most one
  mebibyte whatever was configured, and it neither loses nor invents bytes: what it consumed is blank
  lines, which it skips, and then the raw frame it returns, which is one or more lines with content
  closed by a blank line; the data of the frame are the values of its \<open>data\<close> lines, joined by line
  feeds; and the rest of the input is untouched. So no content line is ever skipped, and a frame
  ends at the first blank line after its content.
\<close>

theorem frame_bounded_and_exact:
  assumes "Next maxBytes fin inp = Inr (fr, rest)"
  shows "length (fr_Raw fr) \<le> NewSSEReader_max maxBytes \<and> NewSSEReader_max maxBytes \<le> 1048576 \<and>
     (\<exists>skipped lines blank. inp = concat skipped @ fr_Raw fr @ rest \<and> insert blank (set skipped) \<subseteq> {[newline], [CHR 13, newline]} \<and>
        fr_Raw fr = concat lines @ blank \<and> lines \<noteq> [] \<and> list_all content_line lines \<and>
        fr_Data fr = join_lines (List.map_filter data_field lines))"
proof -
  note run = assms[unfolded Next_def]
  have "reading [] frame_start" by (simp add: reading_def frame_start_def)
  from Next_frame_exact[OF run this] obtain skipped lines blank where
    "inp = concat skipped @ concat lines @ blank @ rest" "lines \<noteq> []" "insert blank (set skipped) \<subseteq> {[newline], [CHR 13, newline]}"
    "list_all content_line lines" "fr_Raw fr = concat lines @ blank" "fr_Data fr = join_lines (List.map_filter data_field lines)" by auto
  moreover have "length (fr_Raw fr) \<le> NewSSEReader_max maxBytes" using Next_frame_bytes[OF run] by blast
  ultimately show ?thesis by (auto simp: NewSSEReader_max_def default_max_def)
qed

definition hello_stream :: string where
  "hello_stream = ''data: hi'' @ [newline, newline] @ ''data: x''"

lemma hello_next:
  "Next 64 StreamEOF hello_stream =
     Inr (\<lparr>fr_Event = [], fr_Data = ''hi'', fr_Raw = ''data: hi'' @ [newline, newline], fr_Comment = False\<rparr>, ''data: x'')"
  using Next_roundtrip[of "''hi''" "[]" 64 StreamEOF "''data: x''"]
  by (simp add: Next_def NewSSEReader_max_def default_max_def plain_line_def encode_data_def data_line_def hello_stream_def newline_def)

theorem frame_bounded_and_exact_witness:
  "\<exists>skipped lines blank. hello_stream = concat skipped @ (''data: hi'' @ [newline, newline]) @ ''data: x'' \<and>
     ''data: hi'' @ [newline, newline] = concat lines @ blank \<and> list_all content_line lines \<and>
     ''hi'' = join_lines (List.map_filter data_field lines)"
  using frame_bounded_and_exact[OF hello_next] by (simp only: SSEFrame.simps) blast

text \<open>
  The reader inverts the encoding of an event: data lines without line feeds (and without a
  carriage return at their end), written one per line and closed by a blank line, are read back as
  one frame whose data are these lines joined by line feeds, however many buffers they span, as
  long as they fit the limit.
\<close>

lemma frame_roundtrip:
  assumes "list_all plain_line (d # ds)" "length (encode_data (d # ds)) + 1 \<le> NewSSEReader_max maxBytes"
  shows "Next maxBytes fin (encode_data (d # ds) @ newline # rest) =
    Inr (\<lparr>fr_Event = [], fr_Data = join_lines (d # ds), fr_Raw = encode_data (d # ds) @ [newline], fr_Comment = False\<rparr>, rest)"
  unfolding Next_def using assms by (rule Next_roundtrip)

text \<open>
  A stream is only reported as completed when it really ended: \<open>ChatTerminal\<close>, \<open>ResponsesBridgeTerminal\<close>
  and \<open>ResponsesTerminal\<close> answer \<open>completed\<close> exactly when the client did not cancel, reading ended without an
  error and the end marker was seen (for the bridge, without being cut by the length limit), and then without error code.
\<close>

lemma completed_only_when_done:
  "(fst (ChatTerminal done e canceled) = ''completed'') = (\<not> canceled \<and> (e = ReadOk \<or> e = ReadEOF) \<and> done) \<and>
   (fst (ResponsesBridgeTerminal done reason e canceled) = ''completed'') =
      (\<not> canceled \<and> (e = ReadOk \<or> e = ReadEOF) \<and> done \<and> reason \<noteq> ''length'') \<and>
   (fst (ResponsesTerminal event e canceled) = ''completed'') = (\<not> canceled \<and> (e = ReadOk \<or> e = ReadEOF) \<and> event = ''response.completed'') \<and>
   (fst (ChatTerminal done e canceled) = ''completed'') = (snd (ChatTerminal done e canceled) = [])"
proof -
  have f: "read_failure e = None \<longleftrightarrow> e = ReadOk \<or> e = ReadEOF" by (cases e) (auto simp: read_failure_def)
  have nf: "read_failure e = Some (s, c) \<Longrightarrow> (s = ''failed'' \<or> s = ''aborted'') \<and> c \<noteq> []" for s c
    by (cases e) (auto simp: read_failure_def split: if_splits)
  show ?thesis
    by (cases "read_failure e")
      (use f nf in \<open>auto simp: ChatTerminal_def ResponsesBridgeTerminal_def ResponsesTerminal_def\<close>)
qed

section \<open>Listing requests\<close>

text \<open>
  C28: following the cursor from page to page delivers every matching request exactly once, newest
  first, whatever page size was chosen: no row is skipped or repeated at a page boundary, and the
  walk ends.
\<close>

theorem paging_is_complete:
  assumes wf: "wf_db db" and ids: "list_all (\<lambda>q. q_id q \<le> max_i64) (db_requests db)"
    and limit: "normalizedLimit (rf_Limit f) = Inr limit" and valid: "filter_valid f"
  shows "follow_pages (length (db_requests db) + 1) f db = rev (filter (matches f) (db_requests db)) \<and>
     distinct (follow_pages (length (db_requests db) + 1) f db)"
proof -
  have "length (matching f db) < length (db_requests db) + 1" by (simp add: matching_def less_Suc_eq_le)
  from follow_all[OF wf_dbD(1)[OF wf] _ limit valid this] ids
  have "follow_pages (length (db_requests db) + 1) f db = matching f db" by (simp add: list_all_iff)
  moreover have "distinct (db_requests db)" using tbl_wf_distinct[OF wf_dbD(1)[OF wf]] by (simp add: distinct_map)
  ultimately show ?thesis by (simp add: matching_def)
qed

definition any_request :: RequestFilter where
  "any_request = \<lparr>rf_RequestID = [], rf_Status = [], rf_Protocol = [], rf_ProviderID = 0, rf_ModelID = 0, rf_GroupID = 0,
     rf_KeyID = 0, rf_BeforeID = 0, rf_FromUTC = None, rf_ToUTC = None, rf_Limit = 1\<rparr>"

definition db_three :: db where
  "db_three = db_r\<lparr>db_requests := [sample_request, sample_request\<lparr>q_id := 2, q_request_id := ''r2''\<rparr>, sample_request\<lparr>q_id := 5, q_request_id := ''r5''\<rparr>]\<rparr>"

theorem paging_is_complete_witness:
  "map q_id (follow_pages 4 any_request db_three) = [5, 2, 1]"
proof -
  have w: "wf_db db_three" by code_simp
  have ids: "list_all (\<lambda>q. q_id q \<le> max_i64) (db_requests db_three)" by code_simp
  have l: "normalizedLimit (rf_Limit any_request) = Inr 1" "filter_valid any_request" by code_simp+
  have "map q_id (rev (filter (matches any_request) (db_requests db_three))) = [5, 2, 1]" by code_simp
  moreover have "length (db_requests db_three) + 1 = 4" by code_simp
  ultimately show ?thesis using paging_is_complete[OF w ids l] by simp
qed

text \<open>
  A request cursor survives its encoding: decoding the text of a positive 64-bit id gives the id
  back, and every text that decodes denotes a positive id.
\<close>

lemma cursor_roundtrip:
  "(DecodeRequestCursor (EncodeRequestCursor i) = Inr i) = (0 < i \<and> i \<le> max_i64) \<and> DecodeRequestCursor cursor \<noteq> Inr (- int n)"
proof -
  have pos: "DecodeRequestCursor s = Inr j \<Longrightarrow> 0 < j \<and> j \<le> max_i64" for s j
    by (auto simp: DecodeRequestCursor_def ParseInt_def in_i64_def Let_def split: option.splits if_splits prod.splits)
  have "DecodeRequestCursor cursor \<noteq> Inr (- int n)" using pos[of cursor "- int n"] by auto
  then show ?thesis using pos[of "EncodeRequestCursor i" i] cursor_decodes[of i] by blast
qed

end
