(* ===== verification/Go_Value.thy ===== *)
theory Go_Value
  imports Go_Text Complex_Main "HOL-Library.AList"
begin

text \<open>
  Decoded JSON as the relay handles it: Go's \<open>any\<close> with the dynamic types \<open>encoding/json\<close> produces.
  \<open>VFloat\<close> is a \<open>float64\<close> (as a rational: the token counts and indices read from it are exact below
  \<open>2 ^ 53\<close>), \<open>VNumber\<close> the literal kept by \<open>UseNumber\<close>, \<open>VInt\<close> an integer the relay itself put into a
  document, \<open>VMaps\<close> a \<open>[]map[string]any\<close> of the relay, which no assertion for \<open>[]any\<close> accepts. A map
  is an association list with distinct keys; encoding sorts keys, so their order carries no meaning. A
  failed type assertion yields the zero value, which for a map behaves like an empty map.
\<close>

datatype gval =
    VNil
  | VBool bool
  | VString string
  | VFloat rat
  | VNumber string
  | VInt int
  | VList "gval list"
  | VMap "(string \<times> gval) list"
  | VMaps "(string \<times> gval) list list"

type_synonym gmap = "(string \<times> gval) list"

text \<open>Reading a map: a missing key gives \<open>nil\<close>.\<close>

definition get :: "gmap \<Rightarrow> string \<Rightarrow> gval" where
  "get m k = (case map_of m k of None \<Rightarrow> VNil | Some v \<Rightarrow> v)"

definition has_key :: "gmap \<Rightarrow> string \<Rightarrow> bool" where
  "has_key m k \<longleftrightarrow> map_of m k \<noteq> None"

definition put :: "string \<Rightarrow> gval \<Rightarrow> gmap \<Rightarrow> gmap" where
  "put k v m = AList.update k v m"

definition as_map :: "gval \<Rightarrow> gmap" where
  "as_map v = (case v of VMap m \<Rightarrow> m | _ \<Rightarrow> [])"

definition is_map :: "gval \<Rightarrow> bool" where
  "is_map v = (case v of VMap m \<Rightarrow> True | _ \<Rightarrow> False)"

definition anySlice :: "gval \<Rightarrow> gval list" where
  "anySlice v = (case v of VList vs \<Rightarrow> vs | _ \<Rightarrow> [])"

definition is_list :: "gval \<Rightarrow> bool" where
  "is_list v = (case v of VList vs \<Rightarrow> True | _ \<Rightarrow> False)"

definition stringValue :: "gval \<Rightarrow> string" where
  "stringValue v = (case v of VString s \<Rightarrow> s | _ \<Rightarrow> [])"

definition boolValue :: "gval \<Rightarrow> bool" where
  "boolValue v = (case v of VBool b \<Rightarrow> b | _ \<Rightarrow> False)"

definition is_nil :: "gval \<Rightarrow> bool" where
  "is_nil v = (case v of VNil \<Rightarrow> True | _ \<Rightarrow> False)"

text \<open>\<open>number\<close> and the conversion \<open>int(float64)\<close>, which truncates.\<close>

definition number :: "gval \<Rightarrow> rat" where
  "number v = (case v of VFloat r \<Rightarrow> r | _ \<Rightarrow> 0)"

definition numberOr :: "gval \<Rightarrow> rat \<Rightarrow> rat" where
  "numberOr v fallback = (case v of VFloat r \<Rightarrow> r | _ \<Rightarrow> fallback)"

definition truncate_rat :: "rat \<Rightarrow> int" where
  "truncate_rat r = (if r < 0 then - \<lfloor>- r\<rfloor> else \<lfloor>r\<rfloor>)"

definition int_number :: "gval \<Rightarrow> int" where
  "int_number v = truncate_rat (number v)"

text \<open>
  \<open>json.Number.Int64\<close> is \<open>strconv.ParseInt\<close>, whose value survives a range error as the nearest bound
  and is zero after a syntax error.
\<close>

definition ParseInt_value :: "string \<Rightarrow> int" where
  "ParseInt_value s =
     (let (neg, body) = (case s of [] \<Rightarrow> (False, []) | c # cs \<Rightarrow> if c = CHR ''-'' then (True, cs) else if c = CHR ''+'' then (False, cs) else (False, s))
      in if body = [] \<or> \<not> list_all is_digit body then 0
         else let n = (if neg then - dec_value body else dec_value body) in max min_i64 (min max_i64 n))"

definition intValue :: "gval \<Rightarrow> int" where
  "intValue v = (case v of VFloat r \<Rightarrow> truncate_rat r | VNumber s \<Rightarrow> ParseInt_value s | VInt n \<Rightarrow> n | _ \<Rightarrow> 0)"

definition firstMap :: "gval \<Rightarrow> gmap" where
  "firstMap v = (case anySlice v of [] \<Rightarrow> [] | item # _ \<Rightarrow> as_map item)"

section \<open>Text of message contents\<close>

text \<open>\<open>nativeContentText\<close> of \<open>native.go\<close>: the texts of all parts, in order.\<close>

definition nativeContentText :: "gval \<Rightarrow> string" where
  "nativeContentText v =
     (case v of VString s \<Rightarrow> s | VList parts \<Rightarrow> concat (map (\<lambda>p. stringValue (get (as_map p) ''text'')) parts) | _ \<Rightarrow> [])"

text \<open>\<open>flattenResponseContent\<close> of \<open>responses.go\<close>.\<close>

definition flattenResponseContent :: "gval \<Rightarrow> string" where
  "flattenResponseContent v =
     (case v of
        VString s \<Rightarrow> s
      | VList parts \<Rightarrow>
          concat (map (\<lambda>p. if \<not> is_map p then []
                           else let t = stringValue (get (as_map p) ''text'') in if t \<noteq> [] then t else []) parts)
      | _ \<Rightarrow> [])"

text \<open>\<open>contentText\<close> of \<open>session.go\<close>: the non-empty texts, separated by NUL bytes.\<close>

fun join_with :: "string \<Rightarrow> string list \<Rightarrow> string" where
  "join_with sep [] = []"
| "join_with sep [s] = s"
| "join_with sep (s # t # ss) = s @ sep @ join_with sep (t # ss)"

definition contentText :: "gval \<Rightarrow> string" where
  "contentText v =
     (case v of
        VString s \<Rightarrow> s
      | VList parts \<Rightarrow> join_with [CHR 0x00] (filter (\<lambda>t. t \<noteq> []) (map (\<lambda>p. if is_map p then stringValue (get (as_map p) ''text'') else []) parts))
      | _ \<Rightarrow> [])"

section \<open>Lemmas\<close>

lemma get_put [simp]: "get (put k v m) j = (if j = k then v else get m j)"
  by (auto simp: get_def put_def update_conv')

lemma get_Nil [simp]: "get [] k = VNil"
  by (simp add: get_def)

lemma get_Cons [simp]: "get ((k, v) # m) j = (if j = k then v else get m j)"
  by (simp add: get_def)

lemma has_key_put [simp]: "has_key (put k v m) j \<longleftrightarrow> j = k \<or> has_key m j"
  by (auto simp: has_key_def put_def update_conv')

lemma has_key_Nil [simp]: "\<not> has_key [] k"
  by (simp add: has_key_def)

lemma has_key_Cons [simp]: "has_key ((k, v) # m) j \<longleftrightarrow> j = k \<or> has_key m j"
  by (simp add: has_key_def)

lemma gval_casts [simp]:
  "as_map (VMap m) = m" "anySlice (VList vs) = vs" "stringValue (VString s) = s" "boolValue (VBool b) = b"
  "as_map VNil = []" "anySlice VNil = []" "stringValue VNil = []" "boolValue VNil = False"
  "is_map (VMap m)" "is_list (VList vs)" "is_nil v \<longleftrightarrow> v = VNil" "number (VFloat r) = r" "number VNil = 0"
  by (simp_all add: as_map_def anySlice_def stringValue_def boolValue_def is_map_def is_list_def is_nil_def number_def
      split: gval.splits)

lemma flatten_is_native: "list_all is_map (anySlice v) \<Longrightarrow> flattenResponseContent v = nativeContentText v"
  by (cases v) (auto simp: flattenResponseContent_def nativeContentText_def anySlice_def list_all_iff Let_def
      intro!: arg_cong[where f = concat])

lemma int_number_int [simp]: "int_number (VFloat (of_int n)) = n"
  by (simp add: int_number_def truncate_rat_def floor_minus)

lemma intValue_range: "\<lbrakk>v = VNumber s\<rbrakk> \<Longrightarrow> in_i64 (intValue v)"
  by (auto simp: intValue_def ParseInt_value_def i64_defs Let_def split: prod.splits)

end
