(* ===== verification/Upstream_Client.thy ===== *)
theory Upstream_Client
  imports Providers SSE Go_Value
begin

text \<open>
  The transport boundary of \<open>internal/upstream\<close>: \<open>client.go\<close> (options, endpoints, headers and how a
  failed call becomes a coded error), \<open>options.go\<close> (the response body with its idle timeout) and
  \<open>session.go\<close> (session ids). What the network does in a call is an input of the call: whether the
  payload encodes, what \<open>http.Client.Do\<close> returns, the state of the context then.
\<close>

section \<open>Errors\<close>

text \<open>
  Go errors as far as the relay distinguishes them. \<open>GURL\<close> is the wrapper \<open>*url.Error\<close> every error of
  \<open>http.Client.Do\<close> comes in, \<open>GTimeout\<close> a transport error whose \<open>Timeout()\<close> holds, \<open>GUpstream\<close> the
  relay's own \<open>upstream.Error\<close> with code, status, stage and cause.
\<close>

datatype go_error =
    GEOF
  | GUnexpectedEOF
  | GCanceled
  | GDeadline
  | GTimeout
  | GText string
  | GURL go_error
  | GUpstream string int string "go_error option"

text \<open>\<open>errors.Is\<close> against one of the sentinel errors, along the chain of \<open>Unwrap\<close>.\<close>

fun error_is :: "go_error \<Rightarrow> go_error \<Rightarrow> bool" where
  "error_is (GURL e) target = error_is e target"
| "error_is (GUpstream code status stage cause) target = (case cause of None \<Rightarrow> False | Some e \<Rightarrow> error_is e target)"
| "error_is e target = (e = target)"

text \<open>\<open>errors.As\<close> with an \<open>*upstream.Error\<close>: code, status and stage of the first one in the chain.\<close>

fun as_upstream :: "go_error \<Rightarrow> (string \<times> int \<times> string) option" where
  "as_upstream (GURL e) = as_upstream e"
| "as_upstream (GUpstream code status stage cause) = Some (code, status, stage)"
| "as_upstream e = None"

text \<open>
  \<open>errors.As\<close> with a \<open>net.Error\<close> followed by \<open>Timeout()\<close>: \<open>*url.Error\<close> asks the error it wraps directly.
\<close>

fun direct_timeout :: "go_error \<Rightarrow> bool" where
  "direct_timeout (GURL e) = direct_timeout e"
| "direct_timeout e = (e = GTimeout \<or> e = GDeadline)"

fun net_timeout :: "go_error \<Rightarrow> bool" where
  "net_timeout (GUpstream code status stage cause) = (case cause of None \<Rightarrow> False | Some e \<Rightarrow> net_timeout e)"
| "net_timeout e = direct_timeout e"

datatype ctx_state = CtxLive | CtxCanceled | CtxDeadline

definition ctx_is :: "ctx_state \<Rightarrow> go_error \<Rightarrow> bool" where
  "ctx_is ctx target = (case ctx of CtxLive \<Rightarrow> False | CtxCanceled \<Rightarrow> target = GCanceled | CtxDeadline \<Rightarrow> target = GDeadline)"

definition Error_text :: "string \<Rightarrow> int \<Rightarrow> string" where
  "Error_text code status = (if status > 0 then code @ '' (status '' @ FormatInt status @ '')'' else code)"

section \<open>Clients\<close>

record Options =
  op_ConnectTimeout :: int
  op_HeaderTimeout :: int
  op_ReadTimeout :: int
  op_WriteTimeout :: int
  op_PoolTimeout :: int
  op_IdleTimeout :: int
  op_UserAgent :: string
  op_UpstreamSessionHeader :: string

record Client =
  cl_baseURL :: string
  cl_apiKey :: string
  cl_options :: Options
  cl_headerTimeout :: int
  cl_userAgent :: string
  cl_sessionHeader :: string
  cl_protocol :: string

definition SessionIDHeader :: string where
  "SessionIDHeader = ''x-opencode-session''"

definition DefaultUserAgent :: string where
  "DefaultUserAgent = ''civic-ai-relay/1.0''"

definition seconds :: "int \<Rightarrow> int" where
  "seconds n = n * 1000000000"

definition effectiveHeaderTimeout :: "int \<Rightarrow> int \<Rightarrow> int \<Rightarrow> int" where
  "effectiveHeaderTimeout explicit connect legacyRead = (if explicit > 0 then explicit else wrap64 (connect + legacyRead))"

definition isOpenCodeEndpoint :: "netlib \<Rightarrow> string \<Rightarrow> bool" where
  "isOpenCodeEndpoint net baseURL =
     (case url_parse net (trim_space baseURL) of
        None \<Rightarrow> False
      | Some u \<Rightarrow> let host = to_lower (u_hostname u) in host = ''opencode.ai'' \<or> has_suffix host ''.opencode.ai'')"

definition normalizeProtocol :: "string \<Rightarrow> string option" where
  "normalizeProtocol protocol =
     (let p = to_lower (trim_space protocol) in
      if p = [] \<or> p = ''openai'' then Some ''openai''
      else if p = ''anthropic'' \<or> p = ''gemini'' then Some p else None)"

definition default_options :: "Options \<Rightarrow> Options" where
  "default_options o1 = o1\<lparr>
     op_ConnectTimeout := (if op_ConnectTimeout o1 \<le> 0 then seconds 10 else op_ConnectTimeout o1),
     op_ReadTimeout := (if op_ReadTimeout o1 \<le> 0 then seconds 300 else op_ReadTimeout o1),
     op_WriteTimeout := (if op_WriteTimeout o1 \<le> 0 then seconds 30 else op_WriteTimeout o1),
     op_PoolTimeout := (if op_PoolTimeout o1 \<le> 0 then seconds 10 else op_PoolTimeout o1)\<rparr>"

definition session_header :: "netlib \<Rightarrow> string \<Rightarrow> string \<Rightarrow> string" where
  "session_header net baseURL configured =
     (let h = trim_space configured in
      if h = ''-'' then [] else if h = [] \<and> isOpenCodeEndpoint net baseURL then SessionIDHeader else h)"

definition NewWithOptions :: "netlib \<Rightarrow> string \<Rightarrow> string \<Rightarrow> Options \<Rightarrow> Client" where
  "NewWithOptions net baseURL apiKey options =
     (let o1 = default_options options; ua = trim_space (op_UserAgent o1) in
      \<lparr>cl_baseURL = trim_right (CHR ''/'') (trim_space baseURL), cl_apiKey = trim_space apiKey, cl_options = o1,
       cl_headerTimeout = effectiveHeaderTimeout (op_HeaderTimeout o1) (op_ConnectTimeout o1) (op_ReadTimeout o1),
       cl_userAgent = (if ua = [] then DefaultUserAgent else ua),
       cl_sessionHeader = session_header net baseURL (op_UpstreamSessionHeader o1), cl_protocol = ''openai''\<rparr>)"

definition NewWithProtocol :: "netlib \<Rightarrow> string \<Rightarrow> string \<Rightarrow> string \<Rightarrow> Options \<Rightarrow> Client" where
  "NewWithProtocol net baseURL apiKey protocol options =
     (NewWithOptions net baseURL apiKey options)\<lparr>cl_protocol := (case normalizeProtocol protocol of None \<Rightarrow> [] | Some p \<Rightarrow> p)\<rparr>"

definition client_endpoint :: "Client \<Rightarrow> string \<Rightarrow> string" where
  "client_endpoint c path =
     (let base = trim_right (CHR ''/'') (cl_baseURL c) in
      if has_suffix base ''/v1'' then base @ path else base @ ''/v1'' @ path)"

text \<open>
  The headers of a call, as an association list. The session id comes from the request's context or
  is derived from the payload (\<open>derived\<close>).
\<close>

definition request_headers :: "Client \<Rightarrow> string \<Rightarrow> string \<Rightarrow> (string \<times> string) list" where
  "request_headers c session derived =
     [(''Content-Type'', ''application/json''), (''User-Agent'', cl_userAgent c)] @
     (if cl_sessionHeader c \<noteq> [] then [(cl_sessionHeader c, if session = [] then derived else session)] else []) @
     (if cl_apiKey c \<noteq> [] then [(''Authorization'', ''Bearer '' @ cl_apiKey c)] else [])"

section \<open>One call\<close>

definition http_status_code :: "int \<Rightarrow> string" where
  "http_status_code status =
     (if status = 401 \<or> status = 403 then ''upstream_authentication_failed''
      else if status = 429 then ''upstream_rate_limited''
      else if status = 400 \<or> status = 404 \<or> status = 422 then ''upstream_request_rejected''
      else if status = 500 \<or> status = 502 \<or> status = 503 \<or> status = 504 then ''upstream_unavailable''
      else ''upstream_http_error'')"

definition nativeHTTPError :: "int \<Rightarrow> go_error" where
  "nativeHTTPError status = GUpstream (http_status_code status) status ''header'' None"

definition do_failure :: "ctx_state \<Rightarrow> bool \<Rightarrow> go_error \<Rightarrow> go_error" where
  "do_failure ctx wroteRequest err =
     (if ctx_is ctx GCanceled \<or> error_is err GCanceled then GUpstream ''client_canceled'' 0 ''request'' (Some err)
      else if ctx_is ctx GDeadline then GUpstream ''request_duration_exceeded'' 0 ''duration'' (Some err)
      else if net_timeout err then
        (if wroteRequest then GUpstream ''upstream_header_timeout'' 0 ''header'' (Some err)
         else GUpstream ''upstream_connect_timeout'' 0 ''connect'' (Some err))
      else GUpstream ''upstream_connection_failed'' 0 ''connect'' (Some err))"

record 'b call =
  ca_encodes :: bool
  ca_newRequest :: "go_error option"
  ca_ctx :: ctx_state
  ca_wroteRequest :: bool
  ca_do :: "go_error + int \<times> 'b"

definition accept_status :: "int \<times> 'b \<Rightarrow> go_error + int \<times> 'b" where
  "accept_status r = (if fst r < 200 \<or> fst r \<ge> 300 then Inl (nativeHTTPError (fst r)) else Inr r)"

definition client_request :: "'b call \<Rightarrow> go_error + int \<times> 'b" where
  "client_request w =
     bind_result (reject_when (\<not> ca_encodes w) (GUpstream ''upstream_request_invalid'' 0 [] None)) (\<lambda>_.
     case ca_newRequest w of
       Some e \<Rightarrow> Inl (GUpstream ''upstream_connection_failed'' 0 ''connect'' (Some e))
     | None \<Rightarrow>
         (case ca_do w of
            Inl e \<Rightarrow> Inl (do_failure (ca_ctx w) (ca_wroteRequest w) e)
          | Inr r \<Rightarrow> accept_status r))"

text \<open>\<open>requestNative\<close>: the same without the distinction of timeouts.\<close>

definition native_do_failure :: "ctx_state \<Rightarrow> go_error \<Rightarrow> go_error" where
  "native_do_failure ctx err =
     (if ctx_is ctx GCanceled \<or> error_is err GCanceled then GUpstream ''client_canceled'' 0 ''request'' (Some err)
      else if ctx_is ctx GDeadline then GUpstream ''request_duration_exceeded'' 0 ''duration'' (Some err)
      else GUpstream ''upstream_connection_failed'' 0 ''connect'' (Some err))"

definition requestNative :: "'b call \<Rightarrow> go_error + int \<times> 'b" where
  "requestNative w =
     bind_result (reject_when (\<not> ca_encodes w) (GUpstream ''upstream_request_invalid'' 0 [] None)) (\<lambda>_.
     case ca_newRequest w of
       Some e \<Rightarrow> Inl (GUpstream ''upstream_connection_failed'' 0 ''connect'' (Some e))
     | None \<Rightarrow> (case ca_do w of Inl e \<Rightarrow> Inl (native_do_failure (ca_ctx w) e) | Inr r \<Rightarrow> accept_status r))"

definition responseReadError :: "ctx_state \<Rightarrow> go_error \<Rightarrow> int \<Rightarrow> go_error" where
  "responseReadError ctx err status =
     (let fresh = (if error_is err GCanceled \<or> ctx_is ctx GCanceled then GUpstream ''client_canceled'' status ''request'' (Some err)
                   else if error_is err GDeadline \<or> ctx_is ctx GDeadline then GUpstream ''request_duration_exceeded'' status ''duration'' (Some err)
                   else GUpstream ''upstream_response_invalid'' status ''body'' (Some err))
      in case as_upstream err of
           Some (code, _) \<Rightarrow> if code \<noteq> ''upstream_stream_read_failed'' then err else fresh
         | None \<Rightarrow> fresh)"

text \<open>
  Reading the whole body of an answer, which arrives as bytes and the error that ended it (\<open>None\<close> after
  a clean end); \<open>endctx\<close> is the context by then.
\<close>

definition read_whole :: "ctx_state \<Rightarrow> go_error + int \<times> string \<times> go_error option \<Rightarrow> go_error + string" where
  "read_whole endctx r =
     bind_result r (\<lambda>(status, data, err). case err of None \<Rightarrow> Inr data | Some e \<Rightarrow> Inl (responseReadError endctx e status))"

section \<open>The response body\<close>

text \<open>
  \<open>timedBody\<close>: the body of a response with an idle timer. \<open>tb_canceled\<close> says that the body's own
  cancel function ran, \<open>tb_closes\<close> counts the calls that reached the underlying body.
\<close>

record timedBody =
  tb_status :: int
  tb_idle :: int
  tb_ctx :: ctx_state
  tb_timer :: bool
  tb_timedOut :: bool
  tb_done :: bool
  tb_canceled :: bool
  tb_closes :: nat

definition newTimedBody :: "int \<Rightarrow> int \<Rightarrow> timedBody" where
  "newTimedBody status idle = \<lparr>tb_status = status, tb_idle = idle, tb_ctx = CtxLive, tb_timer = idle > 0, tb_timedOut = False,
     tb_done = False, tb_canceled = False, tb_closes = 0\<rparr>"

definition body_cancel :: "timedBody \<Rightarrow> timedBody" where
  "body_cancel b = b\<lparr>tb_canceled := True, tb_ctx := (if tb_ctx b = CtxLive then CtxCanceled else tb_ctx b)\<rparr>"

definition closeUnderlying :: "timedBody \<Rightarrow> timedBody" where
  "closeUnderlying b = b\<lparr>tb_closes := (if tb_closes b = 0 then 1 else tb_closes b)\<rparr>"

text \<open>One \<open>Read\<close>: the underlying read delivered \<open>n\<close> bytes and perhaps an error.\<close>

definition read_error_of :: "timedBody \<Rightarrow> ctx_state \<Rightarrow> go_error option \<Rightarrow> go_error option" where
  "read_error_of b ctx err =
     (if tb_timedOut b then Some (GUpstream ''upstream_idle_timeout'' (tb_status b) ''idle'' (Some GDeadline))
      else case err of
        None \<Rightarrow> None
      | Some e \<Rightarrow> Some (
          if error_is e GEOF then GEOF
          else if error_is e GCanceled \<or> ctx_is ctx GCanceled then GUpstream ''client_canceled'' (tb_status b) ''request'' (Some e)
          else if error_is e GDeadline \<or> ctx_is ctx GDeadline then GUpstream ''request_duration_exceeded'' (tb_status b) ''duration'' (Some e)
          else GUpstream ''upstream_stream_read_failed'' (tb_status b) ''body'' (Some e)))"

definition body_read :: "nat \<Rightarrow> go_error option \<Rightarrow> timedBody \<Rightarrow> timedBody \<times> go_error option" where
  "body_read n err b =
     (let eof = (case err of None \<Rightarrow> False | Some e \<Rightarrow> error_is e GEOF);
          b1 = (if eof \<and> \<not> tb_timedOut b \<and> tb_ctx b = CtxLive then b\<lparr>tb_done := True, tb_timer := False\<rparr> else b);
          b2 = (if eof \<and> \<not> tb_timedOut b then body_cancel b1 else b1)
      in (b2, read_error_of b (tb_ctx b2) err))"

definition body_close :: "timedBody \<Rightarrow> timedBody" where
  "body_close b = closeUnderlying (body_cancel (b\<lparr>tb_done := True, tb_timer := False\<rparr>))"

definition body_expire :: "timedBody \<Rightarrow> timedBody" where
  "body_expire b = (if tb_done b then b else closeUnderlying (body_cancel (b\<lparr>tb_timedOut := True\<rparr>)))"

text \<open>
  What happens to a body: reads and the close of its owner, the timer firing while it is set, the end
  of the request's context, whose registered function closes the underlying body unless stopped.
\<close>

inductive body_step :: "timedBody \<Rightarrow> timedBody \<Rightarrow> bool" where
  read: "body_read n err b = (b', r) \<Longrightarrow> body_step b b'"
| close: "body_step b (body_close b)"
| expire: "tb_timer b \<Longrightarrow> body_step b (body_expire b)"
| ctx_ends: "tb_ctx b = CtxLive \<Longrightarrow> c \<noteq> CtxLive \<Longrightarrow>
    body_step b (if tb_done b then b\<lparr>tb_ctx := c\<rparr> else closeUnderlying (b\<lparr>tb_ctx := c\<rparr>))"

inductive_cases body_stepE: "body_step b b'"

lemma body_frame:
  "tb_status (fst (body_read n err b)) = tb_status b" "tb_timedOut (fst (body_read n err b)) = tb_timedOut b"
  "tb_closes (fst (body_read n err b)) = tb_closes b" "tb_done b \<Longrightarrow> tb_done (fst (body_read n err b))"
  by (simp_all add: body_read_def body_cancel_def Let_def)

text \<open>Whatever happens, the underlying body is closed at most once, and a body timed out is closed and canceled.\<close>

definition body_inv :: "timedBody \<Rightarrow> bool" where
  "body_inv b \<longleftrightarrow> tb_closes b \<le> 1 \<and> (tb_timedOut b \<longrightarrow> tb_closes b = 1 \<and> tb_canceled b \<and> tb_ctx b \<noteq> CtxLive)"

lemma body_read_inv: "body_inv b \<Longrightarrow> body_inv (fst (body_read n err b))"
  by (simp add: body_inv_def body_read_def body_cancel_def Let_def)

lemma body_step_inv: "body_step b b' \<Longrightarrow> body_inv b \<Longrightarrow> body_inv b'"
proof (induction rule: body_step.induct)
  case (read n err b b' r)
  then show ?case using body_read_inv[of b n err] by simp
qed (simp_all add: body_inv_def body_close_def body_expire_def closeUnderlying_def body_cancel_def)

lemma body_step_timedOut: "body_step b b' \<Longrightarrow> tb_timedOut b \<Longrightarrow> tb_timedOut b' \<and> tb_status b' = tb_status b"
proof (induction rule: body_step.induct)
  case (read n err b b' r)
  then show ?case using body_frame(1,2)[of n err b] by simp
qed (simp_all add: body_close_def body_expire_def closeUnderlying_def body_cancel_def)

section \<open>Session ids\<close>

text \<open>
  The id of an OpenCode session when the client sent none: the SHA-1 (a parameter) of the key and a
  fingerprint of the conversation, shaped like a version 5 UUID.
\<close>

definition hex_digit :: "nat \<Rightarrow> char" where
  "hex_digit n = (if n < 10 then char_of (48 + n) else char_of (87 + n))"

definition hex_encode :: "nat list \<Rightarrow> string" where
  "hex_encode bs = concat (map (\<lambda>b. [hex_digit (b div 16), hex_digit (b mod 16)]) bs)"

definition uuid_bits :: "nat list \<Rightarrow> nat list" where
  "uuid_bits digest = digest[6 := digest ! 6 mod 16 + 80, 8 := digest ! 8 mod 64 + 128]"

definition slice :: "nat \<Rightarrow> nat \<Rightarrow> 'a list \<Rightarrow> 'a list" where
  "slice i j xs = take (j - i) (drop i xs)"

fun first_user_text :: "gval list \<Rightarrow> string" where
  "first_user_text [] = []"
| "first_user_text (msg # rest) =
     (if \<not> is_map msg \<or> stringValue (get (as_map msg) ''role'') \<noteq> ''user'' then first_user_text rest
      else let t = contentText (get (as_map msg) ''content'') in if t \<noteq> [] then t else first_user_text rest)"

definition sessionFingerprint :: "gval \<Rightarrow> string" where
  "sessionFingerprint payload =
     (if \<not> is_map payload then []
      else let body = as_map payload; model = stringValue (get body ''model''); t = first_user_text (anySlice (get body ''messages''))
           in if t \<noteq> [] then model @ [CHR 0x00] @ t else model)"

definition deriveSessionID :: "(string \<Rightarrow> nat list) \<Rightarrow> string \<Rightarrow> gval \<Rightarrow> string" where
  "deriveSessionID sha1 apiKey payload =
     (let s = uuid_bits (sha1 (apiKey @ [CHR 0x00] @ sessionFingerprint payload)) in
      hex_encode (slice 0 4 s) @ ''-'' @ hex_encode (slice 4 6 s) @ ''-'' @ hex_encode (slice 6 8 s) @ ''-'' @
      hex_encode (slice 8 10 s) @ ''-'' @ hex_encode (slice 10 16 s))"

text \<open>The id depends on the key, the model and the first user message only: a conversation keeps its session.\<close>

lemma session_sticky:
  "first_user_text msgs \<noteq> [] \<Longrightarrow> first_user_text (msgs @ later) = first_user_text msgs"
  by (induction msgs) (auto simp: Let_def)

section \<open>What a failure is called\<close>

lemma do_failure_code: "as_upstream (do_failure ctx w e) = Some (c, s, st) \<Longrightarrow> s = 0 \<and> c \<noteq> []"
  by (auto simp: do_failure_def split: if_splits)

lemma do_failure_shape: "\<exists>code stage. do_failure ctx w e = GUpstream code 0 stage (Some e) \<and> code \<noteq> []"
  unfolding do_failure_def by (simp split: if_splits)

lemma accept_status_Inl:
  "accept_status r = Inl e \<Longrightarrow> \<exists>code status stage cause. e = GUpstream code status stage cause \<and> code \<noteq> [] \<and> \<not> (200 \<le> status \<and> status < 300)"
  by (auto simp: accept_status_def nativeHTTPError_def http_status_code_def split: if_splits)

lemma client_request_Inl:
  assumes "client_request w = Inl e"
  shows "\<exists>code status stage cause. e = GUpstream code status stage cause \<and> code \<noteq> [] \<and> \<not> (200 \<le> status \<and> status < 300)"
proof (cases "ca_do w")
  case (Inl x)
  then show ?thesis using assms do_failure_shape[of "ca_ctx w" "ca_wroteRequest w" x]
    by (fastforce simp: client_request_def bind_result_Inl split: option.splits)
next
  case (Inr r)
  then show ?thesis using assms accept_status_Inl[of r e]
    by (auto simp: client_request_def bind_result_Inl split: option.splits)
qed

lemma client_request_Inr: "client_request w = Inr r \<Longrightarrow> 200 \<le> fst r \<and> fst r < 300"
  by (auto simp: client_request_def accept_status_def bind_result_Inr split: option.splits sum.splits if_splits)

lemma requestNative_Inr: "requestNative w = Inr r \<Longrightarrow> 200 \<le> fst r \<and> fst r < 300"
  by (auto simp: requestNative_def accept_status_def bind_result_Inr split: option.splits sum.splits if_splits)

end
