(* ===== verification/Closing.thy ===== *)
theory Closing
  imports Relay_Machine
begin

text \<open>
  Why closing a lease succeeds. The row of a lease that no settlement has been tried for stays
  reserved whatever else the process does, so every well-formed outcome is accepted for it, and the
  retries carry it through a busy database.
\<close>

section \<open>Untried leases hold their rows\<close>

definition held :: "int \<Rightarrow> db \<Rightarrow> bool" where
  "held i db \<longleftrightarrow> (\<exists>q \<in> set (db_requests db). q_id q = i \<and> q_status q = ''reserved'')"

definition untried :: "Service \<Rightarrow> int \<Rightarrow> bool" where
  "untried sv i \<longleftrightarrow> (\<exists>l. sv_leases sv i = Some l \<and> \<not> le_settled l \<and> le_frozen l = None)"

definition holds_rows :: "Service \<Rightarrow> bool" where
  "holds_rows sv \<longleftrightarrow> (\<forall>i. untried sv i \<longrightarrow> held i (sv_db sv))"

lemma untried_open: "untried sv i \<Longrightarrow> i \<in> open_leases sv"
  by (auto simp: untried_def open_leases_def)

lemma held_find: "wf_db db \<Longrightarrow> held i db \<Longrightarrow> \<exists>q. tbl_find q_id i (db_requests db) = Some q \<and> q_status q = ''reserved''"
  using tbl_find_iff[OF wf_dbD(1)] by (fastforce simp: held_def)

lemma held_map:
  assumes "map (\<lambda>q. (q_id q, q_status q)) (db_requests db') = map (\<lambda>q. (q_id q, q_status q)) (db_requests db)"
  shows "held i db' = held i db"
proof -
  have "held i x \<longleftrightarrow> (i, ''reserved'') \<in> set (map (\<lambda>q. (q_id q, q_status q)) (db_requests x))" for x
    by (force simp: held_def)
  note eq = this
  show ?thesis unfolding eq assms ..
qed

lemma delete_models_statuses:
  "delete_models P db = Inr db' \<Longrightarrow> map (\<lambda>q. (q_id q, q_status q)) (db_requests db') = map (\<lambda>q. (q_id q, q_status q)) (db_requests db)"
  by (auto simp: delete_models_def Let_def bind_result_Inr delete_reservations_frame)

lemma delete_row_statuses:
  "delete_provider_row i db = Inr db' \<Longrightarrow> map (\<lambda>q. (q_id q, q_status q)) (db_requests db') = map (\<lambda>q. (q_id q, q_status q)) (db_requests db)"
  "delete_key_row i db = Inr db' \<Longrightarrow> map (\<lambda>q. (q_id q, q_status q)) (db_requests db') = map (\<lambda>q. (q_id q, q_status q)) (db_requests db)"
  "delete_group_row i db = Inr db' \<Longrightarrow> map (\<lambda>q. (q_id q, q_status q)) (db_requests db') = map (\<lambda>q. (q_id q, q_status q)) (db_requests db)"
  by (auto simp: delete_provider_row_def delete_key_row_def delete_group_row_def bind_result_Inr
      delete_reservations_frame delete_models_statuses o_def)

lemma console_statuses:
  "console_step db db' \<Longrightarrow> map (\<lambda>q. (q_id q, q_status q)) (db_requests db') = map (\<lambda>q. (q_id q, q_status q)) (db_requests db)"
  by (induction rule: console_step.induct)
    (auto simp: console_defs Let_def bind_result_Inr split: if_splits prod.splits
      dest: delete_row_statuses delete_models_statuses)

lemma console_held: "console_step db db' \<Longrightarrow> held i db' = held i db"
  by (rule held_map) (rule console_statuses)

lemma reserve_held:
  assumes "ReserveRequest plat now db inp = Inr (db', res)"
  shows "held i db \<Longrightarrow> held i db'" "held (res_ID res) db'"
proof -
  obtain plan k q gid amount where ins: "reserve_insert db inp plan q gid amount = Inr (db', res)"
    using assms by (rule ReserveRequest_InrE) blast
  note r = reserve_insert_Inr[OF ins]
  show "held i db \<Longrightarrow> held i db'" by (auto simp: held_def r(1) set_insert_request)
  show "held (res_ID res) db'" by (simp add: held_def r(1,2) set_insert_request) (simp add: new_request_row_def)
qed

lemma finish_held:
  assumes "FinishReservation now j o1 db = Inr db'" "i \<noteq> j" "held i db"
  shows "held i db'"
  using assms(1)
proof (cases rule: FinishReservation_InrE)
  case (settled o2 q kr)
  obtain x where "x \<in> set (db_requests db)" "q_id x = i" "q_status x = ''reserved''" using assms(3) by (auto simp: held_def)
  with assms(2) show ?thesis
    by (auto simp: held_def settled tbl_update_def intro!: bexI[of _ x])
qed (use assms in simp)

lemma settle_held:
  assumes "settleWithRetry (\<lambda>now. FinishReservation now j o1) a1 a2 a3 db = (db', r)" "i \<noteq> j" "held i db"
  shows "held i db'"
  using settle_db(1)[OF assms(1)] finish_held[OF _ assms(2,3)] assms(3) by blast

lemma Begin_holds:
  assumes inv: "service_inv sv" and h: "holds_rows sv" and run: "Begin ev configured d req sv = (sv', r)"
  shows "holds_rows sv'"
proof (cases r)
  case (Inl e)
  have "sv_db sv' = sv_db sv" "sv_leases sv' = sv_leases sv" using Begin_failure[OF inv run[unfolded Inl]] by auto
  with h show ?thesis by (simp add: holds_rows_def untried_def)
next
  case (Inr l)
  obtain plat now inp where res: "ReserveRequest plat now (sv_db sv) inp = Inr (sv_db sv', le_reservation l)"
    and ls: "sv_leases sv' = (sv_leases sv)(res_ID (le_reservation l) := Some l)"
    by (rule Begin_success[OF inv run[unfolded Inr]]) auto
  show ?thesis
    unfolding holds_rows_def
  proof (intro allI impI)
    fix i
    assume "untried sv' i"
    then show "held i (sv_db sv')"
      using h reserve_held(1)[OF res, of i] reserve_held(2)[OF res] ls
      by (cases "i = res_ID (le_reservation l)") (auto simp: holds_rows_def untried_def)
  qed
qed

lemma Close_holds:
  assumes inv: "service_inv sv" and h: "holds_rows sv" and run: "Close ev a1 a2 a3 i outcome sv = (sv', r)"
  shows "holds_rows sv'"
proof (cases "\<exists>l. sv_leases sv i = Some l \<and> \<not> le_settled l")
  case False
  with run have "sv' = sv" by (auto simp: Close_def split: option.splits)
  with h show ?thesis by simp
next
  case True
  then obtain l where l: "sv_leases sv i = Some l" "\<not> le_settled l" by blast
  have rel: "\<not> le_released l" "res_ID (le_reservation l) = i" using service_invD(8)[OF inv l(1)] l(2) by (simp_all add: lease_ok_def)
  obtain o1 db where c0: "o1 = enrich ev l (freeze outcome l)"
    and c: "settleWithRetry (\<lambda>now. FinishReservation now (res_ID (le_reservation l)) (settlement_of o1)) a1 a2 a3 (sv_db sv) = (db, r)"
    "r \<noteq> None \<longrightarrow> sv' = close_failed i (l\<lparr>le_frozen := Some o1\<rparr>) db sv" "r = None \<longrightarrow> sv' = close_settled i (l\<lparr>le_frozen := Some o1\<rparr>) db sv"
    by (rule Close_cases[OF run l])
  have new: "sv_db sv' = db \<and> (\<exists>l'. le_frozen l' \<noteq> None \<and> sv_leases sv' = (sv_leases sv)(i := Some l'))"
  proof (cases "r = None")
    case True
    with c(3) close_settled_frame(1,4)[of "l\<lparr>le_frozen := Some o1\<rparr>" i db sv] rel
    show ?thesis by (simp, intro exI[of _ "l\<lparr>le_frozen := Some o1, le_settled := True, le_released := True\<rparr>"]) simp
  next
    case False
    with c(2) show ?thesis by (simp add: close_failed_def, intro exI[of _ "l\<lparr>le_frozen := Some o1\<rparr>"]) simp
  qed
  then have "untried sv' j \<Longrightarrow> j \<noteq> i \<and> untried sv j" for j by (auto simp: untried_def split: if_splits)
  then show ?thesis using h settle_held[OF c(1)] rel(2) new by (simp add: holds_rows_def)
qed

lemma RunOnce_holds: "service_inv sv \<Longrightarrow> holds_rows sv \<Longrightarrow> RunOnce ev faults ids n first sv = (sv', m, e) \<Longrightarrow> holds_rows sv'"
proof (induction ids arbitrary: n first sv)
  case (Cons i ids)
  obtain a1 a2 a3 where f: "faults i = (a1, a2, a3)" using prod_cases3 by blast
  obtain mid r where c: "Close ev a1 a2 a3 i blank_outcome sv = (mid, r)" by fastforce
  from Cons.prems f c obtain n' e' where "RunOnce ev faults ids n' e' mid = (sv', m, e)" by (cases r) auto
  with Cons.IH[OF Close_inv[OF Cons.prems(1) c] Close_holds[OF Cons.prems(1,2) c]] show ?case by blast
qed simp

lemma reap_held:
  assumes "ReapOrphanReservations plat now cutoff act pend db = Inr (db', n)" "held i db" "i \<in> set (excluded_ids act pend)"
  shows "held i db'"
  using assms(2,3) by (force simp: held_def ReapOrphan_Inr(1)[OF assms(1)] stale_request_def)

lemma prune_held: "Prune cutoff db = Inr (db', n) \<Longrightarrow> held i db \<Longrightarrow> held i db'"
  by (drule Prune_Inr(1)) (auto simp: held_def prunable_request_def)

lemma holds_rows_db: "holds_rows sv \<Longrightarrow> (\<And>i. untried sv i \<Longrightarrow> held i (sv_db sv) \<Longrightarrow> held i db) \<Longrightarrow> holds_rows (sv\<lparr>sv_db := db\<rparr>)"
  by (simp add: holds_rows_def untried_def)

lemma reap_pass_holds:
  assumes inv: "service_inv sv" and h: "holds_rows sv" and ids: "set act = sv_active sv" "set pend = sv_pending sv"
  shows "holds_rows (reap_pass plat now cutoff act pend sv)"
proof (cases "ReapOrphanReservations plat now cutoff act pend (sv_db sv)")
  case (Inl e)
  with h show ?thesis by (simp add: reap_pass_def)
next
  case (Inr r)
  then obtain db n where r: "ReapOrphanReservations plat now cutoff act pend (sv_db sv) = Inr (db, n)" by (cases r) simp
  have "i \<in> set (excluded_ids act pend)" if u: "untried sv i" for i
  proof -
    have "i \<in> set act \<union> set pend" using untried_open[OF u] service_invD(9)[OF inv] ids by simp
    moreover have "0 < i"
      using untried_open[OF u] service_invD(11)[OF inv] tbl_wf_pos[OF wf_dbD(1)[OF service_invD(1)[OF inv]]] by blast
    ultimately show ?thesis by (auto simp: excluded_ids_def)
  qed
  then have "holds_rows (sv\<lparr>sv_db := db\<rparr>)" by (intro holds_rows_db[OF h] reap_held[OF r])
  with r show ?thesis by (simp add: reap_pass_def)
qed

lemma relay_step_holds:
  assumes "relay_step sv sv'" "service_inv sv" "holds_rows sv"
  shows "holds_rows sv'"
  using assms
proof (induction rule: relay_step.induct)
  case (drain sv)
  then show ?case by (simp add: BeginDraining_def holds_rows_def untried_def)
next
  case (console sv db')
  then show ?case by (intro holds_rows_db) (simp_all add: console_held)
next
  case (retain cutoff sv db' n)
  then show ?case by (intro holds_rows_db) (auto intro: prune_held)
next
  case (track sv i)
  then show ?case by (simp add: holds_rows_def untried_def)
qed (blast intro: Begin_holds Close_holds RunOnce_holds reap_pass_holds)+

lemma relay_reachable_holds: "relay_reachable sv \<Longrightarrow> holds_rows sv"
proof (induction rule: relay_reachable.induct)
  case (start db settings)
  then show ?case by (simp add: holds_rows_def untried_def NewService_def)
next
  case (step sv sv')
  then show ?case using relay_step_holds relay_reachable_inv by blast
qed

section \<open>Well-formed outcomes\<close>

text \<open>What a handler may report: no negative figure, a final status, durations left to the trace.\<close>

definition outcome_ok :: "Outcome \<Rightarrow> bool" where
  "outcome_ok o1 \<longleftrightarrow> 0 \<le> oc_InputTokens o1 \<and> 0 \<le> oc_OutputTokens o1 \<and> 0 \<le> oc_CachedInputTokens o1 \<and> 0 \<le> oc_AmountMicroyuan o1 \<and>
     0 \<le> oc_HTTPStatus o1 \<and> oc_InputTokens o1 + oc_OutputTokens o1 \<le> max_i64 \<and>
     oc_Status o1 \<in> {''completed'', ''failed'', ''aborted'', ''rejected''} \<and>
     oc_DurationMS o1 = None \<and> oc_HeaderMS o1 = None \<and> oc_FirstEventMS o1 = None \<and> oc_LastUpstreamMS o1 = None"

lemma millisSince_not_negative: "\<not> negative_opt (millisSince start at)"
  using millisSince_nonneg[of start at] by (auto simp: negative_opt_def split: option.splits)

lemma enrich_durations:
  assumes "oc_DurationMS o1 = None" "oc_HeaderMS o1 = None" "oc_FirstEventMS o1 = None" "oc_LastUpstreamMS o1 = None"
  shows "list_all (\<lambda>v. \<not> negative_opt v) [oc_DurationMS (enrich ev l o1), oc_HeaderMS (enrich ev l o1),
     oc_FirstEventMS (enrich ev l o1), oc_LastUpstreamMS (enrich ev l o1)]"
proof (cases "ev_trace ev")
  case None
  with assms show ?thesis by (simp add: enrich_def Let_def negative_opt_def)
next
  case (Some t)
  with assms show ?thesis
    by (simp add: enrich_def Let_def default_opt_def Trace_Snapshot_def millisSince_not_negative)
qed

lemma enrich_keeps [simp]:
  "oc_Status (enrich ev l o1) = oc_Status o1" "oc_AmountMicroyuan (enrich ev l o1) = oc_AmountMicroyuan o1"
  "oc_HTTPStatus (enrich ev l o1) = oc_HTTPStatus o1" "oc_InputTokens (enrich ev l o1) = oc_InputTokens o1"
  "oc_OutputTokens (enrich ev l o1) = oc_OutputTokens o1" "oc_CachedInputTokens (enrich ev l o1) = oc_CachedInputTokens o1"
  "oc_ErrorCode (enrich ev l o1) = oc_ErrorCode o1" "oc_UsageSource (enrich ev l o1) = oc_UsageSource o1"
  by (simp_all add: enrich_def Let_def split: option.splits)

lemma outcome_ok_valid:
  assumes "outcome_ok o1" "0 < i"
  shows "validate_settlement i (settlement_of (enrich ev l o1)) = Inr (with_defaults (settlement_of (enrich ev l o1)))"
proof -
  have "list_all (\<lambda>v. \<not> negative_opt v) [oc_DurationMS (enrich ev l o1), oc_HeaderMS (enrich ev l o1),
     oc_FirstEventMS (enrich ev l o1), oc_LastUpstreamMS (enrich ev l o1)]"
    using assms(1) by (intro enrich_durations) (simp_all add: outcome_ok_def)
  moreover have "\<not> oc_InputTokens o1 > max_i64 - oc_OutputTokens o1" using assms(1) by (simp add: outcome_ok_def)
  ultimately show ?thesis using assms
    by (auto simp: validate_settlement_def settlement_of_def with_defaults_def reject_when_def Let_def not_le outcome_ok_def)
qed

lemma PriceUsage_range: "0 \<le> PriceUsage usage m" "PriceUsage usage m \<le> max_i64"
  unfolding PriceUsage_eq by (simp_all add: charge_nonneg max_i64_def)

text \<open>
  Closing an untried lease with a well-formed outcome succeeds when the database is at most busy in
  the first two attempts: the outcome is recorded, the lease is settled and nothing else is open or
  closed by it.
\<close>

lemma outcome_closes:
  assumes inv: "service_inv sv" and h: "holds_rows sv" and l: "sv_leases sv i = Some l" "\<not> le_settled l" "le_frozen l = None"
    and ok: "outcome_ok o1" and busy: "tolerable a1" "tolerable a2"
    and run: "Close ev a1 a2 (Clean t) i o1 sv = (sv', r)"
  shows "r = None" "\<exists>l'. le_settled l' \<and> le_keyID l' = le_keyID l \<and> sv_leases sv' = (sv_leases sv)(i := Some l')" "service_inv sv'"
    "\<exists>q now. tbl_find q_id i (db_requests (sv_db sv')) = Some (settle_request now (with_defaults (settlement_of (enrich ev l o1))) q)"
proof -
  let ?s = "settlement_of (enrich ev l o1)"
  have wf: "wf_db (sv_db sv)" "ledger_inv (sv_db sv)" using service_invD[OF inv] by blast+
  have i: "res_ID (le_reservation l) = i" "\<not> le_released l" using service_invD(8)[OF inv l(1)] l(2) by (simp_all add: lease_ok_def)
  have "held i (sv_db sv)" using h l by (auto simp: holds_rows_def untried_def)
  from held_find[OF wf(1) this] obtain q where q: "tbl_find q_id i (db_requests (sv_db sv)) = Some q" "q_status q = ''reserved''" by blast
  have pos: "0 < i" using tbl_wf_pos[OF wf_dbD(1)[OF wf(1)]] tbl_find_Some[OF q(1)] by blast
  note v = outcome_ok_valid[OF ok pos, of ev l]
  have fr: "freeze o1 l = o1" using l(3) ok by (auto simp: freeze_def outcome_ok_def)
  obtain o2 db where c0: "o2 = enrich ev l (freeze o1 l)"
    and c: "settleWithRetry (\<lambda>now. FinishReservation now (res_ID (le_reservation l)) (settlement_of o2)) a1 a2 (Clean t) (sv_db sv) = (db, r)"
    "r \<noteq> None \<longrightarrow> sv' = close_failed i (l\<lparr>le_frozen := Some o2\<rparr>) db sv" "r = None \<longrightarrow> sv' = close_settled i (l\<lparr>le_frozen := Some o2\<rparr>) db sv"
    by (rule Close_cases[OF run l(1,2)])
  have c1: "settleWithRetry (\<lambda>now. FinishReservation now i ?s) a1 a2 (Clean t) (sv_db sv) = (db, r)" using c(1) c0 fr i(1) by simp
  show r: "r = None" using finish_store.settle_survives[OF finish_total[OF wf q v] busy, of t] c1 by simp
  note fs = close_settled_frame[of "l\<lparr>le_frozen := Some o2\<rparr>" i db sv]
  show "\<exists>l'. le_settled l' \<and> le_keyID l' = le_keyID l \<and> sv_leases sv' = (sv_leases sv)(i := Some l')"
    using c(3) r fs(4) i(2) by (intro exI[of _ "l\<lparr>le_frozen := Some o2, le_settled := True, le_released := True\<rparr>"]) simp
  show "service_inv sv'" by (rule Close_inv[OF inv run])
  obtain now where fin: "FinishReservation now i ?s (sv_db sv) = Inr db" using settle_db(2)[OF c1 r] by blast
  have "sv_db sv' = db" using c(3) r fs(1) i(2) by simp
  moreover have "\<exists>q now. tbl_find q_id i (db_requests db) = Some (settle_request now (with_defaults ?s) q)"
    using fin
  proof (cases rule: FinishReservation_InrE)
    case (settled o3 q3 kr)
    then have "o3 = with_defaults ?s" using v by simp
    then show ?thesis using settled by (intro exI[of _ q3] exI[of _ now]) (simp add: tbl_find_update)
  qed (use q in simp)
  ultimately show "\<exists>q now. tbl_find q_id i (db_requests (sv_db sv')) = Some (settle_request now (with_defaults ?s) q)" by simp
qed

lemma Begin_lease:
  assumes "Begin ev configured d req sv = (sv1, Inr l)"
  shows "sv_leases sv1 = (sv_leases sv)(res_ID (le_reservation l) := Some l)" "\<not> le_settled l" "\<not> le_released l" "le_frozen l = None"
    "\<exists>m. le_model l = effective (priceSnapshot (le_reservation l)) m" "le_streamed l = rq_Stream req"
proof -
  obtain settings key model out mid where adm: "begin_admit d key (with_limit configured sv) = (mid, None)"
    and res: "begin_reserve ev settings req key model out mid = (sv1, Inr l)"
    using assms by (cases rule: Begin_cases) auto
  have mid: "sv_leases mid = sv_leases sv"
    using adm by (auto simp: begin_admit_def split: if_splits prod.splits)
  obtain r where l: "l = new_lease ev req key model r" and sv1: "sv_leases sv1 = (sv_leases mid)(res_ID r := Some l)"
    using res by (auto simp: begin_reserve_def Let_def split: sum.splits)
  show "sv_leases sv1 = (sv_leases sv)(res_ID (le_reservation l) := Some l)" "\<not> le_settled l" "\<not> le_released l" "le_frozen l = None"
    "le_streamed l = rq_Stream req"
    using sv1 mid by (simp_all add: l new_lease_def)
  show "\<exists>m. le_model l = effective (priceSnapshot (le_reservation l)) m" by (rule exI[of _ model]) (simp add: l new_lease_def)
qed

text \<open>A request admitted and closed leaves the leases and the gates as it found them.\<close>

lemma begin_close_even:
  assumes inv: "service_inv sv" and h: "holds_rows sv" and begun: "Begin ev configured d req sv = (sv1, Inr l)"
    and ok: "outcome_ok o1" and busy: "tolerable a1" "tolerable a2" and i: "i = res_ID (le_reservation l)"
    and run: "Close ev a1 a2 (Clean t) i o1 (sv1\<lparr>sv_upstream := u\<rparr>) = (sv', r)"
  shows "r = None" "open_leases sv' = open_leases sv" "gt_active (sv_global sv') = gt_active (sv_global sv)"
    "KeyGates_Active k (sv_keys sv') = KeyGates_Active k (sv_keys sv)"
    "\<exists>q now. tbl_find q_id i (db_requests (sv_db sv')) = Some (settle_request now (with_defaults (settlement_of (enrich ev l o1))) q)"
proof -
  let ?s = "sv1\<lparr>sv_upstream := u\<rparr>"
  note b = Begin_lease[OF begun]
  have inv1: "service_inv ?s" by (rule track_keeps_inv[OF Begin_keeps_inv[OF inv begun]])
  have h1: "holds_rows ?s" using Begin_holds[OF inv h begun] by (simp add: holds_rows_def untried_def)
  have "i \<notin> q_id ` set (db_requests (sv_db sv))" by (rule Begin_success[OF inv begun]) (simp add: i)
  then have fresh: "i \<notin> open_leases sv" using service_invD(11)[OF inv] by blast
  have l: "sv_leases ?s i = Some l" using b(1) by (simp add: i)
  note c = outcome_closes[OF inv1 h1 l b(2,4) ok busy run]
  show "r = None" by (rule c(1))
  show "\<exists>q now. tbl_find q_id i (db_requests (sv_db sv')) = Some (settle_request now (with_defaults (settlement_of (enrich ev l o1))) q)" by (rule c(4))
  obtain l' where l': "le_settled l'" "sv_leases sv' = (sv_leases sv)(i := Some l')" using c(2) b(1) by (auto simp: i)
  show opens: "open_leases sv' = open_leases sv" using l' fresh by (auto simp: open_leases_def split: if_splits)
  have keyed: "open_for_key k sv' = open_for_key k sv" using l' fresh by (auto simp: open_leases_def open_for_key_def split: if_splits)
  show "gt_active (sv_global sv') = gt_active (sv_global sv)" using service_invD(5)[OF c(3)] service_invD(5)[OF inv] opens by simp
  show "KeyGates_Active k (sv_keys sv') = KeyGates_Active k (sv_keys sv)" using service_invD(6)[OF c(3)] service_invD(6)[OF inv] keyed by simp
qed

lemma Begin_input_tokens:
  assumes "service_inv sv" "Begin ev configured d req sv = (sv1, Inr l)"
  shows "0 < res_InputTokens (le_reservation l)" "res_InputTokens (le_reservation l) \<le> max_i64"
proof -
  obtain plat now inp db where "ReserveRequest plat now (sv_db sv) inp = Inr (db, le_reservation l)"
    by (rule Begin_success[OF assms]) blast
  then obtain plan q gid amount where v: "reserve_validate now inp = Inr plan" and ins: "reserve_insert (sv_db sv) inp plan q gid amount = Inr (db, le_reservation l)"
    by (rule ReserveRequest_InrE)
  have "rp_reservedTokens plan \<le> max_i64" using wrap64_in_i64 reserve_validate_Inr(6)[OF v] by (metis in_i64_def)
  then show "0 < res_InputTokens (le_reservation l)" "res_InputTokens (le_reservation l) \<le> max_i64"
    using reserve_validate_Inr(2,5)[OF v] reserve_insert_Inr(9)[OF ins] by simp_all
qed

end
