(* ===== verification/Stream_Session.thy ===== *)
theory Stream_Session
  imports Upstream_Client Closing
begin

text \<open>
  Streaming responses: \<open>PrepareStream\<close> and \<open>Stream\<close> of \<open>internal/relay/service.go\<close>, the session of
  \<open>internal/httpapi/stream_session.go\<close> and the two handlers built on it, \<open>stream\<close> (\<open>public.go\<close>) and
  \<open>responsesStream\<close> (\<open>responses.go\<close>).

  A producer opens the upstream and reads its frames; the handler takes its results one by one,
  between heartbeats, admission checks and the end of the request's context. In which order these
  happen is a schedule, which write to the client fails is a list of verdicts (once it is exhausted
  every write succeeds); both are inputs. Decoding a chunk is a parameter. The marks on the request's
  trace reach the settlement through the environment given to \<open>Close\<close>.
\<close>

section \<open>The prepared stream\<close>

text \<open>
  \<open>pr_ctx\<close> is the upstream context, bounded by the maximal duration; \<open>pr_body\<close> says whether a body is
  recorded for \<open>Cancel\<close> to close, \<open>pr_closed\<close> whether it has been closed.
\<close>

record prepared =
  pr_opened :: bool
  pr_ctx :: ctx_state
  pr_body :: bool
  pr_closed :: bool

definition prepared_start :: prepared where
  "prepared_start = \<lparr>pr_opened = False, pr_ctx = CtxLive, pr_body = False, pr_closed = False\<rparr>"

definition ctx_error :: "ctx_state \<Rightarrow> go_error option" where
  "ctx_error ctx = (case ctx of CtxLive \<Rightarrow> None | CtxCanceled \<Rightarrow> Some GCanceled | CtxDeadline \<Rightarrow> Some GDeadline)"

definition cancel_ctx :: "ctx_state \<Rightarrow> ctx_state" where
  "cancel_ctx ctx = (if ctx = CtxLive then CtxCanceled else ctx)"

text \<open>Closing the body also releases the context (\<open>cancelOnClose\<close>); a second close does nothing.\<close>

definition close_body :: "prepared \<Rightarrow> prepared" where
  "close_body p = (if pr_body p \<and> \<not> pr_closed p then p\<lparr>pr_closed := True, pr_ctx := cancel_ctx (pr_ctx p)\<rparr> else p)"

definition prepared_cancel :: "prepared \<Rightarrow> prepared" where
  "prepared_cancel p = close_body (p\<lparr>pr_ctx := cancel_ctx (pr_ctx p)\<rparr>)"

record 'b open_world =
  ow_client :: "go_error + unit"
  ow_stream :: "go_error + (int \<times> 'b) option"
  ow_ctx :: ctx_state

definition prepared_open :: "'b open_world \<Rightarrow> prepared \<Rightarrow> prepared \<times> (go_error + int \<times> 'b)" where
  "prepared_open w p =
     (if pr_opened p then (p, Inl (GText ''prepared stream already opened''))
      else
        let p = p\<lparr>pr_opened := True\<rparr> in
        case ctx_error (pr_ctx p) of
          Some e \<Rightarrow> (p, Inl e)
        | None \<Rightarrow>
          (case ow_client w of
             Inl e \<Rightarrow> (p, Inl e)
           | Inr _ \<Rightarrow>
             (case ow_stream w of
                Inl e \<Rightarrow> (p, Inl e)
              | Inr None \<Rightarrow> (p, Inl (GUpstream ''upstream_response_invalid'' 0 [] None))
              | Inr (Some response) \<Rightarrow>
                  let p = p\<lparr>pr_body := True, pr_ctx := (if pr_ctx p = CtxLive then ow_ctx w else pr_ctx p)\<rparr> in
                  (case ctx_error (pr_ctx p) of
                     Some e \<Rightarrow> (close_body p, Inl e)
                   | None \<Rightarrow> (p, Inr response)))))"

definition PrepareStream ::
  "environment \<Rightarrow> ServiceSettings option \<Rightarrow> bool \<Rightarrow> Request \<Rightarrow> Service \<Rightarrow> Service \<times> (relay_error + Lease)" where
  "PrepareStream ev configured drained req sv =
     (case Begin ev configured drained (req\<lparr>rq_Stream := True\<rparr>) sv of
        (sv', Inl e) \<Rightarrow> (sv', Inl e)
      | (sv', Inr l) \<Rightarrow> (sv'\<lparr>sv_upstream := setUpstream (res_ID (le_reservation l)) (sv_upstream sv')\<rparr>, Inr l))"

definition upstream_error_of :: "go_error \<Rightarrow> upstream_error" where
  "upstream_error_of e =
     (case as_upstream e of
        Some (code, status, _) \<Rightarrow> UpstreamError status code
      | None \<Rightarrow> if error_is e GCanceled then ContextCanceled else if error_is e GDeadline then DeadlineExceeded else OtherError)"

definition Service_Stream ::
  "environment \<Rightarrow> ServiceSettings option \<Rightarrow> bool \<Rightarrow> attempt \<Rightarrow> attempt \<Rightarrow> attempt \<Rightarrow> 'b open_world \<Rightarrow> Request \<Rightarrow> Service
     \<Rightarrow> Service \<times> (relay_error + (go_error \<times> settle_error option) + Lease \<times> int \<times> 'b)" where
  "Service_Stream ev configured drained a1 a2 a3 w req sv =
     (case PrepareStream ev configured drained req sv of
        (sv', Inl e) \<Rightarrow> (sv', Inl e)
      | (sv', Inr l) \<Rightarrow>
          (case snd (prepared_open w prepared_start) of
             Inr response \<Rightarrow> (sv', Inr (Inr (l, response)))
           | Inl e \<Rightarrow>
               (case closeAfterFailure ev a1 a2 a3 (res_ID (le_reservation l)) (upstream_error_of e) sv' of
                  (sv'', s) \<Rightarrow> (sv'', Inr (Inl (e, s))))))"

section \<open>What a session delivers\<close>

datatype stream_result =
    ResHeader int
  | ResFrame SSEFrame
  | ResReadError go_error
  | ResWriteError
  | ResAdmissionError
  | ResCanceled

definition is_done :: "SSEFrame \<Rightarrow> bool" where
  "is_done fr \<longleftrightarrow> trim_space (fr_Data fr) = ''[DONE]''"

text \<open>The body is its bytes and the error that ends it; the frame reader passes that error on.\<close>

definition frame_error :: "go_error \<Rightarrow> stream_error \<Rightarrow> go_error" where
  "frame_error fin e =
     (case e of StreamEOF \<Rightarrow> GEOF | UnexpectedEOF \<Rightarrow> GUnexpectedEOF | FrameTooLarge \<Rightarrow> GText ''upstream SSE frame too large'' | StreamFault _ \<Rightarrow> fin)"

definition stream_end :: "go_error \<Rightarrow> stream_error" where
  "stream_end fin = (if error_is fin GEOF then StreamEOF else StreamFault [])"

lemma Next_frame_shrinks: "Next_frame maxBytes fin st inp = Inr (fr, rest) \<Longrightarrow> length rest < length inp"
proof (induction maxBytes fin st inp rule: Next_frame.induct)
  case (1 maxBytes fin st inp)
  show ?case
  proof (cases "readLine maxBytes fin (fs_raw st) inp")
    case (LineErr e raw)
    with 1(4) show ?thesis by (simp add: Next_frame.simps)
  next
    case (LineOk raw rs)
    define line where "line = strip_eol (drop (length (fs_raw st)) raw)"
    note run = 1(4)[unfolded Next_frame_step[OF LineOk line_def]] and sh = readLine_shrinks[OF LineOk]
    note ih = 1(1)[OF LineOk line_def refl] 1(2)[OF LineOk line_def refl] 1(3)[OF LineOk line_def refl]
    show ?thesis using run ih sh by (force split: if_splits)
  qed
qed

function read_frames :: "go_error \<Rightarrow> string \<Rightarrow> stream_result list" where
  "read_frames fin inp =
     (case Next 1048576 (stream_end fin) inp of
        Inl e \<Rightarrow> [ResReadError (frame_error fin e)]
      | Inr (fr, rest) \<Rightarrow> if is_done fr then [ResFrame fr] else ResFrame fr # read_frames fin rest)"
  by pat_completeness auto
termination
  by (relation "measure (\<lambda>(_, inp). length inp)") (auto simp: Next_def dest: Next_frame_shrinks)

declare read_frames.simps [simp del]

definition produce :: "go_error + int \<times> string \<times> go_error \<Rightarrow> stream_result list" where
  "produce opened =
     (case opened of Inl e \<Rightarrow> [ResReadError e] | Inr (status, bytes, fin) \<Rightarrow> ResHeader status # read_frames fin bytes)"

datatype tick = TakeResult | Heartbeat bool | Check bool | ContextEnds | ProducerGone bool

text \<open>
  What the successive calls of \<open>Next\<close> return: ticks come in the order of the schedule, afterwards only
  results; a drained channel is closed and reads as the end of the stream. \<open>ProducerGone\<close> is the moment at
  which the producer, sending when the context has ended, drops its result and closes the channel, in
  whose buffer of one a result may be left; \<open>Next\<close> may then still choose the channel before the context.
\<close>

fun session_results :: "tick list \<Rightarrow> stream_result list \<Rightarrow> stream_result list" where
  "session_results [] rs = rs @ [ResReadError GEOF]"
| "session_results (Heartbeat ok # ts) rs = (if ok then session_results ts rs else ResWriteError # session_results ts rs)"
| "session_results (Check ok # ts) rs = (if ok then session_results ts rs else ResAdmissionError # session_results ts rs)"
| "session_results (ContextEnds # ts) rs = ResCanceled # session_results ts rs"
| "session_results (ProducerGone buffered # ts) rs = session_results ts (if buffered then take 1 rs else [])"
| "session_results (TakeResult # ts) [] = ResReadError GEOF # session_results ts []"
| "session_results (TakeResult # ts) (r # rs) = r # session_results ts rs"

section \<open>Handlers\<close>

text \<open>
  The variables of a handler; \<open>hs_sent\<close> is what the client has been sent. \<open>hs_chars\<close> counts output
  characters (chat), \<open>hs_text\<close> collects the output text (responses).
\<close>

record 'e handler =
  hs_outcome :: Outcome
  hs_chars :: int
  hs_text :: string
  hs_usage :: Usage
  hs_incomplete :: string
  hs_finish :: string
  hs_done :: bool
  hs_header :: bool
  hs_readErr :: "go_error option"
  hs_writes :: "bool list"
  hs_sent :: "'e list"

datatype 'a loop = Continue 'a | Returned 'a | Finished 'a

definition initial_outcome :: "Lease \<Rightarrow> Outcome" where
  "initial_outcome l = blank_outcome\<lparr>oc_Status := ''aborted'', oc_ErrorCode := ''client_canceled'', oc_FailureStage := ''stream'',
     oc_Protocol := le_protocol l\<rparr>"

definition handler_start :: "Lease \<Rightarrow> bool list \<Rightarrow> 'e handler" where
  "handler_start l writes = \<lparr>hs_outcome = initial_outcome l, hs_chars = 0, hs_text = [], hs_usage = no_usage, hs_incomplete = [],
     hs_finish = [], hs_done = False, hs_header = False, hs_readErr = None, hs_writes = writes, hs_sent = []\<rparr>"

definition set_result :: "string \<Rightarrow> string \<Rightarrow> string \<Rightarrow> 'e handler \<Rightarrow> 'e handler" where
  "set_result status code stage st =
     st\<lparr>hs_outcome := (hs_outcome st)\<lparr>oc_Status := status, oc_ErrorCode := code, oc_FailureStage := stage\<rparr>\<rparr>"

definition writeFailure :: "'e handler \<Rightarrow> 'e handler" where
  "writeFailure st = set_result ''aborted'' ''downstream_write_failed'' ''downstream'' st"

definition hs_write :: "'e \<Rightarrow> 'e handler \<Rightarrow> 'e handler \<times> bool" where
  "hs_write x st =
     (case hs_writes st of
        [] \<Rightarrow> (st\<lparr>hs_sent := hs_sent st @ [x]\<rparr>, True)
      | ok # rest \<Rightarrow> (if ok then (st\<lparr>hs_writes := rest, hs_sent := hs_sent st @ [x]\<rparr>, True) else (st\<lparr>hs_writes := rest\<rparr>, False)))"

fun run_loop :: "(stream_result \<Rightarrow> 's \<Rightarrow> 's loop) \<Rightarrow> stream_result list \<Rightarrow> 's \<Rightarrow> 's loop" where
  "run_loop step [] st = Continue st"
| "run_loop step (r # rs) st = (case step r st of Continue st' \<Rightarrow> run_loop step rs st' | x \<Rightarrow> x)"

definition streamOpenFailure :: "go_error option \<Rightarrow> ctx_state \<Rightarrow> string \<times> string \<times> int" where
  "streamOpenFailure err ctx =
     (let is = (\<lambda>target. case err of None \<Rightarrow> False | Some e \<Rightarrow> error_is e target) in
      if ctx_is ctx GCanceled \<or> is GCanceled then (''aborted'', ''client_canceled'', 0)
      else (case Option.bind err as_upstream of
              Some (code, status, _) \<Rightarrow> (''failed'', code, status)
            | None \<Rightarrow> if is GDeadline then (''failed'', ''request_duration_exceeded'', 0)
                      else (''failed'', ''upstream_connection_failed'', 0)))"

text \<open>How \<open>terminal.go\<close> reads an error: the end of the stream, a coded error, or any other.\<close>

definition read_class :: "go_error option \<Rightarrow> read_error" where
  "read_class err =
     (case err of None \<Rightarrow> ReadOk
      | Some e \<Rightarrow> if error_is e GEOF then ReadEOF
                  else (case as_upstream e of Some (code, _) \<Rightarrow> ReadUpstream code | None \<Rightarrow> ReadOther))"

definition was_canceled :: "ctx_state \<Rightarrow> go_error option \<Rightarrow> bool" where
  "was_canceled ctx err \<longleftrightarrow> ctx \<noteq> CtxLive \<or> (case err of None \<Rightarrow> False | Some e \<Rightarrow> error_is e GCanceled)"

definition invalid_event :: go_error where
  "invalid_event = GText ''invalid upstream event''"

section \<open>Settling a stream\<close>

text \<open>
  The deferred block of both handlers; \<open>produced\<close> is the amount of output seen (characters or bytes),
  the basis of the estimate when the upstream reported no usage.
\<close>

definition final_usage :: "int \<Rightarrow> 'e handler \<Rightarrow> Usage" where
  "final_usage produced st =
     (if \<not> TotalTokens (hs_usage st) > 0 \<and> produced > 0
      then \<lparr>PromptTokens = 0, CompletionTokens = (produced + 1) sdiv 2, TotalTokens = produced, CachedTokens = 0\<rparr>
      else hs_usage st)"

definition stream_outcome :: "int \<Rightarrow> Lease \<Rightarrow> 'e handler \<Rightarrow> Outcome" where
  "stream_outcome produced l st =
     (let u = final_usage produced st in
      (hs_outcome st)\<lparr>
        oc_InputTokens := (if PromptTokens u = 0 then res_InputTokens (le_reservation l) else PromptTokens u),
        oc_OutputTokens := CompletionTokens u, oc_CachedInputTokens := CachedTokens u,
        oc_IncompleteReason := hs_incomplete st, oc_AmountMicroyuan := PriceUsage u (le_model l),
        oc_UsageSource := (if TotalTokens (hs_usage st) > 0 then ''upstream'' else if produced > 0 then ''estimated'' else ''unknown'')\<rparr>)"

section \<open>Chat streams\<close>

datatype chat_write = ForwardFrame string | StreamErrorEvent string string

definition chat_frame :: "(string \<Rightarrow> (choice list \<times> Usage) option) \<Rightarrow> SSEFrame \<Rightarrow> chat_write handler \<Rightarrow> chat_write handler loop" where
  "chat_frame decode fr st =
     (case hs_write (ForwardFrame (fr_Raw fr)) st of (st, ok) \<Rightarrow>
        if \<not> ok then Returned (writeFailure st)
        else
          let event = ParseEvent decode (fr_Raw fr) in
          if ev_Invalid event then Finished (st\<lparr>hs_readErr := Some invalid_event\<rparr>)
          else
            let st = st\<lparr>hs_chars := wrap64 (hs_chars st + ev_OutputCharacters event),
                         hs_finish := (if ev_FinishReason event \<noteq> [] then ev_FinishReason event else hs_finish st),
                         hs_usage := (if TotalTokens (ev_Usage event) > 0 then ev_Usage event else hs_usage st)\<rparr>
            in if is_done fr then Finished (st\<lparr>hs_done := True\<rparr>) else Continue st)"

definition chat_refused :: "string \<Rightarrow> chat_write handler \<Rightarrow> chat_write handler" where
  "chat_refused requestID st =
     (let st = set_result ''aborted'' ''memory_limit_exceeded'' (oc_FailureStage (hs_outcome st)) st in
      case hs_write (StreamErrorEvent ''memory_limit_exceeded'' requestID) st of (st, ok) \<Rightarrow>
        if ok then st else set_result (oc_Status (hs_outcome st)) ''downstream_write_failed'' ''downstream'' st)"

definition chat_step ::
  "(string \<Rightarrow> (choice list \<times> Usage) option) \<Rightarrow> string \<Rightarrow> stream_result \<Rightarrow> chat_write handler \<Rightarrow> chat_write handler loop" where
  "chat_step decode requestID r st =
     (case r of
        ResHeader status \<Rightarrow> Continue (st\<lparr>hs_header := True, hs_outcome := (hs_outcome st)\<lparr>oc_HTTPStatus := status\<rparr>\<rparr>)
      | ResFrame fr \<Rightarrow> chat_frame decode fr st
      | ResReadError e \<Rightarrow> Finished (st\<lparr>hs_readErr := Some e\<rparr>)
      | ResWriteError \<Rightarrow> Returned (writeFailure st)
      | ResAdmissionError \<Rightarrow> Returned (chat_refused requestID st)
      | ResCanceled \<Rightarrow> Returned (set_result ''aborted'' ''client_canceled'' (oc_FailureStage (hs_outcome st)) st))"

text \<open>Behind the label \<open>finished\<close>: the outcome of the stream, and the error event when it failed.\<close>

definition open_failure :: "ctx_state \<Rightarrow> 'e handler \<Rightarrow> 'e handler" where
  "open_failure ctx st =
     (case streamOpenFailure (hs_readErr st) ctx of (status, code, upstreamStatus) \<Rightarrow>
        (set_result status code ''upstream'' st)\<lparr>hs_outcome := (hs_outcome (set_result status code ''upstream'' st))\<lparr>oc_HTTPStatus := upstreamStatus\<rparr>\<rparr>)"

definition failure_stage :: "string \<Rightarrow> string \<Rightarrow> string" where
  "failure_stage status stage =
     (let stage = (if status = ''failed'' \<and> stage = ''stream'' then ''upstream'' else stage) in if status = ''completed'' then [] else stage)"

definition chat_mark :: "chat_write handler \<Rightarrow> chat_write handler" where
  "chat_mark st =
     (let status = oc_Status (hs_outcome st);
          st = st\<lparr>hs_incomplete := (if hs_finish st = ''length'' \<and> hs_done st \<and> status = ''completed'' then ''max_output_tokens'' else hs_incomplete st)\<rparr>;
          code = (if hs_readErr st = Some invalid_event then ''upstream_event_invalid'' else oc_ErrorCode (hs_outcome st))
      in set_result status code (failure_stage status (oc_FailureStage (hs_outcome st))) st)"

definition chat_classify :: "ctx_state \<Rightarrow> chat_write handler \<Rightarrow> chat_write handler" where
  "chat_classify ctx st =
     chat_mark (if \<not> hs_header st then open_failure ctx st
                else (case ChatTerminal (hs_done st) (read_class (hs_readErr st)) (was_canceled ctx (hs_readErr st)) of
                        (status, code) \<Rightarrow> set_result status code (oc_FailureStage (hs_outcome st)) st))"

definition chat_finish :: "ctx_state \<Rightarrow> string \<Rightarrow> chat_write handler \<Rightarrow> chat_write handler" where
  "chat_finish ctx requestID st =
     (let st = chat_classify ctx st in
      if oc_Status (hs_outcome st) = ''failed'' then
        (case hs_write (StreamErrorEvent (oc_ErrorCode (hs_outcome st)) requestID) st of (st, ok) \<Rightarrow>
           if ok then st else writeFailure st)
      else st)"

text \<open>
  What surrounds one streaming request: whether the opening comment could be written, the schedule,
  what opening the upstream gave, the verdicts of the later writes and the request's context at the end.
\<close>

record stream_world =
  sw_greeted :: bool
  sw_ticks :: "tick list"
  sw_upstream :: "go_error + int \<times> string \<times> go_error"
  sw_writes :: "bool list"
  sw_ctx :: ctx_state

definition chat_run :: "(string \<Rightarrow> (choice list \<times> Usage) option) \<Rightarrow> Lease \<Rightarrow> stream_world \<Rightarrow> chat_write handler" where
  "chat_run decode l w =
     (let st = handler_start l (sw_writes w); requestID = res_RequestID (le_reservation l) in
      if \<not> sw_greeted w then set_result ''aborted'' ''downstream_write_failed'' ''downstream'' st
      else (case run_loop (chat_step decode requestID) (session_results (sw_ticks w) (produce (sw_upstream w))) st of
              Finished st \<Rightarrow> chat_finish (sw_ctx w) requestID st
            | Returned st \<Rightarrow> st
            | Continue st \<Rightarrow> st))"

definition stream ::
  "environment \<Rightarrow> ServiceSettings option \<Rightarrow> bool \<Rightarrow> attempt \<Rightarrow> attempt \<Rightarrow> attempt \<Rightarrow> (string \<Rightarrow> (choice list \<times> Usage) option)
     \<Rightarrow> stream_world \<Rightarrow> Request \<Rightarrow> Service \<Rightarrow> Service \<times> (relay_error + chat_write list \<times> settle_error option)" where
  "stream ev configured drained a1 a2 a3 decode w req sv =
     (case PrepareStream ev configured drained req sv of
        (sv', Inl e) \<Rightarrow> (sv', Inl e)
      | (sv', Inr l) \<Rightarrow>
          let st = chat_run decode l w in
          (case Close ev a1 a2 a3 (res_ID (le_reservation l)) (stream_outcome (hs_chars st) l st) sv' of
             (sv'', e) \<Rightarrow> (sv'', Inr (hs_sent st, e))))"

section \<open>Responses streams\<close>

text \<open>The events of the Responses protocol the relay sends, with the fields that vary.\<close>

datatype response_event =
    RCreated
  | RItemAdded
  | RPartAdded
  | RComment string
  | RDelta string
  | RTextDone string
  | RItemDone string
  | RCompleted string Usage
  | RFailure string string string string string

fun send_all :: "'e list \<Rightarrow> 'e handler \<Rightarrow> 'e handler \<times> bool" where
  "send_all [] st = (st, True)"
| "send_all (x # xs) st = (case hs_write x st of (st, ok) \<Rightarrow> if ok then send_all xs st else (st, False))"

definition sendResponseFailure :: "string \<Rightarrow> string \<Rightarrow> string \<Rightarrow> response_event handler \<Rightarrow> response_event handler \<times> bool" where
  "sendResponseFailure code event requestID st =
     hs_write (RFailure event (if event = ''response.incomplete'' then ''incomplete'' else ''failed'') code (hs_text st) requestID) st"

text \<open>A decoded chunk: content and finish reason of each choice, and the usage if the chunk has one.\<close>

type_synonym chunk_decoder = "string \<Rightarrow> ((string \<times> string) list \<times> Usage option) option"

definition responses_choice :: "string \<times> string \<Rightarrow> response_event handler \<Rightarrow> response_event handler loop" where
  "responses_choice choice st =
     (let delta = fst choice;
          st = (if snd choice \<noteq> [] then st\<lparr>hs_finish := snd choice,
                  hs_incomplete := (if snd choice = ''length'' then ''max_output_tokens'' else hs_incomplete st)\<rparr> else st)
      in if delta \<noteq> [] then
           (case hs_write (RDelta delta) (st\<lparr>hs_text := hs_text st @ delta\<rparr>) of (st, ok) \<Rightarrow>
              if ok then Continue st else Returned (writeFailure st))
         else Continue st)"

definition responses_frame :: "chunk_decoder \<Rightarrow> SSEFrame \<Rightarrow> response_event handler \<Rightarrow> response_event handler loop" where
  "responses_frame decode fr st =
     (if fr_Comment fr then
        (case hs_write (RComment (fr_Raw fr)) st of (st, ok) \<Rightarrow> if ok then Continue st else Returned (writeFailure st))
      else
        let dataPayload = trim_space (fr_Data fr) in
        if dataPayload = ''[DONE]'' then Finished (st\<lparr>hs_done := True\<rparr>)
        else if dataPayload = [] then Continue st
        else (case decode dataPayload of
                None \<Rightarrow> Finished (st\<lparr>hs_readErr := Some invalid_event\<rparr>)
              | Some (choices, usage) \<Rightarrow>
                  let st = (case usage of Some u \<Rightarrow> if TotalTokens u > 0 then st\<lparr>hs_usage := u\<rparr> else st | None \<Rightarrow> st) in
                  (case choices of [] \<Rightarrow> Continue st | c # _ \<Rightarrow> responses_choice c st)))"

definition responses_step ::
  "chunk_decoder \<Rightarrow> string \<Rightarrow> stream_result \<Rightarrow> response_event handler \<Rightarrow> response_event handler loop" where
  "responses_step decode requestID r st =
     (case r of
        ResHeader status \<Rightarrow>
          (case send_all [RCreated, RItemAdded, RPartAdded]
                  (st\<lparr>hs_header := True, hs_outcome := (hs_outcome st)\<lparr>oc_HTTPStatus := status\<rparr>\<rparr>) of (st, ok) \<Rightarrow>
             if ok then Continue st else Returned (writeFailure st))
      | ResFrame fr \<Rightarrow> responses_frame decode fr st
      | ResReadError e \<Rightarrow> Finished (st\<lparr>hs_readErr := Some e\<rparr>)
      | ResWriteError \<Rightarrow> Returned (writeFailure st)
      | ResAdmissionError \<Rightarrow>
          (let st = set_result ''aborted'' ''memory_limit_exceeded'' (oc_FailureStage (hs_outcome st)) st in
           case sendResponseFailure ''memory_limit_exceeded'' ''response.failed'' requestID st of (st, ok) \<Rightarrow>
             Returned (if ok then st else writeFailure st))
      | ResCanceled \<Rightarrow> Returned (set_result ''aborted'' ''client_canceled'' (oc_FailureStage (hs_outcome st)) st))"

definition bridge_classify :: "ctx_state \<Rightarrow> response_event handler \<Rightarrow> response_event handler \<times> string" where
  "bridge_classify ctx st =
     (case ResponsesBridgeTerminal (hs_done st) (hs_finish st) (read_class (hs_readErr st)) (was_canceled ctx (hs_readErr st)) of
        (status, code, event) \<Rightarrow>
          (let code = (if hs_readErr st = Some invalid_event then ''upstream_event_invalid'' else code)
           in (set_result status code (failure_stage status (oc_FailureStage (hs_outcome st))) st, event)))"

definition responses_finish :: "ctx_state \<Rightarrow> string \<Rightarrow> response_event handler \<Rightarrow> response_event handler" where
  "responses_finish ctx requestID st =
     (if \<not> hs_header st then
        (let st = open_failure ctx st in
         if oc_Status (hs_outcome st) = ''failed'' then
           (case sendResponseFailure (oc_ErrorCode (hs_outcome st)) ''response.failed'' requestID st of (st, ok) \<Rightarrow>
              if ok then st else writeFailure st)
         else st)
      else
        (case bridge_classify ctx st of (st, event) \<Rightarrow>
           if oc_Status (hs_outcome st) = ''completed'' then
             (case send_all [RTextDone (hs_text st), RItemDone (hs_text st), RCompleted (hs_text st) (hs_usage st)] st of (st, ok) \<Rightarrow>
                if ok then st else writeFailure st)
           else if event \<noteq> [] then
             (case sendResponseFailure (oc_ErrorCode (hs_outcome st)) event requestID st of (st, ok) \<Rightarrow>
                if ok then st else writeFailure st)
           else st))"

definition responses_run :: "chunk_decoder \<Rightarrow> Lease \<Rightarrow> stream_world \<Rightarrow> response_event handler" where
  "responses_run decode l w =
     (let st = handler_start l (sw_writes w); requestID = res_RequestID (le_reservation l) in
      if \<not> sw_greeted w then set_result ''aborted'' ''downstream_write_failed'' ''downstream'' st
      else (case run_loop (responses_step decode requestID) (session_results (sw_ticks w) (produce (sw_upstream w))) st of
              Finished st \<Rightarrow> responses_finish (sw_ctx w) requestID st
            | Returned st \<Rightarrow> st
            | Continue st \<Rightarrow> st))"

definition responsesStream ::
  "environment \<Rightarrow> ServiceSettings option \<Rightarrow> bool \<Rightarrow> attempt \<Rightarrow> attempt \<Rightarrow> attempt \<Rightarrow> chunk_decoder
     \<Rightarrow> stream_world \<Rightarrow> Request \<Rightarrow> Service \<Rightarrow> Service \<times> (relay_error + response_event list \<times> settle_error option)" where
  "responsesStream ev configured drained a1 a2 a3 decode w req sv =
     (case PrepareStream ev configured drained req sv of
        (sv', Inl e) \<Rightarrow> (sv', Inl e)
      | (sv', Inr l) \<Rightarrow>
          let st = responses_run decode l w in
          (case Close ev a1 a2 a3 (res_ID (le_reservation l)) (stream_outcome (int (length (hs_text st))) l st) sv' of
             (sv'', e) \<Rightarrow> (sv'', Inr (hs_sent st, e))))"

end
