(* ===== verification/Stream_Runs.thy ===== *)
theory Stream_Runs
  imports Stream_Session
begin

text \<open>
  What a run of a streaming handler does, for every upstream, schedule and pattern of failing writes:
  it ends, its outcome can be settled, and what the client has been sent agrees with the outcome.
\<close>

section \<open>The shape of a run\<close>

text \<open>
  What both handlers promise the session: a read error ends the loop, no step spoils the outcome, and
  the usage kept is one that was decoded. The usage is judged by a predicate of the client's choice.
\<close>

definition outcome_base :: "Outcome \<Rightarrow> bool" where
  "outcome_base o1 \<longleftrightarrow> 0 \<le> oc_HTTPStatus o1 \<and> oc_Status o1 \<in> {''completed'', ''failed'', ''aborted''} \<and>
     oc_DurationMS o1 = None \<and> oc_HeaderMS o1 = None \<and> oc_FirstEventMS o1 = None \<and> oc_LastUpstreamMS o1 = None"

text \<open>HTTP statuses are not negative, neither the one received nor the one recorded in an error.\<close>

definition err_ok :: "go_error option \<Rightarrow> bool" where
  "err_ok err = (case Option.bind err as_upstream of Some (_, status, _) \<Rightarrow> 0 \<le> status | None \<Rightarrow> True)"

definition handler_ok :: "(Usage \<Rightarrow> bool) \<Rightarrow> 'e handler \<Rightarrow> bool" where
  "handler_ok good st \<longleftrightarrow> outcome_base (hs_outcome st) \<and> good (hs_usage st) \<and> err_ok (hs_readErr st)"

lemma err_ok_simps [simp]: "err_ok None" "err_ok (Some invalid_event)" "err_ok (Some GEOF)" "err_ok (Some GUnexpectedEOF)" "err_ok (Some (GText t))"
  by (simp_all add: err_ok_def invalid_event_def)

fun loop_state :: "'a loop \<Rightarrow> 'a" where
  "loop_state (Continue s) = s"
| "loop_state (Returned s) = s"
| "loop_state (Finished s) = s"

definition result_ok :: "stream_result \<Rightarrow> bool" where
  "result_ok r = (case r of ResHeader status \<Rightarrow> 0 \<le> status | ResReadError e \<Rightarrow> err_ok (Some e) | _ \<Rightarrow> True)"

locale stream_handler =
  fixes step :: "stream_result \<Rightarrow> 'e handler \<Rightarrow> 'e handler loop" and good :: "Usage \<Rightarrow> bool"
  assumes ends: "step (ResReadError e) st = Finished (st\<lparr>hs_readErr := Some e\<rparr>)"
    and keeps: "result_ok r \<Longrightarrow> handler_ok good st \<Longrightarrow> handler_ok good (loop_state (step r st))"
begin

lemma loop_ends: "ResReadError e \<in> set rs \<Longrightarrow> run_loop step rs st \<noteq> Continue st'"
  by (induction rs arbitrary: st) (auto simp: ends split: loop.splits)

lemma loop_keeps: "list_all result_ok rs \<Longrightarrow> handler_ok good st \<Longrightarrow> handler_ok good (loop_state (run_loop step rs st))"
proof (induction rs arbitrary: st)
  case (Cons r rs)
  then show ?case using keeps[of r st] by (cases "step r st") auto
qed simp

end

lemma handler_ok_simps [simp]:
  "handler_ok good st \<Longrightarrow> err_ok x \<Longrightarrow> handler_ok good (st\<lparr>hs_readErr := x\<rparr>)" "handler_ok good (st\<lparr>hs_done := b\<rparr>) = handler_ok good st"
  "handler_ok good (st\<lparr>hs_text := t\<rparr>) = handler_ok good st" "handler_ok good (st\<lparr>hs_incomplete := t\<rparr>) = handler_ok good st"
  "handler_ok good (st\<lparr>hs_finish := t\<rparr>) = handler_ok good st" "handler_ok good (st\<lparr>hs_chars := n\<rparr>) = handler_ok good st"
  "handler_ok good (st\<lparr>hs_writes := ws\<rparr>) = handler_ok good st" "handler_ok good (st\<lparr>hs_sent := xs\<rparr>) = handler_ok good st"
  "handler_ok good (st\<lparr>hs_header := b\<rparr>) = handler_ok good st"
  by (simp_all add: handler_ok_def)

lemma hs_write_ok: "hs_write x st = (st', b) \<Longrightarrow> handler_ok good st' = handler_ok good st"
  by (auto simp: hs_write_def handler_ok_def split: list.splits if_splits)

lemma set_result_ok [simp]:
  "handler_ok good st \<Longrightarrow> status \<in> {''completed'', ''failed'', ''aborted''} \<Longrightarrow> handler_ok good (set_result status code stage st)"
  by (auto simp: handler_ok_def set_result_def outcome_base_def)

lemma writeFailure_ok [simp]: "handler_ok good st \<Longrightarrow> handler_ok good (writeFailure st)"
  by (simp add: writeFailure_def)

lemma send_all_ok: "send_all xs st = (st', b) \<Longrightarrow> handler_ok good st \<Longrightarrow> handler_ok good st'"
  by (induction xs arbitrary: st) (auto split: prod.splits if_splits simp: hs_write_ok)

lemma handler_ok_header [simp]:
  "handler_ok good st \<Longrightarrow> 0 \<le> status \<Longrightarrow> handler_ok good (st\<lparr>hs_header := b, hs_outcome := (hs_outcome st)\<lparr>oc_HTTPStatus := status\<rparr>\<rparr>)"
  by (auto simp: handler_ok_def outcome_base_def)

lemma handler_ok_usage: "handler_ok good st \<Longrightarrow> good u \<Longrightarrow> handler_ok good (st\<lparr>hs_usage := u\<rparr>)"
  by (simp add: handler_ok_def)

definition decodes_good :: "(string \<Rightarrow> ('c \<times> Usage) option) \<Rightarrow> (Usage \<Rightarrow> bool) \<Rightarrow> bool" where
  "decodes_good decode good \<longleftrightarrow> (\<forall>p cs u. decode p = Some (cs, u) \<longrightarrow> TotalTokens u > 0 \<longrightarrow> good u)"

lemma add_choices_usage [simp]: "ev_Usage (add_choices cs e) = ev_Usage e"
  by (induction cs arbitrary: e) simp_all

lemma ParseEvent_usage: "decodes_good decode good \<Longrightarrow> TotalTokens (ev_Usage (ParseEvent decode x)) > 0 \<Longrightarrow> good (ev_Usage (ParseEvent decode x))"
  by (auto simp: ParseEvent_def Let_def decodes_good_def no_usage_def split: prod.splits option.splits if_splits)

lemma chat_frame_ok:
  assumes "decodes_good decode good" "handler_ok good st"
  shows "handler_ok good (loop_state (chat_frame decode fr st))"
proof -
  obtain st1 ok where w: "hs_write (ForwardFrame (fr_Raw fr)) st = (st1, ok)" by fastforce
  have h: "handler_ok good st1" using hs_write_ok[OF w] assms(2) by simp
  show ?thesis
  proof (cases ok)
    case True
    with h show ?thesis using ParseEvent_usage[OF assms(1), of "fr_Raw fr"]
      by (auto simp: chat_frame_def w Let_def handler_ok_def)
  qed (simp add: chat_frame_def w h)
qed

lemma chat_refused_ok: "handler_ok good st \<Longrightarrow> handler_ok good (chat_refused rid st)"
proof -
  assume h: "handler_ok good st"
  obtain st1 ok where w: "hs_write (StreamErrorEvent ''memory_limit_exceeded'' rid)
      (set_result ''aborted'' ''memory_limit_exceeded'' (oc_FailureStage (hs_outcome st)) st) = (st1, ok)" by fastforce
  have h1: "handler_ok good st1" using hs_write_ok[OF w] h by simp
  then have "oc_Status (hs_outcome st1) \<in> {''completed'', ''failed'', ''aborted''}" by (simp add: handler_ok_def outcome_base_def)
  with h1 show ?thesis by (simp add: chat_refused_def w)
qed

lemma chat_step_keeps:
  assumes "decodes_good decode good" "result_ok r" "handler_ok good st"
  shows "handler_ok good (loop_state (chat_step decode rid r st))"
  using assms chat_frame_ok[OF assms(1,3)] chat_refused_ok[OF assms(3)]
  by (cases r) (simp_all add: chat_step_def result_ok_def)

definition decodes_good_opt :: "(string \<Rightarrow> ('c \<times> Usage option) option) \<Rightarrow> (Usage \<Rightarrow> bool) \<Rightarrow> bool" where
  "decodes_good_opt decode good \<longleftrightarrow> (\<forall>p cs u. decode p = Some (cs, Some u) \<longrightarrow> TotalTokens u > 0 \<longrightarrow> good u)"

lemma responses_choice_ok: "handler_ok good st \<Longrightarrow> handler_ok good (loop_state (responses_choice c st))"
  by (auto simp: responses_choice_def Let_def split: prod.splits dest!: hs_write_ok[where good = good])

lemma responses_frame_ok:
  assumes "decodes_good_opt decode good" "handler_ok good st"
  shows "handler_ok good (loop_state (responses_frame decode fr st))"
proof (cases "fr_Comment fr")
  case True
  then show ?thesis using assms(2) by (auto simp: responses_frame_def split: prod.splits dest!: hs_write_ok[where good = good])
next
  case False
  have chosen: "handler_ok good (case usage of Some u \<Rightarrow> if TotalTokens u > 0 then st\<lparr>hs_usage := u\<rparr> else st | None \<Rightarrow> st)"
    if "decode (trim_space (fr_Data fr)) = Some (choices, usage)" for choices usage
    using that assms by (auto simp: decodes_good_opt_def handler_ok_usage split: option.splits)
  show ?thesis
  proof (cases "decode (trim_space (fr_Data fr))")
    case None
    then show ?thesis using False assms(2) by (simp add: responses_frame_def Let_def)
  next
    case (Some cu)
    obtain choices usage where cu: "cu = (choices, usage)" by fastforce
    note h = chosen[OF Some[unfolded cu]]
    show ?thesis using False assms(2) h responses_choice_ok[OF h]
      by (cases choices) (simp_all add: responses_frame_def Let_def Some cu)
  qed
qed

lemma responses_step_keeps:
  assumes "decodes_good_opt decode good" "result_ok r" "handler_ok good st"
  shows "handler_ok good (loop_state (responses_step decode rid r st))"
proof (cases r)
  case (ResHeader status)
  then have "handler_ok good (st\<lparr>hs_header := True, hs_outcome := (hs_outcome st)\<lparr>oc_HTTPStatus := status\<rparr>\<rparr>)"
    using assms by (simp add: result_ok_def)
  then show ?thesis using ResHeader send_all_ok[where good = good and xs = "[RCreated, RItemAdded, RPartAdded]"]
    by (auto simp: responses_step_def simp del: send_all.simps split: prod.splits)
next
  case (ResFrame fr)
  then show ?thesis using responses_frame_ok[OF assms(1,3)] by (simp add: responses_step_def)
next
  case ResAdmissionError
  then show ?thesis using assms(3)
    by (auto simp: responses_step_def sendResponseFailure_def Let_def split: prod.splits dest!: hs_write_ok[where good = good])
qed (use assms(2,3) in \<open>simp_all add: responses_step_def result_ok_def\<close>)

interpretation chat_loop: stream_handler "chat_step decode rid" "\<lambda>u. decodes_good decode good \<longrightarrow> good u" for decode rid good
proof unfold_locales
  show "chat_step decode rid (ResReadError e) st = Finished (st\<lparr>hs_readErr := Some e\<rparr>)" for e st by (simp add: chat_step_def)
  show "handler_ok (\<lambda>u. decodes_good decode good \<longrightarrow> good u) (loop_state (chat_step decode rid r st))"
    if "result_ok r" "handler_ok (\<lambda>u. decodes_good decode good \<longrightarrow> good u) st" for r st
  proof (rule chat_step_keeps[OF _ that])
    show "decodes_good decode (\<lambda>u. decodes_good decode good \<longrightarrow> good u)" by (auto simp: decodes_good_def)
  qed
qed

interpretation responses_loop: stream_handler "responses_step decode rid" "\<lambda>u. decodes_good_opt decode good \<longrightarrow> good u" for decode rid good
proof unfold_locales
  show "responses_step decode rid (ResReadError e) st = Finished (st\<lparr>hs_readErr := Some e\<rparr>)" for e st by (simp add: responses_step_def)
  show "handler_ok (\<lambda>u. decodes_good_opt decode good \<longrightarrow> good u) (loop_state (responses_step decode rid r st))"
    if "result_ok r" "handler_ok (\<lambda>u. decodes_good_opt decode good \<longrightarrow> good u) st" for r st
  proof (rule responses_step_keeps[OF _ that])
    show "decodes_good_opt decode (\<lambda>u. decodes_good_opt decode good \<longrightarrow> good u)" by (auto simp: decodes_good_opt_def)
  qed
qed

section \<open>Outcomes can be settled\<close>

lemma session_results_end: "\<exists>e. ResReadError e \<in> set (session_results ts rs)"
  by (induction ts rs rule: session_results.induct) auto

lemma session_results_set: "set (session_results ts rs) \<subseteq> set rs \<union> {ResReadError GEOF, ResWriteError, ResAdmissionError, ResCanceled}"
  by (induction ts rs rule: session_results.induct) (auto dest: in_set_takeD split: if_splits)

lemma read_frames_set: "r \<in> set (read_frames fin inp) \<Longrightarrow> (\<exists>fr. r = ResFrame fr) \<or> (\<exists>e. r = ResReadError (frame_error fin e))"
proof (induction fin inp rule: read_frames.induct)
  case (1 fin inp)
  show ?case
  proof (cases "Next 1048576 (stream_end fin) inp")
    case (Inl e)
    with 1(2) show ?thesis by (subst (asm) read_frames.simps) auto
  next
    case (Inr x)
    obtain fr rest where x: "x = (fr, rest)" by fastforce
    show ?thesis using 1(1)[OF Inr x[symmetric]] 1(2) by (subst (asm) read_frames.simps) (auto simp: Inr x split: if_splits)
  qed
qed

definition world_ok :: "stream_world \<Rightarrow> bool" where
  "world_ok w \<longleftrightarrow> (case sw_upstream w of Inr (status, _, fin) \<Rightarrow> 0 \<le> status \<and> err_ok (Some fin) | Inl e \<Rightarrow> err_ok (Some e))"

lemma frame_error_ok: "err_ok (Some fin) \<Longrightarrow> err_ok (Some (frame_error fin e))"
  by (cases e) (simp_all add: frame_error_def)

lemma produced_ok:
  assumes "world_ok w"
  shows "list_all result_ok (session_results ts (produce (sw_upstream w)))"
proof -
  have "result_ok r" if "r \<in> set (produce (sw_upstream w))" for r
    using that assms read_frames_set frame_error_ok
    by (fastforce simp: world_ok_def produce_def result_ok_def split: sum.splits prod.splits)
  moreover have "result_ok r" if "r \<in> {ResReadError GEOF, ResWriteError, ResAdmissionError, ResCanceled}" for r
    using that by (auto simp: result_ok_def)
  ultimately show ?thesis using session_results_set[of ts "produce (sw_upstream w)"] by (auto simp: list_all_iff)
qed

lemma handler_start_ok: "good no_usage \<Longrightarrow> handler_ok good (handler_start l ws)"
  by (simp add: handler_ok_def handler_start_def initial_outcome_def outcome_base_def blank_outcome_def)

lemma ChatTerminal_status: "fst (ChatTerminal d e c) \<in> {''completed'', ''failed'', ''aborted''}"
  by (auto simp: ChatTerminal_def read_failure_def split: read_error.splits option.splits)

lemma Bridge_status: "fst (ResponsesBridgeTerminal d f e c) \<in> {''completed'', ''failed'', ''aborted''}"
  by (auto simp: ResponsesBridgeTerminal_def split: prod.splits)

lemma streamOpenFailure_ok:
  "streamOpenFailure err ctx = (status, code, upstreamStatus) \<Longrightarrow> status \<in> {''completed'', ''failed'', ''aborted''} \<and> (err_ok err \<longrightarrow> 0 \<le> upstreamStatus)"
  by (auto simp: streamOpenFailure_def Let_def err_ok_def split: option.splits if_splits)

lemma open_failure_ok: "handler_ok good st \<Longrightarrow> handler_ok good (open_failure ctx st)"
  using streamOpenFailure_ok[of "hs_readErr st" ctx]
  by (auto simp: open_failure_def handler_ok_def set_result_def outcome_base_def split: prod.splits)

lemma chat_mark_ok: "handler_ok good st \<Longrightarrow> handler_ok good (chat_mark st)"
  by (auto simp: chat_mark_def Let_def handler_ok_def outcome_base_def set_result_def)

lemma chat_classify_ok:
  assumes "handler_ok good st"
  shows "handler_ok good (chat_classify ctx st)"
proof -
  obtain status code where t: "ChatTerminal (hs_done st) (read_class (hs_readErr st)) (was_canceled ctx (hs_readErr st)) = (status, code)" by fastforce
  have "status \<in> {''completed'', ''failed'', ''aborted''}" using ChatTerminal_status[of "hs_done st" "read_class (hs_readErr st)"] t by (metis fst_conv)
  then have "handler_ok good (if \<not> hs_header st then open_failure ctx st else set_result status code (oc_FailureStage (hs_outcome st)) st)"
    using assms open_failure_ok by auto
  from chat_mark_ok[OF this] show ?thesis by (cases "hs_header st") (simp_all add: chat_classify_def t)
qed

lemma chat_finish_ok:
  assumes "handler_ok good st"
  shows "handler_ok good (chat_finish ctx rid st)"
  using chat_classify_ok[OF assms, of ctx]
  by (auto simp: chat_finish_def Let_def split: prod.splits dest!: hs_write_ok[where good = good])

lemma bridge_classify_ok: "handler_ok good st \<Longrightarrow> handler_ok good (fst (bridge_classify ctx st))"
  using Bridge_status[of "hs_done st" "hs_finish st" "read_class (hs_readErr st)" "was_canceled ctx (hs_readErr st)"]
  by (auto simp: bridge_classify_def Let_def handler_ok_def outcome_base_def set_result_def split: prod.splits)

lemma responses_finish_ok:
  assumes "handler_ok good st"
  shows "handler_ok good (responses_finish ctx rid st)"
proof (cases "hs_header st")
  case False
  with open_failure_ok[OF assms, of ctx] show ?thesis
    by (auto simp: responses_finish_def sendResponseFailure_def Let_def split: prod.splits dest!: hs_write_ok[where good = good])
next
  case True
  obtain st1 event where c: "bridge_classify ctx st = (st1, event)" by fastforce
  have "handler_ok good st1" using bridge_classify_ok[OF assms, of ctx] c by simp
  with True c show ?thesis
    by (auto simp: responses_finish_def sendResponseFailure_def simp del: send_all.simps split: prod.splits
        dest!: hs_write_ok[where good = good] dest: send_all_ok[where good = good])
qed

text \<open>The figures of a usage record that can be settled next to an input estimate of \<open>n\<close> tokens.\<close>

definition usage_fits :: "int \<Rightarrow> Usage \<Rightarrow> bool" where
  "usage_fits n u \<longleftrightarrow> 0 \<le> PromptTokens u \<and> 0 \<le> CompletionTokens u \<and> 0 \<le> CachedTokens u \<and>
     PromptTokens u + CompletionTokens u \<le> max_i64 \<and> n + CompletionTokens u \<le> max_i64"

lemma stream_outcome_ok:
  assumes h: "handler_ok (usage_fits (res_InputTokens (le_reservation l))) st"
    and n: "0 \<le> res_InputTokens (le_reservation l)" "res_InputTokens (le_reservation l) + produced \<le> max_i64"
  shows "outcome_ok (stream_outcome produced l st)"
proof (cases "\<not> TotalTokens (hs_usage st) > 0 \<and> produced > 0")
  case True
  then have u: "final_usage produced st = \<lparr>PromptTokens = 0, CompletionTokens = (produced + 1) div 2, TotalTokens = produced, CachedTokens = 0\<rparr>"
    by (simp add: final_usage_def sdiv_nonneg)
  have half: "0 \<le> (produced + 1) div 2" "(produced + 1) div 2 \<le> produced" using True by presburger+
  then have fit: "res_InputTokens (le_reservation l) + (produced + 1) div 2 \<le> max_i64" using n(2) by linarith
  from h have "outcome_base (hs_outcome st)" by (simp add: handler_ok_def)
  with half(1) fit n(1) PriceUsage_range show ?thesis
    by (auto simp: outcome_ok_def stream_outcome_def u outcome_base_def)
next
  case False
  then have u: "final_usage produced st = hs_usage st" by (auto simp: final_usage_def)
  from h have "outcome_base (hs_outcome st)" "usage_fits (res_InputTokens (le_reservation l)) (hs_usage st)" by (simp_all add: handler_ok_def)
  with n(1) PriceUsage_range show ?thesis
    by (auto simp: outcome_ok_def stream_outcome_def u outcome_base_def usage_fits_def Let_def)
qed

lemma no_usage_fits: "0 \<le> n \<Longrightarrow> n \<le> max_i64 \<Longrightarrow> usage_fits n no_usage"
  by (simp add: usage_fits_def no_usage_def i64_defs)

lemma chat_run_ok:
  assumes w: "world_ok w" and d: "decodes_good decode good" and g: "good no_usage"
  shows "handler_ok good (chat_run decode l w)"
proof -
  let ?rid = "res_RequestID (le_reservation l)" and ?rs = "session_results (sw_ticks w) (produce (sw_upstream w))"
  let ?final = "run_loop (chat_step decode ?rid) ?rs (handler_start l (sw_writes w))"
  have start: "handler_ok good (handler_start l (sw_writes w) :: chat_write handler)" using g by (rule handler_start_ok)
  have "handler_ok good (loop_state ?final)"
    using chat_loop.loop_keeps[OF produced_ok[OF w, of "sw_ticks w"], of decode good "handler_start l (sw_writes w)" ?rid] start d by simp
  then show ?thesis using start chat_finish_ok[of good]
    by (cases ?final) (simp_all add: chat_run_def Let_def)
qed

lemma responses_run_ok:
  assumes w: "world_ok w" and d: "decodes_good_opt decode good" and g: "good no_usage"
  shows "handler_ok good (responses_run decode l w)"
proof -
  let ?rid = "res_RequestID (le_reservation l)" and ?rs = "session_results (sw_ticks w) (produce (sw_upstream w))"
  let ?final = "run_loop (responses_step decode ?rid) ?rs (handler_start l (sw_writes w))"
  have start: "handler_ok good (handler_start l (sw_writes w) :: response_event handler)" using g by (rule handler_start_ok)
  have "handler_ok good (loop_state ?final)"
    using responses_loop.loop_keeps[OF produced_ok[OF w, of "sw_ticks w"], of decode good "handler_start l (sw_writes w)" ?rid] start d by simp
  then show ?thesis using start responses_finish_ok[of good]
    by (cases ?final) (simp_all add: responses_run_def Let_def)
qed

section \<open>What the client receives\<close>

lemma hs_write_True:
  assumes "hs_write x st = (st', True)"
  shows "hs_sent st' = hs_sent st @ [x]" "hs_outcome st' = hs_outcome st" "hs_done st' = hs_done st" "hs_header st' = hs_header st"
    "hs_readErr st' = hs_readErr st" "hs_text st' = hs_text st" "hs_usage st' = hs_usage st" "hs_finish st' = hs_finish st"
  using assms by (auto simp: hs_write_def split: list.splits if_splits)

lemma hs_write_False:
  assumes "hs_write x st = (st', False)"
  shows "hs_sent st' = hs_sent st" "hs_outcome st' = hs_outcome st"
  using assms by (auto simp: hs_write_def split: list.splits if_splits)

lemma hs_write_outcome: "hs_write x st = (st', b) \<Longrightarrow> hs_outcome st' = hs_outcome st"
  by (cases b) (simp_all add: hs_write_True hs_write_False)

lemma set_result_simps [simp]:
  "oc_Status (hs_outcome (set_result s c g st)) = s" "oc_ErrorCode (hs_outcome (set_result s c g st)) = c"
  "hs_sent (set_result s c g st) = hs_sent st" "hs_done (set_result s c g st) = hs_done st" "hs_text (set_result s c g st) = hs_text st"
  "hs_header (set_result s c g st) = hs_header st" "hs_readErr (set_result s c g st) = hs_readErr st" "hs_usage (set_result s c g st) = hs_usage st"
  by (simp_all add: set_result_def)

lemma writeFailure_simps [simp]:
  "oc_Status (hs_outcome (writeFailure st)) = ''aborted''" "hs_sent (writeFailure st) = hs_sent st"
  by (simp_all add: writeFailure_def)

fun frames_of :: "stream_result list \<Rightarrow> SSEFrame list" where
  "frames_of [] = []"
| "frames_of (ResFrame fr # rs) = fr # frames_of rs"
| "frames_of (r # rs) = frames_of rs"

definition passing :: "stream_result \<Rightarrow> bool" where
  "passing r = (case r of ResHeader _ \<Rightarrow> True | ResFrame _ \<Rightarrow> True | _ \<Rightarrow> False)"

text \<open>The results taken before the first other event are the producer's, in its order.\<close>

lemma session_prefix:
  "session_results ts rs = pre @ x # post \<Longrightarrow> list_all passing (pre @ [x]) \<Longrightarrow> \<exists>post'. rs = pre @ x # post'"
proof (induction ts rs arbitrary: pre rule: session_results.induct)
  case (1 rs)
  have "rs = pre @ x # butlast post"
  proof (cases "post = []")
    case True
    with 1 show ?thesis by (auto simp: passing_def)
  next
    case False
    then have "rs @ [ResReadError GEOF] = (pre @ x # butlast post) @ [last post]" using 1(1) by simp
    then show ?thesis by simp
  qed
  then show ?case by blast
next
  case (5 buffered ts rs)
  then obtain post' where p: "(if buffered then take 1 rs else []) = pre @ x # post'" by auto
  have "take 1 rs = pre @ x # post'" using p by (cases buffered) auto
  then have "rs = (pre @ x # post') @ drop 1 rs" by (metis append_take_drop_id)
  then show ?case by auto
next
  case (7 ts r rs)
  show ?case
  proof (cases pre)
    case Nil
    with 7 show ?thesis by simp
  next
    case (Cons y ys)
    with 7 show ?thesis by auto
  qed
qed (auto simp: Cons_eq_append_conv passing_def split: if_splits)

lemma read_frames_done:
  "read_frames fin inp = pre @ ResFrame fr # post \<Longrightarrow> is_done fr \<Longrightarrow> post = []"
proof (induction fin inp arbitrary: pre rule: read_frames.induct)
  case (1 fin inp)
  show ?case
  proof (cases "Next 1048576 (stream_end fin) inp")
    case (Inl e)
    with 1(2) show ?thesis by (subst (asm) read_frames.simps) (auto simp: Cons_eq_append_conv)
  next
    case (Inr x)
    obtain f rest where x: "x = (f, rest)" by fastforce
    show ?thesis using 1(1)[OF Inr x[symmetric]] 1(2,3)
      by (subst (asm) (2) read_frames.simps) (auto simp: Inr x Cons_eq_append_conv split: if_splits)
  qed
qed

lemma chat_frame_passes:
  assumes "chat_frame decode fr st = x" "x = Continue st' \<or> x = Finished st' \<and> hs_done st'" "\<not> hs_done st"
  shows "hs_sent st' = hs_sent st @ [ForwardFrame (fr_Raw fr)]" "hs_header st' = hs_header st" "hs_readErr st' = hs_readErr st"
    "hs_done st' \<longleftrightarrow> is_done fr" "hs_done st' \<longleftrightarrow> x = Finished st'" "hs_outcome st' = hs_outcome st"
proof -
  obtain st1 ok where w: "hs_write (ForwardFrame (fr_Raw fr)) st = (st1, ok)" by fastforce
  have ok using assms w by (cases ok) (auto simp: chat_frame_def)
  note h = hs_write_True[OF w[unfolded this[THEN eqTrueI]]]
  show "hs_sent st' = hs_sent st @ [ForwardFrame (fr_Raw fr)]" "hs_header st' = hs_header st" "hs_readErr st' = hs_readErr st"
    "hs_done st' \<longleftrightarrow> is_done fr" "hs_done st' \<longleftrightarrow> x = Finished st'" "hs_outcome st' = hs_outcome st"
    using assms w \<open>ok\<close> h by (auto simp: chat_frame_def Let_def split: if_splits)
qed

lemma chat_loop_done:
  assumes "run_loop (chat_step decode rid) rs st = Finished st'" "hs_done st'" "\<not> hs_done st"
  shows "\<exists>pre fr post. rs = pre @ ResFrame fr # post \<and> is_done fr \<and> list_all passing pre \<and>
     hs_sent st' = hs_sent st @ map (\<lambda>f. ForwardFrame (fr_Raw f)) (frames_of pre @ [fr])"
  using assms
proof (induction rs arbitrary: st)
  case (Cons r rs)
  show ?case
  proof (cases "chat_step decode rid r st")
    case (Returned s)
    with Cons.prems show ?thesis by simp
  next
    case (Finished s)
    with Cons.prems obtain fr where r: "r = ResFrame fr" and s: "s = st'" by (cases r) (auto simp: chat_step_def)
    with Finished have f: "chat_frame decode fr st = Finished st'" by (simp add: chat_step_def)
    note p = chat_frame_passes(1,4)[OF f disjI2[OF conjI[OF refl Cons.prems(2)]] Cons.prems(3)]
    with Cons.prems(2) show ?thesis by (intro exI[of _ "[]"] exI[of _ fr] exI[of _ rs]) (simp add: r)
  next
    case (Continue s)
    with Cons.prems have run: "run_loop (chat_step decode rid) rs s = Finished st'" by simp
    have "passing r \<and> hs_sent s = hs_sent st @ map (\<lambda>f. ForwardFrame (fr_Raw f)) (frames_of [r]) \<and> \<not> hs_done s"
    proof (cases r)
      case (ResFrame f)
      with Continue have c: "chat_frame decode f st = Continue s" by (simp add: chat_step_def)
      from chat_frame_passes(1,5)[OF c disjI1[OF refl] Cons.prems(3)] show ?thesis by (simp add: ResFrame passing_def)
    qed (use Continue Cons.prems(3) in \<open>auto simp: chat_step_def passing_def\<close>)
    then have pass: "passing r" and s: "hs_sent s = hs_sent st @ map (\<lambda>f. ForwardFrame (fr_Raw f)) (frames_of [r])" "\<not> hs_done s" by blast+
    from Cons.IH[OF run Cons.prems(2) s(2)] obtain pre fr post where
      "rs = pre @ ResFrame fr # post" "is_done fr" "list_all passing pre" "hs_sent st' = hs_sent s @ map (\<lambda>f. ForwardFrame (fr_Raw f)) (frames_of pre @ [fr])"
      by blast
    then show ?thesis using pass s(1) by (intro exI[of _ "r # pre"] exI[of _ fr] exI[of _ post]) (cases r; simp)
  qed
qed simp

lemma chat_loop_aborted:
  "oc_Status (hs_outcome st) = ''aborted'' \<Longrightarrow> oc_Status (hs_outcome (loop_state (run_loop (chat_step decode rid) rs st))) = ''aborted''"
proof (induction rs arbitrary: st)
  case (Cons r rs)
  have "oc_Status (hs_outcome (loop_state (chat_step decode rid r st))) = ''aborted''"
    using Cons.prems
    by (cases r) (auto simp: chat_step_def chat_frame_def chat_refused_def Let_def split: prod.splits if_splits dest!: hs_write_outcome)
  with Cons.IH show ?case by (cases "chat_step decode rid r st") auto
qed simp

lemma ChatTerminal_completed: "fst (ChatTerminal d e c) = ''completed'' \<longleftrightarrow> d \<and> \<not> c \<and> (e = ReadOk \<or> e = ReadEOF)"
  by (auto simp: ChatTerminal_def read_failure_def split: read_error.splits)

lemma open_failure_status: "oc_Status (hs_outcome (open_failure ctx st)) \<noteq> ''completed''"
  by (auto simp: open_failure_def streamOpenFailure_def Let_def split: prod.splits option.splits if_splits)

lemma chat_mark_simps [simp]:
  "oc_Status (hs_outcome (chat_mark st)) = oc_Status (hs_outcome st)" "hs_sent (chat_mark st) = hs_sent st"
  by (simp_all add: chat_mark_def Let_def)

lemma chat_classify_sent [simp]: "hs_sent (chat_classify ctx st) = hs_sent st"
  by (auto simp: chat_classify_def open_failure_def split: prod.splits)

lemma chat_classify_completed:
  assumes "oc_Status (hs_outcome (chat_classify ctx st)) = ''completed''"
  shows "hs_header st \<and> hs_done st \<and> ctx = CtxLive"
proof -
  have h: "hs_header st" using assms open_failure_status[of ctx st] by (cases "hs_header st") (auto simp: chat_classify_def)
  obtain status code where t: "ChatTerminal (hs_done st) (read_class (hs_readErr st)) (was_canceled ctx (hs_readErr st)) = (status, code)" by fastforce
  with assms h have "status = ''completed''" by (simp add: chat_classify_def)
  with ChatTerminal_completed[of "hs_done st" "read_class (hs_readErr st)" "was_canceled ctx (hs_readErr st)"] t h show ?thesis
    by (auto simp: was_canceled_def)
qed

lemma chat_finish_status:
  "oc_Status (hs_outcome (chat_finish ctx rid st)) = ''completed'' \<Longrightarrow>
     oc_Status (hs_outcome (chat_classify ctx st)) = ''completed'' \<and> hs_sent (chat_finish ctx rid st) = hs_sent st"
  by (auto simp: chat_finish_def Let_def split: prod.splits if_splits dest: hs_write_outcome)

text \<open>A failed chat stream has told the client so, with its error code, in the last event it sent.\<close>

lemma chat_finish_failed:
  assumes "oc_Status (hs_outcome (chat_finish ctx rid st)) = ''failed''"
  shows "hs_sent (chat_finish ctx rid st) = hs_sent st @ [StreamErrorEvent (oc_ErrorCode (hs_outcome (chat_finish ctx rid st))) rid]"
proof -
  obtain st1 ok where w: "hs_write (StreamErrorEvent (oc_ErrorCode (hs_outcome (chat_classify ctx st))) rid) (chat_classify ctx st) = (st1, ok)" by fastforce
  have f: "oc_Status (hs_outcome (chat_classify ctx st)) = ''failed''" and ok
    using assms w by (auto simp: chat_finish_def Let_def split: if_splits)
  then show ?thesis using w hs_write_True(1,2)[of _ "chat_classify ctx st" st1]
    by (simp add: chat_finish_def Let_def)
qed

lemma chat_run_cases:
  obtains (not_greeted) "\<not> sw_greeted w" "hs_sent (chat_run decode l w) = []" "oc_Status (hs_outcome (chat_run decode l w)) = ''aborted''"
  | (returned) st where "sw_greeted w" "chat_run decode l w = st" "oc_Status (hs_outcome st) = ''aborted''"
  | (finished) st where "sw_greeted w" "chat_run decode l w = chat_finish (sw_ctx w) (res_RequestID (le_reservation l)) st"
      "run_loop (chat_step decode (res_RequestID (le_reservation l))) (session_results (sw_ticks w) (produce (sw_upstream w)))
         (handler_start l (sw_writes w)) = Finished st"
proof -
  let ?rid = "res_RequestID (le_reservation l)" and ?rs = "session_results (sw_ticks w) (produce (sw_upstream w))"
  let ?final = "run_loop (chat_step decode ?rid) ?rs (handler_start l (sw_writes w))"
  have "oc_Status (hs_outcome (handler_start l (sw_writes w) :: chat_write handler)) = ''aborted''" by (simp add: handler_start_def initial_outcome_def)
  note ab = chat_loop_aborted[OF this, of decode ?rid ?rs]
  obtain e where "ResReadError e \<in> set ?rs" using session_results_end by blast
  note fin = chat_loop.loop_ends[OF this, of decode ?rid "handler_start l (sw_writes w)"]
  show thesis
  proof (cases "sw_greeted w")
    case False
    then show thesis by (intro not_greeted) (simp_all add: chat_run_def Let_def handler_start_def)
  next
    case True
    show thesis
    proof (cases ?final)
      case (Continue st)
      with fin show thesis by blast
    next
      case (Returned st)
      with True ab show thesis by (intro returned[of st]) (simp_all add: chat_run_def Let_def)
    next
      case (Finished st)
      with True show thesis by (intro finished[of st]) (simp_all add: chat_run_def Let_def)
    qed
  qed
qed

section \<open>What a Responses client receives\<close>

fun delta_of :: "response_event \<Rightarrow> string" where
  "delta_of (RDelta t) = t"
| "delta_of e = []"

fun streaming :: "response_event \<Rightarrow> bool" where
  "streaming (RTextDone t) = False"
| "streaming (RItemDone t) = False"
| "streaming (RCompleted t u) = False"
| "streaming (RFailure a b c d e) = False"
| "streaming e = True"

definition bridge_inv :: "response_event handler \<Rightarrow> bool" where
  "bridge_inv st \<longleftrightarrow> list_all streaming (hs_sent st) \<and> hs_text st = concat (map delta_of (hs_sent st)) \<and>
     oc_Status (hs_outcome st) = ''aborted''"

text \<open>A handler that returned early has reported no completion.\<close>

definition bridge_left :: "response_event handler \<Rightarrow> bool" where
  "bridge_left st \<longleftrightarrow> oc_Status (hs_outcome st) = ''aborted'' \<and> (\<forall>t u. RCompleted t u \<notin> set (hs_sent st))"

lemma bridge_inv_left: "bridge_inv st \<Longrightarrow> bridge_left st"
  by (auto simp: bridge_inv_def bridge_left_def list_all_iff)

lemma bridge_left_failure: "hs_write x st = (st', False) \<Longrightarrow> list_all streaming (hs_sent st) \<Longrightarrow> bridge_left (writeFailure st')"
  using hs_write_False(1)[of x st st'] by (auto simp: bridge_left_def list_all_iff)

lemma bridge_write:
  assumes "hs_write x st = (st', ok)" "bridge_inv st" "streaming x" "delta_of x = []"
  shows "bridge_inv st' \<and> ok \<or> bridge_left (writeFailure st') \<and> \<not> ok"
proof (cases ok)
  case True
  with assms hs_write_True[of x st st'] show ?thesis by (simp add: bridge_inv_def)
next
  case False
  with assms bridge_left_failure[of x st st'] show ?thesis by (simp add: bridge_inv_def)
qed

lemma bridge_send_all:
  assumes "send_all xs st = (st', ok)" "bridge_inv st" "list_all (\<lambda>x. streaming x \<and> delta_of x = []) xs"
  shows "bridge_inv st' \<and> ok \<or> bridge_left (writeFailure st') \<and> \<not> ok"
  using assms
proof (induction xs arbitrary: st)
  case (Cons x xs)
  obtain st1 b where w: "hs_write x st = (st1, b)" by fastforce
  note s = bridge_write[OF w Cons.prems(2)]
  show ?case
  proof (cases b)
    case True
    with Cons.prems w s have "bridge_inv st1" "send_all xs st1 = (st', ok)" by simp_all
    with Cons.IH Cons.prems(3) show ?thesis by simp
  next
    case False
    with Cons.prems w s show ?thesis by simp
  qed
qed simp

definition bridge_loop_ok :: "response_event handler loop \<Rightarrow> bool" where
  "bridge_loop_ok x = (case x of Continue st \<Rightarrow> bridge_inv st | Finished st \<Rightarrow> bridge_inv st | Returned st \<Rightarrow> bridge_left st)"

lemma bridge_inv_updates [simp]:
  "bridge_inv (st\<lparr>hs_readErr := e\<rparr>) = bridge_inv st" "bridge_inv (st\<lparr>hs_done := b\<rparr>) = bridge_inv st" "bridge_inv (st\<lparr>hs_usage := u\<rparr>) = bridge_inv st"
  "bridge_inv (st\<lparr>hs_finish := f, hs_incomplete := g\<rparr>) = bridge_inv st"
  "bridge_inv (st\<lparr>hs_header := b, hs_outcome := (hs_outcome st)\<lparr>oc_HTTPStatus := n\<rparr>\<rparr>) = bridge_inv st"
  by (simp_all add: bridge_inv_def)

lemma responses_choice_bridge: "bridge_inv st \<Longrightarrow> bridge_loop_ok (responses_choice c st)"
proof -
  assume inv: "bridge_inv st"
  define st1 where "st1 = (if snd c \<noteq> [] then st\<lparr>hs_finish := snd c,
                  hs_incomplete := (if snd c = ''length'' then ''max_output_tokens'' else hs_incomplete st)\<rparr> else st)"
  have inv1: "bridge_inv st1" using inv by (simp add: st1_def)
  obtain st2 ok where w: "hs_write (RDelta (fst c)) (st1\<lparr>hs_text := hs_text st1 @ fst c\<rparr>) = (st2, ok)" by fastforce
  have "if ok then bridge_inv st2 else bridge_left (writeFailure st2)"
  proof (cases ok)
    case True
    with w have "hs_write (RDelta (fst c)) (st1\<lparr>hs_text := hs_text st1 @ fst c\<rparr>) = (st2, True)" by simp
    from hs_write_True[OF this] inv1 True show ?thesis by (simp add: bridge_inv_def)
  next
    case False
    with w have "hs_write (RDelta (fst c)) (st1\<lparr>hs_text := hs_text st1 @ fst c\<rparr>) = (st2, False)" by simp
    from bridge_left_failure[OF this] inv1 False show ?thesis by (simp add: bridge_inv_def)
  qed
  then show ?thesis using inv1 by (simp add: responses_choice_def Let_def st1_def[symmetric] w bridge_loop_ok_def)
qed

lemma responses_frame_bridge:
  assumes "bridge_inv st"
  shows "bridge_loop_ok (responses_frame decode fr st)"
proof (cases "fr_Comment fr")
  case True
  obtain st1 ok where w: "hs_write (RComment (fr_Raw fr)) st = (st1, ok)" by fastforce
  with True bridge_write[OF w assms] show ?thesis by (auto simp: responses_frame_def bridge_loop_ok_def)
next
  case False
  show ?thesis
  proof (cases "decode (trim_space (fr_Data fr))")
    case None
    with False assms show ?thesis by (simp add: responses_frame_def bridge_loop_ok_def Let_def)
  next
    case (Some cu)
    obtain choices usage where cu: "cu = (choices, usage)" by fastforce
    have h: "bridge_inv (case usage of Some u \<Rightarrow> if TotalTokens u > 0 then st\<lparr>hs_usage := u\<rparr> else st | None \<Rightarrow> st)"
      using assms by (simp split: option.splits)
    show ?thesis using False assms h responses_choice_bridge[OF h]
      by (cases choices) (simp_all add: responses_frame_def Let_def Some cu bridge_loop_ok_def)
  qed
qed

lemma responses_step_bridge:
  assumes "bridge_inv st"
  shows "bridge_loop_ok (responses_step decode rid r st)"
proof (cases r)
  case (ResHeader status)
  obtain st1 ok where w: "send_all [RCreated, RItemAdded, RPartAdded]
      (st\<lparr>hs_header := True, hs_outcome := (hs_outcome st)\<lparr>oc_HTTPStatus := status\<rparr>\<rparr>) = (st1, ok)" by fastforce
  from bridge_send_all[OF w] assms ResHeader w show ?thesis
    by (auto simp: responses_step_def bridge_loop_ok_def simp del: send_all.simps)
next
  case (ResFrame fr)
  with responses_frame_bridge[OF assms] show ?thesis by (simp add: responses_step_def)
next
  case ResAdmissionError
  then show ?thesis using assms hs_write_True(1,2) hs_write_False(1,2)
    by (auto simp: responses_step_def sendResponseFailure_def Let_def bridge_loop_ok_def bridge_left_def bridge_inv_def list_all_iff hs_write_def
        split: prod.splits list.splits if_splits)
qed (use assms bridge_inv_left[OF assms] in \<open>auto simp: responses_step_def bridge_loop_ok_def bridge_left_def\<close>)

lemma responses_loop_bridge: "bridge_inv st \<Longrightarrow> bridge_loop_ok (run_loop (responses_step decode rid) rs st)"
proof (induction rs arbitrary: st)
  case (Cons r rs)
  then show ?case using responses_step_bridge[OF Cons.prems, of decode rid r]
    by (cases "responses_step decode rid r st") (auto simp: bridge_loop_ok_def)
qed (simp add: bridge_loop_ok_def)

text \<open>What the client is told is what the ledger will record.\<close>

definition bridge_told :: "response_event handler \<Rightarrow> bool" where
  "bridge_told st \<longleftrightarrow>
     (\<forall>t u. RCompleted t u \<in> set (hs_sent st) \<longrightarrow> oc_Status (hs_outcome st) = ''completed'' \<and> last (hs_sent st) = RCompleted t u \<and>
        t = concat (map delta_of (hs_sent st))) \<and>
     (oc_Status (hs_outcome st) = ''completed'' \<longrightarrow> (\<exists>t u. RCompleted t u \<in> set (hs_sent st))) \<and>
     (oc_Status (hs_outcome st) = ''failed'' \<longrightarrow>
        (\<exists>event status t rid. hs_sent st \<noteq> [] \<and> last (hs_sent st) = RFailure event status (oc_ErrorCode (hs_outcome st)) t rid))"

lemma bridge_left_told: "bridge_left st \<Longrightarrow> bridge_told st"
  by (auto simp: bridge_left_def bridge_told_def)

lemma failure_told:
  assumes "sendResponseFailure (oc_ErrorCode (hs_outcome st)) event rid st = (st', ok)" "list_all streaming (hs_sent st)"
    "oc_Status (hs_outcome st) \<noteq> ''completed''"
  shows "bridge_told (if ok then st' else writeFailure st')"
proof (cases ok)
  case True
  with assms(1) have "hs_write (RFailure event (if event = ''response.incomplete'' then ''incomplete'' else ''failed'')
      (oc_ErrorCode (hs_outcome st)) (hs_text st) rid) st = (st', True)" by (simp add: sendResponseFailure_def)
  from hs_write_True(1,2)[OF this] assms(2,3) True show ?thesis by (auto simp: bridge_told_def list_all_iff)
next
  case False
  with assms(1) have "hs_write (RFailure event (if event = ''response.incomplete'' then ''incomplete'' else ''failed'')
      (oc_ErrorCode (hs_outcome st)) (hs_text st) rid) st = (st', False)" by (simp add: sendResponseFailure_def)
  from bridge_left_failure[OF this assms(2)] False show ?thesis by (simp add: bridge_left_told)
qed

lemma send_all_sent:
  "send_all xs st = (st', ok) \<Longrightarrow> hs_outcome st' = hs_outcome st \<and>
     (if ok then hs_sent st' = hs_sent st @ xs else set (hs_sent st') \<subseteq> set (hs_sent st) \<union> set (butlast xs))"
proof (induction xs arbitrary: st)
  case (Cons x xs)
  obtain s1 b where w: "hs_write x st = (s1, b)" by fastforce
  show ?case
  proof (cases b)
    case True
    with Cons.prems w have "send_all xs s1 = (st', ok)" by simp
    with Cons.IH[OF this] hs_write_True(1,2)[of x st s1] w True show ?thesis by (cases xs) (auto split: if_splits)
  next
    case False
    with Cons.prems w hs_write_False(1,2)[of x st s1] show ?thesis by auto
  qed
qed simp

lemma completion_told:
  assumes w: "send_all [RTextDone (hs_text st), RItemDone (hs_text st), RCompleted (hs_text st) u] st = (st', ok)"
    and st: "list_all streaming (hs_sent st)" "hs_text st = concat (map delta_of (hs_sent st))" "oc_Status (hs_outcome st) = ''completed''"
  shows "bridge_told (if ok then st' else writeFailure st')"
proof -
  have free: "RCompleted t v \<notin> set (hs_sent st)" for t v using st(1) by (auto simp: list_all_iff)
  note s = send_all_sent[OF w]
  show ?thesis
  proof (cases ok)
    case True
    with s st free show ?thesis by (auto simp: bridge_told_def)
  next
    case False
    with s have "RCompleted t v \<notin> set (hs_sent st')" for t v using free[of t v] by auto
    with False show ?thesis by (simp add: bridge_told_def)
  qed
qed

lemma open_failure_simps [simp]: "hs_sent (open_failure ctx st) = hs_sent st"
  by (auto simp: open_failure_def split: prod.splits)

lemma bridge_terminal_event: "ResponsesBridgeTerminal d f e c = (status, code, event) \<Longrightarrow> status = ''failed'' \<Longrightarrow> event \<noteq> []"
  by (auto simp: ResponsesBridgeTerminal_def split: prod.splits if_splits)

lemma responses_finish_told:
  assumes inv: "bridge_inv st"
  shows "bridge_told (responses_finish ctx rid st)"
proof (cases "hs_header st")
  case False
  let ?s = "open_failure ctx st"
  have s: "list_all streaming (hs_sent ?s)" "oc_Status (hs_outcome ?s) \<noteq> ''completed''"
    using inv open_failure_status[of ctx st] by (simp_all add: bridge_inv_def)
  show ?thesis
  proof (cases "oc_Status (hs_outcome ?s) = ''failed''")
    case True
    obtain st1 ok where w: "sendResponseFailure (oc_ErrorCode (hs_outcome ?s)) ''response.failed'' rid ?s = (st1, ok)" by fastforce
    from failure_told[OF w s] True False w show ?thesis by (simp add: responses_finish_def Let_def)
  next
    case False
    with s \<open>\<not> hs_header st\<close> show ?thesis by (auto simp: responses_finish_def Let_def bridge_told_def list_all_iff)
  qed
next
  case True
  obtain s event where c: "bridge_classify ctx st = (s, event)" by fastforce
  obtain status code ev where t: "ResponsesBridgeTerminal (hs_done st) (hs_finish st) (read_class (hs_readErr st)) (was_canceled ctx (hs_readErr st)) = (status, code, ev)"
    using prod_cases3 by blast
  have s: "hs_sent s = hs_sent st" "hs_text s = hs_text st" "hs_usage s = hs_usage st" "oc_Status (hs_outcome s) = status" "event = ev"
    using c t by (auto simp: bridge_classify_def Let_def)
  have str: "list_all streaming (hs_sent s)" "hs_text s = concat (map delta_of (hs_sent s))" using inv s by (simp_all add: bridge_inv_def)
  show ?thesis
  proof (cases "status = ''completed''")
    case True
    obtain s1 ok where w: "send_all [RTextDone (hs_text s), RItemDone (hs_text s), RCompleted (hs_text s) (hs_usage s)] s = (s1, ok)" by fastforce
    from completion_told[OF w str] True s(4) w c \<open>hs_header st\<close> show ?thesis
      by (simp add: responses_finish_def del: send_all.simps)
  next
    case False
    obtain s1 ok where w: "sendResponseFailure (oc_ErrorCode (hs_outcome s)) event rid s = (s1, ok)" by fastforce
    have "bridge_told s" if "event = []"
      using that bridge_terminal_event[OF t] s False str by (auto simp: bridge_told_def list_all_iff)
    with failure_told[OF w str(1)] False s(4) w c \<open>hs_header st\<close> show ?thesis by (simp add: responses_finish_def)
  qed
qed

lemma responses_run_told: "bridge_told (responses_run decode l w)"
proof -
  let ?rid = "res_RequestID (le_reservation l)" and ?rs = "session_results (sw_ticks w) (produce (sw_upstream w))"
  let ?start = "handler_start l (sw_writes w) :: response_event handler"
  let ?final = "run_loop (responses_step decode ?rid) ?rs ?start"
  have inv: "bridge_inv ?start" by (simp add: bridge_inv_def handler_start_def initial_outcome_def)
  have told: "bridge_told ?start" by (rule bridge_left_told[OF bridge_inv_left[OF inv]])
  have e: "bridge_loop_ok ?final" by (rule responses_loop_bridge[OF inv])
  show ?thesis
  proof (cases "sw_greeted w")
    case False
    then show ?thesis by (simp add: responses_run_def Let_def bridge_told_def) (simp add: handler_start_def)
  next
    case True
    then show ?thesis using e responses_finish_told bridge_left_told bridge_inv_left
      by (cases ?final) (auto simp: responses_run_def Let_def bridge_loop_ok_def)
  qed
qed

end
