(* ===== verification/Session_Claims.thy ===== *)
theory Session_Claims
  imports Stream_Runs Service_Claims
begin

text \<open>
  Properties of streaming requests: they are settled and leave no slot behind whatever the upstream,
  the client and the schedule do, and the client is told what the ledger records.
\<close>

lemma PrepareStream_Begin:
  "PrepareStream ev configured d req sv = (s1, Inr l) \<Longrightarrow> \<exists>s0. Begin ev configured d (req\<lparr>rq_Stream := True\<rparr>) sv = (s0, Inr l) \<and>
     s1 = s0\<lparr>sv_upstream := setUpstream (res_ID (le_reservation l)) (sv_upstream s0)\<rparr>"
  by (auto simp: PrepareStream_def split: prod.splits sum.splits)

lemma PrepareStream_reachable: "relay_reachable sv \<Longrightarrow> PrepareStream ev configured d req sv = (s1, Inr l) \<Longrightarrow> relay_reachable s1"
  using PrepareStream_Begin relay_step.admit relay_step.track relay_reachable.step by metis

lemma settled_row:
  "q_status (settle_request now (with_defaults (settlement_of o1)) q) = oc_Status o1"
  "q_amount (settle_request now (with_defaults (settlement_of o1)) q) = oc_AmountMicroyuan o1"
  "q_input_tokens (settle_request now (with_defaults (settlement_of o1)) q) = oc_InputTokens o1"
  "q_output_tokens (settle_request now (with_defaults (settlement_of o1)) q) = oc_OutputTokens o1"
  by (simp_all add: settle_request_def with_defaults_def settlement_of_def)

lemma stream_outcome_simps [simp]:
  "oc_Status (stream_outcome n l st) = oc_Status (hs_outcome st)" "oc_AmountMicroyuan (stream_outcome n l st) = PriceUsage (final_usage n st) (le_model l)"
  "oc_OutputTokens (stream_outcome n l st) = CompletionTokens (final_usage n st)"
  by (simp_all add: stream_outcome_def Let_def)

definition sample_stream :: stream_world where
  "sample_stream = \<lparr>sw_greeted = True, sw_ticks = [Heartbeat True, TakeResult, Check True],
     sw_upstream = Inr (200, encode_data [''hi''] @ newline # encode_data [''[DONE]''] @ [newline], GEOF), sw_writes = [], sw_ctx = CtxLive\<rparr>"

definition data_frame :: "string \<Rightarrow> SSEFrame" where
  "data_frame d = \<lparr>fr_Event = [], fr_Data = d, fr_Raw = encode_data [d] @ [newline], fr_Comment = False\<rparr>"

lemma Next_data_frame:
  assumes "plain_line d" "length d < 1000"
  shows "Next 1048576 fin (encode_data [d] @ newline # rest) = Inr (data_frame d, rest)"
proof -
  have "length (encode_data [d]) + 1 \<le> 1048576" using assms(2) by (simp add: encode_data_def data_line_def)
  moreover have "NewSSEReader_max 1048576 = 1048576" by (simp add: NewSSEReader_max_def default_max_def)
  ultimately show ?thesis using Next_roundtrip[of d "[]" "NewSSEReader_max 1048576" fin rest] assms(1)
    by (simp add: Next_def data_frame_def)
qed

lemma sample_produced: "produce (sw_upstream sample_stream) = [ResHeader 200, ResFrame (data_frame ''hi''), ResFrame (data_frame ''[DONE]'')]"
proof -
  have p: "plain_line ''hi''" "plain_line ''[DONE]''" by code_simp+
  have d: "is_done (data_frame ''[DONE]'')" "\<not> is_done (data_frame ''hi'')" by code_simp+
  have second: "read_frames GEOF (encode_data [''[DONE]''] @ [newline]) = [ResFrame (data_frame ''[DONE]'')]"
    using Next_data_frame[OF p(2), of "stream_end GEOF" "[]"] d by (subst read_frames.simps) simp
  have "read_frames GEOF (encode_data [''hi''] @ newline # encode_data [''[DONE]''] @ [newline]) =
      [ResFrame (data_frame ''hi''), ResFrame (data_frame ''[DONE]'')]"
    using Next_data_frame[OF p(1), of "stream_end GEOF"] d second by (subst read_frames.simps) simp
  then show ?thesis by (simp add: sample_stream_def produce_def)
qed

definition sample_decode :: "string \<Rightarrow> (choice list \<times> Usage) option" where
  "sample_decode p = (if p = ''hi'' then Some ([\<lparr>ch_Content = [104, 105, 33], ch_FinishReason = []\<rparr>], no_usage) else None)"

definition sample_chunk :: chunk_decoder where
  "sample_chunk p = (if p = ''hi'' then Some ([(''hi!'', [])], None) else None)"

text \<open>
  C4: a streaming chat request is settled and comes out even, whatever the upstream sends, however its
  stream ends, whichever write to the client fails and whenever heartbeats, admission checks or the
  end of the request's context come between: if no decoded usage figure and no status code of the
  upstream is negative, the figures fit 64 bits and the database is at most busy in the first two settlement attempts, the request's row gets
  the status the handler determined and the price of the usage it saw or estimated, no lease stays
  open, and the gates have as many holders as before.
\<close>

theorem stream_settles:
  assumes reach: "relay_reachable sv" and prep: "PrepareStream ev configured d req sv = (sv1', Inr l)"
    and world: "world_ok w" and decode: "decodes_good decode (usage_fits (res_InputTokens (le_reservation l)))"
    and fits: "res_InputTokens (le_reservation l) + hs_chars (chat_run decode l w) \<le> max_i64"
    and busy: "tolerable a1" "tolerable a2" and run: "stream ev configured d a1 a2 (Clean t) decode w req sv = (sv', r)"
  shows "r = Inr (hs_sent (chat_run decode l w), None) \<and> open_leases sv' = open_leases sv \<and>
     gt_active (sv_global sv') = gt_active (sv_global sv) \<and> KeyGates_Active k (sv_keys sv') = KeyGates_Active k (sv_keys sv) \<and>
     (\<exists>q. tbl_find q_id (res_ID (le_reservation l)) (db_requests (sv_db sv')) = Some q \<and>
        q_status q = oc_Status (hs_outcome (chat_run decode l w)) \<and> q_status q \<in> {''completed'', ''failed'', ''aborted''} \<and>
        q_amount q = PriceUsage (final_usage (hs_chars (chat_run decode l w)) (chat_run decode l w)) (le_model l))"
proof -
  let ?st = "chat_run decode l w" and ?i = "res_ID (le_reservation l)"
  obtain sv0' where b: "Begin ev configured d (req\<lparr>rq_Stream := True\<rparr>) sv = (sv0', Inr l)"
    and sv1': "sv1' = sv0'\<lparr>sv_upstream := setUpstream ?i (sv_upstream sv0')\<rparr>" using PrepareStream_Begin[OF prep] by blast
  note inv = relay_reachable_inv[OF reach] and n = Begin_input_tokens[OF relay_reachable_inv[OF reach] b]
  have h: "handler_ok (usage_fits (res_InputTokens (le_reservation l))) ?st"
    by (rule chat_run_ok[OF world decode no_usage_fits]) (use n in simp_all)
  have ok: "outcome_ok (stream_outcome (hs_chars ?st) l ?st)" by (rule stream_outcome_ok[OF h _ fits]) (use n in simp)
  obtain e where cl: "Close ev a1 a2 (Clean t) ?i (stream_outcome (hs_chars ?st) l ?st) (sv0'\<lparr>sv_upstream := setUpstream ?i (sv_upstream sv0')\<rparr>) = (sv', e)"
    and r: "r = Inr (hs_sent ?st, e)" using run prep sv1' by (auto simp: stream_def Let_def split: prod.splits)
  note c = begin_close_even[OF inv relay_reachable_holds[OF reach] b ok busy refl cl]
  have "oc_Status (hs_outcome ?st) \<in> {''completed'', ''failed'', ''aborted''}" using h by (simp add: handler_ok_def outcome_base_def)
  then show ?thesis using c r settled_row(1,2)[of _ "enrich ev l (stream_outcome (hs_chars ?st) l ?st)"] by auto
qed

definition stream_lease :: Lease where
  "stream_lease = lease1\<lparr>le_streamed := True\<rparr>"

definition sv_streaming :: Service where
  "sv_streaming = fst (PrepareStream sample_env sample_settings False sample_call sv0)"

lemma sample_prepared: "PrepareStream sample_env sample_settings False sample_call sv0 = (sv_streaming, Inr stream_lease)"
proof -
  have "snd (PrepareStream sample_env sample_settings False sample_call sv0) = Inr stream_lease" by code_simp
  then show ?thesis by (simp add: sv_streaming_def prod_eq_iff)
qed

lemma sample_world_ok: "world_ok sample_stream"
  by (simp add: world_ok_def sample_stream_def)

lemma sample_decode_good: "decodes_good sample_decode good"
  by (simp add: decodes_good_def sample_decode_def no_usage_def)

lemma sample_decode_good_opt: "decodes_good_opt sample_chunk good"
  by (simp add: decodes_good_opt_def sample_chunk_def)

lemma sample_fields:
  "sw_greeted sample_stream = True" "sw_ticks sample_stream = [Heartbeat True, TakeResult, Check True]" "sw_writes sample_stream = []"
  "sw_ctx sample_stream = CtxLive"
  by (simp_all add: sample_stream_def)

lemma sample_chat_run:
  "chat_run sample_decode stream_lease sample_stream =
     (case run_loop (chat_step sample_decode (res_RequestID (le_reservation stream_lease)))
        (session_results [Heartbeat True, TakeResult, Check True] [ResHeader 200, ResFrame (data_frame ''hi''), ResFrame (data_frame ''[DONE]'')])
        (handler_start stream_lease []) of
        Finished st \<Rightarrow> chat_finish CtxLive (res_RequestID (le_reservation stream_lease)) st | Returned st \<Rightarrow> st | Continue st \<Rightarrow> st)"
  by (simp only: chat_run_def sample_produced sample_fields Let_def not_True_eq_False if_False)

lemma sample_stream_fits: "res_InputTokens (le_reservation stream_lease) + hs_chars (chat_run sample_decode stream_lease sample_stream) \<le> max_i64"
  unfolding sample_chat_run by code_simp

lemma sample_stream_completed: "oc_Status (hs_outcome (chat_run sample_decode stream_lease sample_stream)) = ''completed''"
  unfolding sample_chat_run by code_simp

lemma stream_lease_id: "res_ID (le_reservation stream_lease) = 1"
  by code_simp

lemma sample_busy: "tolerable (FaultBefore 5)" "tolerable (FaultAfter 3 6)"
  by code_simp+

theorem stream_settles_witness:
  "\<exists>sv' q. stream sample_env sample_settings False (FaultBefore 5) (FaultAfter 3 6) (Clean 4) sample_decode sample_stream sample_call sv0 =
       (sv', Inr (hs_sent (chat_run sample_decode stream_lease sample_stream), None)) \<and>
     open_leases sv' = open_leases sv0 \<and> tbl_find q_id 1 (db_requests (sv_db sv')) = Some q \<and> q_status q = ''completed''"
proof -
  obtain s r where run: "stream sample_env sample_settings False (FaultBefore 5) (FaultAfter 3 6) (Clean 4) sample_decode sample_stream sample_call sv0 = (s, r)"
    by fastforce
  note c = stream_settles[OF reach_sv0 sample_prepared sample_world_ok sample_decode_good sample_stream_fits sample_busy run]
  from this[of 1] run sample_stream_completed stream_lease_id show ?thesis by auto
qed

text \<open>
  C14: a streaming Responses request is settled too, and not only in isolation: between its admission
  and its end the process may admit, close, reconcile, reap, prune and be reconfigured in any order.
  When the handler closes the lease, which nothing else has closed, with the status and the usage it
  saw or estimated, and no usage figure or status code that the upstream reported is negative, the figures fit 64 bits and the database is at most
  busy in the first two attempts, then settlement succeeds, exactly this lease is gone and one global
  slot and one slot of its key are free again. (Negative usage is the subject of
  \<open>negative_usage_leaks\<close>.)
\<close>

theorem responses_settle_amid:
  assumes reach: "relay_reachable sv" and prep: "PrepareStream ev configured d req sv = (s1, Inr l)"
    and amid: "relay_step\<^sup>*\<^sup>* s1 s2" and mine: "sv_leases s2 (res_ID (le_reservation l)) = Some l"
    and world: "world_ok w" and decode: "decodes_good_opt decode (usage_fits (res_InputTokens (le_reservation l)))"
    and st: "st = responses_run decode l w" and fits: "res_InputTokens (le_reservation l) + int (length (hs_text st)) \<le> max_i64"
    and busy: "tolerable a1" "tolerable a2"
    and run: "Close ev' a1 a2 (Clean t) (res_ID (le_reservation l)) (stream_outcome (int (length (hs_text st))) l st) s2 = (sv', r)"
  shows "r = None \<and> open_leases sv' = open_leases s2 - {res_ID (le_reservation l)} \<and>
     gt_active (sv_global sv') = gt_active (sv_global s2) - 1 \<and>
     KeyGates_Active (le_keyID l) (sv_keys sv') = KeyGates_Active (le_keyID l) (sv_keys s2) - 1 \<and>
     (\<exists>q. tbl_find q_id (res_ID (le_reservation l)) (db_requests (sv_db sv')) = Some q \<and> q_status q = oc_Status (hs_outcome st) \<and>
        q_output_tokens q = CompletionTokens (final_usage (int (length (hs_text st))) st))"
proof -
  let ?i = "res_ID (le_reservation l)"
  obtain s0 where b: "Begin ev configured d (req\<lparr>rq_Stream := True\<rparr>) sv = (s0, Inr l)" using PrepareStream_Begin[OF prep] by blast
  note n = Begin_input_tokens[OF relay_reachable_inv[OF reach] b] and bl = Begin_lease[OF b]
  have "relay_reachable s2" using amid PrepareStream_reachable[OF reach prep] by (induction rule: rtranclp_induct) (auto intro: relay_reachable.step)
  note inv = relay_reachable_inv[OF this] and hold = relay_reachable_holds[OF this]
  have h: "handler_ok (usage_fits (res_InputTokens (le_reservation l))) st"
    unfolding st by (rule responses_run_ok[OF world decode no_usage_fits]) (use n in simp_all)
  have ok: "outcome_ok (stream_outcome (int (length (hs_text st))) l st)" by (rule stream_outcome_ok[OF h _ fits]) (use n in simp)
  note c = outcome_closes[OF inv hold mine bl(2,4) ok busy run]
  obtain l' where l': "le_settled l'" "le_keyID l' = le_keyID l" "sv_leases sv' = (sv_leases s2)(?i := Some l')" using c(2) by blast
  have opens: "open_leases sv' = open_leases s2 - {?i}" "open_for_key (le_keyID l) sv' = open_for_key (le_keyID l) s2 - {?i}"
    using l' by (auto simp: open_leases_def open_for_key_def split: if_splits)
  have ins: "?i \<in> open_leases s2" "?i \<in> open_for_key (le_keyID l) s2" using mine bl(2) by (auto simp: open_leases_def open_for_key_def)
  have fin: "finite (open_leases s2)" "finite (open_for_key (le_keyID l) s2)"
    using service_invD(7)[OF inv] finite_subset[OF open_for_key_subset] by blast+
  have "0 < card (open_leases s2)" "0 < card (open_for_key (le_keyID l) s2)" using ins fin by (auto simp: card_gt_0_iff)
  then have "gt_active (sv_global sv') = gt_active (sv_global s2) - 1" "KeyGates_Active (le_keyID l) (sv_keys sv') = KeyGates_Active (le_keyID l) (sv_keys s2) - 1"
    using service_invD(5,6)[OF c(3)] service_invD(5,6)[OF inv] ins fin by (simp_all add: opens card_Diff_singleton of_nat_diff)
  moreover have "\<exists>q. tbl_find q_id ?i (db_requests (sv_db sv')) = Some q \<and> q_status q = oc_Status (hs_outcome st) \<and>
        q_output_tokens q = CompletionTokens (final_usage (int (length (hs_text st))) st)"
    using c(4) settled_row(1,4)[of _ "enrich ev' l (stream_outcome (int (length (hs_text st))) l st)"] by auto
  ultimately show ?thesis using c(1) opens(1) by blast
qed

lemma sample_responses_run:
  "responses_run sample_chunk stream_lease sample_stream =
     (case run_loop (responses_step sample_chunk (res_RequestID (le_reservation stream_lease)))
        (session_results [Heartbeat True, TakeResult, Check True] [ResHeader 200, ResFrame (data_frame ''hi''), ResFrame (data_frame ''[DONE]'')])
        (handler_start stream_lease []) of
        Finished st \<Rightarrow> responses_finish CtxLive (res_RequestID (le_reservation stream_lease)) st | Returned st \<Rightarrow> st | Continue st \<Rightarrow> st)"
  by (simp only: responses_run_def sample_produced sample_fields Let_def not_True_eq_False if_False)

lemma sample_responses_sent:
  "hs_sent (responses_run sample_chunk stream_lease sample_stream) =
     [RCreated, RItemAdded, RPartAdded, RDelta ''hi!'', RTextDone ''hi!'', RItemDone ''hi!'', RCompleted ''hi!'' no_usage]"
  unfolding sample_responses_run by code_simp

lemma sample_responses_text:
  "hs_text (responses_run sample_chunk stream_lease sample_stream) = ''hi!''"
  "oc_Status (hs_outcome (responses_run sample_chunk stream_lease sample_stream)) = ''completed''"
  unfolding sample_responses_run by code_simp+

theorem responses_settle_amid_witness:
  "\<exists>sv' q. Close sample_env (FaultBefore 5) (FaultAfter 3 6) (Clean 4) 1
       (stream_outcome 3 stream_lease (responses_run sample_chunk stream_lease sample_stream)) (BeginDraining sv_streaming) = (sv', None) \<and>
     1 \<notin> open_leases sv' \<and> tbl_find q_id 1 (db_requests (sv_db sv')) = Some q \<and> q_status q = ''completed''"
proof -
  let ?st = "responses_run sample_chunk stream_lease sample_stream"
  obtain s r where run: "Close sample_env (FaultBefore 5) (FaultAfter 3 6) (Clean 4) (res_ID (le_reservation stream_lease))
       (stream_outcome (int (length (hs_text ?st))) stream_lease ?st) (BeginDraining sv_streaming) = (s, r)" by fastforce
  have amid: "relay_step\<^sup>*\<^sup>* sv_streaming (BeginDraining sv_streaming)" by (rule r_into_rtranclp) (rule relay_step.drain)
  obtain s0 where b: "Begin sample_env sample_settings False (sample_call\<lparr>rq_Stream := True\<rparr>) sv0 = (s0, Inr stream_lease)"
      "sv_streaming = s0\<lparr>sv_upstream := setUpstream (res_ID (le_reservation stream_lease)) (sv_upstream s0)\<rparr>"
    using PrepareStream_Begin[OF sample_prepared] by blast
  have mine: "sv_leases (BeginDraining sv_streaming) (res_ID (le_reservation stream_lease)) = Some stream_lease"
    using Begin_lease(1)[OF b(1)] by (simp add: b(2) BeginDraining_def)
  have fits: "res_InputTokens (le_reservation stream_lease) + int (length (hs_text ?st)) \<le> max_i64"
    unfolding sample_responses_text by code_simp
  from responses_settle_amid[OF reach_sv0 sample_prepared amid mine sample_world_ok sample_decode_good_opt refl fits sample_busy run]
    run sample_responses_text stream_lease_id show ?thesis by auto
qed

lemma completed_frames:
  assumes run: "run_loop (chat_step decode rid) (session_results ts (produce up)) (handler_start l ws) = Finished s" and d: "hs_done s"
  shows "\<exists>status bytes fin frames. up = Inr (status, bytes, fin) \<and> read_frames fin bytes = map ResFrame frames \<and> frames \<noteq> [] \<and>
     is_done (last frames) \<and> hs_sent s = map (\<lambda>f. ForwardFrame (fr_Raw f)) frames"
proof -
  have "\<not> hs_done (handler_start l ws :: chat_write handler)" "hs_sent (handler_start l ws :: chat_write handler) = []" by (simp_all add: handler_start_def)
  with chat_loop_done[OF run d] obtain pre fr post where p: "session_results ts (produce up) = pre @ ResFrame fr # post" "is_done fr"
      "list_all passing pre" "hs_sent s = map (\<lambda>f. ForwardFrame (fr_Raw f)) (frames_of pre @ [fr])" by auto
  obtain post' where up: "produce up = pre @ ResFrame fr # post'" using session_prefix[OF p(1)] p(3) by (auto simp: passing_def)
  then obtain status bytes fin where i: "up = Inr (status, bytes, fin)" by (cases up) (auto simp: produce_def Cons_eq_append_conv)
  with up obtain pre' where pre: "pre = ResHeader status # pre'" and rf: "read_frames fin bytes = pre' @ ResFrame fr # post'"
    by (cases pre) (auto simp: produce_def)
  have end': "post' = []" by (rule read_frames_done[OF rf p(2)])
  have fs: "r \<in> set pre' \<Longrightarrow> \<exists>f. r = ResFrame f" for r
    using read_frames_set[of r fin bytes] rf p(3) pre by (auto simp: list_all_iff passing_def)
  then have "pre' = map ResFrame (frames_of pre')" by (induction pre') fastforce+
  then show ?thesis using i rf end' p(2,4) pre by (intro exI[of _ status] exI[of _ bytes] exI[of _ fin] exI[of _ "frames_of pre' @ [fr]"]) simp
qed

text \<open>
  C15: what the ledger calls completed, the client has received completely. A chat stream is settled as
  completed only when the client has been sent every frame the upstream produced, unchanged and in
  order, up to and including the end marker, and the request was not cancelled; one settled as failed
  has told the client so, in a last event that carries the recorded error code.
\<close>

theorem chat_stream_faithful:
  fixes decode l w
  defines "st \<equiv> chat_run decode l w"
  shows "(oc_Status (hs_outcome st) = ''completed'' \<longrightarrow> (\<exists>status bytes fin frames. sw_upstream w = Inr (status, bytes, fin) \<and>
       read_frames fin bytes = map ResFrame frames \<and> frames \<noteq> [] \<and> is_done (last frames) \<and>
       hs_sent st = map (\<lambda>f. ForwardFrame (fr_Raw f)) frames \<and> sw_ctx w = CtxLive)) \<and>
     (oc_Status (hs_outcome st) = ''failed'' \<longrightarrow>
       (\<exists>sent. hs_sent st = sent @ [StreamErrorEvent (oc_ErrorCode (hs_outcome st)) (res_RequestID (le_reservation l))]))"
proof (cases rule: chat_run_cases[of w decode l])
  case (finished s)
  have "\<exists>status bytes fin frames. sw_upstream w = Inr (status, bytes, fin) \<and> read_frames fin bytes = map ResFrame frames \<and>
      frames \<noteq> [] \<and> is_done (last frames) \<and> hs_sent st = map (\<lambda>f. ForwardFrame (fr_Raw f)) frames \<and> sw_ctx w = CtxLive"
    if "oc_Status (hs_outcome st) = ''completed''"
    using chat_finish_status chat_classify_completed completed_frames finished that unfolding st_def by metis
  then show ?thesis using chat_finish_failed finished(2) unfolding st_def by metis
qed (simp_all add: st_def)

theorem chat_stream_faithful_witness:
  "hs_sent (chat_run sample_decode stream_lease sample_stream) = map (\<lambda>f. ForwardFrame (fr_Raw f)) [data_frame ''hi'', data_frame ''[DONE]'']"
proof -
  obtain status bytes fin frames where f: "sw_upstream sample_stream = Inr (status, bytes, fin)" "read_frames fin bytes = map ResFrame frames"
      "hs_sent (chat_run sample_decode stream_lease sample_stream) = map (\<lambda>f. ForwardFrame (fr_Raw f)) frames"
    using chat_stream_faithful[of sample_decode stream_lease sample_stream] sample_stream_completed by auto
  then have "map ResFrame frames = map ResFrame [data_frame ''hi'', data_frame ''[DONE]'']" using sample_produced by (simp add: produce_def)
  then have "frames = [data_frame ''hi'', data_frame ''[DONE]'']" by (auto simp: map_eq_Cons_conv)
  then show ?thesis using f(3) by simp
qed

text \<open>
  C16: a Responses client is told what the ledger records. It receives the final event
  \<open>response.completed\<close> exactly when the request is settled as completed; that event is the last one and
  its text is the concatenation of the text deltas sent before. A request settled as failed ends with a
  failure event that carries the recorded error code.
\<close>

theorem responses_stream_faithful:
  fixes decode l w
  defines "st \<equiv> responses_run decode l w"
  shows "(\<forall>t u. RCompleted t u \<in> set (hs_sent st) \<longrightarrow> oc_Status (hs_outcome st) = ''completed'' \<and> last (hs_sent st) = RCompleted t u \<and>
        t = concat (map delta_of (hs_sent st))) \<and>
     (oc_Status (hs_outcome st) = ''completed'' \<longrightarrow> (\<exists>t u. RCompleted t u \<in> set (hs_sent st))) \<and>
     (oc_Status (hs_outcome st) = ''failed'' \<longrightarrow>
        (\<exists>event status t rid. hs_sent st \<noteq> [] \<and> last (hs_sent st) = RFailure event status (oc_ErrorCode (hs_outcome st)) t rid))"
  using responses_run_told[of decode l w] unfolding st_def bridge_told_def .

theorem responses_stream_faithful_witness:
  "oc_Status (hs_outcome (responses_run sample_chunk stream_lease sample_stream)) = ''completed'' \<and>
   last (hs_sent (responses_run sample_chunk stream_lease sample_stream)) = RCompleted ''hi!'' no_usage"
proof -
  have "RCompleted ''hi!'' no_usage \<in> set (hs_sent (responses_run sample_chunk stream_lease sample_stream))"
    by (simp add: sample_responses_sent)
  with responses_stream_faithful[of sample_chunk stream_lease sample_stream] show ?thesis by blast
qed

end
