(* ===== verification/Native.thy ===== *)
theory Native
  imports Stream_Session
begin

text \<open>
  The protocol adapters of \<open>internal/upstream/native.go\<close>: requests in the OpenAI shape become Anthropic
  or Gemini requests, answers and event streams come back in the OpenAI shape. Documents are values of
  \<open>Go_Value\<close>; \<open>unmarshal\<close> (into a map) and \<open>marshal\<close> are parameters.
\<close>

type_synonym unmarshaler = "string \<Rightarrow> gmap option"
type_synonym marshaler = "gval \<Rightarrow> string"

section \<open>Endpoints and headers\<close>

definition nativeEndpoint :: "Client \<Rightarrow> string \<Rightarrow> string" where
  "nativeEndpoint c path =
     (let base = trim_right (CHR ''/'') (cl_baseURL c) in
      if has_suffix base ''/v1beta'' \<and> has_prefix path ''/v1beta/'' then base @ trim_prefix path ''/v1beta''
      else if has_suffix base ''/v1'' \<and> has_prefix path ''/v1/'' then base @ trim_prefix path ''/v1''
      else base @ path)"

definition anthropicHeaders :: "Client \<Rightarrow> (string \<times> string) list" where
  "anthropicHeaders c = [(''Content-Type'', ''application/json''), (''x-api-key'', cl_apiKey c), (''anthropic-version'', ''2023-06-01'')]"

definition geminiHeaders :: "Client \<Rightarrow> (string \<times> string) list" where
  "geminiHeaders c = [(''Content-Type'', ''application/json''), (''x-goog-api-key'', cl_apiKey c)]"

fun escape_char :: "char \<Rightarrow> string" where
  "escape_char c = (if c = CHR ''%'' then ''%25'' else if c = CHR ''/'' then ''%2F'' else if c = CHR ''?'' then ''%3F''
     else if c = CHR ''#'' then ''%23'' else [c])"

definition urlPathEscape :: "string \<Rightarrow> string" where
  "urlPathEscape s = concat (map escape_char s)"

definition messages_endpoint :: "Client \<Rightarrow> string" where
  "messages_endpoint c =
     (let base = trim_right (CHR ''/'') (cl_baseURL c) in if has_suffix base ''/messages'' then base else nativeEndpoint c ''/v1/messages'')"

definition gemini_endpoint :: "Client \<Rightarrow> string \<Rightarrow> string \<Rightarrow> string" where
  "gemini_endpoint c model action = nativeEndpoint c (''/v1beta/models/'' @ urlPathEscape model @ action)"

section \<open>Shared pieces\<close>

definition anthropicFinishReason :: "string \<Rightarrow> string" where
  "anthropicFinishReason reason =
     (if reason = ''tool_use'' then ''tool_calls'' else if reason = ''max_tokens'' then ''length'' else ''stop'')"

definition geminiFinishReason :: "string \<Rightarrow> string" where
  "geminiFinishReason reason =
     (if reason = ''MAX_TOKENS'' then ''length'' else if reason = ''STOP'' then ''stop''
      else if reason \<in> set [''SAFETY'', ''RECITATION'', ''BLOCKLIST'', ''PROHIBITED_CONTENT'', ''SPII''] then ''content_filter''
      else if reason = [] then [] else ''stop'')"

definition nativeStreamError :: "gval \<Rightarrow> go_error" where
  "nativeStreamError raw =
     (let m = (if is_map raw then stringValue (get (as_map raw) ''message'') else []);
          m = (if m = [] then ''native upstream stream error'' else m)
      in GUpstream ''upstream_stream_error'' 0 ''body'' (Some (GText m)))"

definition recode :: "string \<Rightarrow> go_error \<Rightarrow> go_error" where
  "recode code e = (case e of GUpstream _ status stage cause \<Rightarrow> GUpstream code status stage cause | _ \<Rightarrow> e)"

definition nativeResponseError :: "unmarshaler \<Rightarrow> string \<Rightarrow> go_error option" where
  "nativeResponseError unmarshal data =
     (case unmarshal data of
        None \<Rightarrow> None
      | Some raw \<Rightarrow> if is_nil (get raw ''error'') then None else Some (recode ''upstream_response_error'' (nativeStreamError (get raw ''error''))))"

definition data_event :: "marshaler \<Rightarrow> gval \<Rightarrow> string" where
  "data_event marshal v = ''data: '' @ marshal v @ [newline, newline]"

definition openAIEvent :: "marshaler \<Rightarrow> gmap \<Rightarrow> string" where
  "openAIEvent marshal out = data_event marshal (VMap out)"

definition nativeErrorEvent :: "marshaler \<Rightarrow> gval \<Rightarrow> string" where
  "nativeErrorEvent marshal raw = data_event marshal (VMap [(''error'', raw)])"

definition done_event :: string where
  "done_event = ''data: [DONE]'' @ [newline, newline]"

definition one_choice :: "gmap \<Rightarrow> gval" where
  "one_choice choice = VList [VMap choice]"

definition delta_chunk :: "gmap \<Rightarrow> gmap" where
  "delta_chunk delta = [(''choices'', one_choice [(''index'', VInt 0), (''delta'', VMap delta)])]"

definition usage_value :: "int \<Rightarrow> int \<Rightarrow> int \<Rightarrow> int \<Rightarrow> gmap" where
  "usage_value prompt completion sum_tokens cached =
     [(''prompt_tokens'', VInt prompt), (''completion_tokens'', VInt completion), (''total_tokens'', VInt sum_tokens),
      (''prompt_tokens_details'', VMap [(''cached_tokens'', VInt cached)])]"

section \<open>Requests for Anthropic\<close>

definition copy_keys :: "string list \<Rightarrow> gmap \<Rightarrow> gmap \<Rightarrow> gmap" where
  "copy_keys keys source out = fold (\<lambda>k out. if has_key source k then put k (get source k) out else out) keys out"

definition anthropic_tool :: "gval \<Rightarrow> gval" where
  "anthropic_tool raw =
     (let fn = as_map (get (as_map raw) ''function'')
      in VMap [(''name'', get fn ''name''), (''description'', get fn ''description''), (''input_schema'', get fn ''parameters'')])"

definition anthropic_tool_choice :: "gmap \<Rightarrow> gmap \<Rightarrow> gmap" where
  "anthropic_tool_choice payload out =
     (case get payload ''tool_choice'' of
        VMap choice \<Rightarrow>
          (let fn = as_map (get choice ''function''); t = stringValue (get choice ''type'') in
           if t = ''function'' then put ''tool_choice'' (VMap [(''type'', VString ''tool''), (''name'', get fn ''name'')]) out
           else if t = ''required'' then put ''tool_choice'' (VMap [(''type'', VString ''any'')]) out
           else if t = ''auto'' then put ''tool_choice'' (VMap [(''type'', VString ''auto'')]) out
           else out)
      | VString choice \<Rightarrow>
          if choice = ''required'' then put ''tool_choice'' (VMap [(''type'', VString ''any'')]) out
          else if choice = ''auto'' then put ''tool_choice'' (VMap [(''type'', VString ''auto'')]) out
          else if choice = ''none'' then AList.delete ''tools'' out
          else out
      | _ \<Rightarrow> out)"

text \<open>The arguments of a tool call are JSON text; text that does not decode counts as an empty object.\<close>

definition call_arguments :: "unmarshaler \<Rightarrow> gmap \<Rightarrow> gval" where
  "call_arguments unmarshal fn = VMap (case unmarshal (stringValue (get fn ''arguments'')) of None \<Rightarrow> [] | Some m \<Rightarrow> m)"

definition anthropic_call :: "unmarshaler \<Rightarrow> gval \<Rightarrow> gval" where
  "anthropic_call unmarshal rawCall =
     (let call = as_map rawCall; fn = as_map (get call ''function'')
      in VMap [(''type'', VString ''tool_use''), (''id'', get call ''id''), (''name'', get fn ''name''), (''input'', call_arguments unmarshal fn)])"

definition anthropic_content :: "unmarshaler \<Rightarrow> string \<Rightarrow> gmap \<Rightarrow> gval" where
  "anthropic_content unmarshal role msg =
     (let content = get msg ''content'' in
      if role \<noteq> ''assistant'' then content
      else
        let t = nativeContentText content;
            blocks = (if t \<noteq> [] then [VMap [(''type'', VString ''text''), (''text'', VString t)]] else []) @
                     map (anthropic_call unmarshal) (anySlice (get msg ''tool_calls''))
        in if blocks \<noteq> [] then VList blocks else content)"

text \<open>One message: the converted message list so far and the document, whose \<open>system\<close> entry it may set.\<close>

definition anthropic_message :: "unmarshaler \<Rightarrow> gval \<Rightarrow> gval list \<times> gmap \<Rightarrow> gval list \<times> gmap" where
  "anthropic_message unmarshal raw acc =
     (case acc of (converted, out) \<Rightarrow>
        if \<not> is_map raw then (converted, out)
        else
          let msg = as_map raw; role = stringValue (get msg ''role'') in
          if role = ''system'' then (converted, put ''system'' (get msg ''content'') out)
          else if role = ''tool'' then
            (converted @ [VMap [(''role'', VString ''user''), (''content'', VList [VMap [(''type'', VString ''tool_result''),
               (''tool_use_id'', get msg ''tool_call_id''), (''content'', get msg ''content'')]])]], out)
          else (converted @ [VMap [(''role'', VString role), (''content'', anthropic_content unmarshal role msg)]], out))"

definition anthropic_max_tokens :: "gmap \<Rightarrow> gval" where
  "anthropic_max_tokens payload =
     (let m = get payload ''max_tokens''; m = (if is_nil m then get payload ''max_completion_tokens'' else m)
      in if is_nil m then VInt 8192 else m)"

definition openAIToAnthropic :: "unmarshaler \<Rightarrow> gmap \<Rightarrow> gmap" where
  "openAIToAnthropic unmarshal payload =
     (let out = [(''model'', get payload ''model''), (''max_tokens'', anthropic_max_tokens payload), (''messages'', VList [])];
          out = copy_keys [''stream'', ''temperature'', ''top_p''] payload out;
          out = (if is_list (get payload ''tools'') then put ''tools'' (VList (map anthropic_tool (anySlice (get payload ''tools'')))) out else out);
          out = anthropic_tool_choice payload out;
          (converted, out) = fold (anthropic_message unmarshal) (anySlice (get payload ''messages'')) ([], out)
      in put ''messages'' (VList converted) out)"

section \<open>Requests for Gemini\<close>

definition nativeJSONValue :: "(string \<Rightarrow> gval option) \<Rightarrow> string \<Rightarrow> gval" where
  "nativeJSONValue unmarshal_any s = (case unmarshal_any s of Some v \<Rightarrow> v | None \<Rightarrow> VString s)"

definition gemini_call :: "unmarshaler \<Rightarrow> gval \<Rightarrow> gval" where
  "gemini_call unmarshal rawCall =
     (let fn = as_map (get (as_map rawCall) ''function'')
      in VMap [(''functionCall'', VMap [(''name'', get fn ''name''), (''args'', call_arguments unmarshal fn)])])"

definition gemini_parts :: "unmarshaler \<Rightarrow> gmap \<Rightarrow> gval list" where
  "gemini_parts unmarshal msg =
     (let t = nativeContentText (get msg ''content'')
      in (if t \<noteq> [] then [VMap [(''text'', VString t)]] else []) @ map (gemini_call unmarshal) (anySlice (get msg ''tool_calls'')))"

definition gemini_message :: "(string \<Rightarrow> gval option) \<Rightarrow> unmarshaler \<Rightarrow> gval \<Rightarrow> gval list \<times> gmap \<Rightarrow> gval list \<times> gmap" where
  "gemini_message unmarshal_any unmarshal raw acc =
     (case acc of (contents, out) \<Rightarrow>
        if \<not> is_map raw then (contents, out)
        else
          let msg = as_map raw; role = stringValue (get msg ''role'') in
          if role = ''system'' then
            (contents, put ''systemInstruction'' (VMap [(''parts'', VList [VMap [(''text'', get msg ''content'')]])]) out)
          else if role = ''tool'' then
            (contents @ [VMap [(''role'', VString ''user''), (''parts'', VList [VMap [(''functionResponse'', VMap [(''name'', get msg ''name''),
               (''response'', VMap [(''result'', nativeJSONValue unmarshal_any (stringValue (get msg ''content'')))])])]])]], out)
          else
            (contents @ [VMap [(''role'', VString (if role = ''assistant'' then ''model'' else role)), (''parts'', VList (gemini_parts unmarshal msg))]], out))"

definition gemini_declaration :: "gval \<Rightarrow> gval" where
  "gemini_declaration raw =
     (let fn = as_map (get (as_map raw) ''function'')
      in VMap [(''name'', get fn ''name''), (''description'', get fn ''description''), (''parameters'', get fn ''parameters'')])"

definition calling_config :: "gmap \<Rightarrow> gval" where
  "calling_config cfg = VMap [(''functionCallingConfig'', VMap cfg)]"

definition gemini_tool_choice :: "gmap \<Rightarrow> gmap \<Rightarrow> gmap" where
  "gemini_tool_choice payload out =
     (case get payload ''tool_choice'' of
        VMap choice \<Rightarrow>
          (let name = stringValue (get (as_map (get choice ''function'')) ''name'') in
           if name \<noteq> [] then put ''toolConfig'' (calling_config [(''mode'', VString ''ANY''), (''allowedFunctionNames'', VList [VString name])]) out
           else out)
      | VString choice \<Rightarrow>
          put ''toolConfig'' (calling_config [(''mode'', VString (if choice = ''none'' then ''NONE'' else if choice = ''required'' then ''ANY'' else ''AUTO''))]) out
      | _ \<Rightarrow> out)"

text \<open>
  The generation parameters are copied in the iteration order of a Go map, which is unspecified: the
  order is an argument. It matters only when both output limits are given.
\<close>

definition gemini_target :: "string \<Rightarrow> string" where
  "gemini_target source =
     (if source = ''temperature'' then ''temperature'' else if source = ''top_p'' then ''topP'' else ''maxOutputTokens'')"

definition gemini_sources :: "string list" where
  "gemini_sources = [''max_tokens'', ''max_completion_tokens'', ''temperature'', ''top_p'']"

definition gemini_config :: "string list \<Rightarrow> gmap \<Rightarrow> gmap" where
  "gemini_config order payload = fold (\<lambda>k cfg. if has_key payload k then put (gemini_target k) (get payload k) cfg else cfg) order []"

definition openAIToGemini :: "string list \<Rightarrow> (string \<Rightarrow> gval option) \<Rightarrow> unmarshaler \<Rightarrow> gmap \<Rightarrow> gmap" where
  "openAIToGemini order unmarshal_any unmarshal payload =
     (let out = [(''contents'', VList [])];
          (contents, out) = fold (gemini_message unmarshal_any unmarshal) (anySlice (get payload ''messages'')) ([], out);
          out = put ''contents'' (VList contents) out;
          out = (if is_list (get payload ''tools'')
                 then put ''tools'' (VList [VMap [(''functionDeclarations'', VList (map gemini_declaration (anySlice (get payload ''tools''))))]]) out else out);
          out = gemini_tool_choice payload out;
          cfg = gemini_config order payload
      in if cfg \<noteq> [] then put ''generationConfig'' (VMap cfg) out else out)"

section \<open>Answers\<close>

definition tool_call_value :: "gval \<Rightarrow> gval \<Rightarrow> string \<Rightarrow> gval" where
  "tool_call_value ident name arguments =
     VMap [(''id'', ident), (''type'', VString ''function''), (''function'', VMap [(''name'', name), (''arguments'', VString arguments)])]"

definition completion_message :: "string \<Rightarrow> gval list \<Rightarrow> gmap" where
  "completion_message content toolCalls =
     [(''role'', VString ''assistant''), (''content'', VString content)] @ (if toolCalls \<noteq> [] then [(''tool_calls'', VList toolCalls)] else [])"

definition completion_choice :: "gmap \<Rightarrow> string \<Rightarrow> gval" where
  "completion_choice message finish = one_choice [(''index'', VInt 0), (''message'', VMap message), (''finish_reason'', VString finish)]"

definition anthropic_block :: "marshaler \<Rightarrow> gval \<Rightarrow> string \<times> gval list \<Rightarrow> string \<times> gval list" where
  "anthropic_block marshal item acc =
     (case acc of (content, toolCalls) \<Rightarrow>
        let block = as_map item in
        (content @ stringValue (get block ''text''),
         if get block ''type'' = VString ''tool_use''
         then toolCalls @ [tool_call_value (get block ''id'') (get block ''name'') (marshal (get block ''input''))] else toolCalls))"

definition anthropic_completion :: "marshaler \<Rightarrow> gmap \<Rightarrow> gmap" where
  "anthropic_completion marshal raw =
     (let (content, toolCalls) = fold (anthropic_block marshal) (anySlice (get raw ''content'')) ([], []);
          usage = as_map (get raw ''usage''); inp = number (get usage ''input_tokens''); out = number (get usage ''output_tokens'')
      in [(''id'', get raw ''id''), (''object'', VString ''chat.completion''),
          (''choices'', completion_choice (completion_message content toolCalls) (anthropicFinishReason (stringValue (get raw ''stop_reason'')))),
          (''usage'', VMap (usage_value (truncate_rat inp) (truncate_rat out) (truncate_rat (inp + out))
             (int_number (get usage ''cache_read_input_tokens'')) @
             [(''cache_creation_input_tokens'', VInt (int_number (get usage ''cache_creation_input_tokens'')))]))])"

definition anthropicToOpenAI :: "unmarshaler \<Rightarrow> marshaler \<Rightarrow> string \<Rightarrow> string" where
  "anthropicToOpenAI unmarshal marshal data =
     (case unmarshal data of None \<Rightarrow> data | Some raw \<Rightarrow> marshal (VMap (anthropic_completion marshal raw)))"

definition gemini_part :: "marshaler \<Rightarrow> gval \<Rightarrow> string \<times> gval list \<Rightarrow> string \<times> gval list" where
  "gemini_part marshal item acc =
     (case acc of (content, toolCalls) \<Rightarrow>
        let part = as_map item in
        (content @ stringValue (get part ''text''),
         case get part ''functionCall'' of
           VMap call \<Rightarrow> toolCalls @ [tool_call_value (VString (''call_'' @ FormatInt (int (length toolCalls)))) (get call ''name'') (marshal (get call ''args''))]
         | _ \<Rightarrow> toolCalls))"

definition gemini_completion :: "marshaler \<Rightarrow> gmap \<Rightarrow> gmap" where
  "gemini_completion marshal raw =
     (let candidate = firstMap (get raw ''candidates'');
          (content, toolCalls) = fold (gemini_part marshal) (anySlice (get (as_map (get candidate ''content'')) ''parts'')) ([], []);
          meta = as_map (get raw ''usageMetadata''); inp = number (get meta ''promptTokenCount''); out = number (get meta ''candidatesTokenCount'');
          finish = geminiFinishReason (stringValue (get candidate ''finishReason''));
          finish = (if toolCalls \<noteq> [] then ''tool_calls'' else finish);
          finish = (if finish = [] then ''stop'' else finish)
      in [(''object'', VString ''chat.completion''), (''choices'', completion_choice (completion_message content toolCalls) finish),
          (''usage'', VMap (usage_value (truncate_rat inp) (truncate_rat out) (truncate_rat (inp + out)) (int_number (get meta ''cachedContentTokenCount''))))])"

definition geminiToOpenAI :: "unmarshaler \<Rightarrow> marshaler \<Rightarrow> string \<Rightarrow> string" where
  "geminiToOpenAI unmarshal marshal data =
     (case unmarshal data of None \<Rightarrow> data | Some raw \<Rightarrow> marshal (VMap (gemini_completion marshal raw)))"

section \<open>Model lists\<close>

definition modelList :: "marshaler \<Rightarrow> gmap list \<Rightarrow> string" where
  "modelList marshal items =
     marshal (VMap [(''object'', VString ''list''),
       (''data'', VList (List.map_filter (\<lambda>item. case get item ''id'' of VString i \<Rightarrow> if i \<noteq> [] then Some (VMap [(''id'', VString i)]) else None | _ \<Rightarrow> None) items))])"

text \<open>\<open>decode_items\<close> decodes the list of objects under the given key (\<open>data\<close> or \<open>models\<close>).\<close>

definition normalizeAnthropicModels :: "(string \<Rightarrow> string \<Rightarrow> gmap list option) \<Rightarrow> marshaler \<Rightarrow> string \<Rightarrow> string" where
  "normalizeAnthropicModels decode_items marshal data =
     (case decode_items ''data'' data of None \<Rightarrow> data | Some items \<Rightarrow> modelList marshal items)"

definition normalizeGeminiModels :: "(string \<Rightarrow> string \<Rightarrow> gmap list option) \<Rightarrow> marshaler \<Rightarrow> string \<Rightarrow> string" where
  "normalizeGeminiModels decode_items marshal data =
     (case decode_items ''models'' data of
        None \<Rightarrow> data
      | Some items \<Rightarrow> modelList marshal (map (\<lambda>item. case get item ''name'' of
            VString n \<Rightarrow> put ''id'' (VString (trim_prefix n ''models/'')) item | _ \<Rightarrow> item) items))"

section \<open>Event streams\<close>

record nativeTool =
  nt_ID :: string
  nt_Name :: string
  nt_Index :: int

record nativeSSEBody =
  nb_protocol :: string
  nb_pending :: string
  nb_done :: bool
  nb_inputTokens :: int
  nb_completionTokens :: int
  nb_cachedTokens :: int
  nb_cacheWriteTokens :: int
  nb_toolIndices :: "(int \<times> nativeTool) list"
  nb_geminiTools :: "(string \<times> nativeTool) list"
  nb_nextGeminiTool :: int
  nb_terminalErr :: "go_error option"

definition native_start :: "string \<Rightarrow> nativeSSEBody" where
  "native_start protocol = \<lparr>nb_protocol = protocol, nb_pending = [], nb_done = False, nb_inputTokens = 0, nb_completionTokens = 0,
     nb_cachedTokens = 0, nb_cacheWriteTokens = 0, nb_toolIndices = [], nb_geminiTools = [], nb_nextGeminiTool = 0, nb_terminalErr = None\<rparr>"

section \<open>Calls\<close>

text \<open>
  What a call puts on the wire. The network answers a wire request with a \<open>call\<close>; a body that is read
  as a whole arrives as bytes with the error that ended it.
\<close>

record wire =
  wi_method :: string
  wi_endpoint :: string
  wi_headers :: "(string \<times> string) list"
  wi_payload :: "gmap option"

definition native_wire :: "Client \<Rightarrow> string \<Rightarrow> string \<Rightarrow> (string \<times> string) list \<Rightarrow> gmap option \<Rightarrow> wire" where
  "native_wire c meth endpoint headers payload =
     \<lparr>wi_method = meth, wi_endpoint = endpoint, wi_headers = headers @ [(''User-Agent'', cl_userAgent c)], wi_payload = payload\<rparr>"

definition openai_wire :: "(string \<Rightarrow> nat list) \<Rightarrow> Client \<Rightarrow> string \<Rightarrow> string \<Rightarrow> string \<Rightarrow> gmap option \<Rightarrow> wire" where
  "openai_wire sha1 c session meth path payload =
     \<lparr>wi_method = meth, wi_endpoint = client_endpoint c path,
      wi_headers = request_headers c session (deriveSessionID sha1 (cl_apiKey c) (case payload of None \<Rightarrow> VNil | Some p \<Rightarrow> VMap p)),
      wi_payload = payload\<rparr>"

text \<open>The parts of the library and of the environment the calls use.\<close>

record 'b transport =
  tr_unmarshal :: unmarshaler
  tr_unmarshal_any :: "string \<Rightarrow> gval option"
  tr_decode_items :: "string \<Rightarrow> string \<Rightarrow> gmap list option"
  tr_marshal :: marshaler
  tr_order :: "string list"
  tr_sha1 :: "string \<Rightarrow> nat list"
  tr_session :: string
  tr_send :: "wire \<Rightarrow> 'b call"
  tr_endctx :: ctx_state

type_synonym json_transport = "(string \<times> go_error option) transport"

definition anthropic_wire :: "'b transport \<Rightarrow> Client \<Rightarrow> gmap \<Rightarrow> wire" where
  "anthropic_wire tr c body = native_wire c ''POST'' (messages_endpoint c) (anthropicHeaders c) (Some body)"

definition gemini_wire :: "'b transport \<Rightarrow> Client \<Rightarrow> string \<Rightarrow> gmap \<Rightarrow> wire" where
  "gemini_wire tr c action payload =
     native_wire c ''POST'' (gemini_endpoint c (stringValue (get payload ''model'')) action) (geminiHeaders c)
       (Some (openAIToGemini (tr_order tr) (tr_unmarshal_any tr) (tr_unmarshal tr) payload))"

definition native_answer :: "json_transport \<Rightarrow> (string \<Rightarrow> string) \<Rightarrow> wire \<Rightarrow> go_error + string" where
  "native_answer tr convert w =
     bind_result (read_whole (tr_endctx tr) (requestNative (tr_send tr w))) (\<lambda>data.
     case nativeResponseError (tr_unmarshal tr) data of Some e \<Rightarrow> Inl e | None \<Rightarrow> Inr (convert data))"

definition chatNative :: "json_transport \<Rightarrow> Client \<Rightarrow> gmap \<Rightarrow> go_error + string" where
  "chatNative tr c payload =
     (if cl_protocol c = ''anthropic''
      then native_answer tr (anthropicToOpenAI (tr_unmarshal tr) (tr_marshal tr)) (anthropic_wire tr c (openAIToAnthropic (tr_unmarshal tr) payload))
      else if cl_protocol c = ''gemini''
      then native_answer tr (geminiToOpenAI (tr_unmarshal tr) (tr_marshal tr)) (gemini_wire tr c '':generateContent'' payload)
      else Inl (GUpstream ''unsupported_upstream_protocol'' 0 [] None))"

text \<open>
  \<open>listModelsNative\<close> for the two native protocols; its last branch is never reached, since \<open>ListModels\<close>
  calls it for other protocols only.
\<close>

definition listModelsNative :: "json_transport \<Rightarrow> Client \<Rightarrow> go_error + string" where
  "listModelsNative tr c =
     (let anthropic = cl_protocol c = ''anthropic'';
          w = (if anthropic then native_wire c ''GET'' (nativeEndpoint c ''/v1/models?limit=100'') (anthropicHeaders c) None
               else native_wire c ''GET'' (nativeEndpoint c ''/v1beta/models?pageSize=200'') (geminiHeaders c) None)
      in bind_result (read_whole (tr_endctx tr) (requestNative (tr_send tr w))) (\<lambda>data.
         Inr ((if anthropic then normalizeAnthropicModels else normalizeGeminiModels) (tr_decode_items tr) (tr_marshal tr) data)))"

definition is_openai :: "Client \<Rightarrow> bool" where
  "is_openai c \<longleftrightarrow> cl_protocol c = [] \<or> cl_protocol c = ''openai''"

definition Client_ChatJSON :: "json_transport \<Rightarrow> Client \<Rightarrow> gmap \<Rightarrow> go_error + string" where
  "Client_ChatJSON tr c payload =
     (if is_openai c
      then read_whole (tr_endctx tr) (client_request (tr_send tr (openai_wire (tr_sha1 tr) c (tr_session tr) ''POST'' ''/chat/completions'' (Some payload))))
      else chatNative tr c payload)"

definition Client_ListModels :: "json_transport \<Rightarrow> Client \<Rightarrow> go_error + string" where
  "Client_ListModels tr c =
     (if is_openai c
      then read_whole (tr_endctx tr) (client_request (tr_send tr (openai_wire (tr_sha1 tr) c (tr_session tr) ''GET'' ''/models'' None)))
      else listModelsNative tr c)"

text \<open>The body of a stream is the upstream's, behind a translating body for a native protocol.\<close>

definition streamNative :: "'b transport \<Rightarrow> Client \<Rightarrow> gmap \<Rightarrow> go_error + int \<times> 'b \<times> nativeSSEBody option" where
  "streamNative tr c payload =
     (let wrap = (\<lambda>w. bind_result (requestNative (tr_send tr w)) (\<lambda>(status, body). Inr (status, body, Some (native_start (cl_protocol c))))) in
      if cl_protocol c = ''anthropic''
      then wrap (anthropic_wire tr c (put ''stream'' (VBool True) (openAIToAnthropic (tr_unmarshal tr) payload)))
      else if cl_protocol c = ''gemini'' then wrap (gemini_wire tr c '':streamGenerateContent?alt=sse'' payload)
      else Inl (GUpstream ''unsupported_upstream_protocol'' 0 [] None))"

definition stream_payload :: "gmap \<Rightarrow> gmap" where
  "stream_payload payload =
     put ''stream'' (VBool True)
       (put ''stream_options'' (VMap (put ''include_usage'' (VBool True) (as_map (get payload ''stream_options'')))) payload)"

definition Client_Stream :: "'b transport \<Rightarrow> Client \<Rightarrow> gmap \<Rightarrow> go_error + int \<times> 'b \<times> nativeSSEBody option" where
  "Client_Stream tr c payload =
     (if is_openai c
      then bind_result (client_request (tr_send tr (openai_wire (tr_sha1 tr) c (tr_session tr) ''POST'' ''/chat/completions'' (Some (stream_payload payload)))))
             (\<lambda>(status, body). Inr (status, body, None))
      else streamNative tr c payload)"

section \<open>Translating frames\<close>

definition no_tool :: nativeTool where
  "no_tool = \<lparr>nt_ID = [], nt_Name = [], nt_Index = 0\<rparr>"

definition tool_delta :: "gmap \<Rightarrow> gmap" where
  "tool_delta call = delta_chunk [(''tool_calls'', VList [VMap call])]"

definition anthropic_start :: "gmap \<Rightarrow> nativeSSEBody \<Rightarrow> nativeSSEBody" where
  "anthropic_start raw b =
     (let usage = as_map (get (as_map (get raw ''message'')) ''usage'')
      in b\<lparr>nb_inputTokens := int_number (get usage ''input_tokens''), nb_cachedTokens := int_number (get usage ''cache_read_input_tokens''),
           nb_cacheWriteTokens := int_number (get usage ''cache_creation_input_tokens'')\<rparr>)"

definition anthropic_block_start :: "gmap \<Rightarrow> nativeSSEBody \<Rightarrow> nativeSSEBody \<times> gmap option" where
  "anthropic_block_start raw b =
     (let block = as_map (get raw ''content_block'') in
      if get block ''type'' = VString ''tool_use'' then
        let tool = \<lparr>nt_ID = stringValue (get block ''id''), nt_Name = stringValue (get block ''name''), nt_Index = int (length (nb_toolIndices b))\<rparr>
        in (b\<lparr>nb_toolIndices := AList.update (int_number (get raw ''index'')) tool (nb_toolIndices b)\<rparr>,
            Some (tool_delta [(''index'', VInt (nt_Index tool)), (''id'', VString (nt_ID tool)), (''type'', VString ''function''),
              (''function'', VMap [(''name'', VString (nt_Name tool)), (''arguments'', VString [])])]))
      else (b, None))"

definition anthropic_delta :: "gmap \<Rightarrow> nativeSSEBody \<Rightarrow> gmap option" where
  "anthropic_delta raw b =
     (let delta = as_map (get raw ''delta'') in
      if get delta ''type'' = VString ''text_delta'' then
        (let t = stringValue (get delta ''text'') in if t \<noteq> [] then Some (delta_chunk [(''content'', VString t)]) else None)
      else if get delta ''type'' = VString ''input_json_delta'' then
        (let tool = (case map_of (nb_toolIndices b) (int_number (get raw ''index'')) of None \<Rightarrow> no_tool | Some t \<Rightarrow> t)
         in Some (tool_delta [(''index'', VInt (nt_Index tool)), (''id'', VString (nt_ID tool)),
              (''function'', VMap [(''arguments'', VString (stringValue (get delta ''partial_json'')))])]))
      else None)"

definition anthropic_message_delta :: "gmap \<Rightarrow> nativeSSEBody \<Rightarrow> gmap" where
  "anthropic_message_delta raw b =
     (let reason = stringValue (get (as_map (get raw ''delta'')) ''stop_reason'');
          choice = [(''index'', VInt 0), (''delta'', VMap [])] @ (if reason \<noteq> [] then [(''finish_reason'', VString (anthropicFinishReason reason))] else [])
      in [(''choices'', one_choice choice)] @
         (case get raw ''usage'' of
            VMap usage \<Rightarrow>
              let completion = int_number (get usage ''output_tokens'')
              in [(''usage'', VMap (usage_value (nb_inputTokens b) completion (wrap64 (nb_inputTokens b + completion)) (nb_cachedTokens b) @
                   [(''cache_creation_input_tokens'', VInt (nb_cacheWriteTokens b))]))]
          | _ \<Rightarrow> []))"

definition translateAnthropic :: "unmarshaler \<Rightarrow> marshaler \<Rightarrow> string \<Rightarrow> nativeSSEBody \<Rightarrow> nativeSSEBody \<times> string" where
  "translateAnthropic unmarshal marshal data b =
     (case unmarshal data of
        None \<Rightarrow> (b, [])
      | Some raw \<Rightarrow>
          let typ = stringValue (get raw ''type''); event = (\<lambda>out. case out of None \<Rightarrow> [] | Some m \<Rightarrow> openAIEvent marshal m) in
          if typ = ''error'' then (b\<lparr>nb_terminalErr := Some (nativeStreamError (get raw ''error''))\<rparr>, nativeErrorEvent marshal (get raw ''error''))
          else if typ = ''message_start'' then (anthropic_start raw b, [])
          else if typ = ''content_block_start'' then (case anthropic_block_start raw b of (b', out) \<Rightarrow> (b', event out))
          else if typ = ''content_block_delta'' then (b, event (anthropic_delta raw b))
          else if typ = ''message_delta'' then (b, openAIEvent marshal (anthropic_message_delta raw b))
          else if typ = ''message_stop'' then (b, done_event)
          else (b, []))"

text \<open>Gemini: each part of the candidate extends the delta; a call seen for the first time gets an id.\<close>

definition gemini_tool_key :: "int \<Rightarrow> nat \<Rightarrow> string" where
  "gemini_tool_key candidate part = FormatInt candidate @ '':'' @ FormatInt (int part)"

definition gemini_call_delta :: "marshaler \<Rightarrow> string \<Rightarrow> gmap \<Rightarrow> nativeSSEBody \<Rightarrow> nativeSSEBody \<times> gval" where
  "gemini_call_delta marshal key call b =
     (case map_of (nb_geminiTools b) key of
        Some tool \<Rightarrow> (b, VMap [(''index'', VInt (nt_Index tool)), (''function'', VMap [(''arguments'', VString (marshal (get call ''args'')))])])
      | None \<Rightarrow>
          let n = nb_nextGeminiTool b; tool = \<lparr>nt_ID = ''call_'' @ FormatInt n, nt_Name = stringValue (get call ''name''), nt_Index = n\<rparr>
          in (b\<lparr>nb_nextGeminiTool := wrap64 (n + 1), nb_geminiTools := AList.update key tool (nb_geminiTools b)\<rparr>,
              VMap [(''index'', VInt n), (''function'', VMap [(''arguments'', VString (marshal (get call ''args''))), (''name'', VString (nt_Name tool))]),
                    (''id'', VString (nt_ID tool)), (''type'', VString ''function'')]))"

definition gemini_item :: "marshaler \<Rightarrow> int \<Rightarrow> nat \<Rightarrow> gval \<Rightarrow> gmap \<Rightarrow> nativeSSEBody \<Rightarrow> gmap \<times> nativeSSEBody" where
  "gemini_item marshal cand i item delta b =
     (let part = as_map item; t = stringValue (get part ''text'');
          delta = (if t \<noteq> [] then put ''content'' (VString (stringValue (get delta ''content'') @ t)) delta else delta)
      in case get part ''functionCall'' of
           VMap call \<Rightarrow> (case gemini_call_delta marshal (gemini_tool_key cand i) call b of (b, v) \<Rightarrow>
               (put ''tool_calls'' (VList (anySlice (get delta ''tool_calls'') @ [v])) delta, b))
         | _ \<Rightarrow> (delta, b))"

fun gemini_deltas :: "marshaler \<Rightarrow> int \<Rightarrow> nat \<Rightarrow> gval list \<Rightarrow> gmap \<Rightarrow> nativeSSEBody \<Rightarrow> gmap \<times> nativeSSEBody" where
  "gemini_deltas marshal cand i [] delta b = (delta, b)"
| "gemini_deltas marshal cand i (item # items) delta b =
     (case gemini_item marshal cand i item delta b of (delta, b) \<Rightarrow> gemini_deltas marshal cand (i + 1) items delta b)"

definition gemini_usage :: "gmap \<Rightarrow> nativeSSEBody \<Rightarrow> nativeSSEBody" where
  "gemini_usage raw b =
     (case get raw ''usageMetadata'' of
        VMap usage \<Rightarrow>
          (let inp = truncate_rat (numberOr (get usage ''promptTokenCount'') (of_int (nb_inputTokens b)));
               completion = truncate_rat (numberOr (get usage ''candidatesTokenCount'') (of_int (nb_completionTokens b)));
               completion = (if \<not> has_key usage ''candidatesTokenCount'' \<and> number (get usage ''totalTokenCount'') > 0
                             then wrap64 (int_number (get usage ''totalTokenCount'') - inp) else completion)
           in b\<lparr>nb_inputTokens := inp, nb_completionTokens := completion,
                nb_cachedTokens := truncate_rat (numberOr (get usage ''cachedContentTokenCount'') (of_int (nb_cachedTokens b)))\<rparr>)
      | _ \<Rightarrow> b)"

definition translateGeminiFrame :: "unmarshaler \<Rightarrow> marshaler \<Rightarrow> string \<Rightarrow> nativeSSEBody \<Rightarrow> nativeSSEBody \<times> string" where
  "translateGeminiFrame unmarshal marshal data b =
     (case unmarshal data of
        None \<Rightarrow> (b, [])
      | Some raw \<Rightarrow>
          if \<not> is_nil (get raw ''error'') then (b, nativeErrorEvent marshal (get raw ''error''))
          else
            let candidate = firstMap (get raw ''candidates'');
                parts = anySlice (get (as_map (get candidate ''content'')) ''parts'');
                (delta, b) = gemini_deltas marshal (int_number (get candidate ''index'')) 0 parts [] b;
                finish = geminiFinishReason (stringValue (get candidate ''finishReason''));
                b = gemini_usage raw b;
                metered = \<not> is_nil (get raw ''usageMetadata'')
            in if delta = [] \<and> finish = [] \<and> \<not> metered then (b, [])
               else (b, openAIEvent marshal
                 ([(''choices'', one_choice ([(''index'', VInt 0), (''delta'', VMap delta)] @ (if finish \<noteq> [] then [(''finish_reason'', VString finish)] else [])))] @
                  (if metered then [(''usage'', VMap (usage_value (nb_inputTokens b) (nb_completionTokens b)
                     (wrap64 (nb_inputTokens b + nb_completionTokens b)) (nb_cachedTokens b)))] else []))))"

definition translate :: "unmarshaler \<Rightarrow> marshaler \<Rightarrow> SSEFrame \<Rightarrow> nativeSSEBody \<Rightarrow> nativeSSEBody \<times> string" where
  "translate unmarshal marshal fr b =
     (if fr_Data fr = [] then (b, fr_Raw fr)
      else if nb_protocol b = ''anthropic'' then translateAnthropic unmarshal marshal (fr_Data fr) b
      else if nb_protocol b = ''gemini'' then
        (let b = (case unmarshal (fr_Data fr) of
                    Some raw \<Rightarrow> if \<not> is_nil (get raw ''error'') then b\<lparr>nb_terminalErr := Some (nativeStreamError (get raw ''error''))\<rparr> else b
                  | None \<Rightarrow> b)
         in translateGeminiFrame unmarshal marshal (fr_Data fr) b)
      else (b, fr_Raw fr))"

text \<open>
  \<open>Read\<close>: the loop fills the pending bytes from the source (bytes left and the error that ends them),
  then at most \<open>k\<close> of them are delivered.
\<close>

function fill :: "unmarshaler \<Rightarrow> marshaler \<Rightarrow> go_error \<Rightarrow> string \<Rightarrow> nativeSSEBody \<Rightarrow> string \<times> nativeSSEBody \<times> go_error option" where
  "fill unmarshal marshal fin inp b =
     (if nb_pending b \<noteq> [] \<or> nb_done b then (inp, b, None)
      else case nb_terminalErr b of
        Some e \<Rightarrow> (inp, b, Some e)
      | None \<Rightarrow>
          (case Next 1048576 (stream_end fin) inp of
             Inl e \<Rightarrow>
               if error_is (frame_error fin e) GEOF then ([], b\<lparr>nb_pending := done_event, nb_done := True\<rparr>, None)
               else (inp, b, Some (frame_error fin e))
           | Inr (fr, rest) \<Rightarrow>
               (case translate unmarshal marshal fr b of (b', out) \<Rightarrow> fill unmarshal marshal fin rest (b'\<lparr>nb_pending := out\<rparr>))))"
  by pat_completeness auto
termination
  by (relation "measure (\<lambda>(_, _, _, inp, _). length inp)") (auto simp: Next_def dest: Next_frame_shrinks)

declare fill.simps [simp del]

definition native_read ::
  "unmarshaler \<Rightarrow> marshaler \<Rightarrow> nat \<Rightarrow> go_error \<Rightarrow> string \<Rightarrow> nativeSSEBody \<Rightarrow> string \<times> nativeSSEBody \<times> (go_error + string)" where
  "native_read unmarshal marshal k fin inp b =
     (case fill unmarshal marshal fin inp b of
        (inp, b, Some e) \<Rightarrow> (inp, b, Inl e)
      | (inp, b, None) \<Rightarrow>
          if nb_pending b = [] then (inp, b, Inl (case nb_terminalErr b of Some e \<Rightarrow> e | None \<Rightarrow> GEOF))
          else (inp, b\<lparr>nb_pending := drop k (nb_pending b)\<rparr>, Inr (take k (nb_pending b))))"

section \<open>Model names in paths\<close>

text \<open>The percent decoding of the four characters that are escaped.\<close>

fun unescape :: "string \<Rightarrow> string" where
  "unescape (a # b # c # s) =
     (if [a, b, c] = ''%25'' then CHR ''%'' # unescape s else if [a, b, c] = ''%2F'' then CHR ''/'' # unescape s
      else if [a, b, c] = ''%3F'' then CHR ''?'' # unescape s else if [a, b, c] = ''%23'' then CHR ''#'' # unescape s
      else a # unescape (b # c # s))"
| "unescape s = s"

lemma unescape_plain: "c \<noteq> CHR ''%'' \<Longrightarrow> unescape (c # s) = c # unescape s"
  by (cases "c # s" rule: unescape.cases) auto

lemma unescape_escape: "unescape (urlPathEscape s) = s"
proof (induction s)
  case (Cons c s)
  then show ?case by (auto simp: urlPathEscape_def unescape_plain)
qed (simp add: urlPathEscape_def)

lemma escape_chars: "c \<in> set (urlPathEscape s) \<Longrightarrow> c \<noteq> CHR ''/'' \<and> c \<noteq> CHR ''?'' \<and> c \<noteq> CHR ''#''"
  by (auto simp: urlPathEscape_def split: if_splits)

section \<open>Requests are converted message by message\<close>

definition is_turn :: "gval \<Rightarrow> bool" where
  "is_turn raw \<longleftrightarrow> is_map raw \<and> stringValue (get (as_map raw) ''role'') \<noteq> ''system''"

definition is_system :: "gval \<Rightarrow> bool" where
  "is_system raw \<longleftrightarrow> is_map raw \<and> stringValue (get (as_map raw) ''role'') = ''system''"

definition anthropic_turn :: "unmarshaler \<Rightarrow> gval \<Rightarrow> gval" where
  "anthropic_turn unmarshal raw = last (fst (anthropic_message unmarshal raw ([], [])))"

lemma anthropic_message_turn:
  "anthropic_message unmarshal raw (converted, out) =
     (if is_system raw then (converted, put ''system'' (get (as_map raw) ''content'') out)
      else if is_turn raw then (converted @ [anthropic_turn unmarshal raw], out) else (converted, out))"
  by (auto simp: anthropic_message_def anthropic_turn_def is_system_def is_turn_def Let_def)

lemma anthropic_messages:
  "fold (anthropic_message unmarshal) msgs (converted, out) =
     (converted @ map (anthropic_turn unmarshal) (filter is_turn msgs),
      fold (\<lambda>raw. put ''system'' (get (as_map raw) ''content'')) (filter is_system msgs) out)"
proof (induction msgs arbitrary: converted out)
  case (Cons raw msgs)
  have "\<not> (is_system raw \<and> is_turn raw)" by (simp add: is_system_def is_turn_def)
  with Cons show ?case by (simp add: anthropic_message_turn)
qed simp

lemma fold_system:
  "get (fold (\<lambda>raw. put ''system'' (get (as_map raw) ''content'')) msgs out) k =
     (if k = ''system'' \<and> msgs \<noteq> [] then get (as_map (last msgs)) ''content'' else get out k)"
  by (induction msgs arbitrary: out) auto

lemma copy_keys_get: "k \<notin> set keys \<Longrightarrow> get (copy_keys keys source out) k = get out k"
  unfolding copy_keys_def by (induction keys arbitrary: out) auto

lemma tool_choice_get: "k \<notin> {''tool_choice'', ''tools''} \<Longrightarrow> get (anthropic_tool_choice payload out) k = get out k"
  by (auto simp: anthropic_tool_choice_def Let_def get_def delete_conv' put_def update_conv' split: gval.splits)

section \<open>Buffering does not change a stream\<close>

text \<open>The stream without buffering: every frame translated as it is read, up to the error that ends it.\<close>

function translate_all :: "unmarshaler \<Rightarrow> marshaler \<Rightarrow> go_error \<Rightarrow> string \<Rightarrow> nativeSSEBody \<Rightarrow> string \<times> go_error" where
  "translate_all unmarshal marshal fin inp b =
     (case nb_terminalErr b of
        Some e \<Rightarrow> ([], e)
      | None \<Rightarrow>
          (case Next 1048576 (stream_end fin) inp of
             Inl e \<Rightarrow> if error_is (frame_error fin e) GEOF then (done_event, GEOF) else ([], frame_error fin e)
           | Inr (fr, rest) \<Rightarrow>
               (case translate unmarshal marshal fr b of (b', out) \<Rightarrow>
                  (case translate_all unmarshal marshal fin rest b' of (bytes, e) \<Rightarrow> (out @ bytes, e)))))"
  by pat_completeness auto
termination
  by (relation "measure (\<lambda>(_, _, _, inp, _). length inp)") (auto simp: Next_def dest: Next_frame_shrinks)

declare translate_all.simps [simp del]

definition rest_of :: "unmarshaler \<Rightarrow> marshaler \<Rightarrow> go_error \<Rightarrow> string \<Rightarrow> nativeSSEBody \<Rightarrow> string \<times> go_error" where
  "rest_of unmarshal marshal fin inp b =
     (case (if nb_done b then ([], case nb_terminalErr b of Some e \<Rightarrow> e | None \<Rightarrow> GEOF) else translate_all unmarshal marshal fin inp b) of
        (bytes, e) \<Rightarrow> (nb_pending b @ bytes, e))"

lemma anthropic_keeps_pending: "translateAnthropic u m d (b\<lparr>nb_pending := p\<rparr>) =
   (case translateAnthropic u m d b of (b', out) \<Rightarrow> (b'\<lparr>nb_pending := p\<rparr>, out))"
  by (auto simp: translateAnthropic_def Let_def anthropic_start_def anthropic_block_start_def anthropic_delta_def anthropic_message_delta_def
      split: option.splits gval.splits)

lemma gemini_item_pending: "gemini_item m c i item delta (b\<lparr>nb_pending := p\<rparr>) =
   (case gemini_item m c i item delta b of (d, b') \<Rightarrow> (d, b'\<lparr>nb_pending := p\<rparr>))"
proof -
  have call: "gemini_call_delta m key call (b\<lparr>nb_pending := p\<rparr>) = (case gemini_call_delta m key call b of (b', v) \<Rightarrow> (b'\<lparr>nb_pending := p\<rparr>, v))" for key call
    by (auto simp: gemini_call_delta_def Let_def split: option.splits)
  show ?thesis by (simp add: gemini_item_def Let_def call split: gval.splits prod.splits)
qed

lemma gemini_deltas_pending: "gemini_deltas m c i items delta (b\<lparr>nb_pending := p\<rparr>) =
   (case gemini_deltas m c i items delta b of (d, b') \<Rightarrow> (d, b'\<lparr>nb_pending := p\<rparr>))"
proof (induction items arbitrary: i delta b)
  case (Cons item items)
  show ?case by (simp add: gemini_item_pending Cons.IH split: prod.splits)
qed simp

lemma gemini_keeps_pending: "translateGeminiFrame u m d (b\<lparr>nb_pending := p\<rparr>) =
   (case translateGeminiFrame u m d b of (b', out) \<Rightarrow> (b'\<lparr>nb_pending := p\<rparr>, out))"
proof -
  have us: "gemini_usage raw (b\<lparr>nb_pending := p\<rparr>) = (gemini_usage raw b)\<lparr>nb_pending := p\<rparr>" for raw b
    by (auto simp: gemini_usage_def Let_def split: gval.splits)
  show ?thesis by (auto simp: translateGeminiFrame_def Let_def gemini_deltas_pending us split: option.splits prod.splits)
qed

lemma translate_keeps_pending: "translate u m fr (b\<lparr>nb_pending := p\<rparr>) = (case translate u m fr b of (b', out) \<Rightarrow> (b'\<lparr>nb_pending := p\<rparr>, out))"
proof -
  have g: "translateGeminiFrame u m d (b\<lparr>nb_pending := p, nb_terminalErr := t\<rparr>) =
      (case translateGeminiFrame u m d (b\<lparr>nb_terminalErr := t\<rparr>) of (b', out) \<Rightarrow> (b'\<lparr>nb_pending := p\<rparr>, out))" for d t
  proof -
    have "b\<lparr>nb_pending := p, nb_terminalErr := t\<rparr> = b\<lparr>nb_terminalErr := t, nb_pending := p\<rparr>" by simp
    then show ?thesis by (simp only: gemini_keeps_pending)
  qed
  show ?thesis
    by (auto simp: translate_def anthropic_keeps_pending gemini_keeps_pending g Let_def split: option.splits prod.splits)
qed

lemma translate_all_pending: "translate_all u m fin inp (b\<lparr>nb_pending := p\<rparr>) = translate_all u m fin inp b"
proof (induction u m fin inp b rule: translate_all.induct)
  case (1 u m fin inp b)
  show ?case
  proof (cases "nb_terminalErr b")
    case None
    show ?thesis
    proof (cases "Next 1048576 (stream_end fin) inp")
      case (Inl e)
      with None show ?thesis by (subst (1 2) translate_all.simps) simp
    next
      case (Inr fx)
      obtain fr rest where fx: "fx = (fr, rest)" by fastforce
      obtain b' out where t: "translate u m fr b = (b', out)" by fastforce
      have "translate_all u m fin rest (b'\<lparr>nb_pending := p\<rparr>) = translate_all u m fin rest b'"
        using 1[OF None Inr fx[symmetric] t[symmetric]] by simp
      with None Inr fx t show ?thesis by (subst (1 2) translate_all.simps) (simp add: translate_keeps_pending)
    qed
  qed (subst (1 2) translate_all.simps, simp)
qed

lemma translate_all_step:
  assumes "nb_terminalErr b = None" "Next 1048576 (stream_end fin) inp = Inr (fr, rest)" "translate u m fr b = (b', out)"
  shows "translate_all u m fin inp b = (case translate_all u m fin rest b' of (bytes, e) \<Rightarrow> (out @ bytes, e))"
  by (subst translate_all.simps) (simp add: assms)

lemma gemini_call_done: "gemini_call_delta m key call b = (b', v) \<Longrightarrow> nb_done b' = nb_done b"
  by (auto simp: gemini_call_delta_def Let_def split: option.splits)

lemma gemini_item_done: "gemini_item m c i item delta b = (d, b') \<Longrightarrow> nb_done b' = nb_done b"
  using gemini_call_done by (auto simp: gemini_item_def Let_def split: gval.splits prod.splits)

lemma gemini_deltas_done: "gemini_deltas m c i items delta b = (d, b') \<Longrightarrow> nb_done b' = nb_done b"
  by (induction items arbitrary: i delta b) (auto dest: gemini_item_done split: prod.splits)

lemma gemini_frame_done: "translateGeminiFrame u m d b = (b', out) \<Longrightarrow> nb_done b' = nb_done b"
proof -
  have us: "nb_done (gemini_usage raw b) = nb_done b" for raw b by (auto simp: gemini_usage_def Let_def split: gval.splits)
  assume "translateGeminiFrame u m d b = (b', out)"
  then show ?thesis using gemini_deltas_done
    by (auto simp: translateGeminiFrame_def Let_def us split: option.splits prod.splits if_splits)
qed

lemma anthropic_frame_done: "translateAnthropic u m d b = (b', out) \<Longrightarrow> nb_done b' = nb_done b"
  by (auto simp: translateAnthropic_def Let_def anthropic_start_def anthropic_block_start_def split: option.splits if_splits prod.splits)

lemma translate_done:
  assumes "translate u m fr b = (b', out)"
  shows "nb_done b' = nb_done b"
proof (cases "fr_Data fr = []")
  case False
  show ?thesis
  proof (cases "nb_protocol b = ''gemini''")
    case True
    define b1 where "b1 = (case u (fr_Data fr) of
        Some raw \<Rightarrow> if \<not> is_nil (get raw ''error'') then b\<lparr>nb_terminalErr := Some (nativeStreamError (get raw ''error''))\<rparr> else b | None \<Rightarrow> b)"
    have "translateGeminiFrame u m (fr_Data fr) b1 = (b', out)" using assms True False by (simp add: translate_def Let_def b1_def)
    from gemini_frame_done[OF this] show ?thesis by (simp add: b1_def split: option.splits)
  next
    case False
    with assms \<open>fr_Data fr \<noteq> []\<close> anthropic_frame_done show ?thesis by (auto simp: translate_def split: if_splits)
  qed
qed (use assms in \<open>simp add: translate_def\<close>)

lemma fill_rest:
  "fill u m fin inp b = (inp', b', None) \<Longrightarrow> rest_of u m fin inp b = rest_of u m fin inp' b' \<and> (nb_pending b' \<noteq> [] \<or> nb_done b') \<and>
     length inp' \<le> length inp"
proof (induction u m fin inp b rule: fill.induct)
  case (1 u m fin inp b)
  show ?case
  proof (cases "nb_pending b \<noteq> [] \<or> nb_done b")
    case True
    with 1(2) show ?thesis by (subst (asm) fill.simps) auto
  next
    case idle: False
    then have none: "nb_terminalErr b = None" using 1(2) by (subst (asm) fill.simps) (auto split: option.splits)
    show ?thesis
    proof (cases "Next 1048576 (stream_end fin) inp")
      case (Inl e)
      then have "error_is (frame_error fin e) GEOF" "inp' = []" "b' = b\<lparr>nb_pending := done_event, nb_done := True\<rparr>"
        using 1(2) idle none by (subst (asm) fill.simps; auto split: if_splits)+
      then show ?thesis using idle none Inl by (simp add: rest_of_def translate_all.simps[of u m fin inp b] done_event_def)
    next
      case (Inr fx)
      obtain fr rest where fx: "fx = (fr, rest)" by fastforce
      obtain b1 out where t: "translate u m fr b = (b1, out)" by fastforce
      have "fill u m fin rest (b1\<lparr>nb_pending := out\<rparr>) = (inp', b', None)" using 1(2) idle none Inr fx t by (subst (asm) fill.simps) simp
      note ih = 1(1)[OF idle none Inr fx[symmetric] t[symmetric] this]
      have "rest_of u m fin inp b = rest_of u m fin rest (b1\<lparr>nb_pending := out\<rparr>)"
        using idle translate_all_step[OF none Inr[unfolded fx] t] translate_done[OF t] translate_all_pending[where b = b1 and p = out]
        by (simp add: rest_of_def split: prod.splits)
      moreover have "length rest < length inp" using Inr fx by (simp add: Next_def Next_frame_shrinks)
      ultimately show ?thesis using ih by auto
    qed
  qed
qed

lemma fill_error: "fill u m fin inp b = (inp', b', Some e) \<Longrightarrow> rest_of u m fin inp b = ([], e)"
proof (induction u m fin inp b rule: fill.induct)
  case (1 u m fin inp b)
  have idle: "\<not> (nb_pending b \<noteq> [] \<or> nb_done b)" using 1(2) by (subst (asm) fill.simps) (auto split: if_splits)
  show ?case
  proof (cases "nb_terminalErr b")
    case (Some e')
    with 1(2) idle have "e' = e" by (subst (asm) fill.simps) simp
    with Some idle show ?thesis by (simp add: rest_of_def translate_all.simps[of u m fin inp b])
  next
    case none: None
    show ?thesis
    proof (cases "Next 1048576 (stream_end fin) inp")
      case (Inl e')
      then have "\<not> error_is (frame_error fin e') GEOF" "e = frame_error fin e'"
        using 1(2) idle none by (subst (asm) fill.simps; auto split: if_splits)+
      then show ?thesis using idle none Inl by (simp add: rest_of_def translate_all.simps[of u m fin inp b])
    next
      case (Inr fx)
      obtain fr rest where fx: "fx = (fr, rest)" by fastforce
      obtain b1 out where t: "translate u m fr b = (b1, out)" by fastforce
      have "fill u m fin rest (b1\<lparr>nb_pending := out\<rparr>) = (inp', b', Some e)" using 1(2) idle none Inr fx t by (subst (asm) fill.simps) simp
      note ih = 1(1)[OF idle none Inr fx[symmetric] t[symmetric] this]
      have "rest_of u m fin inp b = rest_of u m fin rest (b1\<lparr>nb_pending := out\<rparr>)"
        using idle translate_all_step[OF none Inr[unfolded fx] t] translate_done[OF t] translate_all_pending[where b = b1 and p = out]
        by (simp add: rest_of_def split: prod.splits)
      then show ?thesis using ih by simp
    qed
  qed
qed

text \<open>Reading to the end, \<open>k\<close> bytes at a time; the fuel bounds the number of reads.\<close>

fun read_all ::
  "unmarshaler \<Rightarrow> marshaler \<Rightarrow> nat \<Rightarrow> nat \<Rightarrow> go_error \<Rightarrow> string \<Rightarrow> nativeSSEBody \<Rightarrow> (string \<times> go_error) option" where
  "read_all u m 0 k fin inp b = None"
| "read_all u m (Suc n) k fin inp b =
     (case native_read u m k fin inp b of
        (inp', b', Inl e) \<Rightarrow> Some ([], e)
      | (inp', b', Inr bytes) \<Rightarrow> (case read_all u m n k fin inp' b' of None \<Rightarrow> None | Some (rest, e) \<Rightarrow> Some (bytes @ rest, e)))"

lemma native_read_cases:
  assumes "0 < k"
  shows "(\<exists>inp' b' e. native_read u m k fin inp b = (inp', b', Inl e) \<and> rest_of u m fin inp b = ([], e)) \<or>
     (\<exists>inp' b' bytes rest e. native_read u m k fin inp b = (inp', b', Inr bytes) \<and> bytes \<noteq> [] \<and>
        rest_of u m fin inp' b' = (rest, e) \<and> rest_of u m fin inp b = (bytes @ rest, e))"
proof -
  obtain inp' b' r where f: "fill u m fin inp b = (inp', b', r)" using prod_cases3 by blast
  show ?thesis
  proof (cases r)
    case (Some e)
    with f fill_error show ?thesis by (auto simp: native_read_def)
  next
    case None
    note eq = fill_rest[OF f[unfolded None]]
    show ?thesis
    proof (cases "nb_pending b' = []")
      case True
      with eq f None show ?thesis by (auto simp: native_read_def rest_of_def)
    next
      case False
      obtain rest e where r: "rest_of u m fin inp' (b'\<lparr>nb_pending := drop k (nb_pending b')\<rparr>) = (rest, e)" by fastforce
      then have "rest_of u m fin inp' b' = (take k (nb_pending b') @ rest, e)"
        by (auto simp: rest_of_def translate_all_pending split: prod.splits)
      with False eq f None r assms show ?thesis by (auto simp: native_read_def)
    qed
  qed
qed

lemma read_all_rest: "0 < k \<Longrightarrow> length (fst (rest_of u m fin inp b)) < n \<Longrightarrow> read_all u m n k fin inp b = Some (rest_of u m fin inp b)"
proof (induction n arbitrary: inp b)
  case (Suc n)
  from native_read_cases[OF Suc.prems(1), of u m fin inp b] show ?case
  proof (elim disjE exE conjE)
    fix inp' b' bytes rest e
    assume r: "native_read u m k fin inp b = (inp', b', Inr bytes)" "bytes \<noteq> []" "rest_of u m fin inp' b' = (rest, e)"
      "rest_of u m fin inp b = (bytes @ rest, e)"
    then have "length (fst (rest_of u m fin inp' b')) < n" using Suc.prems(2) by (cases bytes) auto
    from Suc.IH[OF Suc.prems(1) this] r show ?case by simp
  qed simp
qed simp

end
