(* ===== verification/Native_Claims.thy ===== *)
theory Native_Claims
  imports Native
begin

text \<open>
  Properties of the protocol adapters: buffering is transparent, requests are converted message by
  message, and a stream that breaks off is taken for a complete one.
\<close>

definition plain_unmarshal :: unmarshaler where
  "plain_unmarshal s = (if s = ''delta'' then
       Some [(''type'', VString ''content_block_delta''), (''delta'', VMap [(''type'', VString ''text_delta''), (''text'', VString ''Hel'')])]
     else None)"

fun plain_marshal :: marshaler where
  "plain_marshal (VString s) = s"
| "plain_marshal (VMap m) = concat (map fst m)"
| "plain_marshal v = []"

text \<open>
  C18: the translating body of a native stream neither loses nor invents bytes: read with any buffer
  size, to the end, it delivers the translations of the upstream's frames in order and then the
  stream's final error, and the number of reads needed is bounded by the number of bytes.
\<close>

theorem native_body_delivers:
  assumes "0 < k"
  shows "read_all unmarshal marshal (Suc (length (fst (translate_all unmarshal marshal fin inp (native_start protocol))))) k fin inp (native_start protocol) =
     Some (translate_all unmarshal marshal fin inp (native_start protocol))"
proof -
  have "rest_of unmarshal marshal fin inp (native_start protocol) = translate_all unmarshal marshal fin inp (native_start protocol)"
    by (simp add: rest_of_def native_start_def)
  with read_all_rest[OF assms, of unmarshal marshal fin inp "native_start protocol"] show ?thesis by (simp del: read_all.simps)
qed

lemma Next_empty: "Next 1048576 (stream_end GEOF) [] = Inl StreamEOF"
proof -
  have "readLine n StreamEOF [] [] = LineErr StreamEOF []" for n
    using readLine_step[of "[]" "[]" "[]" AtEnd n StreamEOF "[]"] by (simp add: ReadSlice_def buffer_size_def)
  then show ?thesis by (simp add: Next_def stream_end_def Next_frame.simps frame_start_def)
qed

lemma translate_all_eof: "nb_terminalErr b = None \<Longrightarrow> translate_all u m GEOF [] b = (done_event, GEOF)"
  by (simp add: translate_all.simps Next_empty frame_error_def)

theorem native_body_delivers_witness:
  "read_all plain_unmarshal plain_marshal (Suc (length done_event)) 3 GEOF [] (native_start ''anthropic'') = Some (done_event, GEOF)"
  using native_body_delivers[of 3 plain_unmarshal plain_marshal GEOF "[]" "''anthropic''"] translate_all_eof[of "native_start ''anthropic''"]
  by (simp add: native_start_def)

text \<open>
  An upstream that breaks off between two frames passes for one that finished. However far the
  answer had come, if the connection ends cleanly before the protocol's own end event (for Anthropic
  \<open>message_stop\<close>), the translated stream ends with the end marker, and a chat stream with that marker
  is recorded as completed; the marker is invented by the adapter.
\<close>

lemma native_truncation_completes:
  assumes "nb_terminalErr b = None"
  shows "translate_all unmarshal marshal GEOF [] b = (done_event, GEOF) \<and>
     (case Next 1048576 StreamEOF done_event of Inr (fr, rest) \<Rightarrow> is_done fr | Inl _ \<Rightarrow> False) \<and>
     ChatTerminal True (read_class None) False = (''completed'', [])"
proof -
  have enc: "done_event = encode_data [''[DONE]''] @ newline # []" by (simp add: done_event_def encode_data_def data_line_def)
  have pl: "plain_line ''[DONE]''" by code_simp
  have n: "NewSSEReader_max 1048576 = 1048576" by (simp add: NewSSEReader_max_def default_max_def)
  have "Next 1048576 StreamEOF done_event = Inr (\<lparr>fr_Event = [], fr_Data = ''[DONE]'', fr_Raw = encode_data [''[DONE]''] @ [newline], fr_Comment = False\<rparr>, [])"
    using Next_roundtrip[of "''[DONE]''" "[]" "NewSSEReader_max 1048576" StreamEOF "[]"] pl
    by (simp add: Next_def enc n encode_data_def data_line_def)
  moreover have "trim_space ''[DONE]'' = ''[DONE]''" by code_simp
  ultimately show ?thesis using translate_all_eof[OF assms] by (simp add: is_done_def ChatTerminal_def read_class_def read_failure_def)
qed

text \<open>
  C30: a request for Anthropic is the OpenAI request converted message by message: the turns keep their
  order and number, entries that are no objects are dropped, the model is the same and an output limit
  is always set. Of several system messages only the last one survives.
\<close>

theorem anthropic_request_shape:
  "get (openAIToAnthropic unmarshal payload) ''messages'' =
     VList (map (anthropic_turn unmarshal) (filter is_turn (anySlice (get payload ''messages'')))) \<and>
   get (openAIToAnthropic unmarshal payload) ''model'' = get payload ''model'' \<and>
   get (openAIToAnthropic unmarshal payload) ''max_tokens'' \<noteq> VNil \<and>
   get (openAIToAnthropic unmarshal payload) ''system'' =
     (let systems = filter is_system (anySlice (get payload ''messages'')) in
      if systems = [] then VNil else get (as_map (last systems)) ''content'')"
proof -
  have m: "anthropic_max_tokens payload \<noteq> VNil" by (simp add: anthropic_max_tokens_def Let_def)
  show ?thesis
    by (simp add: openAIToAnthropic_def Let_def anthropic_messages fold_system tool_choice_get copy_keys_get m)
qed

end
