(* ===== verification/Config_Env.thy ===== *)
theory Config_Env
  imports Go_Text "HOL-Library.AList"
begin

text \<open>
  The file \<open>relay.env\<close> (config/store.go): reading its lines, writing a mapping in canonical form, and
  the quoting both rely on. A Go map with text keys is an association list with distinct keys.
  \<open>strconv.Quote\<close> and \<open>strconv.Unquote\<close> are exact on ASCII text; a byte above 127 is treated as one
  that belongs to no valid UTF-8 sequence.
\<close>

type_synonym env = "(string \<times> string) list"

section \<open>Quoting\<close>

definition hex_digit :: "nat \<Rightarrow> char" where
  "hex_digit n = (if n < 10 then char_of (48 + n) else char_of (87 + n))"

definition unhex :: "char \<Rightarrow> nat option" where
  "unhex c = (let n = (of_char c :: nat) in
     if 48 \<le> n \<and> n \<le> 57 then Some (n - 48) else if 97 \<le> n \<and> n \<le> 102 then Some (n - 87)
     else if 65 \<le> n \<and> n \<le> 70 then Some (n - 55) else None)"

definition hex_text :: "nat \<Rightarrow> string" where
  "hex_text n = [hex_digit (n div 16), hex_digit (n mod 16)]"

definition hex_value :: "string \<Rightarrow> nat option" where
  "hex_value s = foldl (\<lambda>v c. case (v, unhex c) of (Some v, Some d) \<Rightarrow> Some (v * 16 + d) | _ \<Rightarrow> None) (Some 0) s"

definition backslash :: char where
  "backslash = CHR 0x5C"

definition dquote :: char where
  "dquote = CHR 0x22"

definition squote :: char where
  "squote = CHR 0x27"

text \<open>The letters of the simple escapes with the character they stand for.\<close>

definition escapes :: "(char \<times> char) list" where
  "escapes = [(CHR ''a'', CHR 7), (CHR ''b'', CHR 8), (CHR ''f'', CHR 12), (CHR ''n'', CHR 10), (CHR ''r'', CHR 13),
     (CHR ''t'', CHR 9), (CHR ''v'', CHR 11)]"

definition quote_char :: "char \<Rightarrow> string" where
  "quote_char c =
     (let n = (of_char c :: nat) in
      if c = dquote \<or> c = backslash then [backslash, c]
      else if 32 \<le> n \<and> n < 127 then [c]
      else case map_of (map prod.swap escapes) c of
             Some e \<Rightarrow> [backslash, e]
           | None \<Rightarrow> [backslash, CHR ''x''] @ hex_text n)"

definition strconv_Quote :: "string \<Rightarrow> string" where
  "strconv_Quote s = [dquote] @ concat (map quote_char s) @ [dquote]"

definition utf8 :: "nat \<Rightarrow> string option" where
  "utf8 r =
     (if r < 128 then Some [char_of r]
      else if r < 2048 then Some [char_of (192 + r div 64), char_of (128 + r mod 64)]
      else if 55296 \<le> r \<and> r < 57344 \<or> r > 1114111 then None
      else if r < 65536 then Some [char_of (224 + r div 4096), char_of (128 + r div 64 mod 64), char_of (128 + r mod 64)]
      else Some [char_of (240 + r div 262144), char_of (128 + r div 4096 mod 64), char_of (128 + r div 64 mod 64), char_of (128 + r mod 64)])"

definition octal_value :: "string \<Rightarrow> nat option" where
  "octal_value s =
     (if length s = 3 \<and> list_all (\<lambda>c. CHR ''0'' \<le> c \<and> c \<le> CHR ''7'') s
      then (let v = foldl (\<lambda>v c. v * 8 + ((of_char c :: nat) - 48)) 0 s in if v > 255 then None else Some v) else None)"

text \<open>
  \<open>strconv.UnquoteChar\<close> after a backslash, inside double quotes: the bytes an escape stands for and
  the number of characters it takes.
\<close>

definition read_escape :: "string \<Rightarrow> (string \<times> nat) option" where
  "read_escape s =
     (case s of
        [] \<Rightarrow> None
      | e # r \<Rightarrow>
          if e = dquote \<or> e = backslash then Some ([e], 1)
          else (case map_of escapes e of
                  Some c \<Rightarrow> Some ([c], 1)
                | None \<Rightarrow>
                    if e = CHR ''x'' then (if length r < 2 then None else map_option (\<lambda>v. ([char_of v], 3)) (hex_value (take 2 r)))
                    else if e = CHR ''u'' then (if length r < 4 then None else
                      Option.bind (hex_value (take 4 r)) (\<lambda>v. map_option (\<lambda>u. (u, 5)) (utf8 v)))
                    else if e = CHR ''U'' then (if length r < 8 then None else
                      Option.bind (hex_value (take 8 r)) (\<lambda>v. map_option (\<lambda>u. (u, 9)) (utf8 v)))
                    else map_option (\<lambda>v. ([char_of v], 3)) (octal_value (take 3 s))))"

text \<open>The text after the opening quote; it must end with the closing one.\<close>

function unquote_body :: "string \<Rightarrow> string option" where
  "unquote_body s =
     (case s of
        [] \<Rightarrow> None
      | c # cs \<Rightarrow>
          if c = dquote then (if cs = [] then Some [] else None)
          else if c = newline then None
          else if c \<noteq> backslash then map_option (Cons c) (unquote_body cs)
          else (case read_escape cs of None \<Rightarrow> None | Some (out, n) \<Rightarrow> map_option ((@) out) (unquote_body (drop n cs))))"
  by pat_completeness auto
termination by (relation "measure length") (auto split: if_splits)

declare unquote_body.simps [simp del]

definition strconv_Unquote :: "string \<Rightarrow> string option" where
  "strconv_Unquote s = (case s of [] \<Rightarrow> None | c # cs \<Rightarrow> if c = dquote then unquote_body cs else None)"

text \<open>Single quotes, as \<open>parseSingleQuoted\<close> reads them; the argument of \<open>single_body\<close> is what stands between the quotes.\<close>

fun single_body :: "string \<Rightarrow> string option" where
  "single_body [] = Some []"
| "single_body (c # cs) =
     (if c = squote then None
      else if c \<noteq> backslash then map_option (Cons c) (single_body cs)
      else (case cs of
              [] \<Rightarrow> None
            | e # r \<Rightarrow>
                if e = backslash \<or> e = squote then map_option (Cons e) (single_body r)
                else if e = CHR ''n'' then map_option (Cons newline) (single_body r)
                else if e = CHR ''r'' then map_option (Cons (CHR 13)) (single_body r)
                else if e = CHR ''t'' then map_option (Cons (CHR 9)) (single_body r)
                else None))"

definition parseSingleQuoted :: "string \<Rightarrow> string option" where
  "parseSingleQuoted value = (if length value < 2 \<or> last value \<noteq> squote then None else single_body (butlast (tl value)))"

definition parseValue :: "string \<Rightarrow> string option" where
  "parseValue raw =
     (let value = trim_space raw in
      if value = [] then Some []
      else if hd value = dquote then strconv_Unquote value
      else if hd value = squote then parseSingleQuoted value
      else Some value)"

definition special_chars :: string where
  "special_chars = [CHR ''#'', backslash, dquote, squote, newline, CHR 13, CHR 9]"

definition quoteValue :: "string \<Rightarrow> string" where
  "quoteValue value = (if value \<noteq> trim_space value \<or> contains_any value special_chars then strconv_Quote value else value)"

section \<open>The file\<close>

datatype env_error = InvalidLine nat | InvalidKey nat | InvalidValue nat

definition key_start :: "char \<Rightarrow> bool" where
  "key_start c \<longleftrightarrow> CHR ''A'' \<le> c \<and> c \<le> CHR ''Z'' \<or> CHR ''a'' \<le> c \<and> c \<le> CHR ''z'' \<or> c = CHR ''_''"

definition key_char :: "char \<Rightarrow> bool" where
  "key_char c \<longleftrightarrow> key_start c \<or> is_digit c"

definition ValidEnvKey :: "string \<Rightarrow> bool" where
  "ValidEnvKey name = (case name of [] \<Rightarrow> False | c # cs \<Rightarrow> key_start c \<and> list_all key_char cs)"

definition parse_line :: "nat \<Rightarrow> string \<Rightarrow> env \<Rightarrow> env_error + env" where
  "parse_line n line values =
     (let trimmed = trim_space line in
      if trimmed = [] \<or> has_prefix trimmed ''#'' then Inr values
      else
        let trimmed = (if has_prefix trimmed ''export '' then trim_space (trim_prefix trimmed ''export '') else trimmed);
            before = takeWhile (\<lambda>c. c \<noteq> CHR ''='') trimmed;
            name = trim_space before
        in bind_result (reject_when (before = trimmed \<or> before = []) (InvalidLine n)) (\<lambda>_.
           bind_result (reject_when (\<not> ValidEnvKey name) (InvalidKey n)) (\<lambda>_.
           bind_result (require_some (parseValue (drop (Suc (length before)) trimmed)) (InvalidValue n)) (\<lambda>value.
           Inr (AList.update name value values)))))"

fun parse_lines :: "nat \<Rightarrow> string list \<Rightarrow> env \<Rightarrow> env_error + env" where
  "parse_lines n [] vs = Inr vs"
| "parse_lines n (l # ls) vs = bind_result (parse_line n l vs) (parse_lines (Suc n) ls)"

definition ParseEnvText :: "string \<Rightarrow> env_error + env" where
  "ParseEnvText text = parse_lines 0 (split_on newline (crlf_to_lf text)) []"

definition env_line :: "string \<Rightarrow> string \<Rightarrow> string" where
  "env_line name value = name @ CHR ''='' # quoteValue value"

text \<open>The error is an invalid key.\<close>

definition SerializeEnvMapping :: "env \<Rightarrow> string + string" where
  "SerializeEnvMapping vs =
     (case find (\<lambda>k. \<not> ValidEnvKey k) (map fst vs) of
        Some k \<Rightarrow> Inl k
      | None \<Rightarrow> Inr (concat (map (\<lambda>k. env_line k (the (map_of vs k)) @ [newline]) (sort (map fst vs)))))"

section \<open>Reading what was written\<close>

lemma of_char_bound: "(of_char (c :: char) :: nat) < 256"
  by simp

lemma hex_round: "n < 16 \<Longrightarrow> unhex (hex_digit n) = Some n"
  by (simp add: unhex_def hex_digit_def Let_def)

lemma hex_value_text: "n < 256 \<Longrightarrow> hex_value (hex_text n) = Some n"
  by (simp add: hex_value_def hex_text_def hex_round)

lemma escape_pairs:
  assumes "map_of (map prod.swap escapes) c = Some e"
  shows "map_of escapes e = Some c" "e \<noteq> dquote" "e \<noteq> backslash" "e \<noteq> CHR 10" "e \<noteq> CHR 13"
  using assms by (auto simp: escapes_def dquote_def backslash_def split: if_splits)

lemma unquote_char: "unquote_body (quote_char c @ rest) = map_option (Cons c) (unquote_body rest)"
proof -
  have esc: "unquote_body (backslash # cs) = (case read_escape cs of None \<Rightarrow> None | Some (out, n) \<Rightarrow> map_option ((@) out) (unquote_body (drop n cs)))" for cs
    by (subst unquote_body.simps) (simp add: backslash_def dquote_def newline_def)
  have one: "(@) [c] = Cons c" by auto
  consider "c = dquote \<or> c = backslash"
    | "c \<noteq> dquote" "c \<noteq> backslash" "32 \<le> (of_char c :: nat) \<and> (of_char c :: nat) < 127"
    | e where "c \<noteq> dquote" "c \<noteq> backslash" "\<not> (32 \<le> (of_char c :: nat) \<and> (of_char c :: nat) < 127)"
        "map_of (map prod.swap escapes) c = Some e"
    | "c \<noteq> dquote" "c \<noteq> backslash" "\<not> (32 \<le> (of_char c :: nat) \<and> (of_char c :: nat) < 127)"
        "map_of (map prod.swap escapes) c = None"
    by (cases "map_of (map prod.swap escapes) c") auto
  then show ?thesis
  proof cases
    case 1
    then show ?thesis by (auto simp: quote_char_def esc read_escape_def one)
  next
    case 2
    then have "c \<noteq> newline" by (auto simp: newline_def)
    with 2 show ?thesis by (subst unquote_body.simps) (simp add: quote_char_def Let_def)
  next
    case (3 e)
    have "quote_char c = [backslash, e]" using 3 by (auto simp: quote_char_def Let_def)
    then show ?thesis using escape_pairs[OF 3(4)] by (simp add: esc read_escape_def one)
  next
    case 4
    have x: "CHR ''x'' \<noteq> dquote" "CHR ''x'' \<noteq> backslash" "map_of escapes (CHR ''x'') = None"
      by (simp_all add: dquote_def backslash_def escapes_def)
    have l: "length (hex_text n) = 2" for n by (simp add: hex_text_def)
    have "quote_char c = backslash # CHR ''x'' # hex_text (of_char c)" using 4 by (auto simp: quote_char_def Let_def)
    then show ?thesis using x hex_value_text[OF of_char_bound, of c] by (simp add: esc read_escape_def l one)
  qed
qed

lemma Unquote_Quote: "strconv_Unquote (strconv_Quote s) = Some s"
proof -
  have "unquote_body (concat (map quote_char s) @ [dquote]) = Some s"
  proof (induction s)
    case Nil
    show ?case by (subst unquote_body.simps) simp
  qed (simp add: unquote_char)
  then show ?thesis by (simp add: strconv_Unquote_def strconv_Quote_def)
qed

lemma quote_char_clean: "CHR 10 \<notin> set (quote_char c) \<and> CHR 13 \<notin> set (quote_char c)"
proof -
  have h: "hex_digit n \<noteq> CHR 10 \<and> hex_digit n \<noteq> CHR 13" if "n < 16" for n
    using that unhex_def hex_round[OF that] by (auto simp: unhex_def)
  have "(of_char c :: nat) div 16 < 16" "(of_char c :: nat) mod 16 < 16"
    using of_char_bound[of c] by (simp_all add: less_mult_imp_div_less)
  note h[OF this(1)] h[OF this(2)]
  then show ?thesis using escape_pairs(4,5)[of c]
    by (auto simp: quote_char_def Let_def hex_text_def dquote_def backslash_def split: option.splits)
qed

lemma parseValue_quoteValue: "parseValue (quoteValue v) = Some v"
proof (cases "v \<noteq> trim_space v \<or> contains_any v special_chars")
  case True
  have "strconv_Quote v \<noteq> []" "hd (strconv_Quote v) = dquote" "last (strconv_Quote v) = dquote"
    by (simp_all add: strconv_Quote_def)
  moreover from this have "trim_space (strconv_Quote v) = strconv_Quote v"
    by (intro trim_space_fixed) (simp add: is_space_def dquote_def)
  ultimately show ?thesis using True Unquote_Quote[of v] by (simp add: parseValue_def quoteValue_def)
next
  case False
  then have "hd v \<noteq> dquote \<and> hd v \<noteq> squote" if "v \<noteq> []"
    using that by (cases v) (auto simp: contains_any_def special_chars_def)
  with False show ?thesis by (simp add: parseValue_def quoteValue_def Let_def)
qed

lemma quoteValue_clean: "CHR 10 \<notin> set (quoteValue v) \<and> CHR 13 \<notin> set (quoteValue v)"
  using quote_char_clean
  by (auto simp: quoteValue_def strconv_Quote_def contains_any_def special_chars_def dquote_def newline_def list_ex_iff)

lemma quoteValue_ends: "quoteValue v = [] \<or> \<not> is_space (last (quoteValue v))"
  using trim_space_ends(2)[of v] by (auto simp: quoteValue_def strconv_Quote_def is_space_def dquote_def)


lemma key_char_facts:
  "key_char c \<Longrightarrow> c \<noteq> CHR ''='' \<and> c \<noteq> CHR '' '' \<and> c \<noteq> CHR ''#'' \<and> c \<noteq> CHR 10 \<and> c \<noteq> CHR 13 \<and> \<not> is_space c"
  by (auto simp: key_char_def key_start_def is_digit_def is_space_def Let_def less_eq_char_def)

lemma ValidEnvKey_chars: "ValidEnvKey k \<Longrightarrow> k \<noteq> [] \<and> (\<forall>c \<in> set k. key_char c)"
  by (auto simp: ValidEnvKey_def key_char_def list_all_iff split: list.splits)

lemma prefix_before_separator:
  assumes "d \<notin> set t" "x \<in> set t" "x \<notin> set k"
  shows "\<not> has_prefix (k @ d # q) t"
proof
  assume "has_prefix (k @ d # q) t"
  then obtain r where "k @ d # q = t @ r" unfolding has_prefix_def by (metis append_take_drop_id)
  then obtain us where "k = t @ us \<and> us @ d # q = r \<or> k @ us = t \<and> d # q = us @ r"
    unfolding append_eq_append_conv2 by blast
  with assms show False by (cases us) auto
qed

lemma parse_env_line:
  assumes "ValidEnvKey k"
  shows "parse_line n (env_line k v) vs = Inr (AList.update k v vs)"
proof -
  let ?l = "env_line k v"
  note k = ValidEnvKey_chars[OF assms]
  have no: "CHR ''='' \<notin> set k" "CHR '' '' \<notin> set k" "\<not> is_space (hd k)" "hd k \<noteq> CHR ''#''" "\<not> is_space (last k)"
    using k key_char_facts hd_in_set[of k] last_in_set[of k] by blast+
  have h: "?l \<noteq> []" "hd ?l = hd k" using k by (auto simp: env_line_def)
  have "last ?l = (if quoteValue v = [] then CHR ''='' else last (quoteValue v))" by (simp add: env_line_def)
  then have "\<not> is_space (last ?l)" using quoteValue_ends[of v] by (auto simp: is_space_def)
  then have t: "trim_space ?l = ?l" using h no by (intro trim_space_fixed) simp
  have c: "\<not> has_prefix ?l ''#''" using h no by (cases ?l) (auto simp: has_prefix_def)
  have e: "\<not> has_prefix ?l ''export ''"
    unfolding env_line_def by (rule prefix_before_separator[of _ _ "CHR '' ''"]) (use no in auto)
  have b: "takeWhile (\<lambda>c. c \<noteq> CHR ''='') ?l = k"
    using no(1) unfolding env_line_def by (subst takeWhile_append2) auto
  have "CHR ''='' \<in> set ?l" by (simp add: env_line_def)
  moreover have "trim_space k = k" using no by (intro trim_space_fixed) simp
  moreover have "drop (Suc (length k)) ?l = quoteValue v" by (simp add: env_line_def)
  ultimately show ?thesis using t c e b h(1) k assms
    by (simp add: parse_line_def Let_def parseValue_quoteValue reject_when_def require_some_def)
qed

lemma env_line_clean: "ValidEnvKey k \<Longrightarrow> newline \<notin> set (env_line k v) \<and> CHR 13 \<notin> set (env_line k v)"
  using ValidEnvKey_chars[of k] key_char_facts quoteValue_clean[of v] by (auto simp: env_line_def newline_def)

lemma parse_env_lines:
  "list_all ValidEnvKey ks \<Longrightarrow>
   parse_lines n (split_on newline (concat (map (\<lambda>k. env_line k (f k) @ [newline]) ks))) vs =
     Inr (fold (\<lambda>k. AList.update k (f k)) ks vs)"
proof (induction ks arbitrary: n vs)
  case Nil
  show ?case by (simp add: parse_line_def)
next
  case (Cons k ks)
  then show ?case using env_line_clean[of k "f k"] by (simp add: split_on_append parse_env_line)
qed

lemma map_of_updates: "map_of (fold (\<lambda>k. AList.update k (f k)) ks vs) = (\<lambda>j. if j \<in> set ks then Some (f j) else map_of vs j)"
  by (induction ks arbitrary: vs) (auto simp: update_conv' fun_eq_iff)

lemma distinct_updates: "distinct (map fst vs) \<Longrightarrow> distinct (map fst (fold (\<lambda>k. AList.update k (f k)) ks vs))"
  by (induction ks arbitrary: vs) (simp_all add: distinct_update)

text \<open>Writing a mapping succeeds exactly when its keys are names, and reading the text gives it back.\<close>

lemma Serialize_Parse:
  assumes "list_all (ValidEnvKey \<circ> fst) vs"
  shows "\<exists>text read. SerializeEnvMapping vs = Inr text \<and> ParseEnvText text = Inr read \<and> map_of read = map_of vs \<and>
     distinct (map fst read)"
proof -
  let ?f = "\<lambda>k. the (map_of vs k)" and ?ks = "sort (map fst vs)"
  let ?text = "concat (map (\<lambda>k. env_line k (?f k) @ [newline]) ?ks)"
  have keys: "list_all ValidEnvKey ?ks" "find (\<lambda>k. \<not> ValidEnvKey k) (map fst vs) = None"
    using assms by (auto simp: list_all_iff find_None_iff)
  have "CHR 13 \<notin> set ?text" using keys(1) env_line_clean by (auto simp: list_all_iff newline_def)
  then have "ParseEnvText ?text = Inr (fold (\<lambda>k. AList.update k (?f k)) ?ks [])"
    using parse_env_lines[OF keys(1), of 0 ?f "[]"] by (simp add: ParseEnvText_def crlf_to_lf_id)
  moreover have "map_of (fold (\<lambda>k. AList.update k (?f k)) ?ks []) = map_of vs"
  proof (rule ext)
    fix x
    show "map_of (fold (\<lambda>k. AList.update k (?f k)) ?ks []) x = map_of vs x"
      using map_of_eq_None_iff[of vs x] by (cases "map_of vs x") (auto simp: map_of_updates)
  qed
  ultimately show ?thesis using keys(2) distinct_updates[of "[]" ?f ?ks] by (simp add: SerializeEnvMapping_def)
qed

end
