(* ===== verification/Go_Time.thy ===== *)
theory Go_Time
  imports Go_Text
begin

text \<open>
  The text of a \<open>time.Duration\<close> (an \<open>int64\<close> of nanoseconds): \<open>Duration.String\<close> and
  \<open>time.ParseDuration\<close>. Go scales a decimal fraction with a \<open>float64\<close> product; the product is exact for
  the up to nine digits \<open>String\<close> writes, and it is computed exactly here.
\<close>

section \<open>Writing\<close>

text \<open>\<open>fmtFrac\<close>: the lowest \<open>i\<close> digits without trailing zeros, in front of what is already written, and the number above them.\<close>

fun fmt_frac :: "nat \<Rightarrow> nat \<Rightarrow> bool \<Rightarrow> string \<Rightarrow> nat \<times> string" where
  "fmt_frac 0 v pr acc = (v, if pr then CHR ''.'' # acc else acc)"
| "fmt_frac (Suc i) v pr acc =
     (let pr' = (pr \<or> v mod 10 \<noteq> 0) in fmt_frac i (v div 10) pr' (if pr' then char_of (48 + v mod 10) # acc else acc))"

definition micro_sign :: string where
  "micro_sign = [CHR 0xC2, CHR 0xB5]"

definition Duration_String :: "int \<Rightarrow> string" where
  "Duration_String d =
     (let u = nat \<bar>d\<bar>; sign = (if d < 0 then ''-'' else []) in
      if u = 0 then ''0s''
      else if u < 10 ^ 9 then
        (let (prec, unit) = (if u < 10 ^ 3 then (0, ''ns'') else if u < 10 ^ 6 then (3, micro_sign @ ''s'') else (6, ''ms''));
             (v, t) = fmt_frac prec u False unit
         in sign @ dec_text v @ t)
      else
        (let (v, t) = fmt_frac 9 u False ''s'';
             t = dec_text (v mod 60) @ t;
             v = v div 60;
             t = (if v > 0 then dec_text (v mod 60) @ ''m'' @ t else t);
             v = v div 60;
             t = (if v > 0 then dec_text v @ ''h'' @ t else t)
         in sign @ t))"

section \<open>Reading\<close>

definition duration_units :: "(string \<times> int) list" where
  "duration_units = [(''ns'', 1), (''us'', 10 ^ 3), (micro_sign @ ''s'', 10 ^ 3), ([CHR 0xCE, CHR 0xBC] @ ''s'', 10 ^ 3), (''ms'', 10 ^ 6),
     (''s'', 10 ^ 9), (''m'', 60 * 10 ^ 9), (''h'', 3600 * 10 ^ 9)]"

text \<open>\<open>leadingFraction\<close>: the digits as a number and its scale; digits after an overflow are skipped.\<close>

definition frac_step :: "int \<times> int \<times> bool \<Rightarrow> char \<Rightarrow> int \<times> int \<times> bool" where
  "frac_step st c =
     (case st of (x, scale, overflow) \<Rightarrow>
        if overflow then st
        else if x > max_i64 div 10 then (x, scale, True)
        else let y = x * 10 + (int (of_char c) - 48) in if y > 2 ^ 63 then (x, scale, True) else (y, scale * 10, False))"

definition leadingFraction :: "string \<Rightarrow> int \<times> int" where
  "leadingFraction s = (case foldl frac_step (0, 1, False) (takeWhile is_digit s) of (x, scale, _) \<Rightarrow> (x, scale))"

text \<open>One number with its unit: its nanoseconds and the rest of the text.\<close>

definition duration_component :: "string \<Rightarrow> (int \<times> string) option" where
  "duration_component s =
     (let ds = takeWhile is_digit s;
          v = dec_value ds;
          rest = dropWhile is_digit s;
          point = (rest \<noteq> [] \<and> hd rest = CHR ''.'');
          fs = (if point then takeWhile is_digit (tl rest) else []);
          (f, scale) = (if point then leadingFraction (tl rest) else (0, 1));
          rest = (if point then dropWhile is_digit (tl rest) else rest);
          u = takeWhile (\<lambda>c. c \<noteq> CHR ''.'' \<and> \<not> is_digit c) rest
      in if v > 2 ^ 63 \<or> ds = [] \<and> fs = [] \<or> u = [] then None
         else (case map_of duration_units u of
                 None \<Rightarrow> None
               | Some unit \<Rightarrow>
                   if v > 2 ^ 63 div unit then None
                   else let w = v * unit + (if f > 0 then f * unit div scale else 0)
                        in if f > 0 \<and> w > 2 ^ 63 then None else Some (w, drop (length u) rest)))"

lemma duration_component_shrinks: "duration_component s = Some (w, rest) \<Longrightarrow> length rest < length s"
proof -
  assume a: "duration_component s = Some (w, rest)"
  let ?r = "dropWhile is_digit s"
  define r where "r = (if ?r \<noteq> [] \<and> hd ?r = CHR ''.'' then dropWhile is_digit (tl ?r) else ?r)"
  define u where "u = takeWhile (\<lambda>c. c \<noteq> CHR ''.'' \<and> \<not> is_digit c) r"
  have "rest = drop (length u) r" "u \<noteq> []"
    using a by (auto simp: duration_component_def Let_def u_def r_def split: if_splits option.splits prod.splits)
  moreover have "length r \<le> length s"
    using length_dropWhile_le[of is_digit s] length_dropWhile_le[of is_digit "tl ?r"] by (auto simp: r_def)
  moreover have "length u \<le> length r" unfolding u_def by (rule length_takeWhile_le)
  ultimately show ?thesis by (cases u) auto
qed

function duration_sum :: "int \<Rightarrow> string \<Rightarrow> int option" where
  "duration_sum d s =
     (if s = [] then Some d
      else (case duration_component s of
              None \<Rightarrow> None
            | Some (w, rest) \<Rightarrow> let e = (d + w) mod 2 ^ 64 in if e > 2 ^ 63 then None else duration_sum e rest))"
  by pat_completeness auto
termination by (relation "measure (length \<circ> snd)") (auto dest: duration_component_shrinks)

declare duration_sum.simps [simp del]

definition ParseDuration :: "string \<Rightarrow> int option" where
  "ParseDuration s =
     (let neg = (s \<noteq> [] \<and> hd s = CHR ''-'');
          body = (if s \<noteq> [] \<and> (hd s = CHR ''-'' \<or> hd s = CHR ''+'') then tl s else s)
      in if body = ''0'' then Some 0
         else if body = [] then None
         else (case duration_sum 0 body of
                 None \<Rightarrow> None
               | Some d \<Rightarrow> if neg then Some (- d) else if d > max_i64 then None else Some d))"

section \<open>A written duration is read back\<close>

lemma dec_value_bounds: "list_all is_digit s \<Longrightarrow> 0 \<le> dec_value s \<and> dec_value s < 10 ^ length s"
proof (induction s rule: rev_induct)
  case Nil
  show ?case by (simp add: dec_value_def)
next
  case (snoc c s)
  then show ?case by (auto simp: dec_value_snoc is_digit_def)
qed

lemma fmt_frac_spec:
  "\<exists>ds. fmt_frac i v pr acc = (v div 10 ^ i, (if pr \<or> v mod 10 ^ i \<noteq> 0 then CHR ''.'' # ds @ acc else acc)) \<and>
     list_all is_digit ds \<and> length ds \<le> i \<and> (pr \<longrightarrow> length ds = i) \<and> dec_value ds * 10 ^ (i - length ds) = int (v mod 10 ^ i)"
proof (induction i arbitrary: v pr acc)
  case 0
  show ?case by (rule exI[of _ "[]"]) (simp add: dec_value_def)
next
  case (Suc i)
  have split: "v mod 10 ^ Suc i = 10 * (v div 10 mod 10 ^ i) + v mod 10"
    using mod_mult2_eq[of v 10 "10 ^ i"] by simp
  have dv: "v div 10 div 10 ^ i = v div 10 ^ Suc i" by (simp add: div_mult2_eq)
  show ?case
  proof (cases "pr \<or> v mod 10 \<noteq> 0")
    case True
    obtain ds where ds: "fmt_frac i (v div 10) True (char_of (48 + v mod 10) # acc) =
         (v div 10 div 10 ^ i, CHR ''.'' # ds @ char_of (48 + v mod 10) # acc)"
        "list_all is_digit ds" "length ds = i" "dec_value ds = int (v div 10 mod 10 ^ i)"
      using Suc.IH[of "v div 10" True "char_of (48 + v mod 10) # acc"] by auto
    have dc: "(of_char (char_of (48 + v mod 10) :: char) :: nat) = 48 + v mod 10" by (rule digit_char) simp
    have nz: "pr \<or> v mod 10 ^ Suc i \<noteq> 0" using True unfolding split by auto
    have step: "fmt_frac (Suc i) v pr acc = fmt_frac i (v div 10) True (char_of (48 + v mod 10) # acc)"
      using True by (auto simp: Let_def)
    let ?ds = "ds @ [char_of (48 + v mod 10)]"
    have "list_all is_digit ?ds" using ds(2) by (simp add: is_digit_def dc)
    moreover have "dec_value ?ds = int (v mod 10 ^ Suc i)" unfolding split by (simp add: dec_value_snoc dc ds(4))
    moreover have "fmt_frac (Suc i) v pr acc = (v div 10 ^ Suc i, CHR ''.'' # ?ds @ acc)" using step ds(1) dv by simp
    ultimately show ?thesis using ds(3) nz by (intro exI[of _ ?ds]) simp
  next
    case False
    obtain ds where ds: "fmt_frac i (v div 10) False acc =
         (v div 10 div 10 ^ i, if v div 10 mod 10 ^ i \<noteq> 0 then CHR ''.'' # ds @ acc else acc)"
        "list_all is_digit ds" "length ds \<le> i" "dec_value ds * 10 ^ (i - length ds) = int (v div 10 mod 10 ^ i)"
      using Suc.IH[of "v div 10" False acc] by auto
    have "v mod 10 ^ Suc i = 10 * (v div 10 mod 10 ^ i)" using False split by simp
    moreover have "dec_value ds * 10 ^ (Suc i - length ds) = 10 * (dec_value ds * 10 ^ (i - length ds))"
      using ds(3) by (simp add: Suc_diff_le)
    ultimately show ?thesis using ds False dv by (intro exI[of _ ds]) (simp add: Let_def)
  qed
qed

lemma takeWhile_stop: "list_all P xs \<Longrightarrow> ys = [] \<or> \<not> P (hd ys) \<Longrightarrow> takeWhile P (xs @ ys) = xs \<and> dropWhile P (xs @ ys) = ys"
proof (induction xs)
  case Nil
  then show ?case by (cases ys) auto
qed simp

lemma leadingFraction_exact:
  assumes "list_all is_digit ds" "length ds \<le> 18" "rest = [] \<or> \<not> is_digit (hd rest)"
  shows "leadingFraction (ds @ rest) = (dec_value ds, 10 ^ length ds)"
proof -
  have "foldl frac_step (0, 1, False) ds = (dec_value ds, 10 ^ length ds, False)"
    using assms(1,2)
  proof (induction ds rule: rev_induct)
    case Nil
    show ?case by (simp add: dec_value_def)
  next
    case (snoc c ds)
    have ds: "list_all is_digit ds" "is_digit c" "length ds \<le> 17" using snoc.prems by simp_all
    have "(10 :: int) ^ length ds \<le> 10 ^ 17" using ds(3) by (rule power_increasing) simp
    then have "0 \<le> dec_value ds" "dec_value ds < 10 ^ 17" using dec_value_bounds[OF ds(1)] by auto
    moreover have "int (of_char c) - 48 \<le> 9" using ds(2) by (simp add: is_digit_def)
    ultimately have "\<not> dec_value ds > max_i64 div 10" "\<not> dec_value ds * 10 + (int (of_char c) - 48) > 2 ^ 63"
      by (simp_all add: max_i64_def)
    then show ?case using snoc.IH ds by (simp add: frac_step_def Let_def dec_value_snoc)
  qed
  then show ?thesis using takeWhile_stop[OF assms(1,3)] by (simp add: leadingFraction_def)
qed

lemma duration_unit_text: "map_of duration_units u = Some U \<Longrightarrow> u \<noteq> [] \<and> list_all (\<lambda>c. c \<noteq> CHR ''.'' \<and> \<not> is_digit c) u \<and> 0 < U"
  by (drule map_of_SomeD) (auto simp: duration_units_def micro_sign_def is_digit_def)

lemma component_text:
  assumes u: "map_of duration_units u = Some U" and n: "int n \<le> 2 ^ 63 div U"
    and ds: "list_all is_digit ds" "length ds \<le> 18" "(ds = []) = (\<not> q)"
    and small: "int n * U + (if q then dec_value ds * U div 10 ^ length ds else 0) \<le> 2 ^ 63"
    and rest: "rest = [] \<or> is_digit (hd rest)"
  shows "duration_component (dec_text n @ (if q then CHR ''.'' # ds else []) @ u @ rest) =
     Some (int n * U + (if q then dec_value ds * U div 10 ^ length ds else 0), rest)"
proof -
  note t = dec_text_facts[of n] and ut = duration_unit_text[OF u]
  let ?tail = "(if q then CHR ''.'' # ds else []) @ u @ rest"
  have hu: "u @ rest \<noteq> []" "\<not> is_digit (hd (u @ rest))" "hd (u @ rest) \<noteq> CHR ''.''"
    using ut by (cases u; auto)+
  have "\<not> is_digit CHR ''.''" by (simp add: is_digit_def)
  then have "\<not> is_digit (hd ?tail)" using hu by auto
  then have d: "takeWhile is_digit (dec_text n @ ?tail) = dec_text n" "dropWhile is_digit (dec_text n @ ?tail) = ?tail"
    using takeWhile_stop[of is_digit "dec_text n" ?tail] t by auto
  have f: "takeWhile is_digit (ds @ u @ rest) = ds" "dropWhile is_digit (ds @ u @ rest) = u @ rest"
    using takeWhile_stop[of is_digit ds "u @ rest"] ds(1) hu by auto
  have lf: "leadingFraction (ds @ u @ rest) = (dec_value ds, 10 ^ length ds)"
    by (rule leadingFraction_exact[OF ds(1,2)]) (use hu in simp)
  have un: "takeWhile (\<lambda>c. c \<noteq> CHR ''.'' \<and> \<not> is_digit c) (u @ rest) = u"
    using takeWhile_stop[of "\<lambda>c. c \<noteq> CHR ''.'' \<and> \<not> is_digit c" u rest] ut rest by auto
  have "(2 :: int) ^ 63 div U \<le> 2 ^ 63 div 1" using ut by (intro zdiv_mono2) auto
  then have big: "int n \<le> 2 ^ 63" using n by simp
  have zero: "dec_value ds * U div 10 ^ length ds = 0" if "\<not> dec_value ds > 0"
    using dec_value_bounds[OF ds(1)] that by simp
  show ?thesis
  proof (cases q)
    case True
    then show ?thesis using d f lf un hu t n u ds small zero big ut
      unfolding duration_component_def Let_def by (auto simp: split: if_splits)
  next
    case False
    then show ?thesis using d un hu t n u ut big unfolding duration_component_def Let_def by (auto simp: not_less)
  qed
qed

lemma fmt_frac_read:
  "\<exists>ds q. fmt_frac i v False unit = (v div 10 ^ i, (if q then CHR ''.'' # ds else []) @ unit) \<and> list_all is_digit ds \<and> length ds \<le> i \<and>
     (ds = []) = (\<not> q) \<and> (if q then dec_value ds * 10 ^ i div 10 ^ length ds else 0) = int (v mod 10 ^ i)"
proof -
  obtain ds where ds: "fmt_frac i v False unit = (v div 10 ^ i, if v mod 10 ^ i \<noteq> 0 then CHR ''.'' # ds @ unit else unit)"
      "list_all is_digit ds" "length ds \<le> i" "dec_value ds * 10 ^ (i - length ds) = int (v mod 10 ^ i)"
    using fmt_frac_spec[of i v False unit] by auto
  have scale: "dec_value ds * 10 ^ i div 10 ^ length ds = int (v mod 10 ^ i)"
  proof -
    have "(10 :: int) ^ i = 10 ^ (i - length ds) * 10 ^ length ds" using ds(3) by (simp flip: power_add)
    then have "dec_value ds * 10 ^ i = int (v mod 10 ^ i) * 10 ^ length ds" using ds(4) by simp
    then show ?thesis by simp
  qed
  show ?thesis
  proof (cases "v mod 10 ^ i = 0")
    case True
    then show ?thesis using ds(1) by (intro exI[of _ "[]"] exI[of _ False]) simp
  next
    case False
    then have "ds \<noteq> []" using ds(4) by (auto simp: dec_value_def)
    then show ?thesis using ds scale False by (intro exI[of _ ds] exI[of _ True]) simp
  qed
qed

lemma component_frac:
  assumes w: "fmt_frac i v False unit = (a, t)" and u: "map_of duration_units unit = Some (10 ^ i)" and i: "i \<le> 9"
    and small: "int n * 10 ^ i + int (v mod 10 ^ i) \<le> 2 ^ 63" and rest: "rest = [] \<or> is_digit (hd rest)"
  shows "a = v div 10 ^ i" "duration_component (dec_text n @ t @ rest) = Some (int n * 10 ^ i + int (v mod 10 ^ i), rest)"
proof -
  obtain ds q where ds: "fmt_frac i v False unit = (v div 10 ^ i, (if q then CHR ''.'' # ds else []) @ unit)"
      "list_all is_digit ds" "length ds \<le> i" "(ds = []) = (\<not> q)"
      "(if q then dec_value ds * 10 ^ i div 10 ^ length ds else 0) = int (v mod 10 ^ i)"
    using fmt_frac_read by blast
  show "a = v div 10 ^ i" using w ds(1) by simp
  have "int n * 10 ^ i \<le> 2 ^ 63" using small by linarith
  then have n: "int n \<le> 2 ^ 63 div 10 ^ i" by (simp add: le_div_iff_mult)
  show "duration_component (dec_text n @ t @ rest) = Some (int n * 10 ^ i + int (v mod 10 ^ i), rest)"
    using component_text[OF u n ds(2) _ ds(4) _ rest] ds small i w by simp
qed

lemma component_whole:
  assumes u: "map_of duration_units unit = Some U" and n: "int n * U \<le> 2 ^ 63" and rest: "rest = [] \<or> is_digit (hd rest)"
  shows "duration_component (dec_text n @ unit @ rest) = Some (int n * U, rest)"
proof -
  have "0 < U" using duration_unit_text[OF u] by blast
  then have "int n \<le> 2 ^ 63 div U" using n by (simp add: le_div_iff_mult)
  from component_text[OF u this, of "[]" False rest] n rest show ?thesis by simp
qed

lemma duration_sum_step:
  assumes "duration_component s = Some (w, rest)" "0 \<le> d + w" "d + w \<le> 2 ^ 63"
  shows "duration_sum d s = duration_sum (d + w) rest"
proof -
  have "s \<noteq> []" using duration_component_shrinks[OF assms(1)] by auto
  moreover have "(d + w) mod 2 ^ 64 = d + w" using assms(2,3) by (intro mod_pos_pos_trivial) simp_all
  ultimately show ?thesis using assms by (subst duration_sum.simps) (simp add: Let_def)
qed

lemma digit_head: "is_digit (hd (dec_text n @ s))"
  using dec_text_facts[of n] by (cases "dec_text n") auto

lemma duration_sum_end: "duration_component s = Some (w, []) \<Longrightarrow> 0 \<le> d + w \<Longrightarrow> d + w \<le> 2 ^ 63 \<Longrightarrow> duration_sum d s = Some (d + w)"
  by (subst duration_sum_step, assumption+, subst duration_sum.simps) simp

lemma fraction_sum:
  assumes "0 < u" "u < 2 ^ 63" "fmt_frac i u False unit = (v, t)" "map_of duration_units unit = Some (10 ^ i)" "i \<le> 9"
  shows "duration_sum 0 (dec_text v @ t) = Some (int u)"
proof -
  have v: "v = u div 10 ^ i" using fmt_frac_read[of i u unit] assms(3) by auto
  have "u div 10 ^ i * 10 ^ i + u mod 10 ^ i = u" by (rule div_mult_mod_eq)
  then have sum: "int v * 10 ^ i + int (u mod 10 ^ i) = int u" unfolding v by (metis of_nat_add of_nat_mult of_nat_numeral of_nat_power)
  have "duration_component (dec_text v @ t @ []) = Some (int u, [])"
    using component_frac(2)[OF assms(3-5), of v "[]"] sum assms(2) by simp
  then show ?thesis using assms(2) by (simp add: duration_sum_end)
qed

text \<open>Hours, minutes and seconds: each part of the text adds its share.\<close>

lemma hms_sum:
  assumes u: "10 ^ 9 \<le> u" "u < 2 ^ 63" and w: "fmt_frac 9 u False ''s'' = (v, t)"
  shows "duration_sum 0 ((if v div 60 div 60 > 0 then dec_text (v div 60 div 60) @ ''h'' else []) @
      (if v div 60 > 0 then dec_text (v div 60 mod 60) @ ''m'' else []) @ dec_text (v mod 60) @ t) = Some (int u)"
proof -
  let ?h = "v div 60 div 60" and ?m = "v div 60 mod 60" and ?s = "v mod 60" and ?n = "u mod 10 ^ 9"
  have v: "v = u div 10 ^ 9" using fmt_frac_read[of 9 u "''s''"] w by auto
  have eqs: "u div 10 ^ 9 * 10 ^ 9 + ?n = u" "v div 60 * 60 + ?s = v" "?h * 60 + ?m = v div 60" by (rule div_mult_mod_eq)+
  have "((?h * 60 + ?m) * 60 + ?s) * 10 ^ 9 + ?n = u" using eqs(1) unfolding eqs(3) eqs(2) by (simp add: v)
  then have "int (((?h * 60 + ?m) * 60 + ?s) * 10 ^ 9 + ?n) = int u" by simp
  then have sum: "int ?h * (3600 * 10 ^ 9) + int ?m * (60 * 10 ^ 9) + (int ?s * 10 ^ 9 + int ?n) = int u"
    unfolding of_nat_add of_nat_mult of_nat_numeral of_nat_power by (simp add: algebra_simps)
  have top: "int u \<le> 2 ^ 63" using u(2) by simp
  have units: "map_of duration_units ''h'' = Some (3600 * 10 ^ 9)" "map_of duration_units ''m'' = Some (60 * 10 ^ 9)"
      "map_of duration_units ''s'' = Some (10 ^ 9)"
    by (simp_all add: duration_units_def micro_sign_def)
  have sec: "duration_component (dec_text ?s @ t) = Some (int ?s * 10 ^ 9 + int ?n, [])"
    using component_frac(2)[OF w units(3), of ?s "[]"] sum top by simp
  let ?S = "dec_text ?s @ t" and ?M = "if v div 60 > 0 then dec_text ?m @ ''m'' else []"
  have minutes: "duration_sum d (?M @ ?S) = Some (d + int ?m * (60 * 10 ^ 9) + (int ?s * 10 ^ 9 + int ?n))"
    if d: "0 \<le> d" "d + int ?m * (60 * 10 ^ 9) + (int ?s * 10 ^ 9 + int ?n) \<le> 2 ^ 63" for d
  proof (cases "v div 60 > 0")
    case True
    have "duration_component (dec_text ?m @ ''m'' @ ?S) = Some (int ?m * (60 * 10 ^ 9), ?S)"
      by (rule component_whole[OF units(2)]) (use d digit_head in auto)
    then have "duration_sum d (dec_text ?m @ ''m'' @ ?S) = duration_sum (d + int ?m * (60 * 10 ^ 9)) ?S"
      by (rule duration_sum_step) (use d in auto)
    moreover have "duration_sum (d + int ?m * (60 * 10 ^ 9)) ?S = Some (d + int ?m * (60 * 10 ^ 9) + (int ?s * 10 ^ 9 + int ?n))"
      by (rule duration_sum_end[OF sec]) (use d in auto)
    ultimately show ?thesis using True by simp
  next
    case False
    then have "duration_sum d ?S = Some (d + (int ?s * 10 ^ 9 + int ?n))" using d by (intro duration_sum_end[OF sec]) auto
    then show ?thesis using False by simp
  qed
  show ?thesis
  proof (cases "?h > 0")
    case True
    have hd: "?M @ ?S = [] \<or> is_digit (hd (?M @ ?S))" using digit_head by auto
    have "duration_component (dec_text ?h @ ''h'' @ ?M @ ?S) = Some (int ?h * (3600 * 10 ^ 9), ?M @ ?S)"
      by (rule component_whole[OF units(1) _ hd]) (use sum top in auto)
    then have "duration_sum 0 (dec_text ?h @ ''h'' @ ?M @ ?S) = duration_sum (0 + int ?h * (3600 * 10 ^ 9)) (?M @ ?S)"
      by (rule duration_sum_step) (use sum top in auto)
    then show ?thesis using minutes[of "int ?h * (3600 * 10 ^ 9)"] sum top True by simp
  next
    case False
    then show ?thesis using minutes[of 0] sum top by simp
  qed
qed

theorem ParseDuration_String:
  assumes "0 \<le> d" "d \<le> max_i64"
  shows "ParseDuration (Duration_String d) = Some d"
proof -
  have parse: "ParseDuration s = Some d" if s: "duration_sum 0 s = Some d" "is_digit (hd s)" "s \<noteq> []" "s \<noteq> ''0''" for s
  proof -
    have "hd s \<noteq> CHR ''-''" "hd s \<noteq> CHR ''+''" using s(2) by (auto simp: is_digit_def)
    then show ?thesis using s assms by (simp add: ParseDuration_def Let_def)
  qed
  have zero: "duration_sum 0 ''0'' = None" by code_simp
  define u where "u = nat d"
  have u: "int u = d" "u < 2 ^ 63" using assms by (simp_all add: u_def max_i64_def)
  consider "u = 0" | "0 < u" "u < 10 ^ 9" | "10 ^ 9 \<le> u" by linarith
  then show ?thesis
  proof cases
    case 1
    then have "d = 0" using u(1) by simp
    moreover have "ParseDuration ''0s'' = Some 0" by code_simp
    ultimately show ?thesis by (simp add: Duration_String_def)
  next
    case 2
    obtain i :: nat and unit where iu: "(i, unit) = (if u < 10 ^ 3 then (0, ''ns'') else if u < 10 ^ 6 then (3, micro_sign @ ''s'') else (6, ''ms''))" by metis
    then have unit: "map_of duration_units unit = Some (10 ^ i)" "i \<le> 9"
      by (auto simp: duration_units_def micro_sign_def split: if_splits)
    obtain v t where w: "fmt_frac i u False unit = (v, t)" by fastforce
    have shape: "Duration_String d = dec_text v @ t"
      using 2 assms(1) w unfolding Duration_String_def Let_def u_def[symmetric] abs_of_nonneg[OF assms(1)] iu[symmetric] by simp
    have "duration_sum 0 (dec_text v @ t) = Some d" using fraction_sum[OF 2(1) u(2) w unit] u(1) by simp
    with parse show ?thesis unfolding shape using digit_head zero dec_text_facts by fastforce
  next
    case 3
    obtain v t where w: "fmt_frac 9 u False ''s'' = (v, t)" by fastforce
    let ?whole = "(if v div 60 div 60 > 0 then dec_text (v div 60 div 60) @ ''h'' else []) @
      (if v div 60 > 0 then dec_text (v div 60 mod 60) @ ''m'' else []) @ dec_text (v mod 60) @ t"
    have bs: "nat \<bar>d\<bar> = u" "\<not> d < 0" "u \<noteq> 0" "\<not> u < 10 ^ 9" using 3 assms(1) by (simp_all add: u_def)
    have shape: "Duration_String d = ?whole"
      unfolding Duration_String_def Let_def bs(1) w prod.case if_not_P[OF bs(2)] if_not_P[OF bs(3)] if_not_P[OF bs(4)]
      by (cases "v div 60 > 0"; cases "v div 60 div 60 > 0") (simp_all only: if_True if_False append_Nil append_assoc)
    have sum: "duration_sum 0 ?whole = Some d" using hms_sum[OF 3 u(2) w] u(1) by simp
    have "?whole \<noteq> ''0''"
    proof
      assume e: "?whole = ''0''"
      show False using sum unfolding e zero by simp
    qed
    moreover have "?whole \<noteq> []" "is_digit (hd ?whole)" using digit_head dec_text_facts by auto
    ultimately show ?thesis unfolding shape by (intro parse[OF sum])
  qed
qed

end
