(* ===== verification/Settings.thy ===== *)
theory Settings
  imports Complex_Main Config_Env Go_Time Providers
begin

text \<open>
  The typed configuration (config/settings.go): validation of a mapping, the canonical mapping of a
  configuration, what a change needs a restart for. \<open>strconv.ParseFloat\<close> and the arithmetic of
  \<open>float64\<close> are parameters (\<open>floats\<close>), addresses are parsed by the \<open>netlib\<close> of \<open>Providers\<close>. An error is
  the name of the setting; its cause, which no caller reads, is left out.
\<close>

section \<open>Reading one setting\<close>

text \<open>
  \<open>fl_parse\<close> answers \<open>None\<close> for an error and \<open>Some None\<close> for a value that is no finite number;
  \<open>fl_round\<close> rounds an exact result to a \<open>float64\<close> and \<open>fl_int\<close> converts one to \<open>int64\<close>.
\<close>

record floats =
  fl_parse :: "string \<Rightarrow> rat option option"
  fl_round :: "rat \<Rightarrow> rat"
  fl_int :: "rat \<Rightarrow> int"

definition minute_ns :: int where
  "minute_ns = 60000000000"

definition sec_ns :: int where
  "sec_ns = 1000000000"

definition required :: "env \<Rightarrow> string \<Rightarrow> string + string" where
  "required env name =
     (let value = trim_space (case map_of env name of None \<Rightarrow> [] | Some raw \<Rightarrow> raw)
      in if value = [] then Inl name else Inr value)"

definition textDefault :: "env \<Rightarrow> string \<Rightarrow> string \<Rightarrow> string + string" where
  "textDefault env name fallback =
     (case map_of env name of
        None \<Rightarrow> Inr fallback
      | Some raw \<Rightarrow> let value = trim_space raw in if value = [] then Inl name else Inr value)"

definition textOptional :: "env \<Rightarrow> string \<Rightarrow> string" where
  "textOptional env name = (case map_of env name of None \<Rightarrow> [] | Some raw \<Rightarrow> trim_space raw)"

definition boolean :: "env \<Rightarrow> string \<Rightarrow> bool \<Rightarrow> string + bool" where
  "boolean env name fallback =
     (case map_of env name of
        None \<Rightarrow> Inr fallback
      | Some raw \<Rightarrow>
          let value = to_lower (trim_space raw) in
          if value \<in> {''true'', ''1'', ''yes'', ''on''} then Inr True
          else if value \<in> {''false'', ''0'', ''no'', ''off''} then Inr False
          else Inl name)"

definition positiveInt :: "env \<Rightarrow> string \<Rightarrow> int \<Rightarrow> string + int" where
  "positiveInt env name fallback =
     (case map_of env name of
        None \<Rightarrow> Inr fallback
      | Some raw \<Rightarrow> (case ParseInt (trim_space raw) of None \<Rightarrow> Inl name | Some n \<Rightarrow> if n \<le> 0 then Inl name else Inr n))"

definition intervalOrZero :: "floats \<Rightarrow> env \<Rightarrow> string \<Rightarrow> int \<Rightarrow> string + int" where
  "intervalOrZero fl env name fallback =
     (case map_of env name of
        None \<Rightarrow> Inr fallback
      | Some raw \<Rightarrow>
          let value = trim_space raw in
          if value = [] then Inr fallback
          else if value = ''0'' then Inr 0
          else
            bind_result
              (case ParseDuration value of
                 Some d \<Rightarrow> Inr d
               | None \<Rightarrow> (case fl_parse fl value of
                            Some (Some q) \<Rightarrow> Inr (fl_int fl (fl_round fl (q * of_int minute_ns)))
                          | _ \<Rightarrow> Inl name))
              (\<lambda>d. if d < 0 then Inl name else Inr d))"

definition duration :: "floats \<Rightarrow> env \<Rightarrow> string \<Rightarrow> int \<Rightarrow> int \<Rightarrow> string + int" where
  "duration fl env name fallback unit =
     (case map_of env name of
        None \<Rightarrow> Inr fallback
      | Some raw \<Rightarrow>
          let value = trim_space raw in
          if value = [] then Inl name
          else (case ParseInt value of
                  Some n \<Rightarrow> if n \<le> 0 \<or> n > max_i64 div unit then Inl name else Inr (n * unit)
                | None \<Rightarrow>
                    (case fl_parse fl value of
                       Some None \<Rightarrow> Inl name
                     | Some (Some q) \<Rightarrow>
                         if 0 < q \<and> q \<le> fl_round fl (2 ^ 63 / of_int unit) then Inr (fl_int fl (fl_round fl (q * of_int unit))) else Inl name
                     | None \<Rightarrow>
                         (case ParseDuration value of
                            None \<Rightarrow> Inl name
                          | Some d \<Rightarrow> if d \<le> 0 then Inl name else Inr d))))"

definition durationOrZero :: "floats \<Rightarrow> env \<Rightarrow> string \<Rightarrow> int \<Rightarrow> int \<Rightarrow> string + int" where
  "durationOrZero fl env name fallback unit =
     (case map_of env name of
        Some raw \<Rightarrow> if trim_space raw = ''0'' \<or> trim_space raw = ''0s'' then Inr 0 else duration fl env name fallback unit
      | None \<Rightarrow> duration fl env name fallback unit)"

definition megabyte :: int where
  "megabyte = 1048576"

definition bodyBytes :: "env \<Rightarrow> string + int" where
  "bodyBytes env =
     (case map_of env ''MAX_BODY_BYTES'' of
        Some raw \<Rightarrow>
          (case ParseInt (trim_space raw) of None \<Rightarrow> Inl ''MAX_BODY_BYTES'' | Some n \<Rightarrow> if n \<le> 0 then Inl ''MAX_BODY_BYTES'' else Inr n)
      | None \<Rightarrow>
          bind_result (positiveInt env ''MAX_BODY_MB'' 8) (\<lambda>megabytes.
          if megabytes > max_i64 div megabyte then Inl ''MAX_BODY_MB'' else Inr (megabytes * megabyte)))"

definition validateOrigin :: "netlib \<Rightarrow> string \<Rightarrow> bool" where
  "validateOrigin net origin =
     (case url_parse net origin of
        None \<Rightarrow> False
      | Some u \<Rightarrow> (u_scheme u = ''http'' \<or> u_scheme u = ''https'') \<and> u_host u \<noteq> [] \<and>
          \<not> (u_path u \<noteq> [] \<or> u_rawquery u \<noteq> [] \<or> u_fragment u \<noteq> []))"

fun join_with :: "char \<Rightarrow> string list \<Rightarrow> string" where
  "join_with d [] = []"
| "join_with d [s] = s"
| "join_with d (s # t # ts) = s @ d # join_with d (t # ts)"

text \<open>The loop over the items: \<open>None\<close> as a value stands for the early return of \<open>*\<close>.\<close>

fun clean_origins :: "netlib \<Rightarrow> string \<Rightarrow> string list \<Rightarrow> string list \<Rightarrow> string + string list option" where
  "clean_origins net name cleaned [] = Inr (Some cleaned)"
| "clean_origins net name cleaned (item # items) =
     (let origin = trim_space item in
      if origin = [] then clean_origins net name cleaned items
      else if origin = ''*'' then Inr None
      else if \<not> validateOrigin net origin then Inl name
      else clean_origins net name (cleaned @ [origin]) items)"

definition corsOrigins :: "netlib \<Rightarrow> env \<Rightarrow> string \<Rightarrow> string + string" where
  "corsOrigins net env name =
     (let value = trim_space (case map_of env name of None \<Rightarrow> [] | Some raw \<Rightarrow> raw) in
      if map_of env name = None \<or> value = [] then Inr ''*''
      else if value = ''*'' then Inr ''*''
      else if to_lower value = ''off'' then Inr ''off''
      else bind_result (clean_origins net name [] (split_on (CHR '','') value)) (\<lambda>r.
           case r of
             None \<Rightarrow> Inr ''*''
           | Some cleaned \<Rightarrow> if cleaned = [] then Inl name else Inr (join_with (CHR '','') cleaned)))"

section \<open>Log levels\<close>

datatype Level = LevelError | LevelWarn | LevelInfo | LevelDebug

definition ParseLevel :: "string \<Rightarrow> Level option" where
  "ParseLevel name =
     (let l = to_upper (trim_space name) in
      if l = ''DEBUG'' \<or> l = ''TRACE'' then Some LevelDebug
      else if l = ''INFO'' \<or> l = [] then Some LevelInfo
      else if l = ''WARN'' \<or> l = ''WARNING'' then Some LevelWarn
      else if l = ''ERROR'' \<or> l = ''FATAL'' then Some LevelError
      else None)"

section \<open>The configuration\<close>

record Settings =
  cf_Host :: string
  cf_Port :: int
  cf_DBPath :: string
  cf_PluginDir :: string
  cf_AdminAPIKey :: string
  cf_EncryptionKey :: string
  cf_ModelAutoSync :: bool
  cf_ModelSyncInterval :: int
  cf_GroupMonitorInterval :: int
  cf_MemoryLimitMB :: int
  cf_MaxBodyBytes :: int
  cf_MaxOutputTokens :: int
  cf_MaxStreamDuration :: int
  cf_GlobalConcurrencyLimit :: int
  cf_RPMLimit :: int
  cf_ConnectTimeout :: int
  cf_HeaderTimeout :: int
  cf_ReadTimeout :: int
  cf_WriteTimeout :: int
  cf_PoolTimeout :: int
  cf_UpstreamIdleTimeout :: int
  cf_UpstreamUserAgent :: string
  cf_UpstreamSessionHeader :: string
  cf_SSEHeartbeatInterval :: int
  cf_RetentionDays :: int
  cf_LogLevel :: string
  cf_CORSAllowedOrigins :: string

definition EncryptionKeyBytes :: "string \<Rightarrow> string + string" where
  "EncryptionKeyBytes text =
     (case b64_decode text of
        None \<Rightarrow> Inl ''RELAY_ENCRYPTION_KEY''
      | Some key \<Rightarrow> if length key \<noteq> 32 then Inl ''RELAY_ENCRYPTION_KEY'' else Inr key)"

definition default_agent :: string where
  "default_agent = ''civic-ai-relay/1.0''"

definition user_agent :: "env \<Rightarrow> string" where
  "user_agent env =
     (case map_of env ''UPSTREAM_USER_AGENT'' of
        Some raw \<Rightarrow> if trim_space raw \<noteq> [] then trim_space raw else default_agent
      | None \<Rightarrow> default_agent)"

definition Parse :: "floats \<Rightarrow> netlib \<Rightarrow> env \<Rightarrow> string + Settings" where
  "Parse fl net env =
     bind_result (required env ''ADMIN_API_KEY'') (\<lambda>admin.
     bind_result (required env ''RELAY_ENCRYPTION_KEY'') (\<lambda>encryption.
     bind_result (EncryptionKeyBytes encryption) (\<lambda>_.
     bind_result (textDefault env ''HOST'' ''0.0.0.0'') (\<lambda>host.
     bind_result (textDefault env ''DB_PATH'' ''data/relay.db'') (\<lambda>dbpath.
     bind_result (textDefault env ''PLUGIN_DIR'' ''data/plugins'') (\<lambda>plugins.
     bind_result (textDefault env ''LOG_LEVEL'' ''INFO'') (\<lambda>level.
     bind_result (reject_when (ParseLevel level = None) ''LOG_LEVEL'') (\<lambda>_.
     bind_result (positiveInt env ''PORT'' 8000) (\<lambda>port.
     bind_result (reject_when (port > 65535) ''PORT'') (\<lambda>_.
     bind_result (boolean env ''MODEL_AUTO_SYNC'' False) (\<lambda>autosync.
     bind_result (duration fl env ''MODEL_SYNC_INTERVAL'' (30 * minute_ns) minute_ns) (\<lambda>syncInterval.
     bind_result (intervalOrZero fl env ''GROUP_MONITOR_INTERVAL'' (30 * minute_ns)) (\<lambda>monitor.
     bind_result (positiveInt env ''MEMORY_LIMIT_MB'' 200) (\<lambda>memory.
     bind_result (bodyBytes env) (\<lambda>body.
     bind_result (positiveInt env ''MAX_OUTPUT_TOKENS'' 4096) (\<lambda>output.
     bind_result (durationOrZero fl env ''MAX_STREAM_DURATION'' (1800 * sec_ns) sec_ns) (\<lambda>stream.
     bind_result (positiveInt env ''GLOBAL_CONCURRENCY_LIMIT'' 8) (\<lambda>concurrency.
     bind_result (positiveInt env ''RPM_LIMIT'' 30) (\<lambda>rpm.
     bind_result (duration fl env ''UPSTREAM_CONNECT_TIMEOUT'' (10 * sec_ns) sec_ns) (\<lambda>connect.
     bind_result (duration fl env ''UPSTREAM_HEADER_TIMEOUT'' 0 sec_ns) (\<lambda>header.
     bind_result (duration fl env ''UPSTREAM_READ_TIMEOUT'' (300 * sec_ns) sec_ns) (\<lambda>read.
     bind_result (duration fl env ''UPSTREAM_WRITE_TIMEOUT'' (30 * sec_ns) sec_ns) (\<lambda>write.
     bind_result (duration fl env ''UPSTREAM_POOL_TIMEOUT'' (10 * sec_ns) sec_ns) (\<lambda>pool.
     bind_result (durationOrZero fl env ''UPSTREAM_IDLE_TIMEOUT'' 0 sec_ns) (\<lambda>idle.
     bind_result (durationOrZero fl env ''SSE_HEARTBEAT_INTERVAL'' (15 * sec_ns) sec_ns) (\<lambda>heartbeat.
     bind_result (positiveInt env ''RETENTION_DAYS'' 7) (\<lambda>retention.
     bind_result (corsOrigins net env ''CORS_ALLOWED_ORIGINS'') (\<lambda>cors.
     Inr \<lparr>cf_Host = host, cf_Port = port, cf_DBPath = dbpath, cf_PluginDir = plugins, cf_AdminAPIKey = admin,
        cf_EncryptionKey = encryption, cf_ModelAutoSync = autosync, cf_ModelSyncInterval = syncInterval,
        cf_GroupMonitorInterval = monitor, cf_MemoryLimitMB = memory, cf_MaxBodyBytes = body, cf_MaxOutputTokens = output,
        cf_MaxStreamDuration = stream, cf_GlobalConcurrencyLimit = concurrency, cf_RPMLimit = rpm, cf_ConnectTimeout = connect,
        cf_HeaderTimeout = header, cf_ReadTimeout = read, cf_WriteTimeout = write, cf_PoolTimeout = pool,
        cf_UpstreamIdleTimeout = idle, cf_UpstreamUserAgent = user_agent env,
        cf_UpstreamSessionHeader = textOptional env ''UPSTREAM_SESSION_HEADER'', cf_SSEHeartbeatInterval = heartbeat,
        cf_RetentionDays = retention, cf_LogLevel = level, cf_CORSAllowedOrigins = cors\<rparr>))))))))))))))))))))))))))))"

section \<open>The canonical mapping\<close>

definition FormatBool :: "bool \<Rightarrow> string" where
  "FormatBool b = (if b then ''true'' else ''false'')"

definition EnvMap :: "Settings \<Rightarrow> env" where
  "EnvMap s =
     [(''ADMIN_API_KEY'', cf_AdminAPIKey s), (''DB_PATH'', cf_DBPath s),
      (''PLUGIN_DIR'', if trim_space (cf_PluginDir s) = [] then ''data/plugins'' else cf_PluginDir s),
      (''GLOBAL_CONCURRENCY_LIMIT'', FormatInt (cf_GlobalConcurrencyLimit s)), (''HOST'', cf_Host s), (''LOG_LEVEL'', cf_LogLevel s),
      (''MAX_OUTPUT_TOKENS'', FormatInt (cf_MaxOutputTokens s)), (''MAX_STREAM_DURATION'', Duration_String (cf_MaxStreamDuration s)),
      (''MEMORY_LIMIT_MB'', FormatInt (cf_MemoryLimitMB s)), (''MODEL_AUTO_SYNC'', FormatBool (cf_ModelAutoSync s)),
      (''MODEL_SYNC_INTERVAL'', Duration_String (cf_ModelSyncInterval s)),
      (''GROUP_MONITOR_INTERVAL'', Duration_String (cf_GroupMonitorInterval s)), (''PORT'', FormatInt (cf_Port s)),
      (''RELAY_ENCRYPTION_KEY'', cf_EncryptionKey s), (''RETENTION_DAYS'', FormatInt (cf_RetentionDays s)),
      (''RPM_LIMIT'', FormatInt (cf_RPMLimit s)), (''UPSTREAM_CONNECT_TIMEOUT'', Duration_String (cf_ConnectTimeout s)),
      (''UPSTREAM_POOL_TIMEOUT'', Duration_String (cf_PoolTimeout s)), (''UPSTREAM_READ_TIMEOUT'', Duration_String (cf_ReadTimeout s)),
      (''UPSTREAM_USER_AGENT'', cf_UpstreamUserAgent s), (''UPSTREAM_SESSION_HEADER'', cf_UpstreamSessionHeader s),
      (''UPSTREAM_WRITE_TIMEOUT'', Duration_String (cf_WriteTimeout s)), (''UPSTREAM_IDLE_TIMEOUT'', Duration_String (cf_UpstreamIdleTimeout s)),
      (''SSE_HEARTBEAT_INTERVAL'', Duration_String (cf_SSEHeartbeatInterval s)), (''CORS_ALLOWED_ORIGINS'', cf_CORSAllowedOrigins s)] @
     (if cf_HeaderTimeout s > 0 then [(''UPSTREAM_HEADER_TIMEOUT'', Duration_String (cf_HeaderTimeout s))] else []) @
     [if cf_MaxBodyBytes s smod megabyte = 0 then (''MAX_BODY_MB'', FormatInt (cf_MaxBodyBytes s sdiv megabyte))
      else (''MAX_BODY_BYTES'', FormatInt (cf_MaxBodyBytes s))]"

datatype shown = Shown string | IsConfigured bool

definition secret_names :: "string list" where
  "secret_names = [''ADMIN_API_KEY'', ''RELAY_ENCRYPTION_KEY'']"

definition Redacted :: "Settings \<Rightarrow> (string \<times> shown) list" where
  "Redacted s = map (\<lambda>(k, v). (k, if k \<in> set secret_names then IsConfigured (trim_space v \<noteq> []) else Shown v)) (EnvMap s)"

definition changed :: "bool \<Rightarrow> string \<Rightarrow> string list" where
  "changed b name = (if b then [name] else [])"

definition RestartOnlyChanges :: "Settings \<Rightarrow> Settings \<Rightarrow> string list" where
  "RestartOnlyChanges s next_s =
     changed (cf_Host s \<noteq> cf_Host next_s) ''HOST'' @
     changed (cf_Port s \<noteq> cf_Port next_s) ''PORT'' @
     changed (cf_DBPath s \<noteq> cf_DBPath next_s) ''DB_PATH'' @
     changed (cf_ConnectTimeout s \<noteq> cf_ConnectTimeout next_s) ''UPSTREAM_CONNECT_TIMEOUT'' @
     changed (cf_ReadTimeout s \<noteq> cf_ReadTimeout next_s) ''UPSTREAM_READ_TIMEOUT'' @
     changed (cf_HeaderTimeout s \<noteq> cf_HeaderTimeout next_s) ''UPSTREAM_HEADER_TIMEOUT'' @
     changed (cf_WriteTimeout s \<noteq> cf_WriteTimeout next_s) ''UPSTREAM_WRITE_TIMEOUT'' @
     changed (cf_PoolTimeout s \<noteq> cf_PoolTimeout next_s) ''UPSTREAM_POOL_TIMEOUT'' @
     changed (cf_UpstreamIdleTimeout s \<noteq> cf_UpstreamIdleTimeout next_s) ''UPSTREAM_IDLE_TIMEOUT'' @
     changed (cf_UpstreamUserAgent s \<noteq> cf_UpstreamUserAgent next_s) ''UPSTREAM_USER_AGENT'' @
     changed (cf_UpstreamSessionHeader s \<noteq> cf_UpstreamSessionHeader next_s) ''UPSTREAM_SESSION_HEADER''"

section \<open>What validation guarantees\<close>

text \<open>The invariant of a validated configuration.\<close>

definition text_ok :: "string \<Rightarrow> bool" where
  "text_ok t \<longleftrightarrow> t \<noteq> [] \<and> trim_space t = t"

definition count_ok :: "int \<Rightarrow> bool" where
  "count_ok n \<longleftrightarrow> 0 < n \<and> n \<le> max_i64"

definition optional_ok :: "int \<Rightarrow> bool" where
  "optional_ok n \<longleftrightarrow> 0 \<le> n \<and> n \<le> max_i64"

definition settings_ok :: "netlib \<Rightarrow> Settings \<Rightarrow> bool" where
  "settings_ok net s \<longleftrightarrow>
     text_ok (cf_AdminAPIKey s) \<and> text_ok (cf_EncryptionKey s) \<and> (\<exists>key. b64_decode (cf_EncryptionKey s) = Some key \<and> length key = 32) \<and>
     text_ok (cf_Host s) \<and> text_ok (cf_DBPath s) \<and> text_ok (cf_PluginDir s) \<and> text_ok (cf_LogLevel s) \<and> text_ok (cf_UpstreamUserAgent s) \<and>
     trim_space (cf_UpstreamSessionHeader s) = cf_UpstreamSessionHeader s \<and> ParseLevel (cf_LogLevel s) \<noteq> None \<and>
     0 < cf_Port s \<and> cf_Port s \<le> 65535 \<and>
     list_all count_ok [cf_MemoryLimitMB s, cf_MaxBodyBytes s, cf_MaxOutputTokens s, cf_GlobalConcurrencyLimit s, cf_RPMLimit s,
       cf_RetentionDays s, cf_ModelSyncInterval s, cf_ConnectTimeout s, cf_ReadTimeout s, cf_WriteTimeout s, cf_PoolTimeout s] \<and>
     list_all optional_ok [cf_GroupMonitorInterval s, cf_MaxStreamDuration s, cf_HeaderTimeout s, cf_UpstreamIdleTimeout s,
       cf_SSEHeartbeatInterval s] \<and>
     corsOrigins net [(''CORS_ALLOWED_ORIGINS'', cf_CORSAllowedOrigins s)] ''CORS_ALLOWED_ORIGINS'' = Inr (cf_CORSAllowedOrigins s)"

text \<open>
  What is assumed of the floating-point library: a conversion to \<open>int64\<close> gives an \<open>int64\<close>, and no text
  that ends with the letter \<open>s\<close> or \<open>m\<close> is a number. \<open>whole_numbers\<close> says that no time setting of a
  mapping is written as a number with a fraction or an exponent.
\<close>

definition floats_ok :: "floats \<Rightarrow> bool" where
  "floats_ok fl \<longleftrightarrow> (\<forall>q. in_i64 (fl_int fl q)) \<and> (\<forall>t. fl_parse fl (t @ ''s'') = None \<and> fl_parse fl (t @ ''m'') = None)"

definition time_settings :: "string list" where
  "time_settings = [''MODEL_SYNC_INTERVAL'', ''MAX_STREAM_DURATION'', ''UPSTREAM_CONNECT_TIMEOUT'', ''UPSTREAM_HEADER_TIMEOUT'',
     ''UPSTREAM_READ_TIMEOUT'', ''UPSTREAM_WRITE_TIMEOUT'', ''UPSTREAM_POOL_TIMEOUT'', ''UPSTREAM_IDLE_TIMEOUT'', ''SSE_HEARTBEAT_INTERVAL'']"

definition whole_number :: "floats \<Rightarrow> env \<Rightarrow> string \<Rightarrow> bool" where
  "whole_number fl env name \<longleftrightarrow>
     (\<forall>v. map_of env name = Some v \<longrightarrow> fl_parse fl (trim_space v) \<noteq> None \<longrightarrow> ParseInt (trim_space v) \<noteq> None)"

definition whole_numbers :: "floats \<Rightarrow> env \<Rightarrow> bool" where
  "whole_numbers fl env \<longleftrightarrow> list_all (whole_number fl env) time_settings"

text \<open>A URL library that takes the scheme of an address from the text before its colon, in lower case.\<close>

definition schemes_ok :: "netlib \<Rightarrow> bool" where
  "schemes_ok net \<longleftrightarrow> (\<forall>t u. url_parse net t = Some u \<longrightarrow> u_scheme u \<noteq> [] \<longrightarrow> has_prefix (to_lower t) (u_scheme u @ '':''))"

lemma text_okI: "trim_space v \<noteq> [] \<Longrightarrow> text_ok (trim_space v)"
  by (simp add: text_ok_def)

lemma textDefault_ok: "textDefault env name fallback = Inr t \<Longrightarrow> text_ok fallback \<Longrightarrow> text_ok t"
  by (auto simp: textDefault_def Let_def text_okI split: option.splits if_splits)

lemma required_ok: "required env name = Inr t \<Longrightarrow> text_ok t"
  by (auto simp: required_def Let_def text_okI split: option.splits if_splits)

lemma ParseInt_range: "ParseInt t = Some n \<Longrightarrow> in_i64 n"
  by (auto simp: ParseInt_def Let_def split: if_splits prod.splits)

lemma positiveInt_ok: "positiveInt env name fallback = Inr n \<Longrightarrow> count_ok fallback \<Longrightarrow> count_ok n"
  by (auto simp: positiveInt_def count_ok_def in_i64_def dest!: ParseInt_range split: option.splits if_splits)

lemma duration_sum_nonneg: "duration_sum d s = Some e \<Longrightarrow> 0 \<le> d \<Longrightarrow> 0 \<le> e"
proof (induction d s rule: duration_sum.induct)
  case (1 d s)
  show ?case
  proof (cases "s = []")
    case True
    then show ?thesis using 1 by (simp add: duration_sum.simps)
  next
    case False
    then obtain w rest where c: "duration_component s = Some (w, rest)" "duration_sum ((d + w) mod 2 ^ 64) rest = Some e"
        "\<not> (d + w) mod 2 ^ 64 > 2 ^ 63"
      using 1(2) by (subst (asm) duration_sum.simps) (auto simp: Let_def split: option.splits if_splits)
    then show ?thesis using 1(1)[OF False c(1) _ refl] by simp
  qed
qed

lemma ParseDuration_range: "ParseDuration t = Some d \<Longrightarrow> d \<le> max_i64"
  using duration_sum_nonneg[of 0] by (fastforce simp: ParseDuration_def Let_def max_i64_def split: if_splits option.splits)

lemma no_fraction:
  "whole_number fl env k \<Longrightarrow> map_of env k = Some v \<Longrightarrow> ParseInt (trim_space v) = None \<Longrightarrow> fl_parse fl (trim_space v) = None"
  unfolding whole_number_def by blast

lemma duration_ok:
  assumes r: "duration fl env name fallback u = Inr d" and w: "whole_number fl env name" "0 < u"
  shows "map_of env name = None \<and> d = fallback \<or> count_ok d"
proof (cases "map_of env name")
  case None
  then show ?thesis using r by (simp add: duration_def)
next
  case (Some raw)
  let ?v = "trim_space raw"
  show ?thesis
  proof (cases "ParseInt ?v")
    case (Some n)
    then have "0 < n" "n \<le> max_i64 div u" "d = n * u" using r \<open>map_of env name = Some raw\<close>
      by (auto simp: duration_def Let_def split: if_splits)
    then show ?thesis using w(2) by (simp add: count_ok_def le_div_iff_mult)
  next
    case None
    with no_fraction[OF w(1) Some] have "fl_parse fl ?v = None" by simp
    then show ?thesis using r Some None ParseDuration_range[of ?v]
      by (auto simp: duration_def Let_def count_ok_def split: if_splits option.splits)
  qed
qed

lemma count_optional: "count_ok n \<Longrightarrow> optional_ok n"
  by (simp add: count_ok_def optional_ok_def)

lemma duration_count: "duration fl env name fallback u = Inr d \<Longrightarrow> whole_number fl env name \<Longrightarrow> 0 < u \<Longrightarrow> count_ok fallback \<Longrightarrow> count_ok d"
  using duration_ok by metis

lemma duration_optional: "duration fl env name fallback u = Inr d \<Longrightarrow> whole_number fl env name \<Longrightarrow> 0 < u \<Longrightarrow> optional_ok fallback \<Longrightarrow> optional_ok d"
  using duration_ok count_optional by metis

lemma durationOrZero_cases:
  assumes "durationOrZero fl env name fallback u = Inr d"
  shows "d = 0 \<or> duration fl env name fallback u = Inr d"
proof (cases "map_of env name")
  case None
  then show ?thesis using assms unfolding durationOrZero_def by simp
next
  case (Some raw)
  show ?thesis
  proof (cases "trim_space raw = ''0'' \<or> trim_space raw = ''0s''")
    case True
    then have "durationOrZero fl env name fallback u = Inr 0" unfolding durationOrZero_def Some by (simp only: option.case if_True)
    with assms show ?thesis by simp
  next
    case False
    then have "durationOrZero fl env name fallback u = duration fl env name fallback u"
      unfolding durationOrZero_def Some by (simp only: option.case if_False)
    with assms show ?thesis by simp
  qed
qed

lemma durationOrZero_ok:
  assumes "durationOrZero fl env name fallback u = Inr d" "whole_number fl env name" "0 < u" "optional_ok fallback"
  shows "optional_ok d"
proof -
  consider "d = 0" | "duration fl env name fallback u = Inr d" using durationOrZero_cases[OF assms(1)] by blast
  then show ?thesis
  proof cases
    case 1
    then show ?thesis by (simp add: optional_ok_def max_i64_def)
  next
    case 2
    then show ?thesis using duration_optional[OF 2 assms(2-4)] by simp
  qed
qed

lemma intervalOrZero_ok:
  assumes "intervalOrZero fl env name fallback = Inr d" "floats_ok fl" "optional_ok fallback"
  shows "optional_ok d"
proof -
  have "fl_int fl q \<le> max_i64" for q using assms(2) by (simp add: floats_ok_def in_i64_def)
  moreover have "0 \<le> max_i64" by (simp add: max_i64_def)
  ultimately show ?thesis using assms(1,3) ParseDuration_range
    by (auto simp: intervalOrZero_def Let_def optional_ok_def bind_result_Inr split: option.splits if_splits)
qed

lemma bodyBytes_cases:
  "bodyBytes env = Inr n \<Longrightarrow>
     (\<exists>raw. map_of env ''MAX_BODY_BYTES'' = Some raw \<and> ParseInt (trim_space raw) = Some n \<and> 0 < n) \<or>
     (\<exists>mb. positiveInt env ''MAX_BODY_MB'' 8 = Inr mb \<and> mb \<le> max_i64 div megabyte \<and> n = mb * megabyte)"
  unfolding bodyBytes_def by (auto simp only: bind_result_Inr Inr_Inl_False sum.inject not_le not_less split: option.splits if_splits)

lemma bodyBytes_ok: "bodyBytes env = Inr n \<Longrightarrow> count_ok n"
proof (drule bodyBytes_cases, elim disjE exE conjE)
  fix raw assume "ParseInt (trim_space raw) = Some n" "0 < n"
  then show ?thesis using ParseInt_range by (auto simp: count_ok_def in_i64_def)
next
  fix mb assume mb: "positiveInt env ''MAX_BODY_MB'' 8 = Inr mb" "mb \<le> max_i64 div megabyte" "n = mb * megabyte"
  have "count_ok mb" by (rule positiveInt_ok[OF mb(1)]) (simp add: count_ok_def max_i64_def)
  then show ?thesis using mb(2,3) by (simp add: count_ok_def megabyte_def max_i64_def)
qed

section \<open>Origins\<close>

lemma split_join: "list_all (\<lambda>s. d \<notin> set s) ss \<Longrightarrow> ss \<noteq> [] \<Longrightarrow> split_on d (join_with d ss) = ss"
  by (induction d ss rule: join_with.induct) (simp_all add: split_on_none split_on_append)

lemma split_on_parts: "s \<in> set (split_on d t) \<Longrightarrow> d \<notin> set s"
proof (induction t arbitrary: s)
  case Nil
  then show ?case by simp
next
  case (Cons c t)
  then show ?case by (cases "split_on d t") (auto split: if_splits)
qed

lemma set_trim_space: "set (trim_space s) \<subseteq> set s"
  by (auto simp: trim_space_def dest!: set_dropWhileD)

definition origin_ok :: "netlib \<Rightarrow> string \<Rightarrow> bool" where
  "origin_ok net t \<longleftrightarrow> text_ok t \<and> t \<noteq> ''*'' \<and> validateOrigin net t"

lemma clean_origins_Inr:
  "clean_origins net name acc items = Inr (Some cs) \<Longrightarrow>
   \<exists>ts. cs = acc @ ts \<and> (\<forall>t \<in> set ts. origin_ok net t \<and> (\<exists>i \<in> set items. t = trim_space i))"
proof (induction items arbitrary: acc)
  case (Cons i items)
  let ?t = "trim_space i"
  show ?case
  proof (cases "?t = []")
    case True
    then show ?thesis using Cons.IH[of acc] Cons.prems by auto
  next
    case False
    then have t: "origin_ok net ?t" and r: "clean_origins net name (acc @ [?t]) items = Inr (Some cs)"
      using Cons.prems by (auto simp: Let_def origin_ok_def text_okI split: if_splits)
    from Cons.IH[OF r] obtain ts where "cs = (acc @ [?t]) @ ts" "\<forall>t \<in> set ts. origin_ok net t \<and> (\<exists>i \<in> set items. t = trim_space i)" by blast
    with t show ?thesis by (intro exI[of _ "?t # ts"]) auto
  qed
qed simp

lemma clean_origins_good: "\<forall>t \<in> set ts. origin_ok net t \<Longrightarrow> clean_origins net name acc ts = Inr (Some (acc @ ts))"
  by (induction ts arbitrary: acc) (simp_all add: origin_ok_def text_ok_def)

lemma origin_scheme:
  assumes "schemes_ok net" "validateOrigin net t"
  shows "take 4 (to_lower t) = ''http''"
proof -
  obtain u where u: "url_parse net t = Some u" "u_scheme u = ''http'' \<or> u_scheme u = ''https''"
    using assms(2) by (auto simp: validateOrigin_def split: option.splits)
  then have "u_scheme u \<noteq> []" by auto
  then have "has_prefix (to_lower t) (u_scheme u @ '':'')" using assms(1) u(1) unfolding schemes_ok_def by blast
  then have "take 4 (take (length (u_scheme u @ '':'')) (to_lower t)) = take 4 (u_scheme u @ '':'')" by (simp only: has_prefix_def)
  then show ?thesis using u(2) by (auto simp: min_def)
qed

lemma to_lower_append: "to_lower (s @ t) = to_lower s @ to_lower t"
  by (simp add: to_lower_def)

lemma take_prefix: "take n xs = ys \<Longrightarrow> length ys = n \<Longrightarrow> take n (xs @ zs) = ys"
  by (auto simp: min_def split: if_splits)

lemma join_head: "ss \<noteq> [] \<Longrightarrow> hd ss \<noteq> [] \<Longrightarrow> \<exists>r. join_with d ss = hd ss @ r"
  by (cases "(d, ss)" rule: join_with.cases) auto

lemma join_last: "ss \<noteq> [] \<Longrightarrow> last ss \<noteq> [] \<Longrightarrow> \<exists>r. join_with d ss = r @ last ss"
proof (induction d ss rule: join_with.induct)
  case (3 d s t ts)
  then obtain r where "join_with d (t # ts) = r @ last (t # ts)" by auto
  then show ?case by (auto intro: exI[of _ "s @ d # r"])
qed simp_all

text \<open>A cleaned list of origins is cleaned already.\<close>

lemma corsOrigins_join:
  assumes net: "schemes_ok net" and ss: "ss \<noteq> []" "\<forall>t \<in> set ss. origin_ok net t \<and> CHR '','' \<notin> set t"
  shows "corsOrigins net [(name, join_with (CHR '','') ss)] name = Inr (join_with (CHR '','') ss)"
proof -
  let ?c = "join_with (CHR '','') ss"
  have ok: "origin_ok net (hd ss)" "origin_ok net (last ss)" using ss by simp_all
  then obtain r r' where r: "?c = hd ss @ r" "?c = r' @ last ss"
    using join_head[OF ss(1)] join_last[OF ss(1)] by (metis origin_ok_def text_ok_def)
  have ends: "\<not> is_space (hd (hd ss))" "\<not> is_space (last (last ss))" "hd ss \<noteq> []" "last ss \<noteq> []"
    using ok trim_space_ends by (auto simp: origin_ok_def text_ok_def)
  have "hd ?c = hd (hd ss)" using r(1) ends(3) by simp
  moreover have "last ?c = last (last ss)" using r(2) ends(4) by simp
  ultimately have trim: "trim_space ?c = ?c" "?c \<noteq> []" using ends r(1) trim_space_fixed by auto
  have "take 4 (to_lower (hd ss)) = ''http''" using ok(1) net origin_scheme by (simp add: origin_ok_def)
  then have low: "take 4 (to_lower ?c) = ''http''" unfolding r(1) to_lower_append by (rule take_prefix) simp
  then have "to_lower ?c \<noteq> ''off''" by auto
  moreover have "?c \<noteq> ''*''" using low by (auto simp: to_lower_def)
  moreover have "split_on (CHR '','') ?c = ss" by (rule split_join) (use ss in \<open>auto simp: list_all_iff\<close>)
  moreover have "clean_origins net name [] ss = Inr (Some ss)" using clean_origins_good[of ss net name "[]"] ss by simp
  ultimately show ?thesis using trim ss(1) by (simp add: corsOrigins_def Let_def)
qed

lemma corsOrigins_cases:
  assumes "corsOrigins net env name = Inr c"
  shows "c = ''*'' \<or> c = ''off'' \<or>
     (\<exists>v ss. clean_origins net name [] (split_on (CHR '','') v) = Inr (Some ss) \<and> ss \<noteq> [] \<and> c = join_with (CHR '','') ss)"
proof -
  define v where "v = trim_space (case map_of env name of None \<Rightarrow> [] | Some raw \<Rightarrow> raw)"
  have body: "(if map_of env name = None \<or> v = [] then Inr ''*'' else if v = ''*'' then Inr ''*'' else if to_lower v = ''off'' then Inr ''off''
      else bind_result (clean_origins net name [] (split_on (CHR '','') v)) (\<lambda>r.
           case r of None \<Rightarrow> Inr ''*'' | Some cleaned \<Rightarrow> if cleaned = [] then Inl name else Inr (join_with (CHR '','') cleaned))) = Inr c"
    using assms unfolding corsOrigins_def Let_def v_def[symmetric] .
  show ?thesis
  proof (cases "clean_origins net name [] (split_on (CHR '','') v)")
    case (Inl x)
    show ?thesis using body unfolding Inl bind_result_simps by (simp only: split: if_splits) auto
  next
    case (Inr r)
    show ?thesis
    proof (cases r)
      case None
      show ?thesis using body unfolding Inr None bind_result_simps by (simp split: if_splits)
    next
      case (Some ss)
      have "c = ''*'' \<or> c = ''off'' \<or> ss \<noteq> [] \<and> c = join_with (CHR '','') ss"
        using body unfolding Inr Some bind_result_simps option.case by (simp split: if_splits)
      then show ?thesis using Inr Some by blast
    qed
  qed
qed

lemma corsOrigins_stable:
  assumes net: "schemes_ok net" and r: "corsOrigins net env name = Inr c"
  shows "corsOrigins net [(name, c)] name = Inr c"
proof -
  consider "c = ''*''" | "c = ''off''"
    | v ss where "clean_origins net name [] (split_on (CHR '','') v) = Inr (Some ss)" "ss \<noteq> []" "c = join_with (CHR '','') ss"
    using corsOrigins_cases[OF r] by blast
  then show ?thesis
  proof cases
    case 1
    have "trim_space ''*'' = ''*''" by code_simp
    then show ?thesis unfolding 1 by (simp add: corsOrigins_def)
  next
    case 2
    have "trim_space ''off'' = ''off''" "to_lower ''off'' = ''off''" by code_simp+
    then show ?thesis unfolding 2 by (simp add: corsOrigins_def)
  next
    case (3 v ss)
    have "\<forall>t \<in> set ss. origin_ok net t \<and> CHR '','' \<notin> set t"
      using clean_origins_Inr[OF 3(1)] set_trim_space split_on_parts by fastforce
    then show ?thesis using corsOrigins_join[OF net 3(2)] 3(3) by simp
  qed
qed

section \<open>Validation as a whole\<close>

text \<open>The fields of a configuration are the results of the readers, one by one.\<close>

definition reads_as :: "floats \<Rightarrow> netlib \<Rightarrow> env \<Rightarrow> Settings \<Rightarrow> bool" where
  "reads_as fl net env s \<longleftrightarrow>
     required env ''ADMIN_API_KEY'' = Inr (cf_AdminAPIKey s) \<and> required env ''RELAY_ENCRYPTION_KEY'' = Inr (cf_EncryptionKey s) \<and>
     (\<exists>key. EncryptionKeyBytes (cf_EncryptionKey s) = Inr key) \<and>
     textDefault env ''HOST'' ''0.0.0.0'' = Inr (cf_Host s) \<and> textDefault env ''DB_PATH'' ''data/relay.db'' = Inr (cf_DBPath s) \<and>
     textDefault env ''PLUGIN_DIR'' ''data/plugins'' = Inr (cf_PluginDir s) \<and> textDefault env ''LOG_LEVEL'' ''INFO'' = Inr (cf_LogLevel s) \<and>
     ParseLevel (cf_LogLevel s) \<noteq> None \<and> positiveInt env ''PORT'' 8000 = Inr (cf_Port s) \<and> cf_Port s \<le> 65535 \<and>
     boolean env ''MODEL_AUTO_SYNC'' False = Inr (cf_ModelAutoSync s) \<and>
     duration fl env ''MODEL_SYNC_INTERVAL'' (30 * minute_ns) minute_ns = Inr (cf_ModelSyncInterval s) \<and>
     intervalOrZero fl env ''GROUP_MONITOR_INTERVAL'' (30 * minute_ns) = Inr (cf_GroupMonitorInterval s) \<and>
     positiveInt env ''MEMORY_LIMIT_MB'' 200 = Inr (cf_MemoryLimitMB s) \<and> bodyBytes env = Inr (cf_MaxBodyBytes s) \<and>
     positiveInt env ''MAX_OUTPUT_TOKENS'' 4096 = Inr (cf_MaxOutputTokens s) \<and>
     durationOrZero fl env ''MAX_STREAM_DURATION'' (1800 * sec_ns) sec_ns = Inr (cf_MaxStreamDuration s) \<and>
     positiveInt env ''GLOBAL_CONCURRENCY_LIMIT'' 8 = Inr (cf_GlobalConcurrencyLimit s) \<and> positiveInt env ''RPM_LIMIT'' 30 = Inr (cf_RPMLimit s) \<and>
     duration fl env ''UPSTREAM_CONNECT_TIMEOUT'' (10 * sec_ns) sec_ns = Inr (cf_ConnectTimeout s) \<and>
     duration fl env ''UPSTREAM_HEADER_TIMEOUT'' 0 sec_ns = Inr (cf_HeaderTimeout s) \<and>
     duration fl env ''UPSTREAM_READ_TIMEOUT'' (300 * sec_ns) sec_ns = Inr (cf_ReadTimeout s) \<and>
     duration fl env ''UPSTREAM_WRITE_TIMEOUT'' (30 * sec_ns) sec_ns = Inr (cf_WriteTimeout s) \<and>
     duration fl env ''UPSTREAM_POOL_TIMEOUT'' (10 * sec_ns) sec_ns = Inr (cf_PoolTimeout s) \<and>
     durationOrZero fl env ''UPSTREAM_IDLE_TIMEOUT'' 0 sec_ns = Inr (cf_UpstreamIdleTimeout s) \<and>
     durationOrZero fl env ''SSE_HEARTBEAT_INTERVAL'' (15 * sec_ns) sec_ns = Inr (cf_SSEHeartbeatInterval s) \<and>
     positiveInt env ''RETENTION_DAYS'' 7 = Inr (cf_RetentionDays s) \<and>
     corsOrigins net env ''CORS_ALLOWED_ORIGINS'' = Inr (cf_CORSAllowedOrigins s) \<and>
     cf_UpstreamUserAgent s = user_agent env \<and> cf_UpstreamSessionHeader s = textOptional env ''UPSTREAM_SESSION_HEADER''"

lemma Parse_reads: "Parse fl net env = Inr s \<Longrightarrow> reads_as fl net env s"
  unfolding Parse_def bind_result_Inr reject_when_simps
  by (elim exE conjE, drule sum.inject(2)[THEN iffD1], hypsubst) (simp add: reads_as_def)

lemma reads_Parse: "reads_as fl net env s \<Longrightarrow> Parse fl net env = Inr s"
  unfolding reads_as_def by (elim exE conjE) (simp add: Parse_def reject_when_def not_less)

lemma whole_numberD:
  assumes "whole_numbers fl env"
  shows "whole_number fl env ''MODEL_SYNC_INTERVAL''" "whole_number fl env ''MAX_STREAM_DURATION''"
    "whole_number fl env ''UPSTREAM_CONNECT_TIMEOUT''" "whole_number fl env ''UPSTREAM_HEADER_TIMEOUT''"
    "whole_number fl env ''UPSTREAM_READ_TIMEOUT''" "whole_number fl env ''UPSTREAM_WRITE_TIMEOUT''"
    "whole_number fl env ''UPSTREAM_POOL_TIMEOUT''" "whole_number fl env ''UPSTREAM_IDLE_TIMEOUT''"
    "whole_number fl env ''SSE_HEARTBEAT_INTERVAL''"
  using assms unfolding whole_numbers_def time_settings_def by simp_all

lemma Parse_ok:
  assumes p: "Parse fl net env = Inr s" and fl: "floats_ok fl" "whole_numbers fl env" and net: "schemes_ok net"
  shows "settings_ok net s"
proof -
  note r = Parse_reads[OF p, unfolded reads_as_def] and wn = whole_numberD[OF fl(2)]
  have defaults: "text_ok ''0.0.0.0''" "text_ok ''data/relay.db''" "text_ok ''data/plugins''" "text_ok ''INFO''" "text_ok default_agent"
    by code_simp+
  have texts: "text_ok (cf_AdminAPIKey s)" "text_ok (cf_EncryptionKey s)" "text_ok (cf_Host s)" "text_ok (cf_DBPath s)"
      "text_ok (cf_PluginDir s)" "text_ok (cf_LogLevel s)" "text_ok (cf_UpstreamUserAgent s)"
      "trim_space (cf_UpstreamSessionHeader s) = cf_UpstreamSessionHeader s"
    using r defaults required_ok textDefault_ok
    by (blast+, (simp add: user_agent_def text_okI textOptional_def split: option.splits)+)
  have counts: "count_ok 8000" "count_ok 200" "count_ok 4096" "count_ok 8" "count_ok 30" "count_ok 7" "count_ok (30 * minute_ns)"
      "count_ok (10 * sec_ns)" "count_ok (300 * sec_ns)" "count_ok (30 * sec_ns)" "optional_ok 0" "optional_ok (30 * minute_ns)"
      "optional_ok (1800 * sec_ns)" "optional_ok (15 * sec_ns)" "0 < minute_ns" "0 < sec_ns"
    by (simp_all add: count_ok_def optional_ok_def max_i64_def minute_ns_def sec_ns_def)
  have port: "0 < cf_Port s" using r positiveInt_ok[OF _ counts(1)] by (auto simp: count_ok_def)
  have "count_ok (cf_MemoryLimitMB s)" using r positiveInt_ok[OF _ counts(2)] by blast
  moreover have "count_ok (cf_MaxBodyBytes s)" using r bodyBytes_ok by blast
  moreover have "count_ok (cf_MaxOutputTokens s)" using r positiveInt_ok[OF _ counts(3)] by blast
  moreover have "count_ok (cf_GlobalConcurrencyLimit s)" using r positiveInt_ok[OF _ counts(4)] by blast
  moreover have "count_ok (cf_RPMLimit s)" using r positiveInt_ok[OF _ counts(5)] by blast
  moreover have "count_ok (cf_RetentionDays s)" using r positiveInt_ok[OF _ counts(6)] by blast
  moreover have "count_ok (cf_ModelSyncInterval s)" using r duration_count[OF _ wn(1) counts(15,7)] by blast
  moreover have "count_ok (cf_ConnectTimeout s)" using r duration_count[OF _ wn(3) counts(16,8)] by blast
  moreover have "count_ok (cf_ReadTimeout s)" using r duration_count[OF _ wn(5) counts(16,9)] by blast
  moreover have "count_ok (cf_WriteTimeout s)" using r duration_count[OF _ wn(6) counts(16,10)] by blast
  moreover have "count_ok (cf_PoolTimeout s)" using r duration_count[OF _ wn(7) counts(16,8)] by blast
  ultimately have list: "list_all count_ok [cf_MemoryLimitMB s, cf_MaxBodyBytes s, cf_MaxOutputTokens s, cf_GlobalConcurrencyLimit s, cf_RPMLimit s,
       cf_RetentionDays s, cf_ModelSyncInterval s, cf_ConnectTimeout s, cf_ReadTimeout s, cf_WriteTimeout s, cf_PoolTimeout s]" by simp
  have "optional_ok (cf_GroupMonitorInterval s)" using r intervalOrZero_ok[OF _ fl(1) counts(12)] by blast
  moreover have "optional_ok (cf_MaxStreamDuration s)" using r durationOrZero_ok[OF _ wn(2) counts(16,13)] by blast
  moreover have "optional_ok (cf_HeaderTimeout s)" using r duration_optional[OF _ wn(4) counts(16,11)] by blast
  moreover have "optional_ok (cf_UpstreamIdleTimeout s)" using r durationOrZero_ok[OF _ wn(8) counts(16,11)] by blast
  moreover have "optional_ok (cf_SSEHeartbeatInterval s)" using r durationOrZero_ok[OF _ wn(9) counts(16,14)] by blast
  ultimately have opt: "list_all optional_ok [cf_GroupMonitorInterval s, cf_MaxStreamDuration s, cf_HeaderTimeout s, cf_UpstreamIdleTimeout s,
       cf_SSEHeartbeatInterval s]" by simp
  have key: "\<exists>key. b64_decode (cf_EncryptionKey s) = Some key \<and> length key = 32"
    using r by (auto simp: EncryptionKeyBytes_def split: option.splits if_splits)
  have cors: "corsOrigins net [(''CORS_ALLOWED_ORIGINS'', cf_CORSAllowedOrigins s)] ''CORS_ALLOWED_ORIGINS'' = Inr (cf_CORSAllowedOrigins s)"
    using corsOrigins_stable[OF net] r by blast
  show ?thesis unfolding settings_ok_def using texts port list opt key cors r by blast
qed

section \<open>The canonical mapping is read back\<close>

lemma fmt_frac_suffix: "\<exists>t. snd (fmt_frac i v pr acc) = t @ acc"
proof (induction i v pr acc rule: fmt_frac.induct)
  case (2 i v pr acc)
  then obtain t where "snd (fmt_frac (Suc i) v pr acc) = t @ (if pr \<or> v mod 10 \<noteq> 0 then char_of (48 + v mod 10) # acc else acc)"
    by (auto simp: Let_def)
  then show ?case by (auto intro: exI[of _ "t @ [char_of (48 + v mod 10)]"] split: if_splits)
qed auto

lemma Duration_text:
  assumes "0 \<le> d"
  shows "\<exists>t. Duration_String d = t @ ''s''" "is_digit (hd (Duration_String d))"
proof -
  define u where "u = nat d"
  have u: "nat \<bar>d\<bar> = u" "\<not> d < 0" using assms by (simp_all add: u_def)
  obtain i :: nat and un where iu: "(if u < 10 ^ 3 then (0, ''ns'') else if u < 10 ^ 6 then (3, micro_sign @ ''s'') else (6, ''ms'')) = (i, un)" by fastforce
  obtain v t where w: "fmt_frac i u False un = (v, t)" by fastforce
  obtain v9 t9 where w9: "fmt_frac 9 u False ''s'' = (v9, t9)" by fastforce
  have unit: "\<exists>p. un = p @ ''s''" using iu by (auto split: if_splits)
  have suffix: "\<exists>p. t = p @ ''s''" "\<exists>p. t9 = p @ ''s''"
    using fmt_frac_suffix[of i u False un] fmt_frac_suffix[of 9 u False "''s''"] w w9 unit by auto
  have shape: "Duration_String d = (if u = 0 then ''0s'' else if u < 10 ^ 9 then dec_text v @ t else
      (if v9 div 60 div 60 > 0 then dec_text (v9 div 60 div 60) @ ''h'' else []) @
      (if v9 div 60 > 0 then dec_text (v9 div 60 mod 60) @ ''m'' else []) @ dec_text (v9 mod 60) @ t9)"
    unfolding Duration_String_def Let_def u(1) iu w w9 prod.case if_not_P[OF u(2)]
    by (cases "v9 div 60 > 0"; cases "v9 div 60 div 60 > 0") (simp_all only: if_True if_False append_Nil append_assoc)
  show "\<exists>t. Duration_String d = t @ ''s''"
  proof -
    obtain p p9 where p: "t = p @ ''s''" "t9 = p9 @ ''s''" using suffix by blast
    consider "u = 0" | "u \<noteq> 0" "u < 10 ^ 9" | "u \<noteq> 0" "\<not> u < 10 ^ 9" by blast
    then show ?thesis
    proof cases
      case 1
      then show ?thesis unfolding shape by (intro exI[of _ "''0''"]) simp
    next
      case 2
      then show ?thesis unfolding shape p by (intro exI[of _ "dec_text v @ p"]) (simp only: if_False if_True append_assoc)
    next
      case 3
      then show ?thesis unfolding shape p if_not_P[OF 3(1)] if_not_P[OF 3(2)] by (metis append_assoc)
    qed
  qed
  show "is_digit (hd (Duration_String d))"
    unfolding shape using digit_head by (simp add: is_digit_def)
qed

lemma digits_trimmed: "s \<noteq> [] \<Longrightarrow> is_digit (hd s) \<Longrightarrow> \<not> is_space (last s) \<Longrightarrow> trim_space s = s"
  by (rule trim_space_fixed) (auto simp: is_digit_def is_space_def)

lemma Duration_trimmed: "0 \<le> d \<Longrightarrow> trim_space (Duration_String d) = Duration_String d \<and> Duration_String d \<noteq> [] \<and> Duration_String d \<noteq> ''0''"
  using Duration_text[of d] digits_trimmed[of "Duration_String d"] by (auto simp: is_space_def append_eq_Cons_conv)

lemma ParseInt_unit: "ParseInt (t @ ''s'') = None"
  by (cases t) (auto simp: ParseInt_def is_digit_def Let_def)

lemma Duration_no_number:
  assumes "0 \<le> d" "floats_ok fl"
  shows "ParseInt (Duration_String d) = None" "fl_parse fl (Duration_String d) = None"
  using Duration_text(1)[OF assms(1)] assms(2) ParseInt_unit by (auto simp: floats_ok_def)

lemma duration_back:
  assumes "map_of env name = Some (Duration_String d)" "count_ok d" "floats_ok fl"
  shows "duration fl env name fallback unit = Inr d"
  using assms Duration_trimmed[of d] Duration_no_number[of d fl] ParseDuration_String[of d]
  by (simp add: duration_def count_ok_def)

lemma durationOrZero_back:
  assumes "map_of env name = Some (Duration_String d)" "optional_ok d" "floats_ok fl"
  shows "durationOrZero fl env name fallback unit = Inr d"
proof (cases "d = 0")
  case True
  have "Duration_String 0 = ''0s''" by code_simp
  moreover have "trim_space ''0s'' = ''0s''" by code_simp
  ultimately show ?thesis using assms(1) True by (simp add: durationOrZero_def)
next
  case False
  have z: "ParseDuration ''0s'' = Some 0" by code_simp
  have d: "count_ok d" using False assms(2) by (simp add: count_ok_def optional_ok_def)
  then have rd: "ParseDuration (Duration_String d) = Some d" using ParseDuration_String by (simp add: count_ok_def)
  have "Duration_String d \<noteq> ''0s''"
  proof
    assume e: "Duration_String d = ''0s''"
    from rd show False unfolding e z using False by simp
  qed
  then have "durationOrZero fl env name fallback unit = duration fl env name fallback unit"
    using assms(1) Duration_trimmed[of d] d by (simp add: durationOrZero_def count_ok_def)
  then show ?thesis using duration_back[OF assms(1) d assms(3)] by simp
qed

lemma intervalOrZero_back:
  assumes "map_of env name = Some (Duration_String d)" "optional_ok d"
  shows "intervalOrZero fl env name fallback = Inr d"
  using assms Duration_trimmed[of d] ParseDuration_String[of d] by (simp add: intervalOrZero_def optional_ok_def)

lemma FormatInt_trimmed: "0 \<le> n \<Longrightarrow> trim_space (FormatInt n) = FormatInt n"
proof -
  assume "0 \<le> n"
  then have f: "FormatInt n = dec_text (nat n)" by (simp add: FormatInt_def)
  note d = dec_text_facts[of "nat n"]
  then have "\<forall>c \<in> set (dec_text (nat n)). is_digit c" by (simp add: list_all_iff)
  then have "is_digit (hd (dec_text (nat n)))" "is_digit (last (dec_text (nat n)))" using d by auto
  then show ?thesis unfolding f using d by (intro digits_trimmed) (auto simp: is_digit_def is_space_def)
qed

lemma positiveInt_back:
  assumes "map_of env name = Some (FormatInt n)" "count_ok n"
  shows "positiveInt env name fallback = Inr n"
  using assms FormatInt_trimmed[of n] ParseInt_FormatInt[of n] by (simp add: positiveInt_def count_ok_def)

lemma textDefault_back: "map_of env name = Some t \<Longrightarrow> text_ok t \<Longrightarrow> textDefault env name fallback = Inr t"
  by (simp add: textDefault_def text_ok_def)

lemma required_back: "map_of env name = Some t \<Longrightarrow> text_ok t \<Longrightarrow> required env name = Inr t"
  by (simp add: required_def text_ok_def)

lemma boolean_back: "map_of env name = Some (FormatBool b) \<Longrightarrow> boolean env name fallback = Inr b"
proof -
  have "to_lower (trim_space ''true'') = ''true''" "to_lower (trim_space ''false'') = ''false''" by code_simp+
  then show "map_of env name = Some (FormatBool b) \<Longrightarrow> ?thesis" by (cases b) (simp_all add: boolean_def FormatBool_def)
qed

end
