(* ===== verification/Config_Store.thy ===== *)
theory Config_Store
  imports Settings Keys
begin

text \<open>
  The managed configuration file (config/store.go): writing merges the canonical mapping of a
  configuration into the file, a candidate overlays a patch on what the file holds, and \<open>Ensure\<close>
  creates the file and the key beside it at the first start. A write replaces a file as a whole or not
  at all; whether it succeeds is an input. The path is not empty.
\<close>

section \<open>Files\<close>

text \<open>\<open>Unreadable\<close> exists but cannot be read; for \<open>Unreachable\<close> even the existence cannot be told.\<close>

datatype file_state = Absent | Content string | Unreadable | Unreachable

record files =
  fs_env :: file_state
  fs_bootstrap :: file_state

datatype config_error = ReadFailed | BadFile env_error | BadKey string | BadSetting string | WriteFailed | NoEntropy | BootstrapFailed

definition as_config :: "('e \<Rightarrow> config_error) \<Rightarrow> 'e + 'a \<Rightarrow> config_error + 'a" where
  "as_config f r = (case r of Inl e \<Rightarrow> Inl (f e) | Inr v \<Rightarrow> Inr v)"

definition ReadMapping :: "file_state \<Rightarrow> config_error + env" where
  "ReadMapping f = (case f of Content text \<Rightarrow> as_config BadFile (ParseEnvText text) | _ \<Rightarrow> Inl ReadFailed)"

text \<open>The mapping of the file, empty when there is none.\<close>

definition existing :: "file_state \<Rightarrow> config_error + env" where
  "existing f = (case f of Absent \<Rightarrow> Inr [] | Unreachable \<Rightarrow> Inl ReadFailed | _ \<Rightarrow> ReadMapping f)"

definition overlay :: "env \<Rightarrow> env \<Rightarrow> env" where
  "overlay patch base = fold (\<lambda>(k, v). AList.update k v) patch base"

definition WriteMapping :: "bool \<Rightarrow> env \<Rightarrow> files \<Rightarrow> files \<times> (config_error + unit)" where
  "WriteMapping written env fs =
     (case SerializeEnvMapping env of
        Inl k \<Rightarrow> (fs, Inl (BadKey k))
      | Inr text \<Rightarrow> if written then (fs\<lparr>fs_env := Content text\<rparr>, Inr ()) else (fs, Inl WriteFailed))"

definition Write :: "bool \<Rightarrow> Settings \<Rightarrow> files \<Rightarrow> files \<times> (config_error + unit)" where
  "Write written s fs =
     (case existing (fs_env fs) of
        Inl e \<Rightarrow> (fs, Inl e)
      | Inr old \<Rightarrow> WriteMapping written (overlay (EnvMap s) old) fs)"

definition keeps_secret :: "string \<times> string \<Rightarrow> bool" where
  "keeps_secret p \<longleftrightarrow> (fst p = ''ADMIN_API_KEY'' \<or> fst p = ''RELAY_ENCRYPTION_KEY'') \<and> trim_space (snd p) = []"

definition BuildCandidate :: "floats \<Rightarrow> netlib \<Rightarrow> env \<Rightarrow> Settings option \<Rightarrow> file_state \<Rightarrow> config_error + Settings" where
  "BuildCandidate fl net patch baseline f =
     bind_result (existing f) (\<lambda>current.
     as_config BadSetting (Parse fl net (overlay (filter (\<lambda>p. \<not> keeps_secret p) patch)
       (overlay current (case baseline of None \<Rightarrow> [] | Some s \<Rightarrow> EnvMap s)))))"

text \<open>What a start reads from the file.\<close>

definition LoadFile :: "floats \<Rightarrow> netlib \<Rightarrow> file_state \<Rightarrow> config_error + Settings" where
  "LoadFile fl net f = bind_result (ReadMapping f) (\<lambda>env. as_config BadSetting (Parse fl net env))"

section \<open>The first start\<close>

definition initial_env :: "string \<Rightarrow> string \<Rightarrow> env" where
  "initial_env admin encryption =
     [(''ADMIN_API_KEY'', ''adm_'' @ b64_raw_url admin), (''RELAY_ENCRYPTION_KEY'', b64_encode encryption),
      (''MODEL_AUTO_SYNC'', ''false''), (''MODEL_SYNC_INTERVAL'', ''30m''), (''GROUP_MONITOR_INTERVAL'', ''30m''),
      (''MEMORY_LIMIT_MB'', ''200''), (''MAX_BODY_BYTES'', FormatInt (8 * 1024 * 1024)), (''MAX_OUTPUT_TOKENS'', ''4096''),
      (''MAX_STREAM_DURATION'', ''1800s''), (''GLOBAL_CONCURRENCY_LIMIT'', ''8''), (''RPM_LIMIT'', ''30''), (''RETENTION_DAYS'', ''7''),
      (''DB_PATH'', ''data/relay.db''), (''HOST'', ''0.0.0.0''), (''PORT'', ''8000''), (''LOG_LEVEL'', ''INFO''),
      (''UPSTREAM_CONNECT_TIMEOUT'', ''10s''), (''UPSTREAM_HEADER_TIMEOUT'', ''1800s''), (''UPSTREAM_READ_TIMEOUT'', ''300s''),
      (''UPSTREAM_USER_AGENT'', ''civic-ai-relay/1.0''), (''UPSTREAM_SESSION_HEADER'', []), (''UPSTREAM_WRITE_TIMEOUT'', ''30s''),
      (''UPSTREAM_POOL_TIMEOUT'', ''10s''), (''UPSTREAM_IDLE_TIMEOUT'', ''0''), (''SSE_HEARTBEAT_INTERVAL'', ''15s''),
      (''CORS_ALLOWED_ORIGINS'', ''*'')]"

text \<open>The two arguments are what the random source answers, \<open>None\<close> for a failure.\<close>

definition GenerateInitialSettings :: "floats \<Rightarrow> netlib \<Rightarrow> string option \<Rightarrow> string option \<Rightarrow> config_error + Settings" where
  "GenerateInitialSettings fl net adminBytes encryptionBytes =
     bind_result (require_some adminBytes NoEntropy) (\<lambda>admin.
     bind_result (require_some encryptionBytes NoEntropy) (\<lambda>encryption.
     as_config BadSetting (Parse fl net (initial_env admin encryption))))"

definition writeBootstrap :: "bool \<Rightarrow> string \<Rightarrow> files \<Rightarrow> files \<times> (config_error + unit)" where
  "writeBootstrap written credential fs =
     (if written then (fs\<lparr>fs_bootstrap := Content (credential @ [newline])\<rparr>, Inr ()) else (fs, Inl BootstrapFailed))"

text \<open>The configuration exists: read it, and write the key beside it when that file is missing.\<close>

definition ensure_existing :: "floats \<Rightarrow> netlib \<Rightarrow> bool \<Rightarrow> files \<Rightarrow> files \<times> (config_error + Settings \<times> string \<times> bool)" where
  "ensure_existing fl net key_written fs =
     (case LoadFile fl net (fs_env fs) of
        Inl e \<Rightarrow> (fs, Inl e)
      | Inr s \<Rightarrow>
          (case fs_bootstrap fs of
             Absent \<Rightarrow>
               (case writeBootstrap key_written (cf_AdminAPIKey s) fs of
                  (fs', Inl e) \<Rightarrow> (fs', Inl e)
                | (fs', Inr _) \<Rightarrow> (fs', Inr (s, cf_AdminAPIKey s, True)))
           | Unreachable \<Rightarrow> (fs, Inl BootstrapFailed)
           | _ \<Rightarrow> (fs, Inr (s, [], False))))"

definition ensure_fresh ::
  "floats \<Rightarrow> netlib \<Rightarrow> string option \<Rightarrow> string option \<Rightarrow> bool \<Rightarrow> bool \<Rightarrow> files \<Rightarrow> files \<times> (config_error + Settings \<times> string \<times> bool)" where
  "ensure_fresh fl net adminBytes encryptionBytes written key_written fs =
     (case GenerateInitialSettings fl net adminBytes encryptionBytes of
        Inl e \<Rightarrow> (fs, Inl e)
      | Inr s \<Rightarrow>
          (case Write written s fs of
             (fs1, Inl e) \<Rightarrow> (fs1, Inl e)
           | (fs1, Inr _) \<Rightarrow>
               (case writeBootstrap key_written (cf_AdminAPIKey s) fs1 of
                  (fs2, Inl e) \<Rightarrow> (fs2, Inl e)
                | (fs2, Inr _) \<Rightarrow> (fs2, Inr (s, cf_AdminAPIKey s, True)))))"

definition Ensure ::
  "floats \<Rightarrow> netlib \<Rightarrow> string option \<Rightarrow> string option \<Rightarrow> bool \<Rightarrow> bool \<Rightarrow> files \<Rightarrow> files \<times> (config_error + Settings \<times> string \<times> bool)" where
  "Ensure fl net adminBytes encryptionBytes written key_written fs =
     (case fs_env fs of
        Absent \<Rightarrow> ensure_fresh fl net adminBytes encryptionBytes written key_written fs
      | Unreachable \<Rightarrow> (fs, Inl ReadFailed)
      | _ \<Rightarrow> ensure_existing fl net key_written fs)"

section \<open>A written file is read back\<close>

lemma map_of_overlay: "distinct (map fst patch) \<Longrightarrow> map_of (overlay patch base) k = (case map_of patch k of Some v \<Rightarrow> Some v | None \<Rightarrow> map_of base k)"
proof (induction patch arbitrary: base)
  case (Cons p patch)
  obtain j v where p: "p = (j, v)" by force
  have "overlay (p # patch) base = overlay patch (AList.update j v base)" by (simp add: overlay_def p)
  moreover have "map_of patch j = None" using Cons.prems p by (simp add: map_of_eq_None_iff)
  moreover have "distinct (map fst patch)" using Cons.prems by simp
  ultimately show ?case using Cons.IH[of "AList.update j v base"] p by (simp add: update_conv' split: option.splits)
qed (simp add: overlay_def)

lemma keys_overlay: "fst ` set (overlay patch base) = fst ` set patch \<union> fst ` set base"
proof (induction patch arbitrary: base)
  case (Cons p patch)
  obtain j v where p: "p = (j, v)" by force
  have "fst ` set (AList.update j v base) = insert j (fst ` set base)"
    unfolding dom_map_of_conv_image_fst[symmetric] by (simp add: update_conv')
  then show ?case using Cons[of "AList.update j v base"] p by (auto simp: overlay_def)
qed (simp add: overlay_def)

lemma distinct_EnvMap: "distinct (map fst (EnvMap s))"
  by (simp add: EnvMap_def)

lemma EnvMap_names: "list_all (ValidEnvKey \<circ> fst) (EnvMap s)"
proof -
  have "list_all ValidEnvKey (map fst (EnvMap s))" by (simp add: EnvMap_def ValidEnvKey_def key_start_def key_char_def less_eq_char_def)
  then show ?thesis by (simp add: list_all_iff)
qed

definition saved_names :: "string list" where
  "saved_names =
     [''ADMIN_API_KEY'', ''RELAY_ENCRYPTION_KEY'', ''HOST'', ''DB_PATH'', ''PLUGIN_DIR'',
      ''LOG_LEVEL'', ''UPSTREAM_USER_AGENT'', ''UPSTREAM_SESSION_HEADER'', ''CORS_ALLOWED_ORIGINS'', ''PORT'',
      ''MEMORY_LIMIT_MB'', ''MAX_OUTPUT_TOKENS'', ''GLOBAL_CONCURRENCY_LIMIT'', ''RPM_LIMIT'', ''RETENTION_DAYS'',
      ''MODEL_SYNC_INTERVAL'', ''UPSTREAM_CONNECT_TIMEOUT'', ''UPSTREAM_READ_TIMEOUT'', ''UPSTREAM_WRITE_TIMEOUT'', ''UPSTREAM_POOL_TIMEOUT'',
      ''MAX_STREAM_DURATION'', ''UPSTREAM_IDLE_TIMEOUT'', ''SSE_HEARTBEAT_INTERVAL'', ''GROUP_MONITOR_INTERVAL'', ''MODEL_AUTO_SYNC'']"

text \<open>A mapping that agrees with the canonical one of a valid configuration on every setting but the body limit and the header timeout.\<close>

definition saves :: "Settings \<Rightarrow> env \<Rightarrow> bool" where
  "saves s env \<longleftrightarrow> (\<forall>k \<in> set saved_names. map_of env k = map_of (EnvMap s) k)"

lemma saves_texts:
  assumes "saves s env" "text_ok (cf_PluginDir s)"
  shows
    "map_of env ''ADMIN_API_KEY'' = Some (cf_AdminAPIKey s)" "map_of env ''RELAY_ENCRYPTION_KEY'' = Some (cf_EncryptionKey s)"
    "map_of env ''HOST'' = Some (cf_Host s)" "map_of env ''DB_PATH'' = Some (cf_DBPath s)" "map_of env ''PLUGIN_DIR'' = Some (cf_PluginDir s)"
    "map_of env ''LOG_LEVEL'' = Some (cf_LogLevel s)" "map_of env ''UPSTREAM_USER_AGENT'' = Some (cf_UpstreamUserAgent s)"
    "map_of env ''UPSTREAM_SESSION_HEADER'' = Some (cf_UpstreamSessionHeader s)" "map_of env ''CORS_ALLOWED_ORIGINS'' = Some (cf_CORSAllowedOrigins s)"
  using assms(2)
  by (subst assms(1)[unfolded saves_def, rule_format], simp add: saved_names_def, simp add: EnvMap_def text_ok_def)+

lemma saves_numbers:
  assumes "saves s env"
  shows
    "map_of env ''PORT'' = Some (FormatInt (cf_Port s))" "map_of env ''MEMORY_LIMIT_MB'' = Some (FormatInt (cf_MemoryLimitMB s))"
    "map_of env ''MAX_OUTPUT_TOKENS'' = Some (FormatInt (cf_MaxOutputTokens s))"
    "map_of env ''GLOBAL_CONCURRENCY_LIMIT'' = Some (FormatInt (cf_GlobalConcurrencyLimit s))"
    "map_of env ''RPM_LIMIT'' = Some (FormatInt (cf_RPMLimit s))" "map_of env ''RETENTION_DAYS'' = Some (FormatInt (cf_RetentionDays s))"
    "map_of env ''MODEL_SYNC_INTERVAL'' = Some (Duration_String (cf_ModelSyncInterval s))"
    "map_of env ''UPSTREAM_CONNECT_TIMEOUT'' = Some (Duration_String (cf_ConnectTimeout s))"
    "map_of env ''UPSTREAM_READ_TIMEOUT'' = Some (Duration_String (cf_ReadTimeout s))"
    "map_of env ''UPSTREAM_WRITE_TIMEOUT'' = Some (Duration_String (cf_WriteTimeout s))"
    "map_of env ''UPSTREAM_POOL_TIMEOUT'' = Some (Duration_String (cf_PoolTimeout s))"
    "map_of env ''MAX_STREAM_DURATION'' = Some (Duration_String (cf_MaxStreamDuration s))"
    "map_of env ''UPSTREAM_IDLE_TIMEOUT'' = Some (Duration_String (cf_UpstreamIdleTimeout s))"
    "map_of env ''SSE_HEARTBEAT_INTERVAL'' = Some (Duration_String (cf_SSEHeartbeatInterval s))"
    "map_of env ''GROUP_MONITOR_INTERVAL'' = Some (Duration_String (cf_GroupMonitorInterval s))"
    "map_of env ''MODEL_AUTO_SYNC'' = Some (FormatBool (cf_ModelAutoSync s))"
  by (subst assms(1)[unfolded saves_def, rule_format], simp add: saved_names_def, simp add: EnvMap_def)+

lemma Parse_saved:
  assumes ok: "settings_ok net s" and fl: "floats_ok fl" and same: "saves s env"
    and body: "bodyBytes env = Inr b" and header: "duration fl env ''UPSTREAM_HEADER_TIMEOUT'' 0 sec_ns = Inr h"
  shows "Parse fl net env = Inr (s\<lparr>cf_MaxBodyBytes := b, cf_HeaderTimeout := h\<rparr>)"
proof -
  note k = ok[unfolded settings_ok_def list.pred_inject]
  note t = saves_texts[OF same] and n = saves_numbers[OF same]
  have texts: "text_ok (cf_AdminAPIKey s)" "text_ok (cf_EncryptionKey s)" "text_ok (cf_Host s)" "text_ok (cf_DBPath s)" "text_ok (cf_PluginDir s)"
      "text_ok (cf_LogLevel s)" "text_ok (cf_UpstreamUserAgent s)" using k by simp_all
  note t = t[OF texts(5)]
  have port: "count_ok (cf_Port s)" using k by (simp add: count_ok_def max_i64_def)
  have counts: "count_ok (cf_MemoryLimitMB s)" "count_ok (cf_MaxOutputTokens s)" "count_ok (cf_GlobalConcurrencyLimit s)" "count_ok (cf_RPMLimit s)" "count_ok (cf_RetentionDays s)" "count_ok (cf_ModelSyncInterval s)" "count_ok (cf_ConnectTimeout s)" "count_ok (cf_ReadTimeout s)" "count_ok (cf_WriteTimeout s)" "count_ok (cf_PoolTimeout s)"
    using k by simp_all
  have opts: "optional_ok (cf_MaxStreamDuration s)" "optional_ok (cf_UpstreamIdleTimeout s)" "optional_ok (cf_SSEHeartbeatInterval s)" "optional_ok (cf_GroupMonitorInterval s)" using k by simp_all
  note textual = required_back[OF t(1) texts(1)] required_back[OF t(2) texts(2)] textDefault_back[OF t(3) texts(3)]
    textDefault_back[OF t(4) texts(4)] textDefault_back[OF t(5) texts(5)] textDefault_back[OF t(6) texts(6)]
  note numeric = positiveInt_back[OF n(1) port] positiveInt_back[OF n(2) counts(1)] positiveInt_back[OF n(3) counts(2)]
    positiveInt_back[OF n(4) counts(3)] positiveInt_back[OF n(5) counts(4)] positiveInt_back[OF n(6) counts(5)]
  note times = duration_back[OF n(7) counts(6) fl] duration_back[OF n(8) counts(7) fl] duration_back[OF n(9) counts(8) fl]
    duration_back[OF n(10) counts(9) fl] duration_back[OF n(11) counts(10) fl] durationOrZero_back[OF n(12) opts(1) fl]
    durationOrZero_back[OF n(13) opts(2) fl] durationOrZero_back[OF n(14) opts(3) fl] intervalOrZero_back[OF n(15) opts(4)]
  have agent: "user_agent env = cf_UpstreamUserAgent s" "textOptional env ''UPSTREAM_SESSION_HEADER'' = cf_UpstreamSessionHeader s"
    using t(7,8) texts(7) k by (simp_all add: user_agent_def textOptional_def text_ok_def)
  have cors: "corsOrigins net env ''CORS_ALLOWED_ORIGINS'' = Inr (cf_CORSAllowedOrigins s)" using t(9) k by (simp add: corsOrigins_def)
  have key: "\<exists>key. EncryptionKeyBytes (cf_EncryptionKey s) = Inr key" using k by (auto simp: EncryptionKeyBytes_def)
  show ?thesis
    by (rule reads_Parse) (use k body header in \<open>simp add: reads_as_def textual numeric times agent cors key boolean_back[OF n(16)]\<close>)
qed

lemma Parse_cong:
  assumes "map_of e = map_of e'"
  shows "Parse fl net e = Parse fl net e'"
proof -
  have base: "required e = required e'" "textDefault e = textDefault e'" "textOptional e = textOptional e'" "boolean e = boolean e'"
      "positiveInt e = positiveInt e'" "intervalOrZero fl e = intervalOrZero fl e'" "duration fl e = duration fl e'" "user_agent e = user_agent e'"
    by (simp_all add: fun_eq_iff required_def textDefault_def textOptional_def boolean_def positiveInt_def intervalOrZero_def duration_def
        user_agent_def assms)
  have "bodyBytes e = bodyBytes e'" by (simp only: bodyBytes_def assms base)
  moreover have "durationOrZero fl e = durationOrZero fl e'" by (intro ext) (simp only: durationOrZero_def assms base)
  moreover have "corsOrigins net e = corsOrigins net e'" by (intro ext) (simp only: corsOrigins_def assms)
  ultimately show ?thesis by (simp only: Parse_def base)
qed

lemma EnvMap_body:
  "map_of (EnvMap s) ''MAX_BODY_BYTES'' = (if cf_MaxBodyBytes s smod megabyte = 0 then None else Some (FormatInt (cf_MaxBodyBytes s)))"
  "map_of (EnvMap s) ''MAX_BODY_MB'' = (if cf_MaxBodyBytes s smod megabyte = 0 then Some (FormatInt (cf_MaxBodyBytes s sdiv megabyte)) else None)"
  "map_of (EnvMap s) ''UPSTREAM_HEADER_TIMEOUT'' = (if cf_HeaderTimeout s > 0 then Some (Duration_String (cf_HeaderTimeout s)) else None)"
  by (simp_all add: EnvMap_def)

lemma EnvMap_saved: "k \<in> set saved_names \<Longrightarrow> map_of (EnvMap s) k \<noteq> None"
  unfolding map_of_eq_None_iff saved_names_def EnvMap_def by auto

lemma saves_overlay: "saves s (overlay (EnvMap s) old)"
  using EnvMap_saved[of _ s] by (fastforce simp: saves_def map_of_overlay[OF distinct_EnvMap] split: option.splits)

lemma bodyBytes_back:
  assumes "count_ok (cf_MaxBodyBytes s)"
    and "map_of old ''MAX_BODY_BYTES'' = None \<or> cf_MaxBodyBytes s mod megabyte \<noteq> 0"
  shows "bodyBytes (overlay (EnvMap s) old) = Inr (cf_MaxBodyBytes s)"
proof -
  let ?n = "cf_MaxBodyBytes s" and ?env = "overlay (EnvMap s) old"
  have n: "0 < ?n" "?n \<le> max_i64" using assms(1) by (simp_all add: count_ok_def)
  have mega: "0 < megabyte" "1 \<le> megabyte" by (simp_all add: megabyte_def)
  have sm: "?n smod megabyte = ?n mod megabyte" "?n sdiv megabyte = ?n div megabyte"
    using n mega by (simp_all add: smod_nonneg sdiv_nonneg)
  note look = map_of_overlay[OF distinct_EnvMap, of s old]
  show ?thesis
  proof (cases "?n mod megabyte = 0")
    case False
    then have "map_of ?env ''MAX_BODY_BYTES'' = Some (FormatInt ?n)" by (simp add: look EnvMap_body sm)
    then show ?thesis using n FormatInt_trimmed[of ?n] ParseInt_FormatInt[of ?n] by (simp add: bodyBytes_def)
  next
    case True
    then have b: "map_of ?env ''MAX_BODY_BYTES'' = None" using assms(2) by (simp add: look EnvMap_body sm)
    have m: "map_of ?env ''MAX_BODY_MB'' = Some (FormatInt (?n div megabyte))" using True by (simp add: look EnvMap_body sm)
    have eq: "?n div megabyte * megabyte = ?n" using True by (metis add.right_neutral div_mult_mod_eq)
    have "0 < ?n div megabyte" using n mega True eq by (smt (verit) mult_nonpos_nonneg)
    moreover have "?n div megabyte \<le> max_i64 div megabyte" using n(2) mega by (intro zdiv_mono1) auto
    moreover have "max_i64 div megabyte \<le> max_i64" by (simp add: max_i64_def megabyte_def)
    ultimately have c: "count_ok (?n div megabyte)" "\<not> max_i64 div megabyte < ?n div megabyte" by (auto simp: count_ok_def)
    show ?thesis using positiveInt_back[OF m c(1), of 8] b c(2) eq by (simp add: bodyBytes_def)
  qed
qed

lemma header_back:
  assumes "optional_ok (cf_HeaderTimeout s)" "floats_ok fl"
    and "map_of old ''UPSTREAM_HEADER_TIMEOUT'' = None \<or> 0 < cf_HeaderTimeout s"
  shows "duration fl (overlay (EnvMap s) old) ''UPSTREAM_HEADER_TIMEOUT'' 0 sec_ns = Inr (cf_HeaderTimeout s)"
proof (cases "0 < cf_HeaderTimeout s")
  case True
  then show ?thesis using assms(1,2)
    by (intro duration_back) (simp_all add: map_of_overlay[OF distinct_EnvMap] EnvMap_body count_ok_def optional_ok_def)
next
  case False
  then have "cf_HeaderTimeout s = 0" using assms(1) by (simp add: optional_ok_def)
  then show ?thesis using assms(3) by (simp add: duration_def map_of_overlay[OF distinct_EnvMap] EnvMap_body)
qed

lemma parse_line_keys: "parse_line n l env = Inr env' \<Longrightarrow> list_all (ValidEnvKey \<circ> fst) env \<Longrightarrow> list_all (ValidEnvKey \<circ> fst) env'"
proof -
  assume r: "parse_line n l env = Inr env'" and v: "list_all (ValidEnvKey \<circ> fst) env"
  consider "env' = env" | name v where "ValidEnvKey name" "env' = AList.update name v env"
    using r by (auto simp: parse_line_def Let_def bind_result_Inr split: if_splits)
  then show "list_all (ValidEnvKey \<circ> fst) env'"
  proof cases
    case 2
    have "list_all ValidEnvKey (map fst env)" using v by (simp add: list_all_iff)
    then have "list_all ValidEnvKey (map fst env')" using 2 by (simp add: update_keys)
    then show ?thesis by (simp add: list_all_iff)
  qed (use v in simp)
qed

lemma parse_lines_keys: "parse_lines n ls env = Inr env' \<Longrightarrow> list_all (ValidEnvKey \<circ> fst) env \<Longrightarrow> list_all (ValidEnvKey \<circ> fst) env'"
  by (induction ls arbitrary: n env) (auto simp: bind_result_Inr intro: parse_line_keys)

lemma existing_keys:
  assumes "existing f = Inr old"
  shows "list_all (ValidEnvKey \<circ> fst) old"
proof (cases f)
  case Absent
  then show ?thesis using assms by (simp add: existing_def)
next
  case (Content body)
  then have "ParseEnvText body = Inr old" using assms by (simp add: existing_def ReadMapping_def as_config_def split: sum.splits)
  then show ?thesis unfolding ParseEnvText_def by (rule parse_lines_keys) simp
qed (use assms in \<open>simp_all add: existing_def ReadMapping_def\<close>)

text \<open>A write puts the overlaid mapping into the file.\<close>

lemma Write_read:
  assumes "existing (fs_env fs) = Inr old"
  shows "\<exists>body env. Write True s fs = (fs\<lparr>fs_env := Content body\<rparr>, Inr ()) \<and> ReadMapping (Content body) = Inr env \<and>
     map_of env = map_of (overlay (EnvMap s) old)"
proof -
  have valid: "list_all (ValidEnvKey \<circ> fst) e = (\<forall>k \<in> fst ` set e. ValidEnvKey k)" for e :: env by (simp add: list_all_iff)
  have "list_all (ValidEnvKey \<circ> fst) (overlay (EnvMap s) old)"
    using existing_keys[OF assms] EnvMap_names[of s] unfolding valid keys_overlay by blast
  then obtain body env where r: "SerializeEnvMapping (overlay (EnvMap s) old) = Inr body" "ParseEnvText body = Inr env"
      "map_of env = map_of (overlay (EnvMap s) old)"
    using Serialize_Parse by blast
  then have "Write True s fs = (fs\<lparr>fs_env := Content body\<rparr>, Inr ())" "ReadMapping (Content body) = Inr env"
    using assms by (simp_all add: Write_def WriteMapping_def ReadMapping_def as_config_def)
  then show ?thesis using r(3) by blast
qed

lemma Write_load:
  assumes "existing (fs_env fs) = Inr old" "settings_ok net s" "floats_ok fl"
    and "bodyBytes (overlay (EnvMap s) old) = Inr b" "duration fl (overlay (EnvMap s) old) ''UPSTREAM_HEADER_TIMEOUT'' 0 sec_ns = Inr h"
  shows "\<exists>fs'. Write True s fs = (fs', Inr ()) \<and> fs_bootstrap fs' = fs_bootstrap fs \<and>
     LoadFile fl net (fs_env fs') = Inr (s\<lparr>cf_MaxBodyBytes := b, cf_HeaderTimeout := h\<rparr>)"
proof -
  obtain body env where w: "Write True s fs = (fs\<lparr>fs_env := Content body\<rparr>, Inr ())" "ReadMapping (Content body) = Inr env"
      "map_of env = map_of (overlay (EnvMap s) old)"
    using Write_read[OF assms(1)] by blast
  have "Parse fl net env = Inr (s\<lparr>cf_MaxBodyBytes := b, cf_HeaderTimeout := h\<rparr>)"
    using Parse_saved[OF assms(2,3) saves_overlay assms(4,5)] Parse_cong[OF w(3)] by simp
  then show ?thesis using w by (simp add: LoadFile_def as_config_def)
qed

end
