(* ===== verification/Config_Claims.thy ===== *)
theory Config_Claims
  imports Config_Store Request_Query
begin

text \<open>
  Properties of the configuration: what validation guarantees, that a saved configuration is the one
  the next start reads, and that an interrupted first start neither loses nor replaces the key.
\<close>

section \<open>Samples\<close>

definition sample_floats :: floats where
  "sample_floats = \<lparr>fl_parse = (\<lambda>t. if t = ''0.5'' then Some (Some (1 / 2)) else None), fl_round = (\<lambda>q. q), fl_int = (\<lambda>q. if q < 1000000000 then 500000000 else 0)\<rparr>"

definition https_net :: netlib where
  "https_net = \<lparr>url_parse = (\<lambda>t. if has_prefix (to_lower t) ''https://'' then
       Some \<lparr>u_scheme = ''https'', u_user = False, u_host = drop 8 t, u_hostname = drop 8 t, u_port = [], u_path = [], u_rawquery = [], u_fragment = []\<rparr>
       else None),
     url_string = (\<lambda>u. u_scheme u @ ''://'' @ u_host u), parse_ip = (\<lambda>_. None)\<rparr>"

lemma sample_floats_ok: "floats_ok sample_floats"
  by (auto simp: floats_ok_def sample_floats_def in_i64_def min_i64_def max_i64_def append_eq_Cons_conv Cons_eq_append_conv)

lemma https_net_ok: "schemes_ok https_net"
  by (auto simp: schemes_ok_def https_net_def has_prefix_def dest: arg_cong[where f = "take 6"] split: if_splits)

section \<open>The generated configuration\<close>

definition initial_settings :: "string \<Rightarrow> string \<Rightarrow> Settings" where
  "initial_settings admin encryption =
     \<lparr>cf_Host = ''0.0.0.0'', cf_Port = 8000, cf_DBPath = ''data/relay.db'', cf_PluginDir = ''data/plugins'',
      cf_AdminAPIKey = ''adm_'' @ b64_raw_url admin, cf_EncryptionKey = b64_encode encryption, cf_ModelAutoSync = False,
      cf_ModelSyncInterval = 30 * minute_ns, cf_GroupMonitorInterval = 30 * minute_ns, cf_MemoryLimitMB = 200,
      cf_MaxBodyBytes = 8 * megabyte, cf_MaxOutputTokens = 4096, cf_MaxStreamDuration = 1800 * sec_ns, cf_GlobalConcurrencyLimit = 8,
      cf_RPMLimit = 30, cf_ConnectTimeout = 10 * sec_ns, cf_HeaderTimeout = 1800 * sec_ns, cf_ReadTimeout = 300 * sec_ns,
      cf_WriteTimeout = 30 * sec_ns, cf_PoolTimeout = 10 * sec_ns, cf_UpstreamIdleTimeout = 0, cf_UpstreamUserAgent = default_agent,
      cf_UpstreamSessionHeader = [], cf_SSEHeartbeatInterval = 15 * sec_ns, cf_RetentionDays = 7, cf_LogLevel = ''INFO'',
      cf_CORSAllowedOrigins = ''*''\<rparr>"

lemma admin_key_text: "text_ok (''adm_'' @ b64_raw_url admin)"
proof -
  have "list_all (\<lambda>c. \<not> is_space c) (''adm_'' @ b64_raw_url admin)"
    using b64_raw_url_clean[of admin] by (simp add: is_space_def)
  then show ?thesis by (simp add: text_ok_def trim_space_clean)
qed

lemma encryption_key_text: "b64_encode e \<noteq> [] \<Longrightarrow> text_ok (b64_encode e)"
proof -
  obtain body where "b64_encode e = body @ replicate ((4 - length body mod 4) mod 4) pad_char" "list_all b64_char body"
    using b64_encode_shape by blast
  moreover have "\<not> is_space pad_char" by (simp add: is_space_def pad_char_def)
  moreover have "\<not> is_space c" if "b64_char c" for c
  proof -
    obtain n where n: "n < 64" "c = enc6 n" using \<open>b64_char c\<close> by (auto simp: b64_char_def)
    then show ?thesis using of_char_enc6[OF n(1)] by (auto simp: is_space_def Let_def split: if_splits)
  qed
  ultimately have "list_all (\<lambda>c. \<not> is_space c) (b64_encode e)" by (auto simp: list_all_iff)
  then show "b64_encode e \<noteq> [] \<Longrightarrow> ?thesis" by (simp add: text_ok_def trim_space_clean)
qed

lemma duration_literal:
  assumes "map_of env name = Some v" "trim_space v = v \<and> v \<noteq> [] \<and> ParseInt v = None \<and> ParseDuration v = Some d \<and> 0 < d"
    and "fl_parse fl v = None"
  shows "duration fl env name fallback unit = Inr d"
  using assms by (simp add: duration_def)

lemma durationOrZero_literal:
  assumes "map_of env name = Some v" "trim_space v = v \<and> v \<noteq> [] \<and> ParseInt v = None \<and> ParseDuration v = Some d \<and> 0 < d"
    and "fl_parse fl v = None" "v \<noteq> ''0''" "v \<noteq> ''0s''"
  shows "durationOrZero fl env name fallback unit = Inr d"
  using assms by (simp add: durationOrZero_def duration_literal)

lemma initial_lookup:
  "map_of (initial_env admin encryption) ''ADMIN_API_KEY'' = Some (''adm_'' @ b64_raw_url admin)"
  "map_of (initial_env admin encryption) ''RELAY_ENCRYPTION_KEY'' = Some (b64_encode encryption)"
  "map_of (initial_env admin encryption) ''MODEL_AUTO_SYNC'' = Some ''false''"
  "map_of (initial_env admin encryption) ''MODEL_SYNC_INTERVAL'' = Some ''30m''"
  "map_of (initial_env admin encryption) ''GROUP_MONITOR_INTERVAL'' = Some ''30m''"
  "map_of (initial_env admin encryption) ''MEMORY_LIMIT_MB'' = Some ''200''"
  "map_of (initial_env admin encryption) ''MAX_BODY_BYTES'' = Some (FormatInt (8 * 1024 * 1024))"
  "map_of (initial_env admin encryption) ''MAX_OUTPUT_TOKENS'' = Some ''4096''"
  "map_of (initial_env admin encryption) ''MAX_STREAM_DURATION'' = Some ''1800s''"
  "map_of (initial_env admin encryption) ''GLOBAL_CONCURRENCY_LIMIT'' = Some ''8''"
  "map_of (initial_env admin encryption) ''RPM_LIMIT'' = Some ''30''"
  "map_of (initial_env admin encryption) ''RETENTION_DAYS'' = Some ''7''"
  "map_of (initial_env admin encryption) ''DB_PATH'' = Some ''data/relay.db''"
  "map_of (initial_env admin encryption) ''HOST'' = Some ''0.0.0.0''"
  "map_of (initial_env admin encryption) ''PORT'' = Some ''8000''"
  "map_of (initial_env admin encryption) ''LOG_LEVEL'' = Some ''INFO''"
  "map_of (initial_env admin encryption) ''UPSTREAM_CONNECT_TIMEOUT'' = Some ''10s''"
  "map_of (initial_env admin encryption) ''UPSTREAM_HEADER_TIMEOUT'' = Some ''1800s''"
  "map_of (initial_env admin encryption) ''UPSTREAM_READ_TIMEOUT'' = Some ''300s''"
  "map_of (initial_env admin encryption) ''UPSTREAM_USER_AGENT'' = Some default_agent"
  "map_of (initial_env admin encryption) ''UPSTREAM_SESSION_HEADER'' = Some []"
  "map_of (initial_env admin encryption) ''UPSTREAM_WRITE_TIMEOUT'' = Some ''30s''"
  "map_of (initial_env admin encryption) ''UPSTREAM_POOL_TIMEOUT'' = Some ''10s''"
  "map_of (initial_env admin encryption) ''UPSTREAM_IDLE_TIMEOUT'' = Some ''0''"
  "map_of (initial_env admin encryption) ''SSE_HEARTBEAT_INTERVAL'' = Some ''15s''"
  "map_of (initial_env admin encryption) ''CORS_ALLOWED_ORIGINS'' = Some ''*''"
  "map_of (initial_env admin encryption) ''PLUGIN_DIR'' = None"
  unfolding initial_env_def default_agent_def by simp_all

definition literal_time :: "string \<Rightarrow> int \<Rightarrow> bool" where
  "literal_time v d \<longleftrightarrow> trim_space v = v \<and> v \<noteq> [] \<and> ParseInt v = None \<and> ParseDuration v = Some d \<and> 0 < d"

lemma literal_times:
  "literal_time ''30m'' (30 * minute_ns)" "literal_time ''10s'' (10 * sec_ns)" "literal_time ''15s'' (15 * sec_ns)"
  "literal_time ''30s'' (30 * sec_ns)" "literal_time ''300s'' (300 * sec_ns)" "literal_time ''1800s'' (1800 * sec_ns)"
  by code_simp+

lemma literal_others:
  "trim_space ''false'' = ''false'' \<and> to_lower ''false'' = ''false''" "trim_space ''*'' = ''*''" "trim_space ''0'' = ''0''"
  "text_ok ''data/relay.db''" "text_ok ''0.0.0.0''" "text_ok ''INFO''" "text_ok default_agent" "ParseLevel ''INFO'' \<noteq> None"
  "text_ok ''data/plugins''" "ParseInt (trim_space ''200'') = Some 200" "ParseInt (trim_space ''4096'') = Some 4096" "ParseInt (trim_space ''8'') = Some 8"
  "ParseInt (trim_space ''30'') = Some 30" "ParseInt (trim_space ''7'') = Some 7" "ParseInt (trim_space ''8000'') = Some 8000"
  by code_simp+

lemma initial_parse:
  assumes fl: "floats_ok fl" and len: "length encryption = 32"
  shows "Parse fl net (initial_env admin encryption) = Inr (initial_settings admin encryption)"
proof (rule reads_Parse)
  note l = initial_lookup[of admin encryption]
  have nofloat: "fl_parse fl (t @ ''s'') = None" "fl_parse fl (t @ ''m'') = None" for t using fl by (simp_all add: floats_ok_def)
  have nf: "fl_parse fl ''30m'' = None" "fl_parse fl ''10s'' = None" "fl_parse fl ''15s'' = None" "fl_parse fl ''30s'' = None"
      "fl_parse fl ''300s'' = None" "fl_parse fl ''1800s'' = None"
    using nofloat(2)[of "''30''"] nofloat(1)[of "''10''"] nofloat(1)[of "''15''"] nofloat(1)[of "''30''"] nofloat(1)[of "''300''"]
      nofloat(1)[of "''1800''"] by simp_all
  note t = literal_times[unfolded literal_time_def]
  have ne: "b64_encode encryption \<noteq> []"
  proof
    assume "b64_encode encryption = []"
    then have "b64_decode [] = Some encryption" using b64_roundtrip[of encryption] by simp
    then show False using len by (auto simp: b64_decode_def)
  qed
  have key: "EncryptionKeyBytes (b64_encode encryption) = Inr encryption" using len by (simp add: EncryptionKeyBytes_def b64_roundtrip)
  have mb: "bodyBytes (initial_env admin encryption) = Inr (8 * megabyte)"
    using FormatInt_trimmed[of "8 * 1024 * 1024"] ParseInt_FormatInt[of "8 * 1024 * 1024"] l(7)
    by (simp add: bodyBytes_def megabyte_def max_i64_def)
  note times = duration_literal[OF l(4) t(1) nf(1)] duration_literal[OF l(17) t(2) nf(2)] duration_literal[OF l(18) t(6) nf(6)]
    duration_literal[OF l(19) t(5) nf(5)] duration_literal[OF l(22) t(4) nf(4)] duration_literal[OF l(23) t(2) nf(2)]
    durationOrZero_literal[OF l(9) t(6) nf(6), simplified] durationOrZero_literal[OF l(25) t(3) nf(3), simplified]
  have monitor: "intervalOrZero fl (initial_env admin encryption) ''GROUP_MONITOR_INTERVAL'' (30 * minute_ns) = Inr (30 * minute_ns)"
    using l(5) t(1) by (simp add: intervalOrZero_def)
  have idle: "durationOrZero fl (initial_env admin encryption) ''UPSTREAM_IDLE_TIMEOUT'' 0 sec_ns = Inr 0"
    by (simp add: durationOrZero_def l literal_others)
  show "reads_as fl net (initial_env admin encryption) (initial_settings admin encryption)"
    unfolding reads_as_def initial_settings_def Settings.simps
    using key by (intro conjI) (simp_all add: required_back[OF l(1) admin_key_text] required_back[OF l(2) encryption_key_text[OF ne]]
        textDefault_back[OF l(14) literal_others(5)] textDefault_back[OF l(13) literal_others(4)] textDefault_back[OF l(16) literal_others(6)]
        textDefault_def[of _ "''PLUGIN_DIR''"] l times monitor mb literal_others positiveInt_def boolean_def idle
        corsOrigins_def user_agent_def textOptional_def text_ok_def[THEN iffD1, OF literal_others(7)])
qed

lemma initial_ok: "length encryption = 32 \<Longrightarrow> b64_encode encryption \<noteq> [] \<Longrightarrow> settings_ok net (initial_settings admin encryption)"
  using admin_key_text[of admin] encryption_key_text[of encryption] literal_others b64_roundtrip[of encryption]
  by (simp add: settings_ok_def initial_settings_def count_ok_def optional_ok_def max_i64_def minute_ns_def sec_ns_def megabyte_def
      text_ok_def corsOrigins_def)

lemma initial_whole: "whole_numbers sample_floats (initial_env admin encryption)"
proof -
  have "trim_space ''30m'' \<noteq> ''0.5''" "trim_space ''1800s'' \<noteq> ''0.5''" "trim_space ''10s'' \<noteq> ''0.5''" "trim_space ''300s'' \<noteq> ''0.5''"
        "trim_space ''30s'' \<noteq> ''0.5''" "trim_space ''0'' \<noteq> ''0.5''" "trim_space ''15s'' \<noteq> ''0.5''"
    by code_simp+
  then show ?thesis by (simp add: whole_numbers_def time_settings_def whole_number_def initial_lookup sample_floats_def)
qed

section \<open>Properties\<close>

text \<open>
  C32: what \<open>Parse\<close> accepts, when no time is written as a number with a fraction or an exponent, is
  well formed: secrets and texts are trimmed and not empty, the encryption
  key decodes to 32 bytes, the port is a port, every count and every limit is positive and fits 64 bits,
  the times the client needs are positive, the optional ones not negative, and the list of origins is
  in the form the request handler compares with. (For a tiny fraction it fails: see
  \<open>tiny_time_locks_out\<close>.)
\<close>

theorem parsed_settings_valid:
  assumes "Parse fl net env = Inr s" "floats_ok fl" "whole_numbers fl env" "schemes_ok net"
  shows "settings_ok net s"
  using assms by (rule Parse_ok)

theorem parsed_settings_valid_witness:
  "settings_ok https_net (initial_settings ''key'' (replicate 32 CHR ''k''))"
proof -
  let ?env = "initial_env ''key'' (replicate 32 CHR ''k'')"
  have "Parse sample_floats https_net ?env = Inr (initial_settings ''key'' (replicate 32 CHR ''k''))"
    by (rule initial_parse[OF sample_floats_ok]) simp
  with initial_whole show ?thesis using parsed_settings_valid sample_floats_ok https_net_ok by blast
qed

lemma saved_reload:
  assumes "Parse fl net env = Inr s" "floats_ok fl" "whole_numbers fl env" "schemes_ok net"
    and "existing (fs_env fs) = Inr old"
    and "map_of old ''MAX_BODY_BYTES'' = None \<or> cf_MaxBodyBytes s mod megabyte \<noteq> 0"
    and "map_of old ''UPSTREAM_HEADER_TIMEOUT'' = None \<or> 0 < cf_HeaderTimeout s"
  shows "\<exists>fs'. Write True s fs = (fs', Inr ()) \<and> fs_bootstrap fs' = fs_bootstrap fs \<and> LoadFile fl net (fs_env fs') = Inr s"
proof -
  have ok: "settings_ok net s" by (rule Parse_ok[OF assms(1-4)])
  then have f: "count_ok (cf_MaxBodyBytes s)" "optional_ok (cf_HeaderTimeout s)" by (simp_all add: settings_ok_def)
  have "s\<lparr>cf_MaxBodyBytes := cf_MaxBodyBytes s, cf_HeaderTimeout := cf_HeaderTimeout s\<rparr> = s" by simp
  with Write_load[OF assms(5) ok assms(2) bodyBytes_back[OF f(1) assms(6)] header_back[OF f(2) assms(2,7)]] show ?thesis by simp
qed

text \<open>
  C31: a configuration that was accepted and saved over a readable file is the one the next start
  reads, field by field, whatever other keys the file held, provided that no time was written as a
  number with a fraction or an exponent (see \<open>tiny_time_locks_out\<close>), and unless the file holds a byte limit while the new limit
  is a whole number of megabytes, or holds a header timeout while the new configuration has none.
\<close>

theorem saved_settings_reload:
  assumes "Parse fl net env = Inr s" "floats_ok fl" "whole_numbers fl env" "schemes_ok net"
    and "existing (fs_env fs) = Inr old"
    and "map_of old ''MAX_BODY_BYTES'' = None \<or> cf_MaxBodyBytes s mod megabyte \<noteq> 0"
    and "map_of old ''UPSTREAM_HEADER_TIMEOUT'' = None \<or> 0 < cf_HeaderTimeout s"
  shows "\<exists>fs'. Write True s fs = (fs', Inr ()) \<and> fs_bootstrap fs' = fs_bootstrap fs \<and> LoadFile fl net (fs_env fs') = Inr s"
  using assms by (rule saved_reload)

theorem saved_settings_reload_witness:
  "\<exists>fs'. Write True (initial_settings ''key'' (replicate 32 CHR ''k'')) \<lparr>fs_env = Content ''# mine'', fs_bootstrap = Absent\<rparr> = (fs', Inr ()) \<and>
     fs_bootstrap fs' = Absent \<and> LoadFile sample_floats https_net (fs_env fs') = Inr (initial_settings ''key'' (replicate 32 CHR ''k''))"
proof -
  let ?env = "initial_env ''key'' (replicate 32 CHR ''k'')" and ?fs = "\<lparr>fs_env = Content ''# mine'', fs_bootstrap = Absent\<rparr>"
  have p: "Parse sample_floats https_net ?env = Inr (initial_settings ''key'' (replicate 32 CHR ''k''))"
    by (rule initial_parse[OF sample_floats_ok]) simp
  have "existing (fs_env ?fs) = Inr []" by code_simp
  from saved_settings_reload[OF p sample_floats_ok initial_whole https_net_ok this] show ?thesis by simp
qed

text \<open>
  A limit for request bodies that was changed to a whole number of megabytes is lost at the next
  start when the file holds \<open>MAX_BODY_BYTES\<close>. The write keeps that key and adds \<open>MAX_BODY_MB\<close> beside it,
  and reading prefers the old one; every other setting is read back.
\<close>

lemma stale_body_limit:
  assumes "settings_ok net s" "floats_ok fl" "existing (fs_env fs) = Inr old"
    and "map_of old ''MAX_BODY_BYTES'' = Some raw" "ParseInt (trim_space raw) = Some b" "0 < b"
    and "cf_MaxBodyBytes s mod megabyte = 0"
    and "map_of old ''UPSTREAM_HEADER_TIMEOUT'' = None \<or> 0 < cf_HeaderTimeout s"
  shows "\<exists>fs'. Write True s fs = (fs', Inr ()) \<and> LoadFile fl net (fs_env fs') = Inr (s\<lparr>cf_MaxBodyBytes := b\<rparr>)"
proof -
  have f: "count_ok (cf_MaxBodyBytes s)" "optional_ok (cf_HeaderTimeout s)" using assms(1) by (simp_all add: settings_ok_def)
  then have "cf_MaxBodyBytes s smod megabyte = 0" using assms(7) by (simp add: smod_nonneg count_ok_def megabyte_def)
  then have "bodyBytes (overlay (EnvMap s) old) = Inr b"
    using assms(4-6) by (simp add: bodyBytes_def map_of_overlay[OF distinct_EnvMap] EnvMap_body)
  from Write_load[OF assms(3,1,2) this header_back[OF f(2) assms(2,8)]] show ?thesis by auto
qed

text \<open>
  C33: the first start writes the configuration and then the administrator key beside it. If the second
  write fails, the start fails but the generated configuration stays, and the next start uses it
  unchanged, with whatever its own random source would give, and writes and reports the same key. If both
  succeed, a later start changes nothing and reports no key. If the first write fails nothing is left.
\<close>

theorem ensure_keeps_key:
  assumes fl: "floats_ok fl" and len: "length encryption = 32"
  shows "\<exists>body. let s = initial_settings admin encryption; key = cf_AdminAPIKey s;
       fs0 = \<lparr>fs_env = Absent, fs_bootstrap = Absent\<rparr>;
       fs1 = \<lparr>fs_env = Content body, fs_bootstrap = Absent\<rparr>;
       fs2 = \<lparr>fs_env = Content body, fs_bootstrap = Content (key @ [newline])\<rparr>
     in Ensure fl net (Some admin) (Some encryption) False kw fs0 = (fs0, Inl WriteFailed) \<and>
        Ensure fl net (Some admin) (Some encryption) True False fs0 = (fs1, Inl BootstrapFailed) \<and>
        Ensure fl net (Some admin) (Some encryption) True True fs0 = (fs2, Inr (s, key, True)) \<and>
        Ensure fl net a e w True fs1 = (fs2, Inr (s, key, True)) \<and>
        Ensure fl net a e w kw fs2 = (fs2, Inr (s, [], False))"
proof -
  let ?s = "initial_settings admin encryption" and ?fs0 = "\<lparr>fs_env = Absent, fs_bootstrap = Absent\<rparr>"
  note p = initial_parse[OF fl len, of net admin]
  have "b64_encode encryption \<noteq> []" using len by (cases encryption rule: b64_encode.cases) (auto simp: Let_def)
  then have ok: "settings_ok net ?s" by (rule initial_ok[OF len])
  have old: "existing (fs_env ?fs0) = Inr []" by (simp add: existing_def)
  have f: "count_ok (cf_MaxBodyBytes ?s)" "optional_ok (cf_HeaderTimeout ?s)" using ok by (simp_all add: settings_ok_def)
  have b: "bodyBytes (overlay (EnvMap ?s) []) = Inr (cf_MaxBodyBytes ?s)" by (rule bodyBytes_back[OF f(1)]) simp
  have h: "duration fl (overlay (EnvMap ?s) []) ''UPSTREAM_HEADER_TIMEOUT'' 0 sec_ns = Inr (cf_HeaderTimeout ?s)"
    by (rule header_back[OF f(2) fl]) simp
  obtain body env where w: "Write True ?s ?fs0 = (?fs0\<lparr>fs_env := Content body\<rparr>, Inr ())" "ReadMapping (Content body) = Inr env"
      "map_of env = map_of (overlay (EnvMap ?s) [])"
    using Write_read[OF old, of ?s] by blast
  obtain fs' where l: "Write True ?s ?fs0 = (fs', Inr ())"
      "LoadFile fl net (fs_env fs') = Inr (?s\<lparr>cf_MaxBodyBytes := cf_MaxBodyBytes ?s, cf_HeaderTimeout := cf_HeaderTimeout ?s\<rparr>)"
    using Write_load[OF old ok fl b h] by blast
  have load: "LoadFile fl net (Content body) = Inr ?s" using l w(1) by auto
  have g: "GenerateInitialSettings fl net (Some admin) (Some encryption) = Inr ?s"
    by (simp add: GenerateInitialSettings_def p as_config_def require_some_def)
  have nw: "Write False ?s ?fs0 = (?fs0, Inl WriteFailed)"
    using w(1) by (auto simp: Write_def WriteMapping_def existing_def split: sum.splits)
  show ?thesis
    using w(1) load g nw
    by (intro exI[of _ body]) (simp add: Let_def Ensure_def ensure_fresh_def ensure_existing_def writeBootstrap_def)
qed

theorem ensure_keeps_key_witness:
  "\<exists>body. Ensure sample_floats https_net (Some ''a'') (Some (replicate 32 CHR ''k'')) True False \<lparr>fs_env = Absent, fs_bootstrap = Absent\<rparr> =
     (\<lparr>fs_env = Content body, fs_bootstrap = Absent\<rparr>, Inl BootstrapFailed)"
proof -
  have l: "length (replicate 32 CHR ''k'') = 32" by simp
  show ?thesis using ensure_keeps_key[OF sample_floats_ok l, where net = https_net and admin = "''a''"] unfolding Let_def by blast
qed

text \<open>
  A time with a fraction may be rounded to nothing: the value is accepted and stored as \<open>0s\<close>, and a
  configuration that holds it is refused by the next start.
\<close>

lemma tiny_time_accepted:
  assumes "map_of env name = Some v" "ParseInt (trim_space v) = None" "trim_space v \<noteq> []" "fl_parse fl (trim_space v) = Some (Some q)"
    and "0 < q" "q \<le> fl_round fl (2 ^ 63 / of_int unit)" "fl_int fl (fl_round fl (q * of_int unit)) = 0"
  shows "duration fl env name fallback unit = Inr 0"
  using assms by (simp add: duration_def)

lemma tiny_time_locks_out:
  assumes "cf_ConnectTimeout s = 0" "map_of env ''UPSTREAM_CONNECT_TIMEOUT'' = map_of (EnvMap s) ''UPSTREAM_CONNECT_TIMEOUT''" "floats_ok fl"
  shows "Parse fl net env \<noteq> Inr s'"
proof
  assume p: "Parse fl net env = Inr s'"
  have z: "Duration_String 0 = ''0s''" "trim_space ''0s'' = ''0s''" "ParseDuration ''0s'' = Some 0" "ParseInt ''0s'' = None" by code_simp+
  have n: "fl_parse fl (''0'' @ ''s'') = None" using assms(3) unfolding floats_ok_def by blast
  have "map_of env ''UPSTREAM_CONNECT_TIMEOUT'' = Some ''0s''" using assms(1,2) z(1) by (simp add: EnvMap_def)
  then have "duration fl env ''UPSTREAM_CONNECT_TIMEOUT'' (10 * sec_ns) sec_ns = Inl ''UPSTREAM_CONNECT_TIMEOUT''"
    using z n by (simp add: duration_def)
  then show False using Parse_reads[OF p] by (simp add: reads_as_def)
qed

end
