(* ===== verification/Monitor.thy ===== *)
theory Monitor
  imports Keys
begin

text \<open>
  Group monitoring: the results table and its operations (store/monitor.go) and the monitor that fills
  it (relay/monitor.go). The monitor only records: it never touches a provider, a group or a request.
  The result of a probe (a request for the upstream's model list) is an argument. The texts shown to
  the operator are constructors of a datatype, one per format string.
\<close>

section \<open>Targets\<close>

definition GroupStatusOK :: string where "GroupStatusOK = ''ok''"
definition GroupStatusDegraded :: string where "GroupStatusDegraded = ''degraded''"
definition GroupStatusUpstreamUnreachable :: string where "GroupStatusUpstreamUnreachable = ''upstream_unreachable''"
definition GroupStatusConfigUnavailable :: string where "GroupStatusConfigUnavailable = ''config_unavailable''"
definition GroupStatusDisabled :: string where "GroupStatusDisabled = ''disabled''"

record MonitorProvider =
  mp_ID :: int
  mp_Name :: string
  mp_Enabled :: bool
  mp_PricedModels :: nat

record GroupMonitorTarget =
  mt_GroupID :: int
  mt_GroupName :: string
  mt_Enabled :: bool
  mt_Providers :: "MonitorProvider list"

definition EnabledProviders :: "GroupMonitorTarget \<Rightarrow> MonitorProvider list" where
  "EnabledProviders t = filter mp_Enabled (mt_Providers t)"

definition PricedModelCount :: "GroupMonitorTarget \<Rightarrow> nat" where
  "PricedModelCount t = sum_list (map (\<lambda>p. if mp_Enabled p then mp_PricedModels p else 0) (mt_Providers t))"

text \<open>The join of \<open>GroupMonitorTargets\<close>: groups by id, the members of each by provider id.\<close>

definition priced_models :: "db \<Rightarrow> int \<Rightarrow> Model list" where
  "priced_models db i =
     filter (\<lambda>m. m_provider_id m = i \<and> m_enabled m \<and> m_input_price m \<noteq> None \<and> m_output_price m \<noteq> None) (db_models db)"

definition monitor_provider :: "db \<Rightarrow> Provider \<Rightarrow> MonitorProvider" where
  "monitor_provider db p = \<lparr>mp_ID = p_id p, mp_Name = p_name p, mp_Enabled = p_enabled p,
     mp_PricedModels = length (priced_models db (p_id p))\<rparr>"

definition member_ids :: "db \<Rightarrow> int \<Rightarrow> int list" where
  "member_ids db i = sort (map snd (filter (\<lambda>(g, p). g = i) (db_group_providers db)))"

definition member_providers :: "db \<Rightarrow> int \<Rightarrow> Provider list" where
  "member_providers db i =
     concat (map (\<lambda>j. case tbl_find p_id j (db_providers db) of None \<Rightarrow> [] | Some p \<Rightarrow> [p]) (member_ids db i))"

definition monitor_target :: "db \<Rightarrow> ModelGroup \<Rightarrow> GroupMonitorTarget" where
  "monitor_target db g = \<lparr>mt_GroupID = g_id g, mt_GroupName = g_name g, mt_Enabled = g_enabled g,
     mt_Providers = map (monitor_provider db) (member_providers db (g_id g))\<rparr>"

definition GroupMonitorTargets :: "db \<Rightarrow> GroupMonitorTarget list" where
  "GroupMonitorTargets db = map (monitor_target db) (db_groups db)"

section \<open>Reasons\<close>

text \<open>A probe fails with an \<open>upstream.Error\<close> (status and code) or with another error, whose text is a list of code points.\<close>

datatype probe_error = ProbeUpstream int string | ProbeOther runes

datatype probe_reason =
    ReasonAuthentication
  | ReasonRateLimited
  | ReasonTimeout
  | ReasonConnection
  | ReasonServerFault int
  | ReasonRejected int
  | ReasonCodeStatus string int
  | ReasonCode string
  | ReasonText runes

definition rune_space :: "int \<Rightarrow> bool" where
  "rune_space r \<longleftrightarrow> 9 \<le> r \<and> r \<le> 13 \<or> 8192 \<le> r \<and> r \<le> 8202 \<or>
     r \<in> {32, 133, 160, 5760, 8232, 8233, 8239, 8287, 12288}"

definition trim_runes :: "runes \<Rightarrow> runes" where
  "trim_runes t = rev (dropWhile rune_space (rev (dropWhile rune_space t)))"

definition truncateReason :: "runes \<Rightarrow> runes" where
  "truncateReason t =
     (let line = trim_runes (takeWhile (\<lambda>r. r \<noteq> 10) t) in if length line > 160 then take 160 line @ [8230] else line)"

definition probeReason :: "probe_error \<Rightarrow> probe_reason" where
  "probeReason e =
     (case e of
        ProbeOther t \<Rightarrow> ReasonText (truncateReason t)
      | ProbeUpstream status code \<Rightarrow>
          if code = ''upstream_authentication_failed'' then ReasonAuthentication
          else if code = ''upstream_rate_limited'' then ReasonRateLimited
          else if code = ''upstream_timeout'' then ReasonTimeout
          else if code = ''upstream_connection_failed'' then ReasonConnection
          else if code = ''upstream_unavailable'' then ReasonServerFault status
          else if code = ''upstream_request_rejected'' then ReasonRejected status
          else if status > 0 then ReasonCodeStatus code status
          else ReasonCode code)"

datatype monitor_detail =
    DetailDisabled
  | DetailNoProvider
  | DetailNoModel
  | DetailAllReachable nat
  | DetailAllFailed "(string \<times> probe_reason) list"
  | DetailSomeFailed nat nat "(string \<times> probe_reason) list"

section \<open>One round\<close>

record GroupMonitorResult =
  mo_GroupID :: int
  mo_GroupName :: string
  mo_Status :: string
  mo_Detail :: monitor_detail
  mo_TotalProviders :: nat
  mo_FailedProviders :: nat
  mo_LatencyMS :: int
  mo_Trigger :: string
  mo_Created :: "gotime option"

definition probe_failures :: "(int \<Rightarrow> probe_error option) \<Rightarrow> MonitorProvider list \<Rightarrow> (string \<times> probe_reason) list" where
  "probe_failures probe providers =
     concat (map (\<lambda>p. case probe (mp_ID p) of None \<Rightarrow> [] | Some e \<Rightarrow> [(mp_Name p, probeReason e)]) providers)"

definition evaluate :: "gotime \<Rightarrow> gotime \<Rightarrow> (int \<Rightarrow> probe_error option) \<Rightarrow> string \<Rightarrow> GroupMonitorTarget \<Rightarrow> GroupMonitorResult" where
  "evaluate started finished probe trigger t =
     (let finish = (\<lambda>status detail total failed.
            \<lparr>mo_GroupID = mt_GroupID t, mo_GroupName = mt_GroupName t, mo_Status = status, mo_Detail = detail,
             mo_TotalProviders = total, mo_FailedProviders = failed, mo_LatencyMS = (finished - started) div 1000000,
             mo_Trigger = trigger, mo_Created = Some started\<rparr>);
          providers = EnabledProviders t;
          failures = probe_failures probe providers
      in if \<not> mt_Enabled t then finish GroupStatusDisabled DetailDisabled 0 0
         else if providers = [] then finish GroupStatusConfigUnavailable DetailNoProvider 0 0
         else if PricedModelCount t = 0 then finish GroupStatusConfigUnavailable DetailNoModel 0 0
         else if failures = [] then finish GroupStatusOK (DetailAllReachable (length providers)) (length providers) 0
         else if length failures = length providers
           then finish GroupStatusUpstreamUnreachable (DetailAllFailed failures) (length providers) (length failures)
         else finish GroupStatusDegraded (DetailSomeFailed (length failures) (length providers) failures)
                (length providers) (length failures))"

section \<open>The results table\<close>

record MonitorRow =
  mw_id :: int
  mw_group_id :: int
  mw_status :: string
  mw_detail :: monitor_detail
  mw_total :: nat
  mw_failed :: nat
  mw_latency :: int
  mw_trigger :: string
  mw_created :: gotime

definition monitor_row :: "gotime \<Rightarrow> GroupMonitorResult \<Rightarrow> MonitorRow" where
  "monitor_row now r = \<lparr>mw_id = 0, mw_group_id = mo_GroupID r, mw_status = mo_Status r, mw_detail = mo_Detail r,
     mw_total = mo_TotalProviders r, mw_failed = mo_FailedProviders r, mw_latency = mo_LatencyMS r,
     mw_trigger = (if mo_Trigger r = [] then ''auto'' else mo_Trigger r),
     mw_created = (case mo_Created r of None \<Rightarrow> now | Some t \<Rightarrow> t)\<rparr>"

definition SaveGroupMonitorResult ::
  "gotime \<Rightarrow> GroupMonitorResult \<Rightarrow> db \<Rightarrow> MonitorRow list \<Rightarrow> store_error + MonitorRow list" where
  "SaveGroupMonitorResult now r db rows =
     bind_result (reject_when (mo_GroupID r \<le> 0) (ErrText ''group ID is required'')) (\<lambda>_.
     bind_result (reject_when (mo_FailedProviders r > mo_TotalProviders r) (ErrText ''invalid provider counters'')) (\<lambda>_.
     bind_result (reject_when (\<not> refers g_id (db_groups db) (mo_GroupID r)) (ErrConstraint ''FOREIGN KEY constraint failed'')) (\<lambda>_.
     Inr (tbl_insert mw_id (\<lambda>i. mw_id_update (\<lambda>_. i)) (monitor_row now r) rows))))"

text \<open>Deleting a group cascades to its results.\<close>

definition drop_group_results :: "int \<Rightarrow> MonitorRow list \<Rightarrow> MonitorRow list" where
  "drop_group_results i rows = filter (\<lambda>w. mw_group_id w \<noteq> i) rows"

definition scanMonitorResult :: "ModelGroup \<Rightarrow> MonitorRow \<Rightarrow> GroupMonitorResult" where
  "scanMonitorResult g w = \<lparr>mo_GroupID = mw_group_id w, mo_GroupName = g_name g, mo_Status = mw_status w,
     mo_Detail = mw_detail w, mo_TotalProviders = mw_total w, mo_FailedProviders = mw_failed w,
     mo_LatencyMS = mw_latency w, mo_Trigger = mw_trigger w, mo_Created = Some (mw_created w)\<rparr>"

text \<open>The joined results of one group, the newest first; the table is kept in id order.\<close>

definition group_results :: "int \<Rightarrow> db \<Rightarrow> MonitorRow list \<Rightarrow> GroupMonitorResult list" where
  "group_results i db rows =
     (case tbl_find g_id i (db_groups db) of
        None \<Rightarrow> [] | Some g \<Rightarrow> map (scanMonitorResult g) (rev (filter (\<lambda>w. mw_group_id w = i) rows)))"

definition LatestGroupMonitorResult :: "int \<Rightarrow> db \<Rightarrow> MonitorRow list \<Rightarrow> store_error + GroupMonitorResult" where
  "LatestGroupMonitorResult i db rows = (case group_results i db rows of [] \<Rightarrow> Inl ErrNoRows | r # _ \<Rightarrow> Inr r)"

definition LatestGroupMonitorResults :: "db \<Rightarrow> MonitorRow list \<Rightarrow> (int \<times> GroupMonitorResult) list" where
  "LatestGroupMonitorResults db rows =
     concat (map (\<lambda>g. case group_results (g_id g) db rows of [] \<Rightarrow> [] | r # _ \<Rightarrow> [(g_id g, r)]) (db_groups db))"

definition GroupMonitorHistory :: "int \<Rightarrow> int \<Rightarrow> db \<Rightarrow> MonitorRow list \<Rightarrow> store_error + GroupMonitorResult list" where
  "GroupMonitorHistory i limit db rows =
     bind_result (reject_when (i \<le> 0) (ErrText ''group ID is required'')) (\<lambda>_.
     Inr (take (nat (if limit \<le> 0 \<or> limit > 200 then 50 else limit)) (group_results i db rows)))"

definition monitorRowsPerGroup :: nat where
  "monitorRowsPerGroup = 200"

definition newer_rows :: "MonitorRow list \<Rightarrow> MonitorRow \<Rightarrow> MonitorRow list" where
  "newer_rows rows w = filter (\<lambda>v. mw_group_id v = mw_group_id w \<and> mw_id v > mw_id w) rows"

text \<open>Both deletions run in one transaction; the count is that of the second one.\<close>

definition PruneGroupMonitorResults :: "gotime \<Rightarrow> MonitorRow list \<Rightarrow> MonitorRow list \<times> nat" where
  "PruneGroupMonitorResults cutoff rows =
     (let recent = filter (\<lambda>w. \<not> rfc3339nano (mw_created w) < rfc3339nano cutoff) rows;
          kept = filter (\<lambda>w. \<not> length (newer_rows recent w) \<ge> monitorRowsPerGroup) recent
      in (kept, length recent - length kept))"

section \<open>The monitor\<close>

text \<open>
  \<open>RunOnce\<close> reads the targets from one state of the database and saves the results into a later one;
  \<open>clocks\<close> gives the two clock readings of each evaluation. The results are saved in order up to the
  first error.
\<close>

fun save_results ::
  "gotime \<Rightarrow> GroupMonitorResult list \<Rightarrow> db \<Rightarrow> MonitorRow list \<Rightarrow> nat \<Rightarrow> MonitorRow list \<times> nat \<times> store_error option" where
  "save_results now [] db rows saved = (rows, saved, None)"
| "save_results now (r # rs) db rows saved =
     (case SaveGroupMonitorResult now r db rows of
        Inl e \<Rightarrow> (rows, saved, Some e)
      | Inr rows' \<Rightarrow> save_results now rs db rows' (saved + 1))"

definition evaluate_all ::
  "(int \<Rightarrow> gotime \<times> gotime) \<Rightarrow> (int \<Rightarrow> probe_error option) \<Rightarrow> string \<Rightarrow> GroupMonitorTarget list \<Rightarrow> GroupMonitorResult list" where
  "evaluate_all clocks probe trigger targets =
     map (\<lambda>t. case clocks (mt_GroupID t) of (started, finished) \<Rightarrow> evaluate started finished probe trigger t) targets"

definition Monitor_RunOnce ::
  "gotime \<Rightarrow> (int \<Rightarrow> gotime \<times> gotime) \<Rightarrow> (int \<Rightarrow> probe_error option) \<Rightarrow> string \<Rightarrow> db \<Rightarrow> db \<Rightarrow> MonitorRow list \<Rightarrow>
     MonitorRow list \<times> nat \<times> store_error option" where
  "Monitor_RunOnce now clocks probe trigger seen db rows =
     save_results now (evaluate_all clocks probe trigger (GroupMonitorTargets seen)) db rows 0"

definition RunGroup ::
  "gotime \<Rightarrow> gotime \<times> gotime \<Rightarrow> (int \<Rightarrow> probe_error option) \<Rightarrow> int \<Rightarrow> db \<Rightarrow> db \<Rightarrow> MonitorRow list \<Rightarrow>
     MonitorRow list \<times> (store_error + GroupMonitorResult)" where
  "RunGroup now clocks probe i seen db rows =
     (if i \<le> 0 then (rows, Inl (ErrText ''group ID is required''))
      else (case find (\<lambda>t. mt_GroupID t = i) (GroupMonitorTargets seen) of
              None \<Rightarrow> (rows, Inl (ErrText ''group does not exist''))
            | Some t \<Rightarrow>
                let r = evaluate (fst clocks) (snd clocks) probe ''manual'' t in
                (case SaveGroupMonitorResult now r db rows of Inl e \<Rightarrow> (rows, Inl e) | Inr rows' \<Rightarrow> (rows', Inr r))))"

section \<open>The table\<close>

definition monitor_table_ok :: "MonitorRow list \<Rightarrow> bool" where
  "monitor_table_ok rows \<longleftrightarrow> tbl_wf mw_id rows \<and> list_all (\<lambda>w. mw_failed w \<le> mw_total w) rows"

interpretation mon_tbl: keyed_table mw_id "\<lambda>i. mw_id_update (\<lambda>_. i)"
  by unfold_locales simp

lemma monitor_table_filter: "monitor_table_ok rows \<Longrightarrow> monitor_table_ok (filter P rows)"
  by (simp add: monitor_table_ok_def tbl_wf_filter list_all_iff)

lemma SaveGroupMonitorResult_Inr:
  "SaveGroupMonitorResult now r db rows = Inr rows' \<longleftrightarrow>
     0 < mo_GroupID r \<and> mo_FailedProviders r \<le> mo_TotalProviders r \<and> refers g_id (db_groups db) (mo_GroupID r) \<and>
     rows' = tbl_insert mw_id (\<lambda>i. mw_id_update (\<lambda>_. i)) (monitor_row now r) rows"
  by (auto simp: SaveGroupMonitorResult_def bind_result_Inr)

lemma SaveGroupMonitorResult_ok:
  assumes "monitor_table_ok rows" "SaveGroupMonitorResult now r db rows = Inr rows'"
  shows "monitor_table_ok rows'"
proof -
  have "tbl_wf mw_id rows'" using assms by (simp add: SaveGroupMonitorResult_Inr monitor_table_ok_def mon_tbl.wf_insert)
  with assms show ?thesis
    by (simp add: SaveGroupMonitorResult_Inr monitor_table_ok_def tbl_insert_def monitor_row_def)
qed

text \<open>The newest \<open>n\<close> rows of a table are its last \<open>n\<close>.\<close>

lemma newest_are_last:
  assumes "tbl_wf mw_id rows"
  shows "filter (\<lambda>w. length (filter (\<lambda>v. mw_id v > mw_id w) rows) < n) rows = drop (length rows - n) rows"
  using assms
proof (induction rows)
  case (Cons a rows)
  have newer_a: "filter (\<lambda>v. mw_id v > mw_id a) rows = rows" using Cons.prems by (auto simp: tbl_wf_def intro: filter_True)
  have "\<not> mw_id a > mw_id w" if "w \<in> set rows" for w using Cons.prems that by (auto simp: tbl_wf_def)
  then have "filter (\<lambda>w. length (filter (\<lambda>v. mw_id v > mw_id w) (a # rows)) < n) rows =
      filter (\<lambda>w. length (filter (\<lambda>v. mw_id v > mw_id w) rows) < n) rows"
    by (intro filter_cong refl) simp
  moreover have "tbl_wf mw_id rows" using Cons.prems by (simp add: tbl_wf_def)
  ultimately show ?case using Cons.IH by (cases "length rows < n") (simp_all add: newer_a Suc_diff_le)
qed simp

lemma prune_group_rows:
  assumes "monitor_table_ok rows"
  shows "filter (\<lambda>w. mw_group_id w = i) (fst (PruneGroupMonitorResults cutoff rows)) =
    (let mine = filter (\<lambda>w. mw_group_id w = i \<and> rfc3339nano cutoff \<le> rfc3339nano (mw_created w)) rows
     in drop (length mine - monitorRowsPerGroup) mine)"
proof -
  define recent where "recent = filter (\<lambda>w. \<not> rfc3339nano (mw_created w) < rfc3339nano cutoff) rows"
  define mine where "mine = filter (\<lambda>w. mw_group_id w = i) recent"
  have mine: "mine = filter (\<lambda>w. mw_group_id w = i \<and> rfc3339nano cutoff \<le> rfc3339nano (mw_created w)) rows"
    by (auto simp: mine_def recent_def not_less intro: filter_cong)
  have "filter (\<lambda>w. mw_group_id w = i) (filter (\<lambda>w. \<not> length (newer_rows recent w) \<ge> monitorRowsPerGroup) recent) =
      filter (\<lambda>w. length (filter (\<lambda>v. mw_id v > mw_id w) mine) < monitorRowsPerGroup) mine"
    by (auto simp: mine_def newer_rows_def not_le intro!: filter_cong)
  also have "\<dots> = drop (length mine - monitorRowsPerGroup) mine"
    using assms by (intro newest_are_last) (simp add: mine monitor_table_ok_def tbl_wf_filter)
  finally show ?thesis by (simp add: PruneGroupMonitorResults_def Let_def recent_def mine)
qed

lemma prune_table_ok: "monitor_table_ok rows \<Longrightarrow> monitor_table_ok (fst (PruneGroupMonitorResults cutoff rows))"
  by (simp add: PruneGroupMonitorResults_def Let_def monitor_table_filter)

section \<open>Rounds\<close>

lemma evaluate_group [simp]: "mo_GroupID (evaluate started finished probe trigger t) = mt_GroupID t"
  by (simp add: evaluate_def Let_def)

lemma length_failures: "length (probe_failures probe ps) \<le> length ps"
  by (induction ps) (auto simp: probe_failures_def split: option.splits)

lemma evaluate_counters:
  "mo_FailedProviders (evaluate started finished probe trigger t) \<le> mo_TotalProviders (evaluate started finished probe trigger t)"
  using length_failures[of probe "EnabledProviders t"] by (simp add: evaluate_def Let_def)

lemma save_results_all:
  assumes "\<forall>r\<in>set rs. 0 < mo_GroupID r \<and> mo_FailedProviders r \<le> mo_TotalProviders r \<and> refers g_id (db_groups db) (mo_GroupID r)"
  shows "\<exists>rows'. save_results now rs db rows n = (rows', n + length rs, None)"
  using assms
proof (induction rs arbitrary: rows n)
  case (Cons r rs)
  then obtain rows' where "SaveGroupMonitorResult now r db rows = Inr rows'" by (simp add: SaveGroupMonitorResult_Inr)
  moreover obtain rows'' where "save_results now rs db rows' (n + 1) = (rows'', n + 1 + length rs, None)" using Cons by fastforce
  ultimately show ?case by simp
qed simp

text \<open>A group that has disappeared since the targets were read stops the round: the results behind it are lost.\<close>

lemma save_results_stops:
  assumes "\<not> refers g_id (db_groups db) (mo_GroupID r)"
  shows "\<exists>e. save_results now (r # rs) db rows n = (rows, n, Some e)"
proof -
  have "\<nexists>rows'. SaveGroupMonitorResult now r db rows = Inr rows'" using assms by (simp add: SaveGroupMonitorResult_Inr)
  then obtain e where "SaveGroupMonitorResult now r db rows = Inl e" by (cases "SaveGroupMonitorResult now r db rows") auto
  then show ?thesis by simp
qed

lemma save_results_table_ok:
  "monitor_table_ok rows \<Longrightarrow> save_results now rs db rows n = (rows', m, e) \<Longrightarrow> monitor_table_ok rows'"
  by (induction rs arbitrary: rows n) (auto split: sum.splits dest: SaveGroupMonitorResult_ok)

section \<open>What the status means for the keys of a group\<close>

text \<open>The statuses that a probe cannot change are those of a group whose keys see no model.\<close>

definition out_of_service :: "string \<Rightarrow> bool" where
  "out_of_service status \<longleftrightarrow> status = GroupStatusDisabled \<or> status = GroupStatusConfigUnavailable"

lemma evaluate_out_of_service:
  "out_of_service (mo_Status (evaluate started finished probe trigger t)) \<longleftrightarrow> \<not> mt_Enabled t \<or> PricedModelCount t = 0"
proof -
  have "PricedModelCount t = 0" if "EnabledProviders t = []"
    using that by (auto simp: PricedModelCount_def EnabledProviders_def filter_empty_conv)
  then show ?thesis
    by (auto simp: evaluate_def Let_def out_of_service_def GroupStatusDisabled_def GroupStatusConfigUnavailable_def
        GroupStatusOK_def GroupStatusUpstreamUnreachable_def GroupStatusDegraded_def)
qed

lemma set_member_providers:
  assumes "wf_db db"
  shows "set (member_providers db i) = {p \<in> set (db_providers db). (i, p_id p) \<in> set (db_group_providers db)}"
proof -
  define pick where "pick j = (case tbl_find p_id j (db_providers db) of None \<Rightarrow> [] | Some p \<Rightarrow> [p])" for j
  have find: "x \<in> set (pick j) \<longleftrightarrow> x \<in> set (db_providers db) \<and> p_id x = j" for x j
  proof -
    have "x \<in> set (pick j) \<longleftrightarrow> tbl_find p_id j (db_providers db) = Some x"
      unfolding pick_def by (cases "tbl_find p_id j (db_providers db)") auto
    then show ?thesis by (simp only: tbl_find_iff[OF wf_dbD(7)[OF assms]])
  qed
  have "member_providers db i = concat (map pick (member_ids db i))" unfolding member_providers_def pick_def ..
  then show ?thesis by (auto simp: find member_ids_def)
qed

lemma PricedModelCount_pos:
  assumes "wf_db db"
  shows "PricedModelCount (monitor_target db g) > 0 \<longleftrightarrow>
    (\<exists>p m. (g_id g, p_id p) \<in> set (db_group_providers db) \<and> p \<in> set (db_providers db) \<and> p_enabled p \<and>
       m \<in> set (priced_models db (p_id p)))"
proof -
  have "PricedModelCount (monitor_target db g) > 0 \<longleftrightarrow>
      (\<exists>p\<in>set (member_providers db (g_id g)). p_enabled p \<and> priced_models db (p_id p) \<noteq> [])"
    by (auto simp: PricedModelCount_def monitor_target_def monitor_provider_def sum_list_eq_0_iff neq0_conv[symmetric] simp del: neq0_conv)
  moreover have "priced_models db i \<noteq> [] \<longleftrightarrow> (\<exists>m. m \<in> set (priced_models db i))" for i
    by (cases "priced_models db i") auto
  ultimately show ?thesis by (auto simp only: set_member_providers[OF assms] mem_Collect_eq)
qed

text \<open>Authorisation of a bound key reads exactly the models the monitor counts.\<close>

lemma authorized_models_counted:
  assumes wf: "wf_db db" and k: "k \<in> set (db_keys db)" "k_group_id k = Some (g_id g)" and g: "g \<in> set (db_groups db)"
  shows "queryAuthorizedModels (\<lambda>r. k_id r = k_id k) db = [] \<longleftrightarrow> \<not> g_enabled g \<or> PricedModelCount (monitor_target db g) = 0"
proof -
  have keys: "r = k" if "r \<in> set (db_keys db)" "k_id r = k_id k" for r
    using tbl_wf_inj[OF wf_dbD(4)[OF wf]] that k(1) by blast
  have groups: "h = g" if "h \<in> set (db_groups db)" "g_id h = g_id g" for h
    using tbl_wf_inj[OF wf_dbD(6)[OF wf]] that g by blast
  have *: "m \<in> set (authorizedModelsSelect (\<lambda>r. k_id r = k_id k) db) \<longleftrightarrow>
      g_enabled g \<and> (\<exists>p\<in>set (db_providers db). (g_id g, p_id p) \<in> set (db_group_providers db) \<and> p_enabled p \<and> m \<in> set (priced_models db (p_id p)))" for m
  proof -
    have "(\<exists>r\<in>set (db_keys db). \<exists>h\<in>set (db_groups db). k_id r = k_id k \<and> k_group_id r = Some (g_id h) \<and> Q h) \<longleftrightarrow> Q g" for Q
      using k g keys groups by (metis option.inject)
    then show ?thesis unfolding set_authorizedModelsSelect priced_models_def list_ex_iff by auto (metis (no_types))
  qed
  have "authorizedModelsSelect (\<lambda>r. k_id r = k_id k) db = [] \<longleftrightarrow> (\<nexists>m. m \<in> set (authorizedModelsSelect (\<lambda>r. k_id r = k_id k) db))"
    by (cases "authorizedModelsSelect (\<lambda>r. k_id r = k_id k) db") auto
  also have "\<dots> \<longleftrightarrow> \<not> (g_enabled g \<and> PricedModelCount (monitor_target db g) > 0)"
    unfolding * PricedModelCount_pos[OF wf] by blast
  finally have "authorizedModelsSelect (\<lambda>r. k_id r = k_id k) db = [] \<longleftrightarrow> \<not> g_enabled g \<or> PricedModelCount (monitor_target db g) = 0" by simp
  moreover have "queryAuthorizedModels P db = [] \<longleftrightarrow> authorizedModelsSelect P db = []" for P
    by (metis queryAuthorizedModels_def set_empty set_remdups set_sort)
  ultimately show ?thesis by simp
qed

end
