(* ===== verification/Monitor_Claims.thy ===== *)
theory Monitor_Claims
  imports Monitor Sample_World
begin

text \<open>
  Properties of the group monitor: its verdict agrees with what the keys of the group are shown, its
  table stays bounded without losing the newest results, and a round ends at the first result it
  cannot save.
\<close>

text \<open>
  A monitoring round reports a group as disabled or wrongly configured exactly when a client key
  bound to the group is shown no model at all, whatever the upstreams answer to the probes.
\<close>

lemma monitor_agrees_with_authorisation:
  assumes "store_reachable db" "g \<in> set (db_groups db)" "k \<in> set (db_keys db)" "k_group_id k = Some (g_id g)"
  shows "out_of_service (mo_Status (evaluate started finished probe trigger (monitor_target db g))) \<longleftrightarrow>
    AuthorizedModelsForKey (k_id k) db = Inr []"
proof -
  have wf: "wf_db db" using store_reachable_inv[OF assms(1)] by simp
  have "0 < k_id k" using tbl_wf_pos[OF wf_dbD(4)[OF wf] assms(3)] .
  then show ?thesis
    using authorized_models_counted[OF wf assms(3,4,2)]
    by (simp add: evaluate_out_of_service AuthorizedModelsForKey_def bind_result_def reject_when_def monitor_target_def)
qed

text \<open>
  Pruning the monitoring history keeps, of every group, exactly its newest 200 results that are not
  older than the cut-off, in their order, and leaves the table well formed.
\<close>

lemma monitor_history_bounded:
  assumes "monitor_table_ok rows" "PruneGroupMonitorResults cutoff rows = (rows', n)"
  shows "monitor_table_ok rows' \<and>
    (let mine = filter (\<lambda>w. mw_group_id w = i \<and> rfc3339nano cutoff \<le> rfc3339nano (mw_created w)) rows;
         kept = filter (\<lambda>w. mw_group_id w = i) rows'
     in kept = drop (length mine - 200) mine \<and> length kept \<le> 200)"
  using prune_table_ok[OF assms(1), of cutoff] prune_group_rows[OF assms(1), of i cutoff] assms(2)
  by (simp add: Let_def monitorRowsPerGroup_def)

definition sample_result :: "int \<Rightarrow> gotime \<Rightarrow> MonitorRow" where
  "sample_result i t = \<lparr>mw_id = i, mw_group_id = 1, mw_status = GroupStatusOK, mw_detail = DetailAllReachable 1, mw_total = 1,
     mw_failed = 0, mw_latency = 7, mw_trigger = ''auto'', mw_created = t\<rparr>"

text \<open>
  \<open>RunOnce\<close> answers an error and saves nothing of the groups behind one that has been deleted while
  the round was probing, although every group was evaluated.
\<close>

lemma monitor_round_loses_results:
  assumes "GroupMonitorTargets seen = t # ts" "\<not> refers g_id (db_groups db) (mt_GroupID t)"
  shows "\<exists>e. Monitor_RunOnce now clocks probe trigger seen db rows = (rows, 0, Some e)"
  using save_results_stops[of db "evaluate (fst (clocks (mt_GroupID t))) (snd (clocks (mt_GroupID t))) probe trigger t"] assms
  by (simp add: Monitor_RunOnce_def evaluate_all_def case_prod_beta)

text \<open>While the groups stay, a round saves one result per group.\<close>

lemma monitor_round_complete:
  assumes "wf_db seen" "\<forall>g\<in>set (db_groups seen). refers g_id (db_groups db) (g_id g)"
  shows "\<exists>rows'. Monitor_RunOnce now clocks probe trigger seen db rows = (rows', length (db_groups seen), None)"
proof -
  have "\<forall>r\<in>set (evaluate_all clocks probe trigger (GroupMonitorTargets seen)).
      0 < mo_GroupID r \<and> mo_FailedProviders r \<le> mo_TotalProviders r \<and> refers g_id (db_groups db) (mo_GroupID r)"
    using assms tbl_wf_pos[OF wf_dbD(6)[OF assms(1)]] evaluate_counters
    by (auto simp: evaluate_all_def GroupMonitorTargets_def monitor_target_def case_prod_beta)
  from save_results_all[OF this, of now rows 0] show ?thesis
    by (simp add: Monitor_RunOnce_def evaluate_all_def GroupMonitorTargets_def)
qed

end
