(* ===== verification/Json_Decode.thy ===== *)
theory Json_Decode
  imports Go_Value
begin

text \<open>
  \<open>encoding/json\<close> into the structures of the source. A parsed document is a \<open>gval\<close> whose numbers are
  their literals (\<open>VNumber\<close>). A member is matched by name without regard to case (ASCII names only); of
  several members with one name the last wins; \<open>null\<close> leaves a plain field as it was and clears a
  pointer. A member of the wrong type fails the whole decoding. Documents that give a field of list
  type twice are outside this model: Go then reuses the first list's elements.
\<close>

definition object_members :: "gval \<Rightarrow> gmap option" where
  "object_members v = (case v of VNil \<Rightarrow> Some [] | VMap m \<Rightarrow> Some m | _ \<Rightarrow> None)"

definition occurrences :: "gmap \<Rightarrow> string \<Rightarrow> gval list" where
  "occurrences m name = map snd (filter (\<lambda>(k, v). to_lower k = to_lower name) m)"

definition plain_field :: "(gval \<Rightarrow> 'a option) \<Rightarrow> 'a \<Rightarrow> gmap \<Rightarrow> string \<Rightarrow> 'a option" where
  "plain_field conv zero m name =
     (let vs = filter (\<lambda>v. \<not> is_nil v) (occurrences m name) in
      if list_ex (\<lambda>v. conv v = None) vs then None else if vs = [] then Some zero else conv (last vs))"

definition pointer_field :: "(gval \<Rightarrow> 'a option) \<Rightarrow> gmap \<Rightarrow> string \<Rightarrow> 'a option option" where
  "pointer_field conv m name =
     (let vs = occurrences m name in
      if list_ex (\<lambda>v. \<not> is_nil v \<and> conv v = None) vs then None
      else if vs = [] \<or> is_nil (last vs) then Some None else map_option Some (conv (last vs)))"

definition json_string :: "gval \<Rightarrow> string option" where
  "json_string v = (case v of VString s \<Rightarrow> Some s | _ \<Rightarrow> None)"

definition json_bool :: "gval \<Rightarrow> bool option" where
  "json_bool v = (case v of VBool b \<Rightarrow> Some b | _ \<Rightarrow> None)"

text \<open>An integer field takes an integer literal of the 64-bit range only.\<close>

definition json_int :: "gval \<Rightarrow> int option" where
  "json_int v = (case v of VNumber s \<Rightarrow> ParseInt s | _ \<Rightarrow> None)"

text \<open>\<open>parse\<close> is \<open>strconv.ParseFloat\<close>; a literal out of range is an error.\<close>

definition json_float :: "(string \<Rightarrow> rat option) \<Rightarrow> gval \<Rightarrow> rat option" where
  "json_float parse v = (case v of VNumber s \<Rightarrow> parse s | _ \<Rightarrow> None)"

fun json_all :: "(gval \<Rightarrow> 'a option) \<Rightarrow> 'a \<Rightarrow> gval list \<Rightarrow> 'a list option" where
  "json_all conv zero [] = Some []"
| "json_all conv zero (v # vs) =
     Option.bind (if is_nil v then Some zero else conv v) (\<lambda>a. map_option ((#) a) (json_all conv zero vs))"

definition json_list :: "(gval \<Rightarrow> 'a option) \<Rightarrow> 'a \<Rightarrow> gval \<Rightarrow> 'a list option" where
  "json_list conv zero v = (case v of VList vs \<Rightarrow> json_all conv zero vs | _ \<Rightarrow> None)"

abbreviation string_field :: "gmap \<Rightarrow> string \<Rightarrow> string option" where
  "string_field m name \<equiv> plain_field json_string [] m name"

abbreviation int_field :: "gmap \<Rightarrow> string \<Rightarrow> int option" where
  "int_field m name \<equiv> plain_field json_int 0 m name"

abbreviation bool_field :: "gmap \<Rightarrow> string \<Rightarrow> bool option" where
  "bool_field m name \<equiv> plain_field json_bool False m name"

abbreviation int_pointer :: "gmap \<Rightarrow> string \<Rightarrow> int option option" where
  "int_pointer m name \<equiv> pointer_field json_int m name"

abbreviation bool_pointer :: "gmap \<Rightarrow> string \<Rightarrow> bool option option" where
  "bool_pointer m name \<equiv> pointer_field json_bool m name"

abbreviation string_pointer :: "gmap \<Rightarrow> string \<Rightarrow> string option option" where
  "string_pointer m name \<equiv> pointer_field json_string m name"

definition struct_of :: "(gmap \<Rightarrow> 'a option) \<Rightarrow> gval \<Rightarrow> 'a option" where
  "struct_of members v = Option.bind (object_members v) members"

text \<open>\<open>json.NewDecoder(r.Body).Decode(&v)\<close>: \<open>None\<close> is a body that is no JSON document.\<close>

definition decode_body :: "(gmap \<Rightarrow> 'a option) \<Rightarrow> gval option \<Rightarrow> 'a option" where
  "decode_body members body = Option.bind body (struct_of members)"

text \<open>A decoded field is its zero value or the conversion of a member.\<close>

lemma plain_field_value: "plain_field conv zero m name = Some a \<Longrightarrow> a = zero \<or> (\<exists>v. conv v = Some a)"
  by (auto simp: plain_field_def Let_def split: if_splits)

end
