(* ===== verification/Registry.thy ===== *)
theory Registry
  imports Json_Decode Native Sample_World "HOL-Library.Multiset"
begin

text \<open>
  The cache of upstream clients (relay/providers.go) and the automatic import of upstream models
  (relay/sync.go). A client is built from the provider's row once and kept; the store announces a change
  of address, credential or protocol with a callback that runs after the change has been committed. The
  registry's mutex is held from the first read of a lookup to the insertion, while writers of the
  database go on: a lookup is two steps of the machine below.
\<close>

section \<open>Lookups\<close>

datatype registry_error = RegStore store_error | RegText string | RegUpstream go_error

definition from_store :: "store_error + 'a \<Rightarrow> registry_error + 'a" where
  "from_store r = (case r of Inl e \<Rightarrow> Inl (RegStore e) | Inr v \<Rightarrow> Inr v)"

definition from_upstream :: "go_error + 'a \<Rightarrow> registry_error + 'a" where
  "from_upstream r = (case r of Inl e \<Rightarrow> Inl (RegUpstream e) | Inr v \<Rightarrow> Inr v)"

record lookup_env =
  le_net :: netlib
  le_box :: Box
  le_options :: Options

type_synonym clients = "int \<Rightarrow> Client option"

definition read_provider :: "lookup_env \<Rightarrow> int \<Rightarrow> db \<Rightarrow> registry_error + ProviderView" where
  "read_provider ev i db =
     bind_result (from_store (GetProvider (le_box ev) i db)) (\<lambda>pv.
     bind_result (reject_when (\<not> pv_Enabled pv) (RegText ''provider is disabled'')) (\<lambda>_. Inr pv))"

definition build_client :: "lookup_env \<Rightarrow> int \<Rightarrow> ProviderView \<Rightarrow> db \<Rightarrow> registry_error + Client" where
  "build_client ev i pv db =
     bind_result (from_store (ProviderAPIKey (le_box ev) i db)) (\<lambda>key.
     Inr (NewWithProtocol (le_net ev) (pv_BaseURL pv) key (pv_Protocol pv) (le_options ev)))"

text \<open>The whole of \<open>forProvider\<close> when nothing writes to the database meanwhile.\<close>

definition forProvider :: "lookup_env \<Rightarrow> int \<Rightarrow> db \<Rightarrow> clients \<Rightarrow> clients \<times> (registry_error + Client)" where
  "forProvider ev i db cs =
     (case cs i of
        Some c \<Rightarrow> (cs, Inr c)
      | None \<Rightarrow>
          (case bind_result (read_provider ev i db) (\<lambda>pv. build_client ev i pv db) of
             Inl e \<Rightarrow> (cs, Inl e) | Inr c \<Rightarrow> (cs(i \<mapsto> c), Inr c)))"

definition EvictProvider :: "int \<Rightarrow> clients \<Rightarrow> clients" where
  "EvictProvider i cs = cs(i := None)"

section \<open>Catalogues\<close>

definition parseModelCatalog :: "gval option \<Rightarrow> registry_error + string list" where
  "parseModelCatalog doc =
     (case decode_body (\<lambda>m. plain_field (json_list (struct_of (\<lambda>item. string_field item ''id'')) []) [] m ''data'') doc of
        None \<Rightarrow> Inl (RegText ''decode model catalog'')
      | Some ids \<Rightarrow> Inr (filter (\<lambda>i. i \<noteq> []) ids))"

definition PreviewModels ::
  "lookup_env \<Rightarrow> json_transport \<Rightarrow> int \<Rightarrow> db \<Rightarrow> clients \<Rightarrow> clients \<times> (registry_error + string list)" where
  "PreviewModels ev tr i db cs =
     (case forProvider ev i db cs of (cs', r) \<Rightarrow>
        (cs', bind_result r (\<lambda>c.
              bind_result (from_upstream (Client_ListModels tr c)) (\<lambda>data. parseModelCatalog (tr_unmarshal_any tr data)))))"

fun import_names :: "int \<Rightarrow> string \<Rightarrow> string list \<Rightarrow> db \<Rightarrow> string list \<Rightarrow> db \<times> (registry_error + string list)" where
  "import_names i prefix [] db imported = (db, Inr imported)"
| "import_names i prefix (item # items) db imported =
     (let name = prefix @ ''/'' @ item in
      case GetModelByPublicName name db of
        Inr _ \<Rightarrow> import_names i prefix items db imported
      | Inl _ \<Rightarrow>
          (case CreateImportedModel \<lparr>nm_ProviderID = i, nm_PublicName = name, nm_UpstreamName = item, nm_InputPrice = None,
                 nm_OutputPrice = None, nm_CachedPrice = None, nm_Enabled = False\<rparr> db of
             Inl e \<Rightarrow> (db, Inl (RegStore e))
           | Inr (db', _) \<Rightarrow> import_names i prefix items db' (imported @ [name])))"

definition SyncProvider ::
  "lookup_env \<Rightarrow> json_transport \<Rightarrow> int \<Rightarrow> db \<Rightarrow> clients \<Rightarrow> db \<times> clients \<times> (registry_error + string list)" where
  "SyncProvider ev tr i db cs =
     (case PreviewModels ev tr i db cs of (cs', r) \<Rightarrow>
        (case bind_result r (\<lambda>names. bind_result (from_store (GetProvider (le_box ev) i db)) (\<lambda>pv. Inr (names, pv))) of
           Inl e \<Rightarrow> (db, cs', Inl e)
         | Inr (names, pv) \<Rightarrow> (case import_names i (pv_Name pv) names db [] of (db', res) \<Rightarrow> (db', cs', res))))"

section \<open>The synchroniser\<close>

record SyncSummary =
  su_Providers :: nat
  su_Imported :: nat
  su_Failed :: nat

text \<open>\<open>ModelSyncer.RunOnce\<close>: one pass over the providers it has read; \<open>tr i\<close> is the network during the call for provider \<open>i\<close>.\<close>

fun sync_pass ::
  "lookup_env \<Rightarrow> (int \<Rightarrow> json_transport) \<Rightarrow> ProviderView list \<Rightarrow> db \<Rightarrow> clients \<Rightarrow> SyncSummary \<Rightarrow> db \<times> clients \<times> SyncSummary" where
  "sync_pass ev tr [] db cs su = (db, cs, su)"
| "sync_pass ev tr (p # ps) db cs su =
     (if \<not> pv_Enabled p then sync_pass ev tr ps db cs su
      else (case SyncProvider ev (tr (pv_ID p)) (pv_ID p) db cs of
              (db', cs', Inl _) \<Rightarrow>
                sync_pass ev tr ps db' cs' (su\<lparr>su_Providers := su_Providers su + 1, su_Failed := su_Failed su + 1\<rparr>)
            | (db', cs', Inr imported) \<Rightarrow>
                sync_pass ev tr ps db' cs' (su\<lparr>su_Providers := su_Providers su + 1, su_Imported := su_Imported su + length imported\<rparr>)))"

definition no_sync :: SyncSummary where
  "no_sync = \<lparr>su_Providers = 0, su_Imported = 0, su_Failed = 0\<rparr>"

definition Syncer_RunOnce :: "lookup_env \<Rightarrow> (int \<Rightarrow> json_transport) \<Rightarrow> db \<Rightarrow> clients \<Rightarrow> db \<times> clients \<times> SyncSummary" where
  "Syncer_RunOnce ev tr db cs = sync_pass ev tr (ListProviders (le_box ev) db) db cs no_sync"

section \<open>Importing changes nothing that is served\<close>

text \<open>What an import may do to the database: append models that are disabled and have no price.\<close>

definition inactive :: "Model \<Rightarrow> bool" where
  "inactive m \<longleftrightarrow> \<not> m_enabled m \<and> m_input_price m = None \<and> m_output_price m = None \<and> m_cached_price m = None"

definition only_imports :: "db \<Rightarrow> db \<Rightarrow> bool" where
  "only_imports db db' \<longleftrightarrow> (\<exists>ms. list_all inactive ms \<and> db' = db\<lparr>db_models := db_models db @ ms\<rparr>)"

lemma only_imports_refl: "only_imports db db"
  unfolding only_imports_def by (rule exI[of _ "[]"]) simp

lemma only_imports_trans: "only_imports db1 db2 \<Longrightarrow> only_imports db2 db3 \<Longrightarrow> only_imports db1 db3"
  unfolding only_imports_def by (elim exE, rule_tac x = "ms @ msa" in exI) auto

lemma import_one:
  assumes "CreateImportedModel nm db = Inr (db', v)"
  shows "only_imports db db'"
proof -
  define m where "m = \<lparr>m_id = tbl_next m_id (db_models db), m_provider_id = nm_ProviderID nm, m_public_name = nm_PublicName nm,
    m_upstream_name = nm_UpstreamName nm, m_input_price = None, m_output_price = None, m_cached_price = None, m_enabled = False\<rparr>"
  have "db' = db\<lparr>db_models := db_models db @ [m]\<rparr>"
    using assms by (auto simp: CreateImportedModel_def insert_model_def bind_result_Inr tbl_insert_def m_def)
  moreover have "list_all inactive [m]" by (simp add: inactive_def m_def)
  ultimately show ?thesis unfolding only_imports_def by blast
qed

lemma import_names_only: "import_names i prefix items db imported = (db', r) \<Longrightarrow> only_imports db db'"
proof (induction i prefix items db imported rule: import_names.induct)
  case (2 i prefix item items db imported)
  show ?case
    using 2 by (fastforce simp: Let_def only_imports_refl split: sum.splits intro: only_imports_trans import_one)
qed (simp add: only_imports_refl)

lemma import_names_wf: "import_names i prefix items db imported = (db', r) \<Longrightarrow> wf_db db \<Longrightarrow> wf_db db'"
proof (induction i prefix items db imported rule: import_names.induct)
  case (2 i prefix item items db imported)
  show ?case using 2 by (fastforce simp: Let_def split: sum.splits intro: CreateImportedModel_wf)
qed simp

lemma SyncProvider_only: "SyncProvider ev tr i db cs = (db', cs', r) \<Longrightarrow> only_imports db db'"
  by (auto simp: SyncProvider_def only_imports_refl split: prod.splits sum.splits dest: import_names_only)

lemma SyncProvider_wf: "SyncProvider ev tr i db cs = (db', cs', r) \<Longrightarrow> wf_db db \<Longrightarrow> wf_db db'"
  by (auto simp: SyncProvider_def split: prod.splits sum.splits dest: import_names_wf)

lemma sync_pass_only:
  "sync_pass ev tr ps db cs su = (db', cs', su') \<Longrightarrow> only_imports db db'"
proof (induction ps arbitrary: db cs su)
  case (Cons p ps)
  then show ?case
    by (auto simp: only_imports_refl split: if_splits prod.splits sum.splits intro: only_imports_trans dest: SyncProvider_only)
qed (simp add: only_imports_refl)

lemma sync_pass_wf:
  "sync_pass ev tr ps db cs su = (db', cs', su') \<Longrightarrow> wf_db db \<Longrightarrow> wf_db db'"
  by (induction ps arbitrary: db cs su) (auto split: if_splits prod.splits sum.splits dest: SyncProvider_wf)

text \<open>Every enabled provider is visited, whatever the ones before it answered.\<close>

lemma sync_pass_visits:
  "sync_pass ev tr ps db cs su = (db', cs', su') \<Longrightarrow> su_Providers su' = su_Providers su + length (filter pv_Enabled ps)"
  by (induction ps arbitrary: db cs su) (auto split: if_splits prod.splits sum.splits)

lemma only_imports_authorized:
  assumes "only_imports db db'"
  shows "authorizedModelsSelect P db' = authorizedModelsSelect P db"
proof -
  obtain ms where ms: "list_all inactive ms" "db' = db\<lparr>db_models := db_models db @ ms\<rparr>" using assms by (auto simp: only_imports_def)
  have none: "concat (map (\<lambda>m. if m_provider_id m = j \<and> m_enabled m \<and> m_input_price m \<noteq> None \<and> m_output_price m \<noteq> None \<and>
      list_ex (\<lambda>p. p_id p = m_provider_id m \<and> p_enabled p) ps then [m] else []) ms) = []" for j ps
    using ms(1) by (induction ms) (auto simp: inactive_def)
  show ?thesis by (simp add: authorizedModelsSelect_def ms(2) none del: not_None_eq)
qed

end
