(* ===== verification/Registry_Cache.thy ===== *)
theory Registry_Cache
  imports Registry
begin

text \<open>
  The client cache among concurrent writers. A lookup reads the row (\<open>read\<close>) and later builds and keeps
  the client (\<open>keep\<close> or \<open>give_up\<close>) under one mutex; a write commits first and its callback takes the
  mutex afterwards (\<open>evict\<close>), any number of steps later. A client that no eviction is outstanding for
  is the one the current row would give.
\<close>

section \<open>The machine\<close>

record cache_world =
  cw_db :: db
  cw_clients :: clients
  cw_pending :: "int multiset"
  cw_lookup :: "(int \<times> ProviderView) option"

inductive cache_step :: "lookup_env \<Rightarrow> cache_world \<Rightarrow> cache_world \<Rightarrow> bool" for ev :: lookup_env where
  read: "cw_lookup w = None \<Longrightarrow> cw_clients w i = None \<Longrightarrow> read_provider ev i (cw_db w) = Inr pv \<Longrightarrow>
    cache_step ev w (w\<lparr>cw_lookup := Some (i, pv)\<rparr>)"
| keep: "cw_lookup w = Some (i, pv) \<Longrightarrow> build_client ev i pv (cw_db w) = Inr c \<Longrightarrow>
    cache_step ev w (w\<lparr>cw_lookup := None, cw_clients := (cw_clients w)(i \<mapsto> c)\<rparr>)"
| give_up: "cw_lookup w = Some (i, pv) \<Longrightarrow> build_client ev i pv (cw_db w) = Inl e \<Longrightarrow> cache_step ev w (w\<lparr>cw_lookup := None\<rparr>)"
| create: "CreateProvider net nonce (le_box ev) np (cw_db w) = Inr (db', pv) \<Longrightarrow> cache_step ev w (w\<lparr>cw_db := db'\<rparr>)"
| update: "UpdateProvider net nonce (le_box ev) i up (cw_db w) = Inr (db', pv, ids) \<Longrightarrow>
    cache_step ev w (w\<lparr>cw_db := db', cw_pending := cw_pending w + mset ids\<rparr>)"
| delete: "DeleteProvider i (cw_db w) = Inr (db', ids) \<Longrightarrow>
    cache_step ev w (w\<lparr>cw_db := db', cw_pending := cw_pending w + mset ids\<rparr>)"
| other: "store_step (cw_db w) db' \<Longrightarrow> db_providers db' = db_providers (cw_db w) \<Longrightarrow> cache_step ev w (w\<lparr>cw_db := db'\<rparr>)"
| evict: "cw_lookup w = None \<Longrightarrow> i \<in># cw_pending w \<Longrightarrow>
    cache_step ev w (w\<lparr>cw_clients := EvictProvider i (cw_clients w), cw_pending := cw_pending w - {#i#}\<rparr>)"

inductive cache_reachable :: "lookup_env \<Rightarrow> cache_world \<Rightarrow> bool" for ev :: lookup_env where
  start: "store_reachable db \<Longrightarrow> cache_reachable ev \<lparr>cw_db = db, cw_clients = (\<lambda>_. None), cw_pending = {#}, cw_lookup = None\<rparr>"
| step: "cache_reachable ev w \<Longrightarrow> cache_step ev w w' \<Longrightarrow> cache_reachable ev w'"

section \<open>Cached clients are current\<close>

text \<open>What a client is built from.\<close>

definition connection :: "int \<Rightarrow> db \<Rightarrow> (string \<times> string \<times> string) option" where
  "connection i db = map_option (\<lambda>p. (p_base_url p, p_protocol p, p_cipher p)) (tbl_find p_id i (db_providers db))"

definition client_of :: "lookup_env \<Rightarrow> string \<times> string \<times> string \<Rightarrow> Client option" where
  "client_of ev con = (case con of (base, protocol, cipher) \<Rightarrow>
     (case Open_box (le_box ev) cipher of Inl _ \<Rightarrow> None | Inr key \<Rightarrow> Some (NewWithProtocol (le_net ev) base key protocol (le_options ev))))"

definition cached_ok :: "lookup_env \<Rightarrow> db \<Rightarrow> int \<Rightarrow> Client \<Rightarrow> bool" where
  "cached_ok ev db i c \<longleftrightarrow> (\<exists>con. connection i db = Some con \<and> client_of ev con = Some c)"

lemma cached_ok_iff:
  "cached_ok ev db i c \<longleftrightarrow> (\<exists>p key. tbl_find p_id i (db_providers db) = Some p \<and> Open_box (le_box ev) (p_cipher p) = Inr key \<and>
     c = NewWithProtocol (le_net ev) (p_base_url p) key (p_protocol p) (le_options ev))"
  by (cases "tbl_find p_id i (db_providers db)") (auto simp: cached_ok_def connection_def client_of_def split: sum.splits)

definition view_ok :: "db \<Rightarrow> int \<Rightarrow> ProviderView \<Rightarrow> bool" where
  "view_ok db i pv \<longleftrightarrow> (\<exists>cipher. connection i db = Some (pv_BaseURL pv, pv_Protocol pv, cipher))"

definition cache_inv :: "lookup_env \<Rightarrow> cache_world \<Rightarrow> bool" where
  "cache_inv ev w \<longleftrightarrow> wf_db (cw_db w) \<and>
     (\<forall>i. i \<notin># cw_pending w \<longrightarrow>
        (\<forall>c. cw_clients w i = Some c \<longrightarrow> cached_ok ev (cw_db w) i c) \<and>
        (\<forall>pv. cw_lookup w = Some (i, pv) \<longrightarrow> view_ok (cw_db w) i pv))"

text \<open>A write keeps the connection of every provider it announces no eviction for.\<close>

definition keeps_connections :: "int list \<Rightarrow> db \<Rightarrow> db \<Rightarrow> bool" where
  "keeps_connections ids db db' \<longleftrightarrow> (\<forall>i con. i \<notin> set ids \<longrightarrow> connection i db = Some con \<longrightarrow> connection i db' = Some con)"

lemma CreateProvider_connections: "CreateProvider net nonce box np db = Inr (db', pv) \<Longrightarrow> keeps_connections [] db db'"
  by (auto simp: CreateProvider_def Let_def bind_result_Inr keeps_connections_def connection_def prov.find_insert_old)

lemma UpdateProvider_connections:
  assumes "UpdateProvider net nonce box i up db = Inr (db', pv, ids)"
  shows "keeps_connections ids db db'"
proof -
  obtain p p' where p: "tbl_find p_id i (db_providers db) = Some p" "updated_provider net nonce box up p = Inr p'"
    and db': "db' = db\<lparr>db_providers := tbl_update p_id i (\<lambda>_. p') (db_providers db)\<rparr>"
    and ids: "ids = (if trim_space (up_APIKey up) \<noteq> [] \<or> p_base_url p' \<noteq> p_base_url p \<or> p_protocol p' \<noteq> p_protocol p then [i] else [])"
    using assms by (auto simp: UpdateProvider_def Let_def bind_result_Inr)
  have cipher: "p_cipher p' = p_cipher p" if "trim_space (up_APIKey up) = []"
    using p(2) that by (auto simp: updated_provider_def Let_def bind_result_Inr)
  have id: "p_id p' = i" using updated_provider_id[OF p(2)] tbl_find_Some[OF p(1)] by simp
  have find: "tbl_find p_id j (db_providers db') = (if j = i then Some p' else tbl_find p_id j (db_providers db))" for j
  proof -
    have "tbl_find p_id j (tbl_update p_id i (\<lambda>_. p') rows) =
        (if j = i then map_option (\<lambda>_. p') (tbl_find p_id i rows) else tbl_find p_id j rows)" for rows
      using id by (induction rows) (auto simp: tbl_find_def tbl_update_def)
    then show ?thesis using p(1) by (simp add: db')
  qed
  show ?thesis using p(1) cipher by (auto simp: keeps_connections_def connection_def find ids split: if_splits)
qed

lemma DeleteProvider_connections:
  assumes "DeleteProvider i db = Inr (db', ids)"
  shows "keeps_connections ids db db'"
proof -
  have "db_providers db' = tbl_delete p_id i (db_providers db)" "ids = [i]"
    using assms by (auto simp: DeleteProvider_def delete_provider_row_def Let_def bind_result_Inr delete_models_frame split: if_splits)
  then show ?thesis by (auto simp: keeps_connections_def connection_def tbl_find_delete)
qed

lemma cache_inv_write:
  assumes "cache_inv ev w" "keeps_connections ids (cw_db w) db'" "wf_db db'"
  shows "cache_inv ev (w\<lparr>cw_db := db', cw_pending := cw_pending w + mset ids\<rparr>)"
  using assms unfolding cache_inv_def keeps_connections_def cached_ok_def view_ok_def by (auto 0 3)

lemma cache_inv_step: "cache_step ev w w' \<Longrightarrow> cache_inv ev w \<Longrightarrow> cache_inv ev w'"
proof (induction rule: cache_step.induct)
  case (read w i pv)
  have "view_ok (cw_db w) i pv"
    using read(3) by (auto simp: read_provider_def from_store_def GetProvider_def bind_result_Inr provider_view_def view_ok_def connection_def
        require_some_def split: sum.splits option.splits)
  with read show ?case by (auto simp: cache_inv_def)
next
  case (keep w i pv c)
  have "cached_ok ev (cw_db w) i c" if "view_ok (cw_db w) i pv"
    using keep(2) that
    by (auto simp: build_client_def from_store_def ProviderAPIKey_def bind_result_Inr require_some_def view_ok_def connection_def
        cached_ok_iff split: sum.splits option.splits)
  with keep show ?case by (auto simp: cache_inv_def)
next
  case (create net nonce np w db' pv)
  have "wf_db db'" using create CreateProvider_wf by (auto simp: cache_inv_def)
  with cache_inv_write[OF create(2) CreateProvider_connections[OF create(1)]] show ?case by simp
next
  case (update net nonce i up w db' pv ids)
  have "wf_db db'" using update UpdateProvider_wf by (auto simp: cache_inv_def)
  then show ?case by (rule cache_inv_write[OF update(2) UpdateProvider_connections[OF update(1)]])
next
  case (delete i w db' ids)
  have "wf_db db'" using delete DeleteProvider_wf by (auto simp: cache_inv_def)
  then show ?case by (rule cache_inv_write[OF delete(2) DeleteProvider_connections[OF delete(1)]])
next
  case (other w db')
  have "wf_db db'" using other store_step_wf by (auto simp: cache_inv_def)
  moreover have "keeps_connections [] (cw_db w) db'" using other(2) by (simp add: keeps_connections_def connection_def)
  ultimately show ?case using cache_inv_write[OF other(3), of "[]" db'] by simp
next
  case (evict w i)
  then show ?case by (auto simp: cache_inv_def EvictProvider_def in_diff_count)
qed (auto simp: cache_inv_def)

lemma cache_reachable_inv: "cache_reachable ev w \<Longrightarrow> cache_inv ev w"
proof (induction rule: cache_reachable.induct)
  case (start db)
  then show ?case using store_reachable_inv by (auto simp: cache_inv_def)
qed (rule cache_inv_step)

text \<open>An undisturbed lookup is a run of the machine.\<close>

lemma forProvider_run:
  assumes "cw_lookup w = None" "forProvider ev i (cw_db w) (cw_clients w) = (cs, Inr c)"
  shows "(cache_step ev)\<^sup>*\<^sup>* w (w\<lparr>cw_clients := cs\<rparr>)"
proof (cases "cw_clients w i")
  case (Some c0)
  then have "cs = cw_clients w" using assms(2) by (simp add: forProvider_def)
  then show ?thesis by (cases w) simp
next
  case None
  then obtain pv where pv: "read_provider ev i (cw_db w) = Inr pv" "build_client ev i pv (cw_db w) = Inr c" and cs: "cs = (cw_clients w)(i \<mapsto> c)"
    using assms(2) by (auto simp: forProvider_def bind_result_Inr split: sum.splits)
  define w1 where "w1 = w\<lparr>cw_lookup := Some (i, pv)\<rparr>"
  have "cache_step ev w w1" unfolding w1_def by (rule read[OF assms(1) None pv(1)])
  moreover have "cache_step ev w1 (w1\<lparr>cw_lookup := None, cw_clients := (cw_clients w1)(i \<mapsto> c)\<rparr>)"
    by (rule keep[of w1 i pv]) (simp_all add: w1_def, rule pv(2))
  moreover have "w1\<lparr>cw_lookup := None, cw_clients := (cw_clients w1)(i \<mapsto> c)\<rparr> = w\<lparr>cw_clients := cs\<rparr>"
    using assms(1) by (simp add: w1_def cs)
  ultimately show ?thesis by (metis converse_rtranclp_into_rtranclp rtranclp.rtrancl_refl)
qed

end
