(* ===== verification/Registry_Claims.thy ===== *)
theory Registry_Claims
  imports Registry_Cache
begin

text \<open>
  Properties of the client cache and of the automatic import: the cache is indistinguishable from
  building every client anew, and an import never changes what a client key can call.
\<close>

section \<open>The cache\<close>

text \<open>
  C36: The client registry refines one that builds a client from the database at every lookup: whatever
  interleaving of lookups, provider changes and evictions led here, once no eviction is outstanding for a
  provider that is enabled or does not exist, looking it up gives exactly the client (or the error) that
  building it from the current row gives.
\<close>

theorem registry_refines_rebuild:
  assumes "cache_reachable ev w" "i \<notin># cw_pending w"
    and "case tbl_find p_id i (db_providers (cw_db w)) of None \<Rightarrow> True | Some p \<Rightarrow> p_enabled p"
  shows "snd (forProvider ev i (cw_db w) (cw_clients w)) =
    bind_result (read_provider ev i (cw_db w)) (\<lambda>pv. build_client ev i pv (cw_db w))"
proof (cases "cw_clients w i")
  case None
  then show ?thesis by (simp add: forProvider_def split: sum.splits)
next
  case (Some c)
  have "cached_ok ev (cw_db w) i c" using cache_reachable_inv[OF assms(1)] assms(2) Some by (simp add: cache_inv_def)
  then obtain p key where "tbl_find p_id i (db_providers (cw_db w)) = Some p" "Open_box (le_box ev) (p_cipher p) = Inr key"
      "c = NewWithProtocol (le_net ev) (p_base_url p) key (p_protocol p) (le_options ev)"
    by (auto simp: cached_ok_iff)
  with assms(3) Some show ?thesis
    by (simp add: forProvider_def read_provider_def build_client_def from_store_def GetProvider_def ProviderAPIKey_def
        bind_result_def require_some_def reject_when_def provider_view_def)
qed

definition sample_options :: Options where
  "sample_options = \<lparr>op_ConnectTimeout = 10, op_HeaderTimeout = 0, op_ReadTimeout = 300, op_WriteTimeout = 30, op_PoolTimeout = 10,
     op_IdleTimeout = 0, op_UserAgent = [], op_UpstreamSessionHeader = []\<rparr>"

definition sample_lookup :: lookup_env where
  "sample_lookup = \<lparr>le_net = sample_net, le_box = sample_box, le_options = sample_options\<rparr>"

definition sample_client :: Client where
  "sample_client = NewWithProtocol sample_net ''https://h'' ''sk'' ''openai'' sample_options"

lemma sample_open: "Open_box sample_box (b64_encode (replicate 12 CHR ''n'' @ ''sk'' @ ''t'')) = Inr ''sk''"
  by code_simp

lemma sample_lookup_client: "forProvider sample_lookup 1 db_k (\<lambda>_. None) = ((\<lambda>_. None)(1 \<mapsto> sample_client), Inr sample_client)"
  using sample_open
  by (simp add: forProvider_def read_provider_def build_client_def from_store_def GetProvider_def ProviderAPIKey_def
      bind_result_def require_some_def reject_when_def provider_view_def sample_lookup_def sample_dbs tbl_find_def sample_client_def)

definition cached_world :: cache_world where
  "cached_world = \<lparr>cw_db = db_k, cw_clients = (\<lambda>_. None)(1 \<mapsto> sample_client), cw_pending = {#}, cw_lookup = None\<rparr>"

lemma cached_world_reachable: "cache_reachable sample_lookup cached_world"
proof -
  define w where "w = \<lparr>cw_db = db_k, cw_clients = (\<lambda>_. None), cw_pending = {#}, cw_lookup = None\<rparr>"
  have r: "cache_reachable ev w" if "(cache_step ev)\<^sup>*\<^sup>* w0 w" "cache_reachable ev w0" for ev w0 w
    using that by (induction rule: rtranclp_induct) (auto intro: cache_reachable.step)
  have "(cache_step sample_lookup)\<^sup>*\<^sup>* w (w\<lparr>cw_clients := (\<lambda>_. None)(1 \<mapsto> sample_client)\<rparr>)"
    by (rule forProvider_run[where i = 1]) (simp_all add: w_def sample_lookup_client)
  moreover have "w\<lparr>cw_clients := (\<lambda>_. None)(1 \<mapsto> sample_client)\<rparr> = cached_world" by (simp add: w_def cached_world_def)
  ultimately show ?thesis using r cache_reachable.start[OF reach_db_k, of sample_lookup] by (simp add: w_def)
qed

theorem registry_refines_rebuild_witness:
  "cw_clients cached_world 1 = Some sample_client \<and>
   bind_result (read_provider sample_lookup 1 db_k) (\<lambda>pv. build_client sample_lookup 1 pv db_k) = Inr sample_client"
proof -
  have "snd (forProvider sample_lookup 1 (cw_db cached_world) (cw_clients cached_world)) =
      bind_result (read_provider sample_lookup 1 (cw_db cached_world)) (\<lambda>pv. build_client sample_lookup 1 pv (cw_db cached_world))"
    by (rule registry_refines_rebuild[OF cached_world_reachable]) (simp_all add: cached_world_def sample_dbs tbl_find_def)
  then show ?thesis by (simp add: cached_world_def forProvider_def)
qed

text \<open>
  Disabling a provider announces no eviction: the error \<open>provider is disabled\<close> depends on whether a
  client was cached before.
\<close>

lemma disabled_provider_served:
  assumes "cache_reachable ev w" "cw_clients w i = Some c" "GetProvider (le_box ev) i (cw_db w) = Inr pv" "\<not> pv_Enabled pv"
  shows "snd (forProvider ev i (cw_db w) (cw_clients w)) = Inr c"
    and "snd (forProvider ev i (cw_db w) ((cw_clients w)(i := None))) = Inl (RegText ''provider is disabled'')"
  using assms by (simp_all add: forProvider_def read_provider_def from_store_def bind_result_def reject_when_def)

section \<open>Automatic imports\<close>

text \<open>
  C37: One pass of the automatic model synchronisation visits every enabled provider, even after failures,
  and only adds models that are disabled and have no price: the database stays well formed, every other
  table is untouched, and every client key is shown exactly the models it was shown before.
\<close>

theorem sync_changes_nothing_served:
  assumes "wf_db db" "Syncer_RunOnce ev tr db cs = (db', cs', su)"
  shows "wf_db db' \<and> (\<exists>ms. list_all inactive ms \<and> db' = db\<lparr>db_models := db_models db @ ms\<rparr>) \<and>
    AuthorizedModelsForKey k db' = AuthorizedModelsForKey k db \<and>
    su_Providers su = length (filter p_enabled (db_providers db))"
proof -
  have pass: "sync_pass ev tr (ListProviders (le_box ev) db) db cs no_sync = (db', cs', su)" using assms(2) by (simp add: Syncer_RunOnce_def)
  note only = sync_pass_only[OF pass]
  have "filter pv_Enabled (ListProviders (le_box ev) db) = map (provider_view (le_box ev)) (filter p_enabled (db_providers db))"
    by (simp add: ListProviders_def filter_map o_def provider_view_def)
  then have "su_Providers su = length (filter p_enabled (db_providers db))"
    using sync_pass_visits[OF pass] by (simp add: no_sync_def)
  moreover have "AuthorizedModelsForKey k db' = AuthorizedModelsForKey k db"
    by (simp add: AuthorizedModelsForKey_def queryAuthorizedModels_def only_imports_authorized[OF only])
  ultimately show ?thesis using sync_pass_wf[OF pass assms(1)] only by (simp add: only_imports_def)
qed

definition sample_transport :: json_transport where
  "sample_transport = \<lparr>tr_unmarshal = (\<lambda>_. None),
     tr_unmarshal_any = (\<lambda>_. Some (VMap [(''data'', VList [VMap [(''id'', VString ''m1'')], VMap [(''id'', VString [])]])])),
     tr_decode_items = (\<lambda>_ _. None), tr_marshal = (\<lambda>_. []), tr_order = [], tr_sha1 = (\<lambda>_. []), tr_session = [],
     tr_send = (\<lambda>_. \<lparr>ca_encodes = True, ca_newRequest = None, ca_ctx = CtxLive, ca_wroteRequest = True, ca_do = Inr (200, ''{}'', None)\<rparr>),
     tr_endctx = CtxLive\<rparr>"

lemma sample_sync:
  "\<exists>m. Syncer_RunOnce sample_lookup (\<lambda>_. sample_transport) db_k (\<lambda>_. None) =
     (db_k\<lparr>db_models := db_models db_k @ [m]\<rparr>, (\<lambda>_. None)(1 \<mapsto> sample_client), \<lparr>su_Providers = 1, su_Imported = 1, su_Failed = 0\<rparr>) \<and>
     m_public_name m = ''up/m1''"
proof -
  have list: "Client_ListModels sample_transport sample_client = Inr ''{}''" by code_simp
  have parse: "parseModelCatalog (tr_unmarshal_any sample_transport ''{}'') = Inr [''m1'']" by code_simp
  have preview: "PreviewModels sample_lookup sample_transport 1 db_k (\<lambda>_. None) = ((\<lambda>_. None)(1 \<mapsto> sample_client), Inr [''m1''])"
    by (simp add: PreviewModels_def sample_lookup_client bind_result_def from_upstream_def list parse)
  define pv where "pv = provider_view sample_box (hd (db_providers db_k))"
  have view: "GetProvider sample_box 1 db_k = Inr pv" "ListProviders sample_box db_k = [pv]"
      "pv_ID pv = 1" "pv_Name pv = ''up''" "pv_Enabled pv"
    by (simp_all add: GetProvider_def ListProviders_def bind_result_def require_some_def tbl_find_def sample_dbs pv_def provider_view_def)
  have "\<exists>m. import_names 1 ''up'' [''m1''] db_k [] = (db_k\<lparr>db_models := db_models db_k @ [m]\<rparr>, Inr [''up/m1'']) \<and> m_public_name m = ''up/m1''"
    by (simp add: GetModelByPublicName_def CreateImportedModel_def insert_model_def model_constraints_def bind_result_def require_some_def
        reject_when_def refers_def tbl_insert_def Let_def sample_dbs)
  then obtain m where m: "import_names 1 ''up'' [''m1''] db_k [] = (db_k\<lparr>db_models := db_models db_k @ [m]\<rparr>, Inr [''up/m1''])"
      "m_public_name m = ''up/m1''" by blast
  have box: "le_box sample_lookup = sample_box" by (simp add: sample_lookup_def)
  have "SyncProvider sample_lookup sample_transport 1 db_k (\<lambda>_. None) =
      (db_k\<lparr>db_models := db_models db_k @ [m]\<rparr>, (\<lambda>_. None)(1 \<mapsto> sample_client), Inr [''up/m1''])"
    by (simp add: SyncProvider_def preview view bind_result_def from_store_def box m(1) del: import_names.simps)
  then have "Syncer_RunOnce sample_lookup (\<lambda>_. sample_transport) db_k (\<lambda>_. None) =
     (db_k\<lparr>db_models := db_models db_k @ [m]\<rparr>, (\<lambda>_. None)(1 \<mapsto> sample_client), \<lparr>su_Providers = 1, su_Imported = 1, su_Failed = 0\<rparr>)"
    by (simp add: Syncer_RunOnce_def box view no_sync_def)
  with m(2) show ?thesis by blast
qed

theorem sync_changes_nothing_served_witness:
  "\<exists>db' cs su. Syncer_RunOnce sample_lookup (\<lambda>_. sample_transport) db_k (\<lambda>_. None) = (db', cs, su) \<and> length (db_models db') = 2 \<and>
     AuthorizedModelsForKey 1 db' = AuthorizedModelsForKey 1 db_k"
proof -
  obtain m where r: "Syncer_RunOnce sample_lookup (\<lambda>_. sample_transport) db_k (\<lambda>_. None) =
     (db_k\<lparr>db_models := db_models db_k @ [m]\<rparr>, (\<lambda>_. None)(1 \<mapsto> sample_client), \<lparr>su_Providers = 1, su_Imported = 1, su_Failed = 0\<rparr>)"
    using sample_sync by blast
  have wf: "wf_db db_k" using store_reachable_inv[OF reach_db_k] by simp
  have "length (db_models (db_k\<lparr>db_models := db_models db_k @ [m]\<rparr>)) = 2" by (simp add: sample_dbs)
  then show ?thesis using r sync_changes_nothing_served[OF wf r, of 1] by blast
qed

end
