(* ===== verification/Overview.thy ===== *)
theory Overview
  imports Complex_Main Request_Query Catalog "HOL-Library.Option_ord"
begin

text \<open>
  What the console shows of the ledger: \<open>GroupOverview\<close>, \<open>GroupUsageBuckets\<close> and \<open>Overview\<close> of
  store/ledger.go. The result maps are records with one field per key. \<open>rnd\<close> rounds an exact quotient
  to a \<open>float64\<close>. A counted status outside the five known ones is dropped, as in the code.
\<close>

section \<open>Counting requests\<close>

definition minute_ago :: "gotime \<Rightarrow> gotime" where
  "minute_ago now = now - 60000000000"

definition hour_ago :: "gotime \<Rightarrow> gotime" where
  "hour_ago now = now - hour_ns"

definition created_between :: "gotime \<Rightarrow> gotime \<Rightarrow> RequestRow \<Rightarrow> bool" where
  "created_between a b q \<longleftrightarrow> rfc3339nano a \<le> rfc3339nano (q_created q) \<and> rfc3339nano (q_created q) \<le> rfc3339nano b"

record outcomes =
  oc_completed :: nat
  oc_failed :: nat
  oc_aborted :: nat
  oc_rejected :: nat
  oc_reserved :: nat

definition count_status :: "string \<Rightarrow> RequestRow list \<Rightarrow> nat" where
  "count_status status rows = length (filter (\<lambda>q. q_status q = status) rows)"

definition outcome_counts :: "RequestRow list \<Rightarrow> outcomes" where
  "outcome_counts rows = \<lparr>oc_completed = count_status ''completed'' rows, oc_failed = count_status ''failed'' rows,
     oc_aborted = count_status ''aborted'' rows, oc_rejected = count_status ''rejected'' rows,
     oc_reserved = count_status ''reserved'' rows\<rparr>"

definition error_rate :: "(rat \<Rightarrow> rat) \<Rightarrow> outcomes \<Rightarrow> rat" where
  "error_rate rnd oc =
     (let denominator = oc_completed oc + oc_failed oc in
      if denominator > 0 then rnd (of_nat (oc_failed oc) / of_nat denominator) else 0)"

section \<open>One group\<close>

record window_view =
  wv_tokens :: int
  wv_limit :: int
  wv_amount :: int
  wv_amount_limit :: int

record group_overview =
  go_group_id :: int
  go_group_name :: string
  go_generated :: gotime
  go_rpm_used :: nat
  go_rpm_limit :: int
  go_five_hour :: window_view
  go_daily :: window_view
  go_weekly :: window_view
  go_weekly_active :: bool
  go_weekly_from :: zoned
  go_period :: window_view
  go_period_active :: bool
  go_period_range :: "(zoned \<times> zoned) option"
  go_period_transition :: "gotime option"
  go_last_hour :: outcomes
  go_error_rate :: rat
  go_active :: nat

definition in_5h_view :: "gotime \<Rightarrow> int \<Rightarrow> KeyReservation \<Rightarrow> bool" where
  "in_5h_view now groupID r \<longleftrightarrow> r_group_id r = groupID \<and>
     rfc3339nano (r_created r) \<ge> rfc3339nano (now - 5 * hour_ns) \<and> rfc3339nano (r_created r) \<le> rfc3339nano now"

definition in_period_view :: "platform \<Rightarrow> QuotaLimits \<Rightarrow> int \<Rightarrow> KeyReservation \<Rightarrow> bool" where
  "in_period_view plat limits groupID r \<longleftrightarrow> r_group_id r = groupID \<and> in_period_range plat limits r"

text \<open>Which window the weekly figures use: its start, whether the start is excluded, whether the period is in force, the hand-over.\<close>

definition overview_scope ::
  "platform \<Rightarrow> QuotaLimits \<Rightarrow> int \<Rightarrow> gotime \<Rightarrow> db \<Rightarrow> store_error + zoned \<times> bool \<times> bool \<times> gotime option" where
  "overview_scope plat limits groupID now db =
     (case weeklyWindowStart now limits of (weekStart, active) \<Rightarrow>
        if active then
          bind_result (periodQuotaTransition plat limits groupID now db) (\<lambda>(transition, _, _).
          if \<not> is_zero_time transition then Inr ((transition, 0), True, False, Some transition) else Inr (weekStart, False, True, None))
        else Inr (weekStart, False, False, None))"

definition rpm_of_group :: "platform \<Rightarrow> gotime \<Rightarrow> int \<Rightarrow> db \<Rightarrow> nat" where
  "rpm_of_group plat now groupID db =
     length (filter (\<lambda>q. q_group_id q = groupID \<and> julianday_ms plat (q_created q) \<ge> julianday_ms plat (minute_ago now) \<and>
        julianday_ms plat (q_created q) \<le> julianday_ms plat now) (db_requests db))"

definition window_of :: "int \<times> int \<Rightarrow> int \<Rightarrow> int \<Rightarrow> window_view" where
  "window_of used limit amountLimit = \<lparr>wv_tokens = fst used, wv_limit = limit, wv_amount = snd used, wv_amount_limit = amountLimit\<rparr>"

definition GroupOverview :: "platform \<Rightarrow> (rat \<Rightarrow> rat) \<Rightarrow> int \<Rightarrow> gotime \<Rightarrow> db \<Rightarrow> store_error + group_overview" where
  "GroupOverview plat rnd groupID now db =
     bind_result (reject_when (groupID \<le> 0) (ErrText ''group ID is required'')) (\<lambda>_.
     let found = tbl_find g_id groupID (db_groups db);
         limits = group_limits plat 0 found;
         mine = filter (\<lambda>q. q_group_id q = groupID) (db_requests db) in
     bind_result (windowUsage (in_5h_view now groupID) db) (\<lambda>five.
     bind_result (windowUsage (in_day (billingDate now) now groupID) db) (\<lambda>daily.
     bind_result (overview_scope plat limits groupID now db) (\<lambda>(weekStart, strict, periodActiveNow, transition).
     bind_result (windowUsage (in_week strict weekStart now groupID) db) (\<lambda>weekly.
     let hasPeriod = (PeriodDays limits > 0 \<and> \<not> is_zero_time (PeriodStart limits)) in
     bind_result (if hasPeriod then windowUsage (in_period_view plat limits groupID) db else Inr (0, 0)) (\<lambda>period.
     let oc = outcome_counts (filter (created_between (hour_ago now) now) mine) in
     Inr \<lparr>go_group_id = groupID, go_group_name = (case found of None \<Rightarrow> [] | Some g \<Rightarrow> g_name g), go_generated = now,
          go_rpm_used = rpm_of_group plat now groupID db, go_rpm_limit = RPMLimit limits,
          go_five_hour = window_of five (Token5H limits) (Amount5H limits),
          go_daily = window_of daily (TokenDaily limits) (AmountDaily limits),
          go_weekly = window_of weekly (TokenWeekly limits) (AmountWeekly limits),
          go_weekly_active = (\<not> periodActiveNow), go_weekly_from = weekStart,
          go_period = window_of period (TokenPeriod limits) (AmountPeriod limits), go_period_active = periodActiveNow,
          go_period_range = (if hasPeriod then Some ((PeriodStart limits, PeriodZone limits), (periodEnd limits, PeriodZone limits)) else None),
          go_period_transition = transition, go_last_hour = oc, go_error_rate = error_rate rnd oc,
          go_active = count_status ''reserved'' mine\<rparr>))))))"

section \<open>All groups\<close>

type_synonym buckets = "(int \<times> int \<times> int) list"

fun collect_buckets :: "(KeyReservation \<Rightarrow> bool) \<Rightarrow> db \<Rightarrow> int list \<Rightarrow> store_error + buckets" where
  "collect_buckets P db [] = Inr []"
| "collect_buckets P db (i # ids) =
     bind_result (windowUsage (\<lambda>r. P r \<and> r_group_id r = i) db) (\<lambda>used.
     bind_result (collect_buckets P db ids) (\<lambda>rest. Inr ((i, used) # rest)))"

definition load_buckets :: "(KeyReservation \<Rightarrow> bool) \<Rightarrow> db \<Rightarrow> store_error + buckets" where
  "load_buckets P db =
     collect_buckets P db (sort (remdups (map r_group_id (window_rows (\<lambda>r. P r \<and> r_group_id r > 0) db))))"

definition GroupUsageBuckets :: "gotime \<Rightarrow> db \<Rightarrow> store_error + buckets \<times> buckets \<times> buckets" where
  "GroupUsageBuckets now db =
     bind_result (load_buckets (\<lambda>r. rfc3339nano (r_created r) \<ge> rfc3339nano (now - 5 * hour_ns) \<and> rfc3339nano (r_created r) \<le> rfc3339nano now) db) (\<lambda>five.
     bind_result (load_buckets (\<lambda>r. r_billing_date r = billingDate now \<and> rfc3339nano (r_created r) \<le> rfc3339nano now) db) (\<lambda>daily.
     bind_result (load_buckets (\<lambda>r. rfc3339nano (r_created r) \<ge> rfc3339nano (billingWeekStart now) \<and> rfc3339nano (r_created r) \<le> rfc3339nano now) db) (\<lambda>weekly.
     Inr (five, daily, weekly))))"

text \<open>Reading a Go map: a missing group has the zero value.\<close>

definition bucket :: "buckets \<Rightarrow> int \<Rightarrow> int \<times> int" where
  "bucket bs i = (case map_of bs i of None \<Rightarrow> (0, 0) | Some used \<Rightarrow> used)"

section \<open>The whole relay\<close>

record TrendBucket =
  tb_StartedAt :: string
  tb_Count :: nat

record model_calls =
  mc_model_id :: "int option"
  mc_model :: string
  mc_count :: nat

record overview =
  ow_generated :: gotime
  ow_rpm_used :: nat
  ow_rpm_limit :: int
  ow_last_hour :: outcomes
  ow_error_rate :: rat
  ow_trend :: "TrendBucket list"
  ow_model_calls :: "model_calls list"
  ow_recent :: "RequestRow list"

definition RecentRequests :: "int \<Rightarrow> db \<Rightarrow> store_error + RequestRow list" where
  "RecentRequests limit db =
     bind_result (QueryRequests \<lparr>rf_RequestID = [], rf_Status = [], rf_Protocol = [], rf_ProviderID = 0, rf_ModelID = 0,
        rf_GroupID = 0, rf_KeyID = 0, rf_BeforeID = 0, rf_FromUTC = None, rf_ToUTC = None,
        rf_Limit = (if limit \<le> 0 \<or> limit > 50 then 50 else limit)\<rparr> db) (\<lambda>page. Inr (pg_Data page))"

text \<open>\<open>int(parsed.Sub(hourStart).Minutes() / 5)\<close>, clamped to the twelve buckets.\<close>

definition trend_index :: "(rat \<Rightarrow> rat) \<Rightarrow> int \<Rightarrow> nat" where
  "trend_index rnd d =
     (let minutes = rnd (of_int (d div 60000000000) + rnd (of_int (d mod 60000000000) / 60000000000))
      in nat (max 0 (min 11 \<lfloor>rnd (minutes / 5)\<rfloor>)))"

definition trend :: "platform \<Rightarrow> (rat \<Rightarrow> rat) \<Rightarrow> gotime \<Rightarrow> RequestRow list \<Rightarrow> TrendBucket list" where
  "trend plat rnd start rows =
     map (\<lambda>i. \<lparr>tb_StartedAt = format_rfc3339 plat (start + int i * 300000000000),
               tb_Count = length (filter (\<lambda>q. trend_index rnd (q_created q - start) = i) rows)\<rparr>) [0..<12]"

text \<open>The model name is joined by id; a request whose model is gone has none.\<close>

definition call_name :: "db \<Rightarrow> int option \<Rightarrow> string" where
  "call_name db i = (case i of None \<Rightarrow> [] | Some j \<Rightarrow> (case tbl_find m_id j (db_models db) of None \<Rightarrow> [] | Some m \<Rightarrow> m_public_name m))"

definition count_models :: "db \<Rightarrow> RequestRow list \<Rightarrow> model_calls list" where
  "count_models db rows =
     sort_key (\<lambda>c. - int (mc_count c))
       (map (\<lambda>i. \<lparr>mc_model_id = i, mc_model = call_name db i, mc_count = length (filter (\<lambda>q. q_model_id q = i) rows)\<rparr>)
          (sort (remdups (map q_model_id rows))))"

definition StoreOverview :: "platform \<Rightarrow> (rat \<Rightarrow> rat) \<Rightarrow> gotime \<Rightarrow> int \<Rightarrow> db \<Rightarrow> store_error + overview" where
  "StoreOverview plat rnd now rpmLimit db =
     (let hour = filter (created_between (hour_ago now) now) (db_requests db); oc = outcome_counts hour in
      bind_result (RecentRequests 10 db) (\<lambda>recent.
      Inr \<lparr>ow_generated = now, ow_rpm_used = length (filter (created_between (minute_ago now) now) (db_requests db)),
           ow_rpm_limit = rpmLimit, ow_last_hour = oc, ow_error_rate = error_rate rnd oc,
           ow_trend = trend plat rnd (hour_ago now) hour,
           ow_model_calls = count_models db (filter (created_between (now - day_ns) now) (db_requests db)), ow_recent = recent\<rparr>))"

section \<open>Lemmas\<close>

lemma collect_buckets_Inr:
  "collect_buckets P db ids = Inr bs \<Longrightarrow> map fst bs = ids \<and> (\<forall>(i, used)\<in>set bs. windowUsage (\<lambda>r. P r \<and> r_group_id r = i) db = Inr used)"
  by (induction ids arbitrary: bs) (auto simp: bind_result_Inr)

text \<open>The bucket of a group is its usage in the window, also when no row of it is in the window.\<close>

lemma bucket_usage:
  assumes "load_buckets P db = Inr bs" "0 < i"
  shows "windowUsage (\<lambda>r. P r \<and> r_group_id r = i) db = Inr (bucket bs i)"
proof (cases "map_of bs i")
  case (Some used)
  then have "(i, used) \<in> set bs" by (rule map_of_SomeD)
  with Some collect_buckets_Inr[OF assms(1)[unfolded load_buckets_def]] show ?thesis by (auto simp: bucket_def)
next
  case None
  then have "i \<notin> fst ` set bs" by (simp add: map_of_eq_None_iff)
  moreover have "fst ` set bs = set (map r_group_id (window_rows (\<lambda>r. P r \<and> r_group_id r > 0) db))"
    using collect_buckets_Inr[OF assms(1)[unfolded load_buckets_def]] by (metis list.set_map set_remdups set_sort)
  ultimately have "window_rows (\<lambda>r. P r \<and> r_group_id r = i) db = []"
    using assms(2) by (auto simp: window_rows_def filter_empty_conv)
  then show ?thesis using None by (simp add: bucket_def windowUsage_def sum_usage_def sum_by_def max_i64_def)
qed

text \<open>Counting by classes counts everything that has a class.\<close>

lemma class_split:
  "x \<notin> A \<Longrightarrow> length (filter (\<lambda>q. f q \<in> insert x A) rows) = length (filter (\<lambda>q. f q = x) rows) + length (filter (\<lambda>q. f q \<in> A) rows)"
  by (induction rows) auto

lemma sum_of_classes:
  "distinct xs \<Longrightarrow> sum_list (map (\<lambda>x. length (filter (\<lambda>q. f q = x) rows)) xs) = length (filter (\<lambda>q. f q \<in> set xs) rows)"
proof (induction xs)
  case (Cons x xs)
  then show ?case using class_split[of x "set xs" f rows] by simp
qed simp

text \<open>Every request of the last hour is in exactly one bucket of the trend.\<close>

lemma trend_total: "sum_list (map tb_Count (trend plat rnd start rows)) = length rows"
proof -
  have "sum_list (map tb_Count (trend plat rnd start rows)) = length (filter (\<lambda>q. trend_index rnd (q_created q - start) \<in> set [0..<12]) rows)"
    using sum_of_classes[of "[0..<12]" "\<lambda>q. trend_index rnd (q_created q - start)" rows] by (simp add: trend_def o_def)
  also have "filter (\<lambda>q. trend_index rnd (q_created q - start) \<in> set [0..<12]) rows = rows"
    by (rule filter_True) (auto simp: trend_index_def Let_def)
  finally show ?thesis .
qed

end
