(* ===== verification/Analytics.thy ===== *)
theory Analytics
  imports Overview
begin

text \<open>
  The dashboard's aggregation (store/analytics.go). A time slot is the number of its day or hour since
  1970, in UTC or in Beijing time; the code prints the same number in two fixed layouts. SQLite's
  \<open>strftime\<close> works on the Julian day of a timestamp in milliseconds. \<open>parse_date\<close> is
  \<open>time.ParseInLocation\<close> with the layout \<open>2006-01-02\<close>, as the number of the day.
\<close>

section \<open>The filter\<close>

record AnalyticsFilter =
  af_Days :: int
  af_FromDate :: string
  af_ToDate :: string
  af_Bucket :: string
  af_Metric :: string
  af_ModelID :: int
  af_ModelIDs :: "int list"
  af_Status :: string
  af_GroupID :: int

text \<open>The request after its defaults: days, hourly slots, metric, models, status, group, the interval, whether dates were given.\<close>

record analysis =
  an_days :: int
  an_hourly :: bool
  an_metric :: string
  an_models :: "int list"
  an_status :: string
  an_group :: int
  an_from :: gotime
  an_to :: gotime
  an_dated :: bool

definition known_status :: "string \<Rightarrow> bool" where
  "known_status s \<longleftrightarrow> s \<in> {[], ''all'', ''completed'', ''failed'', ''aborted'', ''rejected'', ''reserved''}"

definition analysis_bucket :: "string \<Rightarrow> int \<Rightarrow> store_error + bool" where
  "analysis_bucket raw days =
     (let b = (if raw = [] \<or> raw = ''auto'' then (if days \<le> 1 then ''hour'' else ''day'') else raw) in
      if b \<noteq> ''hour'' \<and> b \<noteq> ''day'' then Inl (ErrText ''bucket must be hour or day'') else Inr (b = ''hour''))"

definition analysis_models :: "AnalyticsFilter \<Rightarrow> store_error + int list" where
  "analysis_models f =
     bind_result (reject_when (af_ModelID f < 0) (ErrText ''model_id must be positive'')) (\<lambda>_.
     let ids = (if af_ModelIDs f = [] \<and> af_ModelID f > 0 then [af_ModelID f] else af_ModelIDs f) in
     bind_result (reject_when (length ids > 20) (ErrText ''at most 20 models may be selected'')) (\<lambda>_.
     bind_result (reject_when (list_ex (\<lambda>i. i \<le> 0) ids) (ErrText ''model_id must be positive'')) (\<lambda>_. Inr ids)))"

definition analysis_range ::
  "(string \<Rightarrow> int option) \<Rightarrow> gotime \<Rightarrow> int \<Rightarrow> string \<Rightarrow> string \<Rightarrow> store_error + gotime \<times> gotime \<times> int" where
  "analysis_range parse_date now days fromDate toDate =
     (if fromDate = [] \<and> toDate = [] then Inr (now - days * day_ns, now, days)
      else
        bind_result (reject_when (fromDate = [] \<or> toDate = []) (ErrText ''from_date and to_date must be provided together'')) (\<lambda>_.
        bind_result (require_some (parse_date fromDate) (ErrText ''from_date must use YYYY-MM-DD'')) (\<lambda>d1.
        bind_result (require_some (parse_date toDate) (ErrText ''to_date must use YYYY-MM-DD'')) (\<lambda>d2.
        let start = d1 * day_ns - beijingZone; final = d2 * day_ns - beijingZone in
        bind_result (reject_when (final < start \<or> final - start \<ge> 31 * day_ns) (ErrText ''date range must be between 1 and 31 days'')) (\<lambda>_.
        bind_result (reject_when (start > now) (ErrText ''date range cannot start in the future'')) (\<lambda>_.
        let stop = final + day_ns - 1 in
        Inr (start, if stop > now then now else stop, (final - start) div day_ns + 1)))))))"

definition analyse_filter :: "(string \<Rightarrow> int option) \<Rightarrow> gotime \<Rightarrow> AnalyticsFilter \<Rightarrow> store_error + analysis" where
  "analyse_filter parse_date now f =
     (let days = (if af_Days f = 0 then 30 else af_Days f) in
      bind_result (reject_when (days < 1 \<or> days > 30) (ErrText ''days must be between 1 and 30'')) (\<lambda>_.
      bind_result (analysis_bucket (af_Bucket f) days) (\<lambda>hourly.
      let metric = (if af_Metric f = [] then ''requests'' else af_Metric f) in
      bind_result (reject_when (metric \<notin> {''requests'', ''tokens'', ''amount''}) (ErrText ''metric must be requests, tokens or amount'')) (\<lambda>_.
      bind_result (analysis_models f) (\<lambda>models.
      bind_result (reject_when (\<not> known_status (af_Status f)) (ErrText ''unsupported status'')) (\<lambda>_.
      bind_result (analysis_range parse_date now days (af_FromDate f) (af_ToDate f)) (\<lambda>(start, stop, days').
      Inr \<lparr>an_days = days', an_hourly = hourly, an_metric = metric, an_models = models, an_status = af_Status f,
           an_group = af_GroupID f, an_from = start, an_to = stop, an_dated = (af_FromDate f \<noteq> [])\<rparr>)))))))"

section \<open>Slots\<close>

text \<open>The Julian day of the Unix epoch, in milliseconds.\<close>

definition epoch_julian_ms :: int where
  "epoch_julian_ms = 210866760000000"

definition slot_ms :: "bool \<Rightarrow> int" where
  "slot_ms hourly = (if hourly then 3600000 else 86400000)"

definition slot_ns :: "bool \<Rightarrow> int" where
  "slot_ns hourly = slot_ms hourly * 1000000"

definition zone_ns :: "bool \<Rightarrow> int" where
  "zone_ns dated = (if dated then beijingZone else 0)"

text \<open>The slot of a row, by \<open>strftime\<close>, and of an instant on the axis, by Go's calendar.\<close>

definition row_slot :: "platform \<Rightarrow> analysis \<Rightarrow> RequestRow \<Rightarrow> int" where
  "row_slot plat an q =
     (julianday_ms plat (q_created q) - epoch_julian_ms + zone_ns (an_dated an) div 1000000) div slot_ms (an_hourly an)"

definition axis_slot :: "analysis \<Rightarrow> gotime \<Rightarrow> int" where
  "axis_slot an t = (t + zone_ns (an_dated an)) div slot_ns (an_hourly an)"

definition axis :: "gotime \<Rightarrow> analysis \<Rightarrow> int list" where
  "axis now an = [axis_slot an (an_from an) .. axis_slot an (if an_dated an then an_to an else now)]"

section \<open>Aggregation\<close>

definition selected :: "analysis \<Rightarrow> RequestRow \<Rightarrow> bool" where
  "selected an q \<longleftrightarrow> created_between (an_from an) (an_to an) q \<and> (an_group an > 0 \<longrightarrow> q_group_id q = an_group an) \<and>
     (an_models an \<noteq> [] \<longrightarrow> (\<exists>i\<in>set (an_models an). q_model_id q = Some i)) \<and>
     (an_status an \<noteq> [] \<and> an_status an \<noteq> ''all'' \<longrightarrow> q_status q = an_status an)"

record metrics =
  me_requests :: nat
  me_tokens :: int
  me_amount :: int

definition request_tokens :: "RequestRow \<Rightarrow> int" where
  "request_tokens q = q_input_tokens q + q_output_tokens q"

definition aggregate :: "RequestRow list \<Rightarrow> metrics" where
  "aggregate rows = \<lparr>me_requests = length rows, me_tokens = sum_by request_tokens rows, me_amount = sum_by q_amount rows\<rparr>"

text \<open>SQLite's \<open>SUM\<close> fails when a group's total leaves the 64-bit range.\<close>

definition metrics_fit :: "metrics \<Rightarrow> bool" where
  "metrics_fit m \<longleftrightarrow> me_tokens m \<le> max_i64 \<and> me_amount m \<le> max_i64"

definition statuses :: "string list" where
  "statuses = [''completed'', ''failed'', ''aborted'', ''rejected'', ''reserved'']"

definition slot_cell :: "platform \<Rightarrow> analysis \<Rightarrow> RequestRow list \<Rightarrow> int \<Rightarrow> string \<Rightarrow> metrics" where
  "slot_cell plat an rows slot status = aggregate (filter (\<lambda>q. row_slot plat an q = slot \<and> q_status q = status) rows)"

record point =
  pt_time :: int
  pt_value :: int
  pt_cells :: "(string \<times> metrics) list"
  pt_tokens :: int
  pt_amount :: int

text \<open>Go adds the cells of a slot in \<open>int64\<close>; a request that is reserved or rejected has no share in tokens and amount.\<close>

definition billed_total :: "(metrics \<Rightarrow> int) \<Rightarrow> (string \<Rightarrow> metrics) \<Rightarrow> int" where
  "billed_total sel cell = wrap64 (wrap64 (sel (cell ''completed'') + sel (cell ''failed'')) + sel (cell ''aborted''))"

definition point_for :: "string \<Rightarrow> (string \<Rightarrow> metrics) \<Rightarrow> int \<Rightarrow> point" where
  "point_for metric cell slot =
     \<lparr>pt_time = slot,
      pt_value = (if metric = ''requests'' then foldl (\<lambda>v s. wrap64 (v + int (me_requests (cell s)))) 0 statuses
        else if metric = ''tokens'' then billed_total me_tokens cell
        else if metric = ''amount'' then billed_total me_amount cell else 0),
      pt_cells = map (\<lambda>s. (s, cell s)) statuses, pt_tokens = billed_total me_tokens cell, pt_amount = billed_total me_amount cell\<rparr>"

record model_usage =
  mu_model_id :: "int option"
  mu_model :: string
  mu_metrics :: metrics

definition usage_by_model :: "db \<Rightarrow> RequestRow list \<Rightarrow> model_usage list" where
  "usage_by_model db rows =
     sort_key (\<lambda>u. - int (me_requests (mu_metrics u)))
       (map (\<lambda>i. \<lparr>mu_model_id = i, mu_model = call_name db i, mu_metrics = aggregate (filter (\<lambda>q. q_model_id q = i) rows)\<rparr>)
          (sort (remdups (map q_model_id rows))))"

record analytics =
  al_filter :: analysis
  al_series :: "point list"
  al_models :: "model_usage list"

definition Analytics :: "platform \<Rightarrow> (string \<Rightarrow> int option) \<Rightarrow> gotime \<Rightarrow> AnalyticsFilter \<Rightarrow> db \<Rightarrow> store_error + analytics" where
  "Analytics plat parse_date now f db =
     bind_result (analyse_filter parse_date now f) (\<lambda>an.
     let rows = filter (selected an) (db_requests db); models = usage_by_model db rows in
     bind_result (reject_when (list_ex (\<lambda>q. \<not> metrics_fit (slot_cell plat an rows (row_slot plat an q) (q_status q))) rows) ErrIntegerOverflow) (\<lambda>_.
     bind_result (reject_when (list_ex (\<lambda>u. \<not> metrics_fit (mu_metrics u)) models) ErrIntegerOverflow) (\<lambda>_.
     Inr \<lparr>al_filter = an, al_series = map (\<lambda>slot. point_for (an_metric an) (slot_cell plat an rows slot) slot) (axis now an), al_models = models\<rparr>)))"

section \<open>The axis covers the rows\<close>

text \<open>A clock that does not round up: then a row's slot is that of its instant.\<close>

definition julianday_floors :: "platform \<Rightarrow> bool" where
  "julianday_floors plat \<longleftrightarrow> (\<forall>t. julianday_ms plat t = epoch_julian_ms + t div 1000000)"

lemma slot_ms_pos: "0 < slot_ms hourly"
  by (simp add: slot_ms_def)

lemma row_slot_floor:
  assumes "julianday_floors plat"
  shows "row_slot plat an q = axis_slot an (q_created q)"
proof -
  have "zone_ns d = zone_ns d div 1000000 * 1000000" for d by (simp add: zone_ns_def beijingZone_def hour_ns_def)
  then have "(t + zone_ns d) div (slot_ms h * 1000000) = (t div 1000000 + zone_ns d div 1000000) div slot_ms h" for t d h
    by (metis div_mult_self1 mult.commute slot_ms_pos zdiv_zmult2_eq less_imp_le zero_neq_numeral add.commute)
  then show ?thesis using assms by (simp add: row_slot_def axis_slot_def slot_ns_def julianday_floors_def add.assoc)
qed

text \<open>The text order of timestamps respects whole seconds, and slots begin at whole seconds.\<close>

lemma axis_slot_seconds: "axis_slot an t = (t div second_ns + zone_ns (an_dated an) div second_ns) div (slot_ns (an_hourly an) div second_ns)"
proof -
  have "zone_ns d = zone_ns d div second_ns * second_ns" for d by (simp add: zone_ns_def beijingZone_def hour_ns_def second_ns_def)
  moreover have "slot_ns h = second_ns * (slot_ns h div second_ns)" "0 < slot_ns h div second_ns" for h
    by (simp_all add: slot_ns_def slot_ms_def second_ns_def)
  moreover have "0 < second_ns" by (simp add: second_ns_def)
  ultimately show ?thesis unfolding axis_slot_def
    by (metis add.commute div_mult_self1 less_imp_le mult.commute not_less_iff_gr_or_eq zdiv_zmult2_eq)
qed

lemma created_between_slots:
  assumes "created_between a b q"
  shows "axis_slot an a \<le> axis_slot an (q_created q) \<and> axis_slot an (q_created q) \<le> axis_slot an b"
proof -
  have "a div second_ns \<le> q_created q div second_ns" "q_created q div second_ns \<le> b div second_ns"
    using assms by (auto simp: created_between_def rfc3339nano_def)
  moreover have "0 < slot_ns h div second_ns" for h by (simp add: slot_ns_def slot_ms_def second_ns_def)
  ultimately show ?thesis unfolding axis_slot_seconds by (auto intro!: zdiv_mono1)
qed

end
