(* ===== verification/Overview_Claims.thy ===== *)
theory Overview_Claims
  imports Analytics Ledger_Claims
begin

text \<open>
  Properties of the figures the console shows: they are the ones the quotas are checked against, and the
  dashboard's series accounts for every request.
\<close>

section \<open>The overview and the quotas\<close>

definition quota_of_view :: "string \<Rightarrow> ModelGroup \<Rightarrow> window_view \<Rightarrow> store_error + unit" where
  "quota_of_view scope g v = check_window scope g (wv_tokens v, wv_amount v) (wv_limit v) (wv_amount_limit v)"

lemma quota_of_window [simp]: "quota_of_view scope g (window_of used l a) = check_window scope g used l a"
  by (simp add: quota_of_view_def window_of_def)


















section \<open>The dashboard\<close>

lemma analyse_undated: "analyse_filter parse_date now f = Inr an \<Longrightarrow> \<not> an_dated an \<Longrightarrow> an_to an = now"
  by (auto simp: analyse_filter_def Let_def bind_result_Inr analysis_range_def split: if_splits)

lemma sum_list_of_nat: "sum_list (map (\<lambda>x. int (f x)) xs) = int (sum_list (map f xs))"
  by (induction xs) simp_all

lemma sum_list_sort_key: "sum_list (map f (sort_key k xs)) = sum_list (map (f :: 'a \<Rightarrow> nat) xs)"
  by (metis mset_map mset_sort sum_mset_sum_list)

lemma requests_value:
  assumes "length rows \<le> nat max_i64" "\<forall>q\<in>set rows. q_status q \<in> set statuses"
  shows "pt_value (point_for ''requests'' (slot_cell plat an rows slot) slot) = int (length (filter (\<lambda>q. row_slot plat an q = slot) rows))"
proof -
  define c where "c s = length (filter (\<lambda>q. row_slot plat an q = slot \<and> q_status q = s) rows)" for s
  have total: "sum_list (map c statuses) = length (filter (\<lambda>q. row_slot plat an q = slot) rows)"
  proof -
    have distinct: "distinct statuses" by (simp add: statuses_def)
    have "sum_list (map c statuses) = length (filter (\<lambda>q. q_status q \<in> set statuses) (filter (\<lambda>q. row_slot plat an q = slot) rows))"
      using sum_of_classes[OF distinct, of q_status "filter (\<lambda>q. row_slot plat an q = slot) rows"]
      by (simp only: c_def[abs_def] filter_filter conj_commute)
    also have "filter (\<lambda>q. q_status q \<in> set statuses) (filter (\<lambda>q. row_slot plat an q = slot) rows) = filter (\<lambda>q. row_slot plat an q = slot) rows"
      using assms(2) by (intro filter_True) simp
    finally show ?thesis .
  qed
  have "int (sum_list (map c statuses)) \<le> max_i64"
    using order_trans[OF length_filter_le assms(1), of "\<lambda>q. row_slot plat an q = slot"] by (simp only: total max_i64_def)
  then have "foldl (\<lambda>v s. wrap64 (v + int (c s))) 0 statuses = int (sum_list (map c statuses))"
    by (simp add: statuses_def wrap64_id in_i64_nonneg)
  then show ?thesis by (simp add: point_for_def slot_cell_def aggregate_def total flip: c_def)
qed

text \<open>
  The dashboard loses no request: with the request metric, the values of the series add up to the
  number of requests that match the filter, and so do the counts of the table by model, however the
  interval, the time zone and the width of the slots were chosen. (SQLite may round a timestamp to
  milliseconds; the hypothesis excludes a request that this moves into the next slot.)
\<close>

lemma analytics_counts_every_request:
  assumes run: "Analytics plat parse_date now f db = Inr res" and metric: "an_metric (al_filter res) = ''requests''"
    and clock: "\<forall>q\<in>set (db_requests db). row_slot plat (al_filter res) q = axis_slot (al_filter res) (q_created q)" and size: "length (db_requests db) \<le> nat max_i64"
    and status: "\<forall>q\<in>set (db_requests db). q_status q \<in> set statuses"
  shows "sum_list (map pt_value (al_series res)) = int (length (filter (selected (al_filter res)) (db_requests db))) \<and>
    sum_list (map (\<lambda>u. me_requests (mu_metrics u)) (al_models res)) = length (filter (selected (al_filter res)) (db_requests db))"
proof -
  define an where "an = al_filter res"
  define rows where "rows = filter (selected an) (db_requests db)"
  have an: "analyse_filter parse_date now f = Inr an"
    and series: "al_series res = map (\<lambda>slot. point_for (an_metric an) (slot_cell plat an rows slot) slot) (axis now an)"
    and models: "al_models res = usage_by_model db rows"
    using run by (auto simp: Analytics_def Let_def bind_result_Inr an_def rows_def)
  have "length rows \<le> length (db_requests db)" by (simp add: rows_def)
  with size have size': "length rows \<le> nat max_i64" by simp
  have status': "\<forall>q\<in>set rows. q_status q \<in> set statuses" using status by (simp add: rows_def)
  have slots: "row_slot plat an q \<in> set (axis now an)" if "q \<in> set rows" for q
    using that created_between_slots[of "an_from an" "an_to an" q an] analyse_undated[OF an] clock
    by (auto simp: rows_def selected_def axis_def an_def[symmetric])
  have "sum_list (map pt_value (al_series res)) = int (sum_list (map (\<lambda>slot. length (filter (\<lambda>q. row_slot plat an q = slot) rows)) (axis now an)))"
    using metric by (simp add: series requests_value[OF size' status'] an_def[symmetric] o_def sum_list_of_nat)
  also have "\<dots> = int (length (filter (\<lambda>q. row_slot plat an q \<in> set (axis now an)) rows))"
    by (subst sum_of_classes) (simp_all add: axis_def)
  also have "filter (\<lambda>q. row_slot plat an q \<in> set (axis now an)) rows = rows" using slots by (intro filter_True) blast
  finally have "sum_list (map pt_value (al_series res)) = int (length rows)" .
  moreover have "sum_list (map (\<lambda>u. me_requests (mu_metrics u)) (al_models res)) =
      sum_list (map (\<lambda>i. length (filter (\<lambda>q. q_model_id q = i) rows)) (sort (remdups (map q_model_id rows))))"
    unfolding models usage_by_model_def by (subst sum_list_sort_key) (simp add: aggregate_def o_def)
  then have "sum_list (map (\<lambda>u. me_requests (mu_metrics u)) (al_models res)) = length rows"
    by (subst (asm) sum_of_classes) simp_all
  ultimately show ?thesis by (simp add: rows_def an_def)
qed

end
