(* ===== verification/Plugins.thy ===== *)
theory Plugins
  imports Json_Decode Schema
begin

text \<open>
  Extension packages (plugin/manager.go) and their table (store/plugins.go). The directory tree is a map
  from paths, as lists of components, to contents; writes to it succeed. ZIP decoding, JSON parsing,
  SHA-256 and the WebAssembly engine are parameters.
\<close>

section \<open>Paths\<close>

type_synonym path = "string list"

type_synonym tree = "path \<Rightarrow> string option"

text \<open>\<open>filepath.Clean\<close> on the components of a slash-separated path.\<close>

fun clean_parts :: "bool \<Rightarrow> string list \<Rightarrow> string list \<Rightarrow> string list" where
  "clean_parts rooted [] acc = rev acc"
| "clean_parts rooted (c # cs) acc =
     (if c = [] \<or> c = ''.'' then clean_parts rooted cs acc
      else if c = ''..'' then
        (if acc \<noteq> [] \<and> hd acc \<noteq> ''..'' then clean_parts rooted cs (tl acc)
         else if rooted then clean_parts rooted cs acc
         else clean_parts rooted cs (''..'' # acc))
      else clean_parts rooted cs (c # acc))"

definition is_abs :: "string \<Rightarrow> bool" where
  "is_abs name \<longleftrightarrow> (case name of [] \<Rightarrow> False | c # _ \<Rightarrow> c = CHR ''/'')"

definition filepath_clean :: "string \<Rightarrow> string" where
  "filepath_clean name =
     (let text = join_with ''/'' (clean_parts (is_abs name) (split_on (CHR ''/'') name) []) in
      if is_abs name then CHR ''/'' # text else if text = [] then ''.'' else text)"

section \<open>Manifests\<close>

record Limits =
  li_MemoryBytes :: int
  li_Fuel :: int
  li_TimeoutMS :: int

record Manifest =
  ma_ID :: string
  ma_Name :: string
  ma_Version :: string
  ma_Description :: string
  ma_APIVersion :: int
  ma_Entrypoint :: string
  ma_Permissions :: "string list"
  ma_Limits :: Limits

definition APIVersion :: int where "APIVersion = 1"
definition MaxPackageBytes :: nat where "MaxPackageBytes = 67108864"
definition MaxManifestBytes :: nat where "MaxManifestBytes = 262144"
definition MaxWASMBytes :: nat where "MaxWASMBytes = 50331648"

definition lower_letter :: "char \<Rightarrow> bool" where
  "lower_letter c \<longleftrightarrow> CHR ''a'' \<le> c \<and> c \<le> CHR ''z''"

definition letter_or_digit :: "char \<Rightarrow> bool" where
  "letter_or_digit c \<longleftrightarrow> lower_letter c \<or> (CHR ''A'' \<le> c \<and> c \<le> CHR ''Z'') \<or> (CHR ''0'' \<le> c \<and> c \<le> CHR ''9'')"

definition pluginIDPattern :: "string \<Rightarrow> bool" where
  "pluginIDPattern s \<longleftrightarrow> 2 \<le> length s \<and> length s \<le> 64 \<and> lower_letter (hd s) \<and>
     list_all (\<lambda>c. lower_letter c \<or> (CHR ''0'' \<le> c \<and> c \<le> CHR ''9'') \<or> c \<in> set ''._-'') (tl s)"

definition pluginVersionPattern :: "string \<Rightarrow> bool" where
  "pluginVersionPattern s \<longleftrightarrow> 1 \<le> length s \<and> length s \<le> 32 \<and> letter_or_digit (hd s) \<and>
     list_all (\<lambda>c. letter_or_digit c \<or> c \<in> set ''._+-'') (tl s)"

text \<open>An unsigned field refuses a negative literal.\<close>

definition json_uint :: "gval \<Rightarrow> int option" where
  "json_uint v = (case v of VNumber s \<Rightarrow>
      if s \<noteq> [] \<and> list_all is_digit s \<and> dec_value s < 2 ^ 64 then Some (dec_value s) else None
    | _ \<Rightarrow> None)"

definition decode_limits :: "gmap \<Rightarrow> Limits option" where
  "decode_limits m =
     Option.bind (plain_field json_uint 0 m ''memory_bytes'') (\<lambda>memory.
     Option.bind (plain_field json_uint 0 m ''fuel'') (\<lambda>fuel.
     Option.bind (int_field m ''timeout_ms'') (\<lambda>timeout.
     Some \<lparr>li_MemoryBytes = memory, li_Fuel = fuel, li_TimeoutMS = timeout\<rparr>)))"

definition no_limits :: Limits where
  "no_limits = \<lparr>li_MemoryBytes = 0, li_Fuel = 0, li_TimeoutMS = 0\<rparr>"

definition decode_manifest :: "gmap \<Rightarrow> Manifest option" where
  "decode_manifest m =
     Option.bind (string_field m ''id'') (\<lambda>i.
     Option.bind (string_field m ''name'') (\<lambda>name.
     Option.bind (string_field m ''version'') (\<lambda>version.
     Option.bind (string_field m ''description'') (\<lambda>description.
     Option.bind (int_field m ''api_version'') (\<lambda>api.
     Option.bind (string_field m ''entrypoint'') (\<lambda>entry.
     Option.bind (plain_field (json_list json_string []) [] m ''permissions'') (\<lambda>permissions.
     Option.bind (plain_field (struct_of decode_limits) no_limits m ''limits'') (\<lambda>limits.
     Some \<lparr>ma_ID = i, ma_Name = name, ma_Version = version, ma_Description = description, ma_APIVersion = api,
           ma_Entrypoint = entry, ma_Permissions = permissions, ma_Limits = limits\<rparr>))))))))"

fun check_permissions :: "string list \<Rightarrow> string list \<Rightarrow> string list option" where
  "check_permissions seen [] = Some []"
| "check_permissions seen (p # ps) =
     (let p = trim_space p in
      if p = [] \<or> length p > 80 \<or> p \<in> set seen then None else map_option ((#) p) (check_permissions (p # seen) ps))"

definition parseManifest :: "(string \<Rightarrow> gval option) \<Rightarrow> string \<Rightarrow> string + Manifest" where
  "parseManifest json data =
     (case (if data = [] then None else decode_body decode_manifest (json data)) of
        None \<Rightarrow> Inl ''manifest.json is invalid JSON''
      | Some raw \<Rightarrow>
          let m = raw\<lparr>ma_ID := trim_space (ma_ID raw), ma_Name := trim_space (ma_Name raw), ma_Version := trim_space (ma_Version raw)\<rparr>;
              memory = (if li_MemoryBytes (ma_Limits m) = 0 then 16777216 else li_MemoryBytes (ma_Limits m));
              timeout = (if li_TimeoutMS (ma_Limits m) = 0 then 1000 else li_TimeoutMS (ma_Limits m)) in
          if \<not> pluginIDPattern (ma_ID m) \<or> ma_Name m = [] \<or> \<not> pluginVersionPattern (ma_Version m)
            then Inl ''manifest requires a valid id, name and version''
          else if ma_APIVersion m \<noteq> APIVersion then Inl ''unsupported plugin api_version''
          else if memory > 134217728 then Inl ''memory_bytes exceeds 128 MiB''
          else if timeout < 1 \<or> timeout > 30000 then Inl ''timeout_ms must be between 1 and 30000''
          else (case check_permissions [] (ma_Permissions m) of
                  None \<Rightarrow> Inl ''manifest permissions must be unique and non-empty''
                | Some ps \<Rightarrow> Inr (m\<lparr>ma_Limits := (ma_Limits m)\<lparr>li_MemoryBytes := memory, li_TimeoutMS := timeout\<rparr>, ma_Permissions := sort ps\<rparr>)))"

section \<open>The table\<close>

record Plugin =
  pl_ID :: string
  pl_Name :: string
  pl_Version :: string
  pl_Description :: string
  pl_PackagePath :: path
  pl_WASMHash :: string
  pl_ManifestJSON :: string
  pl_Permissions :: "string list"
  pl_Limits :: Limits
  pl_Enabled :: bool
  pl_Status :: string
  pl_LastError :: string
  pl_Installed :: gotime
  pl_Updated :: gotime
  pl_LastStarted :: "gotime option"
  pl_LastStopped :: "gotime option"
  pl_StartCount :: int
  pl_FailureCount :: int

definition GetPlugin :: "string \<Rightarrow> Plugin list \<Rightarrow> store_error + Plugin" where
  "GetPlugin i rows = require_some (find (\<lambda>p. pl_ID p = i) rows) ErrNoRows"

definition update_plugin :: "string \<Rightarrow> (Plugin \<Rightarrow> Plugin) \<Rightarrow> Plugin list \<Rightarrow> store_error + Plugin list" where
  "update_plugin i f rows =
     (if list_ex (\<lambda>p. pl_ID p = i) rows then Inr (map (\<lambda>p. if pl_ID p = i then f p else p) rows) else Inl ErrNoRows)"

definition upsert_row :: "Plugin \<Rightarrow> Plugin \<Rightarrow> Plugin" where
  "upsert_row new old = old\<lparr>pl_Name := pl_Name new, pl_Version := pl_Version new, pl_Description := pl_Description new,
     pl_PackagePath := pl_PackagePath new, pl_WASMHash := pl_WASMHash new, pl_ManifestJSON := pl_ManifestJSON new,
     pl_Permissions := pl_Permissions new, pl_Limits := pl_Limits new, pl_Updated := pl_Updated new,
     pl_Status := (if pl_Enabled old then pl_Status old else pl_Status new), pl_LastError := pl_LastError new\<rparr>"

definition UpsertPlugin :: "Plugin \<Rightarrow> Plugin list \<Rightarrow> store_error + Plugin list" where
  "UpsertPlugin p rows =
     bind_result (reject_when (pl_ID p = [] \<or> pl_PackagePath p = [] \<or> pl_WASMHash p = [])
       (ErrText ''plugin id, package path and wasm hash are required'')) (\<lambda>_.
     Inr (if list_ex (\<lambda>r. pl_ID r = pl_ID p) rows then map (\<lambda>r. if pl_ID r = pl_ID p then upsert_row p r else r) rows
          else rows @ [p]))"

definition ListPlugins :: "Plugin list \<Rightarrow> Plugin list" where
  "ListPlugins rows = sort_key (\<lambda>p. (pl_Name p, pl_ID p)) rows"

definition SetPluginEnabled :: "gotime \<Rightarrow> string \<Rightarrow> bool \<Rightarrow> string \<Rightarrow> string \<Rightarrow> Plugin list \<Rightarrow> store_error + Plugin list" where
  "SetPluginEnabled now i enabled status lastError rows =
     update_plugin i (\<lambda>p. p\<lparr>pl_Enabled := enabled, pl_Status := status, pl_LastError := lastError, pl_Updated := now\<rparr>) rows"

definition RecordPluginStart :: "gotime \<Rightarrow> string \<Rightarrow> string \<Rightarrow> string \<Rightarrow> Plugin list \<Rightarrow> store_error + Plugin list" where
  "RecordPluginStart now i status lastError rows =
     update_plugin i (\<lambda>p. p\<lparr>pl_Status := status, pl_LastError := lastError, pl_LastStarted := Some now, pl_Updated := now,
       pl_StartCount := pl_StartCount p + 1\<rparr>) rows"

definition RecordPluginStop :: "gotime \<Rightarrow> string \<Rightarrow> string \<Rightarrow> string \<Rightarrow> Plugin list \<Rightarrow> store_error + Plugin list" where
  "RecordPluginStop now i status lastError rows =
     update_plugin i (\<lambda>p. p\<lparr>pl_Status := status, pl_LastError := lastError, pl_LastStopped := Some now, pl_Updated := now\<rparr>) rows"

definition RecordPluginFailure :: "gotime \<Rightarrow> string \<Rightarrow> string \<Rightarrow> string \<Rightarrow> Plugin list \<Rightarrow> store_error + Plugin list" where
  "RecordPluginFailure now i status lastError rows =
     update_plugin i (\<lambda>p. p\<lparr>pl_Status := status, pl_LastError := lastError, pl_FailureCount := pl_FailureCount p + 1, pl_Updated := now\<rparr>) rows"

definition DeletePluginRow :: "string \<Rightarrow> Plugin list \<Rightarrow> store_error + Plugin list" where
  "DeletePluginRow i rows = (if list_ex (\<lambda>p. pl_ID p = i) rows then Inr (filter (\<lambda>p. pl_ID p \<noteq> i) rows) else Inl ErrNoRows)"

section \<open>The manager\<close>

record zip_entry =
  ze_name :: string
  ze_size :: nat
  ze_data :: "string option"

text \<open>What the manager calls: ZIP, JSON, SHA-256 in hexadecimal, and the WebAssembly engine (memory pages, timeout, module name, entry point, bytes).\<close>

record plugin_env =
  pe_now :: gotime
  pe_unzip :: "string \<Rightarrow> zip_entry list option"
  pe_json :: "string \<Rightarrow> gval option"
  pe_sha256 :: "string \<Rightarrow> string"
  pe_run :: "nat \<Rightarrow> int \<Rightarrow> string \<Rightarrow> string \<Rightarrow> string \<Rightarrow> string option"

record plugin_world =
  pw_root :: path
  pw_rows :: "Plugin list"
  pw_tree :: tree

definition wasm_magic :: "string \<Rightarrow> bool" where
  "wasm_magic data \<longleftrightarrow> take 8 data = [CHR 0x00, CHR ''a'', CHR ''s'', CHR ''m'', CHR 0x01, CHR 0x00, CHR 0x00, CHR 0x00]"

definition unsafe_name :: "string \<Rightarrow> bool" where
  "unsafe_name name \<longleftrightarrow> name = ''.'' \<or> has_prefix name ''../'' \<or> contains name ''/../'' \<or> is_abs name"

definition readZipFile :: "nat \<Rightarrow> zip_entry \<Rightarrow> string + string" where
  "readZipFile limit f =
     (case ze_data f of None \<Rightarrow> Inl ''zip entry cannot be read''
      | Some b \<Rightarrow> if length b > limit then Inl ''plugin file exceeds its size limit'' else Inr b)"

text \<open>The loop over the entries; the accumulators are the bytes of the manifest and of the module.\<close>

fun read_entries :: "zip_entry list \<Rightarrow> string \<Rightarrow> string \<Rightarrow> string + string \<times> string" where
  "read_entries [] manifest wasm = Inr (manifest, wasm)"
| "read_entries (f # fs) manifest wasm =
     (let name = filepath_clean (ze_name f) in
      if unsafe_name name then Inl ''plugin package contains an unsafe path''
      else if name = ''manifest.json'' then
        (if ze_size f > MaxManifestBytes then Inl ''manifest.json exceeds 256 KiB''
         else bind_result (readZipFile MaxManifestBytes f) (\<lambda>b. read_entries fs b wasm))
      else if name = ''module.wasm'' then
        (if ze_size f > MaxWASMBytes then Inl ''module.wasm exceeds 48 MiB''
         else bind_result (readZipFile MaxWASMBytes f) (\<lambda>b. read_entries fs manifest b))
      else read_entries fs manifest wasm)"

record Package =
  pk_Manifest :: Manifest
  pk_ManifestJSON :: string
  pk_WASMHash :: string
  pk_PackagePath :: path

definition unpack :: "plugin_env \<Rightarrow> path \<Rightarrow> string \<Rightarrow> tree \<Rightarrow> tree \<times> (string + Package)" where
  "unpack ev base data tree =
     (case bind_result (require_some (pe_unzip ev data) ''plugin package is not a valid ZIP'') (\<lambda>entries.
           bind_result (read_entries entries [] []) (\<lambda>(manifestBytes, wasmBytes).
           bind_result (reject_when (manifestBytes = [] \<or> length wasmBytes < 8) ''plugin package requires manifest.json and module.wasm'') (\<lambda>_.
           bind_result (parseManifest (pe_json ev) manifestBytes) (\<lambda>m.
           bind_result (reject_when (\<not> wasm_magic wasmBytes) ''module.wasm is not a WebAssembly 1.0 module'') (\<lambda>_.
           Inr (manifestBytes, wasmBytes, m)))))) of
        Inl e \<Rightarrow> (tree, Inl e)
      | Inr (manifestBytes, wasmBytes, m) \<Rightarrow>
          let packagePath = base @ [ma_ID m, ma_Version m] in
          (tree(packagePath @ [''manifest.json''] \<mapsto> manifestBytes, packagePath @ [''module.wasm''] \<mapsto> wasmBytes),
           Inr \<lparr>pk_Manifest = m, pk_ManifestJSON = manifestBytes, pk_WASMHash = pe_sha256 ev wasmBytes, pk_PackagePath = packagePath\<rparr>))"

text \<open>The digest covers what follows the header that has been read already.\<close>

definition ValidateWASMFile :: "plugin_env \<Rightarrow> path \<Rightarrow> tree \<Rightarrow> string + string" where
  "ValidateWASMFile ev p tree =
     (case tree p of
        None \<Rightarrow> Inl ''no such file''
      | Some data \<Rightarrow>
          if length data < 8 \<or> length data > MaxWASMBytes then Inl ''module.wasm has an invalid size''
          else if \<not> wasm_magic data then Inl ''module.wasm is not a WebAssembly 1.0 module''
          else Inr (pe_sha256 ev (drop 8 data)))"

datatype plugin_error = PluginStore store_error | PluginText string

definition plugin_store :: "store_error + 'a \<Rightarrow> plugin_error + 'a" where
  "plugin_store r = (case r of Inl e \<Rightarrow> Inl (PluginStore e) | Inr v \<Rightarrow> Inr v)"

definition new_plugin :: "gotime \<Rightarrow> Package \<Rightarrow> Plugin" where
  "new_plugin now pkg = (let m = pk_Manifest pkg in
     \<lparr>pl_ID = ma_ID m, pl_Name = ma_Name m, pl_Version = ma_Version m, pl_Description = ma_Description m,
      pl_PackagePath = pk_PackagePath pkg, pl_WASMHash = pk_WASMHash pkg, pl_ManifestJSON = pk_ManifestJSON pkg,
      pl_Permissions = ma_Permissions m, pl_Limits = ma_Limits m, pl_Enabled = False, pl_Status = ''installed'', pl_LastError = [],
      pl_Installed = now, pl_Updated = now, pl_LastStarted = None, pl_LastStopped = None, pl_StartCount = 0, pl_FailureCount = 0\<rparr>)"

text \<open>\<open>src\<close> is what the reader delivers, \<open>None\<close> after an error.\<close>

definition Install :: "plugin_env \<Rightarrow> string option \<Rightarrow> plugin_world \<Rightarrow> plugin_world \<times> (plugin_error + Plugin)" where
  "Install ev src w =
     (case src of
        None \<Rightarrow> (w, Inl (PluginText ''read plugin package''))
      | Some data \<Rightarrow>
          if length data > MaxPackageBytes then (w, Inl (PluginText ''plugin package exceeds 64 MiB''))
          else (case unpack ev (pw_root w) data (pw_tree w) of
                  (tree, Inl e) \<Rightarrow> (w\<lparr>pw_tree := tree\<rparr>, Inl (PluginText e))
                | (tree, Inr pkg) \<Rightarrow>
                    let p = new_plugin (pe_now ev) pkg in
                    (case UpsertPlugin p (pw_rows w) of
                       Inl e \<Rightarrow> (w\<lparr>pw_tree := tree\<rparr>, Inl (PluginStore e))
                     | Inr rows \<Rightarrow> (w\<lparr>pw_tree := tree, pw_rows := rows\<rparr>, plugin_store (GetPlugin (pl_ID p) rows)))))"

text \<open>Writing a new state of the table and reading the row back.\<close>

definition write_and_get :: "string \<Rightarrow> store_error + Plugin list \<Rightarrow> plugin_world \<Rightarrow> plugin_world \<times> (plugin_error + Plugin)" where
  "write_and_get i r w =
     (case r of Inl e \<Rightarrow> (w, Inl (PluginStore e)) | Inr rows \<Rightarrow> (w\<lparr>pw_rows := rows\<rparr>, plugin_store (GetPlugin i rows)))"

definition record_failure :: "plugin_env \<Rightarrow> string \<Rightarrow> string \<Rightarrow> plugin_world \<Rightarrow> plugin_world" where
  "record_failure ev i e w =
     (case RecordPluginFailure (pe_now ev) i ''failed'' e (pw_rows w) of Inl _ \<Rightarrow> w | Inr rows \<Rightarrow> w\<lparr>pw_rows := rows\<rparr>)"

definition module_path :: "Plugin \<Rightarrow> path" where
  "module_path p = pl_PackagePath p @ [''module.wasm'']"

definition Enable :: "plugin_env \<Rightarrow> string \<Rightarrow> plugin_world \<Rightarrow> plugin_world \<times> (plugin_error + Plugin)" where
  "Enable ev i w =
     (case GetPlugin i (pw_rows w) of
        Inl e \<Rightarrow> (w, Inl (PluginStore e))
      | Inr p \<Rightarrow>
          (case ValidateWASMFile ev (module_path p) (pw_tree w) of
             Inl e \<Rightarrow> (record_failure ev i e w, Inl (PluginText e))
           | Inr _ \<Rightarrow> write_and_get i (SetPluginEnabled (pe_now ev) i True ''enabled'' [] (pw_rows w)) w))"

definition Disable :: "plugin_env \<Rightarrow> string \<Rightarrow> plugin_world \<Rightarrow> plugin_world \<times> (plugin_error + Plugin)" where
  "Disable ev i w = write_and_get i (SetPluginEnabled (pe_now ev) i False ''disabled'' [] (pw_rows w)) w"

definition memory_pages :: "int \<Rightarrow> nat" where
  "memory_pages bytes = (let pages = nat ((bytes + 65535) div 65536 mod 2 ^ 32) in if pages = 0 then 1 else pages)"

definition executeWASM :: "plugin_env \<Rightarrow> path \<Rightarrow> Manifest \<Rightarrow> tree \<Rightarrow> string option" where
  "executeWASM ev p m tree =
     (case tree p of
        None \<Rightarrow> Some ''no such file''
      | Some wasm \<Rightarrow>
          pe_run ev (memory_pages (li_MemoryBytes (ma_Limits m))) (li_TimeoutMS (ma_Limits m)) (ma_ID m)
            (if ma_Entrypoint m = [] then ''civic_plugin_start'' else ma_Entrypoint m) wasm)"

definition Start :: "plugin_env \<Rightarrow> string \<Rightarrow> plugin_world \<Rightarrow> plugin_world \<times> (plugin_error + Plugin)" where
  "Start ev i w =
     (case GetPlugin i (pw_rows w) of
        Inl e \<Rightarrow> (w, Inl (PluginStore e))
      | Inr p \<Rightarrow>
          if \<not> pl_Enabled p then (w, Inl (PluginText ''plugin is disabled''))
          else (case bind_result (ValidateWASMFile ev (module_path p) (pw_tree w)) (\<lambda>_.
                     bind_result (parseManifest (pe_json ev) (pl_ManifestJSON p)) (\<lambda>m.
                     case executeWASM ev (module_path p) m (pw_tree w) of Some e \<Rightarrow> Inl e | None \<Rightarrow> Inr ())) of
                  Inl e \<Rightarrow> (record_failure ev i e w, Inl (PluginText e))
                | Inr _ \<Rightarrow> write_and_get i (RecordPluginStart (pe_now ev) i ''enabled'' [] (pw_rows w)) w))"

definition Stop :: "plugin_env \<Rightarrow> string \<Rightarrow> plugin_world \<Rightarrow> plugin_world \<times> (plugin_error + Plugin)" where
  "Stop ev i w = write_and_get i (RecordPluginStop (pe_now ev) i ''enabled'' [] (pw_rows w)) w"

definition remove_all :: "path \<Rightarrow> tree \<Rightarrow> tree" where
  "remove_all p tree = (\<lambda>q. if take (length p) q = p then None else tree q)"

definition Delete :: "string \<Rightarrow> plugin_world \<Rightarrow> plugin_world \<times> (plugin_error + unit)" where
  "Delete i w =
     (case GetPlugin i (pw_rows w) of
        Inl e \<Rightarrow> (w, Inl (PluginStore e))
      | Inr p \<Rightarrow>
          if pl_Enabled p then (w, Inl (PluginText ''disable plugin before deleting it''))
          else (case DeletePluginRow i (pw_rows w) of
                  Inl e \<Rightarrow> (w, Inl (PluginStore e))
                | Inr rows \<Rightarrow> (w\<lparr>pw_rows := rows, pw_tree := remove_all (pl_PackagePath p) (pw_tree w)\<rparr>, Inr ())))"

end
