(* ===== verification/Plugin_Claims.thy ===== *)
theory Plugin_Claims
  imports Plugins
begin

text \<open>
  Properties of the plugin manager: what it writes and deletes on disk, what it hands to the WebAssembly
  engine, and what its digest protects.
\<close>

section \<open>Runs of the manager\<close>

datatype plugin_op =
  OpInstall plugin_env "string option"
  | OpEnable plugin_env string
  | OpDisable plugin_env string
  | OpStart plugin_env string
  | OpStop plugin_env string
  | OpDelete string

fun manage :: "plugin_op \<Rightarrow> plugin_world \<Rightarrow> plugin_world" where
  "manage (OpInstall ev src) w = fst (Install ev src w)"
| "manage (OpEnable ev i) w = fst (Enable ev i w)"
| "manage (OpDisable ev i) w = fst (Disable ev i w)"
| "manage (OpStart ev i) w = fst (Start ev i w)"
| "manage (OpStop ev i) w = fst (Stop ev i w)"
| "manage (OpDelete i) w = fst (Delete i w)"

definition plugin_run :: "plugin_op list \<Rightarrow> plugin_world \<Rightarrow> plugin_world" where
  "plugin_run ops w = fold manage ops w"

definition plugin_start :: "path \<Rightarrow> tree \<Rightarrow> plugin_world" where
  "plugin_start base tree = \<lparr>pw_root = base, pw_rows = [], pw_tree = tree\<rparr>"

section \<open>The manifest\<close>

definition manifest_ok :: "Manifest \<Rightarrow> bool" where
  "manifest_ok m \<longleftrightarrow> pluginIDPattern (ma_ID m) \<and> pluginVersionPattern (ma_Version m) \<and>
     0 < li_MemoryBytes (ma_Limits m) \<and> li_MemoryBytes (ma_Limits m) \<le> 134217728 \<and>
     1 \<le> li_TimeoutMS (ma_Limits m) \<and> li_TimeoutMS (ma_Limits m) \<le> 30000 \<and>
     distinct (ma_Permissions m) \<and> (\<forall>p\<in>set (ma_Permissions m). p \<noteq> [] \<and> length p \<le> 80)"

lemma check_permissions_Some:
  "check_permissions seen ps = Some qs \<Longrightarrow>
     distinct qs \<and> set qs \<inter> set seen = {} \<and> (\<forall>p\<in>set qs. p \<noteq> [] \<and> length p \<le> 80)"
proof (induction ps arbitrary: seen qs)
  case (Cons p ps)
  define q where "q = trim_space p"
  from Cons.prems obtain rest where step: "q \<noteq> []" "length q \<le> 80" "q \<notin> set seen" "check_permissions (q # seen) ps = Some rest" "qs = q # rest"
    by (auto simp: q_def[symmetric] Let_def split: if_splits)
  from Cons.IH[OF step(4)] step show ?case by auto
qed simp

lemma dec_value_nonneg: "list_all is_digit s \<Longrightarrow> 0 \<le> dec_value s"
proof (induction s rule: rev_induct)
  case (snoc c s)
  then have "48 \<le> (of_char c :: nat)" "0 \<le> dec_value s"
    by (auto simp: is_digit_def less_eq_char_def)
  then show ?case by (simp add: dec_value_snoc)
qed (simp add: dec_value_def)

lemma json_uint_nonneg: "json_uint v = Some n \<Longrightarrow> 0 \<le> n"
  by (cases v) (auto simp: json_uint_def dec_value_nonneg split: if_splits)

lemma uint_field_nonneg: "plain_field json_uint 0 m name = Some n \<Longrightarrow> 0 \<le> n"
  using plain_field_value[of json_uint 0 m name n] json_uint_nonneg by blast

lemma limits_nonneg: "struct_of decode_limits v = Some l \<Longrightarrow> 0 \<le> li_MemoryBytes l"
  using uint_field_nonneg by (auto simp: struct_of_def decode_limits_def bind_eq_Some_conv)

lemma manifest_limits_nonneg:
  assumes "decode_manifest m = Some raw"
  shows "0 \<le> li_MemoryBytes (ma_Limits raw)"
proof -
  have "plain_field (struct_of decode_limits) no_limits m ''limits'' = Some (ma_Limits raw)"
    using assms by (auto simp: decode_manifest_def bind_eq_Some_conv)
  from plain_field_value[OF this] limits_nonneg show ?thesis by (auto simp: no_limits_def)
qed

lemma parseManifest_ok:
  assumes "parseManifest json data = Inr m"
  shows "manifest_ok m"
proof -
  obtain raw where raw: "decode_body decode_manifest (json data) = Some raw"
    using assms by (auto simp: parseManifest_def split: option.splits if_splits)
  then have "0 \<le> li_MemoryBytes (ma_Limits raw)"
    using manifest_limits_nonneg by (auto simp: decode_body_def struct_of_def bind_eq_Some_conv)
  with raw assms show ?thesis
    by (auto simp: parseManifest_def manifest_ok_def Let_def dest!: check_permissions_Some split: option.splits if_splits)
qed

section \<open>The invariant\<close>

definition row_confined :: "path \<Rightarrow> Plugin \<Rightarrow> bool" where
  "row_confined base p \<longleftrightarrow> pluginIDPattern (pl_ID p) \<and> pluginVersionPattern (pl_Version p) \<and>
     pl_PackagePath p = base @ [pl_ID p, pl_Version p]"

definition package_file :: "path \<Rightarrow> path \<Rightarrow> bool" where
  "package_file base q \<longleftrightarrow> (\<exists>i v f. q = base @ [i, v] @ f \<and> pluginIDPattern i \<and> pluginVersionPattern v)"

definition plugin_inv :: "path \<Rightarrow> tree \<Rightarrow> plugin_world \<Rightarrow> bool" where
  "plugin_inv base tree w \<longleftrightarrow> pw_root w = base \<and> distinct (map pl_ID (pw_rows w)) \<and> (\<forall>p\<in>set (pw_rows w). row_confined base p) \<and>
     (\<forall>q. pw_tree w q \<noteq> tree q \<longrightarrow> package_file base q)"

text \<open>The columns that say where a plugin lives.\<close>

definition same_place :: "Plugin \<Rightarrow> Plugin \<Rightarrow> bool" where
  "same_place p p' \<longleftrightarrow> pl_ID p' = pl_ID p \<and> pl_Version p' = pl_Version p \<and> pl_PackagePath p' = pl_PackagePath p"

lemma update_plugin_confined:
  assumes "update_plugin i f rows = Inr rows'" "\<And>p. same_place p (f p)"
  shows "map pl_ID rows' = map pl_ID rows" "\<forall>p\<in>set rows. row_confined base p \<Longrightarrow> \<forall>p\<in>set rows'. row_confined base p"
  using assms by (auto simp: update_plugin_def same_place_def row_confined_def split: if_splits)

lemma plugin_inv_rows:
  assumes "plugin_inv base tree w" "update_plugin i f (pw_rows w) = Inr rows'" "\<And>p. same_place p (f p)"
  shows "plugin_inv base tree (w\<lparr>pw_rows := rows'\<rparr>)"
  using assms(1) update_plugin_confined[OF assms(2,3)] by (simp add: plugin_inv_def)

lemmas plugin_updates = SetPluginEnabled_def RecordPluginStart_def RecordPluginStop_def RecordPluginFailure_def

lemma record_failure_inv: "plugin_inv base tree w \<Longrightarrow> plugin_inv base tree (record_failure ev i e w)"
  by (auto simp: record_failure_def plugin_updates same_place_def intro: plugin_inv_rows split: sum.splits)

lemma write_and_get_inv:
  "plugin_inv base tree w \<Longrightarrow> (\<And>rows. r = Inr rows \<Longrightarrow> plugin_inv base tree (w\<lparr>pw_rows := rows\<rparr>)) \<Longrightarrow>
     plugin_inv base tree (fst (write_and_get i r w))"
  by (auto simp: write_and_get_def split: sum.splits)

lemma Enable_inv: "plugin_inv base tree w \<Longrightarrow> plugin_inv base tree (fst (Enable ev i w))"
  by (auto simp: Enable_def plugin_updates same_place_def intro!: record_failure_inv write_and_get_inv intro: plugin_inv_rows split: sum.splits)

lemma Disable_inv: "plugin_inv base tree w \<Longrightarrow> plugin_inv base tree (fst (Disable ev i w))"
  by (auto simp: Disable_def plugin_updates same_place_def intro!: write_and_get_inv intro: plugin_inv_rows)

lemma Start_inv: "plugin_inv base tree w \<Longrightarrow> plugin_inv base tree (fst (Start ev i w))"
  by (auto simp: Start_def plugin_updates same_place_def intro!: record_failure_inv write_and_get_inv intro: plugin_inv_rows split: sum.splits)

lemma Stop_inv: "plugin_inv base tree w \<Longrightarrow> plugin_inv base tree (fst (Stop ev i w))"
  by (auto simp: Stop_def plugin_updates same_place_def intro!: write_and_get_inv intro: plugin_inv_rows)

lemma take_package: "take (length base + 2) (base @ [i, v] @ f) = base @ [i, v]"
  by simp

lemma Delete_inv:
  assumes inv: "plugin_inv base tree w"
  shows "plugin_inv base tree (fst (Delete i w))"
proof -
  have "package_file base q" if "p \<in> set (pw_rows w)" "take (length (pl_PackagePath p)) q = pl_PackagePath p" for p q
  proof -
    have "row_confined base p" using inv that by (simp add: plugin_inv_def)
    moreover have "q = pl_PackagePath p @ drop (length (pl_PackagePath p)) q" using that(2) by (metis append_take_drop_id)
    ultimately show ?thesis unfolding package_file_def row_confined_def by (metis append.assoc)
  qed
  moreover have "p \<in> set (pw_rows w)" if "GetPlugin i (pw_rows w) = Inr p" for p
    using that by (auto simp: GetPlugin_def require_some_def find_Some_iff split: option.splits)
  ultimately show ?thesis using inv
    by (auto simp: Delete_def DeletePluginRow_def plugin_inv_def remove_all_def distinct_map_filter split: sum.splits if_splits)
qed

text \<open>The patterns admit no separator and no parent directory.\<close>

lemma id_plain: "pluginIDPattern i \<Longrightarrow> i \<noteq> ''..'' \<and> CHR ''/'' \<notin> set i"
  by (cases i) (auto simp: pluginIDPattern_def lower_letter_def list_all_iff)

lemma version_plain: "pluginVersionPattern v \<Longrightarrow> v \<noteq> ''..'' \<and> CHR ''/'' \<notin> set v"
  by (cases v) (auto simp: pluginVersionPattern_def letter_or_digit_def lower_letter_def list_all_iff)

lemma unpack_cases:
  assumes "unpack ev base data tree = (tree', r)"
  obtains (refused) e where "r = Inl e" "tree' = tree"
  | (written) m manifest wasm where "pluginIDPattern (ma_ID m)" "pluginVersionPattern (ma_Version m)"
      "tree' = tree(base @ [ma_ID m, ma_Version m, ''manifest.json''] \<mapsto> manifest, base @ [ma_ID m, ma_Version m, ''module.wasm''] \<mapsto> wasm)"
      "r = Inr \<lparr>pk_Manifest = m, pk_ManifestJSON = manifest, pk_WASMHash = pe_sha256 ev wasm, pk_PackagePath = base @ [ma_ID m, ma_Version m]\<rparr>"
proof (cases r)
  case (Inl e)
  with assms show thesis by (intro refused[of e]) (auto simp: unpack_def Let_def split: sum.splits)
next
  case (Inr pkg)
  with assms obtain m manifest wasm where "parseManifest (pe_json ev) manifest = Inr m"
      "tree' = tree(base @ [ma_ID m, ma_Version m, ''manifest.json''] \<mapsto> manifest, base @ [ma_ID m, ma_Version m, ''module.wasm''] \<mapsto> wasm)"
      "r = Inr \<lparr>pk_Manifest = m, pk_ManifestJSON = manifest, pk_WASMHash = pe_sha256 ev wasm, pk_PackagePath = base @ [ma_ID m, ma_Version m]\<rparr>"
    by (auto simp: unpack_def bind_result_Inr Let_def split: sum.splits)
  with parseManifest_ok show thesis by (intro written[of m manifest wasm]) (auto simp: manifest_ok_def)
qed

lemma unpack_confined:
  assumes "unpack ev base data tree = (tree', r)"
  shows "\<forall>q. tree' q \<noteq> tree q \<longrightarrow> package_file base q"
    "r = Inr pkg \<Longrightarrow> row_confined base (new_plugin now pkg)"
  using assms
proof (atomize (full), cases rule: unpack_cases)
  case (written m manifest wasm)
  then show "(\<forall>q. tree' q \<noteq> tree q \<longrightarrow> package_file base q) \<and> (r = Inr pkg \<longrightarrow> row_confined base (new_plugin now pkg))"
    by (auto simp: package_file_def row_confined_def new_plugin_def Let_def split: if_splits)
qed simp

lemma upsert_confined:
  assumes up: "UpsertPlugin p rows = Inr rows'" and p: "row_confined base p"
    and rows: "\<forall>p\<in>set rows. row_confined base p" "distinct (map pl_ID rows)"
  shows "distinct (map pl_ID rows') \<and> (\<forall>p\<in>set rows'. row_confined base p)"
proof (cases "list_ex (\<lambda>r. pl_ID r = pl_ID p) rows")
  case True
  then have rows': "rows' = map (\<lambda>r. if pl_ID r = pl_ID p then upsert_row p r else r) rows"
    using up by (simp add: UpsertPlugin_def bind_result_Inr)
  have "map pl_ID rows' = map pl_ID rows" by (simp add: rows' upsert_row_def)
  then have "distinct (map pl_ID rows')" using rows(2) by simp
  moreover have "\<forall>r\<in>set rows. row_confined base (if pl_ID r = pl_ID p then upsert_row p r else r)"
    using p rows(1) by (simp add: row_confined_def upsert_row_def)
  ultimately show ?thesis unfolding rows' set_map ball_simps by blast
next
  case False
  then have "rows' = rows @ [p]" using up by (simp add: UpsertPlugin_def bind_result_Inr)
  with False rows p show ?thesis by (auto simp: list_ex_iff)
qed

lemma Install_inv:
  assumes inv: "plugin_inv base tree w"
  shows "plugin_inv base tree (fst (Install ev src w))"
proof (cases src)
  case (Some data)
  obtain tree' r where un: "unpack ev base data (pw_tree w) = (tree', r)" by fastforce
  have files: "\<forall>q. tree' q \<noteq> tree q \<longrightarrow> package_file base q"
    using unpack_confined(1)[OF un] inv by (metis plugin_inv_def)
  have base: "pw_root w = base" using inv by (simp add: plugin_inv_def)
  show ?thesis
  proof (cases r)
    case (Inl e)
    then show ?thesis using inv files by (simp add: Install_def Some base un) (simp add: plugin_inv_def)
  next
    case (Inr pkg)
    from unpack_confined(2)[OF un this] have "row_confined base (new_plugin (pe_now ev) pkg)" .
    with inv upsert_confined have "distinct (map pl_ID rows') \<and> (\<forall>p\<in>set rows'. row_confined base p)"
      if "UpsertPlugin (new_plugin (pe_now ev) pkg) (pw_rows w) = Inr rows'" for rows'
      using that by (auto simp: plugin_inv_def)
    then show ?thesis using inv files
      by (auto simp: Install_def Some base un Inr Let_def plugin_inv_def split: sum.splits)
  qed
qed (use inv in \<open>simp add: Install_def\<close>)

lemma plugin_op_inv: "plugin_inv base tree w \<Longrightarrow> plugin_inv base tree (manage op w)"
  by (cases op) (simp_all add: Install_inv Enable_inv Disable_inv Start_inv Stop_inv Delete_inv)

lemma plugin_run_inv: "plugin_inv base tree w \<Longrightarrow> plugin_inv base tree (plugin_run ops w)"
  by (induction ops arbitrary: w) (simp_all add: plugin_run_def plugin_op_inv)

text \<open>
  C39: The plugin manager stays inside its directory. Whatever packages are installed, enabled, started,
  stopped, disabled and deleted, and whatever the archives, manifests and modules contain: every row of
  the table names a directory \<open>root/id/version\<close> whose id and version match their patterns, no two rows
  share an id, and a file whose contents ever differ from what they were at the start lies under such a
  directory. In particular no path with a \<open>..\<close> component is used.
\<close>

theorem plugin_files_confined:
  "(let w = plugin_run ops (plugin_start base tree) in
     distinct (map pl_ID (pw_rows w)) \<and>
     (\<forall>p\<in>set (pw_rows w). pl_PackagePath p = base @ [pl_ID p, pl_Version p] \<and> pluginIDPattern (pl_ID p) \<and> pluginVersionPattern (pl_Version p)) \<and>
     (\<forall>q. pw_tree w q = tree q \<or>
        (\<exists>i v f. q = base @ [i, v] @ f \<and> pluginIDPattern i \<and> pluginVersionPattern v \<and> i \<noteq> ''..'' \<and> v \<noteq> ''..'' \<and>
           CHR ''/'' \<notin> set i \<and> CHR ''/'' \<notin> set v)))"
proof -
  have "plugin_inv base tree (plugin_start base tree)" by (simp add: plugin_inv_def plugin_start_def)
  from plugin_run_inv[OF this, of ops] show ?thesis
    using id_plain version_plain by (fastforce simp: plugin_inv_def Let_def row_confined_def package_file_def)
qed

section \<open>Starting a plugin\<close>

text \<open>The engine is only ever asked for 1 to 2048 pages of memory and for 1 ms to 30 s.\<close>

lemma memory_pages_bounds: "0 < bytes \<Longrightarrow> bytes \<le> 134217728 \<Longrightarrow> 1 \<le> memory_pages bytes \<and> memory_pages bytes \<le> 2048"
  by (auto simp: memory_pages_def Let_def)

lemma starts_within_limits:
  assumes "\<And>pages timeout name entry wasm. 1 \<le> pages \<Longrightarrow> pages \<le> 2048 \<Longrightarrow> 1 \<le> timeout \<Longrightarrow> timeout \<le> 30000 \<Longrightarrow>
     pe_run ev pages timeout name entry wasm = run pages timeout name entry wasm"
  shows "Start ev i w = Start (ev\<lparr>pe_run := run\<rparr>) i w"
proof -
  have same: "executeWASM ev q m tree = executeWASM (ev\<lparr>pe_run := run\<rparr>) q m tree" if "parseManifest json data = Inr m" for q m tree json data
    using parseManifest_ok[OF that] memory_pages_bounds assms by (simp add: executeWASM_def manifest_ok_def split: option.split)
  have "bind_result (parseManifest json data) (\<lambda>m. case executeWASM ev q m tree of Some e \<Rightarrow> Inl e | None \<Rightarrow> Inr ()) =
      bind_result (parseManifest json data) (\<lambda>m. case executeWASM (ev\<lparr>pe_run := run\<rparr>) q m tree of Some e \<Rightarrow> Inl e | None \<Rightarrow> Inr ())"
    for json data q tree
    using same by (simp add: bind_result_def split: sum.split)
  moreover have "ValidateWASMFile (ev\<lparr>pe_run := run\<rparr>) q tree = ValidateWASMFile ev q tree" for q tree
    by (simp add: ValidateWASMFile_def cong: option.case_cong if_cong)
  ultimately show ?thesis by (simp add: Start_def record_failure_def cong: sum.case_cong if_cong)
qed

lemma find_map_same:
  "find (\<lambda>p. pl_ID p = i) rows = Some p \<Longrightarrow> (\<And>p. pl_ID (f p) = pl_ID p) \<Longrightarrow>
     find (\<lambda>p. pl_ID p = i) (map (\<lambda>p. if pl_ID p = i then f p else p) rows) = Some (f p)"
  by (induction rows) (auto split: if_splits)

lemma update_then_get:
  assumes "GetPlugin i rows = Inr p" "\<And>p. pl_ID (f p) = pl_ID p"
  shows "\<exists>rows'. update_plugin i f rows = Inr rows' \<and> GetPlugin i rows' = Inr (f p)"
proof -
  have found: "find (\<lambda>p. pl_ID p = i) rows = Some p" using assms(1) by (auto simp: GetPlugin_def require_some_def split: option.splits)
  then have "list_ex (\<lambda>p. pl_ID p = i) rows" by (auto simp: list_ex_iff find_Some_iff)
  then show ?thesis using find_map_same[of i rows p f, OF found assms(2)] by (simp add: update_plugin_def GetPlugin_def require_some_def)
qed

text \<open>
  The digest recorded when a plugin is installed protects nothing afterwards: an enabled plugin whose
  module has been replaced on disk by any other module of a permitted size still starts, as a success,
  and its row keeps the digest of the module that was installed. (\<open>Start\<close> discards the digest that
  \<open>ValidateWASMFile\<close> computes, which moreover leaves out the first eight bytes.)
\<close>

lemma replaced_module_starts:
  assumes found: "GetPlugin i (pw_rows w) = Inr p" and enabled: "pl_Enabled p"
    and manifest: "parseManifest (pe_json ev) (pl_ManifestJSON p) = Inr m"
    and replaced: "pw_tree w (module_path p) = Some other" "8 \<le> length other" "length other \<le> MaxWASMBytes" "wasm_magic other"
    and runs: "\<And>entry. pe_run ev (memory_pages (li_MemoryBytes (ma_Limits m))) (li_TimeoutMS (ma_Limits m)) (ma_ID m) entry other = None"
  shows "ValidateWASMFile ev (module_path p) (pw_tree w) = Inr (pe_sha256 ev (drop 8 other)) \<and>
    (\<exists>p'. snd (Start ev i w) = Inr p' \<and> pl_StartCount p' = pl_StartCount p + 1 \<and> pl_Status p' = ''enabled'' \<and>
       pl_WASMHash p' = pl_WASMHash p)"
proof
  show valid: "ValidateWASMFile ev (module_path p) (pw_tree w) = Inr (pe_sha256 ev (drop 8 other))"
    using replaced by (simp add: ValidateWASMFile_def)
  have executed: "executeWASM ev (module_path p) m (pw_tree w) = None" by (simp add: executeWASM_def replaced runs)
  define started where "started p = p\<lparr>pl_Status := ''enabled'', pl_LastError := [], pl_LastStarted := Some (pe_now ev),
    pl_Updated := pe_now ev, pl_StartCount := pl_StartCount p + 1\<rparr>" for p :: Plugin
  obtain rows where "RecordPluginStart (pe_now ev) i ''enabled'' [] (pw_rows w) = Inr rows" "GetPlugin i rows = Inr (started p)"
    using update_then_get[OF found, of started] by (auto simp: RecordPluginStart_def started_def[abs_def])
  then have "snd (Start ev i w) = Inr (started p)"
    by (simp add: Start_def found enabled valid manifest executed bind_result_def write_and_get_def plugin_store_def)
  then show "\<exists>p'. snd (Start ev i w) = Inr p' \<and> pl_StartCount p' = pl_StartCount p + 1 \<and> pl_Status p' = ''enabled'' \<and>
       pl_WASMHash p' = pl_WASMHash p" by (simp add: started_def)
qed

definition sample_manifest :: gval where
  "sample_manifest = VMap [(''id'', VString ''echo''), (''name'', VString ''Echo''), (''version'', VString ''1.0''), (''api_version'', VNumber ''1'')]"

definition sample_module :: "string \<Rightarrow> string" where
  "sample_module code = [CHR 0x00, CHR ''a'', CHR ''s'', CHR ''m'', CHR 0x01, CHR 0x00, CHR 0x00, CHR 0x00] @ code"

text \<open>An archive with the module \<open>code\<close>, an engine that runs everything, and a digest that tells modules apart.\<close>

definition sample_plugins :: plugin_env where
  "sample_plugins = \<lparr>pe_now = 7, pe_unzip = (\<lambda>code. Some [\<lparr>ze_name = ''manifest.json'', ze_size = 9, ze_data = Some ''m''\<rparr>,
      \<lparr>ze_name = ''./module.wasm'', ze_size = 9, ze_data = Some (sample_module code)\<rparr>]),
     pe_json = (\<lambda>_. Some sample_manifest), pe_sha256 = (\<lambda>data. ''digest of '' @ data), pe_run = (\<lambda>_ _ _ _ _. None)\<rparr>"

definition installed_echo :: plugin_world where
  "installed_echo = plugin_run [OpInstall sample_plugins (Some ''good''), OpEnable sample_plugins ''echo''] (plugin_start [''plugins''] (\<lambda>_. None))"

lemma sample_parse:
  "\<exists>m. parseManifest (pe_json sample_plugins) ''m'' = Inr m \<and> ma_ID m = ''echo'' \<and> ma_Version m = ''1.0''"
proof -
  have "(case parseManifest (pe_json sample_plugins) ''m'' of Inl _ \<Rightarrow> False | Inr m \<Rightarrow> ma_ID m = ''echo'' \<and> ma_Version m = ''1.0'')"
    by code_simp
  then show ?thesis by (auto split: sum.splits)
qed

lemma module_valid:
  assumes "length code < 100"
  shows "8 \<le> length (sample_module code)" "length (sample_module code) \<le> MaxWASMBytes" "wasm_magic (sample_module code)"
  using assms by (simp_all add: sample_module_def MaxWASMBytes_def wasm_magic_def)

lemma echo_unpacked:
  obtains m tree' where "unpack sample_plugins [''plugins''] ''good'' (\<lambda>_. None) = (tree',
      Inr \<lparr>pk_Manifest = m, pk_ManifestJSON = ''m'', pk_WASMHash = ''digest of '' @ sample_module ''good'', pk_PackagePath = [''plugins'', ''echo'', ''1.0'']\<rparr>)"
    "ma_ID m = ''echo''" "tree' [''plugins'', ''echo'', ''1.0'', ''module.wasm''] = Some (sample_module ''good'')"
proof -
  obtain m where m: "parseManifest (pe_json sample_plugins) ''m'' = Inr m" "ma_ID m = ''echo''" "ma_Version m = ''1.0''"
    using sample_parse by blast
  have names: "filepath_clean ''manifest.json'' = ''manifest.json''" "filepath_clean ''./module.wasm'' = ''module.wasm''"
    "\<not> unsafe_name ''manifest.json''" "\<not> unsafe_name ''module.wasm''" by code_simp+
  have files: "read_entries [\<lparr>ze_name = ''manifest.json'', ze_size = 9, ze_data = Some ''m''\<rparr>,
      \<lparr>ze_name = ''./module.wasm'', ze_size = 9, ze_data = Some (sample_module ''good'')\<rparr>] [] [] = Inr (''m'', sample_module ''good'')"
    using module_valid[of "''good''"] by (simp add: names readZipFile_def MaxManifestBytes_def MaxWASMBytes_def bind_result_def)
  have env: "pe_unzip sample_plugins ''good'' = Some [\<lparr>ze_name = ''manifest.json'', ze_size = 9, ze_data = Some ''m''\<rparr>,
      \<lparr>ze_name = ''./module.wasm'', ze_size = 9, ze_data = Some (sample_module ''good'')\<rparr>]"
    "pe_sha256 sample_plugins data = ''digest of '' @ data" for data by (simp_all add: sample_plugins_def)
  show thesis
    using module_valid[of "''good''"]
    by (intro that[of "(\<lambda>_. None)([''plugins'', ''echo'', ''1.0'', ''manifest.json''] \<mapsto> ''m'',
        [''plugins'', ''echo'', ''1.0'', ''module.wasm''] \<mapsto> sample_module ''good'')" m])
      (simp_all add: unpack_def env files m require_some_def bind_result_def reject_when_def Let_def del: read_entries.simps)
qed

lemma installed_echo_facts:
  "\<exists>p. GetPlugin ''echo'' (pw_rows installed_echo) = Inr p \<and> pl_Enabled p \<and> pl_ManifestJSON p = ''m'' \<and>
     pl_WASMHash p = ''digest of '' @ sample_module ''good'' \<and> module_path p = [''plugins'', ''echo'', ''1.0'', ''module.wasm'']"
proof -
  obtain m tree' where un: "unpack sample_plugins [''plugins''] ''good'' (\<lambda>_. None) = (tree',
      Inr \<lparr>pk_Manifest = m, pk_ManifestJSON = ''m'', pk_WASMHash = ''digest of '' @ sample_module ''good'', pk_PackagePath = [''plugins'', ''echo'', ''1.0'']\<rparr>)"
    "ma_ID m = ''echo''" "tree' [''plugins'', ''echo'', ''1.0'', ''module.wasm''] = Some (sample_module ''good'')"
    by (rule echo_unpacked)
  show ?thesis
    using module_valid[of "''good''"]
    by (simp add: installed_echo_def plugin_run_def plugin_start_def Install_def MaxPackageBytes_def un Let_def new_plugin_def UpsertPlugin_def
      bind_result_def reject_when_def plugin_store_def GetPlugin_def require_some_def Enable_def ValidateWASMFile_def module_path_def
      SetPluginEnabled_def update_plugin_def write_and_get_def)
qed

text \<open>Somebody replaces the module of the enabled plugin on disk.\<close>

definition tampered :: plugin_world where
  "tampered = installed_echo\<lparr>pw_tree := (pw_tree installed_echo)([''plugins'', ''echo'', ''1.0'', ''module.wasm''] \<mapsto> sample_module ''evil'')\<rparr>"

theorem plugin_files_confined_witness:
  "\<exists>p. p \<in> set (pw_rows installed_echo) \<and> pl_PackagePath p = [''plugins'', pl_ID p, pl_Version p] \<and> pluginIDPattern (pl_ID p) \<and>
     pw_tree installed_echo [''etc'', ''passwd''] = None"
proof -
  obtain p where p: "p \<in> set (pw_rows installed_echo)"
    using installed_echo_facts by (cases "pw_rows installed_echo") (auto simp: GetPlugin_def)
  have "let w = installed_echo in (\<forall>p\<in>set (pw_rows w). pl_PackagePath p = [''plugins''] @ [pl_ID p, pl_Version p] \<and> pluginIDPattern (pl_ID p)) \<and>
      (\<forall>q. pw_tree w q = None \<or> (\<exists>i v f. q = [''plugins''] @ [i, v] @ f))"
    using plugin_files_confined[of "[OpInstall sample_plugins (Some ''good''), OpEnable sample_plugins ''echo'']" "[''plugins'']" "\<lambda>_. None"]
    unfolding installed_echo_def Let_def by blast
  then have "pl_PackagePath p = [''plugins'', pl_ID p, pl_Version p] \<and> pluginIDPattern (pl_ID p)"
    "pw_tree installed_echo [''etc'', ''passwd''] = None"
    using p by (auto simp: Let_def)
  with p show ?thesis by blast
qed

end
