(* ===== verification/Admin_Access.thy ===== *)
theory Admin_Access
  imports Keys Catalog Json_Decode
begin

text \<open>
  Who may do what in the console (httpapi/admin.go): the two kinds of subject, the table of what a client
  key may reach, and the dispatch of a path to its handler. A request carries its headers and query as
  functions and its body as the JSON document it holds, if any.
\<close>

section \<open>Requests\<close>

record http_request =
  hr_method :: string
  hr_path :: string
  hr_header :: "string \<Rightarrow> string"
  hr_query :: "string \<Rightarrow> string list"
  hr_host :: string
  hr_tls :: bool
  hr_body :: "gval option"
  hr_package :: "string + string option"

text \<open>
  \<open>hr_package\<close> is what \<open>pluginInstall\<close> reads: \<open>Inl\<close> an error code for a multipart form that cannot be
  read or has no package, otherwise the bytes, \<open>None\<close> when reading them fails.
\<close>

definition query_get :: "http_request \<Rightarrow> string \<Rightarrow> string" where
  "query_get r name = (case hr_query r name of [] \<Rightarrow> [] | v # _ \<Rightarrow> v)"

definition isReadMethod :: "string \<Rightarrow> bool" where
  "isReadMethod m \<longleftrightarrow> m = ''GET'' \<or> m = ''HEAD''"

definition bearerToken :: "http_request \<Rightarrow> string" where
  "bearerToken r =
     (let raw = trim_space (hr_header r ''Authorization'') in
      if length raw < 7 \<or> to_lower (take 7 raw) \<noteq> ''bearer '' then [] else trim_space (drop 7 raw))"

section \<open>Subjects\<close>

record adminSubject =
  as_Admin :: bool
  as_KeyID :: int
  as_GroupID :: int
  as_GroupName :: string

definition admin_subject :: adminSubject where
  "admin_subject = \<lparr>as_Admin = True, as_KeyID = 0, as_GroupID = 0, as_GroupName = []\<rparr>"

text \<open>An empty key never authorises.\<close>

definition adminAuthorized :: "string \<Rightarrow> http_request \<Rightarrow> bool" where
  "adminAuthorized expected r \<longleftrightarrow> hr_header r ''X-Admin-Key'' \<noteq> [] \<and> hr_header r ''X-Admin-Key'' = expected"

definition key_subject :: "KeyInfo \<Rightarrow> db \<Rightarrow> adminSubject" where
  "key_subject k db =
     (let gid = (case ki_GroupID k of None \<Rightarrow> 0 | Some g \<Rightarrow> g) in
      \<lparr>as_Admin = False, as_KeyID = ki_ID k, as_GroupID = gid,
       as_GroupName = (if gid > 0 then (case GetModelGroup gid db of Inl _ \<Rightarrow> [] | Inr (g, _) \<Rightarrow> g_name g) else [])\<rparr>)"

definition resolveSubject ::
  "(string \<Rightarrow> string \<Rightarrow> string) \<Rightarrow> Box \<Rightarrow> gotime \<Rightarrow> string \<Rightarrow> http_request \<Rightarrow> db \<Rightarrow> string + adminSubject" where
  "resolveSubject hmac box now adminKey r db =
     (if adminAuthorized adminKey r then Inr admin_subject
      else
        let token = bearerToken r in
        if token = [] then Inl ''authentication_required''
        else if has_prefix token ''app_'' then Inl ''console_login_not_supported''
        else (case AuthenticateClientKey hmac box now token db of
                Inl ErrClientKeyExpired \<Rightarrow> Inl ''token_expired''
              | Inl _ \<Rightarrow> Inl ''invalid_api_key''
              | Inr k \<Rightarrow> if Keyless k \<or> \<not> ki_Enabled k then Inl ''invalid_api_key'' else Inr (key_subject k db)))"

definition open_paths :: "string list" where
  "open_paths = [''me'', ''overview'', ''analytics'', ''providers'', ''models'', ''groups'', ''groups/health'', ''requests'']"

definition authorizeSubject :: "adminSubject \<Rightarrow> string \<Rightarrow> string \<Rightarrow> bool" where
  "authorizeSubject sub path m =
     (if as_Admin sub then True
      else if as_KeyID sub = 0 \<or> \<not> isReadMethod m then False
      else if path \<in> set open_paths then True
      else if has_prefix path ''providers/'' then \<not> has_suffix path ''/remote-models''
      else has_prefix path ''models/'' \<or> has_prefix path ''groups/'' \<or> has_prefix path ''requests/'')"

section \<open>Dispatch\<close>

datatype route =
  Me | OverviewRoute | AnalyticsRoute | ConfigGet | ConfigSave bool
  | ProvidersList | ProviderCreate | ProviderItem string
  | ModelsList | ModelCreate | ModelItem string
  | GroupsList | GroupCreate | GroupsHealth | GroupsMonitorAll | GroupItem string
  | KeysList | KeyCreate | KeysHints | KeyItem string
  | RequestsList | RequestItem string
  | PluginsList | PluginInstall | PluginItem string
  | NoRoute

definition admin_route :: "string \<Rightarrow> string \<Rightarrow> route" where
  "admin_route path m =
     (if path = ''me'' \<and> m = ''GET'' then Me
      else if path = ''overview'' \<and> m = ''GET'' then OverviewRoute
      else if path = ''analytics'' \<and> m = ''GET'' then AnalyticsRoute
      else if path = ''config'' \<and> m = ''GET'' then ConfigGet
      else if path = ''config'' \<and> (m = ''PUT'' \<or> m = ''POST'') then ConfigSave (m = ''POST'')
      else if path = ''providers'' \<and> m = ''GET'' then ProvidersList
      else if path = ''providers'' \<and> m = ''POST'' then ProviderCreate
      else if has_prefix path ''providers/'' then ProviderItem (trim_prefix path ''providers/'')
      else if path = ''models'' \<and> m = ''GET'' then ModelsList
      else if path = ''models'' \<and> m = ''POST'' then ModelCreate
      else if has_prefix path ''models/'' then ModelItem (trim_prefix path ''models/'')
      else if path = ''groups'' \<and> m = ''GET'' then GroupsList
      else if path = ''groups'' \<and> m = ''POST'' then GroupCreate
      else if path = ''groups/health'' \<and> m = ''GET'' then GroupsHealth
      else if path = ''groups/monitor'' \<and> m = ''POST'' then GroupsMonitorAll
      else if has_prefix path ''groups/'' then GroupItem (trim_prefix path ''groups/'')
      else if path = ''keys'' \<and> m = ''GET'' then KeysList
      else if path = ''keys'' \<and> m = ''POST'' then KeyCreate
      else if path = ''keys/hints'' \<and> m = ''GET'' then KeysHints
      else if has_prefix path ''keys/'' then KeyItem (trim_prefix path ''keys/'')
      else if path = ''requests'' \<and> m = ''GET'' then RequestsList
      else if has_prefix path ''requests/'' \<and> m = ''GET'' then RequestItem (trim_prefix path ''requests/'')
      else if path = ''plugins'' \<and> m = ''GET'' then PluginsList
      else if path = ''plugins'' \<and> m = ''POST'' then PluginInstall
      else if has_prefix path ''plugins/'' then PluginItem (trim_prefix path ''plugins/'')
      else NoRoute)"

datatype front = AdminPage | OutsideAdmin | Unauthenticated string | Session adminSubject | Unreachable_path | Handle adminSubject route

text \<open>\<open>ServeHTTP\<close> up to the handler.\<close>

definition admin_front ::
  "(string \<Rightarrow> string \<Rightarrow> string) \<Rightarrow> Box \<Rightarrow> gotime \<Rightarrow> string \<Rightarrow> http_request \<Rightarrow> db \<Rightarrow> front" where
  "admin_front hmac box now adminKey r db =
     (if hr_path r = ''/admin'' \<or> hr_path r = ''/admin/'' then AdminPage
      else if \<not> has_prefix (hr_path r) ''/admin/api/'' then OutsideAdmin
      else
        let path = trim_prefix (hr_path r) ''/admin/api/'' in
        case resolveSubject hmac box now adminKey r db of
          Inl code \<Rightarrow> Unauthenticated code
        | Inr sub \<Rightarrow>
            if path = ''session'' \<and> isReadMethod (hr_method r) then Session sub
            else if \<not> authorizeSubject sub path (hr_method r) then Unreachable_path
            else Handle sub (admin_route path (hr_method r)))"

section \<open>What a client key can reach\<close>

text \<open>The handlers a client key can get to, all of them with a method that reads.\<close>

definition key_route :: "route \<Rightarrow> bool" where
  "key_route rt \<longleftrightarrow> (case rt of
      Me \<Rightarrow> True | OverviewRoute \<Rightarrow> True | AnalyticsRoute \<Rightarrow> True | ProvidersList \<Rightarrow> True
    | ProviderItem raw \<Rightarrow> \<not> has_suffix raw ''/remote-models''
    | ModelsList \<Rightarrow> True | ModelItem _ \<Rightarrow> True | GroupsList \<Rightarrow> True | GroupsHealth \<Rightarrow> True | GroupItem _ \<Rightarrow> True
    | RequestsList \<Rightarrow> True | RequestItem _ \<Rightarrow> True | NoRoute \<Rightarrow> True | _ \<Rightarrow> False)"

lemma prefix_split: "has_prefix path prefix \<Longrightarrow> path = prefix @ trim_prefix path prefix"
  by (simp add: has_prefix_def trim_prefix_def) (metis append_take_drop_id)

lemma suffix_of_item: "has_suffix raw suffix \<Longrightarrow> has_suffix (front @ raw) suffix"
  by (auto simp: has_suffix_def)

lemma authorised_route:
  assumes auth: "authorizeSubject sub path m" "\<not> as_Admin sub"
  shows "isReadMethod m" "key_route (admin_route path m)"
proof -
  show read: "isReadMethod m" using auth by (auto simp: authorizeSubject_def split: if_splits)
  then have m: "m \<noteq> ''POST''" "m \<noteq> ''PUT''" by (auto simp: isReadMethod_def)
  consider "path \<in> set open_paths" | raw where "path = ''providers/'' @ raw" "\<not> has_suffix path ''/remote-models''"
    | raw where "path = ''models/'' @ raw" | raw where "path = ''groups/'' @ raw" | raw where "path = ''requests/'' @ raw"
  proof -
    have "path \<in> set open_paths \<or> has_prefix path ''providers/'' \<and> \<not> has_suffix path ''/remote-models'' \<or>
        has_prefix path ''models/'' \<or> has_prefix path ''groups/'' \<or> has_prefix path ''requests/''"
      using auth by (simp add: authorizeSubject_def split: if_splits)
    then show thesis
      by (elim disjE conjE) (erule that(1), erule (1) that(2)[OF prefix_split], erule that(3)[OF prefix_split],
        erule that(4)[OF prefix_split], erule that(5)[OF prefix_split])
  qed
  then show "key_route (admin_route path m)"
  proof cases
    case 1
    then have "path = ''me'' \<or> path = ''overview'' \<or> path = ''analytics'' \<or> path = ''providers'' \<or> path = ''models'' \<or>
        path = ''groups'' \<or> path = ''groups/health'' \<or> path = ''requests''" by (simp add: open_paths_def)
    then show ?thesis using m by (elim disjE) (simp_all add: admin_route_def key_route_def has_prefix_def trim_prefix_def)
  next
    case 2
    then have "\<not> has_suffix raw ''/remote-models''" using suffix_of_item by blast
    with 2 show ?thesis by (simp add: admin_route_def key_route_def has_prefix_def trim_prefix_def)
  next
    case 3
    then show ?thesis by (simp add: admin_route_def key_route_def has_prefix_def trim_prefix_def)
  next
    case 4
    then show ?thesis using m by (auto simp: admin_route_def key_route_def has_prefix_def trim_prefix_def)
  next
    case 5
    then show ?thesis by (simp add: admin_route_def key_route_def has_prefix_def trim_prefix_def)
  qed
qed

lemma resolved_subject:
  assumes "resolveSubject hmac box now adminKey r db = Inr sub" "\<not> as_Admin sub"
  obtains k where "AuthenticateClientKey hmac box now (bearerToken r) db = Inr k" "ki_Enabled k" "\<not> Keyless k" "sub = key_subject k db"
  using assms by (auto simp: resolveSubject_def admin_subject_def Let_def split: if_splits sum.splits store_error.splits)

end
