(* ===== verification/Admin_State.thy ===== *)
theory Admin_State
  imports Admin_Access Analytics Config_Store Monitor Registry Plugins
begin

text \<open>
  The console's state and answers (httpapi/admin.go), and the conversions its handlers share. The state
  gathers what the handlers read and write: the database, the live settings and administrator key, the
  configuration file, the settings handed to the listener, the monitor's table, the cache of upstream
  clients and the plugins. An answer is a status with its payload; a store error in a payload stands for
  its text.
\<close>

section \<open>State\<close>

record console =
  cn_db :: db
  cn_settings :: Settings
  cn_adminKey :: string
  cn_files :: "files option"
  cn_published :: "Settings list"
  cn_monitor :: "MonitorRow list"
  cn_clients :: clients
  cn_plugins :: "plugin_world option"

text \<open>
  What one request finds around it: clock, keyed digest, platform, upstream library, floating point,
  randomness, whether the configuration file can be written, the upstream's answers, the plugin
  environment, the requests in flight (\<open>None\<close> without a relay service) and whether a monitor is set.
\<close>

record console_env =
  ce_now :: gotime
  ce_hmac :: "string \<Rightarrow> string \<Rightarrow> string"
  ce_plat :: platform
  ce_lookup :: lookup_env
  ce_floats :: floats
  ce_entropy :: entropy
  ce_nonce :: "string option"
  ce_written :: bool
  ce_transport :: json_transport
  ce_clocks :: "int \<Rightarrow> gotime \<times> gotime"
  ce_probe :: "int \<Rightarrow> probe_error option"
  ce_plugin :: plugin_env
  ce_active :: "int option"
  ce_monitor :: bool
  ce_unescape :: "string \<Rightarrow> string option"
  ce_date :: "string \<Rightarrow> int option"

abbreviation ce_box :: "console_env \<Rightarrow> Box" where
  "ce_box ev \<equiv> le_box (ce_lookup ev)"

abbreviation ce_net :: "console_env \<Rightarrow> netlib" where
  "ce_net ev \<equiv> le_net (ce_lookup ev)"

section \<open>Answers\<close>

datatype detail = DText string | DStore store_error | DPlugin plugin_error

record scope_view =
  sc_key :: int
  sc_group :: "int option"
  sc_group_name :: string

record self_info =
  si_key :: int
  si_name :: string
  si_enabled :: bool
  si_group :: "int option"
  si_group_name :: string
  si_concurrency :: int
  si_token_limit :: "int option"
  si_amount_limit :: "int option"
  si_used_tokens :: int
  si_used_amount :: int
  si_requests :: int
  si_expires :: "gotime option"
  si_expires_in :: "int option"
  si_models :: nat

record overview_view =
  ov_global :: "overview option"
  ov_concurrency :: "(int \<times> int) option"
  ov_group :: "group_overview option"
  ov_scope :: "scope_view option"
  ov_recent :: "RequestRow list"
  ov_me :: "self_info option"

record remote_model =
  rm_upstream :: string
  rm_public :: string
  rm_exists :: bool

record group_item =
  gi_group :: ModelGroup
  gi_bound :: int
  gi_tension :: rat
  gi_overdrawn :: bool

record key_item =
  kv_key :: KeyInfo
  kv_mode :: string
  kv_used :: KeyUsageStat
  kv_expired :: bool
  kv_expires_in :: "int option"

datatype issue = IssueDisabled | IssueExpired | IssueUnbound | IssueGroupDisabled | IssueNoModels

datatype warning = WarnExpiresSoon | WarnPublicApp

record group_entry =
  ge_id :: int
  ge_name :: string
  ge_enabled :: bool
  ge_rate :: int

record connection_view =
  cx_key :: KeyInfo
  cx_hint :: string
  cx_mode :: string
  cx_expired :: bool
  cx_expires_in :: "int option"
  cx_group :: "group_entry option"
  cx_models :: "string list"
  cx_base :: string
  cx_issues :: "issue list"
  cx_warnings :: "warning list"

datatype payload =
  PPage | PError string | PAuthError string | PDetail string detail
  | POk | PDeleted | PUnbound int
  | PSession bool "scope_view option" | PSelf self_info | POverview overview_view | PAnalytics analytics | PGroupOverview group_overview
  | PConfig env | PConfigSaved "string list" "string list" env
  | PProviders "ProviderView list" | PProvider ProviderView | PRemoteModels "remote_model list" | PImported "string list"
  | PModels "Model list" | PModel Model
  | PGroups "group_item list" | PGroup ModelGroup int | PProviderIDs "int list"
  | PHealth "(int \<times> GroupMonitorResult) list" int | PMonitored nat | PMonitorResult GroupMonitorResult | PHistory "GroupMonitorResult list"
  | PKeys "key_item list" | PKey KeyInfo | PHints "(int \<times> string) list" | PKeyGroup "int option" | PConnection connection_view
  | PRequests RequestPage | PRequest RequestRow
  | PPlugins "Plugin list" | PPlugin Plugin

type_synonym answer = "console \<times> nat \<times> payload"

definition refuse :: "console \<Rightarrow> nat \<Rightarrow> string \<Rightarrow> answer" where
  "refuse cn status message = (cn, status, PError message)"

definition refuse_detail :: "console \<Rightarrow> nat \<Rightarrow> string \<Rightarrow> detail \<Rightarrow> answer" where
  "refuse_detail cn status code d = (cn, status, PDetail code d)"

definition not_allowed :: "console \<Rightarrow> answer" where
  "not_allowed cn = refuse cn 405 ''method_not_allowed''"

text \<open>A body that cannot be decoded, and the outcome of a deletion.\<close>

definition with_body :: "console \<Rightarrow> string \<Rightarrow> (gmap \<Rightarrow> 'a option) \<Rightarrow> http_request \<Rightarrow> ('a \<Rightarrow> answer) \<Rightarrow> answer" where
  "with_body cn code members r k = (case decode_body members (hr_body r) of None \<Rightarrow> refuse cn 400 code | Some p \<Rightarrow> k p)"

definition writeDeleteResult :: "console \<Rightarrow> store_error + db \<Rightarrow> answer" where
  "writeDeleteResult cn r =
     (case r of Inr db \<Rightarrow> (cn\<lparr>cn_db := db\<rparr>, 200, POk)
      | Inl ErrNoRows \<Rightarrow> refuse cn 404 ''not_found'' | Inl _ \<Rightarrow> refuse cn 400 ''delete_failed'')"

text \<open>An operation that returns the new database with a value.\<close>

definition stored :: "console \<Rightarrow> nat \<Rightarrow> (store_error \<Rightarrow> answer) \<Rightarrow> ('a \<Rightarrow> payload) \<Rightarrow> store_error + db \<times> 'a \<Rightarrow> answer" where
  "stored cn status failed show_value r =
     (case r of Inl e \<Rightarrow> failed e | Inr (db, v) \<Rightarrow> (cn\<lparr>cn_db := db\<rparr>, status, show_value v))"

text \<open>A value that is only read.\<close>

definition shown_as :: "console \<Rightarrow> ('a \<Rightarrow> payload) \<Rightarrow> store_error + 'a \<Rightarrow> answer" where
  "shown_as cn show_value r = (case r of Inl _ \<Rightarrow> refuse cn 500 ''store_error'' | Inr v \<Rightarrow> (cn, 200, show_value v))"

section \<open>Conversions\<close>

definition json_number :: "floats \<Rightarrow> gval \<Rightarrow> rat option" where
  "json_number fl = json_float (\<lambda>s. Option.bind (fl_parse fl s) id)"

abbreviation float_pointer :: "floats \<Rightarrow> gmap \<Rightarrow> string \<Rightarrow> rat option option" where
  "float_pointer fl m name \<equiv> pointer_field (json_number fl) m name"

text \<open>\<open>int64(value*scale + 0.5)\<close> in \<open>float64\<close>.\<close>

definition scaled :: "floats \<Rightarrow> rat \<Rightarrow> rat \<Rightarrow> int" where
  "scaled fl scale v = fl_int fl (fl_round fl (fl_round fl (v * scale) + 1 / 2))"

definition microPrice :: "floats \<Rightarrow> rat option \<Rightarrow> int option \<Rightarrow> int option" where
  "microPrice fl v direct = (case direct of Some n \<Rightarrow> Some n | None \<Rightarrow> map_option (scaled fl 1000000) v)"

definition rateMilli :: "floats \<Rightarrow> rat option \<Rightarrow> int option \<Rightarrow> int" where
  "rateMilli fl rate direct =
     (case direct of Some n \<Rightarrow> n | None \<Rightarrow> (case rate of None \<Rightarrow> 0 | Some v \<Rightarrow> scaled fl 1000 v))"

text \<open>\<open>time.Duration(*seconds) * time.Second\<close> wraps around.\<close>

definition expiryFromTTL :: "gotime \<Rightarrow> int option \<Rightarrow> gotime option" where
  "expiryFromTTL now ttl =
     (case ttl of None \<Rightarrow> None | Some s \<Rightarrow> if s \<le> 0 then None else Some (now + wrap64 (s * second_ns)))"

text \<open>\<open>Time.Sub\<close> saturates; \<open>Duration.Seconds\<close> adds whole seconds and nanoseconds in \<open>float64\<close>.\<close>

definition time_sub :: "gotime \<Rightarrow> gotime \<Rightarrow> int" where
  "time_sub a b = max min_i64 (min max_i64 (a - b))"

definition int_seconds :: "floats \<Rightarrow> int \<Rightarrow> int" where
  "int_seconds fl d =
     fl_int fl (fl_round fl (of_int (d sdiv second_ns) + fl_round fl (of_int (d smod second_ns) / of_int second_ns)))"

text \<open>The \<open>group_id\<close> of a query: \<open>Inr None\<close> when it is empty.\<close>

definition group_param :: "http_request \<Rightarrow> unit + int option" where
  "group_param r =
     (let raw = trim_space (query_get r ''group_id'') in
      if raw = [] then Inr None
      else (case ParseInt raw of None \<Rightarrow> Inl () | Some i \<Rightarrow> if i \<le> 0 then Inl () else Inr (Some i)))"

definition bad_group :: "console \<Rightarrow> answer" where
  "bad_group cn = refuse_detail cn 400 ''invalid_query'' (DText ''group_id must be a positive integer'')"

definition scopePayload :: "adminSubject \<Rightarrow> scope_view" where
  "scopePayload sub = \<lparr>sc_key = as_KeyID sub, sc_group = (if as_GroupID sub > 0 then Some (as_GroupID sub) else None), sc_group_name = as_GroupName sub\<rparr>"

text \<open>The first segment of an item path.\<close>

definition item_id :: "string \<Rightarrow> int option" where
  "item_id raw = ParseInt (hd (split_on (CHR ''/'') raw))"

definition item_rest :: "string \<Rightarrow> string list" where
  "item_rest raw = tl (split_on (CHR ''/'') raw)"

end
