(* ===== verification/Admin_Catalog.thy ===== *)
theory Admin_Catalog
  imports Admin_State
begin

text \<open>
  The console's handlers for providers, models and groups (httpapi/admin.go). A handler takes the
  environment, the subject, the request and the state, and returns the new state with the answer.
\<close>

section \<open>Providers\<close>

definition providersList :: "console_env \<Rightarrow> adminSubject \<Rightarrow> console \<Rightarrow> answer" where
  "providersList ev sub cn =
     (let data = ListProviders (ce_box ev) (cn_db cn) in
      (cn, 200, PProviders
        (if as_Admin sub then data
         else
           let members = (case GroupProviderIDs (as_GroupID sub) (cn_db cn) of Inl _ \<Rightarrow> [] | Inr ids \<Rightarrow> if as_GroupID sub = 0 then [] else ids)
           in map (\<lambda>p. p\<lparr>pv_BaseURL := []\<rparr>) (filter (\<lambda>p. pv_ID p \<in> set members) data))))"

definition decode_new_provider :: "gmap \<Rightarrow> NewProvider option" where
  "decode_new_provider m =
     Option.bind (string_field m ''name'') (\<lambda>name.
     Option.bind (string_field m ''base_url'') (\<lambda>base.
     Option.bind (string_field m ''api_key'') (\<lambda>key.
     Option.bind (string_field m ''protocol'') (\<lambda>protocol.
     Some \<lparr>np_Name = name, np_BaseURL = base, np_APIKey = key, np_Protocol = protocol, np_Enabled = False\<rparr>))))"

definition providerCreate :: "console_env \<Rightarrow> http_request \<Rightarrow> console \<Rightarrow> answer" where
  "providerCreate ev r cn =
     with_body cn ''invalid_request'' decode_new_provider r (\<lambda>inp.
     stored cn 201 (\<lambda>e. refuse_detail cn 400 ''provider_invalid'' (DStore e)) PProvider
       (CreateProvider (ce_net ev) (ce_nonce ev) (ce_box ev) inp (cn_db cn)))"

text \<open>\<open>store.UpdateProvider\<close> has no JSON tags: its members have the names of the Go fields.\<close>

definition decode_update_provider :: "gmap \<Rightarrow> UpdateProviderInput option" where
  "decode_update_provider m =
     Option.bind (string_field m ''Name'') (\<lambda>name.
     Option.bind (string_field m ''BaseURL'') (\<lambda>base.
     Option.bind (string_field m ''APIKey'') (\<lambda>key.
     Option.bind (string_field m ''Protocol'') (\<lambda>protocol.
     Option.bind (bool_pointer m ''Enabled'') (\<lambda>enabled.
     Some \<lparr>up_Name = name, up_BaseURL = base, up_APIKey = key, up_Protocol = protocol, up_Enabled = enabled\<rparr>)))))"

definition model_names :: "db \<Rightarrow> string set" where
  "model_names db = set (map m_public_name (ListModels db))"

definition providerRemoteModels :: "console_env \<Rightarrow> int \<Rightarrow> console \<Rightarrow> answer" where
  "providerRemoteModels ev i cn =
     (if ce_active ev = None then refuse cn 503 ''relay_unavailable''
      else (case PreviewModels (ce_lookup ev) (ce_transport ev) i (cn_db cn) (cn_clients cn) of
              (cs, r) \<Rightarrow>
                let cn = cn\<lparr>cn_clients := cs\<rparr> in
                (case r of
                   Inl _ \<Rightarrow> refuse cn 502 ''upstream_unavailable''
                 | Inr names \<Rightarrow>
                     (case GetProvider (ce_box ev) i (cn_db cn) of
                        Inl _ \<Rightarrow> refuse cn 404 ''provider_not_found''
                      | Inr p \<Rightarrow> (cn, 200, PRemoteModels (map (\<lambda>name.
                          \<lparr>rm_upstream = name, rm_public = pv_Name p @ ''/'' @ name,
                           rm_exists = (pv_Name p @ ''/'' @ name \<in> model_names (cn_db cn))\<rparr>) names))))))"

definition decode_import :: "gmap \<Rightarrow> (string \<times> string) list option" where
  "decode_import m = plain_field (json_list (struct_of (\<lambda>e.
     Option.bind (string_field e ''upstream_name'') (\<lambda>u. map_option (Pair u) (string_field e ''public_name'')))) ([], [])) [] m ''models''"

text \<open>The loop of \<open>providerImportModels\<close>: a refused model stops it, the models before it stay.\<close>

fun import_selected :: "int \<Rightarrow> string \<Rightarrow> (string \<times> string) list \<Rightarrow> string set \<Rightarrow> db \<Rightarrow> string list \<Rightarrow> db \<times> (store_error + string list)" where
  "import_selected i prefix [] known db created = (db, Inr created)"
| "import_selected i prefix ((u, p) # items) known db created =
     (let upstream = trim_space u; public = (if trim_space p = [] then prefix @ ''/'' @ upstream else trim_space p) in
      if upstream = [] \<or> public \<in> known then import_selected i prefix items known db created
      else (case CreateImportedModel \<lparr>nm_ProviderID = i, nm_PublicName = public, nm_UpstreamName = upstream, nm_InputPrice = None,
                 nm_OutputPrice = None, nm_CachedPrice = None, nm_Enabled = False\<rparr> db of
              Inl e \<Rightarrow> (db, Inl e)
            | Inr (db', _) \<Rightarrow> import_selected i prefix items (insert public known) db' (created @ [public])))"

definition providerImportModels :: "console_env \<Rightarrow> http_request \<Rightarrow> int \<Rightarrow> console \<Rightarrow> answer" where
  "providerImportModels ev r i cn =
     with_body cn ''invalid_request'' decode_import r (\<lambda>items.
     case GetProvider (ce_box ev) i (cn_db cn) of
       Inl _ \<Rightarrow> refuse cn 404 ''provider_not_found''
     | Inr p \<Rightarrow> (case import_selected i (pv_Name p) items (model_names (cn_db cn)) (cn_db cn) [] of
           (db, Inl _) \<Rightarrow> refuse (cn\<lparr>cn_db := db\<rparr>) 400 ''model_invalid''
         | (db, Inr created) \<Rightarrow> (cn\<lparr>cn_db := db\<rparr>, 200, PImported created)))"

text \<open>The store's callback evicts the clients of a changed provider.\<close>

definition evict_all :: "int list \<Rightarrow> clients \<Rightarrow> clients" where
  "evict_all ids cs = fold EvictProvider ids cs"

definition providerUpdate :: "console_env \<Rightarrow> http_request \<Rightarrow> int \<Rightarrow> console \<Rightarrow> answer" where
  "providerUpdate ev r i cn =
     with_body cn ''invalid_request'' decode_update_provider r (\<lambda>inp.
     case UpdateProvider (ce_net ev) (ce_nonce ev) (ce_box ev) i inp (cn_db cn) of
       Inl e \<Rightarrow> refuse_detail cn 400 ''provider_invalid'' (DStore e)
     | Inr (db, p, evicted) \<Rightarrow> (cn\<lparr>cn_db := db, cn_clients := evict_all evicted (cn_clients cn)\<rparr>, 200, PProvider p))"

definition providerDelete :: "int \<Rightarrow> console \<Rightarrow> answer" where
  "providerDelete i cn =
     (case DeleteProvider i (cn_db cn) of
        Inl e \<Rightarrow> writeDeleteResult cn (Inl e)
      | Inr (db, evicted) \<Rightarrow> writeDeleteResult (cn\<lparr>cn_clients := evict_all evicted (cn_clients cn)\<rparr>) (Inr db))"

definition providerItem :: "console_env \<Rightarrow> http_request \<Rightarrow> string \<Rightarrow> console \<Rightarrow> answer" where
  "providerItem ev r raw cn =
     (case item_id raw of
        None \<Rightarrow> refuse cn 400 ''invalid_id''
      | Some i \<Rightarrow>
          let rest = item_rest raw; m = hr_method r in
          if rest = [] \<and> m = ''DELETE'' then providerDelete i cn
          else if rest = [''remote-models''] then (if m \<noteq> ''GET'' then not_allowed cn else providerRemoteModels ev i cn)
          else if rest = [''models'', ''import''] then (if m \<noteq> ''POST'' then not_allowed cn else providerImportModels ev r i cn)
          else if rest \<noteq> [] \<or> m \<noteq> ''PUT'' then not_allowed cn
          else providerUpdate ev r i cn)"

section \<open>Models\<close>

record modelPayload =
  md_ProviderID :: int
  md_PublicName :: string
  md_UpstreamName :: string
  md_Input :: "int option"
  md_Output :: "int option"
  md_Cached :: "int option"
  md_Enabled :: "bool option"

text \<open>The two spellings of a price are joined by \<open>microPrice\<close>.\<close>

definition price_field :: "floats \<Rightarrow> gmap \<Rightarrow> string \<Rightarrow> string \<Rightarrow> int option option" where
  "price_field fl m yuan micro =
     Option.bind (float_pointer fl m yuan) (\<lambda>v. map_option (microPrice fl v) (int_pointer m micro))"

definition decode_model :: "floats \<Rightarrow> gmap \<Rightarrow> modelPayload option" where
  "decode_model fl m =
     Option.bind (int_field m ''provider_id'') (\<lambda>provider.
     Option.bind (string_field m ''public_name'') (\<lambda>public.
     Option.bind (string_field m ''upstream_name'') (\<lambda>upstream.
     Option.bind (price_field fl m ''input_price'' ''input_price_microyuan'') (\<lambda>inputPrice.
     Option.bind (price_field fl m ''output_price'' ''output_price_microyuan'') (\<lambda>outputPrice.
     Option.bind (price_field fl m ''cached_input_price'' ''cached_input_price_microyuan'') (\<lambda>cachedPrice.
     Option.bind (bool_pointer m ''enabled'') (\<lambda>enabled.
     Some \<lparr>md_ProviderID = provider, md_PublicName = public, md_UpstreamName = upstream, md_Input = inputPrice, md_Output = outputPrice,
           md_Cached = cachedPrice, md_Enabled = enabled\<rparr>)))))))"

definition modelCreate :: "console_env \<Rightarrow> http_request \<Rightarrow> console \<Rightarrow> answer" where
  "modelCreate ev r cn =
     with_body cn ''invalid_request'' (decode_model (ce_floats ev)) r (\<lambda>p.
     stored cn 201 (\<lambda>_. refuse cn 400 ''model_invalid'') PModel
       (CreateModel \<lparr>nm_ProviderID = md_ProviderID p, nm_PublicName = md_PublicName p, nm_UpstreamName = md_UpstreamName p,
          nm_InputPrice = md_Input p, nm_OutputPrice = md_Output p, nm_CachedPrice = md_Cached p,
          nm_Enabled = (md_Enabled p \<noteq> Some False)\<rparr> (cn_db cn)))"

definition modelsList :: "adminSubject \<Rightarrow> console \<Rightarrow> answer" where
  "modelsList sub cn =
     (if as_Admin sub then (cn, 200, PModels (ListModels (cn_db cn)))
      else if as_GroupID sub = 0 then (cn, 200, PModels [])
      else shown_as cn PModels (AuthorizedModelsForKey (as_KeyID sub) (cn_db cn)))"

definition modelItem :: "console_env \<Rightarrow> http_request \<Rightarrow> string \<Rightarrow> console \<Rightarrow> answer" where
  "modelItem ev r raw cn =
     (case ParseInt raw of
        None \<Rightarrow> refuse cn 400 ''invalid_id''
      | Some i \<Rightarrow>
          if hr_method r = ''DELETE'' then writeDeleteResult cn (DeleteModel i (cn_db cn))
          else if hr_method r \<noteq> ''PUT'' then not_allowed cn
          else
            with_body cn ''invalid_request'' (decode_model (ce_floats ev)) r (\<lambda>p.
            stored cn 200 (\<lambda>_. refuse cn 400 ''model_invalid'') PModel
              (UpdateModel i \<lparr>um_ProviderID = (if md_ProviderID p > 0 then Some (md_ProviderID p) else None), um_PublicName = md_PublicName p,
                 um_UpstreamName = md_UpstreamName p, um_InputPrice = md_Input p, um_OutputPrice = md_Output p, um_CachedPrice = md_Cached p,
                 um_Enabled = md_Enabled p\<rparr> (cn_db cn))))"

section \<open>Groups\<close>

record groupPayload =
  gp_Name :: string
  gp_Rate :: int
  gp_ProviderIDs :: "int list"

definition decode_group :: "floats \<Rightarrow> gmap \<Rightarrow> groupPayload option" where
  "decode_group fl m =
     Option.bind (string_field m ''name'') (\<lambda>name.
     Option.bind (float_pointer fl m ''rate'') (\<lambda>rate.
     Option.bind (int_pointer m ''rate_milli'') (\<lambda>milli.
     Option.bind (plain_field (json_list json_int 0) [] m ''provider_ids'') (\<lambda>ids.
     Some \<lparr>gp_Name = name, gp_Rate = rateMilli fl rate milli, gp_ProviderIDs = ids\<rparr>))))"

text \<open>The group stays when its providers are refused.\<close>

definition groupCreate :: "console_env \<Rightarrow> http_request \<Rightarrow> console \<Rightarrow> answer" where
  "groupCreate ev r cn =
     with_body cn ''invalid_request'' (decode_group (ce_floats ev)) r (\<lambda>p.
     case CreateModelGroup \<lparr>ng_Name = gp_Name p, ng_Enabled = False, ng_RateMilli = gp_Rate p\<rparr> (cn_db cn) of
       Inl _ \<Rightarrow> refuse cn 400 ''group_invalid''
     | Inr (db, g) \<Rightarrow>
         (case ReplaceGroupProviders (g_id g) (gp_ProviderIDs p) db of
            Inl _ \<Rightarrow> refuse (cn\<lparr>cn_db := db\<rparr>) 400 ''group_invalid''
          | Inr db' \<Rightarrow> (cn\<lparr>cn_db := db'\<rparr>, 201, PGroup g 0)))"

definition tension :: "floats \<Rightarrow> int option \<Rightarrow> int \<Rightarrow> rat \<times> bool" where
  "tension fl limit used =
     (case limit of None \<Rightarrow> (0, False)
      | Some l \<Rightarrow> if l \<le> 0 then (0, False)
          else (fl_round fl (fl_round fl (fl_round fl (of_int used) / fl_round fl (of_int l)) * 100), used \<ge> l))"

text \<open>\<open>math.Round\<close> rounds a half away from zero.\<close>

definition round_away :: "rat \<Rightarrow> rat" where
  "round_away x = (if x < 0 then - of_int \<lfloor>1 / 2 - x\<rfloor> else of_int \<lfloor>x + 1 / 2\<rfloor>)"

definition group_item_of :: "floats \<Rightarrow> buckets \<Rightarrow> buckets \<Rightarrow> buckets \<Rightarrow> ModelGroup \<times> int \<Rightarrow> group_item" where
  "group_item_of fl five daily weekly gb =
     (case gb of (g, bound) \<Rightarrow>
       let cells = [tension fl (g_token_5h g) (fst (bucket five (g_id g))), tension fl (g_token_daily g) (fst (bucket daily (g_id g))),
                    tension fl (g_token_weekly g) (fst (bucket weekly (g_id g)))]
       in \<lparr>gi_group = g, gi_bound = bound,
           gi_tension = fl_round fl (round_away (fl_round fl (foldl (\<lambda>pct c. if fst c > pct then fst c else pct) 0 cells * 10)) / 10),
           gi_overdrawn = list_ex snd cells\<rparr>)"

definition groupsList :: "console_env \<Rightarrow> adminSubject \<Rightarrow> console \<Rightarrow> answer" where
  "groupsList ev sub cn =
     (let data = ListModelGroups (cn_db cn);
          data = (if as_Admin sub then data else filter (\<lambda>gb. as_GroupID sub > 0 \<and> g_id (fst gb) = as_GroupID sub) data) in
      case GroupUsageBuckets (ce_now ev) (cn_db cn) of
        Inl _ \<Rightarrow> refuse cn 500 ''usage_error''
      | Inr (five, daily, weekly) \<Rightarrow> (cn, 200, PGroups (map (group_item_of (ce_floats ev) five daily weekly) data)))"

definition own_group :: "adminSubject \<Rightarrow> int \<Rightarrow> bool" where
  "own_group sub i \<longleftrightarrow> as_Admin sub \<or> (as_GroupID sub \<noteq> 0 \<and> i = as_GroupID sub)"

definition groupsHealth :: "adminSubject \<Rightarrow> console \<Rightarrow> answer" where
  "groupsHealth sub cn =
     (cn, 200, PHealth (filter (\<lambda>(i, _). own_group sub i) (LatestGroupMonitorResults (cn_db cn) (cn_monitor cn)))
        (cf_GroupMonitorInterval (cn_settings cn)))"

definition groupsMonitorAll :: "console_env \<Rightarrow> console \<Rightarrow> answer" where
  "groupsMonitorAll ev cn =
     (if \<not> ce_monitor ev then refuse cn 503 ''monitor_unavailable''
      else (case Monitor_RunOnce (ce_now ev) (ce_clocks ev) (ce_probe ev) ''manual'' (cn_db cn) (cn_db cn) (cn_monitor cn) of
              (rows, saved, None) \<Rightarrow> (cn\<lparr>cn_monitor := rows\<rparr>, 200, PMonitored saved)
            | (rows, _, Some e) \<Rightarrow> refuse_detail (cn\<lparr>cn_monitor := rows\<rparr>) 500 ''monitor_failed'' (DStore e)))"

definition groupMonitorNow :: "console_env \<Rightarrow> int \<Rightarrow> console \<Rightarrow> answer" where
  "groupMonitorNow ev i cn =
     (if \<not> ce_monitor ev then refuse cn 503 ''monitor_unavailable''
      else (case RunGroup (ce_now ev) (ce_clocks ev i) (ce_probe ev) i (cn_db cn) (cn_db cn) (cn_monitor cn) of
              (rows, Inr res) \<Rightarrow> (cn\<lparr>cn_monitor := rows\<rparr>, 200, PMonitorResult res)
            | (rows, Inl e) \<Rightarrow> refuse_detail (cn\<lparr>cn_monitor := rows\<rparr>) 400 ''monitor_failed'' (DStore e)))"

definition groupMonitorHistory :: "int \<Rightarrow> console \<Rightarrow> answer" where
  "groupMonitorHistory i cn = shown_as cn PHistory (GroupMonitorHistory i 50 (cn_db cn) (cn_monitor cn))"

definition decode_update_group :: "floats \<Rightarrow> gmap \<Rightarrow> UpdateModelGroupInput option" where
  "decode_update_group fl m =
     Option.bind (string_field m ''name'') (\<lambda>name.
     Option.bind (bool_pointer m ''enabled'') (\<lambda>enabled.
     Option.bind (float_pointer fl m ''rate'') (\<lambda>rate.
     Option.bind (int_pointer m ''rate_milli'') (\<lambda>milli.
     Option.bind (int_pointer m ''token_limit_5h'') (\<lambda>t5.
     Option.bind (int_pointer m ''amount_limit_5h'') (\<lambda>a5.
     Option.bind (int_pointer m ''token_limit_daily'') (\<lambda>td.
     Option.bind (int_pointer m ''amount_limit_daily'') (\<lambda>ad.
     Option.bind (int_pointer m ''token_limit_weekly'') (\<lambda>tw.
     Option.bind (int_pointer m ''amount_limit_weekly'') (\<lambda>aw.
     Option.bind (int_pointer m ''period_limit_days'') (\<lambda>days.
     Option.bind (int_pointer m ''token_limit_period'') (\<lambda>tp.
     Option.bind (int_pointer m ''amount_limit_period'') (\<lambda>ap.
     Option.bind (string_pointer m ''period_limit_start'') (\<lambda>ps.
     Some \<lparr>ug_Name = name, ug_Enabled = enabled,
           ug_RateMilli = (if rate \<noteq> None \<or> milli \<noteq> None then Some (rateMilli fl rate milli) else None),
           ug_Token5H = t5, ug_Amount5H = a5, ug_TokenDaily = td, ug_AmountDaily = ad, ug_TokenWeekly = tw, ug_AmountWeekly = aw,
           ug_PeriodDays = days, ug_TokenPeriod = tp, ug_AmountPeriod = ap, ug_PeriodStart = ps\<rparr>))))))))))))))"

text \<open>The answer to an update shows the group without the number of its keys.\<close>

definition groupUpdate :: "console_env \<Rightarrow> http_request \<Rightarrow> int \<Rightarrow> console \<Rightarrow> answer" where
  "groupUpdate ev r i cn =
     with_body cn ''invalid_request'' (decode_update_group (ce_floats ev)) r (\<lambda>inp.
     stored cn 200 (\<lambda>_. refuse cn 400 ''group_invalid'') (\<lambda>g. PGroup g 0)
       (UpdateModelGroup (ce_plat ev) (ce_now ev) i inp (cn_db cn)))"

definition groupGet :: "int \<Rightarrow> console \<Rightarrow> answer" where
  "groupGet i cn =
     (case GetModelGroup i (cn_db cn) of
        Inl ErrNoRows \<Rightarrow> refuse cn 404 ''not_found'' | Inl _ \<Rightarrow> refuse cn 500 ''store_error''
      | Inr (g, bound) \<Rightarrow> (cn, 200, PGroup g bound))"

definition groupDelete :: "int \<Rightarrow> console \<Rightarrow> answer" where
  "groupDelete i cn =
     (case CountKeysInGroup i (cn_db cn) of
        Inl _ \<Rightarrow> refuse cn 500 ''store_error''
      | Inr bound \<Rightarrow>
          (case DeleteModelGroup i (cn_db cn) of
             Inl e \<Rightarrow> writeDeleteResult cn (Inl e)
           | Inr db \<Rightarrow> (cn\<lparr>cn_db := db, cn_monitor := drop_group_results i (cn_monitor cn)\<rparr>, 200, PUnbound bound)))"

definition groupProviders :: "http_request \<Rightarrow> int \<Rightarrow> console \<Rightarrow> answer" where
  "groupProviders r i cn =
     (if hr_method r = ''GET'' then
        (case GroupProviderIDs i (cn_db cn) of Inl _ \<Rightarrow> refuse cn 400 ''group_invalid'' | Inr ids \<Rightarrow> (cn, 200, PProviderIDs ids))
      else if hr_method r = ''PUT'' then
        with_body cn ''invalid_request'' (\<lambda>m. plain_field (json_list json_int 0) [] m ''provider_ids'') r (\<lambda>ids.
        case ReplaceGroupProviders i ids (cn_db cn) of
          Inl _ \<Rightarrow> refuse cn 400 ''group_invalid'' | Inr db \<Rightarrow> (cn\<lparr>cn_db := db\<rparr>, 200, POk))
      else not_allowed cn)"

definition groupItem :: "console_env \<Rightarrow> adminSubject \<Rightarrow> http_request \<Rightarrow> string \<Rightarrow> console \<Rightarrow> answer" where
  "groupItem ev sub r raw cn =
     (case item_id raw of
        None \<Rightarrow> refuse cn 400 ''invalid_id''
      | Some i \<Rightarrow>
          let rest = item_rest raw; m = hr_method r in
          if \<not> own_group sub i then refuse cn 404 ''not_found''
          else if rest = [] \<and> m = ''GET'' then groupGet i cn
          else if rest = [] \<and> m = ''DELETE'' then groupDelete i cn
          else if rest = [] \<and> m = ''PUT'' then groupUpdate ev r i cn
          else if rest = [''monitor''] then
            (if m = ''POST'' then groupMonitorNow ev i cn else if m = ''GET'' then groupMonitorHistory i cn else not_allowed cn)
          else if rest = [''overview''] \<and> m = ''GET'' then
            (case GroupOverview (ce_plat ev) (fl_round (ce_floats ev)) i (ce_now ev) (cn_db cn) of
               Inl _ \<Rightarrow> refuse cn 500 ''ledger_unavailable'' | Inr ov \<Rightarrow> (cn, 200, PGroupOverview ov))
          else if rest = [''providers''] then groupProviders r i cn
          else not_allowed cn)"

end
