(* ===== verification/Admin_Keys.thy ===== *)
theory Admin_Keys
  imports Admin_State
begin

text \<open>
  The console's handlers for client keys (httpapi/admin.go): creation and update with their expiry, the
  listing, the hints, and the connection data with its diagnosis. Texts for the operator are constructors.
\<close>

section \<open>Creation\<close>

record keyPayload =
  kp_Name :: string
  kp_Concurrency :: int
  kp_TokenLimit :: "int option"
  kp_Money :: "rat option"
  kp_Group :: "int option"
  kp_TTL :: "int option"
  kp_Keyless :: bool

definition decode_key :: "floats \<Rightarrow> gmap \<Rightarrow> keyPayload option" where
  "decode_key fl m =
     Option.bind (string_field m ''name'') (\<lambda>name.
     Option.bind (int_field m ''max_concurrency'') (\<lambda>concurrency.
     Option.bind (int_pointer m ''token_limit_total'') (\<lambda>tokenLimit.
     Option.bind (float_pointer fl m ''money_limit_yuan_total'') (\<lambda>money.
     Option.bind (int_pointer m ''group_id'') (\<lambda>gid.
     Option.bind (int_pointer m ''ttl_seconds'') (\<lambda>ttl.
     Option.bind (bool_field m ''keyless'') (\<lambda>keyless.
     Some \<lparr>kp_Name = name, kp_Concurrency = concurrency, kp_TokenLimit = tokenLimit, kp_Money = money, kp_Group = gid, kp_TTL = ttl,
           kp_Keyless = keyless\<rparr>)))))))"

definition new_key_input :: "console_env \<Rightarrow> keyPayload \<Rightarrow> NewClientKey" where
  "new_key_input ev p =
     \<lparr>nk_Name = kp_Name p, nk_Enabled = False, nk_ConcurrencyLimit = (if kp_Concurrency p = 0 then 1 else kp_Concurrency p),
      nk_TokenLimit = kp_TokenLimit p, nk_AmountLimit = map_option (scaled (ce_floats ev) 1000000) (kp_Money p),
      nk_ExpiresAt = expiryFromTTL (ce_now ev) (kp_TTL p), nk_Keyless = kp_Keyless p\<rparr>"

text \<open>The key stays, and its token is never shown, when binding it to the group fails.\<close>

definition keyCreate :: "console_env \<Rightarrow> http_request \<Rightarrow> console \<Rightarrow> answer" where
  "keyCreate ev r cn =
     with_body cn ''invalid_request'' (decode_key (ce_floats ev)) r (\<lambda>p.
     if kp_Group p \<noteq> None \<and> the (kp_Group p) < 0 then refuse cn 400 ''invalid_request''
     else (case CreateClientKey (ce_hmac ev) (ce_box ev) (ce_now ev) (ce_entropy ev) (new_key_input ev p) (cn_db cn) of
             Inl _ \<Rightarrow> refuse cn 400 ''key_invalid''
           | Inr (db, k) \<Rightarrow>
               (case kp_Group p of
                  None \<Rightarrow> (cn\<lparr>cn_db := db\<rparr>, 201, PKey k)
                | Some gid \<Rightarrow>
                    if gid \<le> 0 then (cn\<lparr>cn_db := db\<rparr>, 201, PKey k)
                    else (case SetKeyGroup (ki_ID k) gid db of
                            Inl _ \<Rightarrow> refuse (cn\<lparr>cn_db := db\<rparr>) 400 ''key_invalid''
                          | Inr db' \<Rightarrow> (cn\<lparr>cn_db := db'\<rparr>, 201, PKey (k\<lparr>ki_GroupID := Some gid\<rparr>))))))"

section \<open>Listings\<close>

definition auth_mode :: "KeyInfo \<Rightarrow> string" where
  "auth_mode k = (if Keyless k then ''app'' else ''token'')"

definition no_usage :: KeyUsageStat where
  "no_usage = \<lparr>ku_Tokens = 0, ku_Amount = 0, ku_Requests = 0\<rparr>"

definition expires_in :: "console_env \<Rightarrow> KeyInfo \<Rightarrow> int option" where
  "expires_in ev k = map_option (\<lambda>t. int_seconds (ce_floats ev) (time_sub t (ce_now ev))) (ki_ExpiresAt k)"

definition key_item_of :: "console_env \<Rightarrow> (int \<times> KeyUsageStat) list \<Rightarrow> KeyInfo \<Rightarrow> key_item" where
  "key_item_of ev usage k =
     \<lparr>kv_key = k, kv_mode = auth_mode k, kv_used = (case map_of usage (ki_ID k) of None \<Rightarrow> no_usage | Some u \<Rightarrow> u),
      kv_expired = Expired (ce_now ev) k, kv_expires_in = expires_in ev k\<rparr>"

definition keysList :: "console_env \<Rightarrow> console \<Rightarrow> answer" where
  "keysList ev cn =
     (case KeyUsage (cn_db cn) of
        Inl _ \<Rightarrow> refuse cn 500 ''usage_error''
      | Inr usage \<Rightarrow> (cn, 200, PKeys (map (key_item_of ev usage) (ListClientKeys (cn_db cn)))))"

definition keysHints :: "console \<Rightarrow> answer" where
  "keysHints cn = (cn, 200, PHints (map (\<lambda>k. (k_id k, k_hint k)) (db_keys (cn_db cn))))"

section \<open>Connection data\<close>

definition clientBaseURL :: "http_request \<Rightarrow> string" where
  "clientBaseURL r =
     (let proto = trim_space (hr_header r ''X-Forwarded-Proto''); host = trim_space (hr_host r);
          scheme = (if proto \<noteq> [] then proto else if hr_tls r then ''https'' else ''http'')
      in scheme @ ''://'' @ (if host = [] then ''127.0.0.1'' else host) @ ''/v1'')"

definition connection_group :: "db \<Rightarrow> KeyInfo \<Rightarrow> group_entry option" where
  "connection_group db k =
     map_option (\<lambda>gid. case find (\<lambda>gb. g_id (fst gb) = gid) (ListModelGroups db) of
         None \<Rightarrow> \<lparr>ge_id = gid, ge_name = [], ge_enabled = False, ge_rate = DefaultGroupRateMilli\<rparr>
       | Some (g, _) \<Rightarrow> \<lparr>ge_id = gid, ge_name = g_name g, ge_enabled = g_enabled g, ge_rate = g_rate_milli g\<rparr>) (ki_GroupID k)"

definition connection_issues :: "gotime \<Rightarrow> KeyInfo \<Rightarrow> group_entry option \<Rightarrow> string list \<Rightarrow> issue list" where
  "connection_issues now k entry names =
     (if \<not> ki_Enabled k then [IssueDisabled] else []) @ (if Expired now k then [IssueExpired] else []) @
     (case entry of None \<Rightarrow> [IssueUnbound] | Some e \<Rightarrow> if ge_enabled e then [] else [IssueGroupDisabled]) @
     (if names = [] then [IssueNoModels] else [])"

definition connection_warnings :: "gotime \<Rightarrow> KeyInfo \<Rightarrow> warning list" where
  "connection_warnings now k =
     (if \<not> Expired now k \<and> ki_ExpiresAt k \<noteq> None \<and> time_sub (the (ki_ExpiresAt k)) now < day_ns then [WarnExpiresSoon] else []) @
     (if Keyless k then [WarnPublicApp] else [])"

definition keyConnection :: "console_env \<Rightarrow> http_request \<Rightarrow> int \<Rightarrow> console \<Rightarrow> answer" where
  "keyConnection ev r i cn =
     (case GetClientKey i (cn_db cn) of
        Inl _ \<Rightarrow> refuse cn 404 ''not_found''
      | Inr k \<Rightarrow>
          (case AuthorizedModelsForKey i (cn_db cn) of
             Inl _ \<Rightarrow> refuse cn 500 ''store_error''
           | Inr models \<Rightarrow>
               let names = map m_public_name models; entry = connection_group (cn_db cn) k in
               (cn, 200, PConnection
                 \<lparr>cx_key = k, cx_hint = (case KeyTokenHints (cn_db cn) i of None \<Rightarrow> [] | Some h \<Rightarrow> h), cx_mode = auth_mode k,
                  cx_expired = Expired (ce_now ev) k, cx_expires_in = expires_in ev k, cx_group = entry, cx_models = names,
                  cx_base = clientBaseURL r, cx_issues = connection_issues (ce_now ev) k entry names,
                  cx_warnings = connection_warnings (ce_now ev) k\<rparr>)))"

text \<open>\<open>ready\<close> of the answer.\<close>

definition connection_ready :: "connection_view \<Rightarrow> bool" where
  "connection_ready cx \<longleftrightarrow> cx_issues cx = []"

section \<open>One key\<close>

record keyUpdatePayload =
  kq_Name :: string
  kq_Enabled :: "bool option"
  kq_Concurrency :: "int option"
  kq_TokenLimit :: "int option"
  kq_Money :: "rat option"
  kq_TTL :: "int option"

definition decode_update_key :: "floats \<Rightarrow> gmap \<Rightarrow> keyUpdatePayload option" where
  "decode_update_key fl m =
     Option.bind (string_field m ''name'') (\<lambda>name.
     Option.bind (bool_pointer m ''enabled'') (\<lambda>enabled.
     Option.bind (int_pointer m ''concurrency_limit'') (\<lambda>concurrency.
     Option.bind (int_pointer m ''token_limit_total'') (\<lambda>tokenLimit.
     Option.bind (float_pointer fl m ''money_limit_yuan_total'') (\<lambda>money.
     Option.bind (int_pointer m ''ttl_seconds'') (\<lambda>ttl.
     Some \<lparr>kq_Name = name, kq_Enabled = enabled, kq_Concurrency = concurrency, kq_TokenLimit = tokenLimit, kq_Money = money, kq_TTL = ttl\<rparr>))))))"

definition update_key_input :: "console_env \<Rightarrow> keyUpdatePayload \<Rightarrow> UpdateClientKeyInput" where
  "update_key_input ev p =
     \<lparr>uk_Name = kq_Name p, uk_Enabled = kq_Enabled p, uk_ConcurrencyLimit = kq_Concurrency p, uk_TokenLimit = kq_TokenLimit p,
      uk_AmountLimit = map_option (scaled (ce_floats ev) 1000000) (kq_Money p), uk_DisabledReason = None,
      uk_ExpiresAt = (if kq_TTL p \<noteq> None \<and> the (kq_TTL p) > 0 then expiryFromTTL (ce_now ev) (kq_TTL p) else None),
      uk_ClearExpiresAt = (kq_TTL p \<noteq> None \<and> the (kq_TTL p) \<le> 0)\<rparr>"

definition keyUpdate :: "console_env \<Rightarrow> http_request \<Rightarrow> int \<Rightarrow> console \<Rightarrow> answer" where
  "keyUpdate ev r i cn =
     with_body cn ''invalid_request'' (decode_update_key (ce_floats ev)) r (\<lambda>p.
     stored cn 200 (\<lambda>_. refuse cn 400 ''key_invalid'') PKey (UpdateClientKey i (update_key_input ev p) (cn_db cn)))"

definition keyGroup :: "http_request \<Rightarrow> int \<Rightarrow> console \<Rightarrow> answer" where
  "keyGroup r i cn =
     (if hr_method r = ''GET'' then
        (case GetClientKey i (cn_db cn) of Inl _ \<Rightarrow> refuse cn 404 ''not_found'' | Inr k \<Rightarrow> (cn, 200, PKeyGroup (ki_GroupID k)))
      else
        with_body cn ''invalid_request'' (\<lambda>m. int_field m ''group_id'') r (\<lambda>gid.
        if gid < 0 then refuse cn 400 ''invalid_request''
        else (case SetKeyGroup i gid (cn_db cn) of Inl _ \<Rightarrow> refuse cn 400 ''key_invalid'' | Inr db \<Rightarrow> (cn\<lparr>cn_db := db\<rparr>, 200, POk))))"

text \<open>A \<open>PUT\<close> on any other path below the id updates the key.\<close>

definition keyItem :: "console_env \<Rightarrow> http_request \<Rightarrow> string \<Rightarrow> console \<Rightarrow> answer" where
  "keyItem ev r raw cn =
     (case item_id raw of
        None \<Rightarrow> refuse cn 400 ''invalid_id''
      | Some i \<Rightarrow>
          let rest = item_rest raw; m = hr_method r in
          if rest = [] \<and> m = ''DELETE'' then writeDeleteResult cn (DeleteClientKey i (cn_db cn))
          else if rest = [''rotate''] then
            (if m \<noteq> ''POST'' then not_allowed cn
             else stored cn 200 (\<lambda>_. refuse cn 400 ''key_invalid'') PKey
               (RotateClientKey (ce_hmac ev) (ce_box ev) (ce_now ev) (ce_entropy ev) i (cn_db cn)))
          else if rest = [''connection''] then (if m \<noteq> ''GET'' then not_allowed cn else keyConnection ev r i cn)
          else if rest = [''group''] \<and> (m = ''GET'' \<or> m = ''PUT'') then keyGroup r i cn
          else if m \<noteq> ''PUT'' then not_allowed cn
          else keyUpdate ev r i cn)"

end
