(* ===== verification/Admin_Views.thy ===== *)
theory Admin_Views
  imports Admin_State
begin

text \<open>
  The console's handlers for the overview, the caller's own key, the dashboard, the settings, the request
  records and the plugins (httpapi/admin.go).
\<close>

section \<open>Overview\<close>

definition keySelfInfo :: "console_env \<Rightarrow> adminSubject \<Rightarrow> db \<Rightarrow> store_error + self_info" where
  "keySelfInfo ev sub db =
     bind_result (GetClientKey (as_KeyID sub) db) (\<lambda>k.
     bind_result (KeyUsageByID (as_KeyID sub) db) (\<lambda>usage.
     bind_result (AuthorizedModelsForKey (as_KeyID sub) db) (\<lambda>models.
     Inr \<lparr>si_key = ki_ID k, si_name = ki_Name k, si_enabled = ki_Enabled k, si_group = sc_group (scopePayload sub),
          si_group_name = as_GroupName sub, si_concurrency = ki_ConcurrencyLimit k, si_token_limit = ki_TokenLimit k,
          si_amount_limit = ki_AmountLimit k, si_used_tokens = ku_Tokens usage, si_used_amount = ku_Amount usage,
          si_requests = ku_Requests usage, si_expires = ki_ExpiresAt k,
          si_expires_in = map_option (\<lambda>t. let left = time_sub t (ce_now ev) in
             if left > 0 then int_seconds (ce_floats ev) left else 0) (ki_ExpiresAt k),
          si_models = length models\<rparr>)))"

definition any_request :: RequestFilter where
  "any_request = \<lparr>rf_RequestID = [], rf_Status = [], rf_Protocol = [], rf_ProviderID = 0, rf_ModelID = 0, rf_GroupID = 0, rf_KeyID = 0,
     rf_BeforeID = 0, rf_FromUTC = None, rf_ToUTC = None, rf_Limit = 0\<rparr>"

text \<open>The part for one group, with the relay's own request limit.\<close>

definition overview_group :: "console_env \<Rightarrow> console \<Rightarrow> int \<Rightarrow> store_error + group_overview" where
  "overview_group ev cn i =
     bind_result (GroupOverview (ce_plat ev) (fl_round (ce_floats ev)) i (ce_now ev) (cn_db cn)) (\<lambda>g.
     Inr (g\<lparr>go_rpm_limit := cf_RPMLimit (cn_settings cn)\<rparr>))"

definition overview_key :: "console_env \<Rightarrow> adminSubject \<Rightarrow> console \<Rightarrow> answer" where
  "overview_key ev sub cn =
     (let grp = (if as_GroupID sub > 0 then map_sum id Some (overview_group ev cn (as_GroupID sub)) else Inr None) in
      case grp of
        Inl _ \<Rightarrow> refuse cn 500 ''ledger_unavailable''
      | Inr g \<Rightarrow>
          (case QueryRequests (any_request\<lparr>rf_KeyID := as_KeyID sub, rf_Limit := 10\<rparr>) (cn_db cn) of
             Inl _ \<Rightarrow> refuse cn 500 ''store_error''
           | Inr page \<Rightarrow>
               (cn, 200, POverview \<lparr>ov_global = None, ov_concurrency = None, ov_group = g, ov_scope = Some (scopePayload sub),
                  ov_recent = pg_Data page,
                  ov_me = (case keySelfInfo ev sub (cn_db cn) of Inl _ \<Rightarrow> None | Inr me \<Rightarrow> Some me)\<rparr>)))"

definition overview_admin :: "console_env \<Rightarrow> http_request \<Rightarrow> console \<Rightarrow> answer" where
  "overview_admin ev r cn =
     (case StoreOverview (ce_plat ev) (fl_round (ce_floats ev)) (ce_now ev) (cf_RPMLimit (cn_settings cn)) (cn_db cn) of
        Inl _ \<Rightarrow> refuse cn 500 ''ledger_unavailable''
      | Inr whole \<Rightarrow>
          let view = \<lparr>ov_global = Some whole,
                ov_concurrency = map_option (\<lambda>n. (n, cf_GlobalConcurrencyLimit (cn_settings cn))) (ce_active ev),
                ov_group = None, ov_scope = None, ov_recent = ow_recent whole, ov_me = None\<rparr> in
          (case group_param r of
             Inl _ \<Rightarrow> bad_group cn
           | Inr None \<Rightarrow> (cn, 200, POverview view)
           | Inr (Some i) \<Rightarrow>
               (case GetModelGroup i (cn_db cn) of
                  Inl ErrNoRows \<Rightarrow> refuse cn 404 ''not_found''
                | Inl _ \<Rightarrow> refuse cn 500 ''store_error''
                | Inr _ \<Rightarrow>
                    (case overview_group ev cn i of
                       Inl _ \<Rightarrow> refuse cn 500 ''ledger_unavailable''
                     | Inr g \<Rightarrow>
                         (case QueryRequests (any_request\<lparr>rf_GroupID := i, rf_Limit := 10\<rparr>) (cn_db cn) of
                            Inl _ \<Rightarrow> refuse cn 500 ''store_error''
                          | Inr page \<Rightarrow> (cn, 200, POverview (view\<lparr>ov_group := Some g, ov_recent := pg_Data page\<rparr>)))))))"

definition overview_handler :: "console_env \<Rightarrow> adminSubject \<Rightarrow> http_request \<Rightarrow> console \<Rightarrow> answer" where
  "overview_handler ev sub r cn = (if as_Admin sub then overview_admin ev r cn else overview_key ev sub cn)"

definition me :: "console_env \<Rightarrow> adminSubject \<Rightarrow> console \<Rightarrow> answer" where
  "me ev sub cn =
     (if as_Admin sub then refuse_detail cn 400 ''not_applicable'' (DText ''administrator has no client key'')
      else shown_as cn PSelf (keySelfInfo ev sub (cn_db cn)))"

section \<open>Dashboard\<close>

definition invalid_query :: "console \<Rightarrow> detail \<Rightarrow> answer" where
  "invalid_query cn d = refuse_detail cn 400 ''invalid_query'' d"

text \<open>The models of the query; an empty value is skipped, the 21st is refused.\<close>

fun query_models :: "string list \<Rightarrow> int list \<Rightarrow> string + int list" where
  "query_models [] ids = Inr ids"
| "query_models (raw # raws) ids =
     (if raw = [] then query_models raws ids
      else (case ParseInt raw of
              None \<Rightarrow> Inl ''model_id must be a positive integer''
            | Some i \<Rightarrow>
                if i \<le> 0 then Inl ''model_id must be a positive integer''
                else if length ids \<ge> 20 then Inl ''at most 20 models may be selected''
                else query_models raws (ids @ [i])))"

definition analytics_group :: "adminSubject \<Rightarrow> http_request \<Rightarrow> (string \<times> string) + int" where
  "analytics_group sub r =
     (if as_Admin sub then
        (case group_param r of
           Inl _ \<Rightarrow> Inl (''invalid_query'', ''group_id must be a positive integer'')
         | Inr None \<Rightarrow> Inr 0 | Inr (Some i) \<Rightarrow> Inr i)
      else if as_GroupID sub = 0 then Inl (''group_unbound'', ''this key is not bound to any model group'')
      else Inr (as_GroupID sub))"

definition query_days :: "http_request \<Rightarrow> string + int" where
  "query_days r =
     (let raw = query_get r ''days'' in
      if raw = [] then Inr 0 else require_some (ParseInt raw) ''days must be an integer'')"

definition analytics_handler :: "console_env \<Rightarrow> adminSubject \<Rightarrow> http_request \<Rightarrow> console \<Rightarrow> answer" where
  "analytics_handler ev sub r cn =
     (case analytics_group sub r of
        Inl (code, text') \<Rightarrow> refuse_detail cn 400 code (DText text')
      | Inr gid \<Rightarrow>
          (case bind_result (query_days r) (\<lambda>days. bind_result (query_models (hr_query r ''model_id'') []) (\<lambda>ids. Inr (days, ids))) of
             Inl e \<Rightarrow> invalid_query cn (DText e)
           | Inr (days, ids) \<Rightarrow>
               (case Analytics (ce_plat ev) (ce_date ev) (ce_now ev)
                       \<lparr>af_Days = days, af_FromDate = query_get r ''from_date'', af_ToDate = query_get r ''to_date'',
                        af_Bucket = query_get r ''bucket'', af_Metric = query_get r ''metric'', af_ModelID = 0, af_ModelIDs = ids,
                        af_Status = query_get r ''status'', af_GroupID = gid\<rparr> (cn_db cn) of
                  Inl e \<Rightarrow> invalid_query cn (DStore e)
                | Inr data \<Rightarrow> (cn, 200, PAnalytics data))))"

section \<open>Settings\<close>

definition safeSettings :: "Settings \<Rightarrow> env" where
  "safeSettings s =
     (let shown_env = EnvMap s;
          shown_env = (if map_of shown_env ''UPSTREAM_HEADER_TIMEOUT'' = None then AList.update ''UPSTREAM_HEADER_TIMEOUT'' [] shown_env else shown_env)
      in AList.update ''RELAY_ENCRYPTION_KEY'' [] (AList.update ''ADMIN_API_KEY'' [] shown_env))"

definition configGet :: "console \<Rightarrow> answer" where
  "configGet cn = (cn, 200, PConfig (safeSettings (cn_settings cn)))"

text \<open>A map of strings: \<open>null\<close> stands for the empty string, the last of equal names counts.\<close>

definition json_env :: "gval \<Rightarrow> env option" where
  "json_env v =
     (case v of VMap m \<Rightarrow>
        map_option (\<lambda>texts. zip (map fst m) texts) (json_all json_string [] (map snd m))
      | _ \<Rightarrow> None)"

definition decode_settings :: "gmap \<Rightarrow> env option" where
  "decode_settings m = plain_field json_env [] m ''settings''"

definition keeps_current :: "string \<times> string \<Rightarrow> bool" where
  "keeps_current p \<longleftrightarrow> snd p = [] \<and> fst p \<in> {''ADMIN_API_KEY'', ''RELAY_ENCRYPTION_KEY'', ''UPSTREAM_HEADER_TIMEOUT''}"

text \<open>The entries of the last value of every name that is not skipped, over the current settings.\<close>

definition candidate_env :: "Settings \<Rightarrow> env \<Rightarrow> env" where
  "candidate_env s body = overlay (filter (\<lambda>p. \<not> keeps_current p) (overlay body [])) (EnvMap s)"

definition changed_fields :: "Settings \<Rightarrow> Settings \<Rightarrow> string list" where
  "changed_fields s s' =
     map fst (filter (\<lambda>(k, v). v \<noteq> (case map_of (EnvMap s) k of None \<Rightarrow> [] | Some w \<Rightarrow> w)) (EnvMap s'))"

definition apply_settings :: "console_env \<Rightarrow> Settings \<Rightarrow> payload \<Rightarrow> console \<Rightarrow> answer" where
  "apply_settings ev s' reply cn =
     (case (case cn_files cn of None \<Rightarrow> (None, Inr ()) | Some fs \<Rightarrow> (case Write (ce_written ev) s' fs of (fs', res) \<Rightarrow> (Some fs', res))) of
        (fs, Inl _) \<Rightarrow> refuse (cn\<lparr>cn_files := fs\<rparr>) 500 ''config_persist_failed''
      | (fs, Inr _) \<Rightarrow>
          (cn\<lparr>cn_files := fs, cn_settings := s', cn_adminKey := cf_AdminAPIKey s', cn_published := cn_published cn @ [s']\<rparr>, 200, reply))"

definition configSave :: "console_env \<Rightarrow> http_request \<Rightarrow> bool \<Rightarrow> console \<Rightarrow> answer" where
  "configSave ev r validateOnly cn =
     with_body cn ''invalid_config'' decode_settings r (\<lambda>body.
     case Parse (ce_floats ev) (ce_net ev) (candidate_env (cn_settings cn) body) of
       Inl e \<Rightarrow> refuse_detail cn 400 ''invalid_config'' (DText e)
     | Inr s' \<Rightarrow>
         let reply = PConfigSaved (changed_fields (cn_settings cn) s') (RestartOnlyChanges (cn_settings cn) s') (safeSettings s')
         in if validateOnly then (cn, 200, reply) else apply_settings ev s' reply cn)"

section \<open>Request records\<close>

text \<open>A positive integer of the query; \<open>0\<close> when it is absent.\<close>

definition query_id :: "http_request \<Rightarrow> string \<Rightarrow> string + int" where
  "query_id r name =
     (let raw = trim_space (query_get r name) in
      if raw = [] then Inr 0
      else (case ParseInt raw of
              None \<Rightarrow> Inl (name @ '' must be a positive integer'')
            | Some i \<Rightarrow> if i \<le> 0 then Inl (name @ '' must be a positive integer'') else Inr i))"

definition query_before :: "http_request \<Rightarrow> int \<Rightarrow> string + int" where
  "query_before r before =
     (let cursor = trim_space (query_get r ''cursor'') in
      if cursor = [] then Inr before
      else if trim_space (query_get r ''before_id'') \<noteq> [] then Inl ''cursor and before_id cannot be combined''
      else (case DecodeRequestCursor cursor of Inl _ \<Rightarrow> Inl ''invalid request query: invalid cursor'' | Inr i \<Rightarrow> Inr i))"

definition query_time :: "console_env \<Rightarrow> http_request \<Rightarrow> string \<Rightarrow> string + gotime option" where
  "query_time ev r name =
     (let raw = trim_space (query_get r name) in
      if raw = [] then Inr None
      else bind_result (require_some (parse_rfc3339 (ce_plat ev) raw) (name @ '' must be RFC3339'')) (\<lambda>(t, _). Inr (Some t)))"

definition requestFilterFromQuery :: "console_env \<Rightarrow> http_request \<Rightarrow> string + RequestFilter" where
  "requestFilterFromQuery ev r =
     bind_result (query_id r ''provider_id'') (\<lambda>provider.
     bind_result (query_id r ''model_id'') (\<lambda>model.
     bind_result (query_id r ''before_id'') (\<lambda>before.
     bind_result (query_before r before) (\<lambda>before.
     let raw = trim_space (query_get r ''limit'') in
     bind_result (if raw = [] then Inr 0 else require_some (ParseInt raw) ''limit must be an integer'') (\<lambda>limit.
     bind_result (query_time ev r ''from'') (\<lambda>t1.
     bind_result (query_time ev r ''to'') (\<lambda>t2.
     bind_result (reject_when (t1 \<noteq> None \<and> t2 \<noteq> None \<and> the t1 > the t2) ''from must not be after to'') (\<lambda>_.
     Inr \<lparr>rf_RequestID = trim_space (query_get r ''request_id''), rf_Status = trim_space (query_get r ''status''),
          rf_Protocol = trim_space (query_get r ''protocol''), rf_ProviderID = provider, rf_ModelID = model, rf_GroupID = 0,
          rf_KeyID = 0, rf_BeforeID = before, rf_FromUTC = t1, rf_ToUTC = t2, rf_Limit = limit\<rparr>))))))))"

text \<open>A client key is always confined to its own requests.\<close>

definition requests_scope :: "adminSubject \<Rightarrow> http_request \<Rightarrow> RequestFilter \<Rightarrow> unit + RequestFilter" where
  "requests_scope sub r f =
     (if \<not> as_Admin sub then Inr (f\<lparr>rf_KeyID := as_KeyID sub, rf_GroupID := 0\<rparr>)
      else bind_result (group_param r) (\<lambda>g. Inr (case g of None \<Rightarrow> f | Some i \<Rightarrow> f\<lparr>rf_GroupID := i\<rparr>)))"

definition requestsList :: "console_env \<Rightarrow> adminSubject \<Rightarrow> http_request \<Rightarrow> console \<Rightarrow> answer" where
  "requestsList ev sub r cn =
     (case requestFilterFromQuery ev r of
        Inl e \<Rightarrow> invalid_query cn (DText e)
      | Inr f \<Rightarrow>
          (case requests_scope sub r f of
             Inl _ \<Rightarrow> bad_group cn
           | Inr f' \<Rightarrow> (case QueryRequests f' (cn_db cn) of Inl e \<Rightarrow> invalid_query cn (DStore e) | Inr page \<Rightarrow> (cn, 200, PRequests page))))"

definition get_request :: "string \<Rightarrow> console \<Rightarrow> answer" where
  "get_request requestID cn =
     (case GetRequest requestID (cn_db cn) of
        Inl ErrNoRows \<Rightarrow> refuse cn 404 ''not_found'' | Inl _ \<Rightarrow> refuse cn 500 ''store_error''
      | Inr q \<Rightarrow> (cn, 200, PRequest q))"

definition requestItem :: "console_env \<Rightarrow> adminSubject \<Rightarrow> string \<Rightarrow> console \<Rightarrow> answer" where
  "requestItem ev sub raw cn =
     (case (if raw = [] then None else ce_unescape ev raw) of
        None \<Rightarrow> refuse cn 400 ''invalid_request_id''
      | Some requestID \<Rightarrow>
          if trim_space requestID = [] \<or> CHR ''/'' \<in> set requestID \<or> backslash \<in> set requestID then refuse cn 400 ''invalid_request_id''
          else if as_Admin sub then get_request requestID cn
          else (case RequestOwner requestID (cn_db cn) of
                  Inl ErrNoRows \<Rightarrow> refuse cn 404 ''not_found''
                | Inl _ \<Rightarrow> refuse cn 500 ''store_error''
                | Inr (owner, _) \<Rightarrow> if owner \<noteq> as_KeyID sub then refuse cn 404 ''not_found'' else get_request requestID cn))"

section \<open>Plugins\<close>

definition with_plugins :: "console \<Rightarrow> (plugin_world \<Rightarrow> answer) \<Rightarrow> answer" where
  "with_plugins cn k = (case cn_plugins cn of None \<Rightarrow> refuse cn 503 ''plugin_manager_unavailable'' | Some w \<Rightarrow> k w)"

definition pluginsList :: "console \<Rightarrow> answer" where
  "pluginsList cn = with_plugins cn (\<lambda>w. (cn, 200, PPlugins (ListPlugins (pw_rows w))))"

definition pluginInstall :: "console_env \<Rightarrow> http_request \<Rightarrow> console \<Rightarrow> answer" where
  "pluginInstall ev r cn =
     with_plugins cn (\<lambda>w.
     case hr_package r of
       Inl code \<Rightarrow> refuse cn 400 code
     | Inr src \<Rightarrow>
         (case Install (ce_plugin ev) src w of
            (w', Inl e) \<Rightarrow> refuse_detail (cn\<lparr>cn_plugins := Some w'\<rparr>) 400 ''invalid_plugin'' (DPlugin e)
          | (w', Inr p) \<Rightarrow> (cn\<lparr>cn_plugins := Some w'\<rparr>, 201, PPlugin p)))"

definition plugin_reply :: "console \<Rightarrow> ('a \<Rightarrow> payload) \<Rightarrow> plugin_world \<times> (plugin_error + 'a) \<Rightarrow> answer" where
  "plugin_reply cn show_value r =
     (case r of
        (w, Inl (PluginStore ErrNoRows)) \<Rightarrow> refuse (cn\<lparr>cn_plugins := Some w\<rparr>) 404 ''not_found''
      | (w, Inl e) \<Rightarrow> refuse_detail (cn\<lparr>cn_plugins := Some w\<rparr>) 400 ''plugin_operation_failed'' (DPlugin e)
      | (w, Inr v) \<Rightarrow> (cn\<lparr>cn_plugins := Some w\<rparr>, 200, show_value v))"

definition pluginItem :: "console_env \<Rightarrow> http_request \<Rightarrow> string \<Rightarrow> console \<Rightarrow> answer" where
  "pluginItem ev r raw cn =
     with_plugins cn (\<lambda>w.
     let seg = hd (split_on (CHR ''/'') raw); rest = item_rest raw; post = (hr_method r = ''POST'') in
     case (if seg = [] \<or> backslash \<in> set seg then None else ce_unescape ev seg) of
       None \<Rightarrow> refuse cn 400 ''invalid_plugin_id''
     | Some i \<Rightarrow>
         if CHR ''/'' \<in> set i then refuse cn 400 ''invalid_plugin_id''
         else if post \<and> rest = [''enable''] then plugin_reply cn PPlugin (Enable (ce_plugin ev) i w)
         else if post \<and> rest = [''disable''] then plugin_reply cn PPlugin (Disable (ce_plugin ev) i w)
         else if post \<and> rest = [''start''] then plugin_reply cn PPlugin (Start (ce_plugin ev) i w)
         else if post \<and> rest = [''stop''] then plugin_reply cn PPlugin (Stop (ce_plugin ev) i w)
         else if rest = [] \<and> hr_method r = ''DELETE'' then plugin_reply cn (\<lambda>_. PDeleted) (Delete i w)
         else not_allowed cn)"

end
