(* ===== verification/Admin.thy ===== *)
theory Admin
  imports Admin_Catalog Admin_Keys Admin_Views
begin

text \<open>
  The console as a whole (httpapi/admin.go): \<open>ServeHTTP\<close> over the handlers.
\<close>

definition run_route :: "console_env \<Rightarrow> adminSubject \<Rightarrow> http_request \<Rightarrow> route \<Rightarrow> console \<Rightarrow> answer" where
  "run_route ev sub r rt cn =
     (case rt of
        Me \<Rightarrow> me ev sub cn
      | OverviewRoute \<Rightarrow> overview_handler ev sub r cn
      | AnalyticsRoute \<Rightarrow> analytics_handler ev sub r cn
      | ConfigGet \<Rightarrow> configGet cn
      | ConfigSave validateOnly \<Rightarrow> configSave ev r validateOnly cn
      | ProvidersList \<Rightarrow> providersList ev sub cn
      | ProviderCreate \<Rightarrow> providerCreate ev r cn
      | ProviderItem raw \<Rightarrow> providerItem ev r raw cn
      | ModelsList \<Rightarrow> modelsList sub cn
      | ModelCreate \<Rightarrow> modelCreate ev r cn
      | ModelItem raw \<Rightarrow> modelItem ev r raw cn
      | GroupsList \<Rightarrow> groupsList ev sub cn
      | GroupCreate \<Rightarrow> groupCreate ev r cn
      | GroupsHealth \<Rightarrow> groupsHealth sub cn
      | GroupsMonitorAll \<Rightarrow> groupsMonitorAll ev cn
      | GroupItem raw \<Rightarrow> groupItem ev sub r raw cn
      | KeysList \<Rightarrow> keysList ev cn
      | KeyCreate \<Rightarrow> keyCreate ev r cn
      | KeysHints \<Rightarrow> keysHints cn
      | KeyItem raw \<Rightarrow> keyItem ev r raw cn
      | RequestsList \<Rightarrow> requestsList ev sub r cn
      | RequestItem raw \<Rightarrow> requestItem ev sub raw cn
      | PluginsList \<Rightarrow> pluginsList cn
      | PluginInstall \<Rightarrow> pluginInstall ev r cn
      | PluginItem raw \<Rightarrow> pluginItem ev r raw cn
      | NoRoute \<Rightarrow> refuse cn 404 ''not_found'')"

definition AdminServeHTTP :: "console_env \<Rightarrow> http_request \<Rightarrow> console \<Rightarrow> answer" where
  "AdminServeHTTP ev r cn =
     (case admin_front (ce_hmac ev) (ce_box ev) (ce_now ev) (cn_adminKey cn) r (cn_db cn) of
        AdminPage \<Rightarrow> (cn, 200, PPage)
      | OutsideAdmin \<Rightarrow> refuse cn 404 ''404 page not found''
      | Unauthenticated code \<Rightarrow> (cn, 401, PAuthError code)
      | Session sub \<Rightarrow> (cn, 200, PSession (as_Admin sub) (if as_Admin sub then None else Some (scopePayload sub)))
      | Unreachable_path \<Rightarrow> refuse cn 404 ''not_found''
      | Handle sub rt \<Rightarrow> run_route ev sub r rt cn)"

end
