(* ===== verification/Admin_Sample.thy ===== *)
theory Admin_Sample
  imports Admin Sample_World Plugin_Claims Config_Claims Registry_Claims
begin

text \<open>
  A console over the sample deployment, with its generated settings, a configuration file and an empty
  plugin directory, and requests of its administrator and of the holder of the sample key.
\<close>

definition console_settings :: Settings where
  "console_settings = initial_settings ''key'' (replicate 32 CHR ''k'')"

definition sample_console :: console where
  "sample_console = \<lparr>cn_db = db_r, cn_settings = console_settings, cn_adminKey = cf_AdminAPIKey console_settings,
     cn_files = Some \<lparr>fs_env = Content ''# mine'', fs_bootstrap = Absent\<rparr>, cn_published = [], cn_monitor = [],
     cn_clients = (\<lambda>_. None), cn_plugins = Some (plugin_start [''plugins''] (\<lambda>_. None))\<rparr>"

definition sample_console_env :: console_env where
  "sample_console_env = \<lparr>ce_now = now0, ce_hmac = sample_hmac, ce_plat = sample_platform,
     ce_lookup = \<lparr>le_net = https_net, le_box = sample_box, le_options = le_options sample_lookup\<rparr>,
     ce_floats = sample_floats, ce_entropy = sample_entropy ''new'', ce_nonce = Some (replicate 12 CHR ''n''), ce_written = True,
     ce_transport = sample_transport, ce_clocks = (\<lambda>_. (now0, now0)), ce_probe = (\<lambda>_. None), ce_plugin = sample_plugins,
     ce_active = Some 1, ce_monitor = True, ce_unescape = Some, ce_date = (\<lambda>_. None)\<rparr>"

text \<open>A request that presents \<open>key\<close> as the administrator's and \<open>token\<close> as a client token.\<close>

definition console_call :: "string \<Rightarrow> string \<Rightarrow> string \<Rightarrow> string \<Rightarrow> gval option \<Rightarrow> http_request" where
  "console_call key token method path body =
     \<lparr>hr_method = method, hr_path = ''/admin/api/'' @ path,
      hr_header = (\<lambda>h. if h = ''X-Admin-Key'' then key else if h = ''Authorization'' then ''Bearer '' @ token else []),
      hr_query = (\<lambda>_. []), hr_host = ''relay'', hr_tls = False, hr_body = body, hr_package = Inl ''invalid_multipart''\<rparr>"

abbreviation client_call :: "string \<Rightarrow> string \<Rightarrow> http_request" where
  "client_call method path \<equiv> console_call [] ''crk_YWJj'' method path None"

abbreviation operator_call :: "string \<Rightarrow> string \<Rightarrow> gval \<Rightarrow> http_request" where
  "operator_call method path body \<equiv> console_call ''adm_a2V5'' [] method path (Some body)"

lemma sample_operator: "adminAuthorized (cn_adminKey sample_console) (operator_call m path body)"
  by (simp add: adminAuthorized_def sample_console_def console_call_def console_settings_def initial_settings_def) code_simp

lemma sample_client: "\<not> adminAuthorized (cn_adminKey sample_console) (client_call m path)"
  by (simp add: adminAuthorized_def console_call_def)

end
