(* ===== verification/Admin_Claims.thy ===== *)
theory Admin_Claims
  imports Admin_Sample
begin

text \<open>
  Properties of the console: what a client key can do and see, what a request does to the store, how
  settings are saved, and how the lifetime of a token is computed.
\<close>

section \<open>Client keys only read\<close>

lemma split_on_cons: "\<exists>l ls. split_on d s = l # ls"
  by (induction s) (auto split: list.splits)

lemma split_on_two: "split_on d s = [a, b] \<Longrightarrow> s = a @ d # b"
proof (induction s arbitrary: a)
  case (Cons c s)
  obtain l ls where ls: "split_on d s = l # ls" using split_on_cons by blast
  show ?case
  proof (cases "c = d")
    case True
    with Cons.prems ls have "split_on d s = [b]" "a = []" by auto
    moreover have "split_on d s = [b] \<Longrightarrow> s = b" for b
    proof (induction s arbitrary: b)
      case (Cons c' s)
      obtain l ls where "split_on d s = l # ls" using split_on_cons by blast
      with Cons show ?case by (auto split: if_splits)
    qed simp
    ultimately show ?thesis using True by simp
  next
    case False
    with Cons.prems ls obtain a' where "a = c # a'" "split_on d s = [a', b]" by auto
    with Cons.IH show ?thesis by simp
  qed
qed simp

lemma remote_models_path:
  assumes "item_rest raw = [''remote-models'']"
  shows "has_suffix raw ''/remote-models''"
proof -
  obtain l ls where "split_on (CHR ''/'') raw = l # ls" using split_on_cons by blast
  with assms have "split_on (CHR ''/'') raw = [l, ''remote-models'']" by (simp add: item_rest_def)
  from split_on_two[OF this] show ?thesis by (simp add: has_suffix_def)
qed

lemmas quiet_simps = refuse_def refuse_detail_def not_allowed_def shown_as_def bad_group_def invalid_query_def

lemma read_provider_item:
  "isReadMethod (hr_method r) \<Longrightarrow> \<not> has_suffix raw ''/remote-models'' \<Longrightarrow> fst (providerItem ev r raw cn) = cn"
  using remote_models_path[of raw]
  by (auto simp: providerItem_def quiet_simps isReadMethod_def Let_def split: option.splits)

lemma read_model_item: "isReadMethod (hr_method r) \<Longrightarrow> fst (modelItem ev r raw cn) = cn"
  by (auto simp: modelItem_def quiet_simps isReadMethod_def split: option.splits)

lemma read_method: "isReadMethod m \<Longrightarrow> m \<noteq> ''POST'' \<and> m \<noteq> ''PUT'' \<and> m \<noteq> ''DELETE''"
  by (auto simp: isReadMethod_def)

lemma read_group_get: "fst (groupGet i cn) = cn"
  unfolding groupGet_def quiet_simps by (simp split: sum.split store_error.split prod.split)

lemma read_group_history: "fst (groupMonitorHistory i cn) = cn"
  by (simp add: groupMonitorHistory_def quiet_simps split: sum.split)

lemma read_group_providers: "isReadMethod (hr_method r) \<Longrightarrow> fst (groupProviders r i cn) = cn"
  using read_method[of "hr_method r"] by (simp add: groupProviders_def quiet_simps split: sum.split)

lemma read_group_item:
  assumes "isReadMethod (hr_method r)"
  shows "fst (groupItem ev sub r raw cn) = cn"
  using read_method[OF assms] read_group_providers[OF assms]
  by (simp add: groupItem_def Let_def quiet_simps read_group_get read_group_history split: option.split sum.split)

lemma read_request_item: "fst (requestItem ev sub raw cn) = cn"
  by (auto simp: requestItem_def get_request_def quiet_simps split: option.splits sum.splits store_error.splits)

lemma read_me: "fst (me ev sub cn) = cn"
  by (simp add: me_def quiet_simps split: sum.splits)

lemma read_overview_key: "fst (overview_key ev sub cn) = cn"
  by (simp add: overview_key_def quiet_simps Let_def split: sum.splits)

lemma read_overview_admin: "fst (overview_admin ev r cn) = cn"
  unfolding overview_admin_def Let_def quiet_simps by (simp split: sum.split option.split store_error.split)

lemma read_analytics: "fst (analytics_handler ev sub r cn) = cn"
  unfolding analytics_handler_def quiet_simps by (simp split: sum.split prod.split)

lemma read_requests: "fst (requestsList ev sub r cn) = cn"
  unfolding requestsList_def quiet_simps by (simp split: sum.split)

lemma read_groups: "fst (groupsList ev sub cn) = cn"
  unfolding groupsList_def quiet_simps Let_def by (simp split: sum.split prod.split)

lemma read_models: "fst (modelsList sub cn) = cn"
  by (simp add: modelsList_def quiet_simps split: sum.split)

lemma read_plain: "fst (providersList ev sub cn) = cn" "fst (groupsHealth sub cn) = cn"
  by (simp_all add: providersList_def groupsHealth_def Let_def)

lemma read_overview: "fst (overview_handler ev sub r cn) = cn"
  by (simp add: overview_handler_def read_overview_key read_overview_admin)

lemmas read_lists = read_me read_overview read_analytics read_requests read_groups read_models read_plain

lemma key_route_reads:
  assumes "key_route rt" "isReadMethod (hr_method r)"
  shows "fst (run_route ev sub r rt cn) = cn"
  using assms
  by (cases rt) (simp_all add: key_route_def run_route_def read_lists read_provider_item read_model_item read_group_item read_request_item refuse_def)

lemma front_key:
  assumes "admin_front hmac box now adminKey r db = Handle sub rt" "\<not> adminAuthorized adminKey r"
  shows "\<not> as_Admin sub" "isReadMethod (hr_method r)" "key_route rt"
    "\<exists>k. AuthenticateClientKey hmac box now (bearerToken r) db = Inr k \<and> ki_Enabled k \<and> \<not> Keyless k \<and> sub = key_subject k db"
proof -
  define path where "path = trim_prefix (hr_path r) ''/admin/api/''"
  have sub: "resolveSubject hmac box now adminKey r db = Inr sub" and auth: "authorizeSubject sub path (hr_method r)"
    and rt: "rt = admin_route path (hr_method r)"
    using assms(1) by (auto simp: admin_front_def Let_def path_def split: if_splits sum.splits)
  show key: "\<exists>k. AuthenticateClientKey hmac box now (bearerToken r) db = Inr k \<and> ki_Enabled k \<and> \<not> Keyless k \<and> sub = key_subject k db"
    using sub assms(2) by (auto simp: resolveSubject_def Let_def split: if_splits sum.splits store_error.splits)
  then show notadmin: "\<not> as_Admin sub" by (auto simp: key_subject_def Let_def)
  from authorised_route[OF auth notadmin] show "isReadMethod (hr_method r)" "key_route rt" by (simp_all add: rt)
qed

text \<open>
  C21: Only the administrator changes anything through the console: a request without the administrator's
  key, whether it carries a client token or nothing, leaves the database, the settings, the files, the
  monitor's results, the cache of upstream clients and the plugins as they were.
\<close>

theorem console_read_only:
  assumes "\<not> adminAuthorized (cn_adminKey cn) r"
  shows "fst (AdminServeHTTP ev r cn) = cn"
proof (cases "admin_front (ce_hmac ev) (ce_box ev) (ce_now ev) (cn_adminKey cn) r (cn_db cn)")
  case (Handle sub rt)
  from front_key[OF this assms] show ?thesis by (simp add: AdminServeHTTP_def Handle key_route_reads)
qed (simp_all add: AdminServeHTTP_def refuse_def)

theorem console_read_only_witness:
  "fst (AdminServeHTTP sample_console_env (client_call ''DELETE'' ''keys/1'') sample_console) = sample_console"
  by (rule console_read_only[OF sample_client])

section \<open>Client keys see their own part\<close>

text \<open>What a payload may disclose to the holder of a client key.\<close>

fun key_sees :: "adminSubject \<Rightarrow> db \<Rightarrow> payload \<Rightarrow> bool" where
  "key_sees sub db (PSession adm sc) \<longleftrightarrow> \<not> adm \<and> sc = Some (scopePayload sub)"
| "key_sees sub db (PSelf si) \<longleftrightarrow> si_key si = as_KeyID sub"
| "key_sees sub db (POverview v) \<longleftrightarrow> ov_global v = None \<and> ov_concurrency v = None \<and>
     (\<forall>q\<in>set (ov_recent v). q_key_id q = Some (as_KeyID sub)) \<and>
     (\<forall>g. ov_group v = Some g \<longrightarrow> go_group_id g = as_GroupID sub) \<and> (\<forall>si. ov_me v = Some si \<longrightarrow> si_key si = as_KeyID sub)"
| "key_sees sub db (PAnalytics a) \<longleftrightarrow> an_group (al_filter a) = as_GroupID sub \<and> 0 < as_GroupID sub"
| "key_sees sub db (PProviders ps) \<longleftrightarrow> (\<forall>p\<in>set ps. pv_BaseURL p = [] \<and> (as_GroupID sub, pv_ID p) \<in> set (db_group_providers db))"
| "key_sees sub db (PProviderIDs ids) \<longleftrightarrow> (\<forall>i\<in>set ids. (as_GroupID sub, i) \<in> set (db_group_providers db))"
| "key_sees sub db (PModels ms) \<longleftrightarrow> set ms \<subseteq> set (queryAuthorizedModels (\<lambda>k. k_id k = as_KeyID sub) db)"
| "key_sees sub db (PGroups gs) \<longleftrightarrow> (\<forall>gi\<in>set gs. g_id (gi_group gi) = as_GroupID sub)"
| "key_sees sub db (PGroup g n) \<longleftrightarrow> g_id g = as_GroupID sub"
| "key_sees sub db (PGroupOverview ov) \<longleftrightarrow> go_group_id ov = as_GroupID sub"
| "key_sees sub db (PHealth l d) \<longleftrightarrow> (\<forall>x\<in>set l. fst x = as_GroupID sub \<and> mo_GroupID (snd x) = as_GroupID sub)"
| "key_sees sub db (PHistory l) \<longleftrightarrow> (\<forall>x\<in>set l. mo_GroupID x = as_GroupID sub)"
| "key_sees sub db (PRequests page) \<longleftrightarrow> (\<forall>q\<in>set (pg_Data page). q_key_id q = Some (as_KeyID sub))"
| "key_sees sub db (PRequest q) \<longleftrightarrow> q_key_id q = Some (as_KeyID sub)"
| "key_sees sub db (PError e) \<longleftrightarrow> True"
| "key_sees sub db (PDetail c d) \<longleftrightarrow> True"
| "key_sees sub db _ \<longleftrightarrow> False"

lemma own_requests:
  assumes "QueryRequests f db = Inr page" "rf_KeyID f = i" "0 < i" "q \<in> set (pg_Data page)"
  shows "q_key_id q = Some i"
  using assms by (auto simp: QueryRequests_def bind_result_Inr Let_def matching_def matches_def dest!: in_set_takeD)

lemma group_results_group: "x \<in> set (group_results i db rows) \<Longrightarrow> mo_GroupID x = i"
  by (auto simp: group_results_def scanMonitorResult_def split: option.splits)

lemma group_overview_id: "GroupOverview plat rnd i now db = Inr ov \<Longrightarrow> go_group_id ov = i"
  by (auto simp: GroupOverview_def bind_result_Inr Let_def)

lemma overview_group_id: "overview_group ev cn i = Inr g \<Longrightarrow> go_group_id g = i"
  by (auto simp: overview_group_def bind_result_Inr dest: group_overview_id)

lemma self_info_key: "keySelfInfo ev sub db = Inr si \<Longrightarrow> as_KeyID sub = si_key si"
  by (auto simp: keySelfInfo_def bind_result_Inr GetClientKey_def require_some_def scanClientKey_def tbl_find_def find_Some_iff
    split: option.splits)

lemma analytics_group_filter: "Analytics plat pd now f db = Inr a \<Longrightarrow> an_group (al_filter a) = af_GroupID f"
  by (auto simp: Analytics_def analyse_filter_def bind_result_Inr Let_def)

lemma model_group_id: "GetModelGroup i db = Inr (g, n) \<Longrightarrow> g_id g = i"
  by (auto simp: GetModelGroup_def bind_result_Inr scan_group_def tbl_find_def find_Some_iff require_some_def split: option.splits)

lemma group_provider_ids: "GroupProviderIDs i db = Inr ids \<Longrightarrow> p \<in> set ids \<Longrightarrow> (i, p) \<in> set (db_group_providers db)"
  by (auto simp: GroupProviderIDs_def bind_result_Inr)

lemma sees_me: "\<not> as_Admin sub \<Longrightarrow> key_sees sub db (snd (snd (me ev sub cn)))"
  by (auto simp: me_def shown_as_def refuse_def self_info_key split: sum.splits)

lemma sees_overview:
  assumes "\<not> as_Admin sub" "0 < as_KeyID sub"
  shows "key_sees sub db (snd (snd (overview_handler ev sub r cn)))"
proof -
  have "q_key_id q = Some (as_KeyID sub)"
    if "QueryRequests (any_request\<lparr>rf_KeyID := as_KeyID sub, rf_Limit := 10\<rparr>) (cn_db cn) = Inr page" "q \<in> set (pg_Data page)" for page q
    using own_requests[OF that(1) _ assms(2) that(2)] by simp
  then show ?thesis using assms(1) overview_group_id self_info_key
    by (fastforce simp: overview_handler_def overview_key_def refuse_def Let_def map_sum_def split: sum.splits if_splits)
qed

lemma sees_analytics:
  assumes "\<not> as_Admin sub" "0 \<le> as_GroupID sub"
  shows "key_sees sub db (snd (snd (analytics_handler ev sub r cn)))"
  using assms analytics_group_filter
  by (fastforce simp: analytics_handler_def analytics_group_def invalid_query_def refuse_detail_def split: sum.splits)

lemma sees_providers: "\<not> as_Admin sub \<Longrightarrow> key_sees sub (cn_db cn) (snd (snd (providersList ev sub cn)))"
  by (auto simp: providersList_def Let_def intro: group_provider_ids[OF sym] split: sum.splits if_splits)

lemma sees_models: "\<not> as_Admin sub \<Longrightarrow> key_sees sub (cn_db cn) (snd (snd (modelsList sub cn)))"
  by (auto simp: modelsList_def shown_as_def refuse_def AuthorizedModelsForKey_def bind_result_Inr split: sum.splits)

lemma sees_groups: "\<not> as_Admin sub \<Longrightarrow> key_sees sub db (snd (snd (groupsList ev sub cn)))"
  by (auto simp: groupsList_def refuse_def Let_def group_item_of_def split: sum.splits prod.splits)

lemma sees_health:
  assumes "\<not> as_Admin sub"
  shows "key_sees sub db (snd (snd (groupsHealth sub cn)))"
proof -
  have "mo_GroupID x = i" if "(i, x) \<in> set (LatestGroupMonitorResults (cn_db cn) (cn_monitor cn))" for i x
    using that by (auto simp: LatestGroupMonitorResults_def split: list.splits)
      (metis group_results_group list.set_intros(1))
  with assms show ?thesis by (auto simp: groupsHealth_def own_group_def)
qed

lemma sees_requests:
  assumes "\<not> as_Admin sub" "0 < as_KeyID sub"
  shows "key_sees sub db (snd (snd (requestsList ev sub r cn)))"
proof -
  have "q_key_id q = Some (as_KeyID sub)"
    if "QueryRequests (f\<lparr>rf_KeyID := as_KeyID sub, rf_GroupID := 0\<rparr>) (cn_db cn) = Inr page" "q \<in> set (pg_Data page)" for f page q
    using own_requests[OF that(1) _ assms(2) that(2)] by simp
  with assms(1) show ?thesis
    by (auto simp: requestsList_def requests_scope_def invalid_query_def bad_group_def refuse_detail_def split: sum.splits)
qed

lemma sees_request_item:
  assumes "\<not> as_Admin sub" "0 < as_KeyID sub"
  shows "key_sees sub db (snd (snd (requestItem ev sub raw cn)))"
  using assms
  by (auto simp: requestItem_def get_request_def refuse_def RequestOwner_def bind_result_Inr bind_result_def coalesce0_def
    split: option.splits sum.splits store_error.splits)

lemma sees_group_item:
  assumes "\<not> as_Admin sub" "isReadMethod (hr_method r)"
  shows "key_sees sub (cn_db cn) (snd (snd (groupItem ev sub r raw cn)))"
proof -
  have "key_sees sub (cn_db cn) (snd (snd (groupGet i cn)))" if "i = as_GroupID sub" for i
    unfolding groupGet_def refuse_def using model_group_id that by (simp split: sum.split store_error.split prod.split)
  moreover have "key_sees sub (cn_db cn) (snd (snd (groupMonitorHistory i cn)))" if "i = as_GroupID sub" for i
    using that group_results_group
    by (auto simp: groupMonitorHistory_def shown_as_def refuse_def GroupMonitorHistory_def bind_result_Inr split: sum.splits dest!: in_set_takeD)
  moreover have "key_sees sub (cn_db cn) (snd (snd (groupProviders r i cn)))" if "i = as_GroupID sub" for i
    using that group_provider_ids read_method[OF assms(2)]
    by (auto simp: groupProviders_def quiet_simps split: sum.splits)
  ultimately show ?thesis
    using assms(1) read_method[OF assms(2)] group_overview_id
    by (auto simp: groupItem_def own_group_def Let_def quiet_simps split: option.split sum.split)
qed

lemma key_route_sees:
  assumes "key_route rt" "isReadMethod (hr_method r)" "\<not> as_Admin sub" "0 < as_KeyID sub" "0 \<le> as_GroupID sub"
  shows "key_sees sub (cn_db cn) (snd (snd (run_route ev sub r rt cn)))"
proof (cases rt)
  case (ProviderItem raw)
  with assms(1) have "\<not> has_suffix raw ''/remote-models''" by (simp add: key_route_def)
  then show ?thesis using read_method[OF assms(2)] remote_models_path[of raw]
    by (auto simp: run_route_def ProviderItem providerItem_def quiet_simps Let_def split: option.split)
next
  case (ModelItem raw)
  then show ?thesis using read_method[OF assms(2)] by (simp add: run_route_def modelItem_def quiet_simps split: option.split)
qed (use assms in \<open>simp_all add: key_route_def run_route_def sees_me sees_overview sees_analytics sees_providers sees_models
  sees_groups sees_health sees_requests sees_request_item sees_group_item refuse_def\<close>)

lemma subject_ids:
  assumes "wf_db db" "AuthenticateClientKey hmac box now token db = Inr k" "sub = key_subject k db"
  shows "0 < as_KeyID sub" "0 \<le> as_GroupID sub"
proof -
  obtain row where row: "row \<in> set (db_keys db)" "k = scanClientKey row"
    using assms(2) by (auto simp: AuthenticateClientKey_def bind_result_Inr require_some_def check_expiry_def find_Some_iff
      split: option.splits if_splits) (use nth_mem in blast)
  have "0 < k_id row" using tbl_wf_pos[OF wf_dbD(4)[OF assms(1)] row(1)] .
  with row assms(3) show "0 < as_KeyID sub" by (simp add: key_subject_def scanClientKey_def Let_def)
  have "refers_opt g_id (db_groups db) (k_group_id row)" using assms(1) row(1) by (auto simp: wf_db_defs list_all_iff)
  then have "0 < gid" if "k_group_id row = Some gid" for gid
    using that tbl_wf_pos[OF wf_dbD(6)[OF assms(1)]] by (auto simp: refers_opt_def refers_def)
  with row assms(3) show "0 \<le> as_GroupID sub"
    by (auto simp: key_subject_def scanClientKey_def Let_def intro: less_imp_le split: option.split)
qed

text \<open>
  C22: A client token opens the console to its own part only. Without the administrator's key an answer is
  the login page, a refusal, or goes to the holder of an enabled, unexpired key and shows nothing but
  that key's own requests and usage, its own group, the dashboard of its group, the providers of its
  group without their address, and the models the key may call; never settings, keys, plugins, upstream
  model lists or the totals of the relay.
\<close>

theorem console_confined:
  assumes reach: "store_reachable (cn_db cn)" and key: "\<not> adminAuthorized (cn_adminKey cn) r"
    and run: "AdminServeHTTP ev r cn = (cn', status, p)"
  shows "p = PPage \<or> (\<exists>code. p = PAuthError code \<or> p = PError code) \<or>
    (\<exists>k. AuthenticateClientKey (ce_hmac ev) (ce_box ev) (ce_now ev) (bearerToken r) (cn_db cn) = Inr k \<and> ki_Enabled k \<and> \<not> Keyless k \<and>
       key_sees (key_subject k (cn_db cn)) (cn_db cn) p)"
proof (cases "admin_front (ce_hmac ev) (ce_box ev) (ce_now ev) (cn_adminKey cn) r (cn_db cn)")
  case (Handle sub rt)
  note front = front_key[OF this key]
  from front(4) obtain k where k: "AuthenticateClientKey (ce_hmac ev) (ce_box ev) (ce_now ev) (bearerToken r) (cn_db cn) = Inr k"
    "ki_Enabled k" "\<not> Keyless k" "sub = key_subject k (cn_db cn)" by blast
  have "wf_db (cn_db cn)" using store_reachable_inv[OF reach] by simp
  from subject_ids[OF this k(1,4)] front have "key_sees sub (cn_db cn) (snd (snd (run_route ev sub r rt cn)))"
    by (intro key_route_sees)
  with run k show ?thesis by (auto simp: AdminServeHTTP_def Handle)
next
  case (Session sub)
  then have res: "resolveSubject (ce_hmac ev) (ce_box ev) (ce_now ev) (cn_adminKey cn) r (cn_db cn) = Inr sub"
    by (auto simp: admin_front_def Let_def split: if_splits sum.splits)
  with key have "\<exists>k. AuthenticateClientKey (ce_hmac ev) (ce_box ev) (ce_now ev) (bearerToken r) (cn_db cn) = Inr k \<and> ki_Enabled k \<and>
      \<not> Keyless k \<and> sub = key_subject k (cn_db cn)"
    by (auto simp: resolveSubject_def Let_def split: if_splits sum.splits store_error.splits)
  then show ?thesis using run by (auto simp: AdminServeHTTP_def Session key_subject_def Let_def)
qed (use run in \<open>auto simp: AdminServeHTTP_def refuse_def\<close>)

theorem console_confined_witness:
  "\<exists>cn' page k. AdminServeHTTP sample_console_env (client_call ''GET'' ''requests'') sample_console = (cn', 200, PRequests page) \<and>
     length (pg_Data page) = 1 \<and> key_sees (key_subject k db_r) db_r (PRequests page)"
proof -
  have "(case AdminServeHTTP sample_console_env (client_call ''GET'' ''requests'') sample_console of
      (_, status, PRequests page) \<Rightarrow> status = 200 \<and> length (pg_Data page) = 1 | _ \<Rightarrow> False)" by code_simp
  then obtain cn' page where run: "AdminServeHTTP sample_console_env (client_call ''GET'' ''requests'') sample_console = (cn', 200, PRequests page)"
      "length (pg_Data page) = 1"
    by (auto split: prod.splits payload.splits)
  have "store_reachable (cn_db sample_console)" "cn_db sample_console = db_r" by (simp_all add: sample_console_def reach_db_r)
  from console_confined[OF this(1) sample_client run(1)] this(2) run show ?thesis by auto
qed

end
