(* ===== verification/Admin_Effects.thy ===== *)
theory Admin_Effects
  imports Admin_Claims Plugin_Claims
begin

text \<open>
  What a request changes: every handler of the console performs steps of the abstract store and of the
  plugin manager and leaves the settings alone, except the one that saves them.
\<close>

section \<open>Handlers as steps of the store\<close>

definition plugins_kept :: "plugin_world option \<Rightarrow> plugin_world option \<Rightarrow> bool" where
  "plugins_kept w w' \<longleftrightarrow> (w = None \<longrightarrow> w' = None) \<and>
     (\<forall>u base tree. w = Some u \<and> plugin_inv base tree u \<longrightarrow> (\<exists>u'. w' = Some u' \<and> plugin_inv base tree u'))"

definition serves :: "console \<Rightarrow> console \<Rightarrow> bool" where
  "serves cn cn' \<longleftrightarrow> console_step\<^sup>*\<^sup>* (cn_db cn) (cn_db cn') \<and> plugins_kept (cn_plugins cn) (cn_plugins cn') \<and>
     cn_settings cn' = cn_settings cn \<and> cn_adminKey cn' = cn_adminKey cn \<and> cn_published cn' = cn_published cn \<and> cn_files cn' = cn_files cn"

lemma plugins_kept_refl [simp]: "plugins_kept w w"
  by (auto simp: plugins_kept_def)

lemma serves_refl [simp]: "serves cn cn"
  by (simp add: serves_def)

lemma serves_steps: "console_step\<^sup>*\<^sup>* (cn_db cn) db \<Longrightarrow> serves cn (cn\<lparr>cn_db := db\<rparr>)"
  by (simp add: serves_def)

lemma serves_step: "console_step (cn_db cn) db \<Longrightarrow> serves cn (cn\<lparr>cn_db := db\<rparr>)"
  by (simp add: serves_steps r_into_rtranclp)

lemma serves_clients: "serves cn (cn\<lparr>cn_clients := cs\<rparr>)" "console_step (cn_db cn) db \<Longrightarrow> serves cn (cn\<lparr>cn_db := db, cn_clients := cs\<rparr>)"
  by (simp_all add: serves_def r_into_rtranclp)

lemma serves_monitor: "serves cn (cn\<lparr>cn_monitor := rows\<rparr>)" "console_step (cn_db cn) db \<Longrightarrow> serves cn (cn\<lparr>cn_db := db, cn_monitor := rows\<rparr>)"
  by (simp_all add: serves_def r_into_rtranclp)

lemma serves_refuse [simp]: "serves cn (fst (refuse cn' status e)) = serves cn cn'"
    "serves cn (fst (refuse_detail cn' status e d)) = serves cn cn'" "serves cn (fst (not_allowed cn')) = serves cn cn'"
  by (simp_all add: refuse_def refuse_detail_def not_allowed_def)

lemma serves_body: "(\<And>p. serves cn (fst (k p))) \<Longrightarrow> serves cn (fst (with_body cn code members r k))"
  by (simp add: with_body_def split: option.split)

lemma serves_stored:
  assumes "\<And>e. serves cn (fst (failed e))" "\<And>db v. r = Inr (db, v) \<Longrightarrow> console_step (cn_db cn) db"
  shows "serves cn (fst (stored cn status failed show_value r))"
  using assms by (auto simp: stored_def serves_step split: sum.split)

lemma serves_delete: "(\<And>db. r = Inr db \<Longrightarrow> serves cn (cn\<lparr>cn_db := db\<rparr>)) \<Longrightarrow> serves cn (fst (writeDeleteResult cn r))"
  unfolding writeDeleteResult_def by (simp split: sum.split store_error.split)

lemma serves_shown [simp]: "serves cn (fst (shown_as cn show_value r))"
  by (simp add: shown_as_def split: sum.split)

subsection \<open>Providers and models\<close>

lemma import_selected_steps:
  assumes "import_selected i prefix items known db created = (db', res)"
  shows "console_step\<^sup>*\<^sup>* db db'"
  using assms
proof (induction i prefix items known db created rule: import_selected.induct)
  case (2 i prefix u p items known db created)
  define public where "public = (if trim_space p = [] then prefix @ ''/'' @ trim_space u else trim_space p)"
  define nm where "nm = \<lparr>nm_ProviderID = i, nm_PublicName = public, nm_UpstreamName = trim_space u, nm_InputPrice = None,
    nm_OutputPrice = None, nm_CachedPrice = None, nm_Enabled = False\<rparr>"
  show ?case
  proof (cases "trim_space u = [] \<or> public \<in> known")
    case True
    with 2 show ?thesis by (simp add: Let_def public_def)
  next
    case False
    show ?thesis
    proof (cases "CreateImportedModel nm db")
      case (Inl e)
      with False 2(3) show ?thesis by (simp add: Let_def public_def nm_def)
    next
      case (Inr pair)
      then obtain db1 m where one: "CreateImportedModel nm db = Inr (db1, m)" by (cases pair) simp
      with False 2(3) have "import_selected i prefix items (insert public known) db1 (created @ [public]) = (db', res)"
        by (simp add: Let_def public_def nm_def)
      with 2(2)[OF refl public_def _ one[unfolded nm_def] refl] False have "console_step\<^sup>*\<^sup>* db1 db'" by (simp add: public_def)
      with console_step.import_model[OF one] show ?thesis by (rule converse_rtranclp_into_rtranclp)
    qed
  qed
qed simp

lemma serves_provider_create: "serves cn (fst (providerCreate ev r cn))"
  unfolding providerCreate_def by (intro serves_body serves_stored) (auto intro: console_step.create_provider)

lemma serves_provider_remote: "serves cn (fst (providerRemoteModels ev i cn))"
  by (simp add: providerRemoteModels_def Let_def serves_clients split: prod.split sum.split)

lemma serves_provider_import: "serves cn (fst (providerImportModels ev r i cn))"
  unfolding providerImportModels_def
  by (intro serves_body) (auto simp: serves_steps import_selected_steps split: sum.split prod.split)

lemma serves_provider_update: "serves cn (fst (providerUpdate ev r i cn))"
  unfolding providerUpdate_def
  by (intro serves_body) (auto intro!: serves_clients console_step.update_provider split: sum.split prod.split)

lemma serves_provider_delete: "serves cn (fst (providerDelete i cn))"
proof -
  have "serves cn (fst (writeDeleteResult (cn\<lparr>cn_clients := cs\<rparr>) (Inr db)))" if "console_step (cn_db cn) db" for db cs
    using that by (simp add: writeDeleteResult_def serves_def r_into_rtranclp)
  then show ?thesis
    by (auto simp: providerDelete_def intro: serves_delete console_step.delete_provider split: sum.split)
qed

lemma serves_provider_item: "serves cn (fst (providerItem ev r raw cn))"
  unfolding providerItem_def Let_def
  by (simp add: serves_provider_remote serves_provider_import serves_provider_update serves_provider_delete split: option.split)

lemma serves_model_create: "serves cn (fst (modelCreate ev r cn))"
  unfolding modelCreate_def by (intro serves_body serves_stored) (auto intro: console_step.create_model)

lemma serves_model_item: "serves cn (fst (modelItem ev r raw cn))"
  unfolding modelItem_def
  by (auto intro!: serves_body serves_stored serves_delete serves_step intro: console_step.update_model console_step.delete_model split: option.split)

subsection \<open>Groups and keys\<close>

lemma serves_group_create: "serves cn (fst (groupCreate ev r cn))"
  unfolding groupCreate_def
proof (intro serves_body)
  fix p
  have two: "serves cn (cn\<lparr>cn_db := db'\<rparr>)" if "CreateModelGroup ng (cn_db cn) = Inr (db, g)" "ReplaceGroupProviders i ids db = Inr db'" for ng db g i ids db'
    using console_step.create_group[OF that(1)] console_step.replace_providers[OF that(2)]
    by (intro serves_steps) (meson r_into_rtranclp rtranclp.rtrancl_into_rtrancl)
  show "serves cn (fst (case CreateModelGroup \<lparr>ng_Name = gp_Name p, ng_Enabled = False, ng_RateMilli = gp_Rate p\<rparr> (cn_db cn) of
       Inl x \<Rightarrow> refuse cn 400 ''group_invalid''
     | Inr (db, g) \<Rightarrow>
         (case ReplaceGroupProviders (g_id g) (gp_ProviderIDs p) db of
            Inl x \<Rightarrow> refuse (cn\<lparr>cn_db := db\<rparr>) 400 ''group_invalid''
          | Inr db' \<Rightarrow> (cn\<lparr>cn_db := db'\<rparr>, 201, PGroup g 0))))"
    by (auto intro: two serves_step console_step.create_group split: sum.split prod.split)
qed

lemma serves_group_item: "serves cn (fst (groupItem ev sub r raw cn))"
proof -
  have "serves cn (fst (groupUpdate ev r i cn))" for i
    unfolding groupUpdate_def by (intro serves_body serves_stored) (auto intro: console_step.update_group)
  moreover have "serves cn (fst (groupDelete i cn))" for i
    unfolding groupDelete_def
    by (auto intro!: serves_monitor serves_delete console_step.delete_group split: sum.split)
  moreover have "serves cn (fst (groupMonitorNow ev i cn))" for i
    by (auto simp: groupMonitorNow_def serves_monitor split: prod.split sum.split)
  moreover have "serves cn (fst (groupProviders r i cn))" for i
    unfolding groupProviders_def
    by (auto intro!: serves_body serves_step console_step.replace_providers split: sum.split)
  ultimately show ?thesis
    unfolding groupItem_def Let_def by (simp add: read_group_get read_group_history split: option.split sum.split)
qed

lemma serves_monitor_all: "serves cn (fst (groupsMonitorAll ev cn))"
  by (auto simp: groupsMonitorAll_def serves_monitor split: prod.split option.split)

lemma serves_key_create: "serves cn (fst (keyCreate ev r cn))"
  unfolding keyCreate_def
proof (intro serves_body)
  fix p
  define created where "created = CreateClientKey (ce_hmac ev) (ce_box ev) (ce_now ev) (ce_entropy ev) (new_key_input ev p) (cn_db cn)"
  have one: "console_step (cn_db cn) db" if "created = Inr (db, k)" for db k
    using that unfolding created_def by (rule console_step.create_key)
  have two: "serves cn (cn\<lparr>cn_db := db'\<rparr>)" if "created = Inr (db, k)" "SetKeyGroup i gid db = Inr db'" for db k i gid db'
    using one[OF that(1)] console_step.set_group[OF that(2)]
    by (intro serves_steps) (meson r_into_rtranclp rtranclp.rtrancl_into_rtrancl)
  show "serves cn (fst (if kp_Group p \<noteq> None \<and> the (kp_Group p) < 0 then refuse cn 400 ''invalid_request''
     else (case CreateClientKey (ce_hmac ev) (ce_box ev) (ce_now ev) (ce_entropy ev) (new_key_input ev p) (cn_db cn) of
             Inl x \<Rightarrow> refuse cn 400 ''key_invalid''
           | Inr (db, k) \<Rightarrow>
               (case kp_Group p of
                  None \<Rightarrow> (cn\<lparr>cn_db := db\<rparr>, 201, PKey k)
                | Some gid \<Rightarrow>
                    if gid \<le> 0 then (cn\<lparr>cn_db := db\<rparr>, 201, PKey k)
                    else (case SetKeyGroup (ki_ID k) gid db of
                            Inl x \<Rightarrow> refuse (cn\<lparr>cn_db := db\<rparr>) 400 ''key_invalid''
                          | Inr db' \<Rightarrow> (cn\<lparr>cn_db := db'\<rparr>, 201, PKey (k\<lparr>ki_GroupID := Some gid\<rparr>)))))))"
    unfolding created_def[symmetric] by (auto intro: two serves_step one split: sum.split prod.split option.split)
qed

lemma serves_key_item: "serves cn (fst (keyItem ev r raw cn))"
proof -
  have "serves cn (fst (keyUpdate ev r i cn))" for i
    unfolding keyUpdate_def by (intro serves_body serves_stored) (auto intro: console_step.update_key_row)
  moreover have "serves cn (fst (keyGroup r i cn))" for i
    unfolding keyGroup_def by (auto intro!: serves_body serves_step console_step.set_group split: sum.split)
  moreover have "serves cn (fst (keyConnection ev r i cn))" for i
    by (simp add: keyConnection_def Let_def split: sum.split)
  moreover have "serves cn (fst (stored cn 200 (\<lambda>_. refuse cn 400 ''key_invalid'') PKey
      (RotateClientKey (ce_hmac ev) (ce_box ev) (ce_now ev) (ce_entropy ev) i (cn_db cn))))" for i
    by (rule serves_stored) (auto intro: console_step.rotate_key)
  moreover have "serves cn (fst (writeDeleteResult cn (DeleteClientKey i (cn_db cn))))" for i
    by (auto intro!: serves_delete serves_step console_step.delete_key)
  ultimately show ?thesis
    unfolding keyItem_def Let_def by (simp split: option.split)
qed

subsection \<open>Plugins\<close>

lemma serves_plugins:
  assumes "cn_plugins cn = Some w" "\<And>base tree. plugin_inv base tree w \<Longrightarrow> plugin_inv base tree w'"
  shows "serves cn (cn\<lparr>cn_plugins := Some w'\<rparr>)"
  using assms by (simp add: serves_def plugins_kept_def)

lemma serves_plugin_reply:
  assumes "cn_plugins cn = Some w" "\<And>base tree. plugin_inv base tree w \<Longrightarrow> plugin_inv base tree (fst res)"
  shows "serves cn (fst (plugin_reply cn show_value res))"
  using serves_plugins[OF assms]
  by (cases res) (simp add: plugin_reply_def split: sum.split plugin_error.split store_error.split)

lemma serves_plugin_install: "serves cn (fst (pluginInstall ev r cn))"
proof (cases "cn_plugins cn")
  case (Some w)
  have "serves cn (cn\<lparr>cn_plugins := Some (fst (Install e src w))\<rparr>)" for e src
    by (rule serves_plugins[OF Some Install_inv])
  then show ?thesis
    by (simp add: pluginInstall_def with_plugins_def Some split: sum.split prod.split) (metis fst_conv)
qed (simp add: pluginInstall_def with_plugins_def)

lemma serves_plugin_item: "serves cn (fst (pluginItem ev r raw cn))"
proof (cases "cn_plugins cn")
  case (Some w)
  have "serves cn (fst (plugin_reply cn PPlugin (Enable e i w)))" "serves cn (fst (plugin_reply cn PPlugin (Disable e i w)))"
    "serves cn (fst (plugin_reply cn PPlugin (Start e i w)))" "serves cn (fst (plugin_reply cn PPlugin (Stop e i w)))"
    "serves cn (fst (plugin_reply cn (\<lambda>_. PDeleted) (Delete i w)))" for e i
    by (rule serves_plugin_reply[OF Some], erule Enable_inv Disable_inv Start_inv Stop_inv Delete_inv)+
  then show ?thesis
    by (simp add: pluginItem_def with_plugins_def Some Let_def split: option.split)
qed (simp add: pluginItem_def with_plugins_def)

text \<open>All handlers but the one that saves settings.\<close>

lemma route_serves:
  assumes "\<And>validateOnly. rt \<noteq> ConfigSave validateOnly"
  shows "serves cn (fst (run_route ev sub r rt cn))"
proof (cases rt)
  case KeysList
  then show ?thesis by (simp add: run_route_def keysList_def split: sum.split)
next
  case PluginsList
  then show ?thesis by (simp add: run_route_def pluginsList_def with_plugins_def split: option.split)
qed (use assms in \<open>simp_all add: run_route_def read_lists configGet_def keysHints_def read_request_item serves_provider_create serves_provider_item
  serves_model_create serves_model_item serves_group_create serves_group_item serves_monitor_all serves_key_create serves_key_item
  serves_plugin_install serves_plugin_item\<close>)

end
