(* ===== verification/Admin_Runs.thy ===== *)
theory Admin_Runs
  imports Admin_Effects Admin_Sample Catalog_Claims
begin

text \<open>
  Sequences of console requests: saving settings is all or nothing and reloads, every sequence of
  requests keeps the invariants of the store, of the administrator's key and of the plugin directory,
  and a token lives as long as it was asked for or, past the range of a duration, not at all.
\<close>

section \<open>Saving settings\<close>

text \<open>
  C23: Saving settings from the console is all or nothing. If the answer is not 200, nothing has changed:
  not the settings, not the administrator's key, not the file, not what the relay was told. If it is 200,
  the submitted values over the current ones form a valid configuration, which is now in force with its
  administrator's key, was handed to the relay last, and is in the file. The next start loads exactly
  that configuration if the file could be read before, no time was submitted as a number with a fraction
  or an exponent (see \<open>tiny_time_locks_out\<close>), and the file holds neither \<open>MAX_BODY_BYTES\<close> while the new limit is a whole
  number of megabytes (see \<open>stale_body_limit\<close>) nor \<open>UPSTREAM_HEADER_TIMEOUT\<close> while the new
  configuration has no header timeout.
\<close>

theorem config_save_all_or_nothing:
  assumes run: "configSave ev r False cn = (cn', status, p)"
  shows "(status \<noteq> 200 \<longrightarrow> cn' = cn) \<and>
    (status = 200 \<longrightarrow> (\<exists>body s. decode_body decode_settings (hr_body r) = Some body \<and>
       Parse (ce_floats ev) (ce_net ev) (candidate_env (cn_settings cn) body) = Inr s \<and>
       cn_settings cn' = s \<and> cn_adminKey cn' = cf_AdminAPIKey s \<and> cn_published cn' = cn_published cn @ [s] \<and> cn_db cn' = cn_db cn \<and>
       (\<forall>fs old. cn_files cn = Some fs \<and> existing (fs_env fs) = Inr old \<and> floats_ok (ce_floats ev) \<and> schemes_ok (ce_net ev) \<and>
          whole_numbers (ce_floats ev) (candidate_env (cn_settings cn) body) \<and>
          (map_of old ''MAX_BODY_BYTES'' = None \<or> cf_MaxBodyBytes s mod megabyte \<noteq> 0) \<and>
          (map_of old ''UPSTREAM_HEADER_TIMEOUT'' = None \<or> 0 < cf_HeaderTimeout s) \<longrightarrow>
          (\<exists>fs'. cn_files cn' = Some fs' \<and> LoadFile (ce_floats ev) (ce_net ev) (fs_env fs') = Inr s))))"
proof (cases "decode_body decode_settings (hr_body r)")
  case None
  with run show ?thesis by (auto simp: configSave_def with_body_def refuse_def)
next
  case (Some body)
  show ?thesis
  proof (cases "Parse (ce_floats ev) (ce_net ev) (candidate_env (cn_settings cn) body)")
    case (Inl e)
    with run Some show ?thesis by (auto simp: configSave_def with_body_def refuse_detail_def)
  next
    case (Inr s)
    define reply where "reply = PConfigSaved (changed_fields (cn_settings cn) s) (RestartOnlyChanges (cn_settings cn) s) (safeSettings s)"
    have applied: "apply_settings ev s reply cn = (cn', status, p)"
      using run by (simp add: configSave_def with_body_def Some Inr Let_def reply_def)
    show ?thesis
    proof (cases "cn_files cn")
      case None
      with applied Some Inr show ?thesis by (auto simp: apply_settings_def refuse_def)
    next
      case files: (Some fs)
      obtain fs' res where w: "Write (ce_written ev) s fs = (fs', res)" by fastforce
      show ?thesis
      proof (cases res)
        case (Inl e)
        then have "fs' = fs" using w by (auto simp: Write_def WriteMapping_def split: sum.splits if_splits)
        then have "cn' = cn \<and> status = 500" using applied files w Inl by (auto simp: apply_settings_def refuse_def)
        then show ?thesis by simp
      next
        case ok: (Inr u)
        then have written: "ce_written ev" using w by (auto simp: Write_def WriteMapping_def split: sum.splits if_splits)
        have cn': "cn' = cn\<lparr>cn_files := Some fs', cn_settings := s, cn_adminKey := cf_AdminAPIKey s, cn_published := cn_published cn @ [s]\<rparr>"
            "status = 200" using applied files w ok by (auto simp: apply_settings_def)
        have "LoadFile (ce_floats ev) (ce_net ev) (fs_env fs') = Inr s"
          if "existing (fs_env fs) = Inr old" "floats_ok (ce_floats ev)" "schemes_ok (ce_net ev)"
            "whole_numbers (ce_floats ev) (candidate_env (cn_settings cn) body)"
            "map_of old ''MAX_BODY_BYTES'' = None \<or> cf_MaxBodyBytes s mod megabyte \<noteq> 0"
            "map_of old ''UPSTREAM_HEADER_TIMEOUT'' = None \<or> 0 < cf_HeaderTimeout s" for old
          using saved_reload[OF Inr that(2,4,3,1,5,6)] w written by auto
        with cn' Some Inr files show ?thesis by auto
      qed
    qed
  qed
qed

definition more_requests :: "http_request" where
  "more_requests = operator_call ''PUT'' ''config'' (VMap [(''settings'', VMap [(''RPM_LIMIT'', VString ''60'')])])"

lemma more_requests_lookup: "map_of (candidate_env console_settings [(''RPM_LIMIT'', ''60'')]) = map_of (overlay (EnvMap (console_settings\<lparr>cf_RPMLimit := 60\<rparr>)) [])"
proof
  fix k
  have "FormatInt 60 = ''60''" by code_simp
  then show "map_of (candidate_env console_settings [(''RPM_LIMIT'', ''60'')]) k = map_of (overlay (EnvMap (console_settings\<lparr>cf_RPMLimit := 60\<rparr>)) []) k"
    by (simp add: candidate_env_def map_of_overlay[OF distinct_EnvMap] keeps_current_def)
      (simp add: overlay_def update_conv EnvMap_def split: option.split)
qed

lemma more_requests_ok: "settings_ok https_net (console_settings\<lparr>cf_RPMLimit := 60\<rparr>)"
proof -
  have "b64_encode (replicate 32 CHR ''k'') \<noteq> []" by code_simp
  then show ?thesis
    using initial_ok[of "replicate 32 CHR ''k''" https_net "''key''"] by (simp add: console_settings_def settings_ok_def count_ok_def max_i64_def)
qed

lemma more_requests_parse:
  "Parse sample_floats https_net (candidate_env console_settings [(''RPM_LIMIT'', ''60'')]) = Inr (console_settings\<lparr>cf_RPMLimit := 60\<rparr>)"
proof -
  have f: "count_ok (cf_MaxBodyBytes (console_settings\<lparr>cf_RPMLimit := 60\<rparr>))" "optional_ok (cf_HeaderTimeout (console_settings\<lparr>cf_RPMLimit := 60\<rparr>))"
    using more_requests_ok unfolding settings_ok_def by simp_all
  show ?thesis
    unfolding Parse_cong[OF more_requests_lookup]
    using Parse_saved[OF more_requests_ok sample_floats_ok saves_overlay bodyBytes_back[OF f(1)] header_back[OF f(2) sample_floats_ok]] by simp
qed

lemma whole_time:
  assumes "map_of env name = Some (Duration_String d)" "0 \<le> d" "floats_ok fl"
  shows "whole_number fl env name"
  using assms Duration_trimmed[of d] Duration_no_number[of d fl] by (simp add: whole_number_def)

lemma saved_times:
  assumes "settings_ok net s" "0 < cf_HeaderTimeout s" "name \<in> set time_settings"
  shows "\<exists>d \<ge> 0. map_of (overlay (EnvMap s) []) name = Some (Duration_String d)"
proof -
  have "map_of (overlay (EnvMap s) []) ''UPSTREAM_HEADER_TIMEOUT'' = Some (Duration_String (cf_HeaderTimeout s))"
    using assms(2) by (simp add: map_of_overlay[OF distinct_EnvMap] EnvMap_body)
  moreover note saves_numbers(6-14)[OF saves_overlay, of s "[]"]
  moreover have "0 \<le> d" if "d \<in> {cf_ModelSyncInterval s, cf_MaxStreamDuration s, cf_ConnectTimeout s, cf_HeaderTimeout s, cf_ReadTimeout s,
      cf_WriteTimeout s, cf_PoolTimeout s, cf_UpstreamIdleTimeout s, cf_SSEHeartbeatInterval s}" for d
    using that assms(1) by (auto simp: settings_ok_def count_ok_def optional_ok_def)
  ultimately show ?thesis using assms(3) unfolding time_settings_def by (simp, elim disjE) blast+
qed

lemma more_requests_whole: "whole_numbers sample_floats (candidate_env console_settings [(''RPM_LIMIT'', ''60'')])"
proof -
  have header: "0 < cf_HeaderTimeout (console_settings\<lparr>cf_RPMLimit := 60\<rparr>)" by (simp add: console_settings_def initial_settings_def sec_ns_def)
  have "whole_number sample_floats (candidate_env console_settings [(''RPM_LIMIT'', ''60'')]) name" if "name \<in> set time_settings" for name
    using saved_times[OF more_requests_ok header that] unfolding more_requests_lookup[symmetric]
    by (elim exE conjE) (rule whole_time[OF _ _ sample_floats_ok])
  then show ?thesis by (simp add: whole_numbers_def list_all_iff)
qed

theorem config_save_all_or_nothing_witness:
  "\<exists>cn' p fs'. configSave sample_console_env more_requests False sample_console = (cn', 200, p) \<and> cf_RPMLimit (cn_settings cn') = 60 \<and>
     cn_files cn' = Some fs' \<and> LoadFile sample_floats https_net (fs_env fs') = Inr (cn_settings cn')"
proof -
  have body: "decode_body decode_settings (hr_body more_requests) = Some [(''RPM_LIMIT'', ''60'')]" by code_simp
  have old: "existing (Content ''# mine'') = Inr []" by code_simp
  obtain cn' status p where run: "configSave sample_console_env more_requests False sample_console = (cn', status, p)"
    by (cases "configSave sample_console_env more_requests False sample_console") auto
  have env: "ce_floats sample_console_env = sample_floats" "ce_net sample_console_env = https_net" "ce_written sample_console_env"
      "cn_settings sample_console = console_settings" "cn_files sample_console = Some \<lparr>fs_env = Content ''# mine'', fs_bootstrap = Absent\<rparr>"
    by (simp_all add: sample_console_env_def sample_console_def)
  have "status = 200"
    using run Write_read[of "\<lparr>fs_env = Content ''# mine'', fs_bootstrap = Absent\<rparr>" "[]" "console_settings\<lparr>cf_RPMLimit := 60\<rparr>"] old
    by (auto simp: configSave_def with_body_def body env more_requests_parse apply_settings_def Let_def)
  with config_save_all_or_nothing[OF run] have "cn_settings cn' = console_settings\<lparr>cf_RPMLimit := 60\<rparr>"
      "\<exists>fs'. cn_files cn' = Some fs' \<and> LoadFile sample_floats https_net (fs_env fs') = Inr (cn_settings cn')"
    by (auto simp: body env more_requests_parse old sample_floats_ok https_net_ok more_requests_whole)
  with run \<open>status = 200\<close> show ?thesis by simp
qed

section \<open>Sequences of requests\<close>

definition console_run :: "(console_env \<times> http_request) list \<Rightarrow> console \<Rightarrow> console" where
  "console_run calls cn = fold (\<lambda>(ev, r) cn. fst (AdminServeHTTP ev r cn)) calls cn"

definition console_ok :: "console \<Rightarrow> bool" where
  "console_ok cn \<longleftrightarrow> store_reachable (cn_db cn) \<and> cn_adminKey cn = cf_AdminAPIKey (cn_settings cn) \<and> cn_adminKey cn \<noteq> []"

lemma steps_reachable: "console_step\<^sup>*\<^sup>* db db' \<Longrightarrow> store_reachable db \<Longrightarrow> store_reachable db'"
  by (induction rule: rtranclp_induct) (auto intro: store_reachable.step store_step.console)

lemma Parse_admin: "Parse fl net env = Inr s \<Longrightarrow> cf_AdminAPIKey s \<noteq> []"
  by (auto simp: Parse_def bind_result_Inr required_def Let_def split: if_splits)

lemma serves_ok: "serves cn cn' \<Longrightarrow> console_ok cn \<Longrightarrow> console_ok cn'"
  by (auto simp: serves_def console_ok_def steps_reachable)

lemma apply_settings_ok:
  assumes "console_ok cn" "cf_AdminAPIKey s \<noteq> []"
  shows "console_ok (fst (apply_settings ev s reply cn)) \<and> plugins_kept (cn_plugins cn) (cn_plugins (fst (apply_settings ev s reply cn)))"
  using assms by (auto simp: apply_settings_def console_ok_def refuse_def split: prod.split sum.split)

lemma config_save_ok:
  assumes "console_ok cn"
  shows "console_ok (fst (configSave ev r v cn)) \<and> plugins_kept (cn_plugins cn) (cn_plugins (fst (configSave ev r v cn)))"
  using assms apply_settings_ok Parse_admin
  by (auto simp: configSave_def with_body_def refuse_def refuse_detail_def Let_def split: option.split sum.split)

lemma request_ok:
  assumes "console_ok cn"
  shows "console_ok (fst (AdminServeHTTP ev r cn)) \<and> plugins_kept (cn_plugins cn) (cn_plugins (fst (AdminServeHTTP ev r cn)))"
proof (cases "admin_front (ce_hmac ev) (ce_box ev) (ce_now ev) (cn_adminKey cn) r (cn_db cn)")
  case (Handle sub rt)
  show ?thesis
  proof (cases "\<exists>v. rt = ConfigSave v")
    case True
    then show ?thesis using config_save_ok[OF assms] by (auto simp: AdminServeHTTP_def Handle run_route_def)
  next
    case False
    then have "serves cn (fst (run_route ev sub r rt cn))" using route_serves by blast
    then show ?thesis using serves_ok[OF _ assms] by (auto simp: AdminServeHTTP_def Handle serves_def)
  qed
qed (use assms in \<open>simp_all add: AdminServeHTTP_def refuse_def\<close>)

lemma plugins_kept_trans: "plugins_kept a b \<Longrightarrow> plugins_kept b c \<Longrightarrow> plugins_kept a c"
  unfolding plugins_kept_def by metis

lemma console_run_ok:
  "console_ok cn \<Longrightarrow> console_ok (console_run calls cn) \<and> plugins_kept (cn_plugins cn) (cn_plugins (console_run calls cn))"
proof (induction calls arbitrary: cn)
  case (Cons call calls)
  obtain ev r where call: "call = (ev, r)" by fastforce
  have next_ok: "console_ok (fst (AdminServeHTTP ev r cn))" "plugins_kept (cn_plugins cn) (cn_plugins (fst (AdminServeHTTP ev r cn)))"
    using request_ok[OF Cons.prems] by simp_all
  from Cons.IH[OF next_ok(1)] plugins_kept_trans[OF next_ok(2)] show ?case by (auto simp: console_run_def call)
qed (simp add: console_run_def)

text \<open>
  Whatever sequence of requests reaches the console, well formed or not, authorised or not: the
  database stays one that the operations of the store can produce, so all its invariants hold; the key
  that opens the console is that of the settings in force and is never empty; and the plugins stay in
  their directory.
\<close>

lemma console_keeps_invariants:
  assumes "store_reachable (cn_db cn)" "cn_adminKey cn = cf_AdminAPIKey (cn_settings cn)" "cn_adminKey cn \<noteq> []"
    and "cn_plugins cn = Some (plugin_start base tree)" and "cn' = console_run calls cn"
  shows "store_reachable (cn_db cn') \<and> wf_db (cn_db cn') \<and> ledger_inv (cn_db cn') \<and>
    cn_adminKey cn' = cf_AdminAPIKey (cn_settings cn') \<and> cn_adminKey cn' \<noteq> [] \<and>
    (\<exists>w. cn_plugins cn' = Some w \<and> (\<forall>q. pw_tree w q = tree q \<or> package_file base q))"
proof -
  have "console_ok cn" using assms by (simp add: console_ok_def)
  from console_run_ok[OF this, of calls] have ok: "console_ok cn'" and kept: "plugins_kept (cn_plugins cn) (cn_plugins cn')"
    by (simp_all add: assms(5))
  have "plugin_inv base tree (plugin_start base tree)" by (simp add: plugin_inv_def plugin_start_def)
  with kept assms(4) have "\<exists>w. cn_plugins cn' = Some w \<and> plugin_inv base tree w" by (simp add: plugins_kept_def)
  then have "\<exists>w. cn_plugins cn' = Some w \<and> (\<forall>q. pw_tree w q = tree q \<or> package_file base q)" by (auto simp: plugin_inv_def)
  with ok store_reachable_inv show ?thesis unfolding console_ok_def by metis
qed

section \<open>The lifetime of a token\<close>

lemma wrapped_lifetime:
  assumes "9223372036 < s" "s \<le> 18446744073"
  shows "wrap64 (s * second_ns) < 0"
proof -
  have "(s * 1000000000 + 9223372036854775808) mod 18446744073709551616 = (s * 1000000000 - 9223372036854775808) mod 18446744073709551616"
    using mod_add_self2[of "s * 1000000000 - 9223372036854775808" "18446744073709551616"] by (simp add: add.commute)
  also have "\<dots> = s * 1000000000 - 9223372036854775808"
    using assms by (intro mod_pos_pos_trivial) simp_all
  finally have "(s * 1000000000 + 9223372036854775808) mod 18446744073709551616 = s * 1000000000 - 9223372036854775808" .
  with assms show ?thesis by (simp add: wrap64_def second_ns_def)
qed

lemma short_lifetime: "0 < s \<Longrightarrow> s \<le> 9223372036 \<Longrightarrow> wrap64 (s * second_ns) = s * second_ns"
  by (rule wrap64_id) (simp add: in_i64_def min_i64_def max_i64_def second_ns_def)

text \<open>The row a successful creation leaves behind, which binding it to a group does not change otherwise.\<close>

lemma keyCreate_row:
  assumes wf: "wf_db (cn_db cn)" and run: "keyCreate ev r cn = (cn', 201, PKey k)"
    and body: "decode_body (decode_key (ce_floats ev)) (hr_body r) = Some p" and bearer: "\<not> kp_Keyless p"
  obtains row where "tbl_find k_id (ki_ID k) (db_keys (cn_db cn')) = Some row" "k_digest row = DigestBytes (ce_hmac ev) (ce_box ev) (ki_Token k)"
    "k_expires row = expiryFromTTL (ce_now ev) (kp_TTL p)" "ki_ExpiresAt k = expiryFromTTL (ce_now ev) (kp_TTL p)"
    "trim_space (ki_Token k) \<noteq> []" "wf_db (cn_db cn')"
proof -
  obtain db v where c: "CreateClientKey (ce_hmac ev) (ce_box ev) (ce_now ev) (ce_entropy ev) (new_key_input ev p) (cn_db cn) = Inr (db, v)"
    and after: "cn_db cn' = db \<and> k = v \<or>
      (\<exists>gid. SetKeyGroup (ki_ID v) gid db = Inr (cn_db cn') \<and> k = v\<lparr>ki_GroupID := Some gid\<rparr>)"
  proof (cases "CreateClientKey (ce_hmac ev) (ce_box ev) (ce_now ev) (ce_entropy ev) (new_key_input ev p) (cn_db cn)")
    case (Inl e)
    with run body show thesis by (simp add: keyCreate_def with_body_def refuse_def split: if_splits)
  next
    case (Inr x)
    obtain db v where x: "x = (db, v)" by fastforce
    note r = run[unfolded keyCreate_def with_body_def body option.case Inr x sum.case prod.case]
    show thesis
    proof (cases "kp_Group p")
      case None
      with r show thesis by (intro that[OF Inr[unfolded x]]) auto
    next
      case (Some gid)
      show thesis
      proof (cases "gid \<le> 0")
        case True
        with r Some show thesis by (intro that[OF Inr[unfolded x]]) (auto simp: refuse_def split: if_splits)
      next
        case False
        with r Some show thesis by (cases "SetKeyGroup (ki_ID v) gid db") (auto simp: refuse_def intro!: that[OF Inr[unfolded x]])
      qed
    qed
  qed
  obtain secret row where s: "randomClientToken (en_token (ce_entropy ev)) = Inr secret"
    and row: "row = new_key_row (new_key_input ev p) (DigestBytes (ce_hmac ev) (ce_box ev) secret) (tokenLabel (ce_now ev) (en_label (ce_entropy ev))) (tokenHint secret) None"
    and ins: "insert_key row (cn_db cn) = Inr db"
    and v: "v = (scanClientKey row)\<lparr>ki_ID := tbl_next k_id (db_keys (cn_db cn)), ki_Token := secret, ki_TokenHint := tokenHint secret\<rparr>"
    using c bearer by (auto simp: CreateClientKey_def Let_def bind_result_Inr new_key_input_def)
  let ?k = "row\<lparr>k_id := tbl_next k_id (db_keys (cn_db cn))\<rparr>"
  have keys: "db_keys db = db_keys (cn_db cn) @ [?k]" using ins by (auto simp: insert_key_def bind_result_Inr tbl_insert_def)
  have wf': "wf_db db" using wf c by (rule CreateClientKey_wf)
  have f: "tbl_find k_id (ki_ID v) (db_keys db) = Some ?k"
    unfolding tbl_find_iff[OF wf_dbD(4)[OF wf']] using keys by (auto simp: v)
  have old: "k_digest ?k = DigestBytes (ce_hmac ev) (ce_box ev) (ki_Token v)" "k_expires ?k = expiryFromTTL (ce_now ev) (kp_TTL p)"
    "ki_ExpiresAt v = expiryFromTTL (ce_now ev) (kp_TTL p)" "trim_space (ki_Token v) \<noteq> []"
    by (simp_all add: v row new_key_row_def new_key_input_def scanClientKey_def randomClientToken_shape[OF s])
  from after show thesis
  proof (elim disjE conjE exE)
    assume "cn_db cn' = db" "k = v"
    with f old wf' that show thesis by simp
  next
    fix gid assume g: "SetKeyGroup (ki_ID v) gid db = Inr (cn_db cn')" and k: "k = v\<lparr>ki_GroupID := Some gid\<rparr>"
    have wf'': "wf_db (cn_db cn')" by (rule console_wf[OF wf' console_step.set_group[OF g]])
    have "\<exists>x. db\<lparr>db_keys := tbl_update k_id (ki_ID v) (\<lambda>r. r\<lparr>k_group_id := x\<rparr>) (db_keys db)\<rparr> = cn_db cn'"
      using g by (auto simp: SetKeyGroup_def bind_result_Inr split: if_splits)
    then obtain x where "db\<lparr>db_keys := tbl_update k_id (ki_ID v) (\<lambda>r. r\<lparr>k_group_id := x\<rparr>) (db_keys db)\<rparr> = cn_db cn'" ..
    then have "db_keys (cn_db cn') = tbl_update k_id (ki_ID v) (\<lambda>r. r\<lparr>k_group_id := x\<rparr>) (db_keys db)" by (metis db.select_convs(5) db.surjective db.update_convs(5))
    then have "tbl_find k_id (ki_ID v) (db_keys (cn_db cn')) = Some (?k\<lparr>k_group_id := x\<rparr>)"
      using f by (simp add: tbl_find_update)
    from that[of "?k\<lparr>k_group_id := x\<rparr>"] this old k wf'' show thesis by simp
  qed
qed

text \<open>
  C40: A bearer token asked for \<open>s\<close> seconds of life is valid for exactly \<open>s\<close> seconds when \<open>s\<close> is at most
  9223372036 (292 years): the expiry is in the stored row, and from its creation on the token
  authenticates its key before that instant and is refused as expired from it on. A longer one, up to
  18446744073 seconds, is created as a success but is refused from the instant it is handed
  out, because the product of the seconds with a second wraps around.
\<close>

theorem token_lifetime:
  assumes reach: "store_reachable (cn_db cn)" and run: "keyCreate ev r cn = (cn', 201, PKey k)"
    and body: "decode_body (decode_key (ce_floats ev)) (hr_body r) = Some p" and bearer: "\<not> kp_Keyless p"
    and ttl: "kp_TTL p = Some s" "0 < s" "s \<le> 18446744073"
  shows "\<exists>row. tbl_find k_id (ki_ID k) (db_keys (cn_db cn')) = Some row \<and> k_expires row = ki_ExpiresAt k \<and> ki_ExpiresAt k \<noteq> None \<and>
     (\<forall>t \<ge> ce_now ev. AuthenticateClientKey (ce_hmac ev) (ce_box ev) t (ki_Token k) (cn_db cn') =
        (if s \<le> 9223372036 \<and> t < ce_now ev + s * second_ns then Inr (scanClientKey row) else Inl ErrClientKeyExpired))"
proof -
  obtain row where row: "tbl_find k_id (ki_ID k) (db_keys (cn_db cn')) = Some row"
    "k_digest row = DigestBytes (ce_hmac ev) (ce_box ev) (ki_Token k)" "trim_space (ki_Token k) \<noteq> []" "wf_db (cn_db cn')"
    and e: "k_expires row = expiryFromTTL (ce_now ev) (kp_TTL p)" "ki_ExpiresAt k = expiryFromTTL (ce_now ev) (kp_TTL p)"
    using keyCreate_row[OF _ run body bearer] store_reachable_inv[OF reach] by blast
  have mem: "row \<in> set (db_keys (cn_db cn'))" using row(1) by (simp add: tbl_find_iff[OF wf_dbD(4)[OF row(4)]])
  have "Expired t (scanClientKey row) \<longleftrightarrow> \<not> (s \<le> 9223372036 \<and> t < ce_now ev + s * second_ns)" if "ce_now ev \<le> t" for t
    using that e(1) ttl short_lifetime[of s] wrapped_lifetime[of s] by (cases "s \<le> 9223372036") (auto simp: Expired_def expiryFromTTL_def scanClientKey_def)
  then show ?thesis using row(1) e ttl authenticate_by_digest[OF row(4) mem row(2,3)]
    by (auto simp: check_expiry_def expiryFromTTL_def)
qed

definition long_token :: "http_request" where
  "long_token = operator_call ''POST'' ''keys'' (VMap [(''name'', VString ''x''), (''ttl_seconds'', VNumber ''10000000000'')])"

theorem token_lifetime_witness:
  "\<exists>cn' k. keyCreate sample_console_env long_token sample_console = (cn', 201, PKey k) \<and>
     AuthenticateClientKey sample_hmac (ce_box sample_console_env) now0 (ki_Token k) (cn_db cn') = Inl ErrClientKeyExpired"
proof -
  have "(case keyCreate sample_console_env long_token sample_console of (_, status, PKey k) \<Rightarrow> status = 201 | _ \<Rightarrow> False)" by code_simp
  then obtain cn' k where run: "keyCreate sample_console_env long_token sample_console = (cn', 201, PKey k)"
    by (auto split: prod.splits payload.splits)
  have "(case decode_body (decode_key (ce_floats sample_console_env)) (hr_body long_token) of Some p \<Rightarrow> kp_TTL p = Some 10000000000 \<and> \<not> kp_Keyless p | None \<Rightarrow> False)"
    by code_simp
  then obtain p where p: "decode_body (decode_key (ce_floats sample_console_env)) (hr_body long_token) = Some p" "kp_TTL p = Some 10000000000" "\<not> kp_Keyless p"
    by (auto split: option.splits)
  have now: "ce_now sample_console_env = now0" "ce_hmac sample_console_env = sample_hmac" by (simp_all add: sample_console_env_def)
  have "store_reachable (cn_db sample_console)" using reach_db_r by (simp add: sample_console_def)
  from token_lifetime[OF this run p(1,3,2)] obtain row where
    "AuthenticateClientKey sample_hmac (ce_box sample_console_env) now0 (ki_Token k) (cn_db cn') = Inl ErrClientKeyExpired"
    unfolding now by auto
  with run show ?thesis by blast
qed

end
