(* ===== verification/Public_Api.thy ===== *)
theory Public_Api
  imports Admin_Access Config_Store Registry Stream_Session
begin

text \<open>
  The public interface (httpapi/public.go, httpapi/responses.go): dispatch, credentials, decoding of chat
  and Responses requests, the conversion of a Responses request into a chat request, the call through the
  relay service, and the answers with the codes of service errors. The texts of errors are left out; the
  streams themselves are those of \<open>Stream_Session\<close>.
\<close>

section \<open>Dispatch and credentials\<close>

datatype endpoint = EModels | EChat | EResponses | EUnknown

definition public_endpoint :: "string \<Rightarrow> endpoint" where
  "public_endpoint p =
     (let path = trim_prefix (trim_prefix (trim_suffix p ''/'') ''/v1'') ''/v1'' in
      if path = ''/models'' then EModels else if path = ''/chat/completions'' then EChat
      else if path = ''/responses'' then EResponses else EUnknown)"

definition bearer :: "http_request \<Rightarrow> string" where
  "bearer r = (case Go_Text.fields (hr_header r ''Authorization'') of [scheme, token] \<Rightarrow> if to_lower scheme = ''bearer'' then token else [] | _ \<Rightarrow> [])"

definition appIdentifier :: "http_request \<Rightarrow> string" where
  "appIdentifier r = trim_space (hr_header r ''X-App-Id'')"

section \<open>Requests\<close>

text \<open>
  A refusal is a status with its code. \<open>marshal\<close> is \<open>json.Marshal\<close>, as the characters of the text; the
  document read into a map keeps the last of equal names.
\<close>

type_synonym refusal = "nat \<times> string"

definition read_object :: "gval option \<Rightarrow> gmap option" where
  "read_object = decode_body (\<lambda>m. Some (fold (\<lambda>(k, v). put k v) m []))"

text \<open>What both handlers check before they look at the document; \<open>full\<close> is the verdict of the memory guard.\<close>

definition public_body :: "bool \<Rightarrow> http_request \<Rightarrow> refusal + gmap" where
  "public_body full r =
     bind_result (reject_when (hr_method r \<noteq> ''POST'') (405, ''method_not_allowed'')) (\<lambda>_.
     bind_result (reject_when (bearer r = [] \<and> appIdentifier r = []) (401, ''invalid_api_key'')) (\<lambda>_.
     bind_result (reject_when full (503, ''memory_limit_exceeded'')) (\<lambda>_.
     bind_result (require_some (read_object (hr_body r)) (400, ''invalid_request'')) (\<lambda>body.
     bind_result (reject_when (trim_space (stringValue (get body ''model'')) = []) (400, ''model_required'')) (\<lambda>_. Inr body)))))"

definition payload_texts :: "(gval \<Rightarrow> runes) \<Rightarrow> gmap \<Rightarrow> (string \<times> runes option) list" where
  "payload_texts marshal payload = map (\<lambda>(k, v). (k, Some (marshal v))) (filter (\<lambda>(k, v). \<not> is_nil v) payload)"

definition chat_request :: "(gval \<Rightarrow> runes) \<Rightarrow> http_request \<Rightarrow> gmap \<Rightarrow> refusal + Request" where
  "chat_request marshal r payload =
     bind_result (reject_when (\<not> is_list (get payload ''messages'')) (400, ''messages_required'')) (\<lambda>_.
     Inr \<lparr>rq_Token = bearer r, rq_AppID = appIdentifier r, rq_Model = stringValue (get payload ''model''),
          rq_Messages = map (\<lambda>m. Some (marshal m)) (anySlice (get payload ''messages'')), rq_Payload = payload_texts marshal payload,
          rq_InputText = marshal (get payload ''messages''), rq_MaxTokens = intValue (get payload ''max_tokens''),
          rq_MaxCompletionTokens = intValue (get payload ''max_completion_tokens''), rq_Stream = boolValue (get payload ''stream''),
          rq_Protocol = []\<rparr>)"

section \<open>Responses requests\<close>

definition chat_message :: "string \<Rightarrow> string \<Rightarrow> gmap" where
  "chat_message role content = [(''role'', VString role), (''content'', VString content)]"

definition response_item :: "gval \<Rightarrow> gmap list" where
  "response_item item =
     (if \<not> is_map item then []
      else
        let entry = as_map item; typ = stringValue (get entry ''type''); role = stringValue (get entry ''role'');
            content = flattenResponseContent (get entry ''content'') in
        if typ \<noteq> [] \<and> typ \<noteq> ''message'' then []
        else if content = [] then [] else [chat_message (if role = [] then ''user'' else role) content])"

definition responsesInputToMessages :: "gval \<Rightarrow> string \<Rightarrow> gmap list" where
  "responsesInputToMessages inp instructions =
     (if trim_space instructions \<noteq> [] then [chat_message ''system'' instructions] else []) @
     (case inp of
        VString v \<Rightarrow> if trim_space v \<noteq> [] then [chat_message ''user'' v] else []
      | VList items \<Rightarrow> concat (map response_item items)
      | _ \<Rightarrow> [])"

definition sampling_keys :: "string list" where
  "sampling_keys = [''temperature'', ''top_p'', ''stop'', ''seed'', ''user'']"

text \<open>The messages are a \<open>[]map[string]any\<close>, which is not a \<open>[]any\<close>.\<close>

definition responses_payload :: "gmap \<Rightarrow> gmap list \<Rightarrow> gmap" where
  "responses_payload body messages =
     (let payload = [(''model'', VString (stringValue (get body ''model''))), (''messages'', VMaps messages), (''stream'', VBool (boolValue (get body ''stream'')))];
          payload = fold (\<lambda>k p. if has_key body k then put k (get body k) p else p) sampling_keys payload;
          maxTokens = intValue (get body ''max_output_tokens'')
      in if maxTokens > 0 then put ''max_tokens'' (VInt maxTokens) payload else payload)"

definition responses_request :: "(gval \<Rightarrow> runes) \<Rightarrow> http_request \<Rightarrow> gmap \<Rightarrow> refusal + Request \<times> gmap" where
  "responses_request marshal r body =
     bind_result (reject_when (\<not> has_key body ''input'') (400, ''input_required'')) (\<lambda>_.
     let messages = responsesInputToMessages (get body ''input'') (stringValue (get body ''instructions'')) in
     bind_result (reject_when (messages = []) (400, ''input_required'')) (\<lambda>_.
     let payload = responses_payload body messages in
     Inr (\<lparr>rq_Token = bearer r, rq_AppID = appIdentifier r, rq_Model = stringValue (get body ''model''),
           rq_Messages = map (\<lambda>m. Some (marshal (VMap m))) messages, rq_Payload = payload_texts marshal payload,
           rq_InputText = marshal (VMaps messages), rq_MaxTokens = intValue (get body ''max_output_tokens''),
           rq_MaxCompletionTokens = 0, rq_Stream = boolValue (get body ''stream''), rq_Protocol = ''responses''\<rparr>, payload)))"

section \<open>Service errors\<close>

text \<open>
  What \<open>Chat\<close> and \<open>PrepareStream\<close> return: an error of the relay, one of the upstream or of the look-up of
  its client, or a failed settlement joined with whatever came before it.
\<close>

datatype service_error = ServiceRelay relay_error | ServiceUpstream registry_error | ServiceUnsettled

definition writeServiceError :: "service_error \<Rightarrow> refusal" where
  "writeServiceError e =
     (case e of
        ServiceRelay ErrUnauthorized \<Rightarrow> (401, ''invalid_api_key'')
      | ServiceRelay ErrTokenExpired \<Rightarrow> (401, ''token_expired'')
      | ServiceRelay ErrModelNotAllowed \<Rightarrow> (400, ''model_not_allowed'')
      | ServiceRelay ErrSettlementUnavailable \<Rightarrow> (503, ''settlement_unavailable'')
      | ServiceUnsettled \<Rightarrow> (503, ''settlement_unavailable'')
      | ServiceRelay ErrGlobalConcurrencyExceeded \<Rightarrow> (429, ''rate_limit_exceeded'')
      | ServiceRelay ErrKeyConcurrencyExceeded \<Rightarrow> (429, ''rate_limit_exceeded'')
      | ServiceRelay ErrInvalidRequest \<Rightarrow> (400, ''invalid_request'')
      | ServiceRelay (StoreFailure (ErrQuota qe)) \<Rightarrow> (429, qe_code qe)
      | ServiceUpstream (RegUpstream g) \<Rightarrow>
          (case as_upstream g of Some (code, _, _) \<Rightarrow> (502, code) | None \<Rightarrow> (500, ''relay_error''))
      | _ \<Rightarrow> (500, ''relay_error''))"

section \<open>The call of a plain chat request\<close>

record public_env =
  pb_ev :: environment
  pb_settings :: "ServiceSettings option"
  pb_drained :: bool
  pb_attempts :: "attempt \<times> attempt \<times> attempt"
  pb_lookup :: lookup_env
  pb_transport :: json_transport
  pb_marshal :: "gval \<Rightarrow> runes"
  pb_usage :: "string \<Rightarrow> Usage option"
  pb_result :: "string \<Rightarrow> string option"
  pb_full :: bool
  pb_stream :: stream_world
  pb_chunk :: "string \<Rightarrow> (choice list \<times> Usage) option"
  pb_delta :: chunk_decoder

text \<open>
  \<open>pb_usage\<close> decodes the usage of an answer, which both the settlement and the Responses answer read from
  the same member, \<open>pb_result\<close> the content of its first choice.
  The session id of the client is handed on.
\<close>

definition session_id :: "http_request \<Rightarrow> string" where
  "session_id r = trim_space (hr_header r SessionIDHeader)"

definition forwarded :: "bool \<Rightarrow> Model \<Rightarrow> gmap \<Rightarrow> gmap" where
  "forwarded streamed model payload = put ''stream'' (VBool streamed) (put ''model'' (VString (m_upstream_name model)) payload)"

definition upstream_chat ::
  "public_env \<Rightarrow> string \<Rightarrow> Model \<Rightarrow> gmap \<Rightarrow> db \<Rightarrow> clients \<Rightarrow> clients \<times> (registry_error + string)" where
  "upstream_chat pb sid model payload db cs =
     (case forProvider (pb_lookup pb) (m_provider_id model) db cs of
        (cs', Inl e) \<Rightarrow> (cs', Inl e)
      | (cs', Inr c) \<Rightarrow> (cs', from_upstream (Client_ChatJSON ((pb_transport pb)\<lparr>tr_session := sid\<rparr>) c (forwarded False model payload))))"

definition registry_failure :: "registry_error \<Rightarrow> upstream_error" where
  "registry_failure e = (case e of RegUpstream g \<Rightarrow> upstream_error_of g | _ \<Rightarrow> OtherError)"

definition reply_of :: "(string \<Rightarrow> Usage option) \<Rightarrow> registry_error + string \<Rightarrow> chat_reply" where
  "reply_of decode_usage r =
     (case r of Inl e \<Rightarrow> ChatFailed (registry_failure e)
      | Inr data \<Rightarrow> (case decode_usage data of None \<Rightarrow> ChatUndecodable | Some u \<Rightarrow> ChatReply u))"

text \<open>
  \<open>Chat\<close> with its upstream: what the upstream answers depends on the model \<open>Begin\<close> admits, and the answer
  is what \<open>Chat\<close> settles.
\<close>

definition service_chat ::
  "public_env \<Rightarrow> string \<Rightarrow> Request \<Rightarrow> gmap \<Rightarrow> Service \<Rightarrow> clients \<Rightarrow> Service \<times> clients \<times> (service_error + string)" where
  "service_chat pb sid req payload sv cs =
     (case Begin (pb_ev pb) (pb_settings pb) (pb_drained pb) (req\<lparr>rq_Stream := False\<rparr>) sv of
        (sv', Inl e) \<Rightarrow> (sv', cs, Inl (ServiceRelay e))
      | (sv', Inr l) \<Rightarrow>
          (case upstream_chat pb sid (le_model l) payload (sv_db sv') cs of
             (cs', answer) \<Rightarrow>
               (case pb_attempts pb of (a1, a2, a3) \<Rightarrow>
                  (case Chat (pb_ev pb) (pb_settings pb) (pb_drained pb) a1 a2 a3 (reply_of (pb_usage pb) answer) req sv of
                     (sv'', Inl e) \<Rightarrow> (sv'', cs', Inl (ServiceRelay e))
                   | (sv'', Inr (Some _)) \<Rightarrow> (sv'', cs', Inl ServiceUnsettled)
                   | (sv'', Inr None) \<Rightarrow>
                       (sv'', cs',
                        case answer of
                          Inl e \<Rightarrow> Inl (ServiceUpstream e)
                        | Inr data \<Rightarrow>
                            if pb_usage pb data = None then Inl (ServiceUpstream (RegUpstream (GUpstream ''upstream_response_invalid'' 200 [] None)))
                            else Inr data)))))"

section \<open>Answers\<close>

datatype public_answer =
    PubError nat string
  | PubModels "string list"
  | PubChat string
  | PubResponse string string Usage
  | PubChatStream "chat_write list"
  | PubResponseStream "response_event list"

definition refused :: "refusal \<Rightarrow> public_answer" where
  "refused e = PubError (fst e) (snd e)"

definition answer_status :: "public_answer \<Rightarrow> nat" where
  "answer_status a = (case a of PubError status _ \<Rightarrow> status | _ \<Rightarrow> 200)"

definition public_models :: "public_env \<Rightarrow> http_request \<Rightarrow> Service \<Rightarrow> public_answer" where
  "public_models pb r sv =
     (if hr_method r \<noteq> ''GET'' then PubError 405 ''method_not_allowed''
      else if bearer r = [] \<and> appIdentifier r = [] then PubError 401 ''invalid_api_key''
      else (case Models (pb_ev pb) (bearer r) (appIdentifier r) (sv_db sv) of
              Inl e \<Rightarrow> refused (writeServiceError (ServiceRelay e)) | Inr models \<Rightarrow> PubModels (map m_public_name models)))"

definition chatCompletions :: "public_env \<Rightarrow> http_request \<Rightarrow> Service \<Rightarrow> clients \<Rightarrow> Service \<times> clients \<times> public_answer" where
  "chatCompletions pb r sv cs =
     (case bind_result (public_body (pb_full pb) r) (\<lambda>payload. bind_result (chat_request (pb_marshal pb) r payload) (\<lambda>req. Inr (req, payload))) of
        Inl e \<Rightarrow> (sv, cs, refused e)
      | Inr (req, payload) \<Rightarrow>
          if rq_Stream req then
            (case pb_attempts pb of (a1, a2, a3) \<Rightarrow>
               (case stream (pb_ev pb) (pb_settings pb) (pb_drained pb) a1 a2 a3 (pb_chunk pb) (pb_stream pb) req sv of
                  (sv', Inl e) \<Rightarrow> (sv', cs, refused (writeServiceError (ServiceRelay e)))
                | (sv', Inr (writes, _)) \<Rightarrow> (sv', cs, PubChatStream writes)))
          else
            (case service_chat pb (session_id r) req payload sv cs of
               (sv', cs', Inl e) \<Rightarrow> (sv', cs', refused (writeServiceError e))
             | (sv', cs', Inr data) \<Rightarrow> (sv', cs', PubChat data)))"

definition writeResponsesResult :: "public_env \<Rightarrow> string \<Rightarrow> string \<Rightarrow> public_answer" where
  "writeResponsesResult pb model data =
     (case (pb_usage pb data, pb_result pb data) of
        (Some usage, Some content) \<Rightarrow> PubResponse model content usage
      | _ \<Rightarrow> PubError 502 ''upstream_response_invalid'')"

definition responsesAPI :: "public_env \<Rightarrow> http_request \<Rightarrow> Service \<Rightarrow> clients \<Rightarrow> Service \<times> clients \<times> public_answer" where
  "responsesAPI pb r sv cs =
     (case bind_result (public_body (pb_full pb) r) (responses_request (pb_marshal pb) r) of
        Inl e \<Rightarrow> (sv, cs, refused e)
      | Inr (req, payload) \<Rightarrow>
          if rq_Stream req then
            (case pb_attempts pb of (a1, a2, a3) \<Rightarrow>
               (case responsesStream (pb_ev pb) (pb_settings pb) (pb_drained pb) a1 a2 a3 (pb_delta pb) (pb_stream pb) req sv of
                  (sv', Inl e) \<Rightarrow> (sv', cs, refused (writeServiceError (ServiceRelay e)))
                | (sv', Inr (events, _)) \<Rightarrow> (sv', cs, PubResponseStream events)))
          else
            (case service_chat pb (session_id r) req payload sv cs of
               (sv', cs', Inl e) \<Rightarrow> (sv', cs', refused (writeServiceError e))
             | (sv', cs', Inr data) \<Rightarrow> (sv', cs', writeResponsesResult pb (rq_Model req) data)))"

definition PublicServeHTTP :: "public_env \<Rightarrow> http_request \<Rightarrow> Service \<Rightarrow> clients \<Rightarrow> Service \<times> clients \<times> public_answer" where
  "PublicServeHTTP pb r sv cs =
     (case public_endpoint (hr_path r) of
        EModels \<Rightarrow> (sv, cs, public_models pb r sv)
      | EChat \<Rightarrow> chatCompletions pb r sv cs
      | EResponses \<Rightarrow> responsesAPI pb r sv cs
      | EUnknown \<Rightarrow> (sv, cs, PubError 404 ''not_found''))"

end
