(* ===== verification/Public_Claims.thy ===== *)
theory Public_Claims
  imports Public_Api Service_Claims Registry_Claims Closing
begin

text \<open>
  Properties of the public interface: a Responses request is admitted and reserved as the chat request
  with its messages, its conversation is lost on the way to a native upstream, a refusal costs nothing,
  and an answer has been paid for.
\<close>

section \<open>A sample deployment\<close>

text \<open>An upstream that answers every call with the same document, and a request with the sample key.\<close>

definition sample_public :: public_env where
  "sample_public = \<lparr>pb_ev = sample_env, pb_settings = sample_settings, pb_drained = False, pb_attempts = (FaultBefore 5, FaultAfter 3 6, Clean 4),
     pb_lookup = sample_lookup, pb_transport = sample_transport, pb_marshal = (\<lambda>_. [104, 105]),
     pb_usage = (\<lambda>_. Some \<lparr>PromptTokens = 5, CompletionTokens = 7, TotalTokens = 12, CachedTokens = 2\<rparr>),
     pb_result = (\<lambda>_. Some ''hello''),
     pb_full = False, pb_stream = \<lparr>sw_greeted = True, sw_ticks = [], sw_upstream = Inl GCanceled, sw_writes = [], sw_ctx = CtxLive\<rparr>,
     pb_chunk = (\<lambda>_. None), pb_delta = (\<lambda>_. None)\<rparr>"

definition public_call :: "string \<Rightarrow> gmap \<Rightarrow> http_request" where
  "public_call path body =
     \<lparr>hr_method = ''POST'', hr_path = path, hr_header = (\<lambda>h. if h = ''Authorization'' then ''Bearer crk_YWJj'' else []), hr_query = (\<lambda>_. []),
      hr_host = ''relay'', hr_tls = False, hr_body = Some (VMap body), hr_package = Inr None\<rparr>"

definition hello_body :: gmap where
  "hello_body = [(''model'', VString ''gpt''), (''input'', VString ''hello'')]"

section \<open>A Responses request is a chat request\<close>

lemma header_get_Cons: "get ((j, v) # m) k = (if k = j then v else get m k)" "get [] k = VNil"
  by (simp_all add: get_def)

lemma get_fold_sampling:
  "k \<notin> set ks \<Longrightarrow> get (fold (\<lambda>k p. if has_key body k then put k (get body k) p else p) ks p) k = get p k"
  by (induction ks arbitrary: p) auto

lemma responses_payload_get:
  assumes "k \<notin> set sampling_keys"
  shows "get (responses_payload body ms) k =
    (if k = ''max_tokens'' \<and> intValue (get body ''max_output_tokens'') > 0 then VInt (intValue (get body ''max_output_tokens''))
     else if k = ''model'' then VString (stringValue (get body ''model'')) else if k = ''messages'' then VMaps ms
     else if k = ''stream'' then VBool (boolValue (get body ''stream'')) else VNil)"
proof -
  let ?p = "[(''model'', VString (stringValue (get body ''model''))), (''messages'', VMaps ms), (''stream'', VBool (boolValue (get body ''stream'')))]"
  have "get (responses_payload body ms) k = (if intValue (get body ''max_output_tokens'') > 0 \<and> k = ''max_tokens''
      then VInt (intValue (get body ''max_output_tokens'')) else get ?p k)"
    by (simp only: responses_payload_def Let_def if_distrib[of "\<lambda>m. get m k"] get_put get_fold_sampling[OF assms]) simp
  then show ?thesis by (simp add: header_get_Cons)
qed

lemma payload_texts_put:
  assumes "marshal v = marshal w" "\<not> is_nil v" "\<not> is_nil w" "map_of m k = Some w"
  shows "payload_texts marshal (put k v m) = payload_texts marshal m"
  using assms(4)
proof (induction m)
  case (Cons p m)
  with assms(1-3) show ?case by (cases p) (auto simp: payload_texts_def put_def)
qed simp

lemma responses_request_Inr:
  assumes "responses_request marshal r body = Inr (req, payload)"
  obtains ms where "ms = responsesInputToMessages (get body ''input'') (stringValue (get body ''instructions''))" "ms \<noteq> []"
    "payload = responses_payload body ms"
    "req = \<lparr>rq_Token = bearer r, rq_AppID = appIdentifier r, rq_Model = stringValue (get body ''model''),
       rq_Messages = map (\<lambda>m. Some (marshal (VMap m))) ms, rq_Payload = payload_texts marshal payload,
       rq_InputText = marshal (VMaps ms), rq_MaxTokens = intValue (get body ''max_output_tokens''),
       rq_MaxCompletionTokens = 0, rq_Stream = boolValue (get body ''stream''), rq_Protocol = ''responses''\<rparr>"
  using assms by (auto simp: responses_request_def Let_def bind_result_Inr)

lemma payload_messages: "map_of (responses_payload body ms) ''messages'' = Some (VMaps ms)"
proof -
  have "get (responses_payload body ms) ''messages'' = VMaps ms"
    by (subst responses_payload_get) (simp_all add: sampling_keys_def)
  then show ?thesis by (auto simp: get_def split: option.splits)
qed

lemma other_keys:
  "''model'' \<notin> set sampling_keys" "''max_tokens'' \<notin> set sampling_keys" "''max_completion_tokens'' \<notin> set sampling_keys"
  "''stream'' \<notin> set sampling_keys" "''messages'' \<notin> set sampling_keys"
  by (simp_all add: sampling_keys_def)

text \<open>The protocol of a request reaches nothing but the lease.\<close>

lemma Begin_protocol:
  "sv_db (fst (Begin ev configured d (req\<lparr>rq_Protocol := p\<rparr>) sv)) = sv_db (fst (Begin ev configured d req sv))"
  "map_sum id le_reservation (snd (Begin ev configured d (req\<lparr>rq_Protocol := p\<rparr>) sv)) = map_sum id le_reservation (snd (Begin ev configured d req sv))"
proof -
  have same: "begin_authorize ev (req\<lparr>rq_Protocol := p\<rparr>) sv = begin_authorize ev req sv"
    "output_budget settings (req\<lparr>rq_Protocol := p\<rparr>) = output_budget settings req"
    "reserve_input ev settings (req\<lparr>rq_Protocol := p\<rparr>) key model out = reserve_input ev settings req key model out" for settings key model out
    by (simp_all add: begin_authorize_def output_budget_def reserve_input_def string_fields_def)
  have "sv_db (fst (begin_reserve ev settings (req\<lparr>rq_Protocol := p\<rparr>) key model out mid)) = sv_db (fst (begin_reserve ev settings req key model out mid)) \<and>
    map_sum id le_reservation (snd (begin_reserve ev settings (req\<lparr>rq_Protocol := p\<rparr>) key model out mid)) =
      map_sum id le_reservation (snd (begin_reserve ev settings req key model out mid))" for settings key model out mid
    by (simp add: begin_reserve_def same Let_def new_lease_def split: sum.split prod.split)
  then show "sv_db (fst (Begin ev configured d (req\<lparr>rq_Protocol := p\<rparr>) sv)) = sv_db (fst (Begin ev configured d req sv))"
    "map_sum id le_reservation (snd (Begin ev configured d (req\<lparr>rq_Protocol := p\<rparr>) sv)) = map_sum id le_reservation (snd (Begin ev configured d req sv))"
    by (simp_all add: Begin_def same split: sum.split prod.split option.split)
qed

text \<open>
  C19: A Responses request costs what the chat request with its messages costs: the chat request that the
  relay builds from it, posted as such with the same credentials, is decoded to the same request but for
  its protocol, is admitted or refused alike, and makes the same reservation in the same database. The
  output limit must not be negative, and an array is encoded as text whatever its Go type.
\<close>

theorem responses_is_chat:
  assumes accepted: "responses_request marshal r body = Inr (req, payload)" and limit: "0 \<le> intValue (get body ''max_output_tokens'')"
    and json: "\<forall>ms. marshal (VMaps ms) = marshal (VList (map VMap ms))"
  shows "\<exists>ms. get payload ''messages'' = VMaps ms \<and> ms \<noteq> [] \<and>
     chat_request marshal r (put ''messages'' (VList (map VMap ms)) payload) = Inr (req\<lparr>rq_Protocol := []\<rparr>) \<and>
     sv_db (fst (Begin ev configured d (req\<lparr>rq_Protocol := []\<rparr>) sv)) = sv_db (fst (Begin ev configured d req sv)) \<and>
     map_sum id le_reservation (snd (Begin ev configured d (req\<lparr>rq_Protocol := []\<rparr>) sv)) = map_sum id le_reservation (snd (Begin ev configured d req sv))"
proof -
  obtain ms where ms: "ms \<noteq> []" and payload: "payload = responses_payload body ms"
    and req: "req = \<lparr>rq_Token = bearer r, rq_AppID = appIdentifier r, rq_Model = stringValue (get body ''model''),
       rq_Messages = map (\<lambda>m. Some (marshal (VMap m))) ms, rq_Payload = payload_texts marshal payload,
       rq_InputText = marshal (VMaps ms), rq_MaxTokens = intValue (get body ''max_output_tokens''),
       rq_MaxCompletionTokens = 0, rq_Stream = boolValue (get body ''stream''), rq_Protocol = ''responses''\<rparr>"
    by (rule responses_request_Inr[OF accepted])
  note g = other_keys[THEN responses_payload_get, of body ms]
  have texts: "payload_texts marshal (put ''messages'' (VList (map VMap ms)) payload) = payload_texts marshal payload"
    by (rule payload_texts_put[of _ _ "VMaps ms"]) (simp_all add: json is_nil_def payload payload_messages)
  have "chat_request marshal r (put ''messages'' (VList (map VMap ms)) payload) = Inr (req\<lparr>rq_Protocol := []\<rparr>)"
    using limit by (simp add: chat_request_def texts req json[rule_format])
      (simp add: payload g bind_result_def reject_when_def is_list_def anySlice_def stringValue_def boolValue_def intValue_def comp_def)
  then show ?thesis using ms g(5) Begin_protocol unfolding payload by (intro exI[of _ ms]) simp
qed

lemma hello_accepted: "\<exists>req payload. responses_request (\<lambda>_. [104, 105]) (public_call ''/v1/responses'' hello_body) hello_body = Inr (req, payload)"
  by (simp add: responses_request_def Let_def bind_result_def reject_when_def has_key_def hello_body_def get_def responsesInputToMessages_def) code_simp

theorem responses_is_chat_witness:
  "\<exists>req ms payload. chat_request (\<lambda>_. [104, 105]) (public_call ''/v1/responses'' hello_body) (put ''messages'' (VList (map VMap ms)) payload) = Inr req \<and>
     ms \<noteq> [] \<and> get payload ''messages'' = VMaps ms"
proof -
  obtain req payload where a: "responses_request (\<lambda>_. [104, 105]) (public_call ''/v1/responses'' hello_body) hello_body = Inr (req, payload)"
    using hello_accepted by blast
  have "0 \<le> intValue (get hello_body ''max_output_tokens'')" by code_simp
  from responses_is_chat[OF a this] show ?thesis by blast
qed

section \<open>Native upstreams\<close>

lemma gemini_tools_get: "k \<noteq> ''toolConfig'' \<Longrightarrow> get (gemini_tool_choice payload out) k = get out k"
  by (auto simp: gemini_tool_choice_def Let_def split: gval.split)

text \<open>
  C20: A Responses request loses its conversation on the way to an Anthropic or Gemini upstream: the
  messages the relay built are a list of maps, which the conversion does not take for a list, so the
  upstream gets none; the id of its session depends on the model alone. An OpenAI upstream gets them.
\<close>

theorem responses_native_empty:
  assumes "responses_request marshal r body = Inr (req, payload)"
  shows "(\<exists>ms. get (forwarded streamed model payload) ''messages'' = VMaps ms \<and> ms \<noteq> []) \<and>
     get (openAIToAnthropic unmarshal (forwarded streamed model payload)) ''messages'' = VList [] \<and>
     get (openAIToGemini order_keys unmarshal_any unmarshal (forwarded streamed model payload)) ''contents'' = VList [] \<and>
     sessionFingerprint (VMap (forwarded streamed model payload)) = m_upstream_name model"
proof -
  obtain ms where ms: "ms \<noteq> []" "payload = responses_payload body ms" by (rule responses_request_Inr[OF assms])
  have g: "get (forwarded streamed model payload) ''messages'' = VMaps ms"
    by (simp add: forwarded_def ms(2) responses_payload_get[OF other_keys(5)])
  have m: "get (forwarded streamed model payload) ''model'' = VString (m_upstream_name model)" by (simp add: forwarded_def)
  have "get (openAIToAnthropic unmarshal (forwarded streamed model payload)) ''messages'' = VList []"
    by (simp add: openAIToAnthropic_def Let_def g anySlice_def)
  moreover have "sessionFingerprint (VMap (forwarded streamed model payload)) = m_upstream_name model"
    by (simp add: sessionFingerprint_def g m anySlice_def as_map_def is_map_def stringValue_def)
  moreover have "get (openAIToGemini order_keys unmarshal_any unmarshal (forwarded streamed model payload)) ''contents'' = VList []"
    using gemini_tools_get[of "''contents''"] by (simp add: openAIToGemini_def Let_def g anySlice_def)
  ultimately show ?thesis using g ms by blast
qed

theorem responses_native_empty_witness:
  "\<exists>payload. get (forwarded False sample_model payload) ''messages'' \<noteq> VMaps [] \<and>
     get (openAIToAnthropic (\<lambda>_. None) (forwarded False sample_model payload)) ''messages'' = VList []"
proof -
  obtain req payload where a: "responses_request (\<lambda>_. [104, 105]) (public_call ''/v1/responses'' hello_body) hello_body = Inr (req, payload)"
    using hello_accepted by blast
  from responses_native_empty[OF a, of False sample_model "\<lambda>_. None" "[]" "\<lambda>_. None"] show ?thesis by (intro exI[of _ payload]) auto
qed

section \<open>Refusals and payments\<close>

text \<open>What a successful \<open>Close\<close> of a new lease records, whatever its attempts met.\<close>

lemma close_records:
  assumes inv: "service_inv sv" and h: "holds_rows sv" and l: "sv_leases sv i = Some l" "\<not> le_settled l" "le_frozen l = None"
    and status: "oc_Status o1 \<noteq> []" and run: "Close ev a1 a2 a3 i o1 sv = (sv', None)"
  shows "\<exists>q now. tbl_find q_id i (db_requests (sv_db sv)) = Some q \<and>
     tbl_find q_id i (db_requests (sv_db sv')) = Some (settle_request now (with_defaults (settlement_of (enrich ev l o1))) q)"
proof -
  let ?s = "settlement_of (enrich ev l o1)"
  have wf: "wf_db (sv_db sv)" using service_invD[OF inv] by blast
  have i: "res_ID (le_reservation l) = i" "\<not> le_released l" using service_invD(8)[OF inv l(1)] l(2) by (simp_all add: lease_ok_def)
  have "held i (sv_db sv)" using h l by (auto simp: holds_rows_def untried_def)
  from held_find[OF wf this] obtain q where q: "tbl_find q_id i (db_requests (sv_db sv)) = Some q" "q_status q = ''reserved''" by blast
  have fr: "freeze o1 l = o1" using l(3) status by (simp add: freeze_def)
  obtain o2 db where c0: "o2 = enrich ev l (freeze o1 l)"
    and c: "settleWithRetry (\<lambda>now. FinishReservation now (res_ID (le_reservation l)) (settlement_of o2)) a1 a2 a3 (sv_db sv) = (db, None)"
    "sv' = close_settled i (l\<lparr>le_frozen := Some o2\<rparr>) db sv"
    using Close_cases[OF run l(1,2)] by metis
  obtain now where fin: "FinishReservation now i ?s (sv_db sv) = Inr db" using settle_db(2)[OF c(1) refl] c0 fr i(1) by auto
  have "sv_db sv' = db" using close_settled_frame(1)[of "l\<lparr>le_frozen := Some o2\<rparr>" i db sv] c(2) i(2) by simp
  moreover have "\<exists>q now. tbl_find q_id i (db_requests (sv_db sv)) = Some q \<and> tbl_find q_id i (db_requests db) = Some (settle_request now (with_defaults ?s) q)"
    using fin
  proof (cases rule: FinishReservation_InrE)
    case (settled o3 q3 kr)
    then have "o3 = with_defaults ?s" using validate_settlement_Inr(1) by blast
    then show ?thesis using settled by (intro exI[of _ q3] exI[of _ now]) (simp add: tbl_find_update)
  qed (use q in simp)
  ultimately show ?thesis by simp
qed

text \<open>
  The price of a model for a group: the catalogue price times the rate of the group in thousandths,
  rounded down. Cached tokens without a price of their own cost what input costs.
\<close>

definition rated :: "ModelGroup \<Rightarrow> int option \<Rightarrow> int option" where
  "rated g price = map_option (\<lambda>p. p * g_rate_milli g div 1000) price"

definition group_price :: "ModelGroup \<Rightarrow> Model \<Rightarrow> Model" where
  "group_price g m = m\<lparr>m_input_price := rated g (m_input_price m), m_output_price := rated g (m_output_price m),
     m_cached_price := rated g (case m_cached_price m of None \<Rightarrow> m_input_price m | Some c \<Rightarrow> Some c)\<rparr>"

text \<open>
  The call with these credentials for this model has been paid for: there is a new request row,
  completed, of the caller's key and the model of that name its group may use, with the usage \<open>u\<close> and
  the price of \<open>u\<close> at that model's price for that group.
\<close>

definition paid :: "environment \<Rightarrow> string \<Rightarrow> string \<Rightarrow> string \<Rightarrow> Service \<Rightarrow> Service \<Rightarrow> Usage \<Rightarrow> bool" where
  "paid ev token app name sv sv' u \<longleftrightarrow> (\<exists>key k g m q.
     authenticate ev token app (sv_db sv) = Inr key \<and> tbl_find k_id (ki_ID key) (db_keys (sv_db sv)) = Some k \<and>
     key_group k (sv_db sv) = Some g \<and> m \<in> set (db_models (sv_db sv)) \<and> authorized_in_group (sv_db sv) g m \<and> m_public_name m = name \<and>
     q_id q \<notin> q_id ` set (db_requests (sv_db sv)) \<and> tbl_find q_id (q_id q) (db_requests (sv_db sv')) = Some q \<and> q_status q = ''completed'' \<and>
     q_key_id q = Some (k_id k) \<and> q_group_id q = g_id g \<and> q_model_id q = Some (m_id m) \<and> q_provider_id q = Some (m_provider_id m) \<and>
     q_input_tokens q = PromptTokens u \<and> q_output_tokens q = CompletionTokens u \<and> q_cached_tokens q = CachedTokens u \<and>
     q_amount q = PriceUsage u (group_price g m))"

lemma Begin_reserved:
  assumes run: "Begin ev configured d req sv = (sm, Inr l)"
  obtains key model inp where "begin_authorize ev req sv = Inr (key, model)"
    "in_KeyID inp = ki_ID key" "in_ModelID inp = m_id model" "in_ProviderID inp = m_provider_id model"
    "ReserveRequest (ev_platform ev) (ev_now ev) (sv_db sv) inp = Inr (sv_db sm, le_reservation l)"
    "le_model l = effective (priceSnapshot (le_reservation l)) model"
  using run
proof (cases rule: Begin_cases)
  case (admitted settings key model out mid)
  have mid: "sv_db mid = sv_db sv"
    using admitted(4) by (auto simp: begin_admit_def with_limit_def Let_def split: if_splits prod.splits)
  obtain db res where res: "ReserveRequest (ev_platform ev) (ev_now ev) (sv_db sv) (reserve_input ev settings req key model out) = Inr (db, res)"
    and l: "sv_db sm = db" "l = new_lease ev req key model res"
    using admitted(5) mid by (cases "ReserveRequest (ev_platform ev) (ev_now ev) (sv_db sv) (reserve_input ev settings req key model out)")
      (auto simp: begin_reserve_def Let_def)
  show thesis
    by (rule that[OF admitted(1), of "reserve_input ev settings req key model out"]) (use res l in \<open>simp_all add: new_lease_def reserve_input_def\<close>)
qed simp_all

text \<open>The row a reservation writes, and the price its lease is settled with.\<close>

lemma reserved_row:
  assumes wf: "wf_db db" and run: "ReserveRequest plat now db inp = Inr (db', res)"
  obtains k g m row where "tbl_find k_id (in_KeyID inp) (db_keys db) = Some k" "key_group k db = Some g"
    "tbl_find m_id (in_ModelID inp) (db_models db) = Some m" "authorized_in_group db g m"
    "tbl_find q_id (res_ID res) (db_requests db') = Some row" "q_key_id row = Some (in_KeyID inp)" "q_group_id row = g_id g"
    "q_model_id row = Some (in_ModelID inp)" "q_provider_id row = Some (in_ProviderID inp)" "q_id row = res_ID res"
    "effective (priceSnapshot res) m = group_price g m"
  using run
proof (rule ReserveRequest_InrE)
  fix plan k g q amount
  assume st: "reserve_key db inp = Inr (k, Some g)" "find_quote db (in_ModelID inp) g = Inr q" "reserve_amount_for q plan = Inr amount"
    and ins: "reserve_insert db inp plan q (g_id g) amount = Inr (db', res)"
  note r = reserve_insert_Inr[OF ins] and kg = reserve_key_Inr[OF st(1)]
  obtain m where m: "tbl_find m_id (in_ModelID inp) (db_models db) = Some m" "authorized_in_group db g m"
    and q: "pq_input q = coalesce0 (m_input_price m)" "pq_output q = coalesce0 (m_output_price m)" "pq_rate q = g_rate_milli g"
      "pq_cached q = (case m_cached_price m of None \<Rightarrow> coalesce0 (m_input_price m) | Some c \<Rightarrow> c)"
    using st(2) by (auto simp: find_quote_def bind_result_Inr split: if_splits)
  obtain i out c where pr: "priceWithRate (pq_input q) (pq_rate q) = Inr i" "priceWithRate (pq_output q) (pq_rate q) = Inr out"
    "priceWithRate (pq_cached q) (pq_rate q) = Inr c"
    using st(3) by (auto simp: reserve_amount_for_def bind_result_Inr)
  have known: "m_input_price m = Some (pq_input q)" "m_output_price m = Some (pq_output q)"
    using m(2) q by (auto simp: authorized_in_group_def coalesce0_def)
  have price: "effective (priceSnapshot res) m = group_price g m"
    using applyRate_priceWithRate[OF pr(1)] applyRate_priceWithRate[OF pr(2)] applyRate_priceWithRate[OF pr(3)]
      priceWithRate_Inr(1)[OF pr(1)] priceWithRate_Inr(1)[OF pr(2)] priceWithRate_Inr(1)[OF pr(3)]
    by (simp add: effective_def priceSnapshot_def group_price_def rated_def r(11-14) known q(3,4) coalesce0_def split: option.splits)
  define row where "row = (new_request_row inp plan q (g_id g) amount)\<lparr>q_id := tbl_next q_id (db_requests db)\<rparr>"
  have rows: "db_requests db' = db_requests db @ [row]" by (simp add: r(1) insert_request_def tbl_insert_def row_def)
  have "tbl_wf q_id (db_requests db')" using ReserveRequest_wf[OF wf run] by (rule wf_dbD)
  from tbl_find_iff[OF this] have found: "tbl_find q_id (res_ID res) (db_requests db') = Some row" by (simp add: rows r(2) row_def)
  show thesis using kg m r(2) found price by (intro that[of k g m row]) (simp_all add: row_def new_request_row_def)
qed

lemma chat_paid:
  assumes reach: "relay_reachable sv" and chat: "Chat ev configured d a1 a2 a3 (ChatReply u) req sv = (sv', Inr None)"
  shows "paid ev (rq_Token req) (rq_AppID req) (rq_Model req) sv sv' u"
proof -
  note inv = relay_reachable_inv[OF reach] and h = relay_reachable_holds[OF reach]
  obtain sm l where begun: "Begin ev configured d (req\<lparr>rq_Stream := False\<rparr>) sv = (sm, Inr l)"
    and run: "Close ev a1 a2 a3 (res_ID (le_reservation l)) (chat_outcome (ChatReply u) l)
      (sm\<lparr>sv_upstream := setUpstream (res_ID (le_reservation l)) (sv_upstream sm)\<rparr>) = (sv', None)"
    using chat by (auto simp: Chat_def Let_def split: prod.splits sum.splits)
  let ?i = "res_ID (le_reservation l)" and ?s = "sm\<lparr>sv_upstream := setUpstream (res_ID (le_reservation l)) (sv_upstream sm)\<rparr>"
  note b = Begin_lease[OF begun] and wf = service_invD(1)[OF inv]
  have inv1: "service_inv ?s" by (rule track_keeps_inv[OF Begin_keeps_inv[OF inv begun]])
  have h1: "holds_rows ?s" using Begin_holds[OF inv h begun] by (simp add: holds_rows_def untried_def)
  have fresh: "?i \<notin> q_id ` set (db_requests (sv_db sv))" by (rule Begin_success[OF inv begun]) simp
  have l: "sv_leases ?s ?i = Some l" using b(1) by simp
  have "oc_Status (chat_outcome (ChatReply u) l) \<noteq> []" by (simp add: chat_outcome_def)
  from close_records[OF inv1 h1 l b(2,4) this run] obtain q now where
    q0: "tbl_find q_id ?i (db_requests (sv_db sm)) = Some q"
    and q: "tbl_find q_id ?i (db_requests (sv_db sv')) = Some (settle_request now (with_defaults (settlement_of (enrich ev l (chat_outcome (ChatReply u) l)))) q)"
    by auto
  obtain key model inp where auth: "begin_authorize ev (req\<lparr>rq_Stream := False\<rparr>) sv = Inr (key, model)"
    and inp: "in_KeyID inp = ki_ID key" "in_ModelID inp = m_id model" "in_ProviderID inp = m_provider_id model"
    and res: "ReserveRequest (ev_platform ev) (ev_now ev) (sv_db sv) inp = Inr (sv_db sm, le_reservation l)"
    and priced: "le_model l = effective (priceSnapshot (le_reservation l)) model"
    by (rule Begin_reserved[OF begun])
  obtain k g m row where row: "tbl_find k_id (in_KeyID inp) (db_keys (sv_db sv)) = Some k" "key_group k (sv_db sv) = Some g"
    "tbl_find m_id (in_ModelID inp) (db_models (sv_db sv)) = Some m" "authorized_in_group (sv_db sv) g m"
    "tbl_find q_id ?i (db_requests (sv_db sm)) = Some row" "q_key_id row = Some (in_KeyID inp)" "q_group_id row = g_id g"
    "q_model_id row = Some (in_ModelID inp)" "q_provider_id row = Some (in_ProviderID inp)" "q_id row = ?i"
    "effective (priceSnapshot (le_reservation l)) m = group_price g m"
    by (rule reserved_row[OF wf res])
  note a = begin_authorize_Inr[OF auth]
  have "model \<in> set (db_models (sv_db sv))" using authorized_by_key[OF wf row(1)[unfolded inp]] a(4) by blast
  then have "tbl_find m_id (in_ModelID inp) (db_models (sv_db sv)) = Some model" using tbl_find_iff[OF wf_dbD(5)[OF wf]] inp(2) by simp
  then have m: "m = model" using row(3) by simp
  have k: "k_id k = ki_ID key" using tbl_find_Some[OF row(1)] inp(1) by simp
  have amount: "PriceUsage u (le_model l) = PriceUsage u (group_price g m)" using priced row(11) m by simp
  have same: "q = row" using q0 row(5) by simp
  define paid_row where "paid_row = settle_request now (with_defaults (settlement_of (enrich ev l (chat_outcome (ChatReply u) l)))) q"
  have cols: "q_id paid_row = ?i" "q_status paid_row = ''completed''" "q_key_id paid_row = Some (k_id k)" "q_group_id paid_row = g_id g"
    "q_model_id paid_row = Some (m_id m)" "q_provider_id paid_row = Some (m_provider_id m)" "q_input_tokens paid_row = PromptTokens u"
    "q_output_tokens paid_row = CompletionTokens u" "q_cached_tokens paid_row = CachedTokens u" "q_amount paid_row = PriceUsage u (group_price g m)"
    using row(6-10) inp same k m amount
    by (simp_all add: paid_row_def settle_request_def with_defaults_def settlement_of_def chat_outcome_def blank_outcome_def)
  show ?thesis unfolding paid_def
    by (rule exI[of _ key], rule exI[of _ k], rule exI[of _ g], rule exI[of _ m], rule exI[of _ paid_row])
      (use a(3,5) row(1,2,4) tbl_find_Some[OF row(3)] inp fresh q[folded paid_row_def] cols m in simp)
qed

lemma service_chat_cases:
  assumes "service_chat pb sid req payload sv cs = (sv', cs', res)"
  shows "(\<forall>e. res = Inl (ServiceRelay e) \<longrightarrow> cs' = cs \<and>
        (\<exists>req'. Begin (pb_ev pb) (pb_settings pb) (pb_drained pb) req' sv = (sv', Inl e))) \<and>
     (\<forall>data. res = Inr data \<longrightarrow> (\<exists>u a1 a2 a3. pb_usage pb data = Some u \<and>
        Chat (pb_ev pb) (pb_settings pb) (pb_drained pb) a1 a2 a3 (ChatReply u) req sv = (sv', Inr None)))"
proof (cases "Begin (pb_ev pb) (pb_settings pb) (pb_drained pb) (req\<lparr>rq_Stream := False\<rparr>) sv")
  case (Pair sv1 r)
  show ?thesis
  proof (cases r)
    case (Inl e)
    with assms Pair show ?thesis by (auto simp: service_chat_def)
  next
    case (Inr l)
    have admitted: "Chat (pb_ev pb) (pb_settings pb) (pb_drained pb) a1 a2 a3 reply req sv \<noteq> (s, Inl e)" for a1 a2 a3 reply s e
      by (simp add: Chat_def Pair Inr Let_def split: prod.split)
    have "res \<noteq> Inl (ServiceRelay e)" for e
      using assms admitted by (auto simp: service_chat_def Pair Inr split: prod.splits sum.splits option.splits if_splits)
    moreover have "\<exists>u a1 a2 a3. pb_usage pb data = Some u \<and>
        Chat (pb_ev pb) (pb_settings pb) (pb_drained pb) a1 a2 a3 (ChatReply u) req sv = (sv', Inr None)" if "res = Inr data" for data
      using assms that by (fastforce simp: service_chat_def Pair Inr reply_of_def split: prod.splits sum.splits option.splits if_splits)
    ultimately show ?thesis by blast
  qed
qed

lemma PrepareStream_refused: "PrepareStream ev configured d req sv = (sv', Inl e) \<Longrightarrow> \<exists>req'. Begin ev configured d req' sv = (sv', Inl e)"
  by (auto simp: PrepareStream_def split: prod.splits sum.splits)

definition free_statuses :: "nat set" where
  "free_statuses = {400, 401, 404, 405, 429}"

lemma upstream_status: "fst (writeServiceError (ServiceUpstream e)) \<notin> free_statuses" "fst (writeServiceError ServiceUnsettled) \<notin> free_statuses"
  by (auto simp: writeServiceError_def free_statuses_def split: registry_error.split option.split)

lemma service_chat_free:
  assumes reach: "relay_reachable sv" and run: "service_chat pb sid req payload sv cs = (sv', cs', Inl e)"
    and status: "fst (writeServiceError e) \<in> free_statuses"
  shows "cs' = cs \<and> (sv' = sv \<or> sv' = with_limit (pb_settings pb) sv)"
proof (cases e)
  case (ServiceRelay e')
  with service_chat_cases[OF run] obtain req' where "cs' = cs" "Begin (pb_ev pb) (pb_settings pb) (pb_drained pb) req' sv = (sv', Inl e')" by blast
  with Begin_failure[OF relay_reachable_inv[OF reach]] show ?thesis by blast
qed (use status upstream_status in auto)

lemma stream_free:
  assumes "relay_reachable sv"
  shows "stream ev configured d a1 a2 a3 dec w req sv = (sv', Inl e) \<Longrightarrow> sv' = sv \<or> sv' = with_limit configured sv"
    "responsesStream ev configured d a1 a2 a3 dec' w req sv = (sv', Inl e) \<Longrightarrow> sv' = sv \<or> sv' = with_limit configured sv"
proof -
  have free: "sv' = sv \<or> sv' = with_limit configured sv" if "PrepareStream ev configured d req sv = (sv', Inl e)"
    using PrepareStream_refused[OF that] Begin_failure[OF relay_reachable_inv[OF assms]] by blast
  show "stream ev configured d a1 a2 a3 dec w req sv = (sv', Inl e) \<Longrightarrow> sv' = sv \<or> sv' = with_limit configured sv"
    by (rule free) (auto simp: stream_def Let_def split: prod.splits sum.splits)
  show "responsesStream ev configured d a1 a2 a3 dec' w req sv = (sv', Inl e) \<Longrightarrow> sv' = sv \<or> sv' = with_limit configured sv"
    by (rule free) (auto simp: responsesStream_def Let_def split: prod.splits sum.splits)
qed

lemma refused_status [simp]: "answer_status (refused e) = fst e" "answer_status (PubError n c) = n"
  by (simp_all add: refused_def answer_status_def)

lemma answer_ok_status: "answer_status (PubChat d) \<notin> free_statuses" "answer_status (PubChatStream w) \<notin> free_statuses"
    "answer_status (PubResponseStream es) \<notin> free_statuses" "answer_status (writeResponsesResult pb m d) \<notin> free_statuses"
  by (auto simp: answer_status_def writeResponsesResult_def free_statuses_def split: option.split)

lemma chat_free:
  assumes reach: "relay_reachable sv" and run: "chatCompletions pb r sv cs = (sv', cs', a)" and status: "answer_status a \<in> free_statuses"
  shows "cs' = cs \<and> (sv' = sv \<or> sv' = with_limit (pb_settings pb) sv)"
proof (cases "bind_result (public_body (pb_full pb) r) (\<lambda>payload. bind_result (chat_request (pb_marshal pb) r payload) (\<lambda>req. Inr (req, payload)))")
  case (Inr p)
  obtain req payload a1 a2 a3 where p: "p = (req, payload)" "pb_attempts pb = (a1, a2, a3)" by (metis prod.collapse)
  show ?thesis
  proof (cases "rq_Stream req")
    case True
    then show ?thesis using run status answer_ok_status
      by (auto simp: chatCompletions_def Inr p dest!: stream_free[OF reach] split: prod.splits sum.splits)
  next
    case False
    then show ?thesis using run status answer_ok_status
      by (auto simp: chatCompletions_def Inr p dest: service_chat_free[OF reach] split: prod.splits sum.splits)
  qed
qed (use run in \<open>simp add: chatCompletions_def\<close>)

lemma responses_free:
  assumes reach: "relay_reachable sv" and run: "responsesAPI pb r sv cs = (sv', cs', a)" and status: "answer_status a \<in> free_statuses"
  shows "cs' = cs \<and> (sv' = sv \<or> sv' = with_limit (pb_settings pb) sv)"
proof (cases "bind_result (public_body (pb_full pb) r) (responses_request (pb_marshal pb) r)")
  case (Inr p)
  obtain req payload a1 a2 a3 where p: "p = (req, payload)" "pb_attempts pb = (a1, a2, a3)" by (metis prod.collapse)
  show ?thesis
  proof (cases "rq_Stream req")
    case True
    then show ?thesis using run status answer_ok_status
      by (auto simp: responsesAPI_def Inr p dest!: stream_free[OF reach] split: prod.splits sum.splits)
  next
    case False
    then show ?thesis using run status answer_ok_status
      by (auto simp: responsesAPI_def Inr p dest: service_chat_free[OF reach] split: prod.splits sum.splits)
  qed
qed (use run in \<open>simp add: responsesAPI_def\<close>)

text \<open>The model a request asks for.\<close>

definition asked_model :: "http_request \<Rightarrow> string" where
  "asked_model r = (case read_object (hr_body r) of None \<Rightarrow> [] | Some body \<Rightarrow> stringValue (get body ''model''))"

lemma public_body_Inr: "public_body full r = Inr body \<Longrightarrow> read_object (hr_body r) = Some body"
  by (auto simp: public_body_def bind_result_Inr)

lemma chat_answer_paid:
  assumes "relay_reachable sv" "chatCompletions pb r sv cs = (sv', cs', PubChat data)"
  shows "\<exists>u. pb_usage pb data = Some u \<and> paid (pb_ev pb) (bearer r) (appIdentifier r) (asked_model r) sv sv' u"
proof -
  obtain sid req payload cs'' where run: "service_chat pb sid req payload sv cs = (sv', cs'', Inr data)"
    and body: "public_body (pb_full pb) r = Inr payload" and req: "chat_request (pb_marshal pb) r payload = Inr req"
    using assms(2) by (auto simp: chatCompletions_def refused_def bind_result_Inr split: prod.splits sum.splits if_splits)
  have "rq_Token req = bearer r" "rq_AppID req = appIdentifier r" "rq_Model req = asked_model r"
    using req public_body_Inr[OF body] by (auto simp: chat_request_def bind_result_Inr asked_model_def)
  moreover from service_chat_cases[OF run] obtain u a1 a2 a3 where "pb_usage pb data = Some u"
      "Chat (pb_ev pb) (pb_settings pb) (pb_drained pb) a1 a2 a3 (ChatReply u) req sv = (sv', Inr None)" by blast
  ultimately show ?thesis using chat_paid[OF assms(1)] by fastforce
qed

lemma responses_answer_paid:
  assumes "relay_reachable sv" "responsesAPI pb r sv cs = (sv', cs', PubResponse model content usage)"
  shows "model = asked_model r \<and> paid (pb_ev pb) (bearer r) (appIdentifier r) (asked_model r) sv sv' usage"
proof -
  obtain sid req payload cs'' data body where run: "service_chat pb sid req payload sv cs = (sv', cs'', Inr data)"
    and shown: "writeResponsesResult pb (rq_Model req) data = PubResponse model content usage"
    and body: "public_body (pb_full pb) r = Inr body" and req: "responses_request (pb_marshal pb) r body = Inr (req, payload)"
    using assms(2) by (auto simp: responsesAPI_def refused_def bind_result_Inr split: prod.splits sum.splits if_splits)
  have r: "rq_Token req = bearer r" "rq_AppID req = appIdentifier r" "rq_Model req = asked_model r"
    using req public_body_Inr[OF body] by (auto simp: responses_request_def Let_def bind_result_Inr asked_model_def)
  have "pb_usage pb data = Some usage" "model = rq_Model req" using shown by (auto simp: writeResponsesResult_def split: option.splits)
  moreover from service_chat_cases[OF run] obtain u a1 a2 a3 where "pb_usage pb data = Some u"
      "Chat (pb_ev pb) (pb_settings pb) (pb_drained pb) a1 a2 a3 (ChatReply u) req sv = (sv', Inr None)" by blast
  ultimately show ?thesis using chat_paid[OF assms(1)] r by fastforce
qed

text \<open>
  C3: A refusal costs nothing and an answer is paid for, at its price. A public request that is answered
  with 400, 401, 404, 405 or 429 leaves the database, the leases, the gates' holders and the cache of
  clients as they were (only the limit of the global gate follows the settings). A plain chat or
  Responses request that is answered with a result has a new completed request row of the caller's key
  and the model that was asked for, one its group may use, with the usage of the answer (for a
  Responses request the very usage the client is shown) and the amount that usage costs at the price of
  that model times the rate of that group.
\<close>

theorem public_answers_accounted:
  assumes reach: "relay_reachable sv" and run: "PublicServeHTTP pb r sv cs = (sv', cs', a)"
  shows "(answer_status a \<in> {400, 401, 404, 405, 429} \<longrightarrow> cs' = cs \<and> (sv' = sv \<or> sv' = with_limit (pb_settings pb) sv)) \<and>
     (\<forall>data. a = PubChat data \<longrightarrow> (\<exists>u. pb_usage pb data = Some u \<and> paid (pb_ev pb) (bearer r) (appIdentifier r) (asked_model r) sv sv' u)) \<and>
     (\<forall>model content usage. a = PubResponse model content usage \<longrightarrow>
        model = asked_model r \<and> paid (pb_ev pb) (bearer r) (appIdentifier r) (asked_model r) sv sv' usage)"
proof (cases "public_endpoint (hr_path r)")
  case EModels
  then show ?thesis using run by (auto simp: PublicServeHTTP_def public_models_def refused_def split: sum.splits if_splits)
next
  case EChat
  then have c: "chatCompletions pb r sv cs = (sv', cs', a)" using run by (simp add: PublicServeHTTP_def)
  have "a \<noteq> PubResponse m t u" for m t u
    using c by (auto simp: chatCompletions_def refused_def split: prod.splits sum.splits if_splits)
  then show ?thesis using chat_free[OF reach c] chat_answer_paid[OF reach] c by (auto simp: free_statuses_def)
next
  case EResponses
  then have c: "responsesAPI pb r sv cs = (sv', cs', a)" using run by (simp add: PublicServeHTTP_def)
  have "model = asked_model r \<and> paid (pb_ev pb) (bearer r) (appIdentifier r) (asked_model r) sv sv' usage"
    if "a = PubResponse model content usage" for model content usage
    using responses_answer_paid[OF reach c[unfolded that]] .
  moreover have "a \<noteq> PubChat d" for d
    using c by (auto simp: responsesAPI_def refused_def writeResponsesResult_def split: prod.splits sum.splits if_splits option.splits)
  ultimately show ?thesis using responses_free[OF reach c] unfolding free_statuses_def by blast
next
  case EUnknown
  then show ?thesis using run by (auto simp: PublicServeHTTP_def)
qed

definition hello_chat :: gmap where
  "hello_chat = [(''model'', VString ''gpt''), (''messages'', VList [])]"

definition cached_client :: clients where
  "cached_client = (\<lambda>_. None)(1 \<mapsto> sample_client)"

lemma sample_answer: "Client_ChatJSON (sample_transport\<lparr>tr_session := s\<rparr>) sample_client payload = Inr ''{}''"
proof -
  have "is_openai sample_client" by code_simp
  then show ?thesis
    by (simp add: Client_ChatJSON_def sample_transport_def read_whole_def client_request_def accept_status_def bind_result_def reject_when_def http_status_code_def)
qed

lemma hello_public:
  "\<exists>sv'. PublicServeHTTP sample_public (public_call ''/v1/v1/chat/completions/'' hello_chat) sv0 cached_client = (sv', cached_client, PubChat ''{}'')"
proof -
  let ?r = "public_call ''/v1/v1/chat/completions/'' hello_chat"
  let ?req = "\<lparr>rq_Token = ''crk_YWJj'', rq_AppID = [], rq_Model = ''gpt'', rq_Messages = [],
     rq_Payload = [(''model'', Some [104, 105]), (''messages'', Some [104, 105])], rq_InputText = [104, 105],
     rq_MaxTokens = 0, rq_MaxCompletionTokens = 0, rq_Stream = False, rq_Protocol = []\<rparr>"
  let ?u = "\<lparr>PromptTokens = 5, CompletionTokens = 7, TotalTokens = 12, CachedTokens = 2\<rparr>"
  have same: "?req\<lparr>rq_Stream := False\<rparr> = ?req" by simp
  have route: "public_endpoint (hr_path ?r) = EChat" by code_simp
  have decoded: "bind_result (public_body False ?r) (\<lambda>payload. bind_result (chat_request (\<lambda>_. [104, 105]) ?r payload) (\<lambda>req. Inr (req, payload))) = Inr (?req, hello_chat)"
    by code_simp
  have "(case snd (Begin sample_env sample_settings False ?req sv0) of Inr l \<Rightarrow> m_provider_id (le_model l) = 1 | Inl _ \<Rightarrow> False)" by code_simp
  then obtain sv' l where begun: "Begin sample_env sample_settings False ?req sv0 = (sv', Inr l)" "m_provider_id (le_model l) = 1"
    by (auto split: sum.splits) (metis prod.collapse)
  have up: "upstream_chat sample_public s (le_model l) hello_chat db cached_client = (cached_client, Inr ''{}'')" for s db
    by (simp add: upstream_chat_def begun(2) forProvider_def cached_client_def sample_public_def sample_answer from_upstream_def)
  obtain sv'' res where chat: "Chat sample_env sample_settings False (FaultBefore 5) (FaultAfter 3 6) (Clean 4) (ChatReply ?u) ?req sv0 = (sv'', res)"
    by fastforce
  obtain e where run: "Close sample_env (FaultBefore 5) (FaultAfter 3 6) (Clean 4) (res_ID (le_reservation l)) (chat_outcome (ChatReply ?u) l)
      (sv'\<lparr>sv_upstream := setUpstream (res_ID (le_reservation l)) (sv_upstream sv')\<rparr>) = (sv'', e)" and res: "res = Inr e"
    using chat begun by (auto simp: Chat_def Let_def same split: prod.splits)
  have ok: "outcome_ok (chat_outcome (ChatReply ?u) l)"
    using PriceUsage_range by (simp add: outcome_ok_def chat_outcome_def blank_outcome_def max_i64_def)
  have busy: "tolerable (FaultBefore 5)" "tolerable (FaultAfter 3 6)" by code_simp+
  have "e = None" by (rule begin_close_even(1)[OF relay_reachable_inv[OF reach_sv0] relay_reachable_holds[OF reach_sv0] begun(1) ok busy refl run])
  then have "service_chat sample_public s ?req hello_chat sv0 cached_client = (sv'', cached_client, Inr ''{}'')" for s
    using chat res begun(1) up by (simp add: service_chat_def sample_public_def same reply_of_def)
  then show ?thesis
    using decoded by (simp add: PublicServeHTTP_def route chatCompletions_def) (simp add: sample_public_def)
qed

theorem public_answers_accounted_witness:
  "\<exists>sv' cs'. PublicServeHTTP sample_public (public_call ''/v1/v1/chat/completions/'' hello_chat) sv0 cached_client = (sv', cs', PubChat ''{}'') \<and>
     paid sample_env ''crk_YWJj'' [] ''gpt'' sv0 sv' \<lparr>PromptTokens = 5, CompletionTokens = 7, TotalTokens = 12, CachedTokens = 2\<rparr>"
proof -
  obtain sv' where run: "PublicServeHTTP sample_public (public_call ''/v1/v1/chat/completions/'' hello_chat) sv0 cached_client = (sv', cached_client, PubChat ''{}'')"
    using hello_public by blast
  have call: "bearer (public_call ''/v1/v1/chat/completions/'' hello_chat) = ''crk_YWJj''"
    "appIdentifier (public_call ''/v1/v1/chat/completions/'' hello_chat) = []"
    "asked_model (public_call ''/v1/v1/chat/completions/'' hello_chat) = ''gpt''" by code_simp+
  from public_answers_accounted[OF reach_sv0 run] run show ?thesis unfolding call by (auto simp: sample_public_def)
qed

text \<open>
  The answer to a Responses request is decoded a second time, after the settlement: one whose usage can
  be read but whose content cannot is paid for and answered with 502.
\<close>

lemma unreadable_result_paid:
  assumes "relay_reachable sv" "service_chat pb sid req payload sv cs = (sv', cs', Inr data)" "pb_result pb data = None"
  shows "writeResponsesResult pb (rq_Model req) data = PubError 502 ''upstream_response_invalid'' \<and>
     (\<exists>u. pb_usage pb data = Some u \<and> paid (pb_ev pb) (rq_Token req) (rq_AppID req) (rq_Model req) sv sv' u)"
  using assms service_chat_cases[OF assms(2)] chat_paid[OF assms(1)] by (auto simp: writeResponsesResult_def split: option.split)

end
