(* ===== verification/Server.thy ===== *)
theory Server
  imports Public_Api Admin "HOL-Library.Word"
begin

text \<open>
  The front of the HTTP server: the routes of the process with its health probes (httpapi/server.go),
  cross-origin requests (httpapi/cors.go), the trace a request gets (httpapi/requestlog.go), error documents (httpapi/json.go), the access log
  (httpapi/accesslog.go, logging/logging.go), the memory guard (memory/guard.go, memory/rss_linux.go), the
  live settings (config/source.go) and the container's probe (cmd/civic-relay/healthcheck.go). Header
  names are canonical, and letters are compared up to ASCII case.
\<close>

section \<open>Live settings and log levels\<close>

type_synonym source = "Settings option"

text \<open>\<open>None\<close> is the nil source, which answers zero settings.\<close>

definition Source_Get :: "Settings \<Rightarrow> source \<Rightarrow> Settings" where
  "Source_Get zero src = (case src of None \<Rightarrow> zero | Some s \<Rightarrow> s)"

definition Source_Set :: "Settings \<Rightarrow> source \<Rightarrow> source" where
  "Source_Set s src = (case src of None \<Rightarrow> None | Some _ \<Rightarrow> Some s)"

fun verbosity :: "Level \<Rightarrow> nat" where
  "verbosity LevelError = 0"
| "verbosity LevelWarn = 1"
| "verbosity LevelInfo = 2"
| "verbosity LevelDebug = 3"

definition Enabled :: "Level \<Rightarrow> Level \<Rightarrow> bool" where
  "Enabled current level \<longleftrightarrow> verbosity level \<le> verbosity current"

fun Tag :: "Level \<Rightarrow> string" where
  "Tag LevelDebug = ''DEBUG''"
| "Tag LevelInfo = ''INFO''"
| "Tag LevelWarn = ''WARN''"
| "Tag LevelError = ''ERROR''"

definition Configure :: "string \<Rightarrow> Level" where
  "Configure name = (case ParseLevel name of None \<Rightarrow> LevelInfo | Some l \<Rightarrow> l)"

text \<open>What a log call writes, if anything.\<close>

definition logAt :: "Level \<Rightarrow> Level \<Rightarrow> string \<Rightarrow> string option" where
  "logAt current level msg = (if Enabled current level then Some (Tag level @ CHR '' '' # msg) else None)"

section \<open>The memory guard\<close>

text \<open>A reader answers \<open>None\<close> for an error, of whatever kind.\<close>

record Guard =
  gd_limit :: "64 word"
  gd_read :: "64 word option option"

definition NewGuard :: "int \<Rightarrow> 64 word option option \<Rightarrow> Guard" where
  "NewGuard limitMB read =
     (let limitMB = (if limitMB < 1 then 1 else limitMB)
      in \<lparr>gd_limit = word_of_int limitMB * 1024 * 1024, gd_read = read\<rparr>)"

definition Guard_check :: "Guard \<Rightarrow> bool" where
  "Guard_check g = (case gd_read g of None \<Rightarrow> True | Some None \<Rightarrow> True | Some (Some rss) \<Rightarrow> \<not> gd_limit g < rss)"

text \<open>\<open>strconv.ParseUint(_, 10, 64)\<close>, and the resident size from \<open>/proc/self/statm\<close>; \<open>line\<close> is its first line.\<close>

definition ParseUint :: "string \<Rightarrow> 64 word option" where
  "ParseUint s = (if s = [] \<or> \<not> list_all is_digit s \<or> 2 ^ 64 \<le> dec_value s then None else Some (word_of_int (dec_value s)))"

definition RSS :: "64 word \<Rightarrow> string option \<Rightarrow> 64 word option" where
  "RSS pagesize line =
     (case line of None \<Rightarrow> None
      | Some text \<Rightarrow>
          (case Go_Text.fields text of _ # pages # _ \<Rightarrow> map_option (\<lambda>n. n * pagesize) (ParseUint pages) | _ \<Rightarrow> None))"

section \<open>Cross-origin requests\<close>

type_synonym header_list = "(string \<times> string) list"

definition equal_fold :: "string \<Rightarrow> string \<Rightarrow> bool" where
  "equal_fold a b \<longleftrightarrow> to_lower a = to_lower b"

definition allowOriginValue :: "string \<Rightarrow> string \<Rightarrow> string" where
  "allowOriginValue policy origin =
     (if policy = ''*'' then ''*''
      else if origin = [] then []
      else if list_ex (\<lambda>allowed. equal_fold (trim_space allowed) origin) (split_on (CHR '','') policy) then origin else [])"

definition isPreflight :: "http_request \<Rightarrow> bool" where
  "isPreflight r \<longleftrightarrow> hr_method r = ''OPTIONS'' \<and> hr_header r ''Access-Control-Request-Method'' \<noteq> []"

datatype cors_verdict = CorsAnswer nat header_list | CorsPass header_list

definition acao :: string where
  "acao = ''Access-Control-Allow-Origin''"

definition withCORS :: "string option \<Rightarrow> http_request \<Rightarrow> cors_verdict" where
  "withCORS configured r =
     (let policy = (case configured of None \<Rightarrow> ''*'' | Some p \<Rightarrow> p) in
      if equal_fold policy ''off'' then CorsPass []
      else
        let allowValue = allowOriginValue policy (hr_header r ''Origin'') in
        if isPreflight r then
          (if allowValue = [] then CorsPass []
           else
             let requested = trim_space (hr_header r ''Access-Control-Request-Headers'') in
             CorsAnswer 204
               [(acao, allowValue), (''Access-Control-Allow-Methods'', ''GET, POST, PUT, PATCH, DELETE, OPTIONS''),
                (''Access-Control-Allow-Headers'',
                 if requested \<noteq> [] then requested else ''Authorization, Content-Type, X-Admin-Key, X-App-Id, X-Opencode-Session''),
                (''Access-Control-Max-Age'', ''600'')])
        else CorsPass ((if allowValue \<noteq> [] then [(acao, allowValue)] else []) @ (if policy \<noteq> ''*'' then [(''Vary'', ''Origin'')] else [])))"

section \<open>Traces\<close>

definition protocolForPath :: "string \<Rightarrow> string" where
  "protocolForPath path = (if has_suffix (trim_suffix path ''/'') ''/responses'' then ''responses'' else ''chat'')"

text \<open>The trace of the request and the identifier its answer carries; \<open>carried\<close> is one already in the context.\<close>

definition ensureRequestTrace :: "string \<Rightarrow> gotime \<Rightarrow> Trace option \<Rightarrow> http_request \<Rightarrow> Trace \<times> header_list" where
  "ensureRequestTrace newID now carried r =
     (case carried of
        Some t \<Rightarrow> (t, [(''X-Request-Id'', tr_ID t)])
      | None \<Rightarrow>
          let clientID = hr_header r ''X-Client-Request-Id'';
              clientID = (if clientID = [] then hr_header r ''X-Request-Id'' else clientID);
              t = NewTrace newID now [] clientID (protocolForPath (hr_path r)) now
          in (t, [(''X-Request-Id'', tr_ID t)]))"

section \<open>The access log\<close>

text \<open>What a handler does to the writer: a status, or bytes, which send the status 200 when none was sent.\<close>

datatype write_op = WHeader nat | WBytes string | WFlush

record recorder =
  sr_status :: nat
  sr_wrote :: bool

definition new_recorder :: recorder where
  "new_recorder = \<lparr>sr_status = 200, sr_wrote = False\<rparr>"

definition record_op :: "write_op \<Rightarrow> recorder \<Rightarrow> recorder" where
  "record_op w s =
     (case w of
        WHeader code \<Rightarrow> if \<not> sr_wrote s then \<lparr>sr_status = code, sr_wrote = True\<rparr> else s
      | WBytes _ \<Rightarrow> if \<not> sr_wrote s then s\<lparr>sr_wrote := True\<rparr> else s
      | WFlush \<Rightarrow> s)"

record access_line =
  al_method :: string
  al_path :: string
  al_status :: nat
  al_remote :: string
  al_model :: string

text \<open>\<open>split\<close> is \<open>net.SplitHostPort\<close>; the duration of the line is left out.\<close>

definition remoteHost :: "(string \<Rightarrow> string option) \<Rightarrow> string \<Rightarrow> string" where
  "remoteHost split addr = (case split addr of Some host \<Rightarrow> host | None \<Rightarrow> trim_space addr)"

definition withAccessLog :: "Level \<Rightarrow> (string \<Rightarrow> string option) \<Rightarrow> string \<Rightarrow> Trace \<Rightarrow> write_op list \<Rightarrow> http_request \<Rightarrow> access_line option" where
  "withAccessLog current split remote t ops r =
     (if \<not> Enabled current LevelDebug then None
      else Some \<lparr>al_method = hr_method r, al_path = hr_path r, al_status = sr_status (fold record_op ops new_recorder),
                 al_remote = remoteHost split remote, al_model = (if tr_Model t \<noteq> [] then tr_Model t else ''-'')\<rparr>)"

section \<open>Error documents\<close>

text \<open>Every error names its request; \<open>rid\<close> is the identifier the answer carries.\<close>

definition writeJSON :: "string \<Rightarrow> gval \<Rightarrow> gval" where
  "writeJSON rid v =
     (let requestID = trim_space rid in
      if requestID = [] then v
      else
        (case v of
           VMap body \<Rightarrow>
             (case get body ''error'' of
                VMap e \<Rightarrow> if has_key e ''request_id'' then v else VMap (put ''error'' (VMap (put ''request_id'' (VString requestID) e)) body)
              | _ \<Rightarrow> v)
         | _ \<Rightarrow> v))"

definition writeErrorPayload :: "string \<Rightarrow> string \<Rightarrow> string \<Rightarrow> gval" where
  "writeErrorPayload rid code message =
     (let e = [(''message'', VString message), (''type'', VString ''relay_error''), (''code'', VString code)];
          requestID = trim_space rid;
          e = (if requestID \<noteq> [] then put ''request_id'' (VString requestID) e else e)
      in writeJSON rid (VMap [(''error'', VMap e)]))"

definition writeError :: "string \<Rightarrow> string \<Rightarrow> gval" where
  "writeError rid code = writeErrorPayload rid code code"

definition writeErrorDetail :: "string \<Rightarrow> string \<Rightarrow> string \<Rightarrow> gval" where
  "writeErrorDetail rid code detail = writeErrorPayload rid code (if detail \<noteq> [] then code @ '': '' @ detail else code)"

section \<open>Health probes\<close>

record HealthPayload =
  hp_Status :: string
  hp_Version :: string
  hp_Error :: string

definition SetVersion :: "string \<Rightarrow> string \<Rightarrow> string" where
  "SetVersion value version = (if value \<noteq> [] then value else version)"

definition readOnlyRequest :: "string \<Rightarrow> http_request \<Rightarrow> (nat \<times> HealthPayload) option" where
  "readOnlyRequest version r =
     (if hr_method r = ''GET'' \<or> hr_method r = ''HEAD'' then None
      else Some (405, \<lparr>hp_Status = ''error'', hp_Version = version, hp_Error = ''method_not_allowed''\<rparr>))"

definition healthz :: "string \<Rightarrow> http_request \<Rightarrow> nat \<times> HealthPayload" where
  "healthz version r =
     (case readOnlyRequest version r of Some a \<Rightarrow> a | None \<Rightarrow> (200, \<lparr>hp_Status = ''ok'', hp_Version = version, hp_Error = []\<rparr>))"

text \<open>\<open>Ready\<close> answers whether the database can be queried within the two seconds; \<open>None\<close> is the nil probe.\<close>

definition readyz :: "string \<Rightarrow> bool option \<Rightarrow> http_request \<Rightarrow> nat \<times> HealthPayload" where
  "readyz version probe r =
     (case readOnlyRequest version r of
        Some a \<Rightarrow> a
      | None \<Rightarrow>
          if probe = Some False then (503, \<lparr>hp_Status = ''unavailable'', hp_Version = version, hp_Error = ''database_unavailable''\<rparr>)
          else (200, \<lparr>hp_Status = ''ok'', hp_Version = version, hp_Error = []\<rparr>))"

text \<open>
  The container's probe reads the address from the configuration, never writing it; a wildcard address is
  reached through the loopback one. \<open>f\<close> is the file, \<open>None\<close> when its path cannot be told.
\<close>

definition healthcheckTarget :: "floats \<Rightarrow> netlib \<Rightarrow> file_state option \<Rightarrow> string \<Rightarrow> string \<times> string" where
  "healthcheckTarget fl net f portEnv =
     (let fallback = (''127.0.0.1'', let port = trim_space portEnv in if ParseInt port = None then ''8000'' else port) in
      case f of
        None \<Rightarrow> fallback
      | Some file \<Rightarrow>
          (case LoadFile fl net file of
             Inl _ \<Rightarrow> fallback
           | Inr s \<Rightarrow>
               (if cf_Host s \<noteq> [] \<and> cf_Host s \<noteq> ''0.0.0.0'' \<and> cf_Host s \<noteq> ''::'' then cf_Host s else ''127.0.0.1'',
                FormatInt (cf_Port s))))"

definition runHealthcheck :: "nat option \<Rightarrow> int" where
  "runHealthcheck response = (if response = Some 200 then 0 else 1)"

section \<open>Routes\<close>

datatype destination = DHealth | DReady | DAdmin | DPublic | DRedirect string | DHome | DFavicon | DNotFound

text \<open>
  \<open>http.ServeMux\<close>: a path is cleaned first and the client is sent to the clean one, except for
  \<open>CONNECT\<close>; a path that lacks only the slash of a pattern is sent there; otherwise the longest pattern
  decides.
\<close>

definition clean_path :: "string \<Rightarrow> string" where
  "clean_path p =
     (if p = [] then ''/''
      else
        let p = (if hd p = CHR ''/'' then p else CHR ''/'' # p);
            np = CHR ''/'' # join_with (CHR ''/'') (clean_parts True (split_on (CHR ''/'') p) [])
        in if last p = CHR ''/'' \<and> np \<noteq> ''/'' then np @ ''/'' else np)"

definition mux_match :: "bool \<Rightarrow> string \<Rightarrow> destination" where
  "mux_match admin path =
     (if path = ''/healthz'' then DHealth else if path = ''/readyz'' then DReady
      else if \<not> admin then DPublic
      else if path = ''/admin'' \<or> has_prefix path ''/admin/'' then DAdmin
      else if has_prefix path ''/v1/'' \<or> path = ''/chat/completions'' \<or> path = ''/models'' then DPublic
      else if path = ''/'' then DHome else if path = ''/favicon.ico'' then DFavicon else DNotFound)"

definition mux_route :: "bool \<Rightarrow> string \<Rightarrow> string \<Rightarrow> destination" where
  "mux_route admin m p =
     (let path = (if m = ''CONNECT'' then p else clean_path p) in
      if admin \<and> path = ''/v1'' then DRedirect ''/v1/''
      else if path \<noteq> p then DRedirect path
      else mux_match admin path)"

section \<open>The server\<close>

datatype server_body =
    SPreflight
  | SHealth HealthPayload
  | SRedirect string
  | SNoContent
  | SNotFound
  | SPublic public_answer
  | SAdmin payload

record server_answer =
  sa_status :: "nat option"
  sa_headers :: header_list
  sa_body :: server_body

text \<open>The status of a redirect to a clean path is left to the library.\<close>

record server_state =
  ss_service :: Service
  ss_console :: console
  ss_source :: source

text \<open>The console and the relay work on one database and one cache of upstream clients.\<close>

definition console_of :: "server_state \<Rightarrow> console" where
  "console_of s = (ss_console s)\<lparr>cn_db := sv_db (ss_service s)\<rparr>"

definition with_console :: "console \<Rightarrow> server_state \<Rightarrow> server_state" where
  "with_console cn s = s\<lparr>ss_console := cn, ss_service := (ss_service s)\<lparr>sv_db := cn_db cn\<rparr>\<rparr>"

record server_env =
  se_version :: string
  se_admin :: bool
  se_ping :: bool
  se_guard :: Guard
  se_newID :: string
  se_public :: public_env
  se_console :: console_env
  se_zero :: Settings

definition service_settings :: "Settings \<Rightarrow> ServiceSettings" where
  "service_settings s =
     \<lparr>st_GlobalConcurrencyLimit = cf_GlobalConcurrencyLimit s, st_RPMLimit = cf_RPMLimit s, st_MaxOutputTokens = cf_MaxOutputTokens s\<rparr>"

text \<open>
  The settings are read per request; the guard decides before the body is read. A saved configuration
  reaches the source through the listener, which the console calls with it.
\<close>

definition public_view :: "server_env \<Rightarrow> server_state \<Rightarrow> public_env" where
  "public_view ev s =
     (se_public ev)\<lparr>pb_settings := Some (service_settings (Source_Get (se_zero ev) (ss_source s))), pb_full := \<not> Guard_check (se_guard ev)\<rparr>"

definition serve_public :: "server_env \<Rightarrow> http_request \<Rightarrow> server_state \<Rightarrow> server_state \<times> public_answer" where
  "serve_public ev r s =
     (case PublicServeHTTP (public_view ev s) r (ss_service s) (cn_clients (ss_console s)) of
        (sv, cs, a) \<Rightarrow> (s\<lparr>ss_service := sv, ss_console := (ss_console s)\<lparr>cn_clients := cs\<rparr>\<rparr>, a))"

definition listen :: "console \<Rightarrow> server_state \<Rightarrow> server_state" where
  "listen cn s = s\<lparr>ss_source := fold Source_Set (drop (length (cn_published (ss_console s))) (cn_published cn)) (ss_source s)\<rparr>"

definition serve_admin :: "server_env \<Rightarrow> http_request \<Rightarrow> server_state \<Rightarrow> server_state \<times> nat \<times> payload" where
  "serve_admin ev r s =
     (case AdminServeHTTP (se_console ev) r (console_of s) of
        (cn, status, p) \<Rightarrow> (with_console cn (listen cn s), status, p))"

definition route_request :: "server_env \<Rightarrow> http_request \<Rightarrow> server_state \<Rightarrow> server_state \<times> nat option \<times> server_body" where
  "route_request ev r s =
     (case mux_route (se_admin ev) (hr_method r) (hr_path r) of
        DHealth \<Rightarrow> (case healthz (se_version ev) r of (status, p) \<Rightarrow> (s, Some status, SHealth p))
      | DReady \<Rightarrow> (case readyz (se_version ev) (Some (se_ping ev)) r of (status, p) \<Rightarrow> (s, Some status, SHealth p))
      | DAdmin \<Rightarrow> (case serve_admin ev r s of (s', status, p) \<Rightarrow> (s', Some status, SAdmin p))
      | DPublic \<Rightarrow> (case serve_public ev r s of (s', a) \<Rightarrow> (s', Some (answer_status a), SPublic a))
      | DRedirect path \<Rightarrow> (s, None, SRedirect path)
      | DHome \<Rightarrow> (s, Some 302, SRedirect ''/admin/'')
      | DFavicon \<Rightarrow> (s, Some 204, SNoContent)
      | DNotFound \<Rightarrow> (s, Some 404, SNotFound))"

definition NewServerWithAdmission :: "server_env \<Rightarrow> gotime \<Rightarrow> http_request \<Rightarrow> server_state \<Rightarrow> server_state \<times> server_answer" where
  "NewServerWithAdmission ev now r s =
     (let traced = snd (ensureRequestTrace (se_newID ev) now None r) in
      case withCORS (Some (cf_CORSAllowedOrigins (Source_Get (se_zero ev) (ss_source s)))) r of
        CorsAnswer status hs \<Rightarrow> (s, \<lparr>sa_status = Some status, sa_headers = traced @ hs, sa_body = SPreflight\<rparr>)
      | CorsPass hs \<Rightarrow>
          (case route_request ev r s of
             (s', status, body) \<Rightarrow> (s', \<lparr>sa_status = status, sa_headers = traced @ hs, sa_body = body\<rparr>)))"

end
