(* ===== verification/Application.thy ===== *)
theory Application
  imports Server
begin

text \<open>
  The process (cmd/civic-relay/main.go): the quotas an old configuration file hands to the groups, the
  start with its recovery, the background loops with their gates, and the shutdown, in which the handlers
  in flight, the loops and the database come to their end one after the other.
\<close>

section \<open>Quotas of an old configuration\<close>

definition legacyQuotaKeys :: "string list" where
  "legacyQuotaKeys =
     [''TOKEN_LIMIT_5H'', ''TOKEN_LIMIT_DAILY'', ''TOKEN_LIMIT_WEEKLY'', ''AMOUNT_LIMIT_5H'', ''AMOUNT_LIMIT_DAILY'', ''AMOUNT_LIMIT_WEEKLY'',
      ''PERIOD_LIMIT_DAYS'', ''TOKEN_LIMIT_PERIOD'', ''AMOUNT_LIMIT_PERIOD'', ''PERIOD_LIMIT_START'']"

definition grab :: "env \<Rightarrow> string \<Rightarrow> string" where
  "grab values key = trim_space (case map_of values key of None \<Rightarrow> [] | Some v \<Rightarrow> v)"

definition toI64 :: "env \<Rightarrow> string \<Rightarrow> int" where
  "toI64 values key = ParseInt_value (grab values key)"

text \<open>An amount is written in yuan and stored in microyuan; \<open>math.Round\<close> of a non-negative number is \<open>round\<close>.\<close>

definition toMicroyuan :: "floats \<Rightarrow> env \<Rightarrow> string \<Rightarrow> int" where
  "toMicroyuan fl values key =
     (let raw = grab values key in
      if raw = [] then 0
      else (case fl_parse fl raw of
              Some (Some yuan) \<Rightarrow> if yuan < 0 then 0 else fl_int fl (of_int (round (fl_round fl (yuan * 1000000))))
            | _ \<Rightarrow> 0))"

definition quota_seed :: "floats \<Rightarrow> env \<Rightarrow> GlobalQuotaSeed" where
  "quota_seed fl values =
     \<lparr>gs_Token5H = toI64 values ''TOKEN_LIMIT_5H'', gs_TokenDaily = toI64 values ''TOKEN_LIMIT_DAILY'',
      gs_TokenWeekly = toI64 values ''TOKEN_LIMIT_WEEKLY'', gs_Amount5H = toMicroyuan fl values ''AMOUNT_LIMIT_5H'',
      gs_AmountDaily = toMicroyuan fl values ''AMOUNT_LIMIT_DAILY'', gs_AmountWeekly = toMicroyuan fl values ''AMOUNT_LIMIT_WEEKLY'',
      gs_PeriodDays = toI64 values ''PERIOD_LIMIT_DAYS'', gs_TokenPeriod = toI64 values ''TOKEN_LIMIT_PERIOD'',
      gs_AmountPeriod = toMicroyuan fl values ''AMOUNT_LIMIT_PERIOD'', gs_PeriodStart = grab values ''PERIOD_LIMIT_START''\<rparr>"

definition has_legacy :: "env \<Rightarrow> bool" where
  "has_legacy values \<longleftrightarrow> list_ex (\<lambda>k. map_of values k \<noteq> None) legacyQuotaKeys"

definition without_legacy :: "env \<Rightarrow> env" where
  "without_legacy values = filter (\<lambda>(k, v). k \<notin> set legacyQuotaKeys) values"

datatype seed_error = SeedConfig config_error | SeedStore

text \<open>\<open>accepted\<close> and \<open>written\<close> tell whether the database and the file accept the change.\<close>

definition seedGroupQuotas :: "floats \<Rightarrow> bool \<Rightarrow> bool \<Rightarrow> files \<Rightarrow> db \<Rightarrow> db \<times> files \<times> (seed_error + unit)" where
  "seedGroupQuotas fl accepted written fs db =
     (case ReadMapping (fs_env fs) of
        Inl e \<Rightarrow> (db, fs, Inl (SeedConfig e))
      | Inr values \<Rightarrow>
          if \<not> has_legacy values then (db, fs, Inr ())
          else if \<not> accepted then (db, fs, Inl SeedStore)
          else
            let db' = fst (SeedGroupQuotas (quota_seed fl values) db) in
            (case WriteMapping written (without_legacy values) fs of
               (fs', Inl e) \<Rightarrow> (db', fs', Inl (SeedConfig e))
             | (fs', Inr _) \<Rightarrow> (db', fs', Inr ())))"

section \<open>The start\<close>

text \<open>The instant 9999-12-31T23:59:59Z.\<close>

definition startupCutoff :: gotime where
  "startupCutoff = 253402300799 * second_ns"

definition manager_root :: "path \<Rightarrow> path" where
  "manager_root dir = (let r = clean_parts False dir [] in if r = [] then [''data'', ''plugins''] else r)"

datatype start_error = BadEncryptionKey | DatabaseUnavailable | RecoveryFailed store_error | PluginsUnavailable

text \<open>
  What the process finds: the database with the rows of its other two tables, \<open>None\<close> when it cannot be
  opened, the tree of files, and whether the plugin directory can be made.
\<close>

record start_env =
  sx_cipher :: "string \<Rightarrow> aead"
  sx_platform :: platform
  sx_now :: gotime
  sx_open :: "(db \<times> MonitorRow list \<times> Plugin list) option"
  sx_tree :: tree
  sx_mkdir :: bool

definition buildApplication :: "start_env \<Rightarrow> Settings \<Rightarrow> files \<Rightarrow> start_error + server_state" where
  "buildApplication sx settings fs =
     (case New_box (sx_cipher sx) (cf_EncryptionKey settings) of
        Inl _ \<Rightarrow> Inl BadEncryptionKey
      | Inr _ \<Rightarrow>
          bind_result (require_some (sx_open sx) DatabaseUnavailable) (\<lambda>(db, rows, plugins).
          (case ReapOrphanReservations (sx_platform sx) (sx_now sx) startupCutoff [] [] db of
             Inl e \<Rightarrow> Inl (RecoveryFailed e)
           | Inr (db', _) \<Rightarrow>
               if \<not> sx_mkdir sx then Inl PluginsUnavailable
               else Inr
                 \<lparr>ss_service = NewService db' (Some (service_settings settings)),
                  ss_console =
                    \<lparr>cn_db = db', cn_settings = settings, cn_adminKey = cf_AdminAPIKey settings, cn_files = Some fs, cn_published = [],
                     cn_monitor = rows, cn_clients = (\<lambda>_. None),
                     cn_plugins = Some \<lparr>pw_root = manager_root (split_on (CHR ''/'') (cf_PluginDir settings)), pw_rows = plugins, pw_tree = sx_tree sx\<rparr>\<rparr>,
                  ss_source = Some settings\<rparr>)))"

section \<open>The background loops\<close>

record loops =
  lp_state :: server_state
  lp_lastMonitor :: "gotime option"
  lp_lastSync :: "gotime option"

record loop_env =
  lx_platform :: platform
  lx_now :: gotime
  lx_settings :: Settings
  lx_clocks :: "int \<Rightarrow> gotime \<times> gotime"
  lx_probe :: "int \<Rightarrow> probe_error option"
  lx_lookup :: lookup_env
  lx_transport :: "int \<Rightarrow> json_transport"

definition live_settings :: "loop_env \<Rightarrow> loops \<Rightarrow> Settings" where
  "live_settings lx lp = Source_Get (lx_settings lx) (ss_source (lp_state lp))"

definition with_service :: "Service \<Rightarrow> loops \<Rightarrow> loops" where
  "with_service sv lp = lp\<lparr>lp_state := (lp_state lp)\<lparr>ss_service := sv\<rparr>\<rparr>"

text \<open>The ids of the running requests, in any order; durations wrap as \<open>int64\<close> does.\<close>

definition reap_tick :: "loop_env \<Rightarrow> int list \<Rightarrow> int list \<Rightarrow> loops \<Rightarrow> loops" where
  "reap_tick lx activeIDs pendingIDs lp =
     (let maxDuration = cf_MaxStreamDuration (live_settings lx lp) in
      if maxDuration \<le> 0 then lp
      else
        let maxAge = wrap64 (maxDuration + 2 * minute_ns) in
        with_service (reap_pass (lx_platform lx) (lx_now lx) (lx_now lx - maxAge) activeIDs pendingIDs (ss_service (lp_state lp))) lp)"

definition prune_cutoff :: "loop_env \<Rightarrow> loops \<Rightarrow> gotime" where
  "prune_cutoff lx lp = AddDate (lx_now lx) (- cf_RetentionDays (live_settings lx lp))"

definition prune_tick :: "loop_env \<Rightarrow> loops \<Rightarrow> loops" where
  "prune_tick lx lp =
     (let s = lp_state lp; sv = ss_service s; cn = ss_console s in
      case Prune (prune_cutoff lx lp) (sv_db sv) of
        Inl _ \<Rightarrow> lp
      | Inr (db, _) \<Rightarrow>
          lp\<lparr>lp_state := s\<lparr>ss_service := sv\<lparr>sv_db := db\<rparr>,
               ss_console := cn\<lparr>cn_monitor := fst (PruneGroupMonitorResults (prune_cutoff lx lp) (cn_monitor cn))\<rparr>\<rparr>\<rparr>)"

text \<open>Whether a loop with an interval of its own is due; the clock ticks every 30 seconds.\<close>

definition due :: "gotime \<Rightarrow> int \<Rightarrow> gotime option \<Rightarrow> bool" where
  "due now interval previous \<longleftrightarrow> 0 < interval \<and> (case previous of None \<Rightarrow> True | Some t \<Rightarrow> interval \<le> now - t)"

definition monitor_tick :: "loop_env \<Rightarrow> loops \<Rightarrow> loops" where
  "monitor_tick lx lp =
     (let cn = ss_console (lp_state lp); db = sv_db (ss_service (lp_state lp)) in
      if \<not> due (lx_now lx) (cf_GroupMonitorInterval (live_settings lx lp)) (lp_lastMonitor lp) then lp
      else
        lp\<lparr>lp_lastMonitor := Some (lx_now lx),
           lp_state := (lp_state lp)\<lparr>ss_console := cn\<lparr>cn_monitor :=
             fst (Monitor_RunOnce (lx_now lx) (lx_clocks lx) (lx_probe lx) ''auto'' db db (cn_monitor cn))\<rparr>\<rparr>\<rparr>)"

definition sync_tick :: "loop_env \<Rightarrow> loops \<Rightarrow> loops" where
  "sync_tick lx lp =
     (let s = lp_state lp; sv = ss_service s; cn = ss_console s in
      if \<not> cf_ModelAutoSync (live_settings lx lp) \<or> \<not> due (lx_now lx) (cf_ModelSyncInterval (live_settings lx lp)) (lp_lastSync lp) then lp
      else
        (case Syncer_RunOnce (lx_lookup lx) (lx_transport lx) (sv_db sv) (cn_clients cn) of
           (db, cs, _) \<Rightarrow>
             lp\<lparr>lp_lastSync := Some (lx_now lx),
                lp_state := s\<lparr>ss_service := sv\<lparr>sv_db := db\<rparr>, ss_console := cn\<lparr>cn_clients := cs\<rparr>\<rparr>\<rparr>))"

definition reconcile_tick :: "environment \<Rightarrow> (int \<Rightarrow> attempt \<times> attempt \<times> attempt) \<Rightarrow> int list \<Rightarrow> loops \<Rightarrow> loops" where
  "reconcile_tick ev faults pendingIDs lp = with_service (fst (RunOnce ev faults pendingIDs 0 None (ss_service (lp_state lp)))) lp"

text \<open>What happens before the first tick: the reaper and the monitor run once.\<close>

definition startMaintenance :: "loop_env \<Rightarrow> server_state \<Rightarrow> loops" where
  "startMaintenance lx s =
     (let lp = \<lparr>lp_state = s, lp_lastMonitor = None, lp_lastSync = None\<rparr> in monitor_tick lx (reap_tick lx [] [] lp))"

text \<open>
  \<open>main\<close> up to the first request: the configuration, the application, the quotas of an old file, the
  loops. \<open>None\<close> is a process that gives up.
\<close>

definition main_start ::
  "floats \<Rightarrow> netlib \<Rightarrow> string option \<times> string option \<Rightarrow> bool \<times> bool \<Rightarrow> bool \<times> bool \<Rightarrow> start_env \<Rightarrow> loop_env \<Rightarrow> files \<Rightarrow> files \<times> loops option" where
  "main_start fl net entropy config_writes seed_writes sx lx fs =
     (case Ensure fl net (fst entropy) (snd entropy) (fst config_writes) (snd config_writes) fs of
        (fs1, Inl _) \<Rightarrow> (fs1, None)
      | (fs1, Inr (settings, _)) \<Rightarrow>
          (case buildApplication sx settings fs1 of
             Inl _ \<Rightarrow> (fs1, None)
           | Inr s \<Rightarrow>
               (case seedGroupQuotas fl (fst seed_writes) (snd seed_writes) fs1 (sv_db (ss_service s)) of
                  (db, fs2, Inl _) \<Rightarrow> (fs2, None)
                | (db, fs2, Inr _) \<Rightarrow>
                    (fs2, Some (startMaintenance lx (with_console ((ss_console s)\<lparr>cn_db := db, cn_files := Some fs2\<rparr>) s))))))"

section \<open>Handlers in flight\<close>

text \<open>The channels are numbered in the order they are made; a closed one never opens again.\<close>

record tracker =
  tk_active :: int
  tk_idle :: nat
  tk_closed :: "nat set"
  tk_next :: nat
  tk_draining :: bool

definition newTrackedHandler :: tracker where
  "newTrackedHandler = \<lparr>tk_active = 0, tk_idle = 0, tk_closed = {0}, tk_next = 1, tk_draining = False\<rparr>"

text \<open>The two critical sections of \<open>ServeHTTP\<close>: \<open>None\<close> refuses the request, or closes a closed channel, which panics.\<close>

definition track_enter :: "tracker \<Rightarrow> tracker option" where
  "track_enter h =
     (if tk_draining h then None
      else
        let h = (if tk_active h = 0 then h\<lparr>tk_idle := tk_next h, tk_next := tk_next h + 1\<rparr> else h)
        in Some (h\<lparr>tk_active := tk_active h + 1\<rparr>))"

definition track_leave :: "tracker \<Rightarrow> tracker option" where
  "track_leave h =
     (let h = h\<lparr>tk_active := tk_active h - 1\<rparr> in
      if tk_active h \<noteq> 0 then Some h
      else if tk_idle h \<in> tk_closed h then None
      else Some (h\<lparr>tk_closed := insert (tk_idle h) (tk_closed h)\<rparr>))"

definition track_drain :: "tracker \<Rightarrow> tracker" where
  "track_drain h = h\<lparr>tk_draining := True\<rparr>"

text \<open>\<open>wait\<close> reads the channel once and returns when that channel is closed, or when its time is over.\<close>

definition wait_returns :: "nat \<Rightarrow> tracker \<Rightarrow> bool" where
  "wait_returns ch h \<longleftrightarrow> ch \<in> tk_closed h"

section \<open>The shutdown\<close>

text \<open>
  Where \<open>Close\<close> stands: refusing new work, letting \<open>Shutdown\<close> run, waiting for the handlers, settling
  what is pending, stopping the loops. \<open>Stopping b\<close> remembers whether the handlers came to their end. The
  process has a server and a service; an expired \<open>Shutdown\<close> cancels what the handlers do, which they see
  as failures of their upstream.
\<close>

datatype phase = Serving | Announced | Draining | Shut | Waiting nat | Settling | Stopping bool | Abandoned | Closed

record app =
  ap_service :: Service
  ap_tracker :: tracker
  ap_phase :: phase
  ap_loops :: bool
  ap_cancelled :: bool
  ap_failed :: bool

definition started :: "Service \<Rightarrow> app" where
  "started sv = \<lparr>ap_service = sv, ap_tracker = newTrackedHandler, ap_phase = Serving, ap_loops = True, ap_cancelled = False, ap_failed = False\<rparr>"

text \<open>What the loops do to the service: they settle, reap, prune and import.\<close>

inductive loop_step :: "Service \<Rightarrow> Service \<Rightarrow> bool" where
  reconcile: "set ids = sv_pending sv \<Longrightarrow> RunOnce ev faults ids 0 None sv = (sv', n, e) \<Longrightarrow> loop_step sv sv'"
| reap: "loop_step sv (reap_pass plat now cutoff activeIDs pendingIDs sv)"
| retain: "Prune cutoff (sv_db sv) = Inr (db', n) \<Longrightarrow> loop_step sv (sv\<lparr>sv_db := db'\<rparr>)"
| import_models: "Syncer_RunOnce ev tr (sv_db sv) cs = (db', cs', su) \<Longrightarrow> loop_step sv (sv\<lparr>sv_db := db'\<rparr>)"

inductive handler_step :: "Service \<Rightarrow> Service \<Rightarrow> bool" where
  admit: "Begin ev configured d req sv = (sv', r) \<Longrightarrow> handler_step sv sv'"
| close: "Close ev a1 a2 a3 i outcome sv = (sv', r) \<Longrightarrow> handler_step sv sv'"
| track: "handler_step sv (sv\<lparr>sv_upstream := setUpstream i (sv_upstream sv)\<rparr>)"
| console: "console_step (sv_db sv) db' \<Longrightarrow> handler_step sv (sv\<lparr>sv_db := db'\<rparr>)"

inductive app_step :: "app \<Rightarrow> app \<Rightarrow> bool" where
  enter: "track_enter (ap_tracker a) = Some h \<Longrightarrow> app_step a (a\<lparr>ap_tracker := h\<rparr>)"
| work: "0 < tk_active (ap_tracker a) \<Longrightarrow> handler_step (ap_service a) sv \<Longrightarrow> app_step a (a\<lparr>ap_service := sv\<rparr>)"
| leave: "0 < tk_active (ap_tracker a) \<Longrightarrow> track_leave (ap_tracker a) = Some h \<Longrightarrow> app_step a (a\<lparr>ap_tracker := h\<rparr>)"
| loop: "ap_loops a \<Longrightarrow> loop_step (ap_service a) sv \<Longrightarrow> app_step a (a\<lparr>ap_service := sv\<rparr>)"
| loops_end: "ap_loops a \<Longrightarrow> ap_cancelled a \<Longrightarrow> app_step a (a\<lparr>ap_loops := False\<rparr>)"
| announce: "ap_phase a = Serving \<Longrightarrow> app_step a (a\<lparr>ap_phase := Announced, ap_service := BeginDraining (ap_service a)\<rparr>)"
| drain: "ap_phase a = Announced \<Longrightarrow> app_step a (a\<lparr>ap_phase := Draining, ap_tracker := track_drain (ap_tracker a)\<rparr>)"
| shutdown: "ap_phase a = Draining \<Longrightarrow> app_step a (a\<lparr>ap_phase := Shut, ap_failed := forced\<rparr>)"
| wait: "ap_phase a = Shut \<Longrightarrow> app_step a (a\<lparr>ap_phase := Waiting (tk_idle (ap_tracker a))\<rparr>)"
| waited: "ap_phase a = Waiting ch \<Longrightarrow> wait_returns ch (ap_tracker a) \<Longrightarrow> app_step a (a\<lparr>ap_phase := Settling\<rparr>)"
| wait_over: "ap_phase a = Waiting ch \<Longrightarrow> app_step a (a\<lparr>ap_phase := Stopping False, ap_cancelled := True, ap_failed := True\<rparr>)"
| settle: "ap_phase a = Settling \<Longrightarrow> set ids = sv_pending (ap_service a) \<Longrightarrow> RunOnce ev faults ids 0 None (ap_service a) = (sv, n, e) \<Longrightarrow>
    app_step a (a\<lparr>ap_service := sv\<rparr>)"
| settled: "ap_phase a = Settling \<Longrightarrow> sv_pending (ap_service a) = {} \<Longrightarrow> app_step a (a\<lparr>ap_phase := Stopping True, ap_cancelled := True\<rparr>)"
| settle_over: "ap_phase a = Settling \<Longrightarrow> app_step a (a\<lparr>ap_phase := Stopping True, ap_cancelled := True, ap_failed := True\<rparr>)"
| stopped: "ap_phase a = Stopping finished \<Longrightarrow> \<not> ap_loops a \<Longrightarrow> app_step a (a\<lparr>ap_phase := (if finished then Closed else Abandoned)\<rparr>)"
| stop_over: "ap_phase a = Stopping finished \<Longrightarrow> ap_loops a \<Longrightarrow> app_step a (a\<lparr>ap_phase := Abandoned, ap_failed := True\<rparr>)"

inductive app_reachable :: "app \<Rightarrow> bool" where
  start: "relay_reachable sv \<Longrightarrow> app_reachable (started sv)"
| step: "app_reachable a \<Longrightarrow> app_step a a' \<Longrightarrow> app_reachable a'"

end
