(* ===== verification/Server_Claims.thy ===== *)
theory Server_Claims
  imports Server
begin

text \<open>
  What the front of the server guarantees: where a path leads, what another origin may read, whose
  identifier a request carries, what the access log records and when the memory guard refuses.
\<close>

section \<open>Routes\<close>

text \<open>The console is reached under its own prefix only; with the console, the bare paths of two endpoints lead to the relay, that of the third does not.\<close>

lemma admin_routes: "mux_route admin m p = DAdmin \<Longrightarrow> admin \<and> (p = ''/admin'' \<or> has_prefix p ''/admin/'')"
  by (auto simp: mux_route_def mux_match_def Let_def split: if_splits)

lemma bare_paths:
  "mux_route True ''POST'' ''/chat/completions'' = DPublic" "mux_route True ''GET'' ''/models'' = DPublic"
  "mux_route True ''POST'' ''/responses'' = DNotFound" "public_endpoint ''/responses'' = EResponses"
  "mux_route True ''POST'' ''/chat/completions/'' = DNotFound" "public_endpoint ''/chat/completions/'' = EChat"
  "mux_route True ''POST'' ''/v1/v1/chat/completions/'' = DPublic" "mux_route True ''POST'' ''/v1//responses'' = DRedirect ''/v1/responses''"
  by code_simp+

text \<open>A redirect to a clean path is the last one: the path it leads to is clean.\<close>

definition clean_part :: "string \<Rightarrow> bool" where
  "clean_part c \<longleftrightarrow> c \<noteq> [] \<and> c \<noteq> ''.'' \<and> c \<noteq> ''..'' \<and> CHR ''/'' \<notin> set c"

lemma clean_parts_clean:
  "list_all (\<lambda>c. CHR ''/'' \<notin> set c) cs \<Longrightarrow> list_all clean_part acc \<Longrightarrow> list_all clean_part (clean_parts True cs acc)"
proof (induction cs arbitrary: acc)
  case (Cons c cs)
  have "list_all clean_part (tl acc)" using Cons.prems(2) by (cases acc) simp_all
  moreover have "c = [] \<or> c = ''.'' \<or> c = ''..'' \<or> clean_part c" using Cons.prems(1) by (auto simp: clean_part_def)
  ultimately show ?case using Cons.IH[of acc] Cons.IH[of "tl acc"] Cons.IH[of "c # acc"] Cons.prems by (cases "c = ''..''") (simp_all, blast)
qed simp

lemma clean_parts_fixed: "list_all clean_part cs \<Longrightarrow> clean_parts True (cs @ es) acc = clean_parts True es (rev cs @ acc)"
  by (induction cs arbitrary: acc) (simp_all add: clean_part_def)

lemma split_slash_free: "list_all (\<lambda>c. d \<notin> set c) (split_on d s)"
  using split_on_parts by (auto simp: list_all_iff)

lemma split_slashed:
  assumes "list_all clean_part cs"
  shows "split_on (CHR ''/'') (CHR ''/'' # join_with (CHR ''/'') cs) = [] # (if cs = [] then [[]] else cs)"
    "cs \<noteq> [] \<Longrightarrow> split_on (CHR ''/'') (CHR ''/'' # join_with (CHR ''/'') cs @ ''/'') = [] # cs @ [[]]"
proof -
  have free: "list_all (\<lambda>c. CHR ''/'' \<notin> set c) cs" using assms by (simp add: list_all_iff clean_part_def)
  then show "split_on (CHR ''/'') (CHR ''/'' # join_with (CHR ''/'') cs) = [] # (if cs = [] then [[]] else cs)"
    using split_join[of "CHR ''/''" cs] by simp
  have "split_on (CHR ''/'') (join_with (CHR ''/'') cs @ ''/'') = cs @ [[]]" if "cs \<noteq> []"
    using free that by (induction "CHR ''/''" cs rule: join_with.induct) (simp_all add: split_on_append)
  then show "cs \<noteq> [] \<Longrightarrow> split_on (CHR ''/'') (CHR ''/'' # join_with (CHR ''/'') cs @ ''/'') = [] # cs @ [[]]" by simp
qed

lemma clean_path_parts: "\<exists>cs. list_all clean_part cs \<and> (clean_path p = CHR ''/'' # join_with (CHR ''/'') cs \<or> cs \<noteq> [] \<and> clean_path p = CHR ''/'' # join_with (CHR ''/'') cs @ ''/'')"
proof (cases "p = []")
  case False
  let ?p = "if hd p = CHR ''/'' then p else CHR ''/'' # p"
  let ?cs = "clean_parts True (split_on (CHR ''/'') ?p) []"
  have "list_all clean_part ?cs" by (rule clean_parts_clean[OF split_slash_free]) simp
  moreover have "?cs \<noteq> []" if "join_with (CHR ''/'') ?cs \<noteq> []" using that by (cases ?cs) simp_all
  moreover have "clean_path p = (let np = CHR ''/'' # join_with (CHR ''/'') ?cs in if last ?p = CHR ''/'' \<and> np \<noteq> ''/'' then np @ ''/'' else np)"
    using False by (simp only: clean_path_def Let_def if_False)
  ultimately show ?thesis by (intro exI[of _ ?cs]) (simp only: Let_def, simp)
qed (auto simp: clean_path_def intro!: exI[of _ "[]"])

lemma join_clean_last: "list_all clean_part cs \<Longrightarrow> cs \<noteq> [] \<Longrightarrow> join_with (CHR ''/'') cs \<noteq> [] \<and> last (join_with (CHR ''/'') cs) \<noteq> CHR ''/''"
proof (induction "CHR ''/''" cs rule: join_with.induct)
  case (2 s)
  then have "s \<noteq> []" "CHR ''/'' \<notin> set s" by (simp_all add: clean_part_def)
  then show ?case using last_in_set[of s] by (metis join_with.simps(2))
qed auto

lemma clean_path_idem: "clean_path (clean_path p) = clean_path p"
proof -
  obtain cs where cs: "list_all clean_part cs" and shape: "clean_path p = CHR ''/'' # join_with (CHR ''/'') cs \<or>
      cs \<noteq> [] \<and> clean_path p = CHR ''/'' # join_with (CHR ''/'') cs @ ''/''" using clean_path_parts by blast
  have whole: "clean_parts True (cs @ es) [] = cs" if "es = [] \<or> es = [[]]" for es
    using clean_parts_fixed[OF cs, of es "[]"] that by auto
  have "clean_path (CHR ''/'' # join_with (CHR ''/'') cs) = CHR ''/'' # join_with (CHR ''/'') cs"
    using split_slashed(1)[OF cs] whole[of "[]"] join_clean_last[OF cs] by (simp add: clean_path_def Let_def)
  moreover have "clean_path (CHR ''/'' # join_with (CHR ''/'') cs @ ''/'') = CHR ''/'' # join_with (CHR ''/'') cs @ ''/''" if "cs \<noteq> []"
    using split_slashed(2)[OF cs that] whole[of "[[]]"] join_clean_last[OF cs that] by (simp add: clean_path_def Let_def)
  ultimately show ?thesis using shape by auto
qed

lemma redirect_once: "mux_route admin m p = DRedirect q \<Longrightarrow> m \<noteq> ''CONNECT'' \<Longrightarrow> q \<noteq> ''/v1/'' \<Longrightarrow> mux_route admin m q \<noteq> DRedirect q'"
  using clean_path_idem[of p] by (auto simp: mux_route_def mux_match_def Let_def split: if_splits)

text \<open>What is neither the console's nor the relay's changes nothing.\<close>

lemma other_routes:
  assumes "mux_route (se_admin ev) (hr_method r) (hr_path r) \<notin> {DAdmin, DPublic}"
  shows "fst (route_request ev r s) = s"
  using assms by (auto simp: route_request_def split: destination.split prod.split)

text \<open>The health probe does not depend on the state, the readiness probe on the database only; neither asks who calls.\<close>

lemma health_answer:
  "hr_method r \<in> {''GET'', ''HEAD''} \<Longrightarrow> healthz v r = (200, \<lparr>hp_Status = ''ok'', hp_Version = v, hp_Error = []\<rparr>)"
  "hr_method r \<in> {''GET'', ''HEAD''} \<Longrightarrow> fst (readyz v (Some ping) r) = (if ping then 200 else 503)"
  "hr_method r \<notin> {''GET'', ''HEAD''} \<Longrightarrow> fst (healthz v r) = 405 \<and> fst (readyz v probe r) = 405"
  by (auto simp: healthz_def readyz_def readOnlyRequest_def)

section \<open>Other origins\<close>

text \<open>
  Under \<open>off\<close> no header is sent; under a list the header names the origin of the request, and only one
  the list has; a preflight that is answered reaches no handler.
\<close>

lemma cors_off: "equal_fold policy ''off'' \<Longrightarrow> withCORS (Some policy) r = CorsPass []"
  by (simp add: withCORS_def)

lemma allowed_origin:
  "policy \<noteq> ''*'' \<Longrightarrow> allowOriginValue policy origin \<noteq> [] \<Longrightarrow>
   allowOriginValue policy origin = origin \<and> (\<exists>a \<in> set (split_on (CHR '','') policy). equal_fold (trim_space a) origin)"
  by (auto simp: allowOriginValue_def list_ex_iff split: if_splits)

lemma cors_headers:
  assumes "withCORS (Some policy) r = CorsPass hs \<or> withCORS (Some policy) r = CorsAnswer n hs" "(acao, v) \<in> set hs" "policy \<noteq> ''*''"
  shows "v = hr_header r ''Origin'' \<and> (\<exists>a \<in> set (split_on (CHR '','') policy). equal_fold (trim_space a) v)"
proof -
  have "v = allowOriginValue policy (hr_header r ''Origin'') \<and> v \<noteq> []"
    using assms(1,2) by (auto simp: withCORS_def acao_def Let_def split: if_splits)
  with allowed_origin[OF assms(3)] show ?thesis by metis
qed

lemma preflight_handled:
  assumes "withCORS (Some (cf_CORSAllowedOrigins (Source_Get (se_zero ev) (ss_source s)))) r = CorsAnswer n hs"
  shows "fst (NewServerWithAdmission ev now r s) = s" "sa_status (snd (NewServerWithAdmission ev now r s)) = Some n" "n = 204"
  using assms by (auto simp: NewServerWithAdmission_def Let_def withCORS_def split: if_splits)

section \<open>Traces\<close>

text \<open>The identifier a request is known by, and answered with, is the server's own whatever the client sends.\<close>

lemma trace_is_minted:
  "tr_ID (fst (ensureRequestTrace newID now None r)) = newID"
  "snd (ensureRequestTrace newID now None r) = [(''X-Request-Id'', newID)]"
  by (simp_all add: ensureRequestTrace_def NewTrace_def Let_def trim_space_Nil)

lemma answer_names_request: "\<exists>hs. sa_headers (snd (NewServerWithAdmission ev now r s)) = (''X-Request-Id'', se_newID ev) # hs"
  by (simp add: NewServerWithAdmission_def Let_def trace_is_minted split: cors_verdict.split prod.split)

lemma responses_protocol: "protocolForPath p = ''responses'' \<longleftrightarrow> has_suffix (trim_suffix p ''/'') ''/responses''"
  by (simp add: protocolForPath_def)

text \<open>An error document keeps its code and names its request.\<close>

lemma error_document:
  assumes "trim_space rid \<noteq> []"
  shows "writeErrorPayload rid code message = VMap [(''error'', VMap [(''message'', VString message), (''type'', VString ''relay_error''),
     (''code'', VString code), (''request_id'', VString (trim_space rid))])]"
  using assms by (simp add: writeErrorPayload_def writeJSON_def Let_def put_def has_key_def)

lemma error_document_stable: "writeJSON rid (writeErrorPayload rid code message) = writeErrorPayload rid code message"
  by (cases "trim_space rid = []") (simp_all add: error_document, simp_all add: writeJSON_def has_key_def Let_def)

section \<open>The access log\<close>

text \<open>The status a client sees: that of the first header, or 200 once bytes are sent or the answer ends.\<close>

fun sent_status :: "write_op list \<Rightarrow> nat" where
  "sent_status [] = 200"
| "sent_status (WHeader code # ops) = code"
| "sent_status (WBytes b # ops) = 200"
| "sent_status (WFlush # ops) = 200"

lemma recorder_settled: "sr_wrote s \<Longrightarrow> sr_status (fold record_op ops s) = sr_status s"
  by (induction ops arbitrary: s) (auto simp: record_op_def split: write_op.split)

lemma recorded_status:
  assumes "ops = [] \<or> hd ops \<noteq> WFlush"
  shows "sr_status (fold record_op ops new_recorder) = sent_status ops"
proof (cases ops)
  case (Cons w ws)
  with assms show ?thesis by (cases w) (simp_all add: record_op_def new_recorder_def recorder_settled)
qed (simp add: new_recorder_def)

lemma log_when_debug: "withAccessLog l sp remote t ops r \<noteq> None \<longleftrightarrow> l = LevelDebug"
  by (cases l) (simp_all add: withAccessLog_def Enabled_def)

section \<open>The memory guard\<close>

text \<open>
  Within 16 TiB the guard refuses exactly above its limit. The product wraps: a limit of \<open>2 ^ 44\<close> MiB, which
  the settings accept, is a limit of zero bytes, and every request is refused.
\<close>

lemma guard_exact:
  assumes "0 < mb" "mb < 2 ^ 44"
  shows "Guard_check (NewGuard mb (Some (Some rss))) \<longleftrightarrow> uint rss \<le> mb * 2 ^ 20"
proof -
  have "uint (word_of_int mb * 1024 * 1024 :: 64 word) = mb * 2 ^ 20"
    using assms by (simp add: uint_word_ariths uint_word_of_int mod_mult_right_eq mult.assoc)
  with assms show ?thesis by (simp add: Guard_check_def NewGuard_def word_less_def not_less)
qed

lemma guard_wraps: "Guard_check (NewGuard (2 ^ 44) (Some (Some rss))) \<longleftrightarrow> rss = 0"
proof -
  have "(18446744073709551616 :: 64 word) = 0" by code_simp
  then have "(18446744073709551616 :: 64 word) < rss \<longleftrightarrow> 0 < rss" by (rule arg_cong)
  then show ?thesis by (simp add: Guard_check_def NewGuard_def word_gt_0)
qed

lemma guard_open: "Guard_check (NewGuard mb None)" "Guard_check (NewGuard mb (Some None))"
  by (simp_all add: Guard_check_def NewGuard_def)

lemma resident_size: "RSS 4096 (Some ''1234 56 7 0 0 0 0'') = Some 229376" "RSS 4096 (Some ''1234'') = None" "RSS 4096 (Some ''12 -5 0'') = None"
  by code_simp+

end
