(* ===== verification/Process_Claims.thy ===== *)
theory Process_Claims
  imports Application Server_Claims Public_Claims Admin_Runs
begin

text \<open>
  What holds of the process as a whole: the recovery at the start, the one-time transfer of quotas, the
  invariants under every interleaving of requests and background loops, and the order of the shutdown.
\<close>

section \<open>Requests as steps of the relay\<close>

lemma relay_once: "relay_step sv sv' \<Longrightarrow> relay_step\<^sup>*\<^sup>* sv sv'"
  by (rule r_into_rtranclp)

lemma relay_twice: "relay_step sv s \<Longrightarrow> relay_step s sv' \<Longrightarrow> relay_step\<^sup>*\<^sup>* sv sv'"
  by (rule converse_rtranclp_into_rtranclp[OF _ relay_once])

lemma PrepareStream_steps:
  assumes "PrepareStream ev configured d req sv = (sv', r)"
  shows "relay_step\<^sup>*\<^sup>* sv sv'"
proof -
  obtain s b where begun: "Begin ev configured d (req\<lparr>rq_Stream := True\<rparr>) sv = (s, b)" by fastforce
  then have first: "relay_step sv s" by (rule relay_step.admit)
  have second: "relay_step s (s\<lparr>sv_upstream := setUpstream i (sv_upstream s)\<rparr>)" for i by (rule relay_step.track)
  show ?thesis
    using assms begun relay_once[OF first] relay_twice[OF first second] by (cases b) (auto simp: PrepareStream_def)
qed

lemma Chat_steps:
  assumes "Chat ev configured d a1 a2 a3 reply req sv = (sv', r)"
  shows "relay_step\<^sup>*\<^sup>* sv sv'"
proof -
  obtain s b where begun: "Begin ev configured d (req\<lparr>rq_Stream := False\<rparr>) sv = (s, b)" by fastforce
  then have first: "relay_step sv s" by (rule relay_step.admit)
  show ?thesis
  proof (cases b)
    case (Inl e)
    with assms begun first show ?thesis by (simp add: Chat_def r_into_rtranclp)
  next
    case (Inr l)
    let ?i = "res_ID (le_reservation l)" and ?s = "s\<lparr>sv_upstream := setUpstream (res_ID (le_reservation l)) (sv_upstream s)\<rparr>"
    obtain t e where closed: "Close ev a1 a2 a3 ?i (chat_outcome reply l) ?s = (t, e)" by fastforce
    with assms begun Inr have "sv' = t" by (simp add: Chat_def Let_def)
    moreover have "relay_step s ?s" by (rule relay_step.track)
    moreover have "relay_step ?s t" using closed by (rule relay_step.close)
    ultimately show ?thesis using first by (meson converse_rtranclp_into_rtranclp r_into_rtranclp)
  qed
qed

lemma stream_steps: "stream ev configured d a1 a2 a3 dec w req sv = (sv', r) \<Longrightarrow> relay_step\<^sup>*\<^sup>* sv sv'"
  by (auto simp: stream_def Let_def split: prod.splits sum.splits dest!: PrepareStream_steps relay_step.close intro: rtranclp.rtrancl_into_rtrancl)

lemma responsesStream_steps: "responsesStream ev configured d a1 a2 a3 dec w req sv = (sv', r) \<Longrightarrow> relay_step\<^sup>*\<^sup>* sv sv'"
  by (auto simp: responsesStream_def Let_def split: prod.splits sum.splits dest!: PrepareStream_steps relay_step.close intro: rtranclp.rtrancl_into_rtrancl)

lemma service_chat_steps: "service_chat pb sid req payload sv cs = (sv', cs', r) \<Longrightarrow> relay_step\<^sup>*\<^sup>* sv sv'"
  by (auto simp: service_chat_def split: prod.splits sum.splits option.splits dest!: Chat_steps intro: relay_step.admit)

lemma chatCompletions_steps: "chatCompletions pb r sv cs = (sv', cs', a) \<Longrightarrow> relay_step\<^sup>*\<^sup>* sv sv'"
  by (auto simp: chatCompletions_def split: prod.splits sum.splits if_splits dest!: stream_steps service_chat_steps)

lemma responsesAPI_steps: "responsesAPI pb r sv cs = (sv', cs', a) \<Longrightarrow> relay_step\<^sup>*\<^sup>* sv sv'"
  by (auto simp: responsesAPI_def split: prod.splits sum.splits if_splits dest!: responsesStream_steps service_chat_steps)

lemma public_steps: "PublicServeHTTP pb r sv cs = (sv', cs', a) \<Longrightarrow> relay_step\<^sup>*\<^sup>* sv sv'"
  by (auto simp: PublicServeHTTP_def split: endpoint.splits dest: chatCompletions_steps responsesAPI_steps)

lemma console_relay_steps:
  assumes "console_step\<^sup>*\<^sup>* (sv_db sv) db"
  shows "relay_step\<^sup>*\<^sup>* sv (sv\<lparr>sv_db := db\<rparr>)"
  using assms
proof (induction rule: rtranclp_induct)
  case (step db db')
  have "relay_step (sv\<lparr>sv_db := db\<rparr>) ((sv\<lparr>sv_db := db\<rparr>)\<lparr>sv_db := db'\<rparr>)" by (rule relay_step.console) (use step in simp)
  then show ?case using step.IH by simp
qed simp

lemma relay_reachable_steps: "relay_step\<^sup>*\<^sup>* sv sv' \<Longrightarrow> relay_reachable sv \<Longrightarrow> relay_reachable sv'"
  by (induction rule: rtranclp_induct) (auto intro: relay_reachable.step)

section \<open>What a console request does\<close>

text \<open>The settings of the console with those it has published.\<close>

definition settings_follow :: "console \<Rightarrow> console \<Rightarrow> bool" where
  "settings_follow cn cn' \<longleftrightarrow>
     cn_published cn' = cn_published cn \<and> cn_settings cn' = cn_settings cn \<and> cn_adminKey cn' = cn_adminKey cn \<or>
     (\<exists>s. cn_published cn' = cn_published cn @ [s] \<and> cn_settings cn' = s \<and> cn_adminKey cn' = cf_AdminAPIKey s \<and> cf_AdminAPIKey s \<noteq> [])"

lemma config_save_follow:
  "cn_db (fst (configSave ev r v cn)) = cn_db cn \<and> settings_follow cn (fst (configSave ev r v cn))"
  using Parse_admin
  by (auto simp: configSave_def with_body_def refuse_def refuse_detail_def apply_settings_def settings_follow_def Let_def
      split: option.split sum.split prod.split)

lemma admin_effect:
  assumes "AdminServeHTTP ev r cn = (cn', status, p)"
  shows "console_step\<^sup>*\<^sup>* (cn_db cn) (cn_db cn') \<and> settings_follow cn cn'"
proof (cases "admin_front (ce_hmac ev) (ce_box ev) (ce_now ev) (cn_adminKey cn) r (cn_db cn)")
  case (Handle sub rt)
  then have run: "cn' = fst (run_route ev sub r rt cn)" using assms by (simp add: AdminServeHTTP_def)
  show ?thesis
  proof (cases "\<exists>v. rt = ConfigSave v")
    case True
    then show ?thesis using config_save_follow run by (auto simp: run_route_def)
  next
    case False
    then have "serves cn cn'" using route_serves run by blast
    then show ?thesis by (simp add: serves_def settings_follow_def)
  qed
qed (use assms in \<open>auto simp: AdminServeHTTP_def refuse_def settings_follow_def\<close>)

text \<open>One request to the server, seen from the relay, the console and the source of settings.\<close>

definition state_ok :: "server_state \<Rightarrow> bool" where
  "state_ok s \<longleftrightarrow> relay_reachable (ss_service s) \<and> ss_source s = Some (cn_settings (ss_console s)) \<and>
     cn_adminKey (ss_console s) = cf_AdminAPIKey (cn_settings (ss_console s)) \<and> cf_AdminAPIKey (cn_settings (ss_console s)) \<noteq> []"

lemma serve_public_ok:
  assumes "state_ok s" "serve_public ev r s = (s', a)"
  shows "state_ok s'"
  using assms by (auto simp: serve_public_def state_ok_def split: prod.splits dest!: public_steps intro: relay_reachable_steps)

lemma serve_admin_ok:
  assumes ok: "state_ok s" and run: "serve_admin ev r s = (s', status, p)"
  shows "state_ok s'"
proof -
  obtain cn st q where admin: "AdminServeHTTP (se_console ev) r (console_of s) = (cn, st, q)" by (metis prod_cases3)
  have s': "s' = with_console cn (listen cn s)" using run admin by (simp add: serve_admin_def)
  from admin_effect[OF admin] have steps: "console_step\<^sup>*\<^sup>* (sv_db (ss_service s)) (cn_db cn)" and follow: "settings_follow (console_of s) cn"
    by (simp_all add: console_of_def)
  have "relay_reachable ((ss_service s)\<lparr>sv_db := cn_db cn\<rparr>)"
    using ok relay_reachable_steps[OF console_relay_steps[OF steps]] by (simp add: state_ok_def)
  moreover have "ss_source (listen cn s) = Some (cn_settings cn) \<and> cn_adminKey cn = cf_AdminAPIKey (cn_settings cn) \<and> cf_AdminAPIKey (cn_settings cn) \<noteq> []"
    using ok follow by (auto simp: state_ok_def settings_follow_def console_of_def listen_def Source_Set_def)
  ultimately show ?thesis by (simp add: s' with_console_def state_ok_def listen_def)
qed

lemma server_ok:
  assumes "state_ok s" "NewServerWithAdmission ev now r s = (s', a)"
  shows "state_ok s'"
  using assms
  by (auto simp: NewServerWithAdmission_def route_request_def Let_def split: cors_verdict.splits destination.splits prod.splits
      dest: serve_public_ok serve_admin_ok)

section \<open>The background loops as steps of the relay\<close>

lemma import_steps: "import_names i prefix items db imported = (db', r) \<Longrightarrow> console_step\<^sup>*\<^sup>* db db'"
proof (induction items arbitrary: db imported)
  case (Cons item items)
  then show ?case
    by (auto simp: Let_def split: sum.splits prod.splits dest!: console_step.import_model intro: converse_rtranclp_into_rtranclp)
qed simp

lemma SyncProvider_steps: "SyncProvider ev tr i db cs = (db', cs', r) \<Longrightarrow> console_step\<^sup>*\<^sup>* db db'"
  by (auto simp: SyncProvider_def split: prod.splits sum.splits dest: import_steps)

lemma sync_steps: "sync_pass ev tr ps db cs su = (db', cs', su') \<Longrightarrow> console_step\<^sup>*\<^sup>* db db'"
proof (induction ps arbitrary: db cs su)
  case (Cons p ps)
  then show ?case by (auto split: if_splits prod.splits sum.splits dest!: SyncProvider_steps intro: rtranclp_trans)
qed simp

text \<open>What a tick may change: the service by steps of the relay, nothing the console shows of the settings.\<close>

definition tick_ok :: "loops \<Rightarrow> loops \<Rightarrow> bool" where
  "tick_ok lp lp' \<longleftrightarrow> (state_ok (lp_state lp) \<longrightarrow> state_ok (lp_state lp'))"

lemma with_service_ok: "relay_step\<^sup>*\<^sup>* (ss_service (lp_state lp)) sv \<Longrightarrow> tick_ok lp (with_service sv lp)"
  by (auto simp: tick_ok_def with_service_def state_ok_def intro: relay_reachable_steps)

lemma reap_tick_ok:
  "set activeIDs = sv_active (ss_service (lp_state lp)) \<Longrightarrow> set pendingIDs = sv_pending (ss_service (lp_state lp)) \<Longrightarrow>
   tick_ok lp (reap_tick lx activeIDs pendingIDs lp)"
  unfolding reap_tick_def Let_def using with_service_ok[OF relay_once[OF relay_step.reap]] by (simp add: tick_ok_def)

lemma prune_tick_ok:
  assumes "retention_spares (prune_cutoff lx lp) (ss_service (lp_state lp))"
  shows "tick_ok lp (prune_tick lx lp)"
proof (cases "Prune (prune_cutoff lx lp) (sv_db (ss_service (lp_state lp)))")
  case (Inr r)
  obtain db n where r: "r = (db, n)" by fastforce
  with relay_step.retain[OF Inr[unfolded r] assms] Inr show ?thesis
    by (auto simp: tick_ok_def prune_tick_def state_ok_def Let_def intro: relay_reachable.step)
qed (simp add: tick_ok_def prune_tick_def Let_def)

lemma monitor_tick_ok: "tick_ok lp (monitor_tick lx lp)"
  by (simp add: tick_ok_def monitor_tick_def state_ok_def Let_def)

lemma sync_tick_ok: "tick_ok lp (sync_tick lx lp)"
  by (auto simp: tick_ok_def sync_tick_def state_ok_def Let_def Syncer_RunOnce_def split: prod.split
      dest!: sync_steps intro: relay_reachable_steps console_relay_steps)

lemma reconcile_tick_ok: "tick_ok lp (reconcile_tick ev faults ids lp)"
proof -
  obtain sv n e where run: "RunOnce ev faults ids 0 None (ss_service (lp_state lp)) = (sv, n, e)" by (metis prod_cases3)
  from with_service_ok[OF relay_once[OF relay_step.reconcile[OF run]]] run show ?thesis by (simp add: reconcile_tick_def)
qed

section \<open>The process\<close>

text \<open>
  A process starts on a database of its own making, or an empty one. Then requests are served, halves of
  others run in between, and the loops tick; retention spares the rows of open requests.
\<close>

inductive process_step :: "loops \<Rightarrow> loops \<Rightarrow> bool" where
  request: "NewServerWithAdmission ev now r (lp_state lp) = (s, a) \<Longrightarrow> process_step lp (lp\<lparr>lp_state := s\<rparr>)"
| handler: "relay_step (ss_service (lp_state lp)) sv \<Longrightarrow> process_step lp (with_service sv lp)"
| reap: "set activeIDs = sv_active (ss_service (lp_state lp)) \<Longrightarrow> set pendingIDs = sv_pending (ss_service (lp_state lp)) \<Longrightarrow>
    process_step lp (reap_tick lx activeIDs pendingIDs lp)"
| prune: "retention_spares (prune_cutoff lx lp) (ss_service (lp_state lp)) \<Longrightarrow> process_step lp (prune_tick lx lp)"
| monitor: "process_step lp (monitor_tick lx lp)"
| sync: "process_step lp (sync_tick lx lp)"
| reconcile: "process_step lp (reconcile_tick ev faults ids lp)"

inductive process_reachable :: "loops \<Rightarrow> bool" where
  start: "main_start fl net entropy config_writes seed_writes sx lx fs = (fs', Some lp) \<Longrightarrow> sx_open sx = Some (db, rows, plugins) \<Longrightarrow>
    store_reachable db \<Longrightarrow> process_reachable lp"
| step: "process_reachable lp \<Longrightarrow> process_step lp lp' \<Longrightarrow> process_reachable lp'"

lemma process_step_ok: "process_step lp lp' \<Longrightarrow> tick_ok lp lp'"
proof (induction rule: process_step.induct)
  case (request ev now r lp s a)
  then show ?case by (simp add: tick_ok_def server_ok)
next
  case (handler lp sv)
  then show ?case by (rule with_service_ok[OF relay_once])
qed (simp_all add: reap_tick_ok prune_tick_ok monitor_tick_ok sync_tick_ok reconcile_tick_ok)

lemma as_config_Inr: "as_config f r = Inr v \<longleftrightarrow> r = Inr v"
  by (simp add: as_config_def split: sum.split)

lemma loaded_admin: "LoadFile fl net f = Inr s \<Longrightarrow> cf_AdminAPIKey s \<noteq> []"
  by (auto simp: LoadFile_def bind_result_Inr as_config_Inr dest: Parse_admin)

lemma generated_admin: "GenerateInitialSettings fl net a e = Inr s \<Longrightarrow> cf_AdminAPIKey s \<noteq> []"
  by (auto simp: GenerateInitialSettings_def bind_result_Inr as_config_Inr dest: Parse_admin)

lemma Ensure_admin: "Ensure fl net a e w k fs = (fs', Inr (s, c)) \<Longrightarrow> cf_AdminAPIKey s \<noteq> []"
  by (auto simp: Ensure_def ensure_existing_def ensure_fresh_def split: file_state.splits sum.splits prod.splits dest: loaded_admin generated_admin)

lemma Reap_step: "ReapOrphanReservations plat now cutoff a p db = Inr (db', n) \<Longrightarrow> store_step db db'"
  by (rule store_step.reap)

lemma main_start_ok:
  assumes start: "main_start fl net entropy cw sw sx lx fs = (fs', Some lp)"
    and "sx_open sx = Some (db, rows, plugins)" "store_reachable db"
  shows "state_ok (lp_state lp)"
proof -
  obtain fs1 r where ens: "Ensure fl net (fst entropy) (snd entropy) (fst cw) (snd cw) fs = (fs1, r)" by fastforce
  with start obtain settings c where r: "r = Inr (settings, c)" by (auto simp: main_start_def split: sum.splits)
  with start ens obtain s where build: "buildApplication sx settings fs1 = Inr s"
    by (auto simp: main_start_def split: sum.splits)
  obtain db2 fs2 e where seed: "seedGroupQuotas fl (fst sw) (snd sw) fs1 (sv_db (ss_service s)) = (db2, fs2, e)" by (metis prod_cases3)
  have lp: "lp = startMaintenance lx (with_console ((ss_console s)\<lparr>cn_db := db2, cn_files := Some fs2\<rparr>) s)"
    using start ens r build seed by (auto simp: main_start_def split: sum.splits)
  from build assms(2) obtain db1 n where reap: "ReapOrphanReservations (sx_platform sx) (sx_now sx) startupCutoff [] [] db = Inr (db1, n)"
    by (auto simp: buildApplication_def bind_result_Inr split: sum.splits if_splits)
  with build assms(2) have s: "ss_service s = NewService db1 (Some (service_settings settings))" "cn_settings (ss_console s) = settings"
      "cn_adminKey (ss_console s) = cf_AdminAPIKey settings" "ss_source s = Some settings"
    by (auto simp: buildApplication_def bind_result_Inr split: sum.splits if_splits)
  have "store_reachable db1" using assms(3) Reap_step[OF reap] by (rule store_reachable.step)
  then have reach: "relay_reachable (ss_service s)" unfolding s by (rule relay_reachable.start)
  have "db2 = db1 \<or> (\<exists>x. db2 = fst (SeedGroupQuotas x db1))"
    using seed by (auto simp: s(1) NewService_def seedGroupQuotas_def Let_def split: sum.splits if_splits prod.splits)
  then have "console_step\<^sup>*\<^sup>* (sv_db (ss_service s)) db2"
  proof
    assume "\<exists>x. db2 = fst (SeedGroupQuotas x db1)"
    then obtain x where "db2 = fst (SeedGroupQuotas x db1)" by blast
    then have "SeedGroupQuotas x db1 = (db2, snd (SeedGroupQuotas x db1))" by simp
    then show ?thesis using s(1) by (auto simp: NewService_def intro: console_step.seed)
  qed (simp add: s(1) NewService_def)
  from relay_reachable_steps[OF console_relay_steps[OF this] reach]
  have "state_ok (with_console ((ss_console s)\<lparr>cn_db := db2, cn_files := Some fs2\<rparr>) s)"
    using s Ensure_admin[OF ens[unfolded r]] by (simp add: state_ok_def with_console_def)
  moreover have "tick_ok \<lparr>lp_state = t, lp_lastMonitor = None, lp_lastSync = None\<rparr> (startMaintenance lx t)" if "sv_active (ss_service t) = {}" "sv_pending (ss_service t) = {}" for t
    using that reap_tick_ok[of "[]" "\<lparr>lp_state = t, lp_lastMonitor = None, lp_lastSync = None\<rparr>" "[]" lx] monitor_tick_ok
    unfolding startMaintenance_def Let_def tick_ok_def by simp
  ultimately show ?thesis unfolding lp tick_ok_def by (simp add: with_console_def s(1) NewService_def)
qed

lemma process_ok: "process_reachable lp \<Longrightarrow> state_ok (lp_state lp)"
  by (induction rule: process_reachable.induct) (use main_start_ok process_step_ok in \<open>auto simp: tick_ok_def\<close>)

text \<open>
  C7: Whatever requests reach the process at whatever path, with whatever credentials, however the halves
  of others run in between and whatever the loops do: the invariants of the database and of the relay's
  gates hold, the relay reads the very settings the console shows, and the key that opens the console is
  the one of those settings and never empty.
\<close>

theorem process_keeps_invariants:
  assumes "process_reachable lp"
  shows "let s = lp_state lp; sv = ss_service s; cn = ss_console s in
     wf_db (sv_db sv) \<and> ledger_inv (sv_db sv) \<and> service_inv sv \<and>
     ss_source s = Some (cn_settings cn) \<and> cn_adminKey cn = cf_AdminAPIKey (cn_settings cn) \<and> cn_adminKey cn \<noteq> []"
proof -
  from process_ok[OF assms] have ok: "state_ok (lp_state lp)" .
  then have "service_inv (ss_service (lp_state lp))" by (auto simp: state_ok_def intro: relay_reachable_inv)
  with ok service_invD(1,2)[OF this] show ?thesis by (simp add: state_ok_def Let_def)
qed

definition first_world :: start_env where
  "first_world = \<lparr>sx_cipher = (\<lambda>_. tag_cipher), sx_platform = sample_platform, sx_now = now0, sx_open = Some (empty_db, [], []),
     sx_tree = (\<lambda>_. None), sx_mkdir = True\<rparr>"

definition first_loops :: loop_env where
  "first_loops = \<lparr>lx_platform = sample_platform, lx_now = now0, lx_settings = console_settings, lx_clocks = (\<lambda>_. (now0, now0)),
     lx_probe = (\<lambda>_. None), lx_lookup = sample_lookup, lx_transport = (\<lambda>_. sample_transport)\<rparr>"

lemma first_application:
  "\<exists>s. buildApplication first_world console_settings fs = Inr s \<and> sv_db (ss_service s) = empty_db"
proof -
  have "ReapOrphanReservations sample_platform now0 startupCutoff [] [] empty_db = Inr (empty_db, 0)" by code_simp
  then show ?thesis
    by (simp add: buildApplication_def first_world_def console_settings_def initial_settings_def New_box_def b64_roundtrip require_some_def bind_result_def NewService_def)
qed

lemma first_start:
  "\<exists>fs lp. main_start sample_floats https_net (Some ''key'', Some (replicate 32 CHR ''k'')) (True, True) (True, True) first_world first_loops
     \<lparr>fs_env = Absent, fs_bootstrap = Absent\<rparr> = (fs, Some lp)"
proof -
  let ?fs0 = "\<lparr>fs_env = Absent, fs_bootstrap = Absent\<rparr>" and ?net = https_net
  obtain body env where w: "Write True console_settings ?fs0 = (?fs0\<lparr>fs_env := Content body\<rparr>, Inr ())" "ReadMapping (Content body) = Inr env"
      "map_of env = map_of (overlay (EnvMap console_settings) [])"
    using Write_read[of ?fs0 "[]" console_settings] by (auto simp: existing_def)
  have "GenerateInitialSettings sample_floats ?net (Some ''key'') (Some (replicate 32 CHR ''k'')) = Inr console_settings"
    by (simp add: GenerateInitialSettings_def initial_parse[OF sample_floats_ok] as_config_def require_some_def console_settings_def)
  with w(1) obtain fs1 c where ens: "Ensure sample_floats ?net (Some ''key'') (Some (replicate 32 CHR ''k'')) True True ?fs0 = (fs1, Inr (console_settings, c))"
      and fs1: "fs_env fs1 = Content body"
    by (simp add: Ensure_def ensure_fresh_def writeBootstrap_def)
  obtain s where s: "buildApplication first_world console_settings fs1 = Inr s" using first_application by blast
  have "\<not> has_legacy env"
    by (simp add: has_legacy_def legacyQuotaKeys_def w(3) map_of_overlay distinct_EnvMap) (simp add: EnvMap_def)
  then have "seedGroupQuotas sample_floats True True fs1 db = (db, fs1, Inr ())" for db
    by (simp add: seedGroupQuotas_def fs1 w(2))
  with ens s show ?thesis by (simp add: main_start_def)
qed

theorem process_keeps_invariants_witness:
  "\<exists>lp. process_reachable lp \<and> wf_db (sv_db (ss_service (lp_state lp))) \<and> service_inv (ss_service (lp_state lp)) \<and>
     ss_source (lp_state lp) = Some (cn_settings (ss_console (lp_state lp)))"
proof -
  obtain fs lp where "main_start sample_floats https_net (Some ''key'', Some (replicate 32 CHR ''k'')) (True, True) (True, True) first_world first_loops
     \<lparr>fs_env = Absent, fs_bootstrap = Absent\<rparr> = (fs, Some lp)" using first_start by blast
  then have "process_reachable lp" by (rule process_reachable.start[OF _ _ store_reachable.fresh]) (simp add: first_world_def)
  from process_reachable.step[OF this process_step.sync] have "process_reachable (sync_tick first_loops lp)" .
  with process_keeps_invariants[OF this] show ?thesis unfolding Let_def by blast
qed

section \<open>Recovery at the start\<close>

lemma released_rows:
  assumes reap: "ReapOrphanReservations plat now cutoff [] [] db = Inr (db', n)"
    and dated: "list_all (\<lambda>q. julianday_ms plat (q_created q) < julianday_ms plat cutoff) (db_requests db)"
    and reserved: "list_all (\<lambda>r. julianday_ms plat (r_created r) < julianday_ms plat cutoff) (db_reservations db)"
  shows "db_requests db' = map (\<lambda>q. if q_status q = ''reserved'' then reap_request now q else q) (db_requests db)"
    and "db_reservations db' = map (\<lambda>r. if r_status r = ''reserved'' then reap_reservation now r else r) (db_reservations db)"
proof -
  have stale: "stale_request plat cutoff [] q \<longleftrightarrow> q_status q = ''reserved''" if "q \<in> set (db_requests db)" for q
    using dated that by (auto simp: stale_request_def list_all_iff)
  have "stale_reservation plat cutoff [] (db_requests db) r \<longleftrightarrow> r_status r = ''reserved''" if "r \<in> set (db_reservations db)" for r
    using reserved that stale by (auto simp: stale_reservation_def list_all_iff list_ex_iff)
  with stale show "db_requests db' = map (\<lambda>q. if q_status q = ''reserved'' then reap_request now q else q) (db_requests db)"
    "db_reservations db' = map (\<lambda>r. if r_status r = ''reserved'' then reap_reservation now r else r) (db_reservations db)"
    by (simp_all add: ReapOrphan_Inr(1)[OF reap] excluded_ids_def)
qed

text \<open>
  C12: After a crash every reservation left open is released at the next start: no request and no
  reservation is still reserved, a released one counts neither tokens nor money, and whatever had been
  settled before stays as it was.
\<close>

theorem startup_releases_all:
  assumes start: "buildApplication sx settings fs = Inr s" "sx_open sx = Some (db, rows, plugins)"
    and dated: "list_all (\<lambda>q. julianday_ms (sx_platform sx) (q_created q) < julianday_ms (sx_platform sx) startupCutoff) (db_requests db)"
    and reserved: "list_all (\<lambda>r. julianday_ms (sx_platform sx) (r_created r) < julianday_ms (sx_platform sx) startupCutoff) (db_reservations db)"
  shows "let db' = sv_db (ss_service s) in
     list_all (\<lambda>q. q_status q \<noteq> ''reserved'') (db_requests db') \<and> list_all (\<lambda>r. r_status r \<noteq> ''reserved'') (db_reservations db') \<and>
     list_all2 (\<lambda>q q'. if q_status q = ''reserved'' then q_id q' = q_id q \<and> q_status q' = ''aborted'' \<and> q_error_code q' = ''crash_recovered'' else q' = q)
       (db_requests db) (db_requests db') \<and>
     list_all2 (\<lambda>r r'. if r_status r = ''reserved'' then r_id r' = r_id r \<and> r_status r' = ''aborted'' \<and> r_charged_tokens r' = 0 \<and>
         r_charged_amount r' = 0 \<and> r_reserved_tokens r' = 0 \<and> r_reserved_amount r' = 0 else r' = r)
       (db_reservations db) (db_reservations db')"
proof -
  from start obtain db' n where reap: "ReapOrphanReservations (sx_platform sx) (sx_now sx) startupCutoff [] [] db = Inr (db', n)"
      and db': "sv_db (ss_service s) = db'"
    by (auto simp: buildApplication_def bind_result_Inr NewService_def split: sum.splits if_splits)
  note rows = released_rows[OF reap dated reserved]
  have "list_all (\<lambda>q. q_status q \<noteq> ''reserved'') (db_requests db')" "list_all (\<lambda>r. r_status r \<noteq> ''reserved'') (db_reservations db')"
    by (auto simp: rows list_all_iff)
  moreover have "list_all2 (\<lambda>q q'. if q_status q = ''reserved'' then q_id q' = q_id q \<and> q_status q' = ''aborted'' \<and> q_error_code q' = ''crash_recovered'' else q' = q)
      (db_requests db) (db_requests db')"
    by (simp add: rows list.rel_map list.rel_refl_strong reap_request_def)
  moreover have "list_all2 (\<lambda>r r'. if r_status r = ''reserved'' then r_id r' = r_id r \<and> r_status r' = ''aborted'' \<and> r_charged_tokens r' = 0 \<and>
        r_charged_amount r' = 0 \<and> r_reserved_tokens r' = 0 \<and> r_reserved_amount r' = 0 else r' = r)
      (db_reservations db) (db_reservations db')"
    by (simp add: rows list.rel_map list.rel_refl_strong reap_reservation_def)
  ultimately show ?thesis by (simp add: Let_def db')
qed

definition crashed_world :: start_env where
  "crashed_world = first_world\<lparr>sx_open := Some (db_r, [], [])\<rparr>"

theorem startup_releases_all_witness:
  "\<exists>s. buildApplication crashed_world console_settings \<lparr>fs_env = Absent, fs_bootstrap = Absent\<rparr> = Inr s \<and> db_reservations (sv_db (ss_service s)) \<noteq> [] \<and>
     list_all (\<lambda>r. r_status r \<noteq> ''reserved'') (db_reservations (sv_db (ss_service s)))"
proof -
  have dated: "list_all (\<lambda>q. julianday_ms (sx_platform crashed_world) (q_created q) < julianday_ms (sx_platform crashed_world) startupCutoff) (db_requests db_r)"
    "list_all (\<lambda>r. julianday_ms (sx_platform crashed_world) (r_created r) < julianday_ms (sx_platform crashed_world) startupCutoff) (db_reservations db_r)"
    by code_simp+
  obtain s where s: "buildApplication crashed_world console_settings \<lparr>fs_env = Absent, fs_bootstrap = Absent\<rparr> = Inr s"
    by (simp add: buildApplication_def crashed_world_def first_world_def console_settings_def initial_settings_def New_box_def b64_roundtrip require_some_def bind_result_def
        ReapOrphanReservations_def Let_def reject_when_def is_zero_time_def zero_time_def startupCutoff_def second_ns_def)
  have opened: "sx_open crashed_world = Some (db_r, [], [])" by (simp add: crashed_world_def)
  note all = startup_releases_all[OF s opened dated, unfolded Let_def]
  from all have "length (db_reservations (sv_db (ss_service s))) = length (db_reservations db_r)" by (elim conjE) (drule list_all2_lengthD, drule list_all2_lengthD, simp)
  moreover have "db_reservations db_r \<noteq> []" by code_simp
  ultimately have "db_reservations (sv_db (ss_service s)) \<noteq> []" by (metis length_0_conv)
  with s all show ?thesis by blast
qed

section \<open>Quotas of an old configuration\<close>

lemma without_legacy_get: "map_of (without_legacy vs) k = (if k \<in> set legacyQuotaKeys then None else map_of vs k)"
  by (induction vs) (auto simp: without_legacy_def)

text \<open>
  What a group receives. The columns with their keys; a limit of tokens or days is the integer of the
  text, an amount of money is written in yuan and received in microyuan, the start is the text itself.
  A column that is set keeps its value; zero and the empty text leave it unset.
\<close>

definition count_columns :: "((ModelGroup \<Rightarrow> int option) \<times> string) list" where
  "count_columns =
     [(g_token_5h, ''TOKEN_LIMIT_5H''), (g_token_daily, ''TOKEN_LIMIT_DAILY''), (g_token_weekly, ''TOKEN_LIMIT_WEEKLY''),
      (g_token_period, ''TOKEN_LIMIT_PERIOD''), (g_period_days, ''PERIOD_LIMIT_DAYS'')]"

definition money_columns :: "((ModelGroup \<Rightarrow> int option) \<times> string) list" where
  "money_columns =
     [(g_amount_5h, ''AMOUNT_LIMIT_5H''), (g_amount_daily, ''AMOUNT_LIMIT_DAILY''), (g_amount_weekly, ''AMOUNT_LIMIT_WEEKLY''),
      (g_amount_period, ''AMOUNT_LIMIT_PERIOD'')]"

definition microyuan_of :: "floats \<Rightarrow> string \<Rightarrow> int" where
  "microyuan_of fl text =
     (case fl_parse fl text of
        Some (Some yuan) \<Rightarrow> if text = [] \<or> yuan < 0 then 0 else fl_int fl (of_int (round (fl_round fl (yuan * 1000000))))
      | _ \<Rightarrow> 0)"

definition received :: "(string \<Rightarrow> 'a) \<Rightarrow> 'a \<Rightarrow> env \<Rightarrow> string \<Rightarrow> 'a option \<Rightarrow> 'a option" where
  "received read zero values key old =
     (case old of
        Some v \<Rightarrow> Some v
      | None \<Rightarrow> (case map_of values key of
                    None \<Rightarrow> None
                  | Some text \<Rightarrow> if read (trim_space text) = zero then None else Some (read (trim_space text))))"

definition receives :: "floats \<Rightarrow> env \<Rightarrow> ModelGroup \<Rightarrow> ModelGroup \<Rightarrow> bool" where
  "receives fl values g g' \<longleftrightarrow>
     list_all (\<lambda>(column, key). column g' = received ParseInt_value 0 values key (column g)) count_columns \<and>
     list_all (\<lambda>(column, key). column g' = received (microyuan_of fl) 0 values key (column g)) money_columns \<and>
     g_period_start g' = received id [] values ''PERIOD_LIMIT_START'' (g_period_start g) \<and>
     g_id g' = g_id g \<and> g_name g' = g_name g \<and> g_enabled g' = g_enabled g \<and> g_rate_milli g' = g_rate_milli g"

lemma received_count: "coalesce old (nullif (toI64 values key) 0) = received ParseInt_value 0 values key old"
proof -
  have "ParseInt_value [] = 0" "trim_space [] = []" by code_simp+
  then show ?thesis by (auto simp: received_def coalesce_def nullif_def toI64_def grab_def split: option.splits)
qed

lemma received_money: "coalesce old (nullif (toMicroyuan fl values key) 0) = received (microyuan_of fl) 0 values key old"
  by (auto simp: received_def coalesce_def nullif_def toMicroyuan_def microyuan_of_def grab_def trim_space_def Let_def split: option.splits)

lemma received_text: "coalesce old (nullif (grab values key) []) = received id [] values key old"
  by (auto simp: received_def coalesce_def nullif_def grab_def trim_space_def split: option.splits)

lemma seed_receives: "receives fl values g (seed_group (quota_seed fl values) g)"
  by (simp add: receives_def seed_group_def quota_seed_def count_columns_def money_columns_def received_count received_money received_text)

lemma seed_again: "fst (SeedGroupQuotas seed (fst (SeedGroupQuotas seed db))) = fst (SeedGroupQuotas seed db)"
  by (simp add: SeedGroupQuotas_def seed_group_def coalesce_def split: option.split)

lemma seed_rows: "list_all2 (receives fl values) (db_groups db) (db_groups (fst (SeedGroupQuotas (quota_seed fl values) db)))"
  by (simp add: SeedGroupQuotas_def list.rel_map list.rel_refl_strong seed_receives)

text \<open>
  C34: The old quotas are transferred, once, and a crash between the two writes does no harm. Every
  group receives each of the ten settings in the column that belongs to it, token limits and days as
  integers and amounts of money in microyuan, except where an operator has set a limit, which stays, or
  where the setting is missing, zero or unreadable; nothing else in the database changes. The file keeps every
  other setting and none of the old ones. A start whose file cannot be written leaves the database as
  a later successful one finds and keeps it, and no later start changes anything.
\<close>

theorem quotas_seeded_once:
  assumes old: "fs_env fs = Content contents" "ParseEnvText contents = Inr values" "has_legacy values"
    and one: "seedGroupQuotas fl True True fs db = (db', fs', Inr ())"
  shows "list_all2 (receives fl values) (db_groups db) (db_groups db') \<and> db' = db\<lparr>db_groups := db_groups db'\<rparr> \<and>
     seedGroupQuotas fl True False fs db = (db', fs, Inl (SeedConfig WriteFailed)) \<and>
     seedGroupQuotas fl True True fs db' = (db', fs', Inr ()) \<and>
     (\<exists>kept. ReadMapping (fs_env fs') = Inr kept \<and> (\<forall>k. map_of kept k = (if k \<in> set legacyQuotaKeys then None else map_of values k))) \<and>
     (\<forall>accepted written later. seedGroupQuotas fl accepted written fs' later = (later, fs', Inr ()))"
proof -
  have "list_all (ValidEnvKey \<circ> fst) values" using old(2) parse_lines_keys[of 0 _ "[]" "values"] by (simp add: ParseEnvText_def)
  then have "list_all (ValidEnvKey \<circ> fst) (without_legacy values)" by (auto simp: list_all_iff without_legacy_def)
  from Serialize_Parse[OF this] obtain out kept where out: "SerializeEnvMapping (without_legacy values) = Inr out"
      and kept: "ParseEnvText out = Inr kept" "map_of kept = map_of (without_legacy values)" by blast
  have read: "ReadMapping (fs_env fs) = Inr values" using old by (simp add: ReadMapping_def as_config_def)
  from one have here: "db' = fst (SeedGroupQuotas (quota_seed fl values) db)" "fs' = fs\<lparr>fs_env := Content out\<rparr>"
    by (simp_all add: seedGroupQuotas_def read old(3) WriteMapping_def out)
  have read': "ReadMapping (fs_env fs') = Inr kept" by (simp add: here(2) ReadMapping_def as_config_def kept)
  moreover have "\<not> has_legacy kept" by (auto simp: has_legacy_def list_ex_iff kept(2) without_legacy_get)
  moreover have "db' = db\<lparr>db_groups := db_groups db'\<rparr>" by (simp add: here(1) SeedGroupQuotas_def)
  ultimately show ?thesis
    using seed_rows[of fl "values" db] seed_again
    by (simp add: seedGroupQuotas_def read old(3) WriteMapping_def out here kept(2) without_legacy_get Let_def)
qed

text \<open>
  A fraction is no integer and is not cut off: a limit that cannot be read as one, \<open>1e6\<close> or \<open>12.5\<close>, is read
  as zero, so the groups stay without it although its line is removed.
\<close>

lemma unreadable_limit:
  "grab vs ''TOKEN_LIMIT_5H'' \<in> {''1e6'', ''12.5'', ''1_000_000''} \<Longrightarrow> g_token_5h (seed_group (quota_seed fl vs) g) = g_token_5h g"
proof -
  have "ParseInt_value ''1e6'' = 0" "ParseInt_value ''12.5'' = 0" "ParseInt_value ''1_000_000'' = 0" by code_simp+
  then show "grab vs ''TOKEN_LIMIT_5H'' \<in> {''1e6'', ''12.5'', ''1_000_000''} \<Longrightarrow> ?thesis"
    by (auto simp: seed_group_def quota_seed_def toI64_def nullif_def coalesce_def split: option.split)
qed

definition old_text :: string where
  "old_text = ''TOKEN_LIMIT_5H=100'' @ [newline] @ ''AMOUNT_LIMIT_5H=0.5'' @ [newline] @ ''RPM_LIMIT=5'' @ [newline]"

theorem quotas_seeded_once_witness:
  "\<exists>db' fs'. seedGroupQuotas sample_floats True True \<lparr>fs_env = Content old_text, fs_bootstrap = Absent\<rparr> db_k = (db', fs', Inr ()) \<and>
     list_all2 (receives sample_floats [(''TOKEN_LIMIT_5H'', ''100''), (''AMOUNT_LIMIT_5H'', ''0.5''), (''RPM_LIMIT'', ''5'')]) (db_groups db_k) (db_groups db') \<and>
     map g_amount_5h (db_groups db') = map (\<lambda>_. Some 500000000) (db_groups db_k)"
proof -
  let ?vs = "[(''TOKEN_LIMIT_5H'', ''100''), (''AMOUNT_LIMIT_5H'', ''0.5''), (''RPM_LIMIT'', ''5'')]"
  let ?run = "seedGroupQuotas sample_floats True True \<lparr>fs_env = Content old_text, fs_bootstrap = Absent\<rparr> db_k"
  have old: "ParseEnvText old_text = Inr ?vs" "has_legacy ?vs" by code_simp+
  have "snd (snd ?run) = Inr ()" by code_simp
  then obtain db' fs' where run: "?run = (db', fs', Inr ())" by (metis prod.collapse)
  have "map g_amount_5h (db_groups (fst ?run)) = map (\<lambda>_. Some 500000000) (db_groups db_k)" by code_simp
  with quotas_seeded_once[OF _ old run] run show ?thesis by simp
qed

section \<open>Shutdown\<close>

definition past_drain :: "phase \<Rightarrow> bool" where
  "past_drain p \<longleftrightarrow> p \<notin> {Serving, Announced}"

definition quiet :: "phase \<Rightarrow> bool" where
  "quiet p \<longleftrightarrow> p \<in> {Settling, Stopping True, Closed}"

definition tracker_ok :: "tracker \<Rightarrow> bool" where
  "tracker_ok h \<longleftrightarrow> 0 \<le> tk_active h \<and> tk_idle h < tk_next h \<and> tk_closed h \<subseteq> {..<tk_next h} \<and> (tk_idle h \<in> tk_closed h \<longleftrightarrow> tk_active h = 0)"

definition app_ok :: "app \<Rightarrow> bool" where
  "app_ok a \<longleftrightarrow> tracker_ok (ap_tracker a) \<and> (past_drain (ap_phase a) \<longrightarrow> tk_draining (ap_tracker a)) \<and>
     (\<forall>ch. ap_phase a = Waiting ch \<longrightarrow> ch = tk_idle (ap_tracker a)) \<and> (quiet (ap_phase a) \<longrightarrow> tk_active (ap_tracker a) = 0) \<and>
     (ap_phase a = Closed \<longrightarrow> \<not> ap_loops a) \<and>
     (ap_phase a \<in> {Stopping True, Closed} \<longrightarrow> \<not> ap_failed a \<longrightarrow> sv_pending (ap_service a) = {})"

lemma track_ok:
  "tracker_ok newTrackedHandler"
  "tracker_ok h \<Longrightarrow> track_enter h = Some h' \<Longrightarrow> tracker_ok h' \<and> \<not> tk_draining h \<and> \<not> tk_draining h'"
  "tracker_ok h \<Longrightarrow> 0 < tk_active h \<Longrightarrow> track_leave h = Some h' \<Longrightarrow> tracker_ok h' \<and> tk_draining h' = tk_draining h \<and> tk_idle h' = tk_idle h"
  "tracker_ok h \<Longrightarrow> 0 < tk_active h \<Longrightarrow> track_leave h \<noteq> None"
  "tracker_ok h \<Longrightarrow> tracker_ok (track_drain h)"
  by (auto simp: tracker_ok_def newTrackedHandler_def track_enter_def track_leave_def track_drain_def Let_def lessThan_def split: if_splits)

lemma loop_pending: "loop_step sv sv' \<Longrightarrow> sv_pending sv = {} \<Longrightarrow> sv_pending sv' = {}"
  by (induction rule: loop_step.induct) (auto simp: reap_pass_def split: sum.splits)

lemma app_step_ok: "app_step a a' \<Longrightarrow> app_ok a \<Longrightarrow> app_ok a'"
proof (induction rule: app_step.induct)
  case (enter a h)
  then have h: "tracker_ok h" "\<not> tk_draining (ap_tracker a)" using track_ok(2)[of "ap_tracker a" h] by (simp_all add: app_ok_def)
  with enter have "\<not> past_drain (ap_phase a)" by (auto simp: app_ok_def)
  then have "ap_phase a = Serving \<or> ap_phase a = Announced" by (simp add: past_drain_def)
  with h enter show ?case by (elim disjE) (simp_all add: app_ok_def past_drain_def quiet_def)
next
  case (leave a h)
  then have "tracker_ok (ap_tracker a)" "\<not> quiet (ap_phase a)" by (auto simp: app_ok_def)
  with leave track_ok(3)[of "ap_tracker a" h] show ?case by (simp add: app_ok_def quiet_def)
next
  case (loop a sv)
  then show ?case using loop_pending[OF loop(2)] by (simp add: app_ok_def)
next
  case (settle a ids ev faults sv n e)
  then show ?case by (simp add: app_ok_def quiet_def past_drain_def)
next
  case (drain a)
  then show ?case using track_ok(5) by (simp add: app_ok_def quiet_def past_drain_def track_drain_def)
next
  case (waited a ch)
  then show ?case by (simp add: app_ok_def quiet_def past_drain_def wait_returns_def tracker_ok_def)
qed (simp_all add: app_ok_def quiet_def past_drain_def BeginDraining_def)

lemma started_ok: "app_ok (started sv)"
  by (simp add: app_ok_def started_def track_ok(1) past_drain_def quiet_def)

lemma app_reachable_ok: "app_reachable a \<Longrightarrow> app_ok a"
  by (induction rule: app_reachable.induct) (simp_all add: started_ok app_step_ok)

text \<open>
  C13: A handler that ends never closes a channel twice; the wait of the shutdown returns exactly when the
  last handler has ended; and the database is closed only when no handler runs, the loops have ended and
  no request can enter any more, so that nothing uses it afterwards. If the shutdown reports no failure,
  every pending settlement has been made.
\<close>

theorem database_closed_last:
  assumes "app_reachable a"
  shows "(0 < tk_active (ap_tracker a) \<longrightarrow> track_leave (ap_tracker a) \<noteq> None) \<and>
     (\<forall>ch. ap_phase a = Waiting ch \<longrightarrow> (wait_returns ch (ap_tracker a) \<longleftrightarrow> tk_active (ap_tracker a) = 0)) \<and>
     (ap_phase a = Closed \<longrightarrow> tk_active (ap_tracker a) = 0 \<and> \<not> ap_loops a \<and> (\<forall>a'. \<not> app_step a a') \<and>
        (\<not> ap_failed a \<longrightarrow> sv_pending (ap_service a) = {}))"
proof -
  note ok = app_reachable_ok[OF assms]
  have ended: "\<not> app_step a a'" if "ap_phase a = Closed" for a'
    using ok that by (auto elim!: app_step.cases simp: app_ok_def past_drain_def quiet_def track_enter_def)
  from ok have h: "tracker_ok (ap_tracker a)" by (simp add: app_ok_def)
  show ?thesis
    using ok ended track_ok(4)[OF h] h by (auto simp: app_ok_def quiet_def wait_returns_def tracker_ok_def)
qed

lemma clean_shutdown:
  "app_reachable \<lparr>ap_service = BeginDraining sv0, ap_tracker = track_drain newTrackedHandler, ap_phase = Closed, ap_loops = False,
     ap_cancelled = True, ap_failed = False\<rparr>"
proof -
  let ?a = "\<lambda>h p l c. \<lparr>ap_service = BeginDraining sv0, ap_tracker = h, ap_phase = p, ap_loops = l, ap_cancelled = c, ap_failed = False\<rparr>"
  let ?h = "track_drain newTrackedHandler"
  have "app_reachable (started sv0)" by (rule app_reachable.start[OF reach_sv0])
  from app_reachable.step[OF this app_step.announce] have "app_reachable (?a newTrackedHandler Announced True False)" by (simp add: started_def)
  from app_reachable.step[OF this app_step.drain] have "app_reachable (?a ?h Draining True False)" by simp
  from app_reachable.step[OF this app_step.shutdown[where forced = False]] have "app_reachable (?a ?h Shut True False)" by simp
  from app_reachable.step[OF this app_step.wait] have "app_reachable (?a ?h (Waiting 0) True False)" by (simp add: track_drain_def newTrackedHandler_def)
  from app_reachable.step[OF this app_step.waited[of _ 0]] have "app_reachable (?a ?h Settling True False)"
    by (simp add: track_drain_def newTrackedHandler_def wait_returns_def)
  from app_reachable.step[OF this app_step.settled] have "app_reachable (?a ?h (Stopping True) True True)"
    by (simp add: BeginDraining_def sv0_def NewService_def)
  from app_reachable.step[OF this app_step.loops_end] have "app_reachable (?a ?h (Stopping True) False True)" by simp
  from app_reachable.step[OF this app_step.stopped[of _ True]] show ?thesis by simp
qed

theorem database_closed_last_witness:
  "\<exists>a. app_reachable a \<and> ap_phase a = Closed \<and> tk_active (ap_tracker a) = 0 \<and> (\<forall>a'. \<not> app_step a a') \<and> sv_pending (ap_service a) = {}"
proof -
  have "?thesis" if "app_reachable a" "ap_phase a = Closed" "\<not> ap_failed a" for a
    using database_closed_last[OF that(1)] that by blast
  from this[OF clean_shutdown] show ?thesis by simp
qed

end
