(* ===== verification/Spec2Isabelle.thy ===== *)
theory Spec2Isabelle
  imports Ledger_Claims Service_Claims Catalog_Claims Stream_Claims Session_Claims Native_Claims Config_Claims Monitor_Claims Registry_Claims Overview_Claims Plugin_Claims Admin_Runs Public_Claims Process_Claims
begin

text \<open>
  Civic AI relay: a verification development.

  The program is a gateway in Go that sells access to language-model providers. A client presents a
  key, the gateway authorises a model for the key's group, reserves tokens and money in a SQLite
  ledger, forwards the request upstream and settles the reservation with the usage the upstream
  reported. An administrator manages providers, models, groups and keys; background tasks reap
  orphaned reservations, retry failed settlements and prune old rows.

  \<^bold>\<open>How the parts interact.\<close> A request enters \<open>Server\<close>, which routes it to the public interface or to
  the console. The public interface decodes it and calls the relay service, which passes the admission
  gates, reserves in the ledger, has the registry build a client, lets the client or a protocol adapter
  talk to the upstream, and closes the lease, that is settles the ledger and frees the gates; what
  cannot be settled is left to the reconciler. The console reads and writes the same database, the
  settings and the cache of clients. \<open>Application\<close> starts all this, runs the background loops and ends
  it. State is passed explicitly; time, randomness, the network, the outcome of a write and the points
  where concurrent code may run are arguments of the definitions or steps of a relation.

  \<^bold>\<open>Theories and the code they model (paths under src/internal).\<close>

  \<^item> \<open>Relay_Prelude\<close>: result type with its operators, 64-bit bounds, the locale of tables with unique ids.
    \<open>Go_Text\<close>, \<open>Go_Value\<close>, \<open>Go_Time\<close>, \<open>Json_Decode\<close>: strings, decoded JSON, durations and the decoding of
    JSON into structures, as far as the source uses them. \<open>Clock\<close> (store/ledger.go): the Beijing billing
    day and week, custom periods in the zone their start is written in, the text of an instant in a
    zone and the textual order the queries use.
  \<^item> \<open>Schema\<close> (store/schema.go): one record per table, the constraints as \<open>wf_refs\<close>, referential actions.
  \<^item> \<open>Pricing\<close> (store/ledger.go, relay/pricing.go, relay/service.go): estimate, reserved and billed price
    with the 64-bit behaviour of the code. \<open>Ledger\<close>: \<open>ReserveRequest\<close> in the order of its checks.
    \<open>Settlement\<close> (store/settlement.go, maintenance.go): \<open>FinishReservation\<close>, reaper, retention.
  \<^item> \<open>Secret\<close> (secret/box.go), \<open>Providers\<close>, \<open>Catalog\<close>, \<open>Keys\<close> (store/providers.go, models.go, keys.go):
    the operations of the console's store and the authentication of clients. \<open>Request_Query\<close>
    (store/request_query.go): filters, pages, cursors. \<open>Overview\<close>, \<open>Analytics\<close> (store/ledger.go,
    analytics.go): what the console shows of the ledger.
  \<^item> \<open>Gates\<close> (relay/limits.go): the admission gates; \<open>Gate_Race\<close>: the same code cut at its critical sections.
  \<^item> \<open>Requestmeta\<close> (requestmeta/meta.go). \<open>Relay_Service\<close> (relay/service.go, active.go, settlement.go,
    reconcile.go): \<open>Begin\<close>, \<open>Close\<close>, \<open>Chat\<close>, retries, reconciler. \<open>Relay_Machine\<close>: these operations as step
    relations with reachability and invariants. \<open>Closing\<close>: why closing a lease succeeds.
  \<^item> \<open>SSE\<close> (upstream/sse.go, sse_reader.go, terminal.go), \<open>Upstream_Client\<close> (upstream/client.go,
    options.go, session.go), \<open>Native\<close> (upstream/native.go): frames, the transport boundary, the Anthropic
    and Gemini adapters. \<open>Registry\<close>, \<open>Registry_Cache\<close> (relay/providers.go, sync.go): the client cache, also
    among concurrent writers, and the import of models. \<open>Monitor\<close> (relay/monitor.go, store/monitor.go).
  \<^item> \<open>Stream_Session\<close>, \<open>Stream_Runs\<close> (httpapi/stream_session.go, public.go, responses.go): the session that
    selects between frames, heartbeats and contexts, and the two streaming handlers. \<open>Public_Api\<close>
    (httpapi/public.go, responses.go): dispatch, decoding, plain requests, error codes.
  \<^item> \<open>Config_Env\<close>, \<open>Settings\<close>, \<open>Config_Store\<close> (config/store.go, settings.go): the text of the file, its
    validation, writing and the first start. \<open>Plugins\<close> (plugin/manager.go, store/plugins.go).
  \<^item> \<open>Admin_Access\<close>, \<open>Admin_State\<close>, \<open>Admin_Catalog\<close>, \<open>Admin_Keys\<close>, \<open>Admin_Views\<close>, \<open>Admin\<close>
    (httpapi/admin.go): subjects and their rights, the state of the console, every handler, dispatch.
  \<^item> \<open>Server\<close> (httpapi/server.go, cors.go, requestlog.go, accesslog.go, json.go, memory/guard.go,
    logging/logging.go, config/source.go): the front of the process. \<open>Application\<close>
    (cmd/civic-relay/main.go): start, background loops, shutdown.
  \<^item> \<open>Sample_World\<close>, \<open>Admin_Sample\<close>: a small deployment on which the witnesses evaluate.

  \<^bold>\<open>What the lemmas show.\<close> \<open>Ledger_Claims\<close>: admission, effect and accounting of reservations, settling
  once. \<open>Service_Claims\<close> and this theory: gates and leases, closing, retries, a whole chat request.
  \<open>Session_Claims\<close>: streams are settled and tell the client what is recorded. \<open>Stream_Claims\<close>, \<open>Native_Claims\<close>:
  frames, paging, adapters. \<open>Catalog_Claims\<close>: credentials, models offered and quoted. \<open>Config_Claims\<close>:
  settings are valid, survive saving and an interrupted start. \<open>Monitor_Claims\<close>, \<open>Registry_Claims\<close>,
  \<open>Overview_Claims\<close>, \<open>Plugin_Claims\<close>: agreement of what is monitored, cached and shown with what is
  served; confinement of files. \<open>Admin_Claims\<close>, \<open>Admin_Effects\<close>, \<open>Admin_Runs\<close>: what a client key can see and
  do in the console, invariants over any sequence of requests. \<open>Public_Claims\<close>: which answers are paid.
  \<open>Server_Claims\<close>: routes, origins, identifiers, the guard. \<open>Process_Claims\<close>: recovery, transfer of quotas,
  the invariants of the whole process, the order of the shutdown.

  \<^bold>\<open>Bounds and fuel.\<close> A settlement makes three attempts, as the code does. Paging follows a cursor with
  fuel one more than the number of rows, and reading a native body with one more than the bytes left;
  both are proved to be enough. Streaming handlers recurse over the finite schedule of events they are
  given. All other recursion is structural or proved to terminate.

  \<^bold>\<open>Not modelled.\<close> The migrations and the SQLite driver (store/db.go): the schema after the last migration
  and the statements are modelled, every statement inside a transaction succeeds or fails as a whole.
  The HTTP, TLS and JSON libraries beyond what the source relies on, ciphers, ZIP and WebAssembly: they
  are parameters. The JSON shape of console answers is the datatype \<open>payload\<close>; texts of errors and log
  lines are left out where no code reads them. \<open>strings.EqualFold\<close> and letter case are those of ASCII.
  Memory, goroutine scheduling and timers appear as interleavings and as times in arguments, never as
  durations of the model's own steps. A zone is a constant offset, which is what parsing an RFC3339 text
  gives unless the process runs in a local zone with daylight saving. Test helpers, the web page and file replacement are not modelled.
\<close>

lemma chat_outcome_ok:
  assumes "0 \<le> PromptTokens usage" "0 \<le> CompletionTokens usage" "0 \<le> CachedTokens usage"
    "PromptTokens usage + CompletionTokens usage \<le> max_i64"
  shows "outcome_ok (chat_outcome (ChatReply usage) l)"
  using assms PriceUsage_range by (simp add: outcome_ok_def chat_outcome_def blank_outcome_def)

text \<open>
  C2: a chat request runs through every component and comes out even: when the upstream answers
  with non-negative usage and the database is at most busy during the first two settlement attempts, \<open>Chat\<close>
  settles. The request row is completed with the reported tokens and the price of the quote taken
  at admission, the leases that are open afterwards are those that were open before, and the
  global gate and the gate of every key have as many holders as before.
\<close>

theorem chat_settles:
  assumes reach: "relay_reachable sv" and begun: "Begin ev configured d (req\<lparr>rq_Stream := False\<rparr>) sv = (sv1', Inr l)"
    and usage: "0 \<le> PromptTokens usage" "0 \<le> CompletionTokens usage" "0 \<le> CachedTokens usage"
      "PromptTokens usage + CompletionTokens usage \<le> max_i64"
    and busy: "tolerable a1" "tolerable a2"
    and chat: "Chat ev configured d a1 a2 (Clean t) (ChatReply usage) req sv = (sv', r)"
  shows "r = Inr None \<and> open_leases sv' = open_leases sv \<and> gt_active (sv_global sv') = gt_active (sv_global sv) \<and>
     KeyGates_Active k (sv_keys sv') = KeyGates_Active k (sv_keys sv) \<and>
     (\<exists>q m. tbl_find q_id (res_ID (le_reservation l)) (db_requests (sv_db sv')) = Some q \<and> q_status q = ''completed'' \<and>
        q_input_tokens q = PromptTokens usage \<and> q_output_tokens q = CompletionTokens usage \<and>
        q_amount q = PriceUsage usage (effective (priceSnapshot (le_reservation l)) m))"
proof -
  let ?i = "res_ID (le_reservation l)"
  obtain e where run: "Close ev a1 a2 (Clean t) ?i (chat_outcome (ChatReply usage) l)
      (sv1'\<lparr>sv_upstream := setUpstream ?i (sv_upstream sv1')\<rparr>) = (sv', e)" and r: "r = Inr e"
    using chat begun by (auto simp: Chat_def Let_def split: prod.splits)
  note c = begin_close_even[OF relay_reachable_inv[OF reach] relay_reachable_holds[OF reach] begun chat_outcome_ok[OF usage] busy refl run]
  obtain q now where q: "tbl_find q_id ?i (db_requests (sv_db sv')) =
      Some (settle_request now (with_defaults (settlement_of (enrich ev l (chat_outcome (ChatReply usage) l)))) q)" using c(5) by blast
  obtain m where m: "le_model l = effective (priceSnapshot (le_reservation l)) m" using Begin_lease(5)[OF begun] by blast
  have "\<exists>q m. tbl_find q_id ?i (db_requests (sv_db sv')) = Some q \<and> q_status q = ''completed'' \<and>
      q_input_tokens q = PromptTokens usage \<and> q_output_tokens q = CompletionTokens usage \<and>
      q_amount q = PriceUsage usage (effective (priceSnapshot (le_reservation l)) m)"
    by (rule exI, rule exI[of _ m], intro conjI, rule q)
      (simp_all add: settle_request_def with_defaults_def settlement_of_def chat_outcome_def blank_outcome_def m[symmetric])
  with c(1-4) r show ?thesis by blast
qed

theorem chat_settles_witness:
  "\<exists>sv' q m. Chat sample_env sample_settings False (FaultBefore 5) (FaultAfter 3 6) (Clean 4)
       (ChatReply \<lparr>PromptTokens = 5, CompletionTokens = 7, TotalTokens = 12, CachedTokens = 2\<rparr>) sample_call sv0 = (sv', Inr None) \<and>
     open_leases sv' = open_leases sv0 \<and> tbl_find q_id 1 (db_requests (sv_db sv')) = Some q \<and> q_status q = ''completed'' \<and>
     q_amount q = PriceUsage \<lparr>PromptTokens = 5, CompletionTokens = 7, TotalTokens = 12, CachedTokens = 2\<rparr> (effective (priceSnapshot (le_reservation lease1)) m)"
proof -
  let ?u = "\<lparr>PromptTokens = 5, CompletionTokens = 7, TotalTokens = 12, CachedTokens = 2\<rparr>"
  have same: "sample_call\<lparr>rq_Stream := False\<rparr> = sample_call" by (simp add: sample_call_def)
  have b: "Begin sample_env sample_settings False (sample_call\<lparr>rq_Stream := False\<rparr>) sv0 = (sv1, Inr lease1)"
    unfolding same by (rule sample_begin)
  obtain s r where c: "Chat sample_env sample_settings False (FaultBefore 5) (FaultAfter 3 6) (Clean 4) (ChatReply ?u) sample_call sv0 = (s, r)"
    by fastforce
  have "tolerable (FaultBefore 5)" "tolerable (FaultAfter 3 6)" by code_simp+
  from chat_settles[OF reach_sv0 b _ _ _ _ this c] lease1_id c show ?thesis by (simp add: max_i64_def) blast
qed

end
